(* ===== verification/Prelude.thy ===== *)
theory Prelude
  imports Main
begin

text \<open>
  What every service of the library backend shares: the computation type of an async method, the
  exceptions it can throw, a small weakest-precondition calculus for such computations, and the
  JavaScript string operations the sources use.

  An async method of a NestJS service is modelled as a function from the world (the database and
  everything else outside the process) to a result and the world afterwards.  A thrown exception
  is the left side of the result, and the effects performed before it was thrown stay, as in
  JavaScript.
\<close>

subsection \<open>Exceptions\<close>

text \<open>
  The exception classes of \<^verbatim>\<open>@nestjs/common\<close> the sources throw, each with its message; what the
  MongoDB driver raises (an optional numeric error code and a message); a mongoose validation
  error; and a plain \<^verbatim>\<open>Error\<close>.
\<close>

datatype exn =
    BadRequest string
  | Unauthorized string
  | Forbidden string
  | NotFound string
  | Conflict string
  | Unprocessable string
  | TooManyRequests string
  | ServiceUnavailable string
  | ValidationError string
  | DriverError "nat option" string
  | JsError string

definition duplicate_key_code :: nat where
  "duplicate_key_code = 11000"

text \<open>What the store itself may raise, as opposed to what the services throw.\<close>

fun store_error :: "exn \<Rightarrow> bool" where
  "store_error (DriverError c m) = True"
| "store_error (ValidationError m) = True"
| "store_error _ = False"

fun error_code :: "exn \<Rightarrow> nat option" where
  "error_code (DriverError c m) = c"
| "error_code _ = None"

subsection \<open>Computations\<close>

type_synonym ('w, 'a) io = "'w \<Rightarrow> (exn + 'a) \<times> 'w"

definition ret :: "'a \<Rightarrow> ('w, 'a) io" where
  "ret a = (\<lambda>w. (Inr a, w))"

definition throw :: "exn \<Rightarrow> ('w, 'a) io" where
  "throw e = (\<lambda>w. (Inl e, w))"

text \<open>\<open>await m k\<close> is \<^verbatim>\<open>const x = await m; k(x)\<close>: an exception of \<open>m\<close> skips \<open>k\<close>.\<close>

definition await :: "('w, 'a) io \<Rightarrow> ('a \<Rightarrow> ('w, 'b) io) \<Rightarrow> ('w, 'b) io" where
  "await m k = (\<lambda>w. case m w of (Inl e, w') \<Rightarrow> (Inl e, w') | (Inr a, w') \<Rightarrow> k a w')"

text \<open>\<open>try_catch m h\<close> is \<^verbatim>\<open>try { m } catch (e) { h(e) }\<close>.\<close>

definition try_catch :: "('w, 'a) io \<Rightarrow> (exn \<Rightarrow> ('w, 'a) io) \<Rightarrow> ('w, 'a) io" where
  "try_catch m h = (\<lambda>w. case m w of (Inl e, w') \<Rightarrow> h e w' | (Inr a, w') \<Rightarrow> (Inr a, w'))"

text \<open>\<open>asks f\<close> reads something of the world, such as its clock.\<close>

definition asks :: "('w \<Rightarrow> 'a) \<Rightarrow> ('w, 'a) io" where
  "asks f = (\<lambda>w. (Inr (f w), w))"

text \<open>A \<^verbatim>\<open>for ... of\<close> loop whose body awaits.\<close>

fun for_each :: "'a list \<Rightarrow> ('a \<Rightarrow> ('w, unit) io) \<Rightarrow> ('w, unit) io" where
  "for_each [] body = ret ()"
| "for_each (x # xs) body = await (body x) (\<lambda>_. for_each xs body)"

text \<open>\<^verbatim>\<open>Promise.all(xs.map(f))\<close> on effects that do not interfere: left to right.\<close>

fun map_io :: "('a \<Rightarrow> ('w, 'b) io) \<Rightarrow> 'a list \<Rightarrow> ('w, 'b list) io" where
  "map_io f [] = ret []"
| "map_io f (x # xs) = await (f x) (\<lambda>y. await (map_io f xs) (\<lambda>ys. ret (y # ys)))"

text \<open>\<^verbatim>\<open>if (!value) throw e\<close>, on an optional value.\<close>

definition require :: "exn \<Rightarrow> 'a option \<Rightarrow> ('w, 'a) io" where
  "require e v = (case v of None \<Rightarrow> throw e | Some a \<Rightarrow> ret a)"

definition whenM :: "bool \<Rightarrow> ('w, unit) io \<Rightarrow> ('w, unit) io" where
  "whenM b m = (if b then m else ret ())"

subsection \<open>Weakest preconditions\<close>

text \<open>
  \<open>wp m Q E w\<close>: started in \<open>w\<close>, the computation \<open>m\<close> either returns a value with \<open>Q\<close> or throws
  with \<open>E\<close>.  Computations are total, so this is total correctness.
\<close>

definition wp :: "('w, 'a) io \<Rightarrow> ('a \<Rightarrow> 'w \<Rightarrow> bool) \<Rightarrow> (exn \<Rightarrow> 'w \<Rightarrow> bool) \<Rightarrow> 'w \<Rightarrow> bool" where
  "wp m Q E w = (case m w of (Inl e, w') \<Rightarrow> E e w' | (Inr a, w') \<Rightarrow> Q a w')"

named_theorems wp_simps \<open>equations that compute weakest preconditions\<close>
named_theorems wp_rules \<open>introduction rules for the store's operations\<close>

lemma wp_ret [wp_simps, simp]: "wp (ret a) Q E = Q a"
  by (simp add: wp_def ret_def fun_eq_iff)

lemma wp_throw [wp_simps, simp]: "wp (throw e) Q E = E e"
  by (simp add: wp_def throw_def fun_eq_iff)

lemma wp_asks [wp_simps, simp]: "wp (asks f) Q E = (\<lambda>w. Q (f w) w)"
  by (simp add: wp_def asks_def fun_eq_iff)

lemma wp_await [wp_simps, simp]: "wp (await m k) Q E = wp m (\<lambda>a. wp (k a) Q E) E"
  by (simp add: wp_def await_def fun_eq_iff split: prod.split sum.split)

lemma wp_try_catch [wp_simps, simp]: "wp (try_catch m h) Q E = wp m Q (\<lambda>e. wp (h e) Q E)"
  by (simp add: wp_def try_catch_def fun_eq_iff split: prod.split sum.split)

lemma wp_if [wp_simps]:
  "wp (if b then m else n) Q E w = (if b then wp m Q E w else wp n Q E w)"
  by simp

lemma wp_option [wp_simps]:
  "wp (case v of None \<Rightarrow> m | Some a \<Rightarrow> n a) Q E w =
     (case v of None \<Rightarrow> wp m Q E w | Some a \<Rightarrow> wp (n a) Q E w)"
  by (simp split: option.split)

lemma wp_require [wp_simps, simp]:
  "wp (require e v) Q E w = (case v of None \<Rightarrow> E e w | Some a \<Rightarrow> Q a w)"
  by (simp add: require_def split: option.split)

lemma wp_whenM [wp_simps, simp]:
  "wp (whenM b m) Q E w = (if b then wp m Q E w else Q () w)"
  by (simp add: whenM_def)

lemma wp_let [wp_simps]: "wp (let x = v in m x) Q E w = (let x = v in wp (m x) Q E w)"
  by (simp add: Let_def)

lemma wp_mono:
  "wp m Q E w \<Longrightarrow> (\<And>a w'. Q a w' \<Longrightarrow> Q' a w') \<Longrightarrow> (\<And>e w'. E e w' \<Longrightarrow> E' e w') \<Longrightarrow> wp m Q' E' w"
  by (auto simp: wp_def split: prod.splits sum.splits)

lemma wp_True [simp]: "wp m (\<lambda>_ _. True) (\<lambda>_ _. True) w"
  by (simp add: wp_def split: prod.split sum.split)

lemma wp_conj:
  "wp m Q E w \<Longrightarrow> wp m Q' E' w \<Longrightarrow> wp m (\<lambda>a w. Q a w \<and> Q' a w) (\<lambda>e w. E e w \<and> E' e w) w"
  by (auto simp: wp_def split: prod.splits sum.splits)

lemma wp_return_value: "wp m Q E w \<Longrightarrow> m w = (Inr a, w') \<Longrightarrow> Q a w'"
  by (simp add: wp_def)

lemma wp_thrown: "wp m Q E w \<Longrightarrow> m w = (Inl e, w') \<Longrightarrow> E e w'"
  by (simp add: wp_def)

lemma wp_state: "wp m (\<lambda>_. P) (\<lambda>_. P) w \<longleftrightarrow> P (snd (m w))"
  by (auto simp: wp_def split: prod.split sum.split)

lemma wp_throws:
  "wp m (\<lambda>_ _. False) E w \<longleftrightarrow> isl (fst (m w)) \<and> E (projl (fst (m w))) (snd (m w))"
  by (auto simp: wp_def split: prod.split sum.split)

lemma wp_returns:
  "wp m Q (\<lambda>_ _. False) w \<longleftrightarrow> \<not> isl (fst (m w)) \<and> Q (projr (fst (m w))) (snd (m w))"
  by (auto simp: wp_def split: prod.split sum.split)

lemma wp_outcome:
  "m w = (r, w') \<Longrightarrow> wp m Q E w \<longleftrightarrow> (case r of Inl e \<Rightarrow> E e w' | Inr a \<Rightarrow> Q a w')"
  by (simp add: wp_def)

text \<open>The outcome of a run that is known to return, or to throw.\<close>

lemma run_returned: "\<not> isl (fst p) \<Longrightarrow> p = (Inr (projr (fst p)), snd p)"
  by (cases p; cases "fst p") auto

lemma run_thrown: "isl (fst p) \<Longrightarrow> p = (Inl (projl (fst p)), snd p)"
  by (cases p; cases "fst p") auto

lemma wpI:
  "(\<And>a w'. m w = (Inr a, w') \<Longrightarrow> Q a w') \<Longrightarrow> (\<And>e w'. m w = (Inl e, w') \<Longrightarrow> E e w') \<Longrightarrow> wp m Q E w"
  by (auto simp: wp_def split: prod.split sum.split)

text \<open>
  \<open>keeps I m\<close>: the computation preserves \<open>I\<close>, whether it returns or throws.  The rules follow the
  structure of the computation.
\<close>

definition keeps :: "('w \<Rightarrow> bool) \<Rightarrow> ('w, 'a) io \<Rightarrow> bool" where
  "keeps I m \<longleftrightarrow> (\<forall>w. I w \<longrightarrow> wp m (\<lambda>_. I) (\<lambda>_. I) w)"

named_theorems keeps_rules \<open>introduction rules for preserved predicates\<close>

lemma keepsI: "(\<And>w. I w \<Longrightarrow> wp m (\<lambda>_. I) (\<lambda>_. I) w) \<Longrightarrow> keeps I m"
  by (simp add: keeps_def)

lemma keepsD: "keeps I m \<Longrightarrow> I w \<Longrightarrow> wp m (\<lambda>_. I) (\<lambda>_. I) w"
  by (simp add: keeps_def)

lemma keeps_snd: "keeps I m \<Longrightarrow> I w \<Longrightarrow> I (snd (m w))"
  by (simp add: keeps_def wp_state)

lemma keeps_ret [keeps_rules]: "keeps I (ret a)"
  by (simp add: keeps_def)

lemma keeps_throw [keeps_rules]: "keeps I (throw e)"
  by (simp add: keeps_def)

lemma keeps_asks [keeps_rules]: "keeps I (asks f)"
  by (simp add: keeps_def)

lemma keeps_await [keeps_rules]: "keeps I m \<Longrightarrow> (\<And>a. keeps I (k a)) \<Longrightarrow> keeps I (await m k)"
  unfolding keeps_def wp_await by (blast intro: wp_mono)

lemma keeps_try_catch [keeps_rules]: "keeps I m \<Longrightarrow> (\<And>e. keeps I (h e)) \<Longrightarrow> keeps I (try_catch m h)"
  unfolding keeps_def wp_try_catch by (blast intro: wp_mono)

lemma keeps_if [keeps_rules]: "(b \<Longrightarrow> keeps I m) \<Longrightarrow> (\<not> b \<Longrightarrow> keeps I n) \<Longrightarrow> keeps I (if b then m else n)"
  by simp

lemma keeps_option [keeps_rules]:
  "keeps I m \<Longrightarrow> (\<And>a. keeps I (n a)) \<Longrightarrow> keeps I (case v of None \<Rightarrow> m | Some a \<Rightarrow> n a)"
  by (simp split: option.split)

lemma keeps_sum [keeps_rules]:
  "(\<And>a. keeps I (m a)) \<Longrightarrow> (\<And>b. keeps I (n b)) \<Longrightarrow> keeps I (case v of Inl a \<Rightarrow> m a | Inr b \<Rightarrow> n b)"
  by (simp split: sum.split)

lemma keeps_let [keeps_rules]: "keeps I (m v) \<Longrightarrow> keeps I (let x = v in m x)"
  by simp

lemma keeps_require [keeps_rules]: "keeps I (require e v)"
  by (simp add: require_def keeps_throw keeps_ret split: option.split)

lemma keeps_whenM [keeps_rules]: "keeps I m \<Longrightarrow> keeps I (whenM b m)"
  by (simp add: whenM_def keeps_ret)

lemma keeps_for_each [keeps_rules]: "(\<And>x. keeps I (body x)) \<Longrightarrow> keeps I (for_each xs body)"
  by (induction xs) (auto intro: keeps_rules)

lemma keeps_map_io [keeps_rules]: "(\<And>x. keeps I (f x)) \<Longrightarrow> keeps I (map_io f xs)"
  by (induction xs) (auto intro!: keeps_rules)

text \<open>A loop keeps what each round of it keeps, whether it finishes or throws.\<close>

lemma wp_for_each:
  assumes "\<And>x w. x \<in> set xs \<Longrightarrow> I w \<Longrightarrow> wp (body x) (\<lambda>_. I) (\<lambda>e w. I w \<and> J e) w" and "I w"
  shows "wp (for_each xs body) (\<lambda>_. I) (\<lambda>e w. I w \<and> J e) w"
  using assms
proof (induction xs arbitrary: w)
  case Nil
  then show ?case by simp
next
  case (Cons x xs)
  have "wp (body x) (\<lambda>_. I) (\<lambda>e w. I w \<and> J e) w" using Cons.prems by simp
  then have "wp (body x) (\<lambda>_. wp (for_each xs body) (\<lambda>_. I) (\<lambda>e w. I w \<and> J e))
      (\<lambda>e w. I w \<and> J e) w"
    by (rule wp_mono) (use Cons in auto)
  then show ?case by simp
qed

lemma wp_map_io:
  assumes "\<And>x w. x \<in> set xs \<Longrightarrow> I w \<Longrightarrow> wp (f x) (\<lambda>_. I) (\<lambda>_. I) w" and "I w"
  shows "wp (map_io f xs) (\<lambda>_. I) (\<lambda>_. I) w"
  using assms
proof (induction xs arbitrary: w)
  case Nil
  then show ?case by simp
next
  case (Cons x xs)
  have rest: "wp (await (map_io f xs) (\<lambda>ys. ret (y # ys))) (\<lambda>_. I) (\<lambda>_. I) w'" if "I w'" for w' y
    using Cons that by simp
  have "wp (f x) (\<lambda>_. I) (\<lambda>_. I) w" using Cons.prems by simp
  then show ?case unfolding map_io.simps wp_await by (rule wp_mono) (use rest in simp_all)
qed

subsection \<open>Strings\<close>

text \<open>
  A JavaScript string is a list of characters here.  Letters outside ASCII are left as they are
  by the case conversions, so what is said of \<^verbatim>\<open>toLowerCase\<close> and \<^verbatim>\<open>toUpperCase\<close> is said of ASCII
  text.
\<close>

definition char_code :: "char \<Rightarrow> nat" where
  "char_code c = of_char c"

definition char_lower :: "char \<Rightarrow> char" where
  "char_lower c = (if 65 \<le> char_code c \<and> char_code c \<le> 90 then char_of (char_code c + 32) else c)"

definition char_upper :: "char \<Rightarrow> char" where
  "char_upper c = (if 97 \<le> char_code c \<and> char_code c \<le> 122 then char_of (char_code c - 32) else c)"

definition to_lower :: "string \<Rightarrow> string" where
  "to_lower s = map char_lower s"

definition to_upper :: "string \<Rightarrow> string" where
  "to_upper s = map char_upper s"

definition white_space :: "char \<Rightarrow> bool" where
  "white_space c = (char_code c \<in> {9, 10, 11, 12, 13, 32, 160})"

definition trim :: "string \<Rightarrow> string" where
  "trim s = rev (dropWhile white_space (rev (dropWhile white_space s)))"

definition starts_with :: "string \<Rightarrow> string \<Rightarrow> bool" where
  "starts_with p s = (take (length p) s = p)"

definition ends_with :: "string \<Rightarrow> string \<Rightarrow> bool" where
  "ends_with p s = (length p \<le> length s \<and> drop (length s - length p) s = p)"

text \<open>\<^verbatim>\<open>parts.join(sep)\<close> and \<^verbatim>\<open>text.split(c)\<close> for a one-character separator.\<close>

fun join :: "string \<Rightarrow> string list \<Rightarrow> string" where
  "join sep [] = []"
| "join sep [x] = x"
| "join sep (x # y # ys) = x @ sep @ join sep (y # ys)"

fun split_on :: "char \<Rightarrow> string \<Rightarrow> string list" where
  "split_on c [] = [[]]"
| "split_on c (x # xs) =
     (if x = c then [] # split_on c xs
      else (case split_on c xs of [] \<Rightarrow> [[x]] | p # ps \<Rightarrow> (x # p) # ps))"

lemma char_code_char_of [simp]: "char_code (char_of n) = n mod 256"
  by (simp add: char_code_def)

lemma char_lower_idem [simp]: "char_lower (char_lower c) = char_lower c"
  by (auto simp: char_lower_def)

lemma char_upper_idem [simp]: "char_upper (char_upper c) = char_upper c"
  by (auto simp: char_upper_def)

lemma white_space_lower [simp]: "white_space (char_lower c) = white_space c"
  by (auto simp: char_lower_def white_space_def)

lemma white_space_upper [simp]: "white_space (char_upper c) = white_space c"
  by (auto simp: char_upper_def white_space_def)

lemma to_lower_idem [simp]: "to_lower (to_lower s) = to_lower s"
  by (simp add: to_lower_def)

lemma to_upper_idem [simp]: "to_upper (to_upper s) = to_upper s"
  by (simp add: to_upper_def)

lemma trim_to_lower: "trim (to_lower s) = to_lower (trim s)"
  by (simp add: trim_def to_lower_def rev_map dropWhile_map comp_def)

lemma trim_to_upper: "trim (to_upper s) = to_upper (trim s)"
  by (simp add: trim_def to_upper_def rev_map dropWhile_map comp_def)

lemma dropWhile_fixed: "dropWhile P xs = xs \<longleftrightarrow> xs = [] \<or> \<not> P (hd xs)"
proof (cases xs)
  case (Cons a as)
  have "length (dropWhile P as) < length (a # as)"
    using length_dropWhile_le [of P as] by simp
  then have "dropWhile P as \<noteq> a # as" by auto
  with Cons show ?thesis by auto
qed simp

lemma dropWhile_rev_fixed:
  assumes "dropWhile P xs = xs"
  shows "dropWhile P (rev (dropWhile P (rev xs))) = rev (dropWhile P (rev xs))"
proof -
  define ys where "ys = rev (dropWhile P (rev xs))"
  have split: "xs = ys @ rev (takeWhile P (rev xs))"
    unfolding ys_def by (metis rev_append rev_rev_ident takeWhile_dropWhile_id)
  have "dropWhile P ys = ys"
  proof (cases ys)
    case (Cons a as)
    with split have "xs \<noteq> []" and "hd xs = a" by (auto, metis append_Cons list.sel(1))
    with assms Cons show ?thesis by (simp add: dropWhile_fixed)
  qed simp
  then show ?thesis by (simp add: ys_def)
qed

lemma trim_idem [simp]: "trim (trim s) = trim s"
  by (simp add: trim_def dropWhile_rev_fixed)

subsection \<open>Numbers in texts\<close>

text \<open>A number has fewer digits than its successor counts.\<close>

fun digits_upto :: "nat \<Rightarrow> nat \<Rightarrow> string" where
  "digits_upto 0 n = []"
| "digits_upto (Suc k) n =
     (if n < 10 then [char_of (48 + n)] else digits_upto k (n div 10) @ [char_of (48 + n mod 10)])"

definition decimal :: "nat \<Rightarrow> string" where
  "decimal n = digits_upto (Suc n) n"

subsection \<open>Lists\<close>

text \<open>
  \<open>update_first p f xs\<close> changes the first element that satisfies \<open>p\<close>; \<open>update_where p f xs\<close>
  changes all of them.
\<close>

fun update_first :: "('a \<Rightarrow> bool) \<Rightarrow> ('a \<Rightarrow> 'a) \<Rightarrow> 'a list \<Rightarrow> 'a list" where
  "update_first p f [] = []"
| "update_first p f (x # xs) = (if p x then f x # xs else x # update_first p f xs)"

definition update_where :: "('a \<Rightarrow> bool) \<Rightarrow> ('a \<Rightarrow> 'a) \<Rightarrow> 'a list \<Rightarrow> 'a list" where
  "update_where p f xs = map (\<lambda>x. if p x then f x else x) xs"

lemma update_where_simps [simp]:
  "update_where p f [] = []"
  "update_where p f (x # xs) = (if p x then f x else x) # update_where p f xs"
  "update_where p f (xs @ ys) = update_where p f xs @ update_where p f ys"
  by (simp_all add: update_where_def)

lemma set_update_where:
  "x \<in> set (update_where p f xs) \<longleftrightarrow> (\<exists>y \<in> set xs. x = (if p y then f y else y))"
  by (auto simp: update_where_def)

lemma length_update_where [simp]: "length (update_where p f xs) = length xs"
  by (simp add: update_where_def)

lemma update_where_none: "(\<And>x. x \<in> set xs \<Longrightarrow> \<not> p x) \<Longrightarrow> update_where p f xs = xs"
  by (simp add: update_where_def map_idI)

lemma distinct_map_split:
  "distinct (map key (xs @ x # ys)) \<Longrightarrow> y \<in> set xs \<union> set ys \<Longrightarrow> key y \<noteq> key x"
  by (auto simp: image_iff)

end
