(* ===== verification/Documents.thy ===== *)
theory Documents
  imports Prelude
begin

text \<open>
  The enumerations of \<^verbatim>\<open>src/common/enums\<close> and the documents the backend keeps in MongoDB, one
  record per schema (\<^verbatim>\<open>*.schema.ts\<close>).  A field carries the source's name behind a prefix of its
  record (\<open>b_\<close> book, \<open>c_\<close> category, \<open>t_\<close> membership type, \<open>m_\<close> member, \<open>l_\<close> borrowing,
  \<open>u_\<close> staff user, \<open>i_\<close> identifier reservation,
  \<open>o_\<close>, \<open>n_\<close>, \<open>w_\<close> identifier operation, its assignments and its result, \<open>f_\<close> refresh family, \<open>k_\<close> replay marker,
  \<open>a_\<close> throttle bucket, \<open>e_\<close> security event).  An optional field is an option; a \<^verbatim>\<open>Date\<close> is its
  number of milliseconds since the epoch; an ObjectId is its hexadecimal text, in lower case.  The fields mongoose
  maintains by itself (\<^verbatim>\<open>createdAt\<close>, \<^verbatim>\<open>updatedAt\<close>) are left out unless the sources read them.
  The \<open>_clash\<close> functions are the unique indexes, the \<open>_valid\<close> functions the validators a save
  runs, the \<open>_cast\<close> functions the setters (\<^verbatim>\<open>trim\<close>, \<^verbatim>\<open>lowercase\<close>) an assignment runs.
\<close>

type_synonym date = int

subsection \<open>Enumerations\<close>

datatype item_status = ItemActive | ItemDeactivated

datatype member_status = MemberActive | MemberSuspended | MemberInactive

datatype member_auth_status = MemberAuthActive | MemberAuthLocked | MemberAuthResetRequired

datatype staff_user_status = StaffActive | StaffSuspended | StaffInactive

datatype staff_role = Staff | Admin

datatype loan_state = LoanActive | LoanReturned | LoanOverdue | LoanCancelled

text \<open>Staff or member: the subject of a session, of an identifier and of an access token.\<close>

datatype subject_type = StaffSubject | MemberSubject

subsection \<open>Catalog\<close>

record book =
  b_id :: string
  b_title :: string
  b_author :: "string option"
  b_isbn :: "string option"
  b_coverImageUrl :: "string option"
  b_catalogIdentifier :: string
  b_categoryId :: string
  b_totalQuantity :: int
  b_availableQuantity :: int
  b_status :: item_status
  b_createdBy :: "string option"
  b_updatedBy :: "string option"

definition book_cast :: "book \<Rightarrow> book" where
  "book_cast b = b\<lparr>b_title := trim (b_title b), b_author := map_option trim (b_author b),
     b_isbn := map_option trim (b_isbn b), b_coverImageUrl := map_option trim (b_coverImageUrl b),
     b_catalogIdentifier := trim (b_catalogIdentifier b), b_categoryId := to_lower (b_categoryId b)\<rparr>"

definition book_valid :: "book \<Rightarrow> bool" where
  "book_valid b = (b_title b \<noteq> [] \<and> b_catalogIdentifier b \<noteq> [] \<and>
     0 \<le> b_totalQuantity b \<and> 0 \<le> b_availableQuantity b)"

definition book_clash :: "book \<Rightarrow> book \<Rightarrow> bool" where
  "book_clash a b = (b_catalogIdentifier a = b_catalogIdentifier b \<or>
     (b_isbn a \<noteq> None \<and> b_isbn a = b_isbn b))"

record category =
  c_id :: string
  c_code :: string
  c_name :: string
  c_loanPeriodDays :: int
  c_status :: item_status
  c_createdBy :: "string option"
  c_updatedBy :: "string option"

definition category_cast :: "category \<Rightarrow> category" where
  "category_cast c = c\<lparr>c_code := trim (c_code c), c_name := trim (c_name c)\<rparr>"

definition category_valid :: "category \<Rightarrow> bool" where
  "category_valid c = (c_code c \<noteq> [] \<and> c_name c \<noteq> [] \<and> 1 \<le> c_loanPeriodDays c)"

definition category_clash :: "category \<Rightarrow> category \<Rightarrow> bool" where
  "category_clash a b = (c_code a = c_code b)"

subsection \<open>Members and their loans\<close>

record membership_type =
  t_id :: string
  t_code :: string
  t_name :: string
  t_maxActiveLoans :: int
  t_status :: item_status
  t_createdBy :: "string option"
  t_updatedBy :: "string option"

definition membership_type_cast :: "membership_type \<Rightarrow> membership_type" where
  "membership_type_cast t = t\<lparr>t_code := trim (t_code t), t_name := trim (t_name t)\<rparr>"

definition membership_type_valid :: "membership_type \<Rightarrow> bool" where
  "membership_type_valid t = (t_code t \<noteq> [] \<and> t_name t \<noteq> [] \<and> 0 \<le> t_maxActiveLoans t)"

definition membership_type_clash :: "membership_type \<Rightarrow> membership_type \<Rightarrow> bool" where
  "membership_type_clash a b = (t_code a = t_code b)"

record member =
  m_id :: string
  m_memberNumber :: string
  m_fullName :: string
  m_email :: "string option"
  m_phone :: "string option"
  m_membershipTypeId :: string
  m_status :: member_status
  m_activeLoanCount :: int
  m_loginIdentifier :: "string option"
  m_passwordHash :: "string option"
  m_passwordUpdatedAt :: "date option"
  m_lastLoginAt :: "date option"
  m_authStatus :: "member_auth_status option"
  m_authVersion :: nat
  m_createdBy :: "string option"
  m_updatedBy :: "string option"

definition member_cast :: "member \<Rightarrow> member" where
  "member_cast m = m\<lparr>m_memberNumber := trim (m_memberNumber m), m_fullName := trim (m_fullName m),
     m_email := map_option (to_lower \<circ> trim) (m_email m), m_phone := map_option trim (m_phone m),
     m_membershipTypeId := to_lower (m_membershipTypeId m),
     m_loginIdentifier := map_option (to_lower \<circ> trim) (m_loginIdentifier m)\<rparr>"

definition member_valid :: "member \<Rightarrow> bool" where
  "member_valid m = (m_memberNumber m \<noteq> [] \<and> m_fullName m \<noteq> [] \<and> 0 \<le> m_activeLoanCount m)"

definition member_clash :: "member \<Rightarrow> member \<Rightarrow> bool" where
  "member_clash a b = (m_memberNumber a = m_memberNumber b \<or>
     (m_email a \<noteq> None \<and> m_email a = m_email b) \<or>
     (m_loginIdentifier a \<noteq> None \<and> m_loginIdentifier a = m_loginIdentifier b))"

record borrowing =
  l_id :: string
  l_memberId :: string
  l_bookId :: string
  l_bookCategoryId :: string
  l_borrowedAt :: date
  l_dueAt :: date
  l_returnedAt :: "date option"
  l_status :: loan_state
  l_borrowedByStaffId :: string
  l_returnedByStaffId :: "string option"

subsection \<open>Staff users\<close>

record staff_user =
  u_id :: string
  u_email :: string
  u_displayName :: string
  u_passwordHash :: string
  u_roles :: "staff_role list"
  u_status :: staff_user_status
  u_lastLoginAt :: "date option"
  u_passwordUpdatedAt :: "date option"
  u_authVersion :: nat
  u_createdBy :: "string option"
  u_updatedBy :: "string option"

definition staff_user_cast :: "staff_user \<Rightarrow> staff_user" where
  "staff_user_cast u = u\<lparr>u_email := to_lower (u_email u), u_displayName := trim (u_displayName u)\<rparr>"

definition staff_user_valid :: "staff_user \<Rightarrow> bool" where
  "staff_user_valid u = (u_email u \<noteq> [] \<and> u_displayName u \<noteq> [] \<and> u_passwordHash u \<noteq> [])"

definition staff_user_clash :: "staff_user \<Rightarrow> staff_user \<Rightarrow> bool" where
  "staff_user_clash a b = (u_email a = u_email b)"

subsection \<open>Sign-in identifiers\<close>

datatype identifier_type = EmailIdentifier | MemberNumberIdentifier | LoginIdentifier

datatype identifier_status =
  IdentifierPending | IdentifierActive | IdentifierReleased | IdentifierConflict

datatype conflict_resolution_status = Reviewable | ManualRepairRequired

datatype pending_action = PendingClaim | PendingReplace | PendingRelease | PendingResolveConflict

record subject_reference =
  s_subjectType :: subject_type
  s_subjectId :: string

record reservation =
  i_id :: string
  i_normalizedIdentifier :: string
  i_identifierType :: identifier_type
  i_subjectType :: "subject_type option"
  i_subjectId :: "string option"
  i_status :: identifier_status
  i_conflictingSubjects :: "subject_reference list option"
  i_conflictResolutionStatus :: "conflict_resolution_status option"
  i_pendingOperationId :: "string option"
  i_activationGateOperationId :: "string option"
  i_lastOperationId :: "string option"
  i_pendingAction :: "pending_action option"
  i_releasedAt :: "date option"
  i_createdBy :: string
  i_updatedBy :: string

definition reservation_clash :: "reservation \<Rightarrow> reservation \<Rightarrow> bool" where
  "reservation_clash a b = (i_normalizedIdentifier a = i_normalizedIdentifier b)"

text \<open>The \<^verbatim>\<open>pre('validate')\<close> hook of the identifier schema, and its required fields.\<close>

definition reservation_valid :: "reservation \<Rightarrow> bool" where
  "reservation_valid i =
     ((if i_status i = IdentifierConflict
       then (case i_conflictingSubjects i of None \<Rightarrow> False | Some ss \<Rightarrow> 2 \<le> length ss) \<and>
            i_conflictResolutionStatus i \<noteq> None
       else i_subjectType i \<noteq> None \<and> i_subjectId i \<noteq> None \<and> i_subjectId i \<noteq> Some []) \<and>
      (i_status i = IdentifierPending \<longrightarrow>
         (i_pendingOperationId i \<noteq> None \<and> i_pendingOperationId i \<noteq> Some []) \<and>
         i_pendingAction i \<noteq> None) \<and>
      (i_activationGateOperationId i \<noteq> None \<and> i_activationGateOperationId i \<noteq> Some [] \<longrightarrow>
         i_status i = IdentifierActive) \<and>
      i_normalizedIdentifier i \<noteq> [] \<and> i_createdBy i \<noteq> [] \<and> i_updatedBy i \<noteq> [])"

subsection \<open>Operations on identifiers\<close>

datatype operation_type =
  ClaimOperation | ReplaceOperation | ReleaseOperation | ResolveConflictOperation | OfflineRepairOperation

datatype operation_status =
  OperationPending | OperationApplying | OperationCompensating | OperationFinalizing
  | OperationFailedRetryable | OperationCompleted | OperationFailedTerminal

datatype cleanup_status = CleanupNotRequired | CleanupPending | CleanupCompleted

datatype assignment_action = RetainAction | ClaimAction | ReplaceAction | ReleaseAction

datatype assignment_status = AssignmentPending | AssignmentApplied | AssignmentCompensated

record assignment =
  n_assignmentId :: string
  n_subjectType :: subject_type
  n_subjectId :: string
  n_action :: assignment_action
  n_sourceReservationId :: "string option"
  n_targetReservationId :: "string option"
  n_identifierCorrelationHash :: "string option"
  n_correlationKeyVersion :: "nat option"
  n_status :: assignment_status
  n_appliedAt :: "date option"

datatype result_outcome = ResultSuccess | ResultFailure

record operation_result =
  w_outcome :: result_outcome
  w_reasonCategory :: "string option"
  w_httpStatus :: int

record operation =
  o_id :: string
  o_operationId :: string
  o_operationType :: operation_type
  o_status :: operation_status
  o_assignments :: "assignment list"
  o_manifestHash :: "string option"
  o_manifestKeyVersion :: "nat option"
  o_retainedSubject :: "subject_reference option"
  o_result :: "operation_result option"
  o_leaseOwner :: "string option"
  o_leaseExpiresAt :: "date option"
  o_terminalEventId :: "string option"
  o_terminalEventRecordedAt :: "date option"
  o_cleanupStatus :: cleanup_status
  o_expiresAt :: "date option"
  o_requestedBy :: subject_reference
  o_lastResumedBy :: "subject_reference option"
  o_lastResumedAt :: "date option"
  o_completedAt :: "date option"

fun terminal_operation :: "operation_status \<Rightarrow> bool" where
  "terminal_operation OperationCompleted = True"
| "terminal_operation OperationFailedTerminal = True"
| "terminal_operation _ = False"

definition reference_cast :: "subject_reference \<Rightarrow> subject_reference" where
  "reference_cast s = s\<lparr>s_subjectId := trim (s_subjectId s)\<rparr>"

definition assignment_cast :: "assignment \<Rightarrow> assignment" where
  "assignment_cast n = n\<lparr>n_assignmentId := trim (n_assignmentId n), n_subjectId := trim (n_subjectId n),
     n_sourceReservationId := map_option to_lower (n_sourceReservationId n),
     n_targetReservationId := map_option to_lower (n_targetReservationId n)\<rparr>"

definition operation_cast :: "operation \<Rightarrow> operation" where
  "operation_cast d = d\<lparr>o_operationId := trim (o_operationId d),
     o_assignments := map assignment_cast (o_assignments d),
     o_requestedBy := reference_cast (o_requestedBy d),
     o_retainedSubject := map_option reference_cast (o_retainedSubject d)\<rparr>"

text \<open>The validators of the schemas and their \<^verbatim>\<open>pre('validate')\<close> hooks.\<close>

definition assignment_valid :: "assignment \<Rightarrow> bool" where
  "assignment_valid n =
     (n_assignmentId n \<noteq> [] \<and> n_subjectId n \<noteq> [] \<and> n_correlationKeyVersion n \<noteq> Some 0 \<and>
      (n_identifierCorrelationHash n \<noteq> None \<and> n_identifierCorrelationHash n \<noteq> Some []) =
      (n_correlationKeyVersion n \<noteq> None))"

definition operation_valid :: "operation \<Rightarrow> bool" where
  "operation_valid d =
     (o_operationId d \<noteq> [] \<and> s_subjectId (o_requestedBy d) \<noteq> [] \<and>
      (case o_retainedSubject d of None \<Rightarrow> True | Some s \<Rightarrow> s_subjectId s \<noteq> []) \<and>
      length (o_assignments d) \<le> 100 \<and> list_all assignment_valid (o_assignments d) \<and>
      (case o_result d of None \<Rightarrow> True | Some r \<Rightarrow> 100 \<le> w_httpStatus r \<and> w_httpStatus r \<le> 599) \<and>
      o_manifestKeyVersion d \<noteq> Some 0 \<and>
      (o_manifestHash d \<noteq> None \<and> o_manifestHash d \<noteq> Some []) = (o_manifestKeyVersion d \<noteq> None) \<and>
      (terminal_operation (o_status d) \<longrightarrow>
         o_terminalEventId d \<noteq> None \<and> o_terminalEventId d \<noteq> Some [] \<and> o_terminalEventRecordedAt d \<noteq> None) \<and>
      (o_expiresAt d \<noteq> None \<longrightarrow>
         terminal_operation (o_status d) \<and> o_terminalEventRecordedAt d \<noteq> None \<and>
         o_cleanupStatus d \<noteq> CleanupPending))"

definition operation_clash :: "operation \<Rightarrow> operation \<Rightarrow> bool" where
  "operation_clash a b = (o_operationId a = o_operationId b \<or>
     (o_terminalEventId a \<noteq> None \<and> o_terminalEventId a = o_terminalEventId b))"

text \<open>A part of an offline repair, worked on in one transaction.\<close>

datatype batch_status = BatchPending | BatchPrepared | BatchActivated | BatchCompensated

record repair_batch =
  h_id :: string
  h_parentOperationId :: string
  h_batchNumber :: nat
  h_batchCount :: nat
  h_status :: batch_status
  h_assignments :: "assignment list"
  h_checkpointHash :: string
  h_manifestKeyVersion :: nat
  h_preparedAt :: "date option"
  h_activatedAt :: "date option"
  h_compensatedAt :: "date option"
  h_expiresAt :: "date option"

definition batch_cast :: "repair_batch \<Rightarrow> repair_batch" where
  "batch_cast d = d\<lparr>h_parentOperationId := trim (h_parentOperationId d),
     h_assignments := map assignment_cast (h_assignments d)\<rparr>"

definition batch_valid :: "repair_batch \<Rightarrow> bool" where
  "batch_valid d =
     (h_parentOperationId d \<noteq> [] \<and> h_checkpointHash d \<noteq> [] \<and> 1 \<le> h_batchCount d \<and> 1 \<le> h_manifestKeyVersion d \<and>
      h_assignments d \<noteq> [] \<and> length (h_assignments d) \<le> 100 \<and> list_all assignment_valid (h_assignments d) \<and>
      h_batchNumber d < h_batchCount d)"

definition batch_clash :: "repair_batch \<Rightarrow> repair_batch \<Rightarrow> bool" where
  "batch_clash a b = (h_parentOperationId a = h_parentOperationId b \<and> h_batchNumber a = h_batchNumber b)"

subsection \<open>Refresh sessions\<close>

datatype family_status = FamilyActive | FamilyRevoked | FamilyReplayed

record family =
  f_familyId :: string
  f_clientId :: string
  f_subjectType :: subject_type
  f_subjectId :: string
  f_scopes :: "string list"
  f_authVersion :: nat
  f_status :: family_status
  f_currentTokenHash :: "string option"
  f_lastRotationOperationId :: "string option"
  f_issuedAt :: date
  f_lastRotatedAt :: date
  f_expiresAt :: date
  f_revokedAt :: "date option"
  f_revokedReason :: "string option"

definition family_clash :: "family \<Rightarrow> family \<Rightarrow> bool" where
  "family_clash a b = (f_familyId a = f_familyId b \<or>
     (f_currentTokenHash a \<noteq> None \<and> f_currentTokenHash a = f_currentTokenHash b))"

definition family_valid :: "family \<Rightarrow> bool" where
  "family_valid f = (f_familyId f \<noteq> [] \<and> f_clientId f \<noteq> [] \<and> f_subjectId f \<noteq> [] \<and>
     (f_status f = FamilyActive \<longrightarrow> f_currentTokenHash f \<noteq> None))"

datatype marker_status = MarkerPending | MarkerCommitted

record marker =
  k_tokenHash :: string
  k_familyId :: string
  k_status :: marker_status
  k_rotationOperationId :: string
  k_leaseExpiresAt :: "date option"
  k_committedAt :: "date option"
  k_expiresAt :: date

definition marker_clash :: "marker \<Rightarrow> marker \<Rightarrow> bool" where
  "marker_clash a b = (k_tokenHash a = k_tokenHash b \<or>
     k_rotationOperationId a = k_rotationOperationId b)"

definition marker_valid :: "marker \<Rightarrow> bool" where
  "marker_valid k =
     (k_tokenHash k \<noteq> [] \<and> k_familyId k \<noteq> [] \<and> k_rotationOperationId k \<noteq> [] \<and>
      (k_status k = MarkerPending \<longrightarrow> k_leaseExpiresAt k \<noteq> None) \<and>
      (k_status k = MarkerCommitted \<longrightarrow> k_committedAt k \<noteq> None \<and> k_leaseExpiresAt k = None))"

subsection \<open>Throttling\<close>

datatype throttle_dimension =
  SignInIdentifierFailure | SignInSource | RefreshFamily | RefreshSource

record bucket =
  a_dimension :: throttle_dimension
  a_keyVersion :: nat
  a_bucketKey :: string
  a_count :: nat
  a_windowStartedAt :: date
  a_expiresAt :: date

definition bucket_clash :: "bucket \<Rightarrow> bucket \<Rightarrow> bool" where
  "bucket_clash a b = (a_dimension a = a_dimension b \<and> a_keyVersion a = a_keyVersion b \<and>
     a_bucketKey a = a_bucketKey b)"

subsection \<open>Security events\<close>

datatype event_type =
    SignInSuccess | SignInFailure | AuthorizationDenied | RoleChanged | AccountStatusChanged
  | IdentifierConflictDetected | IdentifierConflictResolved | IdentifierReservationRecovered
  | IdentifierRepairResumed | TokenRefreshed | RefreshReplayDetected | TokenRevoked | SignOut

datatype actor_type = StaffActor | MemberActor | SystemActor | UnknownActor

datatype outcome = OutcomeSuccess | OutcomeFailure | OutcomeDenied

text \<open>The values a \<^verbatim>\<open>context\<close> object may hold: what JSON can express.\<close>

datatype json =
    JNull
  | JBool bool
  | JNum int
  | JStr string
  | JArr "json list"
  | JObj "(string \<times> json) list"

record security_event =
  e_id :: string
  e_eventId :: "string option"
  e_eventType :: event_type
  e_actorType :: actor_type
  e_actorId :: "string option"
  e_targetType :: "string option"
  e_targetId :: "string option"
  e_subjectType :: "string option"
  e_subjectId :: "string option"
  e_outcome :: outcome
  e_reasonCategory :: "string option"
  e_identifierCorrelationHash :: "string option"
  e_correlationKeyVersion :: "nat option"
  e_operationId :: "string option"
  e_context :: json
  e_createdAt :: date

text \<open>The signed-in staff user on whose behalf a service method runs.\<close>

record audit_actor =
  actor_id :: string
  actor_email :: string
  actor_roles :: "staff_role list"

subsection \<open>The world\<close>

text \<open>
  Everything outside the process: the collections, each a list of documents in the store's own
  order, and \<open>env\<close>, whatever else the outside world is made of (its clock, its random source,
  the state of the network).  Nothing is assumed of \<open>env\<close>.
\<close>

record 'e world =
  books :: "book list"
  categories :: "category list"
  membershipTypes :: "membership_type list"
  members :: "member list"
  borrowings :: "borrowing list"
  staffUsers :: "staff_user list"
  identifiers :: "reservation list"
  operations :: "operation list"
  repairBatches :: "repair_batch list"
  families :: "family list"
  markers :: "marker list"
  buckets :: "bucket list"
  events :: "security_event list"
  env :: 'e

end
