(* ===== verification/Store.thy ===== *)
theory Store
  imports Documents "HOL-Library.Multiset"
begin

text \<open>
  What the services rely on of MongoDB and mongoose.  A mongoose model is a parameter, a record of
  its operations; the locale \<open>collection\<close> states their documented behaviour: an operation on one
  document is atomic, a unique index refuses a second document with the same key, an operation
  that fails leaves the collection as it was or (when the connection broke after the server had
  done the work) changed as asked.  The locale \<open>transaction\<close> does the same for
  \<^verbatim>\<open>session.withTransaction\<close>.  The lemmas inside them are rules of the weakest-precondition
  calculus; an in-memory model of both shows that they can be satisfied.

  Filters are predicates on documents and updates are functions on documents: both are the
  sources' own, translated at each call.
\<close>

subsection \<open>The operations of a model\<close>

record ('w, 'd) model =
  findOne :: "('d \<Rightarrow> bool) \<Rightarrow> ('w, 'd option) io"
  findSorted :: "('d \<Rightarrow> bool) \<Rightarrow> ('d \<Rightarrow> 'd \<Rightarrow> bool) \<Rightarrow> int \<Rightarrow> int \<Rightarrow> ('w, 'd list) io"
  createDoc :: "(string \<Rightarrow> 'd) \<Rightarrow> ('w, 'd) io"
  saveDoc :: "'d \<Rightarrow> ('w, 'd) io"
  findOneAndUpdate :: "('d \<Rightarrow> bool) \<Rightarrow> ('d \<Rightarrow> 'd) \<Rightarrow> ('w, 'd option) io"
  findOneAndUpsert :: "('d \<Rightarrow> bool) \<Rightarrow> ('d \<Rightarrow> 'd) \<Rightarrow> (string \<Rightarrow> 'd) \<Rightarrow> ('w, 'd) io"
  updateOne :: "('d \<Rightarrow> bool) \<Rightarrow> ('d \<Rightarrow> 'd) \<Rightarrow> ('w, nat) io"
  updateMany :: "('d \<Rightarrow> bool) \<Rightarrow> ('d \<Rightarrow> 'd) \<Rightarrow> ('w, nat) io"
  findAll :: "('d \<Rightarrow> bool) \<Rightarrow> ('d \<Rightarrow> 'd \<Rightarrow> bool) \<Rightarrow> ('w, 'd list) io"

text \<open>\<^verbatim>\<open>model.exists(filter)\<close> is a find of one document, read as a truth value.\<close>

definition exists_doc :: "('w, 'd) model \<Rightarrow> ('d \<Rightarrow> bool) \<Rightarrow> ('w, bool) io" where
  "exists_doc M p = await (findOne M p) (\<lambda>r. ret (r \<noteq> None))"

text \<open>An operation may change \<open>env\<close> in any way.\<close>

definition env_step :: "'e world \<Rightarrow> 'e world \<Rightarrow> bool" where
  "env_step w w' = (\<exists>z. w' = w\<lparr>env := z\<rparr>)"

lemma env_step_refl [simp]: "env_step w w"
  by (auto simp: env_step_def intro: exI [where x = "env w"])

lemma env_step_env [simp]:
  "env_step w (w'\<lparr>env := z\<rparr>) = env_step w w'"
  "env_step (w\<lparr>env := z\<rparr>) w' = env_step w w'"
proof -
  have "w = w\<lparr>env := z\<rparr>\<lparr>env := env w\<rparr>" by simp
  moreover have "w' = w'\<lparr>env := z\<rparr>\<lparr>env := env w'\<rparr>" by simp
  ultimately show "env_step w (w'\<lparr>env := z\<rparr>) = env_step w w'"
    "env_step (w\<lparr>env := z\<rparr>) w' = env_step w w'"
    unfolding env_step_def by (metis world.update_convs(14) world.surjective)+
qed

lemma env_step_trans: "env_step w w' \<Longrightarrow> env_step w' w'' \<Longrightarrow> env_step w w''"
  by (auto simp: env_step_def)

lemma env_step_sym: "env_step w w' \<Longrightarrow> env_step w' w"
  by (metis env_step_def env_step_env(1) env_step_refl)

text \<open>A sort specification orders any two documents; ties are in any order.\<close>

definition total_preorder :: "('d \<Rightarrow> 'd \<Rightarrow> bool) \<Rightarrow> bool" where
  "total_preorder le \<longleftrightarrow> transp le \<and> (\<forall>x y. le x y \<or> le y x)"

text \<open>One document that satisfies the filter is replaced by its update.\<close>

definition one_updated :: "('d \<Rightarrow> 'd \<Rightarrow> bool) \<Rightarrow> ('d \<Rightarrow> bool) \<Rightarrow> ('d \<Rightarrow> 'd) \<Rightarrow> 'd list \<Rightarrow> 'd list \<Rightarrow> 'd \<Rightarrow> bool" where
  "one_updated clash p f ds ds' d \<longleftrightarrow>
     (\<exists>as bs. ds = as @ d # bs \<and> p d \<and> ds' = as @ f d # bs \<and>
        (\<forall>x \<in> set as \<union> set bs. \<not> clash (f d) x))"

text \<open>A document takes the place of the one with the same \<^verbatim>\<open>_id\<close>.\<close>

definition replaced :: "('d \<Rightarrow> string) \<Rightarrow> 'd \<Rightarrow> 'd list \<Rightarrow> 'd list \<Rightarrow> bool" where
  "replaced ident d' ds ds' \<longleftrightarrow>
     (\<exists>as d bs. ds = as @ d # bs \<and> ident d = ident d' \<and> ds' = as @ d' # bs)"

lemma one_updated_replaced:
  "one_updated clash (\<lambda>x. ident x = i) (\<lambda>_. d) ds ds' x \<Longrightarrow> ident d = i \<Longrightarrow> replaced ident d ds ds'"
  unfolding one_updated_def replaced_def by metis

lemma replaced_same:
  assumes "distinct (map ident xs)" and "replaced ident x' xs xs'" and "x \<in> set xs" and "ident x = ident x'"
  obtains as bs where "xs = as @ x # bs" and "xs' = as @ x' # bs"
proof -
  from assms(2) obtain as d bs where xs: "xs = as @ d # bs" "ident d = ident x'" "xs' = as @ x' # bs"
    unfolding replaced_def by blast
  have "d = x" using assms(1,3,4) xs(1,2) distinct_map_split [of ident as d bs x] by auto
  with xs that show ?thesis by blast
qed

lemma replaced_again:
  assumes "distinct (map ident ds)" and "replaced ident a ds ds1" and "replaced ident b ds1 ds2"
    and "ident a = ident b"
  shows "replaced ident b ds ds2"
proof -
  from assms(2) obtain as d bs where ds: "ds = as @ d # bs" "ident d = ident a" "ds1 = as @ a # bs"
    unfolding replaced_def by blast
  have "distinct (map ident ds1)" using assms(1) ds by simp
  then obtain as' bs' where ds1: "ds1 = as' @ a # bs'" "ds2 = as' @ b # bs'"
    using replaced_same [of ident ds1 b ds2 a] assms(3,4) ds by auto
  have "as' = as \<and> bs' = bs"
  proof -
    have "a \<notin> set as" "a \<notin> set bs" using \<open>distinct (map ident ds1)\<close> ds(3) by auto
    then show ?thesis using ds(3) ds1(1) by (auto simp: append_eq_append_conv2 append_eq_Cons_conv Cons_eq_append_conv)
  qed
  then show ?thesis using ds ds1 assms(4) unfolding replaced_def by metis
qed

lemma list_all2_one_updated:
  "one_updated clash p f ds ds' d \<Longrightarrow> (\<And>x. R x x) \<Longrightarrow> (p d \<Longrightarrow> R d (f d)) \<Longrightarrow> list_all2 R ds ds'"
  by (auto simp: one_updated_def intro!: list_all2_appendI list_all2_refl)

lemma list_all2_update_where:
  "(\<And>x. R x x) \<Longrightarrow> (\<And>x. p x \<Longrightarrow> R x (f x)) \<Longrightarrow> list_all2 R ds (update_where p f ds)"
  by (induction ds) auto

text \<open>A new document: a fresh \<^verbatim>\<open>_id\<close>, no clash with a unique index, and it passes the validators.\<close>

definition one_added :: "('d \<Rightarrow> 'd \<Rightarrow> bool) \<Rightarrow> ('d \<Rightarrow> bool) \<Rightarrow> ('d \<Rightarrow> string) \<Rightarrow> 'd \<Rightarrow> 'd list \<Rightarrow> bool" where
  "one_added clash valid ident d ds \<longleftrightarrow>
     ident d \<notin> ident ` set ds \<and> (\<forall>x \<in> set ds. \<not> clash d x) \<and> valid d"

subsection \<open>The contract of a model\<close>

locale collection =
  fixes M :: "('e world, 'd) model"
    and get :: "'e world \<Rightarrow> 'd list"
    and upd :: "('d list \<Rightarrow> 'd list) \<Rightarrow> 'e world \<Rightarrow> 'e world"
    and clash :: "'d \<Rightarrow> 'd \<Rightarrow> bool"
    and valid :: "'d \<Rightarrow> bool"
    and ident :: "'d \<Rightarrow> string"
  assumes findOne_law: "findOne M p w = (r1, w') \<Longrightarrow> env_step w w' \<and>
      (case r1 of Inl e \<Rightarrow> store_error e
       | Inr None \<Rightarrow> (\<forall>d \<in> set (get w). \<not> p d)
       | Inr (Some d) \<Rightarrow> d \<in> set (get w) \<and> p d)"
    and findSorted_law: "findSorted M p le skip limit w = (r2, w') \<Longrightarrow> env_step w w' \<and>
      (case r2 of Inl e \<Rightarrow> store_error e
       | Inr xs \<Rightarrow> (\<exists>ys. mset ys = mset (filter p (get w)) \<and> (total_preorder le \<longrightarrow> sorted_wrt le ys) \<and>
           xs = take (nat limit) (drop (nat skip) ys)))"
    and createDoc_law: "createDoc M mk w = (r3, w') \<Longrightarrow>
      (case r3 of Inl e \<Rightarrow> store_error e \<and>
           (env_step w w' \<or> error_code e \<noteq> Some duplicate_key_code \<and>
            (\<exists>i. one_added clash valid ident (mk i) (get w) \<and>
               env_step (upd (\<lambda>_. get w @ [mk i]) w) w'))
       | Inr d \<Rightarrow> (\<exists>i. d = mk i \<and> one_added clash valid ident (mk i) (get w) \<and>
           env_step (upd (\<lambda>_. get w @ [mk i]) w) w'))"
    and saveDoc_law: "saveDoc M d w = (r3, w') \<Longrightarrow>
      (case r3 of Inl e \<Rightarrow> store_error e \<and>
           (env_step w w' \<or>
            valid d \<and> (\<exists>ds' x. one_updated clash (\<lambda>x. ident x = ident d) (\<lambda>_. d) (get w) ds' x \<and>
               env_step (upd (\<lambda>_. ds') w) w'))
       | Inr d' \<Rightarrow> d' = d \<and> valid d \<and>
           (\<exists>ds' x. one_updated clash (\<lambda>x. ident x = ident d) (\<lambda>_. d) (get w) ds' x \<and>
               env_step (upd (\<lambda>_. ds') w) w'))"
    and findOneAndUpdate_law: "findOneAndUpdate M p f w = (r1, w') \<Longrightarrow>
      (case r1 of Inl e \<Rightarrow> store_error e \<and>
           (env_step w w' \<or>
            (\<exists>ds' d. one_updated clash p f (get w) ds' d \<and> env_step (upd (\<lambda>_. ds') w) w'))
       | Inr None \<Rightarrow> (\<forall>d \<in> set (get w). \<not> p d) \<and> env_step w w'
       | Inr (Some d') \<Rightarrow>
           (\<exists>ds' d. d' = f d \<and> one_updated clash p f (get w) ds' d \<and> env_step (upd (\<lambda>_. ds') w) w'))"
    and findOneAndUpsert_law: "findOneAndUpsert M p f mk w = (r3, w') \<Longrightarrow>
      (case r3 of Inl e \<Rightarrow> store_error e \<and>
           (env_step w w' \<or>
            (\<exists>ds' d. one_updated clash p f (get w) ds' d \<and> env_step (upd (\<lambda>_. ds') w) w') \<or>
            (\<forall>d \<in> set (get w). \<not> p d) \<and>
            (\<exists>i. one_added clash (\<lambda>_. True) ident (mk i) (get w) \<and>
               env_step (upd (\<lambda>_. get w @ [mk i]) w) w'))
       | Inr d' \<Rightarrow>
           (\<exists>ds' d. d' = f d \<and> one_updated clash p f (get w) ds' d \<and> env_step (upd (\<lambda>_. ds') w) w') \<or>
           (\<forall>d \<in> set (get w). \<not> p d) \<and>
           (\<exists>i. d' = mk i \<and> one_added clash (\<lambda>_. True) ident (mk i) (get w) \<and>
              env_step (upd (\<lambda>_. get w @ [mk i]) w) w'))"
    and updateOne_law: "updateOne M p f w = (r4, w') \<Longrightarrow>
      (case r4 of Inl e \<Rightarrow> store_error e \<and>
           (env_step w w' \<or>
            (\<exists>ds' d. one_updated clash p f (get w) ds' d \<and> env_step (upd (\<lambda>_. ds') w) w'))
       | Inr n \<Rightarrow>
           (n = 0 \<and> (\<forall>d \<in> set (get w). \<not> p d) \<and> env_step w w') \<or>
           (n = 1 \<and> (\<exists>ds' d. one_updated clash p f (get w) ds' d \<and> env_step (upd (\<lambda>_. ds') w) w')))"
    and updateMany_law: "updateMany M p f w = (r4, w') \<Longrightarrow>
      (case r4 of Inl e \<Rightarrow> store_error e \<and>
           (\<exists>q. env_step (upd (\<lambda>_. update_where (\<lambda>d. p d \<and> q d) f (get w)) w) w')
       | Inr n \<Rightarrow> n = length (filter p (get w)) \<and> env_step (upd (\<lambda>_. update_where p f (get w)) w) w')"
    and findAll_law: "findAll M p le w = (r2, w') \<Longrightarrow> env_step w w' \<and>
      (case r2 of Inl e \<Rightarrow> store_error e
       | Inr xs \<Rightarrow> mset xs = mset (filter p (get w)) \<and> (total_preorder le \<longrightarrow> sorted_wrt le xs))"
begin

lemma wp_findOne [wp_rules]:
  assumes "\<And>z. \<forall>d \<in> set (get w). \<not> p d \<Longrightarrow> Q None (w\<lparr>env := z\<rparr>)"
    and "\<And>d z. d \<in> set (get w) \<Longrightarrow> p d \<Longrightarrow> Q (Some d) (w\<lparr>env := z\<rparr>)"
    and "\<And>e z. store_error e \<Longrightarrow> E e (w\<lparr>env := z\<rparr>)"
  shows "wp (findOne M p) Q E w"
proof (rule wpI)
  fix a w' assume "findOne M p w = (Inr a, w')"
  with findOne_law have "env_step w w' \<and> (case a of None \<Rightarrow> (\<forall>d \<in> set (get w). \<not> p d)
      | Some d \<Rightarrow> d \<in> set (get w) \<and> p d)" by fastforce
  then show "Q a w'" using assms(1,2) by (auto simp: env_step_def split: option.splits)
next
  fix e w' assume "findOne M p w = (Inl e, w')"
  with findOne_law have "env_step w w' \<and> store_error e" by fastforce
  then show "E e w'" using assms(3) by (auto simp: env_step_def)
qed

lemma wp_exists_doc [wp_rules]:
  assumes "\<And>z. \<forall>d \<in> set (get w). \<not> p d \<Longrightarrow> Q False (w\<lparr>env := z\<rparr>)"
    and "\<And>d z. d \<in> set (get w) \<Longrightarrow> p d \<Longrightarrow> Q True (w\<lparr>env := z\<rparr>)"
    and "\<And>e z. store_error e \<Longrightarrow> E e (w\<lparr>env := z\<rparr>)"
  shows "wp (exists_doc M p) Q E w"
  unfolding exists_doc_def by (simp, rule wp_findOne) (auto intro: assms)

lemma wp_findSorted [wp_rules]:
  assumes "\<And>ys z. mset ys = mset (filter p (get w)) \<Longrightarrow> (total_preorder le \<Longrightarrow> sorted_wrt le ys) \<Longrightarrow>
      Q (take (nat limit) (drop (nat skip) ys)) (w\<lparr>env := z\<rparr>)"
    and "\<And>e z. store_error e \<Longrightarrow> E e (w\<lparr>env := z\<rparr>)"
  shows "wp (findSorted M p le skip limit) Q E w"
proof (rule wpI)
  fix a w' assume "findSorted M p le skip limit w = (Inr a, w')"
  with findSorted_law show "Q a w'" using assms(1) by (fastforce simp: env_step_def)
next
  fix e w' assume "findSorted M p le skip limit w = (Inl e, w')"
  with findSorted_law show "E e w'" using assms(2) by (fastforce simp: env_step_def)
qed

lemma wp_findAll [wp_rules]:
  assumes "\<And>xs z. mset xs = mset (filter p (get w)) \<Longrightarrow> (total_preorder le \<Longrightarrow> sorted_wrt le xs) \<Longrightarrow>
      Q xs (w\<lparr>env := z\<rparr>)"
    and "\<And>e z. store_error e \<Longrightarrow> E e (w\<lparr>env := z\<rparr>)"
  shows "wp (findAll M p le) Q E w"
proof (rule wpI)
  fix a w' assume "findAll M p le w = (Inr a, w')"
  with findAll_law show "Q a w'" using assms(1) by (fastforce simp: env_step_def)
next
  fix e w' assume "findAll M p le w = (Inl e, w')"
  with findAll_law show "E e w'" using assms(2) by (fastforce simp: env_step_def)
qed

lemma wp_createDoc [wp_rules]:
  assumes "\<And>i z. one_added clash valid ident (mk i) (get w) \<Longrightarrow>
      Q (mk i) ((upd (\<lambda>_. get w @ [mk i]) w)\<lparr>env := z\<rparr>)"
    and "\<And>e z. store_error e \<Longrightarrow> E e (w\<lparr>env := z\<rparr>)"
    and "\<And>e i z. store_error e \<Longrightarrow> error_code e \<noteq> Some duplicate_key_code \<Longrightarrow>
      one_added clash valid ident (mk i) (get w) \<Longrightarrow> E e ((upd (\<lambda>_. get w @ [mk i]) w)\<lparr>env := z\<rparr>)"
  shows "wp (createDoc M mk) Q E w"
proof (rule wpI)
  fix a w' assume "createDoc M mk w = (Inr a, w')"
  with createDoc_law show "Q a w'" using assms(1) by (fastforce simp: env_step_def)
next
  fix e w' assume "createDoc M mk w = (Inl e, w')"
  with createDoc_law show "E e w'" using assms(2,3) by (fastforce simp: env_step_def)
qed

lemma wp_saveDoc [wp_rules]:
  assumes "\<And>ds x z. one_updated clash (\<lambda>x. ident x = ident d) (\<lambda>_. d) (get w) ds x \<Longrightarrow> valid d \<Longrightarrow>
      Q d ((upd (\<lambda>_. ds) w)\<lparr>env := z\<rparr>)"
    and "\<And>e z. store_error e \<Longrightarrow> E e (w\<lparr>env := z\<rparr>)"
    and "\<And>e ds x z. store_error e \<Longrightarrow>
      one_updated clash (\<lambda>x. ident x = ident d) (\<lambda>_. d) (get w) ds x \<Longrightarrow> valid d \<Longrightarrow>
      E e ((upd (\<lambda>_. ds) w)\<lparr>env := z\<rparr>)"
  shows "wp (saveDoc M d) Q E w"
proof (rule wpI)
  fix a w' assume "saveDoc M d w = (Inr a, w')"
  with saveDoc_law show "Q a w'" using assms(1) by (fastforce simp: env_step_def)
next
  fix e w' assume "saveDoc M d w = (Inl e, w')"
  with saveDoc_law show "E e w'" using assms(2,3) by (fastforce simp: env_step_def)
qed

lemma wp_findOneAndUpdate [wp_rules]:
  assumes "\<And>z. \<forall>d \<in> set (get w). \<not> p d \<Longrightarrow> Q None (w\<lparr>env := z\<rparr>)"
    and "\<And>ds d z. one_updated clash p f (get w) ds d \<Longrightarrow> Q (Some (f d)) ((upd (\<lambda>_. ds) w)\<lparr>env := z\<rparr>)"
    and "\<And>e z. store_error e \<Longrightarrow> E e (w\<lparr>env := z\<rparr>)"
    and "\<And>e ds d z. store_error e \<Longrightarrow> one_updated clash p f (get w) ds d \<Longrightarrow>
      E e ((upd (\<lambda>_. ds) w)\<lparr>env := z\<rparr>)"
  shows "wp (findOneAndUpdate M p f) Q E w"
proof (rule wpI)
  fix a w' assume "findOneAndUpdate M p f w = (Inr a, w')"
  with findOneAndUpdate_law [of p f w "Inr a" w'] show "Q a w'" using assms(1,2)
    by (cases a) (auto simp: env_step_def)
next
  fix e w' assume "findOneAndUpdate M p f w = (Inl e, w')"
  with findOneAndUpdate_law [of p f w "Inl e" w'] show "E e w'" using assms(3,4)
    by (auto simp: env_step_def)
qed

lemma wp_findOneAndUpsert [wp_rules]:
  assumes "\<And>ds d z. one_updated clash p f (get w) ds d \<Longrightarrow> Q (f d) ((upd (\<lambda>_. ds) w)\<lparr>env := z\<rparr>)"
    and "\<And>i z. \<forall>d \<in> set (get w). \<not> p d \<Longrightarrow> one_added clash (\<lambda>_. True) ident (mk i) (get w) \<Longrightarrow>
      Q (mk i) ((upd (\<lambda>_. get w @ [mk i]) w)\<lparr>env := z\<rparr>)"
    and "\<And>e z. store_error e \<Longrightarrow> E e (w\<lparr>env := z\<rparr>)"
    and "\<And>e ds d z. store_error e \<Longrightarrow> one_updated clash p f (get w) ds d \<Longrightarrow>
      E e ((upd (\<lambda>_. ds) w)\<lparr>env := z\<rparr>)"
    and "\<And>e i z. store_error e \<Longrightarrow> \<forall>d \<in> set (get w). \<not> p d \<Longrightarrow>
      one_added clash (\<lambda>_. True) ident (mk i) (get w) \<Longrightarrow> E e ((upd (\<lambda>_. get w @ [mk i]) w)\<lparr>env := z\<rparr>)"
  shows "wp (findOneAndUpsert M p f mk) Q E w"
proof (rule wpI)
  fix a w' assume "findOneAndUpsert M p f mk w = (Inr a, w')"
  with findOneAndUpsert_law [of p f mk w "Inr a" w'] show "Q a w'" using assms(1,2)
    by (auto simp: env_step_def)
next
  fix e w' assume "findOneAndUpsert M p f mk w = (Inl e, w')"
  with findOneAndUpsert_law [of p f mk w "Inl e" w'] show "E e w'" using assms(3-5)
    by (auto simp: env_step_def)
qed

lemma wp_updateOne [wp_rules]:
  assumes "\<And>z. \<forall>d \<in> set (get w). \<not> p d \<Longrightarrow> Q 0 (w\<lparr>env := z\<rparr>)"
    and "\<And>ds d z. one_updated clash p f (get w) ds d \<Longrightarrow> Q 1 ((upd (\<lambda>_. ds) w)\<lparr>env := z\<rparr>)"
    and "\<And>e z. store_error e \<Longrightarrow> E e (w\<lparr>env := z\<rparr>)"
    and "\<And>e ds d z. store_error e \<Longrightarrow> one_updated clash p f (get w) ds d \<Longrightarrow>
      E e ((upd (\<lambda>_. ds) w)\<lparr>env := z\<rparr>)"
  shows "wp (updateOne M p f) Q E w"
proof (rule wpI)
  fix a w' assume "updateOne M p f w = (Inr a, w')"
  with updateOne_law [of p f w "Inr a" w'] show "Q a w'" using assms(1,2)
    by (auto simp: env_step_def)
next
  fix e w' assume "updateOne M p f w = (Inl e, w')"
  with updateOne_law [of p f w "Inl e" w'] show "E e w'" using assms(3,4)
    by (auto simp: env_step_def)
qed

lemma wp_updateMany [wp_rules]:
  assumes "\<And>z. Q (length (filter p (get w))) ((upd (\<lambda>_. update_where p f (get w)) w)\<lparr>env := z\<rparr>)"
    and "\<And>e q z. store_error e \<Longrightarrow> E e ((upd (\<lambda>_. update_where (\<lambda>d. p d \<and> q d) f (get w)) w)\<lparr>env := z\<rparr>)"
  shows "wp (updateMany M p f) Q E w"
proof (rule wpI)
  fix a w' assume "updateMany M p f w = (Inr a, w')"
  with updateMany_law [of p f w "Inr a" w'] show "Q a w'" using assms(1)
    by (auto simp: env_step_def)
next
  fix e w' assume "updateMany M p f w = (Inl e, w')"
  with updateMany_law [of p f w "Inl e" w'] show "E e w'" using assms(2)
    by (auto simp: env_step_def)
qed

text \<open>Reads keep what does not depend on \<open>env\<close>; a write keeps what each of its effects keeps.\<close>

lemma keeps_findOne [keeps_rules]: "(\<And>w z. I w \<Longrightarrow> I (w\<lparr>env := z\<rparr>)) \<Longrightarrow> keeps I (findOne M p)"
  by (rule keepsI, rule wp_findOne) auto

lemma keeps_exists_doc [keeps_rules]: "(\<And>w z. I w \<Longrightarrow> I (w\<lparr>env := z\<rparr>)) \<Longrightarrow> keeps I (exists_doc M p)"
  by (rule keepsI, rule wp_exists_doc) auto

lemma keeps_findSorted [keeps_rules]:
  "(\<And>w z. I w \<Longrightarrow> I (w\<lparr>env := z\<rparr>)) \<Longrightarrow> keeps I (findSorted M p le skip limit)"
  by (rule keepsI, rule wp_findSorted) auto

lemma keeps_findAll [keeps_rules]:
  "(\<And>w z. I w \<Longrightarrow> I (w\<lparr>env := z\<rparr>)) \<Longrightarrow> keeps I (findAll M p le)"
  by (rule keepsI, rule wp_findAll) auto

lemma keeps_createDoc:
  "(\<And>w z. I w \<Longrightarrow> I (w\<lparr>env := z\<rparr>)) \<Longrightarrow>
   (\<And>w i. I w \<Longrightarrow> one_added clash valid ident (mk i) (get w) \<Longrightarrow> I (upd (\<lambda>_. get w @ [mk i]) w)) \<Longrightarrow>
   keeps I (createDoc M mk)"
  by (rule keepsI, rule wp_createDoc) auto

lemma keeps_saveDoc:
  "(\<And>w z. I w \<Longrightarrow> I (w\<lparr>env := z\<rparr>)) \<Longrightarrow>
   (\<And>w ds x. I w \<Longrightarrow> valid d \<Longrightarrow> one_updated clash (\<lambda>x. ident x = ident d) (\<lambda>_. d) (get w) ds x \<Longrightarrow>
      I (upd (\<lambda>_. ds) w)) \<Longrightarrow>
   keeps I (saveDoc M d)"
  by (rule keepsI, rule wp_saveDoc) auto

lemma keeps_findOneAndUpdate:
  "(\<And>w z. I w \<Longrightarrow> I (w\<lparr>env := z\<rparr>)) \<Longrightarrow>
   (\<And>w ds d. I w \<Longrightarrow> one_updated clash p f (get w) ds d \<Longrightarrow> I (upd (\<lambda>_. ds) w)) \<Longrightarrow>
   keeps I (findOneAndUpdate M p f)"
  by (rule keepsI, rule wp_findOneAndUpdate) auto

lemma keeps_findOneAndUpsert:
  "(\<And>w z. I w \<Longrightarrow> I (w\<lparr>env := z\<rparr>)) \<Longrightarrow>
   (\<And>w ds d. I w \<Longrightarrow> one_updated clash p f (get w) ds d \<Longrightarrow> I (upd (\<lambda>_. ds) w)) \<Longrightarrow>
   (\<And>w i. I w \<Longrightarrow> one_added clash (\<lambda>_. True) ident (mk i) (get w) \<Longrightarrow> I (upd (\<lambda>_. get w @ [mk i]) w)) \<Longrightarrow>
   keeps I (findOneAndUpsert M p f mk)"
  by (rule keepsI, rule wp_findOneAndUpsert) auto

lemma keeps_updateOne:
  "(\<And>w z. I w \<Longrightarrow> I (w\<lparr>env := z\<rparr>)) \<Longrightarrow>
   (\<And>w ds d. I w \<Longrightarrow> one_updated clash p f (get w) ds d \<Longrightarrow> I (upd (\<lambda>_. ds) w)) \<Longrightarrow>
   keeps I (updateOne M p f)"
  by (rule keepsI, rule wp_updateOne) auto

lemma keeps_updateMany:
  assumes env: "\<And>w z. I w \<Longrightarrow> I (w\<lparr>env := z\<rparr>)"
    and step: "\<And>w q. I w \<Longrightarrow> I (upd (\<lambda>_. update_where (\<lambda>d. p d \<and> q d) f (get w)) w)"
  shows "keeps I (updateMany M p f)"
proof (rule keepsI, rule wp_updateMany)
  fix w z assume "I w"
  from env [OF step [OF this, of "\<lambda>_. True"]]
  show "I (upd (\<lambda>_. update_where p f (get w)) w\<lparr>env := z\<rparr>)" by simp
qed (auto intro: env step)

end

subsection \<open>A store that does not fail\<close>

text \<open>
  The same contract without faults: what an operation does when the server can be reached.  It
  still refuses what a unique index or a validator refuses.
\<close>

locale reliable_collection = collection +
  assumes findOne_reliable: "findOne M p w \<noteq> (Inl e, w')"
    and findSorted_reliable: "findSorted M p le skip limit w \<noteq> (Inl e, w')"
    and createDoc_reliable: "createDoc M mk w = (Inl e, w') \<Longrightarrow>
      env_step w w' \<and> (\<exists>i. \<not> one_added clash valid ident (mk i) (get w) \<and>
        (ident (mk i) = i \<longrightarrow> i \<notin> ident ` set (get w)))"
    and saveDoc_reliable: "saveDoc M d w = (Inl e, w') \<Longrightarrow> env_step w w' \<and>
      (\<not> distinct (map ident (get w)) \<or> ident d \<notin> ident ` set (get w) \<or> \<not> valid d \<or>
       (\<exists>x \<in> set (get w). ident x \<noteq> ident d \<and> clash d x))"
    and findOneAndUpdate_reliable: "findOneAndUpdate M p f w = (Inl e, w') \<Longrightarrow> env_step w w' \<and>
      (\<exists>as d bs. get w = as @ d # bs \<and> p d \<and> (\<exists>x \<in> set as \<union> set bs. clash (f d) x))"
    and updateOne_reliable: "updateOne M p f w = (Inl e, w') \<Longrightarrow> env_step w w' \<and>
      (\<exists>as d bs. get w = as @ d # bs \<and> p d \<and> (\<exists>x \<in> set as \<union> set bs. clash (f d) x))"
    and updateMany_reliable: "updateMany M p f w \<noteq> (Inl e, w')"
    and findAll_reliable: "findAll M p le w \<noteq> (Inl e, w')"
begin

lemma wp_findOne_reliable:
  assumes "\<And>z. \<forall>d \<in> set (get w). \<not> p d \<Longrightarrow> Q None (w\<lparr>env := z\<rparr>)"
    and "\<And>d z. d \<in> set (get w) \<Longrightarrow> p d \<Longrightarrow> Q (Some d) (w\<lparr>env := z\<rparr>)"
  shows "wp (findOne M p) Q E w"
proof -
  have "wp (findOne M p) Q (\<lambda>_ _. True) w" by (rule wp_findOne) (auto intro: assms)
  then show ?thesis using findOne_reliable by (auto simp: wp_def split: prod.splits sum.splits)
qed

lemma wp_exists_doc_reliable:
  assumes "\<And>z. \<forall>d \<in> set (get w). \<not> p d \<Longrightarrow> Q False (w\<lparr>env := z\<rparr>)"
    and "\<And>d z. d \<in> set (get w) \<Longrightarrow> p d \<Longrightarrow> Q True (w\<lparr>env := z\<rparr>)"
  shows "wp (exists_doc M p) Q E w"
  unfolding exists_doc_def by (simp, rule wp_findOne_reliable) (auto intro: assms)

lemma wp_updateMany_reliable:
  assumes "\<And>z. Q (length (filter p (get w))) ((upd (\<lambda>_. update_where p f (get w)) w)\<lparr>env := z\<rparr>)"
  shows "wp (updateMany M p f) Q E w"
proof -
  have "wp (updateMany M p f) Q (\<lambda>_ _. True) w" by (rule wp_updateMany) (auto intro: assms)
  then show ?thesis using updateMany_reliable by (auto simp: wp_def split: prod.splits sum.splits)
qed

lemma wp_createDoc_reliable:
  assumes "\<And>i z. one_added clash valid ident (mk i) (get w) \<Longrightarrow>
      Q (mk i) ((upd (\<lambda>_. get w @ [mk i]) w)\<lparr>env := z\<rparr>)"
    and "\<And>e z i. store_error e \<Longrightarrow> \<not> one_added clash valid ident (mk i) (get w) \<Longrightarrow>
      (ident (mk i) = i \<Longrightarrow> i \<notin> ident ` set (get w)) \<Longrightarrow> E e (w\<lparr>env := z\<rparr>)"
  shows "wp (createDoc M mk) Q E w"
proof (rule wpI)
  fix a w' assume "createDoc M mk w = (Inr a, w')"
  with createDoc_law show "Q a w'" using assms(1) by (fastforce simp: env_step_def)
next
  fix e w' assume ev: "createDoc M mk w = (Inl e, w')"
  with createDoc_law [OF ev] createDoc_reliable [OF ev] show "E e w'" using assms(2)
    by (auto simp: env_step_def)
qed

lemma wp_saveDoc_reliable:
  assumes "\<And>ds x z. one_updated clash (\<lambda>x. ident x = ident d) (\<lambda>_. d) (get w) ds x \<Longrightarrow> valid d \<Longrightarrow>
      Q d ((upd (\<lambda>_. ds) w)\<lparr>env := z\<rparr>)"
    and "distinct (map ident (get w))" and "ident d \<in> ident ` set (get w)" and "valid d"
    and "\<And>x. x \<in> set (get w) \<Longrightarrow> ident x \<noteq> ident d \<Longrightarrow> \<not> clash d x"
  shows "wp (saveDoc M d) Q E w"
proof (rule wpI)
  fix a w' assume "saveDoc M d w = (Inr a, w')"
  with saveDoc_law show "Q a w'" using assms(1) by (fastforce simp: env_step_def)
next
  fix e w' assume "saveDoc M d w = (Inl e, w')"
  from saveDoc_reliable [OF this] show "E e w'" using assms(2-5) by auto
qed

lemma wp_findOneAndUpdate_reliable:
  assumes "\<And>z. \<forall>d \<in> set (get w). \<not> p d \<Longrightarrow> Q None (w\<lparr>env := z\<rparr>)"
    and "\<And>ds d z. one_updated clash p f (get w) ds d \<Longrightarrow> Q (Some (f d)) ((upd (\<lambda>_. ds) w)\<lparr>env := z\<rparr>)"
    and "\<And>as d bs x. get w = as @ d # bs \<Longrightarrow> p d \<Longrightarrow> x \<in> set as \<union> set bs \<Longrightarrow> \<not> clash (f d) x"
  shows "wp (findOneAndUpdate M p f) Q E w"
proof (rule wpI)
  fix a w' assume "findOneAndUpdate M p f w = (Inr a, w')"
  with findOneAndUpdate_law [of p f w "Inr a" w'] show "Q a w'" using assms(1,2)
    by (cases a) (auto simp: env_step_def)
next
  fix e w' assume "findOneAndUpdate M p f w = (Inl e, w')"
  from findOneAndUpdate_reliable [OF this] show "E e w'" using assms(3) by blast
qed

lemma wp_updateOne_reliable:
  assumes "\<And>z. \<forall>d \<in> set (get w). \<not> p d \<Longrightarrow> Q 0 (w\<lparr>env := z\<rparr>)"
    and "\<And>ds d z. one_updated clash p f (get w) ds d \<Longrightarrow> Q 1 ((upd (\<lambda>_. ds) w)\<lparr>env := z\<rparr>)"
    and "\<And>as d bs x. get w = as @ d # bs \<Longrightarrow> p d \<Longrightarrow> x \<in> set as \<union> set bs \<Longrightarrow> \<not> clash (f d) x"
  shows "wp (updateOne M p f) Q E w"
proof (rule wpI)
  fix a w' assume "updateOne M p f w = (Inr a, w')"
  with updateOne_law [of p f w "Inr a" w'] show "Q a w'" using assms(1,2)
    by (auto simp: env_step_def)
next
  fix e w' assume "updateOne M p f w = (Inl e, w')"
  from updateOne_reliable [OF this] show "E e w'" using assms(3) by blast
qed

lemmas wp_reliable =
  wp_findOne_reliable wp_exists_doc_reliable wp_updateMany_reliable wp_createDoc_reliable
  wp_saveDoc_reliable wp_findOneAndUpdate_reliable wp_updateOne_reliable

end

subsection \<open>Transactions\<close>

text \<open>
  \<^verbatim>\<open>session.withTransaction(work)\<close> runs \<open>work\<close> and commits, or leaves the database as it was and
  throws what \<open>work\<close> threw or an error of its own.  When the commit's outcome was not learnt, the
  effects may be there although it throws.
\<close>

locale transaction =
  fixes T :: "('e world, 'a) io \<Rightarrow> ('e world, 'a) io"
  assumes T_law: "T m w = (r, w') \<Longrightarrow>
    (case r of
       Inr a \<Rightarrow> (\<exists>z w1. m (w\<lparr>env := z\<rparr>) = (Inr a, w1) \<and> env_step w1 w')
     | Inl e \<Rightarrow> (env_step w w' \<and> (store_error e \<or> (\<exists>z w1. m (w\<lparr>env := z\<rparr>) = (Inl e, w1)))) \<or>
         (store_error e \<and> (\<exists>z a w1. m (w\<lparr>env := z\<rparr>) = (Inr a, w1) \<and> env_step w1 w')))"
begin

lemma wp_transaction [wp_rules]:
  assumes work: "\<And>z. wp m
      (\<lambda>a w1. (\<forall>z'. Q a (w1\<lparr>env := z'\<rparr>)) \<and> (\<forall>e z'. store_error e \<longrightarrow> E e (w1\<lparr>env := z'\<rparr>)))
      (\<lambda>e w1. \<forall>z'. E e (w\<lparr>env := z'\<rparr>)) (w\<lparr>env := z\<rparr>)"
    and "\<And>e z. store_error e \<Longrightarrow> E e (w\<lparr>env := z\<rparr>)"
  shows "wp (T m) Q E w"
proof (rule wpI)
  fix a w' assume "T m w = (Inr a, w')"
  with T_law [of m w "Inr a" w'] obtain z w1
    where "m (w\<lparr>env := z\<rparr>) = (Inr a, w1)" and "env_step w1 w'" by auto
  with wp_return_value [OF work, of z a w1] show "Q a w'" by (auto simp: env_step_def)
next
  fix e w' assume "T m w = (Inl e, w')"
  from T_law [OF this] consider
      "env_step w w'" "store_error e"
    | z w1 where "env_step w w'" "m (w\<lparr>env := z\<rparr>) = (Inl e, w1)"
    | z a w1 where "store_error e" "m (w\<lparr>env := z\<rparr>) = (Inr a, w1)" "env_step w1 w'"
    by auto
  then show "E e w'"
  proof cases
    case 1
    then show ?thesis using assms(2) by (auto simp: env_step_def)
  next
    case 2
    with wp_thrown [OF work, of z e w1] show ?thesis by (auto simp: env_step_def)
  next
    case 3
    with wp_return_value [OF work, of z a w1] show ?thesis by (auto simp: env_step_def)
  qed
qed

lemma keeps_transaction [keeps_rules]:
  "(\<And>w z. I w \<Longrightarrow> I (w\<lparr>env := z\<rparr>)) \<Longrightarrow> keeps I m \<Longrightarrow> keeps I (T m)"
proof (rule keepsI, rule wp_transaction)
  fix w z assume env: "\<And>w z. I w \<Longrightarrow> I (w\<lparr>env := z\<rparr>)" and m: "keeps I m" and w: "I w"
  then have "wp m (\<lambda>_. I) (\<lambda>_. I) (w\<lparr>env := z\<rparr>)" by (auto intro: keepsD)
  then show "wp m (\<lambda>a w1. (\<forall>z'. I (w1\<lparr>env := z'\<rparr>)) \<and> (\<forall>e z'. store_error e \<longrightarrow> I (w1\<lparr>env := z'\<rparr>)))
      (\<lambda>e w1. \<forall>z'. I (w\<lparr>env := z'\<rparr>)) (w\<lparr>env := z\<rparr>)"
    by (rule wp_mono) (auto intro: env w)
qed auto

end

locale reliable_transaction = transaction +
  assumes T_reliable: "T m w = (Inl e, w') \<Longrightarrow>
    env_step w w' \<and> (\<exists>z w1. m (w\<lparr>env := z\<rparr>) = (Inl e, w1))"
begin

lemma wp_transaction_reliable:
  assumes work: "\<And>z. wp m (\<lambda>a w1. \<forall>z'. Q a (w1\<lparr>env := z'\<rparr>))
      (\<lambda>e w1. \<forall>z'. E e (w\<lparr>env := z'\<rparr>)) (w\<lparr>env := z\<rparr>)"
  shows "wp (T m) Q E w"
proof (rule wpI)
  fix a w' assume "T m w = (Inr a, w')"
  with T_law [of m w "Inr a" w'] obtain z w1
    where "m (w\<lparr>env := z\<rparr>) = (Inr a, w1)" and "env_step w1 w'" by auto
  with wp_return_value [OF work, of z a w1] show "Q a w'" by (auto simp: env_step_def)
next
  fix e w' assume "T m w = (Inl e, w')"
  from T_reliable [OF this] obtain z w1
    where "env_step w w'" and "m (w\<lparr>env := z\<rparr>) = (Inl e, w1)" by auto
  with wp_thrown [OF work, of z e w1] show "E e w'" by (auto simp: env_step_def)
qed

end

subsection \<open>An in-memory store\<close>

text \<open>
  An implementation of the contract on the lists of the world themselves, with \<open>env\<close> a counter that
  names new documents and serves as the clock.  It shows that the contracts can be met, and it is
  what the closed examples run on.
\<close>

fun unary :: "nat \<Rightarrow> string" where
  "unary 0 = []"
| "unary (Suc n) = CHR ''x'' # unary n"

lemma length_unary [simp]: "length (unary n) = n"
  by (induction n) auto

text \<open>An identifier longer than every one in use is fresh.\<close>

definition fresh_id :: "('d \<Rightarrow> string) \<Rightarrow> 'd list \<Rightarrow> string" where
  "fresh_id ident ds = unary (Suc (sum_list (map (length \<circ> ident) ds)))"

lemma fresh_id_fresh: "fresh_id ident ds \<notin> ident ` set ds"
proof
  assume "fresh_id ident ds \<in> ident ` set ds"
  then obtain d where d: "d \<in> set ds" and "ident d = fresh_id ident ds" by force
  then have "length (ident d) = Suc (sum_list (map (length \<circ> ident) ds))" by (simp add: fresh_id_def)
  moreover have "length (ident d) \<le> sum_list (map (length \<circ> ident) ds)"
    using d by (intro member_le_sum_list) auto
  ultimately show False by simp
qed

fun insort_by :: "('d \<Rightarrow> 'd \<Rightarrow> bool) \<Rightarrow> 'd \<Rightarrow> 'd list \<Rightarrow> 'd list" where
  "insort_by le d [] = [d]"
| "insort_by le d (x # xs) = (if le d x then d # x # xs else x # insort_by le d xs)"

fun sort_by :: "('d \<Rightarrow> 'd \<Rightarrow> bool) \<Rightarrow> 'd list \<Rightarrow> 'd list" where
  "sort_by le [] = []"
| "sort_by le (d # ds) = insort_by le d (sort_by le ds)"

lemma mset_insort_by: "mset (insort_by le d xs) = add_mset d (mset xs)"
  by (induction xs) auto

lemma mset_sort_by [simp]: "mset (sort_by le ds) = mset ds"
  by (induction ds) (auto simp: mset_insort_by)

lemma sorted_insort_by:
  assumes "total_preorder le" and "sorted_wrt le xs"
  shows "sorted_wrt le (insort_by le d xs)"
  using assms(2)
proof (induction xs)
  case (Cons x xs)
  have "set (insort_by le d xs) = insert d (set xs)"
    using mset_insort_by [of le d xs] by (metis set_mset_add_mset_insert set_mset_mset)
  with Cons assms(1) show ?case by (auto simp: total_preorder_def dest: transpD)
qed simp

lemma sorted_sort_by: "total_preorder le \<Longrightarrow> sorted_wrt le (sort_by le ds)"
  by (induction ds) (auto simp: sorted_insort_by)

fun split_first :: "('d \<Rightarrow> bool) \<Rightarrow> 'd list \<Rightarrow> ('d list \<times> 'd \<times> 'd list) option" where
  "split_first p [] = None"
| "split_first p (d # ds) =
     (if p d then Some ([], d, ds)
      else map_option (\<lambda>(as, x, bs). (d # as, x, bs)) (split_first p ds))"

lemma split_first_None: "split_first p ds = None \<longleftrightarrow> (\<forall>d \<in> set ds. \<not> p d)"
  by (induction ds) auto

lemma split_first_Some:
  "split_first p ds = Some (as, x, bs) \<Longrightarrow> ds = as @ x # bs \<and> p x \<and> (\<forall>d \<in> set as. \<not> p d)"
  by (induction ds arbitrary: as) (auto split: if_splits)

definition duplicate_key :: exn where
  "duplicate_key = DriverError (Some duplicate_key_code) ''E11000 duplicate key error''"

definition mem_update where
  "mem_update get upd clash p f w =
     (case split_first p (get w) of
        None \<Rightarrow> (Inr None, w)
      | Some (as, d, bs) \<Rightarrow>
          if list_ex (clash (f d)) (as @ bs) then (Inl duplicate_key, w)
          else (Inr (Some (f d)), upd (\<lambda>_. as @ f d # bs) w))"

definition mem_create where
  "mem_create get upd clash valid ident mk w =
     (let d = mk (fresh_id ident (get w)) in
      if ident d \<in> ident ` set (get w) \<or> list_ex (clash d) (get w) then (Inl duplicate_key, w)
      else if \<not> valid d then (Inl (ValidationError ''invalid document''), w)
      else (Inr d, upd (\<lambda>_. get w @ [d]) w))"

text \<open>An upsert runs no validators.\<close>

definition mem_upsert where
  "mem_upsert get upd clash ident p f mk w =
     (case mem_update get upd clash p f w of
        (Inl e, w') \<Rightarrow> (Inl e, w')
      | (Inr (Some d), w') \<Rightarrow> (Inr d, w')
      | (Inr None, w') \<Rightarrow> mem_create get upd clash (\<lambda>_. True) ident mk w)"

definition mem_save where
  "mem_save get upd clash valid ident d w =
     (if \<not> valid d then (Inl (ValidationError ''invalid document''), w)
      else (case mem_update get upd clash (\<lambda>x. ident x = ident d) (\<lambda>_. d) w of
        (Inl e, w') \<Rightarrow> (Inl e, w')
      | (Inr None, w') \<Rightarrow> (Inl (DriverError None ''document not found''), w')
      | (Inr (Some d'), w') \<Rightarrow> (Inr d', w')))"

definition mem_model ::
  "('e world \<Rightarrow> 'd list) \<Rightarrow> (('d list \<Rightarrow> 'd list) \<Rightarrow> 'e world \<Rightarrow> 'e world) \<Rightarrow> ('d \<Rightarrow> 'd \<Rightarrow> bool) \<Rightarrow>
   ('d \<Rightarrow> bool) \<Rightarrow> ('d \<Rightarrow> string) \<Rightarrow> ('e world, 'd) model" where
  "mem_model get upd clash valid ident = \<lparr>
     findOne = (\<lambda>p w. (Inr (find p (get w)), w)),
     findSorted = (\<lambda>p le skip limit w.
       (Inr (take (nat limit) (drop (nat skip) (sort_by le (filter p (get w))))), w)),
     createDoc = (\<lambda>mk w. mem_create get upd clash valid ident mk w),
     saveDoc = (\<lambda>d w. mem_save get upd clash valid ident d w),
     findOneAndUpdate = (\<lambda>p f w. mem_update get upd clash p f w),
     findOneAndUpsert = (\<lambda>p f mk w. mem_upsert get upd clash ident p f mk w),
     updateOne = (\<lambda>p f w. case mem_update get upd clash p f w of
        (Inl e, w') \<Rightarrow> (Inl e, w') | (Inr None, w') \<Rightarrow> (Inr 0, w') | (Inr (Some _), w') \<Rightarrow> (Inr 1, w')),
     updateMany = (\<lambda>p f w. (Inr (length (filter p (get w))), upd (\<lambda>_. update_where p f (get w)) w)),
     findAll = (\<lambda>p le w. (Inr (sort_by le (filter p (get w))), w))\<rparr>"

lemma world_env_same [simp]: "w\<lparr>env := env w\<rparr> = w"
  by simp

lemma find_cases:
  "(case find p ds of None \<Rightarrow> (\<forall>d \<in> set ds. \<not> p d) | Some d \<Rightarrow> d \<in> set ds \<and> p d)"
  by (auto simp: find_None_iff find_Some_iff split: option.split)

lemma mem_update_outcome:
  assumes "mem_update get upd clash p f w = (r, w')"
  shows "case r of
      Inl e \<Rightarrow> store_error e \<and> w' = w \<and>
        (\<exists>as d bs. get w = as @ d # bs \<and> p d \<and> (\<forall>x \<in> set as. \<not> p x) \<and> (\<exists>x \<in> set as \<union> set bs. clash (f d) x))
    | Inr None \<Rightarrow> (\<forall>d \<in> set (get w). \<not> p d) \<and> w' = w
    | Inr (Some d') \<Rightarrow> (\<exists>ds' d. d' = f d \<and> one_updated clash p f (get w) ds' d \<and> w' = upd (\<lambda>_. ds') w)"
proof (cases "split_first p (get w)")
  case None
  with assms show ?thesis by (auto simp: mem_update_def split_first_None)
next
  case (Some t)
  obtain as d bs where t: "t = (as, d, bs)" by (cases t)
  note split = split_first_Some [OF Some [unfolded t]]
  show ?thesis
  proof (cases "list_ex (clash (f d)) (as @ bs)")
    case True
    with Some t assms have "r = Inl duplicate_key" and "w' = w" by (auto simp: mem_update_def)
    with split True show ?thesis by (auto simp: duplicate_key_def list_ex_iff intro!: exI [of _ as])
  next
    case False
    with Some t assms have "r = Inr (Some (f d))" and "w' = upd (\<lambda>_. as @ f d # bs) w"
      by (auto simp: mem_update_def)
    moreover have "one_updated clash p f (get w) (as @ f d # bs) d"
      unfolding one_updated_def using split False
      by (intro exI [where x = as] exI [where x = bs]) (auto simp: list_ex_iff)
    ultimately show ?thesis by auto
  qed
qed

lemma mem_create_outcome:
  assumes "mem_create get upd clash valid ident mk w = (r, w')"
  shows "case r of Inl e \<Rightarrow> store_error e \<and> w' = w
    | Inr d \<Rightarrow> (\<exists>i. d = mk i \<and> one_added clash valid ident (mk i) (get w) \<and> w' = upd (\<lambda>_. get w @ [mk i]) w)"
  using assms by (auto simp: mem_create_def one_added_def duplicate_key_def list_ex_iff Let_def
      intro!: exI [of _ "fresh_id ident (get w)"] split: if_splits)

text \<open>Any field of the world that is read by \<open>get\<close> and changed by \<open>upd\<close> holds a collection.\<close>

lemma mem_model_reliable:
  fixes get :: "'e world \<Rightarrow> 'd list"
  assumes get_upd: "\<And>f w. get (upd f w) = f (get w)"
  shows "reliable_collection (mem_model get upd clash valid ident) get upd clash valid ident"
proof (unfold_locales, goal_cases)
  case (1 p w r w')
  then show ?case using find_cases [where p = p and ds = "get w"] by (auto simp: mem_model_def)
next
  case (2 p le skip limit w r w')
  then show ?case by (auto simp: mem_model_def intro!: exI [of _ "sort_by le (filter p (get w))"] sorted_sort_by)
next
  case (3 mk w r w')
  then show ?case
    by (auto simp: mem_model_def mem_create_def one_added_def duplicate_key_def list_ex_iff Let_def
        intro!: exI [of _ "fresh_id ident (get w)"] split: if_splits)
next
  case (4 d w r w')
  show ?case
  proof (cases "valid d")
    case True
    obtain u v where uv: "mem_update get upd clash (\<lambda>x. ident x = ident d) (\<lambda>_. d) w = (u, v)"
      by fastforce
    from mem_update_outcome [OF uv] 4 True uv show ?thesis
      by (auto simp: mem_model_def mem_save_def split: sum.splits option.splits)
  qed (use 4 in \<open>auto simp: mem_model_def mem_save_def\<close>)
next
  case (5 p f w r w')
  then have "mem_update get upd clash p f w = (r, w')" by (simp add: mem_model_def)
  from mem_update_outcome [OF this] show ?case
    by (auto split: sum.splits option.splits) (metis env_step_refl)
next
  case (6 p f mk w r w')
  obtain u v where uv: "mem_update get upd clash p f w = (u, v)" by fastforce
  show ?case
  proof (cases "u = Inr None")
    case True
    with uv 6 have "mem_create get upd clash (\<lambda>_. True) ident mk w = (r, w')"
      by (simp add: mem_model_def mem_upsert_def)
    from mem_create_outcome [OF this] mem_update_outcome [OF uv] True show ?thesis
      by (auto split: sum.splits)
  next
    case False
    with mem_update_outcome [OF uv] 6 uv show ?thesis
      by (fastforce simp: mem_model_def mem_upsert_def split: sum.splits option.splits)
  qed
next
  case (7 p f w r w')
  obtain u v where uv: "mem_update get upd clash p f w = (u, v)" by fastforce
  from mem_update_outcome [OF uv] 7 uv show ?case
    by (auto simp: mem_model_def split: sum.splits option.splits)
next
  case (8 p f w r w')
  then show ?case by (auto simp: mem_model_def)
next
  case (9 p le w r w')
  then show ?case by (auto simp: mem_model_def sorted_sort_by)
next
  case (10 p w e w')
  show ?case by (simp add: mem_model_def)
next
  case (11 p le skip limit w e w')
  show ?case by (simp add: mem_model_def)
next
  case (12 mk w e w')
  then show ?case using fresh_id_fresh [of ident "get w"]
    by (auto simp: mem_model_def mem_create_def one_added_def list_ex_iff Let_def
        intro!: exI [of _ "fresh_id ident (get w)"] split: if_splits)
next
  case (13 d w e w')
  show ?case
  proof (cases "valid d")
    case True
    obtain u v where uv: "mem_update get upd clash (\<lambda>x. ident x = ident d) (\<lambda>_. d) w = (u, v)"
      by fastforce
    from 13 True uv have "u = Inl e \<and> w' = v \<or> u = Inr None \<and> w' = v"
      by (auto simp: mem_model_def mem_save_def split: sum.splits option.splits)
    then show ?thesis
    proof
      assume "u = Inl e \<and> w' = v"
      with mem_update_outcome [OF uv] obtain as x bs y where "v = w" and ds: "get w = as @ x # bs"
        and "ident x = ident d" and y: "y \<in> set as \<union> set bs" "clash d y" by auto
      moreover have "ident y \<noteq> ident x" if "distinct (map ident (get w))"
        using that ds y(1) distinct_map_split [of ident as x bs y] by simp
      ultimately show ?thesis using \<open>u = Inl e \<and> w' = v\<close> by auto
    next
      assume "u = Inr None \<and> w' = v"
      with mem_update_outcome [OF uv] show ?thesis by auto
    qed
  qed (use 13 in \<open>auto simp: mem_model_def mem_save_def\<close>)
next
  case (14 p f w e w')
  then have "mem_update get upd clash p f w = (Inl e, w')" by (simp add: mem_model_def)
  from mem_update_outcome [OF this] show ?case by auto
next
  case (15 p f w e w')
  obtain u v where uv: "mem_update get upd clash p f w = (u, v)" by fastforce
  from mem_update_outcome [OF uv] 15 uv show ?case
    by (auto simp: mem_model_def split: sum.splits option.splits)
next
  case (16 p f w e w')
  show ?case by (simp add: mem_model_def)
next
  case (17 p le w e w')
  show ?case by (simp add: mem_model_def)
qed

definition mem_transaction :: "('e world, 'a) io \<Rightarrow> ('e world, 'a) io" where
  "mem_transaction m w =
     (case m w of (Inr a, w') \<Rightarrow> (Inr a, w') | (Inl e, w') \<Rightarrow> (Inl e, w\<lparr>env := env w'\<rparr>))"

interpretation mem_tx: reliable_transaction mem_transaction
  by unfold_locales
    (auto simp: mem_transaction_def env_step_def split: prod.splits sum.splits,
     (metis world_env_same)+)

end
