(* ===== verification/App.thy ===== *)
theory App
  imports Store
begin

text \<open>
  The dependencies NestJS injects into the services, as one record \<open>app\<close>: a mongoose model per
  collection, and what the runtime and third-party packages provide (the clock, random identifiers
  and tokens, hashing).  A dependency the constructors mark \<^verbatim>\<open>@Optional()\<close> is an option.  Services
  get the record as their first argument \<open>A\<close>, in the place of \<^verbatim>\<open>this\<close>.  \<open>mem_app\<close> fills it with
  the in-memory models.
\<close>

record 'e app =
  clock :: "'e world \<Rightarrow> date"
  uuid :: "('e world, string) io"
  randomToken :: "('e world, string) io"
  sha256 :: "string \<Rightarrow> string"
  hmacSha256 :: "string \<Rightarrow> string \<Rightarrow> string"
  bcryptHash :: "string \<Rightarrow> ('e world, string) io"
  bcryptCompare :: "string \<Rightarrow> string \<Rightarrow> ('e world, bool) io"
  bookModel :: "('e world, book) model"
  categoryModel :: "('e world, category) model"
  membershipTypeModel :: "('e world, membership_type) model"
  memberModel :: "('e world, member) model"
  borrowingModel :: "('e world, borrowing) model"
  staffUserModel :: "('e world, staff_user) model"
  identifierModel :: "('e world, reservation) model option"
  operationModel :: "('e world, operation) model"
  repairBatchModel :: "('e world, repair_batch) model"
  familyModel :: "('e world, family) model"
  accountFamilyModel :: "('e world, family) model option"
  markerModel :: "('e world, marker) model"
  bucketModel :: "('e world, bucket) model"
  eventModel :: "('e world, security_event) model option"

text \<open>\<open>env_only m\<close>: a call that never throws and leaves the collections alone.\<close>

definition env_only :: "('e world, 'a) io \<Rightarrow> bool" where
  "env_only m \<longleftrightarrow> (\<forall>w. \<exists>a z. m w = (Inr a, w\<lparr>env := z\<rparr>))"

lemma wp_env_only:
  assumes "env_only m" and "\<And>a z. Q a (w\<lparr>env := z\<rparr>)"
  shows "wp m Q E w"
proof -
  obtain a z where "m w = (Inr a, w\<lparr>env := z\<rparr>)" using assms(1) unfolding env_only_def by blast
  with assms(2) show ?thesis by (simp add: wp_def)
qed

lemma keeps_env_only: "env_only m \<Longrightarrow> (\<And>w z. I w \<Longrightarrow> I (w\<lparr>env := z\<rparr>)) \<Longrightarrow> keeps I m"
  by (rule keepsI, rule wp_env_only) auto

subsection \<open>The in-memory application\<close>

record mem_env =
  me_now :: date
  me_counter :: nat

definition mem_name :: "string \<Rightarrow> (mem_env world, string) io" where
  "mem_name prefix w = (let n = me_counter (env w) in
     (Inr (prefix @ unary n), w\<lparr>env := (env w)\<lparr>me_counter := Suc n\<rparr>\<rparr>))"

definition event_clash :: "security_event \<Rightarrow> security_event \<Rightarrow> bool" where
  "event_clash a b = (e_eventId a \<noteq> None \<and> e_eventId a = e_eventId b)"

text \<open>
  The \<^verbatim>\<open>pre('validate')\<close> hook of the event schema: a correlation hash and its key version are
  stored together.
\<close>

definition event_valid :: "security_event \<Rightarrow> bool" where
  "event_valid e = ((e_identifierCorrelationHash e \<noteq> None \<and> e_identifierCorrelationHash e \<noteq> Some []) =
     (e_correlationKeyVersion e \<noteq> None))"

definition no_clash :: "'d \<Rightarrow> 'd \<Rightarrow> bool" where
  "no_clash a b = False"

definition always_valid :: "'d \<Rightarrow> bool" where
  "always_valid d = True"

text \<open>A marker is identified by its token hash, a bucket by its three key fields together.\<close>

definition dimension_name :: "throttle_dimension \<Rightarrow> string" where
  "dimension_name d = (case d of
     SignInIdentifierFailure \<Rightarrow> ''sign-in-identifier-failure''
   | SignInSource \<Rightarrow> ''sign-in-source''
   | RefreshFamily \<Rightarrow> ''refresh-family''
   | RefreshSource \<Rightarrow> ''refresh-source'')"

definition bucket_ident :: "bucket \<Rightarrow> string" where
  "bucket_ident a = dimension_name (a_dimension a) @ '':'' @ unary (a_keyVersion a) @ '':'' @ a_bucketKey a"

definition mem_app :: "mem_env app" where
  "mem_app = \<lparr>
     clock = (\<lambda>w. me_now (env w)),
     uuid = mem_name ''id-'',
     randomToken = mem_name ''token-'',
     sha256 = (\<lambda>s. ''sha256:'' @ s),
     hmacSha256 = (\<lambda>k s. k @ '':'' @ s),
     bcryptHash = (\<lambda>p. ret (''bcrypt:'' @ p)),
     bcryptCompare = (\<lambda>h p. ret (h = ''bcrypt:'' @ p)),
     bookModel = mem_model books books_update book_clash book_valid b_id,
     categoryModel = mem_model categories categories_update category_clash category_valid c_id,
     membershipTypeModel =
       mem_model membershipTypes membershipTypes_update membership_type_clash membership_type_valid t_id,
     memberModel = mem_model members members_update member_clash member_valid m_id,
     borrowingModel = mem_model borrowings borrowings_update no_clash always_valid l_id,
     staffUserModel = mem_model staffUsers staffUsers_update staff_user_clash staff_user_valid u_id,
     identifierModel =
       Some (mem_model identifiers identifiers_update reservation_clash reservation_valid i_id),
     operationModel = mem_model operations operations_update operation_clash operation_valid o_id,
     repairBatchModel = mem_model repairBatches repairBatches_update batch_clash batch_valid h_id,
     familyModel = mem_model families families_update family_clash family_valid f_familyId,
     accountFamilyModel =
       Some (mem_model families families_update family_clash family_valid f_familyId),
     markerModel = mem_model markers markers_update marker_clash marker_valid k_tokenHash,
     bucketModel = mem_model buckets buckets_update bucket_clash always_valid bucket_ident,
     eventModel = Some (mem_model events events_update event_clash event_valid e_id)\<rparr>"

definition empty_world :: "date \<Rightarrow> mem_env world" where
  "empty_world now = \<lparr>books = [], categories = [], membershipTypes = [], members = [],
     borrowings = [], staffUsers = [], identifiers = [], operations = [], repairBatches = [], families = [], markers = [],
     buckets = [], events = [], env = \<lparr>me_now = now, me_counter = 0\<rparr>\<rparr>"

subsection \<open>Each in-memory model meets the contract\<close>

interpretation mem_books: reliable_collection
  "bookModel mem_app" books books_update book_clash book_valid b_id
  unfolding mem_app_def by (simp, rule mem_model_reliable) simp

interpretation mem_categories: reliable_collection
  "categoryModel mem_app" categories categories_update category_clash category_valid c_id
  unfolding mem_app_def by (simp, rule mem_model_reliable) simp

interpretation mem_membership_types: reliable_collection
  "membershipTypeModel mem_app" membershipTypes membershipTypes_update membership_type_clash
  membership_type_valid t_id
  unfolding mem_app_def by (simp, rule mem_model_reliable) simp

interpretation mem_members: reliable_collection
  "memberModel mem_app" members members_update member_clash member_valid m_id
  unfolding mem_app_def by (simp, rule mem_model_reliable) simp

interpretation mem_borrowings: reliable_collection
  "borrowingModel mem_app" borrowings borrowings_update no_clash always_valid l_id
  unfolding mem_app_def by (simp, rule mem_model_reliable) simp

interpretation mem_staff_users: reliable_collection
  "staffUserModel mem_app" staffUsers staffUsers_update staff_user_clash staff_user_valid u_id
  unfolding mem_app_def by (simp, rule mem_model_reliable) simp

interpretation mem_identifiers: reliable_collection
  "the (identifierModel mem_app)" identifiers identifiers_update reservation_clash reservation_valid i_id
  unfolding mem_app_def by (simp, rule mem_model_reliable) simp

interpretation mem_operations: reliable_collection
  "operationModel mem_app" operations operations_update operation_clash operation_valid o_id
  unfolding mem_app_def by (simp, rule mem_model_reliable) simp

interpretation mem_repair_batches: reliable_collection
  "repairBatchModel mem_app" repairBatches repairBatches_update batch_clash batch_valid h_id
  unfolding mem_app_def by (simp, rule mem_model_reliable) simp

interpretation mem_families: reliable_collection
  "familyModel mem_app" families families_update family_clash family_valid f_familyId
  unfolding mem_app_def by (simp, rule mem_model_reliable) simp

interpretation mem_markers: reliable_collection
  "markerModel mem_app" markers markers_update marker_clash marker_valid k_tokenHash
  unfolding mem_app_def by (simp, rule mem_model_reliable) simp

interpretation mem_buckets: reliable_collection
  "bucketModel mem_app" buckets buckets_update bucket_clash always_valid bucket_ident
  unfolding mem_app_def by (simp, rule mem_model_reliable) simp

interpretation mem_events: reliable_collection
  "the (eventModel mem_app)" events events_update event_clash event_valid e_id
  unfolding mem_app_def by (simp, rule mem_model_reliable) simp

lemma mem_name_env_only: "env_only (mem_name prefix)"
  by (auto simp: env_only_def mem_name_def Let_def)

lemma mem_account_families:
  "collection (the (accountFamilyModel mem_app)) families families_update family_clash family_valid f_familyId"
  using mem_families.collection_axioms by (simp add: mem_app_def)

lemma mem_bcrypt: "env_only (bcryptHash mem_app password)"
  unfolding env_only_def mem_app_def by (auto simp: ret_def) (metis world_env_same)

end
