(* ===== verification/Mongo_Query.thy ===== *)
theory Mongo_Query
  imports App "HOL-Library.Sublist"
begin

text \<open>
  \<^verbatim>\<open>src/common/mongo/mongo-query.helpers.ts\<close>: object ids and literal searches, and the page of a
  query (\<^verbatim>\<open>src/common/dto/pagination-query.dto.ts\<close>).
\<close>

subsection \<open>Object ids\<close>

definition is_hex :: "char \<Rightarrow> bool" where
  "is_hex c = (let n = char_code c in
     (48 \<le> n \<and> n \<le> 57) \<or> (97 \<le> n \<and> n \<le> 102) \<or> (65 \<le> n \<and> n \<le> 70))"

definition is_object_id :: "string \<Rightarrow> bool" where
  "is_object_id v = (length v = 24 \<and> list_all is_hex v)"

text \<open>
  The id it returns is written in lower case, as \<^verbatim>\<open>ObjectId.toString\<close> does.  \<^verbatim>\<open>ObjectId.isValid\<close>
  accepts every text of 24 hexadecimal digits, so the first test decides.
\<close>

definition toMongoObjectId :: "string \<Rightarrow> string \<Rightarrow> ('w, string) io" where
  "toMongoObjectId v fieldName =
     (if \<not> is_object_id v then throw (BadRequest (fieldName @ '' must be a valid MongoDB ObjectId''))
      else ret (to_lower v))"

lemma wp_toMongoObjectId [wp_simps, simp]:
  "wp (toMongoObjectId v fieldName) Q E w =
     (if is_object_id v then Q (to_lower v) w
      else E (BadRequest (fieldName @ '' must be a valid MongoDB ObjectId'')) w)"
  by (simp add: toMongoObjectId_def)

subsection \<open>Literal searches\<close>

text \<open>The codes of \<^verbatim>\<open>. * + ? ^ $ { } ( ) | [ ]\<close> and of the backslash.\<close>

definition regexp_special :: "char \<Rightarrow> bool" where
  "regexp_special c =
     (char_code c \<in> {46, 42, 43, 63, 94, 36, 123, 125, 40, 41, 124, 91, 93, 92})"

definition escapeRegExp :: "string \<Rightarrow> string" where
  "escapeRegExp value = concat (map (\<lambda>c. if regexp_special c then [CHR 0x5C, c] else [c]) value)"

text \<open>
  The regular expressions without operators: ordinary characters, and special characters behind a
  backslash.  \<open>literal_pattern\<close> reads one as the text it stands for and refuses a pattern that
  has an operator in it.
\<close>

fun literal_pattern :: "string \<Rightarrow> string option" where
  "literal_pattern [] = Some []"
| "literal_pattern (c # cs) =
     (if c = CHR 0x5C
      then (case cs of [] \<Rightarrow> None
            | d # ds \<Rightarrow> if regexp_special d then map_option (Cons d) (literal_pattern ds) else None)
      else if regexp_special c then None
      else map_option (Cons c) (literal_pattern cs))"

text \<open>\<^verbatim>\<open>new RegExp(pattern, 'i').test(text)\<close> for such a pattern.\<close>

definition matches_ignoring_case :: "string \<Rightarrow> string \<Rightarrow> bool" where
  "matches_ignoring_case pattern s =
     (case literal_pattern pattern of None \<Rightarrow> False
      | Some literal \<Rightarrow> to_lower literal \<in> set (map (take (length literal)) (suffixes (to_lower s))))"

definition containsLiteral :: "string \<Rightarrow> string \<Rightarrow> bool" where
  "containsLiteral value = matches_ignoring_case (escapeRegExp value)"

lemma escapeRegExp_simps [simp]:
  "escapeRegExp [] = []"
  "escapeRegExp (c # cs) = (if regexp_special c then [CHR 0x5C, c] else [c]) @ escapeRegExp cs"
  by (simp_all add: escapeRegExp_def)

lemma literal_pattern_escape: "literal_pattern (escapeRegExp value) = Some value"
  by (induction "value") (auto simp: regexp_special_def char_code_def)

lemma sublist_take_suffix: "sublist xs ys \<longleftrightarrow> (\<exists>zs. suffix zs ys \<and> take (length xs) zs = xs)"
proof
  assume "sublist xs ys"
  then obtain ps ss where "ys = ps @ xs @ ss" by (auto simp: sublist_def)
  then show "\<exists>zs. suffix zs ys \<and> take (length xs) zs = xs"
    by (intro exI [where x = "xs @ ss"]) (auto simp: suffix_def)
next
  assume "\<exists>zs. suffix zs ys \<and> take (length xs) zs = xs"
  then obtain zs ps where "ys = ps @ zs" and "take (length xs) zs = xs" by (auto simp: suffix_def)
  then have "ys = ps @ xs @ drop (length xs) zs" by (metis append_take_drop_id)
  then show "sublist xs ys" by (auto simp: sublist_def)
qed

lemma containsLiteral_iff: "containsLiteral value s \<longleftrightarrow> sublist (to_lower value) (to_lower s)"
proof -
  have len: "length (to_lower value) = length value" by (simp add: to_lower_def)
  have "containsLiteral value s \<longleftrightarrow>
      (\<exists>zs. suffix zs (to_lower s) \<and> take (length value) zs = to_lower value)"
    unfolding containsLiteral_def matches_ignoring_case_def literal_pattern_escape option.case
      set_map image_iff
    by (auto simp: eq_commute)
  then show ?thesis by (simp add: sublist_take_suffix len)
qed

subsection \<open>Pages\<close>

record page =
  q_page :: int
  q_limit :: int

text \<open>The defaults and bounds of \<^verbatim>\<open>PaginationQueryDto\<close>.\<close>

definition default_page :: page where
  "default_page = \<lparr>q_page = 1, q_limit = 20\<rparr>"

definition page_valid :: "page \<Rightarrow> bool" where
  "page_valid q = (1 \<le> q_page q \<and> 1 \<le> q_limit q \<and> q_limit q \<le> 100)"

definition page_skip :: "page \<Rightarrow> int" where
  "page_skip q = (q_page q - 1) * q_limit q"

text \<open>\<^verbatim>\<open>if (text)\<close> on an optional string: present and not empty.\<close>

definition truthy :: "string option \<Rightarrow> bool" where
  "truthy v = (v \<noteq> None \<and> v \<noteq> Some [])"

lemma truthy_simps [simp]: "\<not> truthy None" "truthy (Some s) = (s \<noteq> [])"
  by (simp_all add: truthy_def)

text \<open>Ascending order of a text field, as a sort specification.\<close>

fun text_le :: "string \<Rightarrow> string \<Rightarrow> bool" where
  "text_le [] t = True"
| "text_le (c # cs) [] = False"
| "text_le (c # cs) (d # ds) =
     (char_code c < char_code d \<or> char_code c = char_code d \<and> text_le cs ds)"

lemma text_le_trans: "text_le s t \<Longrightarrow> text_le t u \<Longrightarrow> text_le s u"
  by (induction s t arbitrary: u rule: text_le.induct) (case_tac u; auto)+

lemma text_le_total: "text_le s t \<or> text_le t s"
  by (induction s t rule: text_le.induct) auto

lemma total_preorder_key:
  "transp le \<Longrightarrow> (\<And>x y. le x y \<or> le y x) \<Longrightarrow> total_preorder (\<lambda>a b. le (key a) (key b))"
  by (auto simp: total_preorder_def intro!: transpI dest: transpD)

lemma total_preorder_text: "total_preorder (\<lambda>a b. text_le (key a) (key b))"
  by (rule total_preorder_key) (auto intro!: transpI intro: text_le_trans simp: text_le_total)

lemma total_preorder_int: "total_preorder (\<lambda>a b. (key a :: int) \<le> key b)"
  by (rule total_preorder_key) auto

end
