(* ===== verification/Inventory.thy ===== *)
theory Inventory
  imports Store
begin

text \<open>
  The bookkeeping that ties the loans to the books and the members: a loan is open until it is
  returned, the number of copies of a book that are out is the number of its open loans, and a
  member's counter is the number of the member's open loans.  \<open>lending_ok\<close> is the invariant the
  catalog, member and borrowing services keep; the lemmas say what keeps it, on lists.
\<close>

definition open_loan :: "borrowing \<Rightarrow> bool" where
  "open_loan l = (l_returnedAt l = None \<and> l_status l \<in> {LoanActive, LoanOverdue})"

definition open_count :: "(borrowing \<Rightarrow> string) \<Rightarrow> string \<Rightarrow> borrowing list \<Rightarrow> nat" where
  "open_count key i ls = length (filter (\<lambda>l. open_loan l \<and> key l = i) ls)"

text \<open>
  Documents \<open>xs\<close> that each count the open loans referring to them; every loan refers to one.
\<close>

definition balanced ::
  "('d \<Rightarrow> string) \<Rightarrow> ('d \<Rightarrow> int) \<Rightarrow> (borrowing \<Rightarrow> string) \<Rightarrow> 'd list \<Rightarrow> borrowing list \<Rightarrow> bool" where
  "balanced ident counter key xs ls \<longleftrightarrow>
     distinct (map ident xs) \<and>
     (\<forall>x \<in> set xs. counter x = int (open_count key (ident x) ls)) \<and>
     (\<forall>l \<in> set ls. key l \<in> ident ` set xs)"

definition lent_copies :: "book \<Rightarrow> int" where
  "lent_copies b = b_totalQuantity b - b_availableQuantity b"

text \<open>Ids are written in lower case, as \<^verbatim>\<open>ObjectId.toString\<close> writes them.\<close>

definition canonical_refs :: "borrowing \<Rightarrow> bool" where
  "canonical_refs l = (to_lower (l_bookId l) = l_bookId l \<and> to_lower (l_memberId l) = l_memberId l)"

definition lending_ok :: "'e world \<Rightarrow> bool" where
  "lending_ok w \<longleftrightarrow>
     balanced b_id lent_copies l_bookId (books w) (borrowings w) \<and>
     (\<forall>b \<in> set (books w). 0 \<le> b_availableQuantity b) \<and>
     balanced m_id m_activeLoanCount l_memberId (members w) (borrowings w) \<and>
     distinct (map l_id (borrowings w)) \<and> (\<forall>l \<in> set (borrowings w). canonical_refs l)"

lemma lending_ok_env [simp]: "lending_ok (w\<lparr>env := z\<rparr>) = lending_ok w"
  by (simp add: lending_ok_def)

lemma open_count_simps [simp]:
  "open_count key i [] = 0"
  "open_count key i (l # ls) = (if open_loan l \<and> key l = i then 1 else 0) + open_count key i ls"
  "open_count key i (ls @ ks) = open_count key i ls + open_count key i ks"
  by (simp_all add: open_count_def)

lemma open_count_fresh: "(\<And>l. l \<in> set ls \<Longrightarrow> key l \<noteq> i) \<Longrightarrow> open_count key i ls = 0"
  by (induction ls) auto

text \<open>A new open loan, counted by the document it refers to.\<close>

lemma balanced_lend:
  assumes "balanced ident counter key (as @ x # bs) ls"
    and "ident x' = ident x" and "counter x' = counter x + 1"
    and "open_loan l" and "key l = ident x"
  shows "balanced ident counter key (as @ x' # bs) (ls @ [l])"
proof -
  have "ident y \<noteq> ident x" if "y \<in> set as \<union> set bs" for y
    using assms(1) that distinct_map_split [of ident as x bs y] by (simp add: balanced_def)
  with assms show ?thesis by (auto simp: balanced_def)
qed

text \<open>An open loan that is closed, and no longer counted.\<close>

lemma balanced_return:
  assumes "balanced ident counter key (as @ x # bs) (ps @ l # qs)"
    and "ident x' = ident x" and "counter x' = counter x - 1"
    and "open_loan l" and "key l = ident x" and "\<not> open_loan l'" and "key l' = key l"
  shows "balanced ident counter key (as @ x' # bs) (ps @ l' # qs)"
proof -
  have "ident y \<noteq> ident x" if "y \<in> set as \<union> set bs" for y
    using assms(1) that distinct_map_split [of ident as x bs y] by (simp add: balanced_def)
  with assms show ?thesis by (auto simp: balanced_def)
qed

text \<open>A document that changes in other respects.\<close>

lemma balanced_update:
  assumes "balanced ident counter key (as @ x # bs) ls"
    and "ident x' = ident x" and "counter x' = counter x"
  shows "balanced ident counter key (as @ x' # bs) ls"
  using assms by (auto simp: balanced_def)

text \<open>A new document, to which no loan refers.\<close>

lemma balanced_new:
  assumes "balanced ident counter key xs ls" and "ident x \<notin> ident ` set xs" and "counter x = 0"
  shows "balanced ident counter key (xs @ [x]) ls"
proof -
  have "open_count key (ident x) ls = 0"
    by (rule open_count_fresh) (use assms(1,2) in \<open>metis balanced_def\<close>)
  with assms show ?thesis by (auto simp: balanced_def)
qed

lemma balanced_unique:
  assumes "balanced ident counter key (as @ x # bs) ls" and "y \<in> set (as @ x # bs)" and "ident y = ident x"
  shows "y = x"
  using assms distinct_map_split [of ident as x bs y] by (auto simp: balanced_def)

lemma balanced_counted:
  assumes "balanced ident counter key xs ls" and "x \<in> set xs" and "l \<in> set ls" and "open_loan l"
    and "key l = ident x"
  shows "1 \<le> counter x"
proof -
  have "filter (\<lambda>l. open_loan l \<and> key l = ident x) ls \<noteq> []"
    using assms(3-5) by (auto simp: filter_empty_conv)
  then have "0 < open_count key (ident x) ls" by (simp add: open_count_def)
  with assms(1,2) show ?thesis by (auto simp: balanced_def)
qed

lemma balanced_replaced:
  assumes "balanced ident counter key xs ls" and "replaced ident x' xs xs'"
    and "x \<in> set xs" and "ident x' = ident x" and "counter x' = counter x"
  shows "balanced ident counter key xs' ls"
proof -
  from assms(2) obtain as d bs where xs: "xs = as @ d # bs" "ident d = ident x'" "xs' = as @ x' # bs"
    unfolding replaced_def by blast
  have "x = d"
    by (rule balanced_unique [OF assms(1) [unfolded xs(1)]]) (use assms(3,4) xs(1,2) in auto)
  then show ?thesis
    unfolding xs(3) using assms(4,5) by (intro balanced_update [OF assms(1) [unfolded xs(1)]]) simp_all
qed

text \<open>The catalog's part of the invariant, when books are added or changed.\<close>

lemma lending_ok_new_book:
  assumes "lending_ok w" and "b_id b \<notin> b_id ` set (books w)"
    and "b_availableQuantity b = b_totalQuantity b" and "0 \<le> b_totalQuantity b"
  shows "lending_ok (w\<lparr>books := books w @ [b]\<rparr>)"
  using assms by (auto simp: lending_ok_def lent_copies_def intro!: balanced_new)

lemma replaced_set: "replaced ident x xs xs' \<Longrightarrow> set xs' \<subseteq> insert x (set xs)"
  by (auto simp: replaced_def)

lemma lending_ok_changed_book:
  assumes "lending_ok w" and "replaced b_id b' (books w) bs" and "b \<in> set (books w)"
    and "b_id b' = b_id b" and "lent_copies b' = lent_copies b" and "0 \<le> b_availableQuantity b'"
  shows "lending_ok (w\<lparr>books := bs\<rparr>)"
proof -
  have "balanced b_id lent_copies l_bookId bs (borrowings w)"
    using assms by (intro balanced_replaced [OF _ assms(2,3)]) (simp_all add: lending_ok_def)
  moreover have "\<forall>x \<in> set bs. 0 \<le> b_availableQuantity x"
    using assms(1,6) replaced_set [OF assms(2)] unfolding lending_ok_def by blast
  ultimately show ?thesis using assms(1) by (simp add: lending_ok_def)
qed

text \<open>A member added without loans, or changed with the counter left alone.\<close>

lemma lending_ok_new_member:
  assumes "lending_ok w" and "m_id m \<notin> m_id ` set (members w)" and "m_activeLoanCount m = 0"
  shows "lending_ok (w\<lparr>members := members w @ [m]\<rparr>)"
  using assms by (auto simp: lending_ok_def intro!: balanced_new)

lemma lending_ok_changed_member:
  assumes "lending_ok w" and "replaced m_id m' (members w) ms" and "m \<in> set (members w)"
    and "m_id m' = m_id m" and "m_activeLoanCount m' = m_activeLoanCount m"
  shows "lending_ok (w\<lparr>members := ms\<rparr>)"
proof -
  have "balanced m_id m_activeLoanCount l_memberId ms (borrowings w)"
    using assms by (intro balanced_replaced [OF _ assms(2,3)]) (simp_all add: lending_ok_def)
  then show ?thesis using assms(1) by (simp add: lending_ok_def)
qed

end
