(* ===== verification/Sample_World.thy ===== *)
theory Sample_World
  imports App Inventory
begin

text \<open>
  A small library on the in-memory store: one book in two copies of which one is lent, one
  category, one membership type, one member and one staff user.  The closed examples of the
  other theories run on it.
\<close>

definition sample_id :: "char \<Rightarrow> string" where
  "sample_id c = replicate 24 c"

definition sample_book :: book where
  "sample_book = \<lparr>b_id = sample_id CHR ''a'', b_title = ''Clean Code'', b_author = Some ''Robert C. Martin'',
     b_isbn = Some ''9780132350884'', b_coverImageUrl = None, b_catalogIdentifier = ''BK-1003'',
     b_categoryId = sample_id CHR ''c'', b_totalQuantity = 2, b_availableQuantity = 1,
     b_status = ItemActive, b_createdBy = None, b_updatedBy = None\<rparr>"

definition sample_category :: category where
  "sample_category = \<lparr>c_id = sample_id CHR ''c'', c_code = ''FICTION'', c_name = ''Fiction'',
     c_loanPeriodDays = 14, c_status = ItemActive, c_createdBy = None, c_updatedBy = None\<rparr>"

definition sample_membership_type :: membership_type where
  "sample_membership_type = \<lparr>t_id = sample_id CHR ''d'', t_code = ''STANDARD'', t_name = ''Standard'',
     t_maxActiveLoans = 3, t_status = ItemActive, t_createdBy = None, t_updatedBy = None\<rparr>"

definition sample_member :: member where
  "sample_member = \<lparr>m_id = sample_id CHR ''b'', m_memberNumber = ''M-1004'',
     m_fullName = ''Olivia Overdue'', m_email = Some ''olivia@example.org'', m_phone = None,
     m_membershipTypeId = sample_id CHR ''d'', m_status = MemberActive, m_activeLoanCount = 1,
     m_loginIdentifier = Some ''olivia'', m_passwordHash = Some ''bcrypt:secret-password'',
     m_passwordUpdatedAt = None, m_lastLoginAt = None, m_authStatus = Some MemberAuthActive,
     m_authVersion = 0, m_createdBy = None, m_updatedBy = None\<rparr>"

definition sample_loan :: borrowing where
  "sample_loan = \<lparr>l_id = sample_id CHR ''e'', l_memberId = sample_id CHR ''b'',
     l_bookId = sample_id CHR ''a'', l_bookCategoryId = sample_id CHR ''c'', l_borrowedAt = 0,
     l_dueAt = 1209600000, l_returnedAt = None, l_status = LoanActive,
     l_borrowedByStaffId = ''1'', l_returnedByStaffId = None\<rparr>"

definition sample_staff_user :: staff_user where
  "sample_staff_user = \<lparr>u_id = sample_id CHR ''f'', u_email = ''admin@example.org'',
     u_displayName = ''Ada Admin'', u_passwordHash = ''bcrypt:secret-password'', u_roles = [Admin],
     u_status = StaffActive, u_lastLoginAt = None, u_passwordUpdatedAt = None, u_authVersion = 0,
     u_createdBy = None, u_updatedBy = None\<rparr>"

definition sample_actor :: audit_actor where
  "sample_actor = \<lparr>actor_id = sample_id CHR ''f'', actor_email = ''admin@example.org'',
     actor_roles = [Admin]\<rparr>"

definition sample_world :: "mem_env world" where
  "sample_world = (empty_world 1000)\<lparr>books := [sample_book], categories := [sample_category],
     membershipTypes := [sample_membership_type], members := [sample_member],
     borrowings := [sample_loan], staffUsers := [sample_staff_user]\<rparr>"

lemma sample_world_lending: "lending_ok sample_world"
  by code_simp

text \<open>The same library before the loan.\<close>

definition sample_shelf :: "mem_env world" where
  "sample_shelf = sample_world\<lparr>books := [sample_book\<lparr>b_availableQuantity := 2\<rparr>],
     members := [sample_member\<lparr>m_activeLoanCount := 0\<rparr>], borrowings := []\<rparr>"

lemma sample_shelf_lending: "lending_ok sample_shelf"
  by code_simp

end
