(* ===== verification/Token_Session.thy ===== *)
theory Token_Session
  imports Mongo_Query Sample_World Complex_Main
begin

text \<open>
  \<^verbatim>\<open>src/auth/token-session.service.ts\<close>: refresh sessions.  A family holds the hash of the one token
  that may be used next; rotating exchanges the token for a new one, and a replay marker per used
  token makes a second use of it revoke the family.  The marker is written first (pending), then
  the family is changed by a compare-and-swap on the hash, then the marker is committed; what is
  left pending by a fault is taken over after its lease or reconciled.

  Every operation here runs alone; \<^verbatim>\<open>Rotation_Protocol\<close> interleaves the steps of many rotations.
  The logger and the timer of \<^verbatim>\<open>onModuleInit\<close> are left out: the timer calls
  \<open>reconcileExpiredPendingMarkers\<close>, whose sharing of a running reconciliation within the process
  has no effect on one that runs alone.
\<close>

definition maximumRefreshLifetimeSeconds :: int where
  "maximumRefreshLifetimeSeconds = 2592000"

definition rotationLeaseMs :: int where
  "rotationLeaseMs = 30000"

definition reconciliationBatchSize :: int where
  "reconciliationBatchSize = 100"

definition genericRefreshDenial :: string where
  "genericRefreshDenial = ''Invalid refresh session''"

record prepared_rotation =
  pr_family :: family
  pr_operationId :: string

record create_family_input =
  cf_clientId :: string
  cf_subjectType :: subject_type
  cf_subjectId :: string
  cf_scopes :: "string list"
  cf_authVersion :: nat
  cf_ttlSeconds :: rat

record rotation_result =
  rr_familyId :: string
  rr_clientId :: string
  rr_subjectType :: subject_type
  rr_subjectId :: string
  rr_scopes :: "string list"
  rr_authVersion :: nat
  rr_refreshToken :: string
  rr_expiresAt :: date

record cookie_options =
  co_httpOnly :: bool
  co_secure :: bool
  co_sameSite :: string
  co_path :: string
  co_maxAge :: int

subsection \<open>Tokens, denials and cookies\<close>

definition TokenSessionService_denyRefresh :: "('w, 'a) io" where
  "TokenSessionService_denyRefresh = throw (Unauthorized genericRefreshDenial)"

definition TokenSessionService_isDuplicateKeyError :: "exn \<Rightarrow> bool" where
  "TokenSessionService_isDuplicateKeyError e = (error_code e = Some duplicate_key_code)"

definition TokenSessionService_hashRefreshToken :: "'e app \<Rightarrow> string \<Rightarrow> string" where
  "TokenSessionService_hashRefreshToken A token = sha256 A token"

definition TokenSessionService_rotationResult :: "family \<Rightarrow> string \<Rightarrow> rotation_result" where
  "TokenSessionService_rotationResult f token =
     \<lparr>rr_familyId = f_familyId f, rr_clientId = f_clientId f, rr_subjectType = f_subjectType f,
      rr_subjectId = f_subjectId f, rr_scopes = f_scopes f, rr_authVersion = f_authVersion f,
      rr_refreshToken = token, rr_expiresAt = f_expiresAt f\<rparr>"

text \<open>The expiry of a cookie: a date, or a number of seconds.\<close>

definition TokenSessionService_getRefreshCookieOptions :: "date + rat \<Rightarrow> bool \<Rightarrow> date \<Rightarrow> cookie_options" where
  "TokenSessionService_getRefreshCookieOptions expiresAtOrTtlSeconds isProduction now =
     (let remainingMs = (case expiresAtOrTtlSeconds of
           Inl expiresAt \<Rightarrow> of_int (expiresAt - now)
         | Inr ttl \<Rightarrow> min (max 0 ttl) (of_int maximumRefreshLifetimeSeconds) * 1000) in
      \<lparr>co_httpOnly = True, co_secure = isProduction, co_sameSite = ''strict'', co_path = ''/auth'',
       co_maxAge = max 0 \<lfloor>remainingMs\<rfloor>\<rparr>)"

definition TokenSessionService_getClearRefreshCookieOptions :: "bool \<Rightarrow> cookie_options" where
  "TokenSessionService_getClearRefreshCookieOptions isProduction =
     \<lparr>co_httpOnly = True, co_secure = isProduction, co_sameSite = ''strict'', co_path = ''/auth'',
      co_maxAge = 0\<rparr>"

subsection \<open>Sessions\<close>

definition TokenSessionService_newFamily ::
  "create_family_input \<Rightarrow> string \<Rightarrow> string \<Rightarrow> date \<Rightarrow> date \<Rightarrow> family" where
  "TokenSessionService_newFamily input familyId tokenHash now expiresAt =
     \<lparr>f_familyId = familyId, f_clientId = cf_clientId input, f_subjectType = cf_subjectType input,
      f_subjectId = cf_subjectId input, f_scopes = cf_scopes input,
      f_authVersion = cf_authVersion input, f_status = FamilyActive,
      f_currentTokenHash = Some tokenHash, f_lastRotationOperationId = None, f_issuedAt = now,
      f_lastRotatedAt = now, f_expiresAt = expiresAt, f_revokedAt = None, f_revokedReason = None\<rparr>"

definition TokenSessionService_createFamily ::
  "'e app \<Rightarrow> create_family_input \<Rightarrow> ('e world, rotation_result) io" where
  "TokenSessionService_createFamily A input =
     await (randomToken A) (\<lambda>refreshToken.
     await (asks (clock A)) (\<lambda>now.
     (let ttlSeconds = min (max 1 \<lfloor>cf_ttlSeconds input\<rfloor>) maximumRefreshLifetimeSeconds;
          expiresAt = now + ttlSeconds * 1000 in
      await (uuid A) (\<lambda>familyId.
      await (createDoc (familyModel A) (\<lambda>_. TokenSessionService_newFamily input familyId
        (TokenSessionService_hashRefreshToken A refreshToken) now expiresAt)) (\<lambda>_.
      ret \<lparr>rr_familyId = familyId, rr_clientId = cf_clientId input,
           rr_subjectType = cf_subjectType input, rr_subjectId = cf_subjectId input,
           rr_scopes = cf_scopes input, rr_authVersion = cf_authVersion input,
           rr_refreshToken = refreshToken, rr_expiresAt = expiresAt\<rparr>)))))"

definition TokenSessionService_revocationUpdate ::
  "family_status \<Rightarrow> string \<Rightarrow> date \<Rightarrow> family \<Rightarrow> family" where
  "TokenSessionService_revocationUpdate status reason now f =
     f\<lparr>f_status := status, f_revokedAt := Some now, f_revokedReason := Some reason,
       f_currentTokenHash := None\<rparr>"

text \<open>The update of many families that the revocations share; \<^verbatim>\<open>revokedAt\<close> is the time of the call.\<close>

definition revoke_where ::
  "'e app \<Rightarrow> (family \<Rightarrow> bool) \<Rightarrow> family_status \<Rightarrow> string \<Rightarrow> ('e world, unit) io" where
  "revoke_where A p status reason =
     await (asks (clock A)) (\<lambda>now.
     await (updateMany (familyModel A) (\<lambda>f. p f \<and> f_status f = FamilyActive)
       (TokenSessionService_revocationUpdate status reason now)) (\<lambda>_.
     ret ()))"

definition TokenSessionService_revokeRefreshToken ::
  "'e app \<Rightarrow> string option \<Rightarrow> string \<Rightarrow> ('e world, unit) io" where
  "TokenSessionService_revokeRefreshToken A refreshToken reason =
     (if \<not> truthy refreshToken then ret ()
      else revoke_where A
        (\<lambda>f. f_currentTokenHash f = Some (TokenSessionService_hashRefreshToken A (the refreshToken)))
        FamilyRevoked reason)"

definition TokenSessionService_revokeFamily :: "'e app \<Rightarrow> string \<Rightarrow> string \<Rightarrow> ('e world, unit) io" where
  "TokenSessionService_revokeFamily A familyId reason =
     revoke_where A (\<lambda>f. f_familyId f = familyId) FamilyRevoked reason"

definition TokenSessionService_revokeSubject ::
  "'e app \<Rightarrow> subject_type \<Rightarrow> string \<Rightarrow> string \<Rightarrow> ('e world, unit) io" where
  "TokenSessionService_revokeSubject A subjectType subjectId reason =
     revoke_where A (\<lambda>f. f_subjectType f = subjectType \<and> f_subjectId f = subjectId) FamilyRevoked reason"

definition TokenSessionService_revokeAsReplay :: "'e app \<Rightarrow> string \<Rightarrow> ('e world, unit) io" where
  "TokenSessionService_revokeAsReplay A familyId =
     revoke_where A (\<lambda>f. f_familyId f = familyId) FamilyReplayed ''refresh-token-replay''"

definition commit_marker :: "date \<Rightarrow> marker \<Rightarrow> marker" where
  "commit_marker now k =
     k\<lparr>k_status := MarkerCommitted, k_committedAt := Some now, k_leaseExpiresAt := None\<rparr>"

definition TokenSessionService_commitMarker ::
  "'e app \<Rightarrow> string \<Rightarrow> string \<Rightarrow> ('e world, marker option) io" where
  "TokenSessionService_commitMarker A tokenHash operationId =
     await (asks (clock A)) (\<lambda>now.
     findOneAndUpdate (markerModel A)
       (\<lambda>k. k_tokenHash k = tokenHash \<and> k_status k = MarkerPending \<and> k_rotationOperationId k = operationId)
       (commit_marker now))"

definition TokenSessionService_finalizeAndRevoke ::
  "'e app \<Rightarrow> string \<Rightarrow> string \<Rightarrow> string \<Rightarrow> string \<Rightarrow> ('e world, unit) io" where
  "TokenSessionService_finalizeAndRevoke A familyId tokenHash operationId reason =
     await (try_catch (TokenSessionService_commitMarker A tokenHash operationId) (\<lambda>_. ret None)) (\<lambda>_.
     TokenSessionService_revokeFamily A familyId reason)"

text \<open>A family that may still be used with the token of this hash.\<close>

definition usable_with :: "string \<Rightarrow> date \<Rightarrow> family \<Rightarrow> bool" where
  "usable_with tokenHash now f =
     (f_status f = FamilyActive \<and> f_currentTokenHash f = Some tokenHash \<and> now < f_expiresAt f)"

definition TokenSessionService_recoverAfterInterruptedCas ::
  "'e app \<Rightarrow> string \<Rightarrow> string \<Rightarrow> string \<Rightarrow> ('e world, unit) io" where
  "TokenSessionService_recoverAfterInterruptedCas A familyId tokenHash operationId =
     try_catch
       (await (findOne (familyModel A) (\<lambda>f. f_familyId f = familyId)) (\<lambda>found.
        await (asks (clock A)) (\<lambda>now.
        (let reason = (case found of
               Some f \<Rightarrow> if f_lastRotationOperationId f = Some operationId
                 then ''refresh-rotation-orphaned'' else ''refresh-rotation-invariant''
             | None \<Rightarrow> ''refresh-rotation-invariant'') in
         if (case found of Some f \<Rightarrow> usable_with tokenHash now f | None \<Rightarrow> False)
         then ret ()
         else TokenSessionService_finalizeAndRevoke A familyId tokenHash operationId reason))))
       (\<lambda>_. ret ())"

subsection \<open>Rotation\<close>

text \<open>\<open>deny_after m\<close> is \<^verbatim>\<open>await m; this.denyRefresh()\<close>.\<close>

definition deny_after :: "('w, unit) io \<Rightarrow> ('w, 'a) io" where
  "deny_after m = await m (\<lambda>_. TokenSessionService_denyRefresh)"

definition take_over :: "string \<Rightarrow> date \<Rightarrow> marker \<Rightarrow> marker" where
  "take_over operationId now k =
     k\<lparr>k_rotationOperationId := operationId, k_leaseExpiresAt := Some (now + rotationLeaseMs)\<rparr>"

definition lease_expired :: "date \<Rightarrow> marker \<Rightarrow> bool" where
  "lease_expired now k = (case k_leaseExpiresAt k of None \<Rightarrow> False | Some t \<Rightarrow> t \<le> now)"

definition TokenSessionService_handleExistingMarker ::
  "'e app \<Rightarrow> marker \<Rightarrow> date \<Rightarrow> ('e world, prepared_rotation) io" where
  "TokenSessionService_handleExistingMarker A marker now =
     (if k_status marker = MarkerCommitted
      then deny_after (TokenSessionService_revokeAsReplay A (k_familyId marker))
      else
      await (findOne (familyModel A) (\<lambda>f. f_familyId f = k_familyId marker)) (\<lambda>found.
      if (case found of Some f \<Rightarrow> f_lastRotationOperationId f = Some (k_rotationOperationId marker)
          | None \<Rightarrow> False)
      then deny_after (TokenSessionService_finalizeAndRevoke A (k_familyId marker) (k_tokenHash marker)
        (k_rotationOperationId marker) ''refresh-rotation-orphaned'')
      else case found of
        None \<Rightarrow> deny_after (TokenSessionService_finalizeAndRevoke A (k_familyId marker)
          (k_tokenHash marker) (k_rotationOperationId marker) ''refresh-rotation-invariant'')
      | Some family \<Rightarrow>
          if \<not> usable_with (k_tokenHash marker) now family \<or> k_leaseExpiresAt marker = None
          then deny_after (TokenSessionService_finalizeAndRevoke A (k_familyId marker)
            (k_tokenHash marker) (k_rotationOperationId marker) ''refresh-rotation-invariant'')
          else if now < the (k_leaseExpiresAt marker)
          then TokenSessionService_denyRefresh
          else
          await (uuid A) (\<lambda>operationId.
          await (findOneAndUpdate (markerModel A)
            (\<lambda>k. k_tokenHash k = k_tokenHash marker \<and> k_status k = MarkerPending \<and>
               k_rotationOperationId k = k_rotationOperationId marker \<and> lease_expired now k)
            (take_over operationId now)) (\<lambda>takenOver.
          case takenOver of
            None \<Rightarrow> TokenSessionService_denyRefresh
          | Some _ \<Rightarrow> ret \<lparr>pr_family = family, pr_operationId = operationId\<rparr>))))"

definition new_marker :: "string \<Rightarrow> family \<Rightarrow> string \<Rightarrow> date \<Rightarrow> marker" where
  "new_marker tokenHash family operationId now =
     \<lparr>k_tokenHash = tokenHash, k_familyId = f_familyId family, k_status = MarkerPending,
      k_rotationOperationId = operationId, k_leaseExpiresAt = Some (now + rotationLeaseMs),
      k_committedAt = None, k_expiresAt = f_expiresAt family\<rparr>"

text \<open>The handler of a failed insertion: a marker that won the race is handled as an existing one.\<close>

definition handle_failed_marker ::
  "'e app \<Rightarrow> string \<Rightarrow> date \<Rightarrow> exn \<Rightarrow> ('e world, prepared_rotation) io" where
  "handle_failed_marker A tokenHash now error =
     (if TokenSessionService_isDuplicateKeyError error
      then
        await (findOne (markerModel A) (\<lambda>k. k_tokenHash k = tokenHash)) (\<lambda>raced.
        case raced of
          Some racedMarker \<Rightarrow> TokenSessionService_handleExistingMarker A racedMarker now
        | None \<Rightarrow> TokenSessionService_denyRefresh)
      else TokenSessionService_denyRefresh)"

definition TokenSessionService_prepareRotation ::
  "'e app \<Rightarrow> string \<Rightarrow> date \<Rightarrow> ('e world, prepared_rotation) io" where
  "TokenSessionService_prepareRotation A tokenHash now =
     await (findOne (markerModel A) (\<lambda>k. k_tokenHash k = tokenHash)) (\<lambda>existing.
     case existing of
       Some existingMarker \<Rightarrow> TokenSessionService_handleExistingMarker A existingMarker now
     | None \<Rightarrow>
         await (findOne (familyModel A) (usable_with tokenHash now)) (\<lambda>found.
         case found of
           None \<Rightarrow> TokenSessionService_denyRefresh
         | Some family \<Rightarrow>
             await (uuid A) (\<lambda>operationId.
             try_catch
               (await (createDoc (markerModel A) (\<lambda>_. new_marker tokenHash family operationId now)) (\<lambda>_.
                ret \<lparr>pr_family = family, pr_operationId = operationId\<rparr>))
               (handle_failed_marker A tokenHash now))))"

text \<open>The compare-and-swap on the family, and what it writes.\<close>

definition swap_token :: "string \<Rightarrow> date \<Rightarrow> string \<Rightarrow> family \<Rightarrow> family" where
  "swap_token nextTokenHash now operationId f =
     f\<lparr>f_currentTokenHash := Some nextTokenHash, f_lastRotatedAt := now,
       f_lastRotationOperationId := Some operationId\<rparr>"

text \<open>
  After the swap: the marker is committed, or the family is revoked as orphaned.  The denial inside
  the \<^verbatim>\<open>try\<close> is caught by its own handler, which revokes once more and denies.
\<close>

definition settle_rotation :: "'e app \<Rightarrow> string \<Rightarrow> prepared_rotation \<Rightarrow> ('e world, unit) io" where
  "settle_rotation A tokenHash prepared =
     try_catch
       (await (TokenSessionService_commitMarker A tokenHash (pr_operationId prepared)) (\<lambda>committed.
        if committed = None
        then deny_after (TokenSessionService_revokeFamily A (f_familyId (pr_family prepared))
          ''refresh-rotation-orphaned'')
        else ret ()))
       (\<lambda>_. deny_after (try_catch
          (TokenSessionService_revokeFamily A (f_familyId (pr_family prepared)) ''refresh-rotation-orphaned'')
          (\<lambda>_. ret ())))"

definition TokenSessionService_rotate :: "'e app \<Rightarrow> string \<Rightarrow> ('e world, rotation_result) io" where
  "TokenSessionService_rotate A refreshToken =
     (if refreshToken = [] then TokenSessionService_denyRefresh
      else
      (let tokenHash = TokenSessionService_hashRefreshToken A refreshToken in
       await (asks (clock A)) (\<lambda>now.
       await (TokenSessionService_prepareRotation A tokenHash now) (\<lambda>prepared.
       await (randomToken A) (\<lambda>nextRefreshToken.
       (let nextTokenHash = TokenSessionService_hashRefreshToken A nextRefreshToken in
        await (try_catch
          (findOneAndUpdate (familyModel A)
            (\<lambda>f. f_familyId f = f_familyId (pr_family prepared) \<and> usable_with tokenHash now f)
            (swap_token nextTokenHash now (pr_operationId prepared)))
          (\<lambda>_. deny_after (TokenSessionService_recoverAfterInterruptedCas A
             (f_familyId (pr_family prepared)) tokenHash (pr_operationId prepared)))) (\<lambda>rotated.
        case rotated of
          None \<Rightarrow> deny_after (TokenSessionService_finalizeAndRevoke A (f_familyId (pr_family prepared))
            tokenHash (pr_operationId prepared) ''refresh-rotation-invariant'')
        | Some rotatedFamily \<Rightarrow>
            await (settle_rotation A tokenHash prepared) (\<lambda>_.
            ret (TokenSessionService_rotationResult rotatedFamily nextRefreshToken)))))))))"

definition TokenSessionService_resolveFamilyId ::
  "'e app \<Rightarrow> string option \<Rightarrow> ('e world, string option) io" where
  "TokenSessionService_resolveFamilyId A refreshToken =
     (if \<not> truthy refreshToken then ret None
      else
      (let tokenHash = TokenSessionService_hashRefreshToken A (the refreshToken) in
       await (findOne (familyModel A) (\<lambda>f. f_currentTokenHash f = Some tokenHash)) (\<lambda>family.
       if (case family of Some f \<Rightarrow> f_familyId f \<noteq> [] | None \<Rightarrow> False)
       then ret (map_option f_familyId family)
       else
       await (findOne (markerModel A) (\<lambda>k. k_tokenHash k = tokenHash)) (\<lambda>marker.
       ret (map_option k_familyId marker)))))"

subsection \<open>Reconciliation\<close>

text \<open>One round of the loop: whether the marker was reconciled.\<close>

definition reconcile_marker :: "'e app \<Rightarrow> date \<Rightarrow> marker \<Rightarrow> ('e world, bool) io" where
  "reconcile_marker A now marker =
     try_catch
       (await (findOne (familyModel A) (\<lambda>f. f_familyId f = k_familyId marker)) (\<lambda>found.
        if (case found of Some f \<Rightarrow> usable_with (k_tokenHash marker) now f | None \<Rightarrow> False)
        then ret False
        else
        (let reason = (case found of
              Some f \<Rightarrow> if f_lastRotationOperationId f = Some (k_rotationOperationId marker)
                then ''refresh-rotation-orphaned'' else ''refresh-rotation-invariant''
            | None \<Rightarrow> ''refresh-rotation-invariant'') in
         await (TokenSessionService_finalizeAndRevoke A (k_familyId marker) (k_tokenHash marker)
           (k_rotationOperationId marker) reason) (\<lambda>_.
         ret True))))
       (\<lambda>_. ret False)"

fun reconcile_markers :: "'e app \<Rightarrow> date \<Rightarrow> marker list \<Rightarrow> nat \<Rightarrow> ('e world, nat) io" where
  "reconcile_markers A now [] reconciled = ret reconciled"
| "reconcile_markers A now (marker # rest) reconciled =
     await (reconcile_marker A now marker) (\<lambda>done.
     reconcile_markers A now rest (if done then reconciled + 1 else reconciled))"

definition TokenSessionService_runExpiredPendingMarkers :: "'e app \<Rightarrow> date \<Rightarrow> ('e world, nat) io" where
  "TokenSessionService_runExpiredPendingMarkers A now =
     await (findSorted (markerModel A)
       (\<lambda>k. k_status k = MarkerPending \<and> lease_expired now k)
       (\<lambda>a b. the (k_leaseExpiresAt a) \<le> the (k_leaseExpiresAt b)) 0 reconciliationBatchSize) (\<lambda>markers.
     reconcile_markers A now markers 0)"

definition TokenSessionService_reconcileExpiredPendingMarkers :: "'e app \<Rightarrow> date \<Rightarrow> ('e world, nat) io" where
  "TokenSessionService_reconcileExpiredPendingMarkers A now =
     TokenSessionService_runExpiredPendingMarkers A now"

subsection \<open>What every operation of a session keeps\<close>

text \<open>
  The five ways the service changes a stored session or marker.  A predicate closed under them is
  kept by every operation that works on existing sessions, on every outcome.
\<close>

definition session_closed :: "('e world \<Rightarrow> bool) \<Rightarrow> bool" where
  "session_closed I \<longleftrightarrow>
     (\<forall>w z. I w \<longrightarrow> I (w\<lparr>env := z\<rparr>)) \<and>
     (\<forall>w p status reason now. I w \<longrightarrow> status \<noteq> FamilyActive \<longrightarrow> (\<forall>f. p f \<longrightarrow> f_status f = FamilyActive) \<longrightarrow>
        I (w\<lparr>families := update_where p (TokenSessionService_revocationUpdate status reason now)
          (families w)\<rparr>)) \<and>
     (\<forall>w fs f i h h' now oper. I w \<longrightarrow>
        one_updated family_clash (\<lambda>f. f_familyId f = i \<and> usable_with h now f) (swap_token h' now oper)
          (families w) fs f \<longrightarrow> I (w\<lparr>families := fs\<rparr>)) \<and>
     (\<forall>w ks k h oper now. I w \<longrightarrow>
        one_updated marker_clash
          (\<lambda>k. k_tokenHash k = h \<and> k_status k = MarkerPending \<and> k_rotationOperationId k = oper)
          (commit_marker now) (markers w) ks k \<longrightarrow> I (w\<lparr>markers := ks\<rparr>)) \<and>
     (\<forall>w ks k h oper oper' now. I w \<longrightarrow>
        one_updated marker_clash
          (\<lambda>k. k_tokenHash k = h \<and> k_status k = MarkerPending \<and> k_rotationOperationId k = oper \<and>
             lease_expired now k)
          (take_over oper' now) (markers w) ks k \<longrightarrow> I (w\<lparr>markers := ks\<rparr>)) \<and>
     (\<forall>w h f oper now. I w \<longrightarrow>
        one_added marker_clash marker_valid k_tokenHash (new_marker h f oper now) (markers w) \<longrightarrow>
        I (w\<lparr>markers := markers w @ [new_marker h f oper now]\<rparr>))"

lemma session_closed_env: "session_closed I \<Longrightarrow> I w \<Longrightarrow> I (w\<lparr>env := z\<rparr>)"
  by (simp add: session_closed_def)

lemmas session_closed_parts = session_closed_def [THEN iffD1]
lemmas session_closed_revoke =
  session_closed_parts [THEN conjunct2, THEN conjunct1, rule_format]
lemmas session_closed_swap =
  session_closed_parts [THEN conjunct2, THEN conjunct2, THEN conjunct1, rule_format]
lemmas session_closed_commit =
  session_closed_parts [THEN conjunct2, THEN conjunct2, THEN conjunct2, THEN conjunct1, rule_format]
lemmas session_closed_take_over =
  session_closed_parts [THEN conjunct2, THEN conjunct2, THEN conjunct2, THEN conjunct2, THEN conjunct1,
    rule_format]
lemmas session_closed_marker =
  session_closed_parts [THEN conjunct2, THEN conjunct2, THEN conjunct2, THEN conjunct2, THEN conjunct2,
    rule_format]

text \<open>Preparing a rotation leaves the families alone and ends with a pending marker of its own.\<close>

definition prepared_for :: "string \<Rightarrow> date \<Rightarrow> 'e world \<Rightarrow> prepared_rotation \<Rightarrow> 'e world \<Rightarrow> bool" where
  "prepared_for h now w pr w' \<longleftrightarrow>
     families w' = families w \<and> distinct (map k_tokenHash (markers w')) \<and>
     pr_family pr \<in> set (families w) \<and> usable_with h now (pr_family pr) \<and>
     (\<exists>k \<in> set (markers w'). k_tokenHash k = h \<and> k_familyId k = f_familyId (pr_family pr))"

text \<open>Settling a rotation: it returns only when the marker has been committed.\<close>

definition marker_committed :: "string \<Rightarrow> string \<Rightarrow> 'e world \<Rightarrow> bool" where
  "marker_committed h familyId w \<longleftrightarrow>
     distinct (map k_tokenHash (markers w)) \<and>
     (\<exists>k \<in> set (markers w). k_tokenHash k = h \<and> k_familyId k = familyId \<and> k_status k = MarkerCommitted)"

text \<open>A successful rotation: the token was the family's own and in time, and it is used up.\<close>

definition rotated_from :: "string \<Rightarrow> date \<Rightarrow> (string \<Rightarrow> string) \<Rightarrow> 'e world \<Rightarrow> rotation_result \<Rightarrow> 'e world \<Rightarrow> bool" where
  "rotated_from h now hash w r w' \<longleftrightarrow>
     (\<exists>as f bs oper. families w = as @ f # bs \<and> usable_with h now f \<and>
        families w' = as @ swap_token (hash (rr_refreshToken r)) now oper f # bs \<and>
        r = TokenSessionService_rotationResult f (rr_refreshToken r) \<and>
        marker_committed h (f_familyId f) w')"

locale session_store =
  fm: collection "familyModel A" families families_update family_clash family_valid f_familyId +
  mk: collection "markerModel A" markers markers_update marker_clash marker_valid k_tokenHash
  for A :: "'e app" +
  assumes uuid_env: "env_only (uuid A)" and random_env: "env_only (randomToken A)"
begin

lemmas wp_uuid [wp_rules] = wp_env_only [OF uuid_env]
lemmas wp_random [wp_rules] = wp_env_only [OF random_env]

lemma keeps_uuid: "session_closed I \<Longrightarrow> keeps I (uuid A)"
  by (rule keeps_env_only [OF uuid_env]) (rule session_closed_env)

lemma keeps_random: "session_closed I \<Longrightarrow> keeps I (randomToken A)"
  by (rule keeps_env_only [OF random_env]) (rule session_closed_env)

lemma keeps_revoke_where:
  assumes "session_closed I" and "status \<noteq> FamilyActive"
  shows "keeps I (revoke_where A p status reason)"
  unfolding revoke_where_def using assms
  by (intro keeps_rules fm.keeps_updateMany)
    (auto intro: session_closed_env session_closed_revoke)

lemma keeps_commitMarker: "session_closed I \<Longrightarrow> keeps I (TokenSessionService_commitMarker A h oper)"
  unfolding TokenSessionService_commitMarker_def
  by (intro keeps_rules mk.keeps_findOneAndUpdate) (erule session_closed_env session_closed_commit, assumption+)+

lemma keeps_takeOver:
  "session_closed I \<Longrightarrow> keeps I (findOneAndUpdate (markerModel A)
    (\<lambda>k. k_tokenHash k = h \<and> k_status k = MarkerPending \<and> k_rotationOperationId k = oper \<and>
       lease_expired now k) (take_over oper' now))"
  by (intro mk.keeps_findOneAndUpdate) (erule session_closed_env session_closed_take_over, assumption+)+

lemma keeps_swap:
  "session_closed I \<Longrightarrow> keeps I (findOneAndUpdate (familyModel A)
    (\<lambda>f. f_familyId f = i \<and> usable_with h now f) (swap_token h' now oper))"
  by (intro fm.keeps_findOneAndUpdate) (erule session_closed_env session_closed_swap, assumption+)+

lemma keeps_new_marker:
  "session_closed I \<Longrightarrow> keeps I (createDoc (markerModel A) (\<lambda>_. new_marker h f oper now))"
  by (intro mk.keeps_createDoc) (erule session_closed_env session_closed_marker, assumption+)+

lemma keeps_findFamily: "session_closed I \<Longrightarrow> keeps I (findOne (familyModel A) p)"
  by (intro keeps_rules) (rule session_closed_env)

lemma keeps_findMarker: "session_closed I \<Longrightarrow> keeps I (findOne (markerModel A) q)"
  by (intro keeps_rules) (rule session_closed_env)

lemma keeps_findMarkers: "session_closed I \<Longrightarrow> keeps I (findSorted (markerModel A) q le skip limit)"
  by (intro keeps_rules) (rule session_closed_env)

lemmas keeps_atoms = keeps_uuid keeps_random keeps_revoke_where keeps_commitMarker keeps_takeOver
  keeps_swap keeps_new_marker keeps_findFamily keeps_findMarker keeps_findMarkers

lemmas session_defs = TokenSessionService_denyRefresh_def deny_after_def
  TokenSessionService_revokeFamily_def TokenSessionService_revokeAsReplay_def
  TokenSessionService_finalizeAndRevoke_def

lemma keeps_finalizeAndRevoke:
  "session_closed I \<Longrightarrow> keeps I (TokenSessionService_finalizeAndRevoke A i h oper reason)"
  unfolding session_defs by (intro keeps_rules keeps_atoms) auto

lemma keeps_handleExistingMarker:
  "session_closed I \<Longrightarrow> keeps I (TokenSessionService_handleExistingMarker A k now)"
  unfolding TokenSessionService_handleExistingMarker_def session_defs
  by (intro keeps_rules keeps_atoms) auto

lemma keeps_prepareRotation:
  "session_closed I \<Longrightarrow> keeps I (TokenSessionService_prepareRotation A h now)"
  unfolding TokenSessionService_prepareRotation_def handle_failed_marker_def
    TokenSessionService_denyRefresh_def
  by (intro keeps_rules keeps_atoms keeps_handleExistingMarker) auto

lemma keeps_recover:
  "session_closed I \<Longrightarrow> keeps I (TokenSessionService_recoverAfterInterruptedCas A i h oper)"
  unfolding TokenSessionService_recoverAfterInterruptedCas_def
  by (intro keeps_rules keeps_atoms keeps_finalizeAndRevoke) auto

lemma keeps_rotate: "session_closed I \<Longrightarrow> keeps I (TokenSessionService_rotate A token)"
  unfolding TokenSessionService_rotate_def settle_rotation_def deny_after_def
    TokenSessionService_denyRefresh_def TokenSessionService_revokeFamily_def
  by (intro keeps_rules keeps_atoms keeps_prepareRotation keeps_recover keeps_finalizeAndRevoke) auto

lemma keeps_reconcile_markers:
  "session_closed I \<Longrightarrow> keeps I (reconcile_markers A now ks n)"
proof (induction ks arbitrary: n)
  case (Cons k ks)
  then show ?case
    unfolding reconcile_markers.simps reconcile_marker_def
    by (intro keeps_rules keeps_atoms keeps_finalizeAndRevoke) auto
qed (simp add: keeps_ret)

lemma keeps_reconcile:
  "session_closed I \<Longrightarrow> keeps I (TokenSessionService_reconcileExpiredPendingMarkers A now)"
  unfolding TokenSessionService_reconcileExpiredPendingMarkers_def
    TokenSessionService_runExpiredPendingMarkers_def
  by (intro keeps_rules keeps_atoms keeps_reconcile_markers)

lemma keeps_revocations:
  assumes "session_closed I"
  shows "keeps I (TokenSessionService_revokeRefreshToken A t reason)"
    and "keeps I (TokenSessionService_revokeFamily A i reason)"
    and "keeps I (TokenSessionService_revokeSubject A st sid reason)"
  unfolding TokenSessionService_revokeRefreshToken_def TokenSessionService_revokeFamily_def
    TokenSessionService_revokeSubject_def
  using assms by (auto intro!: keeps_rules keeps_atoms)

lemma prepared_for_env [simp]: "prepared_for h now (w\<lparr>env := z\<rparr>) = prepared_for h now w"
  by (simp add: prepared_for_def fun_eq_iff)

lemma prepared_for_taken_over:
  assumes "k \<in> set (markers w)" and "distinct (map k_tokenHash (markers w))" and "f \<in> set (families w)"
    and "usable_with (k_tokenHash k) now f" and "f_familyId f = k_familyId k"
    and up: "one_updated marker_clash (\<lambda>x. k_tokenHash x = k_tokenHash k \<and> R x) (take_over oper now)
      (markers w) ks d"
  shows "prepared_for (k_tokenHash k) now w \<lparr>pr_family = f, pr_operationId = oper\<rparr>
      (w\<lparr>markers := ks, env := z\<rparr>)"
proof -
  from up obtain as bs where ks: "markers w = as @ d # bs" "k_tokenHash d = k_tokenHash k"
    "ks = as @ take_over oper now d # bs"
    by (auto simp: one_updated_def)
  have "d = k"
    using assms(1,2) distinct_map_split [of k_tokenHash as d bs k] ks(2) unfolding ks(1) by auto
  then have "take_over oper now k \<in> set ks" and "map k_tokenHash ks = map k_tokenHash (markers w)"
    using ks by (simp_all add: take_over_def)
  then show ?thesis using assms(2-5)
    by (auto simp: prepared_for_def take_over_def intro!: bexI [of _ "take_over oper now k"])
qed

lemma handleExistingMarker_outcome:
  assumes k: "k \<in> set (markers w)" and d: "distinct (map k_tokenHash (markers w))"
  shows "wp (TokenSessionService_handleExistingMarker A k now)
    (prepared_for (k_tokenHash k) now w) (\<lambda>_ _. True) w"
  unfolding TokenSessionService_handleExistingMarker_def deny_after_def TokenSessionService_denyRefresh_def
    TokenSessionService_finalizeAndRevoke_def TokenSessionService_revokeAsReplay_def
    TokenSessionService_revokeFamily_def revoke_where_def TokenSessionService_commitMarker_def
  by (auto intro!: wp_rules split: option.splits) (rule prepared_for_taken_over [OF k d], assumption+)

lemma prepareRotation_outcome:
  assumes "distinct (map k_tokenHash (markers w))"
  shows "wp (TokenSessionService_prepareRotation A h now) (prepared_for h now w) (\<lambda>_ _. True) w"
proof -
  have existing: "wp (TokenSessionService_handleExistingMarker A k now) (prepared_for (k_tokenHash k) now w)
      (\<lambda>_ _. True) (w\<lparr>env := z\<rparr>)" if "k \<in> set (markers w)" for k z
    using handleExistingMarker_outcome [of k "w\<lparr>env := z\<rparr>" now] that assms by simp
  have fields: "k_tokenHash (new_marker h f oper t) = h" "k_familyId (new_marker h f oper t) = f_familyId f"
    for h f oper t
    by (simp_all add: new_marker_def)
  show ?thesis
    unfolding TokenSessionService_prepareRotation_def handle_failed_marker_def
      TokenSessionService_denyRefresh_def TokenSessionService_isDuplicateKeyError_def
    using assms
    by (auto intro!: wp_rules existing simp: prepared_for_def one_added_def image_iff fields)
qed

lemma marker_committed_by_commit:
  assumes "k \<in> set (markers w)" and "k_tokenHash k = h" and "distinct (map k_tokenHash (markers w))"
    and up: "one_updated marker_clash (\<lambda>x. k_tokenHash x = h \<and> R x) (commit_marker now) (markers w) ks d"
  shows "marker_committed h (k_familyId k) (w\<lparr>markers := ks, env := z\<rparr>)"
proof -
  from up obtain as bs where ks: "markers w = as @ d # bs" "k_tokenHash d = h"
    "ks = as @ commit_marker now d # bs"
    by (auto simp: one_updated_def)
  have "d = k"
    using assms(1-3) distinct_map_split [of k_tokenHash as d bs k] ks(2) unfolding ks(1) by auto
  then have "commit_marker now k \<in> set ks" and "map k_tokenHash ks = map k_tokenHash (markers w)"
    using ks by (simp_all add: commit_marker_def)
  then show ?thesis using assms(2,3)
    by (auto simp: marker_committed_def commit_marker_def intro!: bexI [of _ "commit_marker now k"])
qed

lemma settle_outcome:
  assumes "k \<in> set (markers w)" and "k_tokenHash k = h" and "distinct (map k_tokenHash (markers w))"
    and "k_familyId k = f_familyId (pr_family pr)"
  shows "wp (settle_rotation A h pr)
    (\<lambda>_ w'. families w' = families w \<and> marker_committed h (f_familyId (pr_family pr)) w')
    (\<lambda>_ _. True) w"
  unfolding settle_rotation_def deny_after_def TokenSessionService_denyRefresh_def
    TokenSessionService_revokeFamily_def revoke_where_def TokenSessionService_commitMarker_def
  by (auto intro!: wp_rules) (metis marker_committed_by_commit [OF assms(1-3)] assms(4))+

lemma rotated_fromI:
  "families w = as @ f # bs \<Longrightarrow> usable_with h now f \<Longrightarrow>
   families w' = as @ swap_token (hash t) now oper f # bs \<Longrightarrow> marker_committed h (f_familyId f) w' \<Longrightarrow>
   rotated_from h now hash w (TokenSessionService_rotationResult f t) w'"
  unfolding rotated_from_def TokenSessionService_rotationResult_def
  by (intro exI [of _ as] exI [of _ f] exI [of _ bs] exI [of _ oper]) simp

lemma rotationResult_swap [simp]:
  "TokenSessionService_rotationResult (swap_token h now oper f) = TokenSessionService_rotationResult f"
  by (simp add: TokenSessionService_rotationResult_def swap_token_def fun_eq_iff)

lemma rotate_outcome:
  assumes "distinct (map k_tokenHash (markers w))"
  shows "wp (TokenSessionService_rotate A t)
    (rotated_from (sha256 A t) (clock A w) (sha256 A) w) (\<lambda>_ _. True) w"
proof -
  let ?h = "sha256 A t" and ?now = "clock A w"
  have after_swap: "wp (settle_rotation A ?h pr)
      (\<lambda>_. rotated_from ?h ?now (sha256 A) w (TokenSessionService_rotationResult f next)) E
      (w1\<lparr>families := fs, env := z\<rparr>)"
    if pr: "prepared_for ?h ?now w pr w1"
      and up: "one_updated family_clash (\<lambda>f. f_familyId f = f_familyId (pr_family pr) \<and> usable_with ?h ?now f)
        (swap_token (sha256 A next) ?now (pr_operationId pr)) (families w1) fs f"
      and E: "\<And>e w. E e w"
    for pr w1 "next" fs f z E
  proof -
    from pr obtain k where k: "k \<in> set (markers w1)" "k_tokenHash k = ?h"
      "distinct (map k_tokenHash (markers w1))" "k_familyId k = f_familyId (pr_family pr)"
      and fam: "families w1 = families w"
      by (auto simp: prepared_for_def)
    from up obtain as bs where fs: "families w = as @ f # bs" "usable_with ?h ?now f"
      "f_familyId f = f_familyId (pr_family pr)"
      "fs = as @ swap_token (sha256 A next) ?now (pr_operationId pr) f # bs"
      by (auto simp: one_updated_def fam)
    show ?thesis
      by (rule wp_mono [OF settle_outcome [of k]])
        (use k fs E in \<open>auto intro: rotated_fromI\<close>)
  qed
  show ?thesis
    unfolding TokenSessionService_rotate_def TokenSessionService_hashRefreshToken_def Let_def
      deny_after_def TokenSessionService_denyRefresh_def wp_if wp_await wp_throw wp_asks
    by (simp, intro impI wp_mono [OF prepareRotation_outcome [OF assms]])
      (auto intro!: wp_rules intro: after_swap)
qed

text \<open>Revocations leave no family that they are about active.\<close>

lemma revocation_fields [simp]:
  "f_status (TokenSessionService_revocationUpdate status reason now f) = status"
  "f_familyId (TokenSessionService_revocationUpdate status reason now f) = f_familyId f"
  "f_currentTokenHash (TokenSessionService_revocationUpdate status reason now f) = None"
  "f_revokedReason (TokenSessionService_revocationUpdate status reason now f) = Some reason"
  by (simp_all add: TokenSessionService_revocationUpdate_def)

lemma wp_revoke_where:
  assumes "\<And>now z. Q () (w\<lparr>families := update_where (\<lambda>f. p f \<and> f_status f = FamilyActive)
      (TokenSessionService_revocationUpdate status reason now) (families w), env := z\<rparr>)"
    and "\<And>e w'. store_error e \<Longrightarrow> E e w'"
  shows "wp (revoke_where A p status reason) Q E w"
  unfolding revoke_where_def using assms by (auto intro!: wp_rules)

lemma revoke_where_outcome:
  assumes "status \<noteq> FamilyActive"
  shows "wp (revoke_where A p status reason)
    (\<lambda>_ w'. markers w' = markers w \<and>
       (\<forall>f \<in> set (families w'). f_status f = FamilyActive \<longrightarrow> \<not> p f \<and> f \<in> set (families w)))
    (\<lambda>e _. store_error e) w"
proof -
  have key: "\<forall>f \<in> set (update_where (\<lambda>f. p f \<and> f_status f = FamilyActive)
      (TokenSessionService_revocationUpdate status reason now) fs).
      f_status f = FamilyActive \<longrightarrow> \<not> p f \<and> f \<in> set fs" for fs now
  proof (intro ballI impI)
    fix f assume f: "f \<in> set (update_where (\<lambda>f. p f \<and> f_status f = FamilyActive)
      (TokenSessionService_revocationUpdate status reason now) fs)" and a: "f_status f = FamilyActive"
    from f obtain y where y: "y \<in> set fs" "f = (if p y \<and> f_status y = FamilyActive
        then TokenSessionService_revocationUpdate status reason now y else y)"
      unfolding set_update_where by blast
    show "\<not> p f \<and> f \<in> set fs"
    proof (cases "p y \<and> f_status y = FamilyActive")
      case True
      with y(2) have "f_status f = status" by (metis revocation_fields(1))
      with a assms show ?thesis by simp
    next
      case False
      then have "f = y" using y(2) by (simp only: if_False)
      with False y(1) a show ?thesis by blast
    qed
  qed
  show ?thesis
  proof (rule wp_revoke_where)
    fix now z
    let ?w = "w\<lparr>families := update_where (\<lambda>f. p f \<and> f_status f = FamilyActive)
      (TokenSessionService_revocationUpdate status reason now) (families w), env := z\<rparr>"
    have eq: "families ?w = update_where (\<lambda>f. p f \<and> f_status f = FamilyActive)
      (TokenSessionService_revocationUpdate status reason now) (families w)"
      and mk: "markers ?w = markers w" by simp_all
    show "markers ?w = markers w \<and>
        (\<forall>f \<in> set (families ?w). f_status f = FamilyActive \<longrightarrow> \<not> p f \<and> f \<in> set (families w))"
      unfolding eq mk by (intro conjI refl key)
  qed
qed

text \<open>A token whose marker is committed revokes the family it belonged to.\<close>

lemma replay_outcome:
  assumes "\<exists>k \<in> set (markers w). k_tokenHash k = sha256 A t"
    and "\<forall>k \<in> set (markers w). k_tokenHash k = sha256 A t \<longrightarrow>
      k_status k = MarkerCommitted \<and> k_familyId k = i"
    and "t \<noteq> []"
  shows "wp (TokenSessionService_rotate A t) (\<lambda>_ _. False)
    (\<lambda>e w'. store_error e \<or> e = Unauthorized genericRefreshDenial \<and>
       (\<forall>f \<in> set (families w'). f_familyId f = i \<longrightarrow> f_status f \<noteq> FamilyActive)) w"
proof -
  have revoke: "wp (TokenSessionService_revokeAsReplay A i)
      (\<lambda>_ w'. \<forall>f \<in> set (families w'). f_familyId f = i \<longrightarrow> f_status f \<noteq> FamilyActive)
      (\<lambda>e _. store_error e) w'" for w'
    unfolding TokenSessionService_revokeAsReplay_def
    by (rule wp_mono [OF revoke_where_outcome]) auto
  have handle: "wp (TokenSessionService_handleExistingMarker A k now) (\<lambda>_ _. False)
      (\<lambda>e w'. store_error e \<or> e = Unauthorized genericRefreshDenial \<and>
         (\<forall>f \<in> set (families w'). f_familyId f = i \<longrightarrow> f_status f \<noteq> FamilyActive)) w'"
    if "k_status k = MarkerCommitted" "k_familyId k = i" for k now w'
    unfolding TokenSessionService_handleExistingMarker_def deny_after_def TokenSessionService_denyRefresh_def
    using that wp_mono [OF revoke] by simp
  have prepare: "wp (TokenSessionService_prepareRotation A (sha256 A t) now) (\<lambda>_ _. False)
      (\<lambda>e w'. store_error e \<or> e = Unauthorized genericRefreshDenial \<and>
         (\<forall>f \<in> set (families w'). f_familyId f = i \<longrightarrow> f_status f \<noteq> FamilyActive)) w" for now
    unfolding TokenSessionService_prepareRotation_def wp_await
    using assms(1,2) by (intro mk.wp_findOne) (auto intro!: handle)
  show ?thesis
    unfolding TokenSessionService_rotate_def TokenSessionService_hashRefreshToken_def Let_def
    using assms(3) by (auto intro: wp_mono [OF prepare])
qed

lemma createFamily_outcome:
  "wp (TokenSessionService_createFamily A input)
     (\<lambda>r w'. \<exists>f. families w' = families w @ [f] \<and> f_familyId f \<notin> f_familyId ` set (families w) \<and>
        f_status f = FamilyActive \<and> f_currentTokenHash f = Some (sha256 A (rr_refreshToken r)) \<and>
        f_expiresAt f = rr_expiresAt r \<and> f_familyId f = rr_familyId r \<and>
        f_subjectType f = cf_subjectType input \<and> f_subjectId f = cf_subjectId input \<and>
        f_scopes f = cf_scopes input \<and> f_authVersion f = cf_authVersion input \<and>
        1000 \<le> f_expiresAt f - f_issuedAt f \<and>
        f_expiresAt f - f_issuedAt f \<le> maximumRefreshLifetimeSeconds * 1000 \<and>
        (1 \<le> cf_ttlSeconds input \<longrightarrow> of_int (f_expiresAt f - f_issuedAt f) \<le> cf_ttlSeconds input * 1000))
     (\<lambda>e w'. store_error e) w"
proof -
  have fields: "f_familyId (TokenSessionService_newFamily input i h now x) = i"
    "f_status (TokenSessionService_newFamily input i h now x) = FamilyActive"
    "f_currentTokenHash (TokenSessionService_newFamily input i h now x) = Some h"
    "f_expiresAt (TokenSessionService_newFamily input i h now x) = x"
    "f_issuedAt (TokenSessionService_newFamily input i h now x) = now"
    "f_subjectType (TokenSessionService_newFamily input i h now x) = cf_subjectType input"
    "f_subjectId (TokenSessionService_newFamily input i h now x) = cf_subjectId input"
    "f_scopes (TokenSessionService_newFamily input i h now x) = cf_scopes input"
    "f_authVersion (TokenSessionService_newFamily input i h now x) = cf_authVersion input" for i h now x
    by (simp_all add: TokenSessionService_newFamily_def)
  have ttl: "1 \<le> min (max 1 \<lfloor>t\<rfloor>) maximumRefreshLifetimeSeconds"
    "min (max 1 \<lfloor>t\<rfloor>) maximumRefreshLifetimeSeconds \<le> maximumRefreshLifetimeSeconds" for t :: rat
    by (simp_all add: maximumRefreshLifetimeSeconds_def)
  have le: "of_int (min (max 1 \<lfloor>t\<rfloor>) m) \<le> t" if "1 \<le> t" for t :: rat and m
  proof -
    have "of_int \<lfloor>t\<rfloor> \<le> t" by (rule of_int_floor_le)
    then have "of_int (max 1 \<lfloor>t\<rfloor>) \<le> t" using that by (simp add: max_def)
    moreover have "(of_int (min (max 1 \<lfloor>t\<rfloor>) m) :: rat) \<le> of_int (max 1 \<lfloor>t\<rfloor>)"
      by (simp only: of_int_le_iff)
    ultimately show ?thesis by (rule order_trans [rotated])
  qed
  show ?thesis
    unfolding TokenSessionService_createFamily_def TokenSessionService_hashRefreshToken_def Let_def
    using ttl [of "cf_ttlSeconds input"] le [of "cf_ttlSeconds input" maximumRefreshLifetimeSeconds]
    by (auto intro!: wp_rules simp: fields one_added_def)
qed

end

subsection \<open>How a stored session may change\<close>

text \<open>
  From one operation to the next a family keeps its identity, owner, scopes and expiry; one that is
  not active does not change at all, and one that becomes inactive has no token any more.
\<close>

definition session_step :: "family \<Rightarrow> family \<Rightarrow> bool" where
  "session_step f f' \<longleftrightarrow>
     f_familyId f' = f_familyId f \<and> f_clientId f' = f_clientId f \<and>
     f_subjectType f' = f_subjectType f \<and> f_subjectId f' = f_subjectId f \<and>
     f_scopes f' = f_scopes f \<and> f_authVersion f' = f_authVersion f \<and>
     f_issuedAt f' = f_issuedAt f \<and> f_expiresAt f' = f_expiresAt f \<and>
     (f_status f \<noteq> FamilyActive \<longrightarrow> f' = f) \<and>
     (f_status f' \<noteq> FamilyActive \<longrightarrow> f' = f \<or> f_currentTokenHash f' = None)"

lemma session_step_refl [simp]: "session_step f f"
  by (simp add: session_step_def)

lemma session_step_trans: "session_step f g \<Longrightarrow> session_step g h \<Longrightarrow> session_step f h"
  unfolding session_step_def by metis

lemma session_step_revoke:
  "f_status f = FamilyActive \<Longrightarrow> session_step f (TokenSessionService_revocationUpdate status reason now f)"
  by (simp add: session_step_def TokenSessionService_revocationUpdate_def)

lemma session_step_swap:
  "f_status f = FamilyActive \<Longrightarrow> session_step f (swap_token h now oper f)"
  by (simp add: session_step_def swap_token_def)

lemma list_all2_session_step_trans:
  "list_all2 session_step fs gs \<Longrightarrow> list_all2 session_step gs hs \<Longrightarrow> list_all2 session_step fs hs"
  by (rule list_all2_trans [OF session_step_trans])

lemma session_steps_closed: "session_closed (\<lambda>w. list_all2 session_step fs (families w))"
  unfolding session_closed_def
proof (intro conjI allI impI, goal_cases)
  case (2 w p status reason now)
  then show ?case
    by (simp, elim list_all2_session_step_trans)
      (intro list_all2_update_where, simp_all add: session_step_revoke)
next
  case (3 w gs g i h h' now oper)
  from 3(2) have "list_all2 session_step (families w) gs"
    by (rule list_all2_one_updated) (auto intro: session_step_swap simp: usable_with_def)
  with 3(1) show ?case by (auto elim: list_all2_session_step_trans)
qed simp_all

interpretation mem_sessions: session_store mem_app
  by unfold_locales (simp_all add: mem_app_def mem_name_env_only)

subsection \<open>Properties\<close>

text \<open>C16: rotating, reconciling and revoking never revive a revoked session, never move its expiry and
  never change whose it is: on every outcome every stored family is kept in place, and changes only
  as \<open>session_step\<close> allows.\<close>

theorem sessions_never_revive:
  assumes "session_store A"
  shows "list_all2 session_step (families w) (families (snd (TokenSessionService_rotate A t w))) \<and>
    list_all2 session_step (families w)
      (families (snd (TokenSessionService_reconcileExpiredPendingMarkers A now w))) \<and>
    list_all2 session_step (families w)
      (families (snd (TokenSessionService_revokeSubject A st sid reason w)))"
proof -
  have start: "list_all2 session_step (families w) (families w)" by (simp add: list_all2_refl)
  show ?thesis
    using keeps_snd [OF session_store.keeps_rotate [OF assms session_steps_closed] start]
      keeps_snd [OF session_store.keeps_reconcile [OF assms session_steps_closed] start]
      keeps_snd [OF session_store.keeps_revocations(3) [OF assms session_steps_closed] start]
    by blast
qed

definition sample_session :: create_family_input where
  "sample_session = \<lparr>cf_clientId = ''staff-web'', cf_subjectType = StaffSubject,
     cf_subjectId = sample_id CHR ''f'', cf_scopes = [''openid''], cf_authVersion = 0,
     cf_ttlSeconds = 604800\<rparr>"

text \<open>The sample library after a sign-in, and the session it handed out.\<close>

definition signed_in :: "mem_env world" where
  "signed_in = snd (TokenSessionService_createFamily mem_app sample_session sample_world)"

definition signed_in_token :: string where
  "signed_in_token =
     rr_refreshToken (projr (fst (TokenSessionService_createFamily mem_app sample_session sample_world)))"

theorem sessions_never_revive_witness:
  "list_all2 session_step (families signed_in)
     (families (snd (TokenSessionService_rotate mem_app signed_in_token signed_in)))"
  using sessions_never_revive [OF mem_sessions.session_store_axioms] by blast



text \<open>C17: a token that has been used up is never accepted again: the rotation is denied, and unless
  the store itself failed the family of the token has no active session left.\<close>

theorem replay_revokes_family:
  assumes "session_store A" and "t \<noteq> []"
    and "\<exists>k \<in> set (markers w). k_tokenHash k = sha256 A t"
    and "\<forall>k \<in> set (markers w). k_tokenHash k = sha256 A t \<longrightarrow>
      k_status k = MarkerCommitted \<and> k_familyId k = i"
  shows "\<exists>e w'. TokenSessionService_rotate A t w = (Inl e, w') \<and>
    (store_error e \<or> e = Unauthorized genericRefreshDenial \<and>
       (\<forall>f \<in> set (families w'). f_familyId f = i \<longrightarrow> f_status f \<noteq> FamilyActive))"
  using session_store.replay_outcome [OF assms(1,3,4,2)]
  by (auto simp: wp_def split: prod.splits sum.splits)

theorem replay_revokes_family_witness:
  "\<exists>e w'. TokenSessionService_rotate mem_app signed_in_token
      (snd (TokenSessionService_rotate mem_app signed_in_token signed_in)) = (Inl e, w') \<and>
    (store_error e \<or> e = Unauthorized genericRefreshDenial \<and>
       (\<forall>f \<in> set (families w'). f_familyId f = ''id-x'' \<longrightarrow> f_status f \<noteq> FamilyActive))"
  by (rule replay_revokes_family [OF mem_sessions.session_store_axioms]) code_simp+

text \<open>A new session is active for its subject, under a fresh id and the hash of the token handed
  out, and lives for at least a second and at most thirty days, never longer than it was asked to.\<close>

theorem new_session_lifetime:
  assumes "session_store A" and "TokenSessionService_createFamily A input w = (Inr r, w')"
  shows "\<exists>f. families w' = families w @ [f] \<and> f_familyId f \<notin> f_familyId ` set (families w) \<and>
    f_status f = FamilyActive \<and> f_currentTokenHash f = Some (sha256 A (rr_refreshToken r)) \<and>
    f_subjectType f = cf_subjectType input \<and> f_subjectId f = cf_subjectId input \<and>
    f_expiresAt f = rr_expiresAt r \<and>
    1000 \<le> f_expiresAt f - f_issuedAt f \<and> f_expiresAt f - f_issuedAt f \<le> 30 * 24 * 60 * 60 * 1000 \<and>
    (1 \<le> cf_ttlSeconds input \<longrightarrow> of_int (f_expiresAt f - f_issuedAt f) \<le> cf_ttlSeconds input * 1000)"
proof -
  have "30 * 24 * 60 * 60 * 1000 = maximumRefreshLifetimeSeconds * 1000"
    by (simp add: maximumRefreshLifetimeSeconds_def)
  with wp_return_value [OF session_store.createFamily_outcome [OF assms(1)] assms(2)]
  show ?thesis by metis
qed

theorem new_session_lifetime_witness:
  "\<exists>f. families signed_in = [f] \<and> f_status f = FamilyActive \<and> f_subjectId f = sample_id CHR ''f''"
proof -
  have run: "\<not> isl (fst (TokenSessionService_createFamily mem_app sample_session sample_world))"
    and none: "families sample_world = []"
    by code_simp+
  from new_session_lifetime [OF mem_sessions.session_store_axioms run_returned [OF run]]
  show ?thesis unfolding signed_in_def none by (force simp: sample_session_def)
qed

text \<open>Signing a subject out everywhere leaves no active session of the subject, and every other
  active session as it was.\<close>

theorem revoking_subject_is_complete:
  assumes "session_store A" and "TokenSessionService_revokeSubject A st sid reason w = (Inr u, w')"
  shows "\<forall>f \<in> set (families w'). f_status f = FamilyActive \<longrightarrow>
    \<not> (f_subjectType f = st \<and> f_subjectId f = sid) \<and> f \<in> set (families w)"
proof -
  have "wp (TokenSessionService_revokeSubject A st sid reason)
      (\<lambda>_ w'. markers w' = markers w \<and> (\<forall>f \<in> set (families w'). f_status f = FamilyActive \<longrightarrow>
         \<not> (f_subjectType f = st \<and> f_subjectId f = sid) \<and> f \<in> set (families w)))
      (\<lambda>e _. store_error e) w"
    unfolding TokenSessionService_revokeSubject_def
    by (rule session_store.revoke_where_outcome [OF assms(1)]) simp
  from wp_return_value [OF this assms(2)] show ?thesis by blast
qed

theorem revoking_subject_is_complete_witness:
  "FamilyActive \<notin> f_status ` set (families (snd (TokenSessionService_revokeSubject mem_app StaffSubject
      (sample_id CHR ''f'') ''sign-out'' signed_in)))"
proof -
  have run: "\<not> isl (fst (TokenSessionService_revokeSubject mem_app StaffSubject (sample_id CHR ''f'')
      ''sign-out'' signed_in))"
    and own: "list_all (\<lambda>f. f_subjectType f = StaffSubject \<and> f_subjectId f = sample_id CHR ''f'')
      (families signed_in)"
    by code_simp+
  from revoking_subject_is_complete [OF mem_sessions.session_store_axioms run_returned [OF run]] own
  show ?thesis unfolding list_all_iff image_iff by metis
qed

text \<open>The refresh cookie is sent to the authentication routes only, is out of reach of scripts, and
  lives no longer than the session: until its expiry, or for the given number of seconds up to
  thirty days, and never for a negative time.\<close>

theorem refresh_cookie_lifetime:
  "co_maxAge (TokenSessionService_getRefreshCookieOptions (Inl expiresAt) secure now) = max 0 (expiresAt - now) \<and>
   0 \<le> co_maxAge (TokenSessionService_getRefreshCookieOptions (Inr ttl) secure now) \<and>
   co_maxAge (TokenSessionService_getRefreshCookieOptions (Inr ttl) secure now) \<le> 30 * 24 * 60 * 60 * 1000 \<and>
   of_int (co_maxAge (TokenSessionService_getRefreshCookieOptions (Inr ttl) secure now)) \<le> max 0 ttl * 1000 \<and>
   (\<forall>x. let c = TokenSessionService_getRefreshCookieOptions x secure now in
      co_httpOnly c \<and> co_secure c = secure \<and> co_sameSite c = ''strict'' \<and> co_path c = ''/auth'')"
proof -
  define m where "m = min (max 0 ttl) (of_int maximumRefreshLifetimeSeconds) * 1000"
  have m: "0 \<le> m" "m \<le> 2592000000" "m \<le> max 0 ttl * 1000"
    by (auto simp: m_def maximumRefreshLifetimeSeconds_def min_def)
  then have "0 \<le> \<lfloor>m\<rfloor>" "\<lfloor>m\<rfloor> \<le> 2592000000" "of_int \<lfloor>m\<rfloor> \<le> max 0 ttl * 1000"
    by (simp, linarith, linarith)
  then show ?thesis
    by (simp add: TokenSessionService_getRefreshCookieOptions_def Let_def flip: m_def)
qed

end
