(* ===== verification/Rotation_Protocol.thy ===== *)
theory Rotation_Protocol
  imports Token_Session
begin

text \<open>
  The rotations of \<^verbatim>\<open>token-session.service.ts\<close> running at the same time.  A request is a state machine
  whose states are the points between two database operations of \<^verbatim>\<open>rotate\<close>; one step does one
  operation, atomically, on the shared collections, and any requests may take steps in any order,
  stop forever (a crash), or see an operation fail with or without its effect.  The clock may
  advance between any two steps, sessions may be created and revoked, and markers finalized by the
  reconciliation.  The theorem at the end says that no schedule makes two requests succeed with one
  token.
\<close>

record shared =
  sh_families :: "family list"
  sh_markers :: "marker list"
  sh_now :: date
  sh_used :: "string set"

text \<open>
  The points of a rotation; \<open>h\<close> is the hash of the token presented, \<open>sh_used\<close> the operation ids
  handed out so far (\<^verbatim>\<open>randomUUID\<close> is assumed not to repeat one).
\<close>

datatype rotation =
    Begin (token_hash: string)
  | SeekMarker string date
  | SeekFamily string date
  | InsertMarker string date family
  | Raced string date
  | SeekOwner marker date
  | TakeOver marker date family
  | Swap string date family string
  | Recover string string string
  | Commit string family string
  | Finalize string string string string
  | Revoke string family_status string
  | Rotated string string
  | Denied

definition marker_is :: "string \<Rightarrow> string \<Rightarrow> marker \<Rightarrow> bool" where
  "marker_is h oper k =
     (k_tokenHash k = h \<and> k_status k = MarkerPending \<and> k_rotationOperationId k = oper)"

text \<open>What \<^verbatim>\<open>handleExistingMarker\<close> does next, once it has read the family of the marker.\<close>

definition judge_owner :: "marker \<Rightarrow> date \<Rightarrow> family option \<Rightarrow> rotation" where
  "judge_owner k now found =
     (if (case found of Some f \<Rightarrow> f_lastRotationOperationId f = Some (k_rotationOperationId k) | None \<Rightarrow> False)
      then Finalize (k_familyId k) (k_tokenHash k) (k_rotationOperationId k) ''refresh-rotation-orphaned''
      else case found of
        None \<Rightarrow> Finalize (k_familyId k) (k_tokenHash k) (k_rotationOperationId k) ''refresh-rotation-invariant''
      | Some f \<Rightarrow>
          if \<not> usable_with (k_tokenHash k) now f \<or> k_leaseExpiresAt k = None
          then Finalize (k_familyId k) (k_tokenHash k) (k_rotationOperationId k) ''refresh-rotation-invariant''
          else if now < the (k_leaseExpiresAt k) then Denied
          else TakeOver k now f)"

definition judge_marker :: "marker \<Rightarrow> date \<Rightarrow> rotation" where
  "judge_marker k now =
     (if k_status k = MarkerCommitted
      then Revoke (k_familyId k) FamilyReplayed ''refresh-token-replay''
      else SeekOwner k now)"

definition judge_recovery :: "string \<Rightarrow> string \<Rightarrow> string \<Rightarrow> date \<Rightarrow> family option \<Rightarrow> rotation" where
  "judge_recovery i h oper now found =
     (if (case found of Some f \<Rightarrow> usable_with h now f | None \<Rightarrow> False) then Denied
      else Finalize i h oper (case found of
          Some f \<Rightarrow> if f_lastRotationOperationId f = Some oper
            then ''refresh-rotation-orphaned'' else ''refresh-rotation-invariant''
        | None \<Rightarrow> ''refresh-rotation-invariant''))"

text \<open>The result of reading one document, as \<^verbatim>\<open>findOne\<close> reads it.\<close>

definition reads_one :: "'d list \<Rightarrow> ('d \<Rightarrow> bool) \<Rightarrow> 'd option \<Rightarrow> bool" where
  "reads_one ds p found \<longleftrightarrow>
     (case found of None \<Rightarrow> (\<forall>d \<in> set ds. \<not> p d) | Some d \<Rightarrow> d \<in> set ds \<and> p d)"

inductive rotation_step :: "shared \<Rightarrow> rotation \<Rightarrow> shared \<Rightarrow> rotation \<Rightarrow> bool" where
  begin_rotation: "rotation_step s (Begin h) s (SeekMarker h (sh_now s))"
| seek_found: "reads_one (sh_markers s) (\<lambda>k. k_tokenHash k = h) (Some k) \<Longrightarrow>
    rotation_step s (SeekMarker h now) s (judge_marker k now)"
| seek_none: "reads_one (sh_markers s) (\<lambda>k. k_tokenHash k = h) None \<Longrightarrow>
    rotation_step s (SeekMarker h now) s (SeekFamily h now)"
| family_found: "reads_one (sh_families s) (usable_with h now) (Some f) \<Longrightarrow>
    rotation_step s (SeekFamily h now) s (InsertMarker h now f)"
| family_none: "reads_one (sh_families s) (usable_with h now) None \<Longrightarrow>
    rotation_step s (SeekFamily h now) s Denied"
| insert_done: "oper \<notin> sh_used s \<Longrightarrow>
    one_added marker_clash marker_valid k_tokenHash (new_marker h f oper now) (sh_markers s) \<Longrightarrow>
    rotation_step s (InsertMarker h now f)
      (s\<lparr>sh_markers := sh_markers s @ [new_marker h f oper now], sh_used := insert oper (sh_used s)\<rparr>)
      (Swap h now f oper)"
| insert_lost: "oper \<notin> sh_used s \<Longrightarrow>
    one_added marker_clash marker_valid k_tokenHash (new_marker h f oper now) (sh_markers s) \<Longrightarrow>
    rotation_step s (InsertMarker h now f)
      (s\<lparr>sh_markers := sh_markers s @ [new_marker h f oper now], sh_used := insert oper (sh_used s)\<rparr>) Denied"
| insert_duplicate: "list_ex (marker_clash (new_marker h f oper now)) (sh_markers s) \<Longrightarrow>
    rotation_step s (InsertMarker h now f) s (Raced h now)"
| raced_found: "reads_one (sh_markers s) (\<lambda>k. k_tokenHash k = h) (Some k) \<Longrightarrow>
    rotation_step s (Raced h now) s (judge_marker k now)"
| raced_none: "reads_one (sh_markers s) (\<lambda>k. k_tokenHash k = h) None \<Longrightarrow>
    rotation_step s (Raced h now) s Denied"
| owner: "reads_one (sh_families s) (\<lambda>f. f_familyId f = k_familyId k) found \<Longrightarrow>
    rotation_step s (SeekOwner k now) s (judge_owner k now found)"
| take_over_done: "oper \<notin> sh_used s \<Longrightarrow>
    one_updated marker_clash
      (\<lambda>x. marker_is (k_tokenHash k) (k_rotationOperationId k) x \<and> lease_expired now x)
      (take_over oper now) (sh_markers s) ks d \<Longrightarrow>
    rotation_step s (TakeOver k now f) (s\<lparr>sh_markers := ks, sh_used := insert oper (sh_used s)\<rparr>)
      (Swap (k_tokenHash k) now f oper)"
| take_over_lost: "oper \<notin> sh_used s \<Longrightarrow>
    one_updated marker_clash
      (\<lambda>x. marker_is (k_tokenHash k) (k_rotationOperationId k) x \<and> lease_expired now x)
      (take_over oper now) (sh_markers s) ks d \<Longrightarrow>
    rotation_step s (TakeOver k now f) (s\<lparr>sh_markers := ks, sh_used := insert oper (sh_used s)\<rparr>) Denied"
| take_over_none: "\<forall>x \<in> set (sh_markers s).
      \<not> (marker_is (k_tokenHash k) (k_rotationOperationId k) x \<and> lease_expired now x) \<Longrightarrow>
    rotation_step s (TakeOver k now f) s Denied"
| swap_done: "one_updated family_clash (\<lambda>x. f_familyId x = f_familyId f \<and> usable_with h now x)
      (swap_token h' now oper) (sh_families s) fs d \<Longrightarrow>
    rotation_step s (Swap h now f oper) (s\<lparr>sh_families := fs\<rparr>) (Commit h f oper)"
| swap_none: "\<forall>x \<in> set (sh_families s). \<not> (f_familyId x = f_familyId f \<and> usable_with h now x) \<Longrightarrow>
    rotation_step s (Swap h now f oper) s (Finalize (f_familyId f) h oper ''refresh-rotation-invariant'')"
| swap_failed: "rotation_step s (Swap h now f oper) s (Recover (f_familyId f) h oper)"
| swap_lost: "one_updated family_clash (\<lambda>x. f_familyId x = f_familyId f \<and> usable_with h now x)
      (swap_token h' now oper) (sh_families s) fs d \<Longrightarrow>
    rotation_step s (Swap h now f oper) (s\<lparr>sh_families := fs\<rparr>) (Recover (f_familyId f) h oper)"
| recover: "reads_one (sh_families s) (\<lambda>f. f_familyId f = i) found \<Longrightarrow>
    rotation_step s (Recover i h oper) s (judge_recovery i h oper (sh_now s) found)"
| commit_done: "one_updated marker_clash (marker_is h oper) (commit_marker (sh_now s)) (sh_markers s) ks d \<Longrightarrow>
    rotation_step s (Commit h f oper) (s\<lparr>sh_markers := ks\<rparr>) (Rotated h oper)"
| commit_none: "\<forall>x \<in> set (sh_markers s). \<not> marker_is h oper x \<Longrightarrow>
    rotation_step s (Commit h f oper) s (Revoke (f_familyId f) FamilyRevoked ''refresh-rotation-orphaned'')"
| commit_failed: "rotation_step s (Commit h f oper) s
      (Revoke (f_familyId f) FamilyRevoked ''refresh-rotation-orphaned'')"
| commit_lost: "one_updated marker_clash (marker_is h oper) (commit_marker (sh_now s)) (sh_markers s) ks d \<Longrightarrow>
    rotation_step s (Commit h f oper) (s\<lparr>sh_markers := ks\<rparr>)
      (Revoke (f_familyId f) FamilyRevoked ''refresh-rotation-orphaned'')"
| finalize_done: "one_updated marker_clash (marker_is h oper) (commit_marker (sh_now s)) (sh_markers s) ks d \<Longrightarrow>
    rotation_step s (Finalize i h oper reason) (s\<lparr>sh_markers := ks\<rparr>) (Revoke i FamilyRevoked reason)"
| finalize_none: "rotation_step s (Finalize i h oper reason) s (Revoke i FamilyRevoked reason)"
| revoke_done: "rotation_step s (Revoke i status reason)
      (s\<lparr>sh_families := update_where (\<lambda>f. (f_familyId f = i \<and> f_status f = FamilyActive) \<and> q f)
        (TokenSessionService_revocationUpdate status reason (sh_now s)) (sh_families s)\<rparr>) Denied"
| read_failed: "r \<in> {SeekMarker h now, SeekFamily h now, Raced h now, SeekOwner k now, TakeOver k now f,
      InsertMarker h now f, Recover i h oper} \<Longrightarrow>
    rotation_step s r s Denied"

text \<open>
  The system: numbered requests over the shared collections.  A request may begin with any token; the
  clock does not run backwards; a sign-in adds a family, a revocation ends some, and a
  reconciliation finalizes a marker.
\<close>

type_synonym system = "shared \<times> (nat \<Rightarrow> rotation option)"

inductive system_step :: "system \<Rightarrow> system \<Rightarrow> bool" where
  request: "P i = None \<Longrightarrow> system_step (s, P) (s, P(i \<mapsto> Begin h))"
| reconcile: "P i = None \<Longrightarrow> system_step (s, P) (s, P(i \<mapsto> Finalize fid h oper reason))"
| proceed: "P i = Some r \<Longrightarrow> rotation_step s r s' r' \<Longrightarrow> system_step (s, P) (s', P(i \<mapsto> r'))"
| tick: "sh_now s \<le> now \<Longrightarrow> system_step (s, P) (s\<lparr>sh_now := now\<rparr>, P)"
| sign_in: "one_added family_clash family_valid f_familyId f (sh_families s) \<Longrightarrow>
    system_step (s, P) (s\<lparr>sh_families := sh_families s @ [f]\<rparr>, P)"
| sign_out: "status \<noteq> FamilyActive \<Longrightarrow>
    system_step (s, P) (s\<lparr>sh_families := update_where (\<lambda>f. p f \<and> f_status f = FamilyActive)
      (TokenSessionService_revocationUpdate status reason (sh_now s)) (sh_families s)\<rparr>, P)"

inductive reachable :: "system \<Rightarrow> system \<Rightarrow> bool" for c where
  start: "reachable c c"
| step: "reachable c d \<Longrightarrow> system_step d e \<Longrightarrow> reachable c e"

subsection \<open>One token, one success\<close>

text \<open>The operation id a request has handed out for itself.\<close>

fun own_operation :: "rotation \<Rightarrow> string option" where
  "own_operation (Swap h now f oper) = Some oper"
| "own_operation (Commit h f oper) = Some oper"
| "own_operation (Rotated h oper) = Some oper"
| "own_operation _ = None"

definition committed_by :: "string \<Rightarrow> string \<Rightarrow> marker list \<Rightarrow> bool" where
  "committed_by h oper ks \<longleftrightarrow>
     (\<exists>k \<in> set ks. k_tokenHash k = h \<and> k_status k = MarkerCommitted \<and> k_rotationOperationId k = oper)"

definition protocol_ok :: "system \<Rightarrow> bool" where
  "protocol_ok c \<longleftrightarrow> (case c of (s, P) \<Rightarrow>
     distinct (map k_tokenHash (sh_markers s)) \<and>
     (\<forall>i r oper. P i = Some r \<longrightarrow> own_operation r = Some oper \<longrightarrow> oper \<in> sh_used s) \<and>
     (\<forall>i j r q oper. P i = Some r \<longrightarrow> P j = Some q \<longrightarrow>
        own_operation r = Some oper \<longrightarrow> own_operation q = Some oper \<longrightarrow> i = j) \<and>
     (\<forall>i h oper. P i = Some (Rotated h oper) \<longrightarrow> committed_by h oper (sh_markers s)))"

lemma commit_fields [simp]:
  "k_tokenHash (commit_marker now k) = k_tokenHash k"
  "k_rotationOperationId (commit_marker now k) = k_rotationOperationId k"
  "k_status (commit_marker now k) = MarkerCommitted"
  by (simp_all add: commit_marker_def)

lemma take_over_fields [simp]:
  "k_tokenHash (take_over oper now k) = k_tokenHash k"
  "k_status (take_over oper now k) = k_status k"
  by (simp_all add: take_over_def)

lemma new_marker_fields [simp]:
  "k_tokenHash (new_marker h f oper now) = h" "k_status (new_marker h f oper now) = MarkerPending"
  "k_rotationOperationId (new_marker h f oper now) = oper"
  by (simp_all add: new_marker_def)

text \<open>What any step does to the markers: hashes stay distinct and committed ones stay.\<close>

definition markers_grow :: "marker list \<Rightarrow> marker list \<Rightarrow> bool" where
  "markers_grow ks ks' \<longleftrightarrow>
     (distinct (map k_tokenHash ks) \<longrightarrow> distinct (map k_tokenHash ks')) \<and>
     (\<forall>k \<in> set ks. k_status k = MarkerCommitted \<longrightarrow> k \<in> set ks')"

lemma markers_grow_refl [simp]: "markers_grow ks ks"
  by (simp add: markers_grow_def)

lemma markers_grow_append: "k_tokenHash k \<notin> k_tokenHash ` set ks \<Longrightarrow> markers_grow ks (ks @ [k])"
  by (auto simp: markers_grow_def)

lemma markers_grow_updated:
  assumes "one_updated marker_clash p f ks ks' d" and "p d \<Longrightarrow> k_status d = MarkerPending"
    and "k_tokenHash (f d) = k_tokenHash d"
  shows "markers_grow ks ks'"
proof -
  from assms(1) obtain as bs where ks: "ks = as @ d # bs" and ks': "ks' = as @ f d # bs" and "p d"
    unfolding one_updated_def by blast
  with assms(2) have "k_status d = MarkerPending" by simp
  then show ?thesis unfolding ks ks' using assms(3) by (auto simp: markers_grow_def)
qed

lemma committed_by_grow: "markers_grow ks ks' \<Longrightarrow> committed_by h oper ks \<Longrightarrow> committed_by h oper ks'"
  unfolding markers_grow_def committed_by_def by blast

lemma own_operation_judged [simp]:
  "own_operation (judge_marker k now) = None" "own_operation (judge_owner k now found) = None"
  "own_operation (judge_recovery i h oper now found) = None"
  by (simp_all add: judge_marker_def judge_owner_def judge_recovery_def split: option.split)

text \<open>What one step of a request does to all that the invariant speaks of.\<close>

lemma rotation_step_effect:
  assumes "rotation_step s r s' r'"
  shows "markers_grow (sh_markers s) (sh_markers s') \<and> sh_used s \<subseteq> sh_used s' \<and>
    (\<forall>oper. own_operation r' = Some oper \<longrightarrow>
       own_operation r = Some oper \<or> oper \<notin> sh_used s \<and> oper \<in> sh_used s') \<and>
    (\<forall>h oper. r' = Rotated h oper \<longrightarrow> committed_by h oper (sh_markers s'))"
  using assms
proof cases
  case (commit_done h oper ks d f)
  have "markers_grow (sh_markers s) ks"
    by (rule markers_grow_updated [OF commit_done(4)]) (auto simp: marker_is_def)
  moreover have "committed_by h oper ks"
    using commit_done(4) by (auto simp: one_updated_def committed_by_def marker_is_def)
  ultimately show ?thesis using commit_done by simp
qed (auto simp: marker_is_def one_added_def judge_marker_def judge_owner_def judge_recovery_def
    intro!: markers_grow_append elim!: markers_grow_updated split: option.splits if_splits)

lemma protocol_ok_step:
  assumes "protocol_ok c" and "system_step c c'"
  shows "protocol_ok c'"
  using assms(2,1)
proof cases
  case (proceed P i r s s' r')
  note effect = rotation_step_effect [OF proceed(4)]
  from assms(1) proceed(1) have ok: "protocol_ok (s, P)" by simp
  show ?thesis
    unfolding proceed(2) protocol_ok_def prod.case
  proof (intro conjI allI impI)
    show "distinct (map k_tokenHash (sh_markers s'))"
      using ok effect by (auto simp: protocol_ok_def markers_grow_def)
  next
    fix j q oper
    assume "(P(i \<mapsto> r')) j = Some q" and "own_operation q = Some oper"
    then show "oper \<in> sh_used s'"
      using ok effect proceed(3) by (auto simp: protocol_ok_def split: if_splits)
  next
    fix j k q1 q2 oper
    assume "(P(i \<mapsto> r')) j = Some q1" "(P(i \<mapsto> r')) k = Some q2"
      "own_operation q1 = Some oper" "own_operation q2 = Some oper"
    then show "j = k"
      using ok effect proceed(3) unfolding protocol_ok_def prod.case by (auto split: if_splits)
  next
    fix j h oper
    assume "(P(i \<mapsto> r')) j = Some (Rotated h oper)"
    then show "committed_by h oper (sh_markers s')"
      using ok effect committed_by_grow by (auto simp: protocol_ok_def split: if_splits)
  qed
qed (auto simp: protocol_ok_def split: if_splits)

lemma protocol_ok_reachable: "reachable c d \<Longrightarrow> protocol_ok c \<Longrightarrow> protocol_ok d"
  by (induction rule: reachable.induct) (auto intro: protocol_ok_step)

lemma committed_by_unique:
  assumes "distinct (map k_tokenHash ks)" and "committed_by h oper ks" and "committed_by h oper' ks"
  shows "oper = oper'"
proof -
  from assms(2,3) obtain k k' where "k \<in> set ks" "k' \<in> set ks" "k_tokenHash k = h" "k_tokenHash k' = h"
    "k_rotationOperationId k = oper" "k_rotationOperationId k' = oper'"
    unfolding committed_by_def by blast
  with assms(1) show ?thesis by (metis distinct_map inj_onD)
qed

text \<open>An idle system: no requests yet, and markers with distinct hashes.\<close>

definition idle :: "system \<Rightarrow> bool" where
  "idle c \<longleftrightarrow> distinct (map k_tokenHash (sh_markers (fst c))) \<and> snd c = Map.empty"

lemma idle_protocol_ok: "idle c \<Longrightarrow> protocol_ok c"
  by (cases c) (simp add: idle_def protocol_ok_def)

subsection \<open>Properties\<close>

text \<open>C3: however rotations, sign-ins, revocations and reconciliations are interleaved, and whatever
  operations fail or requests stop on the way, at most one request succeeds with one token.\<close>

theorem one_success_per_token:
  assumes "idle c" and "reachable c (s, P)"
    and "P i = Some (Rotated h oper)" and "P j = Some (Rotated h oper')"
  shows "i = j"
proof -
  have ok: "protocol_ok (s, P)"
    using protocol_ok_reachable [OF assms(2)] idle_protocol_ok [OF assms(1)] .
  with assms(3,4) have "committed_by h oper (sh_markers s)" "committed_by h oper' (sh_markers s)"
    and "distinct (map k_tokenHash (sh_markers s))"
    by (auto simp: protocol_ok_def)
  then have "oper = oper'" by (metis committed_by_unique)
  with ok assms(3,4) show ?thesis
    unfolding protocol_ok_def prod.case by (metis own_operation.simps(3))
qed

text \<open>A run in which the only request succeeds.\<close>

definition sample_family :: family where
  "sample_family = TokenSessionService_newFamily sample_session ''fam'' ''h0'' 0 1000"

definition sample_shared :: shared where
  "sample_shared = \<lparr>sh_families = [sample_family], sh_markers = [], sh_now = 5, sh_used = {}\<rparr>"

definition sample_marker :: marker where
  "sample_marker = new_marker ''h0'' sample_family ''op'' 5"

definition sample_rotated :: shared where
  "sample_rotated = \<lparr>sh_families = [swap_token ''h1'' 5 ''op'' sample_family],
     sh_markers = [commit_marker 5 sample_marker], sh_now = 5, sh_used = {''op''}\<rparr>"

lemma sample_usable: "usable_with ''h0'' 5 sample_family"
  by code_simp

lemma sample_run: "reachable (sample_shared, Map.empty) (sample_rotated, [0 \<mapsto> Rotated ''h0'' ''op''])"
proof -
  let ?s = sample_shared
  let ?t = "?s\<lparr>sh_markers := [sample_marker], sh_used := {''op''}\<rparr>"
  let ?u = "?t\<lparr>sh_families := [swap_token ''h1'' 5 ''op'' sample_family]\<rparr>"
  have go: "reachable c (s', [0 \<mapsto> r'])"
    if "reachable c (s, [0 \<mapsto> r])" "rotation_step s r s' r'" for c s r s' r'
    using reachable.step [OF that(1) system_step.proceed [of "[0 \<mapsto> r]" 0 r s s' r']] that(2) by simp
  have 0: "reachable (?s, Map.empty) (?s, [0 \<mapsto> Begin ''h0''])"
    by (rule reachable.step [OF reachable.start]) (rule system_step.request, simp)
  have 1: "reachable (?s, Map.empty) (?s, [0 \<mapsto> SeekMarker ''h0'' 5])"
    using go [OF 0 rotation_step.begin_rotation] by (simp add: sample_shared_def)
  have 2: "reachable (?s, Map.empty) (?s, [0 \<mapsto> SeekFamily ''h0'' 5])"
    by (rule go [OF 1 rotation_step.seek_none]) (simp add: reads_one_def sample_shared_def)
  have 3: "reachable (?s, Map.empty) (?s, [0 \<mapsto> InsertMarker ''h0'' 5 sample_family])"
    by (rule go [OF 2 rotation_step.family_found])
      (simp add: reads_one_def sample_shared_def sample_usable)
  have valid: "marker_valid sample_marker" by code_simp
  have "rotation_step ?s (InsertMarker ''h0'' 5 sample_family) ?t (Swap ''h0'' 5 sample_family ''op'')"
    using rotation_step.insert_done [of "''op''" ?s "''h0''" sample_family 5] valid
    by (simp add: one_added_def sample_shared_def sample_marker_def)
  note 4 = go [OF 3 this]
  have "rotation_step ?t (Swap ''h0'' 5 sample_family ''op'') ?u (Commit ''h0'' sample_family ''op'')"
    by (rule rotation_step.swap_done [where h' = "''h1''" and d = sample_family])
      (auto simp: one_updated_def sample_shared_def sample_usable intro: exI [of _ "[]"])
  note 5 = go [OF 4 this]
  have "rotation_step ?u (Commit ''h0'' sample_family ''op'')
      (?u\<lparr>sh_markers := [commit_marker (sh_now ?u) sample_marker]\<rparr>) (Rotated ''h0'' ''op'')"
    by (rule rotation_step.commit_done [where d = sample_marker])
      (auto simp: one_updated_def marker_is_def sample_marker_def intro: exI [of _ "[]"])
  from go [OF 5 this] show ?thesis
    by (simp add: sample_rotated_def sample_shared_def)
qed

theorem one_success_per_token_witness:
  "{j. \<exists>oper. [0 \<mapsto> Rotated ''h0'' ''op''] j = Some (Rotated ''h0'' oper)} = {0}"
proof -
  have "idle (sample_shared, Map.empty)" by (simp add: idle_def sample_shared_def)
  note one = one_success_per_token [OF this sample_run]
  show ?thesis using one [where i = 0] by (auto split: if_splits)
qed

end
