(* ===== verification/Books.thy ===== *)
theory Books
  imports Mongo_Query Inventory Sample_World
begin

text \<open>
  \<^verbatim>\<open>src/books/books.service.ts\<close>: the catalog of books and how many copies of each are out.  An
  update of the number of copies keeps the copies that are lent.
\<close>

subsection \<open>Requests and responses\<close>

text \<open>A number of a request: a whole one, or any other (a fraction, \<^verbatim>\<open>NaN\<close>, an infinity).\<close>

datatype js_number = Whole int | NotWhole

fun whole :: "js_number \<Rightarrow> int" where
  "whole (Whole n) = n"
| "whole NotWhole = 0"

record create_book_dto =
  cb_title :: string
  cb_author :: "string option"
  cb_isbn :: "string option"
  cb_coverImageUrl :: "string option"
  cb_catalogIdentifier :: string
  cb_categoryId :: string
  cb_totalQuantity :: js_number

record update_book_dto =
  ub_title :: "string option"
  ub_author :: "string option"
  ub_isbn :: "string option"
  ub_coverImageUrl :: "string option"
  ub_catalogIdentifier :: "string option"
  ub_categoryId :: "string option"
  ub_totalQuantity :: "js_number option"
  ub_status :: "item_status option"

record book_query = page +
  bq_q :: "string option"
  bq_author :: "string option"
  bq_categoryId :: "string option"
  bq_status :: "item_status option"
  bq_availableOnly :: bool

record book_response =
  rb_id :: string
  rb_title :: string
  rb_author :: "string option"
  rb_isbn :: "string option"
  rb_coverImageUrl :: "string option"
  rb_catalogIdentifier :: string
  rb_categoryId :: string
  rb_totalQuantity :: int
  rb_availableQuantity :: int
  rb_status :: item_status

subsection \<open>The service\<close>

definition BooksService_toResponse :: "book \<Rightarrow> book_response" where
  "BooksService_toResponse b = \<lparr>rb_id = b_id b, rb_title = b_title b, rb_author = b_author b,
     rb_isbn = b_isbn b, rb_coverImageUrl = b_coverImageUrl b,
     rb_catalogIdentifier = b_catalogIdentifier b, rb_categoryId = b_categoryId b,
     rb_totalQuantity = b_totalQuantity b, rb_availableQuantity = b_availableQuantity b,
     rb_status = b_status b\<rparr>"

definition BooksService_validateQuantity :: "js_number \<Rightarrow> ('w, unit) io" where
  "BooksService_validateQuantity totalQuantity =
     (case totalQuantity of
        NotWhole \<Rightarrow> throw (BadRequest ''Book total quantity must be zero or greater'')
      | Whole n \<Rightarrow>
          if n < 0 then throw (BadRequest ''Book total quantity must be zero or greater'') else ret ())"

definition BooksService_findDocumentById :: "'e app \<Rightarrow> string \<Rightarrow> ('e world, book) io" where
  "BooksService_findDocumentById A i =
     await (toMongoObjectId i ''id'') (\<lambda>oid.
     await (findOne (bookModel A) (\<lambda>b. b_id b = oid)) (\<lambda>found.
     require (NotFound ''Book not found'') found))"

text \<open>\<open>actor\<close> is the actor's id, if there is one.\<close>

definition BooksService_newBook :: "create_book_dto \<Rightarrow> string option \<Rightarrow> string \<Rightarrow> book" where
  "BooksService_newBook dto actor i = book_cast
     \<lparr>b_id = i, b_title = cb_title dto, b_author = cb_author dto, b_isbn = cb_isbn dto,
      b_coverImageUrl = cb_coverImageUrl dto, b_catalogIdentifier = cb_catalogIdentifier dto,
      b_categoryId = cb_categoryId dto, b_totalQuantity = whole (cb_totalQuantity dto),
      b_availableQuantity = whole (cb_totalQuantity dto), b_status = ItemActive,
      b_createdBy = actor, b_updatedBy = actor\<rparr>"

definition BooksService_create ::
  "'e app \<Rightarrow> create_book_dto \<Rightarrow> string option \<Rightarrow> ('e world, book_response) io" where
  "BooksService_create A dto actor =
     await (BooksService_validateQuantity (cb_totalQuantity dto)) (\<lambda>_.
     await (createDoc (bookModel A) (BooksService_newBook dto actor)) (\<lambda>createdBook.
     ret (BooksService_toResponse createdBook)))"

text \<open>
  The filter of \<^verbatim>\<open>findAll\<close>, built up in the order of the code: the later condition on the status
  replaces the earlier one.
\<close>

definition matches_text :: "string \<Rightarrow> string option \<Rightarrow> bool" where
  "matches_text needle v = (case v of None \<Rightarrow> False | Some s \<Rightarrow> containsLiteral needle s)"

definition book_filter :: "book_query \<Rightarrow> string option \<Rightarrow> book \<Rightarrow> bool" where
  "book_filter query categoryId b =
     ((\<not> truthy (bq_q query) \<or> (let q = the (bq_q query) in
          containsLiteral q (b_title b) \<or> matches_text q (b_author b) \<or>
          containsLiteral q (b_catalogIdentifier b))) \<and>
      (\<not> truthy (bq_author query) \<or> matches_text (the (bq_author query)) (b_author b)) \<and>
      (categoryId = None \<or> b_categoryId b = the categoryId) \<and>
      (if bq_availableOnly query then 0 < b_availableQuantity b \<and> b_status b = ItemActive
       else bq_status query = None \<or> b_status b = the (bq_status query)))"

definition BooksService_findAll :: "'e app \<Rightarrow> book_query \<Rightarrow> ('e world, book_response list) io" where
  "BooksService_findAll A query =
     await (if truthy (bq_categoryId query)
            then await (toMongoObjectId (the (bq_categoryId query)) ''categoryId'') (\<lambda>c. ret (Some c))
            else ret None) (\<lambda>categoryId.
     await (findSorted (bookModel A) (book_filter query categoryId)
        (\<lambda>a b. text_le (b_title a) (b_title b))
        ((q_page query - 1) * q_limit query) (q_limit query)) (\<lambda>books.
     ret (map BooksService_toResponse books)))"

definition BooksService_findOne :: "'e app \<Rightarrow> string \<Rightarrow> ('e world, book_response) io" where
  "BooksService_findOne A i =
     await (BooksService_findDocumentById A i) (\<lambda>b. ret (BooksService_toResponse b))"

text \<open>The new number of copies: the difference goes to the available ones.\<close>

definition BooksService_setQuantity :: "js_number \<Rightarrow> book \<Rightarrow> ('w, book) io" where
  "BooksService_setQuantity totalQuantity b =
     await (BooksService_validateQuantity totalQuantity) (\<lambda>_.
     (let activeLoans = b_totalQuantity b - b_availableQuantity b in
      if whole totalQuantity < activeLoans
      then throw (Conflict ''Total quantity cannot be lower than active loans'')
      else (let quantityDelta = whole totalQuantity - b_totalQuantity b in
        ret (b\<lparr>b_totalQuantity := whole totalQuantity,
               b_availableQuantity := b_availableQuantity b + quantityDelta\<rparr>))))"

text \<open>
  The assignments of \<^verbatim>\<open>update\<close>.  Each runs the setter of its path, so only the fields the request
  holds are trimmed.
\<close>

definition BooksService_assign :: "update_book_dto \<Rightarrow> string option \<Rightarrow> book \<Rightarrow> book" where
  "BooksService_assign dto actor b = b\<lparr>
     b_title := (case ub_title dto of None \<Rightarrow> b_title b | Some v \<Rightarrow> trim v),
     b_author := (case ub_author dto of None \<Rightarrow> b_author b | Some v \<Rightarrow> Some (trim v)),
     b_isbn := (case ub_isbn dto of None \<Rightarrow> b_isbn b | Some v \<Rightarrow> Some (trim v)),
     b_coverImageUrl :=
       (case ub_coverImageUrl dto of None \<Rightarrow> b_coverImageUrl b | Some v \<Rightarrow> Some (trim v)),
     b_catalogIdentifier :=
       (case ub_catalogIdentifier dto of None \<Rightarrow> b_catalogIdentifier b | Some v \<Rightarrow> trim v),
     b_categoryId := (case ub_categoryId dto of None \<Rightarrow> b_categoryId b | Some v \<Rightarrow> to_lower v),
     b_status := (case ub_status dto of None \<Rightarrow> b_status b | Some v \<Rightarrow> v),
     b_updatedBy := actor\<rparr>"

definition BooksService_update ::
  "'e app \<Rightarrow> string \<Rightarrow> update_book_dto \<Rightarrow> string option \<Rightarrow> ('e world, book_response) io" where
  "BooksService_update A i dto actor =
     await (BooksService_findDocumentById A i) (\<lambda>book.
     await (case ub_totalQuantity dto of None \<Rightarrow> ret book
            | Some n \<Rightarrow> BooksService_setQuantity n book) (\<lambda>book.
     await (saveDoc (bookModel A) (BooksService_assign dto actor book)) (\<lambda>saved.
     ret (BooksService_toResponse saved))))"

subsection \<open>What the service keeps\<close>

locale book_store = bk: collection "bookModel A" books books_update book_clash book_valid b_id
  for A :: "'e app"
begin

text \<open>
  Rules for the service's own operations, in the form of the rules of the store's: what holds of
  every outcome.  Adding a book: all of its copies are available.
\<close>

lemma wp_findDocumentById [wp_rules]:
  assumes "\<And>b z. b \<in> set (books w) \<Longrightarrow> b_id b = to_lower i \<Longrightarrow> Q b (w\<lparr>env := z\<rparr>)"
    and "\<And>e z. E e (w\<lparr>env := z\<rparr>)"
  shows "wp (BooksService_findDocumentById A i) Q E w"
  unfolding BooksService_findDocumentById_def
  by (auto intro!: wp_rules assms intro: assms(2) [where z = "env w", simplified])

lemma newBook_fields [simp]:
  "b_id (BooksService_newBook dto actor i) = i"
  "b_totalQuantity (BooksService_newBook dto actor i) = whole (cb_totalQuantity dto)"
  "b_availableQuantity (BooksService_newBook dto actor i) = whole (cb_totalQuantity dto)"
  "b_status (BooksService_newBook dto actor i) = ItemActive"
  by (simp_all add: BooksService_newBook_def book_cast_def)

lemma wp_create:
  assumes "\<And>i z. 0 \<le> whole (cb_totalQuantity dto) \<Longrightarrow> cb_totalQuantity dto \<noteq> NotWhole \<Longrightarrow>
      one_added book_clash book_valid b_id (BooksService_newBook dto actor i) (books w) \<Longrightarrow>
      Q (BooksService_toResponse (BooksService_newBook dto actor i))
        (w\<lparr>books := books w @ [BooksService_newBook dto actor i], env := z\<rparr>)"
    and "\<And>e z. E e (w\<lparr>env := z\<rparr>)"
    and "\<And>e i z. store_error e \<Longrightarrow> 0 \<le> whole (cb_totalQuantity dto) \<Longrightarrow>
      one_added book_clash book_valid b_id (BooksService_newBook dto actor i) (books w) \<Longrightarrow>
      E e (w\<lparr>books := books w @ [BooksService_newBook dto actor i], env := z\<rparr>)"
  shows "wp (BooksService_create A dto actor) Q E w"
  unfolding BooksService_create_def BooksService_validateQuantity_def
  using assms(2) [where z = "env w"]
  by (auto intro!: wp_rules assms split: js_number.split)

lemma assign_keeps [simp]:
  "b_id (BooksService_assign dto actor b) = b_id b"
  "b_totalQuantity (BooksService_assign dto actor b) = b_totalQuantity b"
  "b_availableQuantity (BooksService_assign dto actor b) = b_availableQuantity b"
  "lent_copies (BooksService_assign dto actor b) = lent_copies b"
  by (simp_all add: BooksService_assign_def lent_copies_def)

text \<open>
  Changing a book: the copies that are out are kept and the available ones do not become negative.
\<close>

lemma wp_setQuantity:
  assumes "\<And>b'. b_id b' = b_id b \<Longrightarrow> lent_copies b' = lent_copies b \<Longrightarrow> 0 \<le> b_availableQuantity b' \<Longrightarrow>
      b_totalQuantity b' = whole n \<Longrightarrow> Q b' w"
    and "\<And>e. E e w"
  shows "wp (BooksService_setQuantity n b) Q E w"
  using assms unfolding BooksService_setQuantity_def BooksService_validateQuantity_def
  by (auto split: js_number.split simp: Let_def lent_copies_def)

lemma wp_saveAssigned:
  assumes "\<And>b' ds z. b_id b' = b_id b \<Longrightarrow> lent_copies b' = lent_copies b \<Longrightarrow>
      b_availableQuantity b' = b_availableQuantity b \<Longrightarrow> b_totalQuantity b' = b_totalQuantity b \<Longrightarrow>
      replaced b_id b' (books w) ds \<Longrightarrow> Q b' (w\<lparr>books := ds, env := z\<rparr>)"
    and "\<And>e z. E e (w\<lparr>env := z\<rparr>)"
    and "\<And>e b' ds z. b_id b' = b_id b \<Longrightarrow> lent_copies b' = lent_copies b \<Longrightarrow>
      b_availableQuantity b' = b_availableQuantity b \<Longrightarrow>
      replaced b_id b' (books w) ds \<Longrightarrow> E e (w\<lparr>books := ds, env := z\<rparr>)"
  shows "wp (saveDoc (bookModel A) (BooksService_assign dto actor b)) Q E w"
  by (rule bk.wp_saveDoc) (auto intro!: assms(1,2) assms(3) [where b' = "BooksService_assign dto actor b"]
      intro: one_updated_replaced)

lemma wp_update:
  assumes "\<forall>b \<in> set (books w). 0 \<le> b_availableQuantity b"
    and "\<And>b b' ds z. b \<in> set (books w) \<Longrightarrow> b_id b = to_lower i \<Longrightarrow> b_id b' = b_id b \<Longrightarrow>
      lent_copies b' = lent_copies b \<Longrightarrow> 0 \<le> b_availableQuantity b' \<Longrightarrow>
      b_totalQuantity b' = (case ub_totalQuantity dto of None \<Rightarrow> b_totalQuantity b | Some n \<Rightarrow> whole n) \<Longrightarrow>
      replaced b_id b' (books w) ds \<Longrightarrow>
      Q (BooksService_toResponse b') (w\<lparr>books := ds, env := z\<rparr>)"
    and "\<And>e z. E e (w\<lparr>env := z\<rparr>)"
    and "\<And>e b b' ds z. b \<in> set (books w) \<Longrightarrow> b_id b = to_lower i \<Longrightarrow> b_id b' = b_id b \<Longrightarrow>
      lent_copies b' = lent_copies b \<Longrightarrow> 0 \<le> b_availableQuantity b' \<Longrightarrow>
      replaced b_id b' (books w) ds \<Longrightarrow> E e (w\<lparr>books := ds, env := z\<rparr>)"
  shows "wp (BooksService_update A i dto actor) Q E w"
proof -
  have save: "wp (saveDoc (bookModel A) (BooksService_assign dto actor c))
      (\<lambda>s. Q (BooksService_toResponse s)) E (w\<lparr>env := z\<rparr>)"
    if "b \<in> set (books w)" "b_id b = to_lower i" "b_id c = b_id b" "lent_copies c = lent_copies b"
      "0 \<le> b_availableQuantity c"
      "b_totalQuantity c = (case ub_totalQuantity dto of None \<Rightarrow> b_totalQuantity b | Some n \<Rightarrow> whole n)"
    for b c z
    by (rule wp_saveAssigned) (use that in \<open>simp_all add: assms(2) [OF that(1)] assms(3) assms(4) [OF that(1)]\<close>)
  show ?thesis
    unfolding BooksService_update_def wp_await
  proof (rule wp_findDocumentById, goal_cases)
    case (1 b z)
    then show ?case using assms(1)
      by (cases "ub_totalQuantity dto") (auto intro!: wp_setQuantity save [of b] simp: assms(3))
  qed (simp add: assms(3))
qed

text \<open>Both operations keep the lending invariant, whether they succeed or fail.\<close>

lemma create_keeps_lending:
  "lending_ok w \<Longrightarrow> wp (BooksService_create A dto actor) (\<lambda>_. lending_ok) (\<lambda>_. lending_ok) w"
  by (rule wp_create) (auto simp: one_added_def intro!: lending_ok_new_book)

lemma update_keeps_lending:
  "lending_ok w \<Longrightarrow> wp (BooksService_update A i dto actor) (\<lambda>_. lending_ok) (\<lambda>_. lending_ok) w"
  by (rule wp_update) (auto intro: lending_ok_changed_book, auto simp: lending_ok_def)

text \<open>A number of copies below the number of lent ones is refused.\<close>

lemma update_refuses:
  assumes "ub_totalQuantity dto = Some n"
    and "\<And>b. b \<in> set (books w) \<Longrightarrow> b_id b = to_lower i \<Longrightarrow> whole n < lent_copies b"
  shows "wp (BooksService_update A i dto actor) (\<lambda>_ _. False) (\<lambda>_ w'. env_step w w') w"
  unfolding BooksService_update_def BooksService_setQuantity_def BooksService_validateQuantity_def
  using assms by (auto intro!: wp_rules split: js_number.split simp: Let_def lent_copies_def)

text \<open>A listing is one page of the matching books in the order of their titles.\<close>

lemma findAll_outcome:
  "wp (BooksService_findAll A query)
     (\<lambda>rs w'. env_step w w' \<and> (\<exists>bs. mset bs = mset (filter (book_filter query
          (if truthy (bq_categoryId query) then Some (to_lower (the (bq_categoryId query))) else None)) (books w)) \<and>
        sorted_wrt (\<lambda>a b. text_le (b_title a) (b_title b)) bs \<and>
        rs = map BooksService_toResponse (take (nat (q_limit query)) (drop (nat ((q_page query - 1) * q_limit query)) bs))))
     (\<lambda>_ w'. env_step w w') w"
  unfolding BooksService_findAll_def
  by (auto intro!: wp_rules simp: total_preorder_text)

end

interpretation mem_book_store: book_store mem_app ..

subsection \<open>Properties\<close>

text \<open>C28: adding a book or changing one keeps the lending invariant, on every outcome: a change of
  the number of copies moves the available ones along and never the ones that are out.\<close>

theorem catalog_keeps_inventory:
  assumes "book_store A" and "lending_ok w"
  shows "lending_ok (snd (BooksService_create A dto actor w)) \<and>
    lending_ok (snd (BooksService_update A i change actor w))"
  using book_store.create_keeps_lending [OF assms] book_store.update_keeps_lending [OF assms]
  by (simp add: wp_state)

definition sample_change :: update_book_dto where
  "sample_change = \<lparr>ub_title = Some ''Clean Code, 2nd edition'', ub_author = None, ub_isbn = None,
     ub_coverImageUrl = None, ub_catalogIdentifier = None, ub_categoryId = None,
     ub_totalQuantity = Some (Whole 5), ub_status = None\<rparr>"

theorem catalog_keeps_inventory_witness:
  "lending_ok (snd (BooksService_update mem_app (sample_id CHR ''a'') sample_change None sample_world)) \<and>
   map b_availableQuantity (books (snd (BooksService_update mem_app (sample_id CHR ''a'') sample_change None
     sample_world))) = [4]"
proof
  show "lending_ok (snd (BooksService_update mem_app (sample_id CHR ''a'') sample_change None sample_world))"
    using catalog_keeps_inventory [OF mem_book_store.book_store_axioms sample_world_lending] by blast
  show "map b_availableQuantity (books (snd (BooksService_update mem_app (sample_id CHR ''a'') sample_change
      None sample_world))) = [4]"
    by code_simp
qed

text \<open>A number of copies below the number that are out is refused, and no collection changes.\<close>

theorem too_few_copies_are_refused:
  assumes "book_store A" and "ub_totalQuantity dto = Some n"
    and "\<forall>b \<in> set (books w). b_id b = to_lower i \<longrightarrow> whole n < lent_copies b"
  shows "\<exists>e w'. BooksService_update A i dto actor w = (Inl e, w') \<and> env_step w w'"
proof -
  have "wp (BooksService_update A i dto actor) (\<lambda>_ _. False) (\<lambda>_ w'. env_step w w') w"
    by (rule book_store.update_refuses [OF assms(1,2)]) (use assms(3) in blast)
  then show ?thesis by (auto simp: wp_def split: prod.splits sum.splits)
qed

theorem too_few_copies_are_refused_witness:
  "\<exists>e w'. BooksService_update mem_app (sample_id CHR ''a'') (sample_change\<lparr>ub_totalQuantity := Some (Whole 0)\<rparr>)
     None sample_world = (Inl e, w') \<and> env_step sample_world w'"
  by (rule too_few_copies_are_refused [OF mem_book_store.book_store_axioms])
    (simp, code_simp)

text \<open>The catalog's listing is one page, in the order of the titles, of the books that match the
  query; asked for available books only, it shows active books with a copy left.\<close>

theorem listing_is_page_of_matches:
  assumes "book_store A" and "BooksService_findAll A query w = (Inr rs, w')"
  shows "env_step w w' \<and>
    (\<exists>bs. rs = map BooksService_toResponse bs \<and> length bs \<le> nat (q_limit query) \<and>
      sorted_wrt (\<lambda>a b. text_le (b_title a) (b_title b)) bs \<and>
      (\<forall>b \<in> set bs. b \<in> set (books w) \<and>
         (bq_availableOnly query \<longrightarrow> b_status b = ItemActive \<and> 0 < b_availableQuantity b) \<and>
         (\<forall>s. bq_author query = Some s \<and> s \<noteq> [] \<longrightarrow>
            (\<exists>a. b_author b = Some a \<and> sublist (to_lower s) (to_lower a)))))"
proof -
  from wp_return_value [OF book_store.findAll_outcome [OF assms(1)] assms(2)]
  obtain bs c where env: "env_step w w'" and bs: "mset bs = mset (filter (book_filter query c) (books w))"
    and sorted: "sorted_wrt (\<lambda>a b. text_le (b_title a) (b_title b)) bs"
    and rs: "rs = map BooksService_toResponse (take (nat (q_limit query))
      (drop (nat ((q_page query - 1) * q_limit query)) bs))"
    by blast
  let ?page = "take (nat (q_limit query)) (drop (nat ((q_page query - 1) * q_limit query)) bs)"
  have "set ?page \<subseteq> {b \<in> set (books w). book_filter query c b}"
    using mset_eq_setD [OF bs] set_take_subset set_drop_subset by fastforce
  then have "\<forall>b \<in> set ?page. b \<in> set (books w) \<and>
      (bq_availableOnly query \<longrightarrow> b_status b = ItemActive \<and> 0 < b_availableQuantity b) \<and>
      (\<forall>s. bq_author query = Some s \<and> s \<noteq> [] \<longrightarrow>
        (\<exists>a. b_author b = Some a \<and> sublist (to_lower s) (to_lower a)))"
    by (auto simp: book_filter_def matches_text_def containsLiteral_iff split: option.splits)
  with env sorted rs show ?thesis
    by (intro conjI exI [of _ ?page]) (auto intro: sorted_wrt_take sorted_wrt_drop)
qed

definition sample_search :: book_query where
  "sample_search = \<lparr>q_page = 1, q_limit = 20, bq_q = Some ''clean'', bq_author = Some ''MARTIN'',
     bq_categoryId = None, bq_status = None, bq_availableOnly = True\<rparr>"

theorem listing_is_page_of_matches_witness:
  "\<exists>bs. projr (fst (BooksService_findAll mem_app sample_search sample_world)) =
     map BooksService_toResponse bs \<and> length bs \<le> 20"
proof -
  have run: "\<not> isl (fst (BooksService_findAll mem_app sample_search sample_world))"
    and limit: "q_limit sample_search = 20"
    by code_simp+
  from listing_is_page_of_matches [OF mem_book_store.book_store_axioms run_returned [OF run]]
  show ?thesis unfolding limit by (metis nat_numeral)
qed

end
