(* ===== verification/Dates.thy ===== *)
theory Dates
  imports Prelude
begin

text \<open>
  The part of JavaScript's \<^verbatim>\<open>Date\<close> the sources compute with, after the definitions of ECMAScript:
  a date is its number of milliseconds since the epoch, a day number is that count divided by the
  length of a day (rounding down), and \<^verbatim>\<open>setUTCDate\<close> replaces the day of the month, carrying over
  into the neighbouring months.  Dates stay within the range where no \<^verbatim>\<open>Date\<close> is invalid.
\<close>

definition ms_per_day :: int where
  "ms_per_day = 86400000"

definition day_number :: "int \<Rightarrow> int" where
  "day_number t = t div ms_per_day"

definition time_within_day :: "int \<Rightarrow> int" where
  "time_within_day t = t mod ms_per_day"

text \<open>
  The day of the month of a day number in the proleptic Gregorian calendar.  Days are counted from
  1 March of year 0, so that a leap day is the last of its year: 146097 days are four centuries,
  and \<open>(153 * m + 2) div 5\<close> is the day of the year on which month \<open>m\<close> (March is 0) begins.
\<close>

definition day_of_era :: "int \<Rightarrow> int" where
  "day_of_era z = (z + 719468) mod 146097"

definition year_of_era :: "int \<Rightarrow> int" where
  "year_of_era z = (let doe = day_of_era z in
     (doe - doe div 1460 + doe div 36524 - doe div 146096) div 365)"

definition day_of_year :: "int \<Rightarrow> int" where
  "day_of_year z = (let yoe = year_of_era z in
     day_of_era z - (365 * yoe + yoe div 4 - yoe div 100))"

definition days_into_month :: "int \<Rightarrow> int" where
  "days_into_month z = (let doy = day_of_year z; m = (5 * doy + 2) div 153 in
     doy - (153 * m + 2) div 5)"

definition getUTCDate :: "int \<Rightarrow> int" where
  "getUTCDate t = days_into_month (day_number t) + 1"

text \<open>\<open>MakeDay(year, month, d)\<close> is the first day of the month plus \<open>d - 1\<close>.\<close>

definition first_of_month :: "int \<Rightarrow> int" where
  "first_of_month t = day_number t - days_into_month (day_number t)"

definition setUTCDate :: "int \<Rightarrow> int \<Rightarrow> int" where
  "setUTCDate t d = (first_of_month t + (d - 1)) * ms_per_day + time_within_day t"

lemma setUTCDate_shift: "setUTCDate t (getUTCDate t + n) = t + n * ms_per_day"
proof -
  have "setUTCDate t (getUTCDate t + n) = (day_number t + n) * ms_per_day + time_within_day t"
    by (simp add: setUTCDate_def getUTCDate_def first_of_month_def)
  also have "\<dots> = t + n * ms_per_day"
    by (simp add: day_number_def time_within_day_def ms_per_day_def algebra_simps)
  finally show ?thesis .
qed

end
