(* ===== verification/Borrowings.thy ===== *)
theory Borrowings
  imports Books Dates Sample_World
begin

text \<open>
  \<^verbatim>\<open>src/borrowings\<close>: the borrowing policy (\<^verbatim>\<open>borrowings-rules.service.ts\<close>), lending and returning
  a book in one transaction, and the listings of loans (\<^verbatim>\<open>borrowings.service.ts\<close>).  The lemmas
  show that a loan is made only when the policy allows it, that lending and returning keep the
  stock of the books and the counters of the members in step with the open loans on every outcome,
  and that a member is shown the member's own loans only.

  Dates stay numbers of milliseconds in the responses, where the code prints them with
  \<^verbatim>\<open>toISOString\<close>.
\<close>

subsection \<open>The borrowing policy\<close>

record borrowing_policy_input =
  p_book :: book
  p_category :: category
  p_member :: member
  p_membershipType :: membership_type
  p_hasOverdueLoans :: bool

definition BorrowingsRulesService_assertCanBorrow :: "borrowing_policy_input \<Rightarrow> ('w, unit) io" where
  "BorrowingsRulesService_assertCanBorrow input =
     (if b_status (p_book input) \<noteq> ItemActive \<or> b_availableQuantity (p_book input) < 1
      then throw (Conflict ''Book is not available for borrowing'')
      else if c_status (p_category input) \<noteq> ItemActive \<or> c_loanPeriodDays (p_category input) < 1
      then throw (Conflict ''Book category has no active loan period'')
      else if m_status (p_member input) \<noteq> MemberActive
      then throw (Conflict ''Member is not active'')
      else if t_status (p_membershipType input) \<noteq> ItemActive
      then throw (Conflict ''Membership type is not active'')
      else if m_activeLoanCount (p_member input) \<ge> t_maxActiveLoans (p_membershipType input)
      then throw (Conflict ''Member borrowing limit has been reached'')
      else if p_hasOverdueLoans input
      then throw (Conflict ''Member has overdue loans'')
      else ret ())"

subsection \<open>Requests and responses\<close>

record create_borrowing_dto =
  cl_memberId :: string
  cl_bookId :: string

record return_borrowing_dto =
  rl_returnedAt :: "date option"

record borrowing_query = page +
  lq_memberId :: "string option"
  lq_bookId :: "string option"
  lq_status :: "loan_state option"
  lq_overdueOnly :: bool
  lq_currentOnly :: bool

record borrowing_response =
  lr_id :: string
  lr_memberId :: string
  lr_memberDisplayName :: string
  lr_memberNumber :: "string option"
  lr_bookId :: string
  lr_bookTitle :: string
  lr_bookCatalogIdentifier :: "string option"
  lr_bookCategoryId :: string
  lr_borrowedAt :: date
  lr_dueAt :: date
  lr_returnedAt :: "date option"
  lr_status :: loan_state
  lr_borrowedByStaffId :: string
  lr_returnedByStaffId :: "string option"

text \<open>
  A reference as a document holds it: an id, the document \<^verbatim>\<open>populate\<close> put in its place, or \<^verbatim>\<open>null\<close>
  when \<^verbatim>\<open>populate\<close> found none.
\<close>

datatype 'd reference = RefId string | RefDoc 'd | RefNull

definition getReferenceId :: "('d \<Rightarrow> string) \<Rightarrow> 'd reference \<Rightarrow> string" where
  "getReferenceId ident r = (case r of RefId i \<Rightarrow> i | RefDoc d \<Rightarrow> ident d | RefNull \<Rightarrow> ''null'')"

definition getPopulated :: "'d reference \<Rightarrow> 'd option" where
  "getPopulated r = (case r of RefDoc d \<Rightarrow> Some d | _ \<Rightarrow> None)"

definition populate :: "('w, 'd) model \<Rightarrow> ('d \<Rightarrow> string) \<Rightarrow> string \<Rightarrow> ('w, 'd reference) io" where
  "populate M ident i =
     await (findOne M (\<lambda>d. ident d = i)) (\<lambda>found.
     ret (case found of None \<Rightarrow> RefNull | Some d \<Rightarrow> RefDoc d))"

definition BorrowingsService_effectiveStatus :: "date \<Rightarrow> borrowing \<Rightarrow> loan_state" where
  "BorrowingsService_effectiveStatus now l =
     (if l_status l = LoanActive \<and> l_returnedAt l = None \<and> l_dueAt l < now
      then LoanOverdue else l_status l)"

definition BorrowingsService_toResponse ::
  "borrowing \<Rightarrow> book reference \<Rightarrow> member reference \<Rightarrow> date \<Rightarrow> book option \<Rightarrow> member option \<Rightarrow> borrowing_response" where
  "BorrowingsService_toResponse l bookRef memberRef now book member =
     (let resolvedBook = (case book of Some b \<Rightarrow> Some b | None \<Rightarrow> getPopulated bookRef);
          resolvedMember = (case member of Some m \<Rightarrow> Some m | None \<Rightarrow> getPopulated memberRef) in
      \<lparr>lr_id = l_id l,
       lr_memberId = getReferenceId m_id memberRef,
       lr_memberDisplayName =
         (case resolvedMember of None \<Rightarrow> ''Unknown member'' | Some m \<Rightarrow> m_fullName m),
       lr_memberNumber = map_option m_memberNumber resolvedMember,
       lr_bookId = getReferenceId b_id bookRef,
       lr_bookTitle = (case resolvedBook of None \<Rightarrow> ''Book unavailable'' | Some b \<Rightarrow> b_title b),
       lr_bookCatalogIdentifier = map_option b_catalogIdentifier resolvedBook,
       lr_bookCategoryId = l_bookCategoryId l,
       lr_borrowedAt = l_borrowedAt l,
       lr_dueAt = l_dueAt l,
       lr_returnedAt = l_returnedAt l,
       lr_status = BorrowingsService_effectiveStatus now l,
       lr_borrowedByStaffId = l_borrowedByStaffId l,
       lr_returnedByStaffId = l_returnedByStaffId l\<rparr>)"

subsection \<open>Lookups\<close>

definition BorrowingsService_requireActor :: "audit_actor option \<Rightarrow> ('w, audit_actor) io" where
  "BorrowingsService_requireActor actor =
     (case actor of
        None \<Rightarrow> throw (Unauthorized ''Authenticated staff actor is required'')
      | Some a \<Rightarrow> if actor_id a = [] then throw (Unauthorized ''Authenticated staff actor is required'')
          else ret a)"

definition BorrowingsService_findBorrowing :: "'e app \<Rightarrow> string \<Rightarrow> ('e world, borrowing) io" where
  "BorrowingsService_findBorrowing A i =
     await (toMongoObjectId i ''id'') (\<lambda>oid.
     await (findOne (borrowingModel A) (\<lambda>l. l_id l = oid)) (\<lambda>found.
     require (NotFound ''Borrowing record not found'') found))"

definition BorrowingsService_findBook :: "'e app \<Rightarrow> string \<Rightarrow> ('e world, book) io" where
  "BorrowingsService_findBook A i =
     await (toMongoObjectId i ''bookId'') (\<lambda>oid.
     await (findOne (bookModel A) (\<lambda>b. b_id b = oid)) (\<lambda>found.
     require (NotFound ''Book not found'') found))"

definition BorrowingsService_findCategory :: "'e app \<Rightarrow> string \<Rightarrow> ('e world, category) io" where
  "BorrowingsService_findCategory A i =
     await (toMongoObjectId i ''categoryId'') (\<lambda>oid.
     await (findOne (categoryModel A) (\<lambda>c. c_id c = oid)) (\<lambda>found.
     require (NotFound ''Book category not found'') found))"

definition BorrowingsService_findMember :: "'e app \<Rightarrow> string \<Rightarrow> ('e world, member) io" where
  "BorrowingsService_findMember A i =
     await (toMongoObjectId i ''memberId'') (\<lambda>oid.
     await (findOne (memberModel A) (\<lambda>m. m_id m = oid)) (\<lambda>found.
     require (NotFound ''Member not found'') found))"

definition BorrowingsService_findMembershipType :: "'e app \<Rightarrow> string \<Rightarrow> ('e world, membership_type) io" where
  "BorrowingsService_findMembershipType A i =
     await (toMongoObjectId i ''membershipTypeId'') (\<lambda>oid.
     await (findOne (membershipTypeModel A) (\<lambda>t. t_id t = oid)) (\<lambda>found.
     require (NotFound ''Membership type not found'') found))"

text \<open>The loans of a member that are open past their date.\<close>

definition overdue_loan :: "string \<Rightarrow> date \<Rightarrow> borrowing \<Rightarrow> bool" where
  "overdue_loan memberId now l =
     (l_memberId l = memberId \<and> l_returnedAt l = None \<and> l_status l \<in> {LoanActive, LoanOverdue} \<and>
      l_dueAt l < now)"

definition BorrowingsService_hasOverdueLoans :: "'e app \<Rightarrow> string \<Rightarrow> date \<Rightarrow> ('e world, bool) io" where
  "BorrowingsService_hasOverdueLoans A memberId now =
     await (toMongoObjectId memberId ''memberId'') (\<lambda>oid.
     exists_doc (borrowingModel A) (overdue_loan oid now))"

definition BorrowingsService_calculateDueAt :: "date \<Rightarrow> int \<Rightarrow> date" where
  "BorrowingsService_calculateDueAt borrowedAt loanPeriodDays =
     setUTCDate borrowedAt (getUTCDate borrowedAt + loanPeriodDays)"

subsection \<open>Lending and returning\<close>

text \<open>
  What \<^verbatim>\<open>create\<close> writes: the loan, the book with a copy less, the member with a loan more.
\<close>

definition new_loan :: "member \<Rightarrow> book \<Rightarrow> category \<Rightarrow> date \<Rightarrow> audit_actor \<Rightarrow> string \<Rightarrow> borrowing" where
  "new_loan member book category borrowedAt auditActor i =
     \<lparr>l_id = i, l_memberId = m_id member, l_bookId = b_id book, l_bookCategoryId = c_id category,
      l_borrowedAt = borrowedAt,
      l_dueAt = BorrowingsService_calculateDueAt borrowedAt (c_loanPeriodDays category),
      l_returnedAt = None, l_status = LoanActive, l_borrowedByStaffId = actor_id auditActor,
      l_returnedByStaffId = None\<rparr>"

definition lend_copy :: "audit_actor \<Rightarrow> book \<Rightarrow> book" where
  "lend_copy auditActor b =
     b\<lparr>b_availableQuantity := b_availableQuantity b - 1, b_updatedBy := Some (actor_id auditActor)\<rparr>"

definition count_loan :: "audit_actor \<Rightarrow> member \<Rightarrow> member" where
  "count_loan auditActor m =
     m\<lparr>m_activeLoanCount := m_activeLoanCount m + 1, m_updatedBy := Some (actor_id auditActor)\<rparr>"

definition BorrowingsService_createWork ::
  "'e app \<Rightarrow> create_borrowing_dto \<Rightarrow> audit_actor \<Rightarrow> ('e world, borrowing_response) io" where
  "BorrowingsService_createWork A dto auditActor =
     await (asks (clock A)) (\<lambda>borrowedAt.
     await (BorrowingsService_findMember A (cl_memberId dto)) (\<lambda>member.
     await (BorrowingsService_findBook A (cl_bookId dto)) (\<lambda>book.
     await (BorrowingsService_findCategory A (b_categoryId book)) (\<lambda>category.
     await (BorrowingsService_findMembershipType A (m_membershipTypeId member)) (\<lambda>membershipType.
     await (BorrowingsService_hasOverdueLoans A (m_id member) borrowedAt) (\<lambda>hasOverdueLoans.
     await (BorrowingsRulesService_assertCanBorrow
       \<lparr>p_book = book, p_category = category, p_member = member, p_membershipType = membershipType,
        p_hasOverdueLoans = hasOverdueLoans\<rparr>) (\<lambda>_.
     await (createDoc (borrowingModel A) (new_loan member book category borrowedAt auditActor)) (\<lambda>borrowing.
     await (saveDoc (bookModel A) (lend_copy auditActor book)) (\<lambda>book.
     await (saveDoc (memberModel A) (count_loan auditActor member)) (\<lambda>member.
     ret (BorrowingsService_toResponse borrowing (RefId (l_bookId borrowing))
       (RefId (l_memberId borrowing)) borrowedAt (Some book) (Some member))))))))))))"

definition BorrowingsService_create where
  "BorrowingsService_create A T dto actor =
     await (BorrowingsService_requireActor actor) (\<lambda>auditActor.
     T (BorrowingsService_createWork A dto auditActor))"

text \<open>What \<^verbatim>\<open>returnBorrowing\<close> writes.\<close>

definition close_loan :: "audit_actor \<Rightarrow> date \<Rightarrow> borrowing \<Rightarrow> borrowing" where
  "close_loan auditActor returnedAt l =
     l\<lparr>l_returnedAt := Some returnedAt, l_returnedByStaffId := Some (actor_id auditActor),
       l_status := LoanReturned\<rparr>"

definition take_back_copy :: "audit_actor \<Rightarrow> book \<Rightarrow> book" where
  "take_back_copy auditActor b =
     b\<lparr>b_availableQuantity := b_availableQuantity b + 1, b_updatedBy := Some (actor_id auditActor)\<rparr>"

definition discount_loan :: "audit_actor \<Rightarrow> member \<Rightarrow> member" where
  "discount_loan auditActor m =
     m\<lparr>m_activeLoanCount := max (m_activeLoanCount m - 1) 0,
       m_updatedBy := Some (actor_id auditActor)\<rparr>"

definition BorrowingsService_returnWork ::
  "'e app \<Rightarrow> string \<Rightarrow> return_borrowing_dto \<Rightarrow> audit_actor \<Rightarrow> ('e world, borrowing_response) io" where
  "BorrowingsService_returnWork A i dto auditActor =
     await (case rl_returnedAt dto of Some d \<Rightarrow> ret d | None \<Rightarrow> asks (clock A)) (\<lambda>returnedAt.
     await (BorrowingsService_findBorrowing A i) (\<lambda>borrowing.
     if l_returnedAt borrowing \<noteq> None \<or> l_status borrowing = LoanReturned
     then throw (Conflict ''Borrowing record has already been returned'')
     else if l_status borrowing \<noteq> LoanActive \<and> l_status borrowing \<noteq> LoanOverdue
     then throw (Conflict ''Borrowing record cannot be returned'')
     else
     await (BorrowingsService_findBook A (l_bookId borrowing)) (\<lambda>book.
     await (BorrowingsService_findMember A (l_memberId borrowing)) (\<lambda>member.
     await (saveDoc (borrowingModel A) (close_loan auditActor returnedAt borrowing)) (\<lambda>borrowing.
     await (saveDoc (bookModel A) (take_back_copy auditActor book)) (\<lambda>book.
     await (saveDoc (memberModel A) (discount_loan auditActor member)) (\<lambda>member.
     ret (BorrowingsService_toResponse borrowing (RefId (l_bookId borrowing))
       (RefId (l_memberId borrowing)) returnedAt (Some book) (Some member)))))))))"

definition BorrowingsService_returnBorrowing where
  "BorrowingsService_returnBorrowing A T i dto actor =
     await (BorrowingsService_requireActor actor) (\<lambda>auditActor.
     T (BorrowingsService_returnWork A i dto auditActor))"

subsection \<open>Listings\<close>

text \<open>
  The filter \<^verbatim>\<open>buildListFilter\<close> returns, read as a predicate; the ids it holds are object ids.
\<close>

definition list_filter :: "borrowing_query \<Rightarrow> string option \<Rightarrow> string option \<Rightarrow> date \<Rightarrow> borrowing \<Rightarrow> bool" where
  "list_filter query memberId bookId now l =
     ((memberId = None \<or> l_memberId l = the memberId) \<and>
      (bookId = None \<or> l_bookId l = the bookId) \<and>
      (if lq_overdueOnly query
       then l_returnedAt l = None \<and> l_status l \<in> {LoanActive, LoanOverdue} \<and> l_dueAt l < now
       else if lq_currentOnly query
       then l_returnedAt l = None \<and> l_status l \<in> {LoanActive, LoanOverdue}
       else lq_status query = None \<or> l_status l = the (lq_status query)))"

text \<open>An optional id of a query: absent or empty, or an object id.\<close>

definition optional_id :: "string option \<Rightarrow> string \<Rightarrow> ('w, string option) io" where
  "optional_id v fieldName =
     (if truthy v then await (toMongoObjectId (the v) fieldName) (\<lambda>oid. ret (Some oid)) else ret None)"

definition BorrowingsService_buildListFilter ::
  "borrowing_query \<Rightarrow> date \<Rightarrow> ('w, borrowing \<Rightarrow> bool) io" where
  "BorrowingsService_buildListFilter query now =
     await (optional_id (lq_memberId query) ''memberId'') (\<lambda>memberId.
     await (optional_id (lq_bookId query) ''bookId'') (\<lambda>bookId.
     ret (list_filter query memberId bookId now)))"

text \<open>\<^verbatim>\<open>populate('bookId').populate('memberId')\<close>, then the response of each loan.\<close>

definition respond_to ::
  "'e app \<Rightarrow> date \<Rightarrow> borrowing \<Rightarrow> ('e world, borrowing_response) io" where
  "respond_to A now l =
     await (populate (bookModel A) b_id (l_bookId l)) (\<lambda>bookRef.
     await (populate (memberModel A) m_id (l_memberId l)) (\<lambda>memberRef.
     ret (BorrowingsService_toResponse l bookRef memberRef now None None)))"

definition BorrowingsService_findAll ::
  "'e app \<Rightarrow> borrowing_query \<Rightarrow> ('e world, borrowing_response list) io" where
  "BorrowingsService_findAll A query =
     await (asks (clock A)) (\<lambda>now.
     await (BorrowingsService_buildListFilter query now) (\<lambda>filt.
     await (findSorted (borrowingModel A) filt (\<lambda>a b. l_dueAt a \<le> l_dueAt b)
       ((q_page query - 1) * q_limit query) (q_limit query)) (\<lambda>borrowings.
     map_io (respond_to A now) borrowings)))"

definition BorrowingsService_findOne :: "'e app \<Rightarrow> string \<Rightarrow> ('e world, borrowing_response) io" where
  "BorrowingsService_findOne A i =
     await (toMongoObjectId i ''id'') (\<lambda>oid.
     await (findOne (borrowingModel A) (\<lambda>l. l_id l = oid)) (\<lambda>found.
     await (require (NotFound ''Borrowing record not found'') found) (\<lambda>borrowing.
     await (asks (clock A)) (\<lambda>now.
     respond_to A now borrowing))))"

definition BorrowingsService_findOneForMember ::
  "'e app \<Rightarrow> string \<Rightarrow> string \<Rightarrow> ('e world, borrowing_response) io" where
  "BorrowingsService_findOneForMember A i memberId =
     await (toMongoObjectId i ''id'') (\<lambda>oid.
     await (toMongoObjectId memberId ''memberId'') (\<lambda>mid.
     await (findOne (borrowingModel A) (\<lambda>l. l_id l = oid \<and> l_memberId l = mid)) (\<lambda>found.
     await (require (NotFound ''Borrowing record not found'') found) (\<lambda>borrowing.
     await (asks (clock A)) (\<lambda>now.
     respond_to A now borrowing)))))"

definition BorrowingsService_findOverdue ::
  "'e app \<Rightarrow> borrowing_query \<Rightarrow> ('e world, borrowing_response list) io" where
  "BorrowingsService_findOverdue A query =
     BorrowingsService_findAll A (query\<lparr>lq_overdueOnly := True\<rparr>)"

definition BorrowingsService_findByMember ::
  "'e app \<Rightarrow> string \<Rightarrow> borrowing_query \<Rightarrow> ('e world, borrowing_response list) io" where
  "BorrowingsService_findByMember A memberId query =
     (if truthy (lq_memberId query) \<and> lq_memberId query \<noteq> Some memberId
      then throw (Forbidden ''Member id must come from the token'')
      else BorrowingsService_findAll A (query\<lparr>lq_memberId := Some memberId\<rparr>))"

subsection \<open>The policy, and the lending invariant\<close>

definition may_borrow :: "book \<Rightarrow> category \<Rightarrow> member \<Rightarrow> membership_type \<Rightarrow> bool \<Rightarrow> bool" where
  "may_borrow b c m t overdue \<longleftrightarrow>
     b_status b = ItemActive \<and> 1 \<le> b_availableQuantity b \<and>
     c_status c = ItemActive \<and> 1 \<le> c_loanPeriodDays c \<and> m_status m = MemberActive \<and>
     t_status t = ItemActive \<and> m_activeLoanCount m < t_maxActiveLoans t \<and> \<not> overdue"

lemma may_borrow_overdue [simp]: "\<not> may_borrow b c m t True"
  by (simp add: may_borrow_def)

lemma wp_assertCanBorrow [wp_rules]:
  assumes "may_borrow (p_book input) (p_category input) (p_member input) (p_membershipType input)
      (p_hasOverdueLoans input) \<Longrightarrow> Q () w"
    and "\<And>msg. \<not> may_borrow (p_book input) (p_category input) (p_member input) (p_membershipType input)
      (p_hasOverdueLoans input) \<Longrightarrow> E (Conflict msg) w"
  shows "wp (BorrowingsRulesService_assertCanBorrow input) Q E w"
  using assms unfolding BorrowingsRulesService_assertCanBorrow_def may_borrow_def by auto

lemma new_loan_fields [simp]:
  "l_id (new_loan m b c t a i) = i" "l_memberId (new_loan m b c t a i) = m_id m"
  "l_bookId (new_loan m b c t a i) = b_id b" "open_loan (new_loan m b c t a i)"
  by (simp_all add: new_loan_def open_loan_def)

lemma lend_copy_fields [simp]:
  "b_id (lend_copy a b) = b_id b" "b_availableQuantity (lend_copy a b) = b_availableQuantity b - 1"
  "lent_copies (lend_copy a b) = lent_copies b + 1"
  by (simp_all add: lend_copy_def lent_copies_def)

lemma count_loan_fields [simp]:
  "m_id (count_loan a m) = m_id m" "m_activeLoanCount (count_loan a m) = m_activeLoanCount m + 1"
  by (simp_all add: count_loan_def)

lemma close_loan_fields [simp]:
  "l_id (close_loan a t l) = l_id l" "l_memberId (close_loan a t l) = l_memberId l"
  "l_bookId (close_loan a t l) = l_bookId l" "\<not> open_loan (close_loan a t l)"
  by (simp_all add: close_loan_def open_loan_def)

lemma take_back_copy_fields [simp]:
  "b_id (take_back_copy a b) = b_id b"
  "b_availableQuantity (take_back_copy a b) = b_availableQuantity b + 1"
  "lent_copies (take_back_copy a b) = lent_copies b - 1"
  by (simp_all add: take_back_copy_def lent_copies_def)

lemma discount_loan_fields [simp]:
  "m_id (discount_loan a m) = m_id m"
  "m_activeLoanCount (discount_loan a m) = max (m_activeLoanCount m - 1) 0"
  by (simp_all add: discount_loan_def)

lemma balanced_lend_replaced:
  assumes "balanced ident counter key xs ls" and "replaced ident x' xs xs'"
    and "x \<in> set xs" and "ident x' = ident x" and "counter x' = counter x + 1"
    and "open_loan l" and "key l = ident x"
  shows "balanced ident counter key xs' (ls @ [l])"
proof -
  from assms(2) obtain as d bs where xs: "xs = as @ d # bs" "ident d = ident x'" "xs' = as @ x' # bs"
    unfolding replaced_def by blast
  have "x = d"
    by (rule balanced_unique [OF assms(1) [unfolded xs(1)]]) (use assms(3,4) xs(1,2) in auto)
  then show ?thesis unfolding xs(3) using assms(4-7)
    by (intro balanced_lend [OF assms(1) [unfolded xs(1)]]) simp_all
qed

lemma distinct_replaced:
  "distinct (map ident xs) \<Longrightarrow> replaced ident x xs xs' \<Longrightarrow> distinct (map ident xs')"
  by (auto simp: replaced_def)

lemma balanced_return_replaced:
  assumes "balanced ident counter key xs ls" and "replaced ident x' xs xs'" and "replaced l_id l' ls ls'"
    and "distinct (map l_id ls)" and "x \<in> set xs" and "l \<in> set ls"
    and "ident x' = ident x" and "counter x' = counter x - 1"
    and "open_loan l" and "key l = ident x" and "\<not> open_loan l'" and "key l' = key l" and "l_id l' = l_id l"
  shows "balanced ident counter key xs' ls'"
proof -
  have "distinct (map ident xs)" using assms(1) by (simp add: balanced_def)
  then obtain as bs where xs: "xs = as @ x # bs" and xs': "xs' = as @ x' # bs"
    using replaced_same [OF _ assms(2,5)] assms(7) by metis
  obtain ps qs where ls: "ls = ps @ l # qs" and ls': "ls' = ps @ l' # qs"
    using replaced_same [OF assms(4,3,6)] assms(13) by metis
  show ?thesis unfolding xs' ls' using assms(7-12)
    by (intro balanced_return [OF assms(1) [unfolded xs ls]]) simp_all
qed

text \<open>Lending and returning, as one step on the three collections.\<close>

lemma lending_ok_lend:
  assumes ok: "lending_ok w" and b: "b \<in> set (books w)" and m: "m \<in> set (members w)"
    and "1 \<le> b_availableQuantity b"
    and bs: "replaced b_id (lend_copy a b) (books w) bs"
    and ms: "replaced m_id (count_loan a m) (members w) ms"
    and "l_id l \<notin> l_id ` set (borrowings w)" and l: "open_loan l" "l_bookId l = b_id b" "l_memberId l = m_id m"
    and "canonical_refs l"
  shows "lending_ok (w\<lparr>books := bs, members := ms, borrowings := borrowings w @ [l]\<rparr>)"
proof -
  have "balanced b_id lent_copies l_bookId bs (borrowings w @ [l])"
    using ok l by (intro balanced_lend_replaced [OF _ bs b]) (simp_all add: lending_ok_def)
  moreover have "balanced m_id m_activeLoanCount l_memberId ms (borrowings w @ [l])"
    using ok l by (intro balanced_lend_replaced [OF _ ms m]) (simp_all add: lending_ok_def)
  moreover have "\<forall>x \<in> set bs. 0 \<le> b_availableQuantity x"
    using ok assms(4) replaced_set [OF bs] unfolding lending_ok_def by fastforce
  ultimately show ?thesis using ok assms(7,11) by (simp add: lending_ok_def)
qed

lemma lending_ok_return:
  assumes ok: "lending_ok w" and b: "b \<in> set (books w)" and m: "m \<in> set (members w)"
    and l: "l \<in> set (borrowings w)" "open_loan l" "l_bookId l = b_id b" "l_memberId l = m_id m"
    and bs: "replaced b_id (take_back_copy a b) (books w) bs"
    and ms: "replaced m_id (discount_loan a m) (members w) ms"
    and ls: "replaced l_id (close_loan a t l) (borrowings w) ls"
  shows "lending_ok (w\<lparr>books := bs, members := ms, borrowings := ls\<rparr>)"
proof -
  have d: "distinct (map l_id (borrowings w))" using ok by (simp add: lending_ok_def)
  have "1 \<le> m_activeLoanCount m"
    using ok m l by (intro balanced_counted [of m_id _ l_memberId "members w" "borrowings w" m l])
      (auto simp: lending_ok_def)
  then have "balanced m_id m_activeLoanCount l_memberId ms ls"
    using ok l by (intro balanced_return_replaced [OF _ ms ls d m l(1)]) (simp_all add: lending_ok_def)
  moreover have "balanced b_id lent_copies l_bookId bs ls"
    using ok l by (intro balanced_return_replaced [OF _ bs ls d b l(1)]) (simp_all add: lending_ok_def)
  moreover have "\<forall>x \<in> set bs. 0 \<le> b_availableQuantity x"
    using ok b replaced_set [OF bs] unfolding lending_ok_def by fastforce
  moreover have "\<forall>x \<in> set ls. canonical_refs x"
    using ok l(1) replaced_set [OF ls] unfolding lending_ok_def by (fastforce simp: canonical_refs_def)
  ultimately show ?thesis using ok distinct_replaced [OF d ls] by (simp add: lending_ok_def)
qed

definition query_id :: "string option \<Rightarrow> string option" where
  "query_id v = (if truthy v then map_option to_lower v else None)"

subsection \<open>What lending and returning promise\<close>

text \<open>
  \<open>loan_made dto a now w r w'\<close>: the policy allowed the loan, and the world \<open>w'\<close> differs from \<open>w\<close> by
  the loan, the copy it takes and the count it adds.  \<open>loan_closed\<close> is the same for a return.
\<close>

definition loan_made ::
  "create_borrowing_dto \<Rightarrow> audit_actor \<Rightarrow> date \<Rightarrow> 'e world \<Rightarrow> borrowing_response \<Rightarrow> 'e world \<Rightarrow> bool" where
  "loan_made dto a now w r w' \<longleftrightarrow>
     (\<exists>m b c t i bs ms.
        m \<in> set (members w) \<and> m_id m = to_lower (cl_memberId dto) \<and>
        b \<in> set (books w) \<and> b_id b = to_lower (cl_bookId dto) \<and>
        c \<in> set (categories w) \<and> c_id c = to_lower (b_categoryId b) \<and>
        t \<in> set (membershipTypes w) \<and> t_id t = to_lower (m_membershipTypeId m) \<and>
        may_borrow b c m t False \<and>
        (\<forall>l \<in> set (borrowings w). \<not> overdue_loan (m_id m) now l) \<and>
        i \<notin> l_id ` set (borrowings w) \<and>
        replaced b_id (lend_copy a b) (books w) bs \<and> replaced m_id (count_loan a m) (members w) ms \<and>
        r = BorrowingsService_toResponse (new_loan m b c now a i) (RefId (b_id b)) (RefId (m_id m))
          now (Some (lend_copy a b)) (Some (count_loan a m)) \<and>
        env_step (w\<lparr>borrowings := borrowings w @ [new_loan m b c now a i], books := bs, members := ms\<rparr>) w')"

definition loan_closed ::
  "string \<Rightarrow> audit_actor \<Rightarrow> date \<Rightarrow> 'e world \<Rightarrow> borrowing_response \<Rightarrow> 'e world \<Rightarrow> bool" where
  "loan_closed i a returnedAt w r w' \<longleftrightarrow>
     (\<exists>l b m ls bs ms.
        l \<in> set (borrowings w) \<and> l_id l = to_lower i \<and> open_loan l \<and>
        b \<in> set (books w) \<and> b_id b = to_lower (l_bookId l) \<and>
        m \<in> set (members w) \<and> m_id m = to_lower (l_memberId l) \<and>
        replaced l_id (close_loan a returnedAt l) (borrowings w) ls \<and>
        replaced b_id (take_back_copy a b) (books w) bs \<and>
        replaced m_id (discount_loan a m) (members w) ms \<and>
        r = BorrowingsService_toResponse (close_loan a returnedAt l) (RefId (l_bookId l))
          (RefId (l_memberId l)) returnedAt (Some (take_back_copy a b)) (Some (discount_loan a m)) \<and>
        env_step (w\<lparr>borrowings := ls, books := bs, members := ms\<rparr>) w')"

lemma lending_ok_env_step: "env_step w w' \<Longrightarrow> lending_ok w' = lending_ok w"
  by (auto simp: env_step_def)

lemma loan_made_keeps_lending:
  assumes "loan_made dto a now w r w'" and "lending_ok w"
  shows "lending_ok w'"
proof -
  from assms(1) obtain m b c t i bs ms where m: "m \<in> set (members w)" "m_id m = to_lower (cl_memberId dto)"
    and b: "b \<in> set (books w)" "b_id b = to_lower (cl_bookId dto)" and may: "may_borrow b c m t False"
    and i: "i \<notin> l_id ` set (borrowings w)" and bs: "replaced b_id (lend_copy a b) (books w) bs"
    and ms: "replaced m_id (count_loan a m) (members w) ms"
    and w': "env_step (w\<lparr>borrowings := borrowings w @ [new_loan m b c now a i], books := bs, members := ms\<rparr>) w'"
    unfolding loan_made_def by blast
  have "lending_ok (w\<lparr>books := bs, members := ms, borrowings := borrowings w @ [new_loan m b c now a i]\<rparr>)"
    by (rule lending_ok_lend [OF assms(2) b(1) m(1) _ bs ms])
      (use may i m b in \<open>auto simp: may_borrow_def canonical_refs_def\<close>)
  then show ?thesis unfolding lending_ok_env_step [OF w'] by (simp add: lending_ok_def)
qed

lemma loan_closed_keeps_lending:
  assumes "loan_closed i a t w r w'" and "lending_ok w"
  shows "lending_ok w'"
proof -
  from assms(1) obtain l b m ls bs ms where l: "l \<in> set (borrowings w)" "open_loan l"
    and b: "b \<in> set (books w)" "b_id b = to_lower (l_bookId l)"
    and m: "m \<in> set (members w)" "m_id m = to_lower (l_memberId l)"
    and ls: "replaced l_id (close_loan a t l) (borrowings w) ls"
    and bs: "replaced b_id (take_back_copy a b) (books w) bs"
    and ms: "replaced m_id (discount_loan a m) (members w) ms"
    and w': "env_step (w\<lparr>borrowings := ls, books := bs, members := ms\<rparr>) w'"
    unfolding loan_closed_def by blast
  have "canonical_refs l" using assms(2) l(1) by (auto simp: lending_ok_def)
  then have "lending_ok (w\<lparr>books := bs, members := ms, borrowings := ls\<rparr>)"
    by (intro lending_ok_return [OF assms(2) b(1) m(1) l _ _ bs ms ls])
      (use b m in \<open>auto simp: canonical_refs_def\<close>)
  then show ?thesis unfolding lending_ok_env_step [OF w'] by (simp add: lending_ok_def)
qed

text \<open>The service on any store that meets the contract.\<close>

locale lending_store =
  bk: collection "bookModel A" books books_update book_clash book_valid b_id +
  ct: collection "categoryModel A" categories categories_update category_clash category_valid c_id +
  mt: collection "membershipTypeModel A" membershipTypes membershipTypes_update membership_type_clash
    membership_type_valid t_id +
  mb: collection "memberModel A" members members_update member_clash member_valid m_id +
  ln: collection "borrowingModel A" borrowings borrowings_update no_clash always_valid l_id +
  tx: transaction T
  for A :: "'e app" and T :: "('e world, borrowing_response) io \<Rightarrow> ('e world, borrowing_response) io"
begin

lemma wp_createWork:
  assumes "\<And>m b c t i bs ms z. m \<in> set (members w) \<Longrightarrow> m_id m = to_lower (cl_memberId dto) \<Longrightarrow>
      b \<in> set (books w) \<Longrightarrow> b_id b = to_lower (cl_bookId dto) \<Longrightarrow>
      c \<in> set (categories w) \<Longrightarrow> c_id c = to_lower (b_categoryId b) \<Longrightarrow>
      t \<in> set (membershipTypes w) \<Longrightarrow> t_id t = to_lower (m_membershipTypeId m) \<Longrightarrow>
      may_borrow b c m t False \<Longrightarrow>
      (\<forall>l \<in> set (borrowings w). \<not> overdue_loan (to_lower (cl_memberId dto)) (clock A w) l) \<Longrightarrow>
      i \<notin> l_id ` set (borrowings w) \<Longrightarrow>
      replaced b_id (lend_copy a b) (books w) bs \<Longrightarrow> replaced m_id (count_loan a m) (members w) ms \<Longrightarrow>
      Q (BorrowingsService_toResponse (new_loan m b c (clock A w) a i) (RefId (to_lower (cl_bookId dto)))
          (RefId (to_lower (cl_memberId dto))) (clock A w) (Some (lend_copy a b)) (Some (count_loan a m)))
        (w\<lparr>borrowings := borrowings w @ [new_loan m b c (clock A w) a i], books := bs, members := ms,
           env := z\<rparr>)"
    and E: "\<And>e w'. E e w'"
  shows "wp (BorrowingsService_createWork A dto a) Q E w"
  unfolding BorrowingsService_createWork_def BorrowingsService_findMember_def
    BorrowingsService_findBook_def BorrowingsService_findCategory_def
    BorrowingsService_findMembershipType_def BorrowingsService_hasOverdueLoans_def
  by (auto intro!: wp_rules E simp: one_added_def)
    (rule assms(1), (assumption | (rule one_updated_replaced, assumption) | simp)+)

lemma wp_create:
  assumes made: "\<And>a z0 r w'. actor = Some a \<Longrightarrow> actor_id a \<noteq> [] \<Longrightarrow>
      loan_made dto a (clock A (w\<lparr>env := z0\<rparr>)) w r w' \<Longrightarrow>
      Q r w' \<and> (\<forall>e. store_error e \<longrightarrow> E e w')"
    and E: "\<And>e z. E e (w\<lparr>env := z\<rparr>)"
  shows "wp (BorrowingsService_create A T dto actor) Q E w"
proof -
  have work: "wp (T (BorrowingsService_createWork A dto a)) Q E w"
    if "actor = Some a" "actor_id a \<noteq> []" for a
  proof (rule tx.wp_transaction, rule wp_createWork, goal_cases)
    case (1 z m b c t i bs ms z')
    have "loan_made dto a (clock A (w\<lparr>env := z\<rparr>)) w
        (BorrowingsService_toResponse (new_loan m b c (clock A (w\<lparr>env := z\<rparr>)) a i)
          (RefId (to_lower (cl_bookId dto))) (RefId (to_lower (cl_memberId dto))) (clock A (w\<lparr>env := z\<rparr>))
          (Some (lend_copy a b)) (Some (count_loan a m)))
        (w\<lparr>borrowings := borrowings w @ [new_loan m b c (clock A (w\<lparr>env := z\<rparr>)) a i], books := bs,
           members := ms, env := z''\<rparr>)" for z''
      unfolding loan_made_def
      by (intro exI [of _ m] exI [of _ b] exI [of _ c] exI [of _ t] exI [of _ i] exI [of _ bs] exI [of _ ms])
        (use 1 in simp)
    from made [OF that this] show ?case by simp
  qed (simp_all add: E)
  show ?thesis
    unfolding BorrowingsService_create_def BorrowingsService_requireActor_def
    using work E [of _ "env w"] by (auto split: option.split)
qed

lemma wp_returnWork:
  assumes "\<And>l b m t ls bs ms z. l \<in> set (borrowings w) \<Longrightarrow> l_id l = to_lower i \<Longrightarrow> open_loan l \<Longrightarrow>
      b \<in> set (books w) \<Longrightarrow> b_id b = to_lower (l_bookId l) \<Longrightarrow>
      m \<in> set (members w) \<Longrightarrow> m_id m = to_lower (l_memberId l) \<Longrightarrow>
      t = (case rl_returnedAt dto of None \<Rightarrow> clock A w | Some t \<Rightarrow> t) \<Longrightarrow>
      replaced l_id (close_loan a t l) (borrowings w) ls \<Longrightarrow>
      replaced b_id (take_back_copy a b) (books w) bs \<Longrightarrow>
      replaced m_id (discount_loan a m) (members w) ms \<Longrightarrow>
      Q (BorrowingsService_toResponse (close_loan a t l) (RefId (l_bookId l)) (RefId (l_memberId l))
          t (Some (take_back_copy a b)) (Some (discount_loan a m)))
        (w\<lparr>borrowings := ls, books := bs, members := ms, env := z\<rparr>)"
    and E: "\<And>e w'. E e w'"
  shows "wp (BorrowingsService_returnWork A i dto a) Q E w"
  unfolding BorrowingsService_returnWork_def BorrowingsService_findMember_def
    BorrowingsService_findBook_def BorrowingsService_findBorrowing_def
  by (cases "rl_returnedAt dto"; auto intro!: wp_rules E)
    (rule assms(1), (assumption | (rule one_updated_replaced, assumption) | simp add: open_loan_def)+)+

lemma wp_returnBorrowing:
  assumes closed: "\<And>a t r w'. actor = Some a \<Longrightarrow> actor_id a \<noteq> [] \<Longrightarrow> loan_closed i a t w r w' \<Longrightarrow>
      (\<And>d. rl_returnedAt dto = Some d \<Longrightarrow> t = d) \<Longrightarrow> Q r w' \<and> (\<forall>e. store_error e \<longrightarrow> E e w')"
    and E: "\<And>e z. E e (w\<lparr>env := z\<rparr>)"
  shows "wp (BorrowingsService_returnBorrowing A T i dto actor) Q E w"
proof -
  have work: "wp (T (BorrowingsService_returnWork A i dto a)) Q E w"
    if "actor = Some a" "actor_id a \<noteq> []" for a
  proof (rule tx.wp_transaction, rule wp_returnWork, goal_cases)
    case (1 z l b m t ls bs ms z')
    have "loan_closed i a t w
        (BorrowingsService_toResponse (close_loan a t l) (RefId (l_bookId l)) (RefId (l_memberId l))
          t (Some (take_back_copy a b)) (Some (discount_loan a m)))
        (w\<lparr>borrowings := ls, books := bs, members := ms, env := z''\<rparr>)" for z''
      unfolding loan_closed_def
      by (intro exI [of _ l] exI [of _ b] exI [of _ m] exI [of _ ls] exI [of _ bs] exI [of _ ms])
        (use 1 in simp)
    from closed [OF that this] 1(8) show ?case by simp
  qed (simp_all add: E)
  show ?thesis
    unfolding BorrowingsService_returnBorrowing_def BorrowingsService_requireActor_def
    using work E [of _ "env w"] by (auto split: option.split)
qed

lemma create_keeps_lending:
  "lending_ok w \<Longrightarrow> wp (BorrowingsService_create A T dto actor) (\<lambda>_. lending_ok) (\<lambda>_. lending_ok) w"
  by (rule wp_create) (auto dest: loan_made_keeps_lending)

lemma return_keeps_lending:
  "lending_ok w \<Longrightarrow>
   wp (BorrowingsService_returnBorrowing A T i dto actor) (\<lambda>_. lending_ok) (\<lambda>_. lending_ok) w"
  by (rule wp_returnBorrowing) (auto dest: loan_closed_keeps_lending)

text \<open>Either the service does what it promises, or nothing changed.\<close>

lemma create_outcome:
  "wp (BorrowingsService_create A T dto actor)
     (\<lambda>r w'. \<exists>a z. actor = Some a \<and> actor_id a \<noteq> [] \<and> loan_made dto a (clock A (w\<lparr>env := z\<rparr>)) w r w')
     (\<lambda>e w'. env_step w w' \<or> store_error e \<and>
        (\<exists>a z r. actor = Some a \<and> loan_made dto a (clock A (w\<lparr>env := z\<rparr>)) w r w')) w"
  by (rule wp_create) auto

lemma return_outcome:
  "wp (BorrowingsService_returnBorrowing A T i dto actor)
     (\<lambda>r w'. \<exists>a t. actor = Some a \<and> actor_id a \<noteq> [] \<and> loan_closed i a t w r w' \<and>
        (\<forall>d. rl_returnedAt dto = Some d \<longrightarrow> t = d))
     (\<lambda>e w'. env_step w w' \<or> store_error e \<and> (\<exists>a t r. actor = Some a \<and> loan_closed i a t w r w')) w"
  by (rule wp_returnBorrowing) auto

text \<open>A loan that is not open any more cannot be returned, and nothing changes.\<close>

lemma return_closed:
  assumes "\<And>l. l \<in> set (borrowings w) \<Longrightarrow> l_id l = to_lower i \<Longrightarrow> \<not> open_loan l"
  shows "wp (BorrowingsService_returnBorrowing A T i dto actor) (\<lambda>_ _. False) (\<lambda>_ w'. env_step w w') w"
  by (rule wp_returnBorrowing) (use assms in \<open>auto simp: loan_closed_def\<close>)

text \<open>The member's own loans.\<close>

lemma wp_respond_to:
  "wp (respond_to A now l)
     (\<lambda>r w'. env_step w w' \<and> lr_id r = l_id l \<and> lr_status r = BorrowingsService_effectiveStatus now l \<and>
        (lr_memberId r = l_memberId l \<or> lr_memberId r = ''null'') \<and>
        (lr_bookId r = l_bookId l \<or> lr_bookId r = ''null''))
     (\<lambda>_ w'. env_step w w') w"
  unfolding respond_to_def populate_def
  by (auto intro!: wp_rules simp: BorrowingsService_toResponse_def getReferenceId_def Let_def)

lemma wp_respond_to_all:
  "wp (map_io (respond_to A now) ls)
     (\<lambda>rs w'. env_step w w' \<and> map lr_id rs = map l_id ls \<and>
        map lr_status rs = map (BorrowingsService_effectiveStatus now) ls)
     (\<lambda>_ w'. env_step w w') w"
proof (induction ls arbitrary: w)
  case (Cons l ls)
  show ?case
    unfolding map_io.simps wp_await
    by (rule wp_mono [OF wp_respond_to], rule wp_mono [OF Cons.IH])
      (auto dest: env_step_trans)
qed simp

lemma optional_id_wp [simp]:
  "wp (optional_id v field) Q E w =
     (if truthy v \<longrightarrow> is_object_id (the v) then Q (query_id v) w
      else E (BadRequest (field @ '' must be a valid MongoDB ObjectId'')) w)"
  by (cases v) (simp_all add: optional_id_def query_id_def)

text \<open>
  A listing is one page of the loans that pass the filter, by their dates, each with its effective
  status; it changes nothing.
\<close>

lemma findAll_outcome:
  "wp (BorrowingsService_findAll A query)
     (\<lambda>rs w'. env_step w w' \<and> (\<exists>ls.
        mset ls = mset (filter (list_filter query (query_id (lq_memberId query))
          (query_id (lq_bookId query)) (clock A w)) (borrowings w)) \<and>
        sorted_wrt (\<lambda>a b. l_dueAt a \<le> l_dueAt b) ls \<and>
        (let page = take (nat (q_limit query)) (drop (nat ((q_page query - 1) * q_limit query)) ls) in
         map lr_id rs = map l_id page \<and>
         map lr_status rs = map (BorrowingsService_effectiveStatus (clock A w)) page)))
     (\<lambda>_ w'. env_step w w') w"
    (is "wp _ ?Q ?E w")
proof -
  have list: "wp (findSorted (borrowingModel A)
      (list_filter query (query_id (lq_memberId query)) (query_id (lq_bookId query)) (clock A w))
      (\<lambda>a b. l_dueAt a \<le> l_dueAt b) ((q_page query - 1) * q_limit query) (q_limit query))
      (\<lambda>ls. wp (map_io (respond_to A (clock A w)) ls) ?Q ?E) ?E w"
  proof (rule ln.wp_findSorted, goal_cases)
    case (1 ys z)
    then show ?case
      by (intro wp_mono [OF wp_respond_to_all])
        (auto simp: Let_def total_preorder_int intro!: exI [of _ ys])
  qed simp
  then show ?thesis
    unfolding BorrowingsService_findAll_def BorrowingsService_buildListFilter_def by auto
qed

text \<open>A member's listing and a member's lookup find the member's own loans.\<close>

lemma findByMember_outcome:
  assumes "memberId \<noteq> []"
  shows "wp (BorrowingsService_findByMember A memberId query)
     (\<lambda>rs w'. env_step w w' \<and> length rs \<le> nat (q_limit query) \<and>
        (\<forall>r \<in> set rs. \<exists>l \<in> set (borrowings w). l_id l = lr_id r \<and> l_memberId l = to_lower memberId))
     (\<lambda>_ w'. env_step w w') w"
proof -
  have "wp (BorrowingsService_findAll A (query\<lparr>lq_memberId := Some memberId\<rparr>))
     (\<lambda>rs w'. env_step w w' \<and> length rs \<le> nat (q_limit query) \<and>
        (\<forall>r \<in> set rs. \<exists>l \<in> set (borrowings w). l_id l = lr_id r \<and> l_memberId l = to_lower memberId))
     (\<lambda>_ w'. env_step w w') w"
  proof (rule wp_mono [OF findAll_outcome], goal_cases)
    case (1 rs w')
    then obtain ls now bookId where
      ls: "mset ls = mset (filter (list_filter (query\<lparr>lq_memberId := Some memberId\<rparr>)
        (Some (to_lower memberId)) bookId now) (borrowings w))"
      and rs: "map lr_id rs = map l_id (take (nat (q_limit query))
        (drop (nat ((q_page query - 1) * q_limit query)) ls))" (is "_ = map _ ?page")
      by (auto simp: Let_def query_id_def assms)
    have "set ?page \<subseteq> set ls" by (meson order_trans set_drop_subset set_take_subset)
    moreover have "set ls \<subseteq> {l \<in> set (borrowings w). l_memberId l = to_lower memberId}"
      using mset_eq_setD [OF ls] by (auto simp: list_filter_def)
    moreover have "lr_id ` set rs = l_id ` set ?page" using rs by (metis set_map)
    ultimately have "\<forall>r \<in> set rs. \<exists>l \<in> set (borrowings w). l_id l = lr_id r \<and> l_memberId l = to_lower memberId"
      by (smt (verit) image_iff mem_Collect_eq subset_iff)
    moreover have "length rs \<le> nat (q_limit query)"
      using map_eq_imp_length_eq [OF rs] by simp
    ultimately show ?case using 1 by simp
  qed simp
  then show ?thesis unfolding BorrowingsService_findByMember_def by simp
qed

lemma findOneForMember_outcome:
  "wp (BorrowingsService_findOneForMember A i memberId)
     (\<lambda>r w'. env_step w w' \<and> lr_id r = to_lower i \<and>
        (\<exists>l \<in> set (borrowings w). l_id l = lr_id r \<and> l_memberId l = to_lower memberId))
     (\<lambda>_ w'. env_step w w') w"
  unfolding BorrowingsService_findOneForMember_def
  by (auto intro!: wp_rules wp_mono [OF wp_respond_to]) blast+

end

text \<open>
  On a store that does not fail, a request the policy allows does lead to a loan.  \<open>borrowable\<close>
  says what the request needs: the four documents exist under their ids and satisfy the policy,
  and nothing else in the collections stands in the way of saving the book and the member.
\<close>

definition borrowable ::
  "'e app \<Rightarrow> create_borrowing_dto \<Rightarrow> 'e world \<Rightarrow> member \<Rightarrow> book \<Rightarrow> category \<Rightarrow> membership_type \<Rightarrow> bool" where
  "borrowable A dto w m b c t \<longleftrightarrow>
     is_object_id (cl_memberId dto) \<and> is_object_id (cl_bookId dto) \<and>
     is_object_id (b_categoryId b) \<and> is_object_id (m_membershipTypeId m) \<and>
     m \<in> set (members w) \<and> m_id m = to_lower (cl_memberId dto) \<and>
     b \<in> set (books w) \<and> b_id b = to_lower (cl_bookId dto) \<and>
     c \<in> set (categories w) \<and> c_id c = to_lower (b_categoryId b) \<and> distinct (map c_id (categories w)) \<and>
     t \<in> set (membershipTypes w) \<and> t_id t = to_lower (m_membershipTypeId m) \<and>
     distinct (map t_id (membershipTypes w)) \<and>
     may_borrow b c m t False \<and>
     (\<forall>z. \<forall>l \<in> set (borrowings w). \<not> overdue_loan (m_id m) (clock A (w\<lparr>env := z\<rparr>)) l) \<and>
     book_valid b \<and> (\<forall>x \<in> set (books w). b_id x \<noteq> b_id b \<longrightarrow> \<not> book_clash b x) \<and>
     member_valid m \<and> (\<forall>x \<in> set (members w). m_id x \<noteq> m_id m \<longrightarrow> \<not> member_clash m x)"

lemma is_object_id_lower: "is_object_id v \<Longrightarrow> is_object_id (to_lower v)"
  by (auto simp: is_object_id_def is_hex_def to_lower_def list_all_iff char_lower_def Let_def)

locale reliable_lending_store =
  lending_store A T +
  bk: reliable_collection "bookModel A" books books_update book_clash book_valid b_id +
  ct: reliable_collection "categoryModel A" categories categories_update category_clash category_valid c_id +
  mt: reliable_collection "membershipTypeModel A" membershipTypes membershipTypes_update
    membership_type_clash membership_type_valid t_id +
  mb: reliable_collection "memberModel A" members members_update member_clash member_valid m_id +
  ln: reliable_collection "borrowingModel A" borrowings borrowings_update no_clash always_valid l_id +
  tx: reliable_transaction T
  for A :: "'e app" and T :: "('e world, borrowing_response) io \<Rightarrow> ('e world, borrowing_response) io"
begin

lemmas reliable = bk.wp_reliable ct.wp_reliable mt.wp_reliable mb.wp_reliable ln.wp_reliable

lemma createWork_succeeds:
  assumes ok: "lending_ok w" and can: "borrowable A dto w m b c t"
  shows "wp (BorrowingsService_createWork A dto a) (\<lambda>_ _. True) (\<lambda>_ _. False) (w\<lparr>env := z\<rparr>)"
proof -
  have c: "is_object_id (cl_memberId dto)" "is_object_id (cl_bookId dto)"
      "is_object_id (b_categoryId b)" "is_object_id (m_membershipTypeId m)"
      "m \<in> set (members w)" "m_id m = to_lower (cl_memberId dto)"
      "b \<in> set (books w)" "b_id b = to_lower (cl_bookId dto)"
      "c \<in> set (categories w)" "c_id c = to_lower (b_categoryId b)"
      "t \<in> set (membershipTypes w)" "t_id t = to_lower (m_membershipTypeId m)"
    and may: "may_borrow b c m t False"
    and late: "\<And>z l. l \<in> set (borrowings w) \<Longrightarrow> \<not> overdue_loan (to_lower (cl_memberId dto)) (clock A (w\<lparr>env := z\<rparr>)) l"
    and others: "book_valid b" "\<And>x. x \<in> set (books w) \<Longrightarrow> b_id x \<noteq> to_lower (cl_bookId dto) \<Longrightarrow> \<not> book_clash b x"
      "member_valid m" "\<And>x. x \<in> set (members w) \<Longrightarrow> m_id x \<noteq> to_lower (cl_memberId dto) \<Longrightarrow> \<not> member_clash m x"
    using can unfolding borrowable_def by fastforce+
  have distinct: "distinct (map b_id (books w))" "distinct (map m_id (members w))"
      "distinct (map c_id (categories w))" "distinct (map t_id (membershipTypes w))"
    using ok can unfolding lending_ok_def balanced_def borrowable_def by blast+
  have unique: "x \<in> set (members w) \<Longrightarrow> m_id x = to_lower (cl_memberId dto) \<Longrightarrow> x = m"
    "y \<in> set (books w) \<Longrightarrow> b_id y = to_lower (cl_bookId dto) \<Longrightarrow> y = b"
    "u \<in> set (categories w) \<Longrightarrow> c_id u = to_lower (b_categoryId b) \<Longrightarrow> u = c"
    "v \<in> set (membershipTypes w) \<Longrightarrow> t_id v = to_lower (m_membershipTypeId m) \<Longrightarrow> v = t" for x y u v
    using distinct c(5-12) unfolding distinct_map by (metis inj_onD)+
  have saved: "book_valid (lend_copy a b)" "member_valid (count_loan a m)"
    using may others(1,3)
    by (simp_all add: may_borrow_def book_valid_def member_valid_def lend_copy_def count_loan_def)
  have clash: "book_clash (lend_copy a b) x = book_clash b x"
    "member_clash (count_loan a m) y = member_clash m y" for x y
    by (simp_all add: lend_copy_def count_loan_def book_clash_def member_clash_def)
  have member: "wp (BorrowingsService_findMember A (cl_memberId dto)) Q E (w\<lparr>env := z\<rparr>)"
    if "\<And>z. Q m (w\<lparr>env := z\<rparr>)" for Q E z
    unfolding BorrowingsService_findMember_def using that c(1,5,6)
    by (auto intro!: reliable) (metis unique(1))
  have book: "wp (BorrowingsService_findBook A (cl_bookId dto)) Q E (w\<lparr>env := z\<rparr>)"
    if "\<And>z. Q b (w\<lparr>env := z\<rparr>)" for Q E z
    unfolding BorrowingsService_findBook_def using that c(2,7,8)
    by (auto intro!: reliable) (metis unique(2))
  have category: "wp (BorrowingsService_findCategory A (b_categoryId b)) Q E (w\<lparr>env := z\<rparr>)"
    if "\<And>z. Q c (w\<lparr>env := z\<rparr>)" for Q E z
    unfolding BorrowingsService_findCategory_def using that c(3,9,10)
    by (auto intro!: reliable) (metis unique(3))
  have mtype: "wp (BorrowingsService_findMembershipType A (m_membershipTypeId m)) Q E (w\<lparr>env := z\<rparr>)"
    if "\<And>z. Q t (w\<lparr>env := z\<rparr>)" for Q E z
    unfolding BorrowingsService_findMembershipType_def using that c(4,11,12)
    by (auto intro!: reliable) (metis unique(4))
  have overdue: "wp (BorrowingsService_hasOverdueLoans A (m_id m) (clock A (w\<lparr>env := z'\<rparr>))) Q E (w\<lparr>env := z\<rparr>)"
    if "\<And>z. Q False (w\<lparr>env := z\<rparr>)" for Q E z z'
    unfolding BorrowingsService_hasOverdueLoans_def using that c(1,6) late
    by (auto intro!: reliable simp: is_object_id_lower)
  show ?thesis
    unfolding BorrowingsService_createWork_def wp_await wp_asks
    apply (rule member book category mtype overdue)+
    apply (rule wp_assertCanBorrow)
    subgoal for z1 z2 z3 z4 z5
      using imageI [OF c(7), of b_id] imageI [OF c(5), of m_id] c(5-8) others(2,4) clash
        distinct(1,2) saved
      by (auto intro!: reliable simp: one_added_def no_clash_def always_valid_def)
    subgoal using may by simp
    done
qed

lemma create_succeeds:
  assumes "lending_ok w" and "borrowable A dto w m b c t" and "actor_id a \<noteq> []"
  shows "wp (BorrowingsService_create A T dto (Some a)) (\<lambda>_ _. True) (\<lambda>_ _. False) w"
  unfolding BorrowingsService_create_def BorrowingsService_requireActor_def
  using assms(3) createWork_succeeds [OF assms(1,2)]
  by (auto intro!: tx.wp_transaction_reliable)

end

interpretation mem_lending: reliable_lending_store mem_app mem_transaction ..

subsection \<open>Properties\<close>

lemma lending_store_books: "lending_store A T \<Longrightarrow> book_store A"
  by (simp add: lending_store_def book_store_def)

definition sample_request :: create_borrowing_dto where
  "sample_request = \<lparr>cl_memberId = sample_id CHR ''b'', cl_bookId = sample_id CHR ''A''\<rparr>"

text \<open>C1: lending a book keeps the books' stock and the members' counters equal to the open loans,
  whatever the outcome: a loan, a refusal, a fault of the store in the middle of the transaction, or
  a commit whose outcome was not learnt.\<close>

theorem lending_keeps_inventory:
  assumes "lending_store A T" and "lending_ok w"
  shows "lending_ok (snd (BorrowingsService_create A T dto actor w))"
  using lending_store.create_keeps_lending [OF assms] by (simp add: wp_state)

theorem lending_keeps_inventory_witness:
  "lending_ok (snd (BorrowingsService_create mem_app mem_transaction sample_request (Some sample_actor)
     sample_world))"
  by (rule lending_keeps_inventory [OF mem_lending.lending_store_axioms sample_world_lending])

text \<open>C2: returning a book keeps the same invariant on every outcome.\<close>

theorem returning_keeps_inventory:
  assumes "lending_store A T" and "lending_ok w"
  shows "lending_ok (snd (BorrowingsService_returnBorrowing A T i dto actor w))"
  using lending_store.return_keeps_lending [OF assms] by (simp add: wp_state)

theorem returning_keeps_inventory_witness:
  "lending_ok (snd (BorrowingsService_returnBorrowing mem_app mem_transaction (sample_id CHR ''e'')
     \<lparr>rl_returnedAt = None\<rparr> (Some sample_actor) sample_world))"
  by (rule returning_keeps_inventory [OF mem_lending.lending_store_axioms sample_world_lending])

text \<open>C5: a loan is made for a signed-in actor and only when the policy allows it: an active book
  with a copy left, an active category with a loan period, an active member below the limit of an
  active membership type and without overdue loans.  It is due the category's number of days after
  it was made, takes one copy of the book and counts for the member.\<close>

theorem loan_obeys_policy:
  assumes "lending_store A T" and "BorrowingsService_create A T dto actor w = (Inr r, w')"
  shows "\<exists>a m b c t l. actor = Some a \<and> actor_id a \<noteq> [] \<and>
    m \<in> set (members w) \<and> m_id m = to_lower (cl_memberId dto) \<and> m_status m = MemberActive \<and>
    b \<in> set (books w) \<and> b_id b = to_lower (cl_bookId dto) \<and> b_status b = ItemActive \<and>
    1 \<le> b_availableQuantity b \<and>
    c \<in> set (categories w) \<and> c_id c = to_lower (b_categoryId b) \<and> c_status c = ItemActive \<and>
    t \<in> set (membershipTypes w) \<and> t_id t = to_lower (m_membershipTypeId m) \<and> t_status t = ItemActive \<and>
    m_activeLoanCount m < t_maxActiveLoans t \<and>
    (\<forall>k \<in> set (borrowings w). \<not> overdue_loan (m_id m) (l_borrowedAt l) k) \<and>
    borrowings w' = borrowings w @ [l] \<and> open_loan l \<and> l_memberId l = m_id m \<and> l_bookId l = b_id b \<and>
    l_dueAt l = l_borrowedAt l + c_loanPeriodDays c * ms_per_day \<and>
    replaced b_id (lend_copy a b) (books w) (books w') \<and>
    replaced m_id (count_loan a m) (members w) (members w') \<and> lr_id r = l_id l"
proof -
  from wp_return_value [OF lending_store.create_outcome [OF assms(1)] assms(2)]
  obtain a z where a: "actor = Some a" "actor_id a \<noteq> []"
    and made: "loan_made dto a (clock A (w\<lparr>env := z\<rparr>)) w r w'" by blast
  from made obtain m b c t i bs ms where
    docs: "m \<in> set (members w)" "m_id m = to_lower (cl_memberId dto)" "b \<in> set (books w)"
      "b_id b = to_lower (cl_bookId dto)" "c \<in> set (categories w)" "c_id c = to_lower (b_categoryId b)"
      "t \<in> set (membershipTypes w)" "t_id t = to_lower (m_membershipTypeId m)"
    and policy: "may_borrow b c m t False"
      "\<forall>k \<in> set (borrowings w). \<not> overdue_loan (m_id m) (clock A (w\<lparr>env := z\<rparr>)) k"
    and writes: "replaced b_id (lend_copy a b) (books w) bs" "replaced m_id (count_loan a m) (members w) ms"
      "r = BorrowingsService_toResponse (new_loan m b c (clock A (w\<lparr>env := z\<rparr>)) a i) (RefId (b_id b))
        (RefId (m_id m)) (clock A (w\<lparr>env := z\<rparr>)) (Some (lend_copy a b)) (Some (count_loan a m))"
      "env_step (w\<lparr>borrowings := borrowings w @ [new_loan m b c (clock A (w\<lparr>env := z\<rparr>)) a i],
        books := bs, members := ms\<rparr>) w'"
    unfolding loan_made_def by blast
  let ?l = "new_loan m b c (clock A (w\<lparr>env := z\<rparr>)) a i"
  have after: "borrowings w' = borrowings w @ [?l]" "books w' = bs" "members w' = ms"
    using writes(4) by (auto simp: env_step_def)
  have loan: "open_loan ?l" "l_borrowedAt ?l = clock A (w\<lparr>env := z\<rparr>)" "lr_id r = l_id ?l"
    "l_dueAt ?l = l_borrowedAt ?l + c_loanPeriodDays c * ms_per_day"
    unfolding writes(3) by (simp_all add: new_loan_def open_loan_def BorrowingsService_toResponse_def
      Let_def BorrowingsService_calculateDueAt_def setUTCDate_shift)
  show ?thesis
    using a docs policy writes(1,2) after loan
    by (intro exI [of _ a] exI [of _ m] exI [of _ b] exI [of _ c] exI [of _ t] exI [of _ ?l])
      (simp add: may_borrow_def)
qed

theorem loan_obeys_policy_witness:
  "\<exists>l. borrowings (snd (BorrowingsService_create mem_app mem_transaction sample_request
      (Some sample_actor) sample_world)) = borrowings sample_world @ [l] \<and> open_loan l \<and>
    l_dueAt l = l_borrowedAt l + 14 * ms_per_day"
proof -
  have "\<not> isl (fst (BorrowingsService_create mem_app mem_transaction sample_request
      (Some sample_actor) sample_world))"
    by code_simp
  from loan_obeys_policy [OF mem_lending.lending_store_axioms run_returned [OF this]]
  show ?thesis by (auto simp: sample_world_def sample_category_def)
qed

text \<open>C26: when lending throws anything but a fault of the store, no collection has changed; and a
  fault of the store leaves either no trace or the whole loan.\<close>

theorem failed_loan_leaves_no_trace:
  assumes "lending_store A T" and "BorrowingsService_create A T dto actor w = (Inl e, w')"
  shows "env_step w w' \<or> store_error e \<and>
    (\<exists>a now r. actor = Some a \<and> loan_made dto a now w r w')"
  using wp_thrown [OF lending_store.create_outcome [OF assms(1)] assms(2)] by blast

theorem failed_loan_leaves_no_trace_witness:
  "env_step sample_world (snd (BorrowingsService_create mem_app mem_transaction sample_request None
     sample_world))"
proof -
  have *: "BorrowingsService_create mem_app mem_transaction sample_request None sample_world =
      (Inl (Unauthorized ''Authenticated staff actor is required''), sample_world)"
    by (simp add: BorrowingsService_create_def BorrowingsService_requireActor_def await_def throw_def)
  from failed_loan_leaves_no_trace [OF mem_lending.lending_store_axioms *] * show ?thesis by simp
qed

text \<open>A loan that has been returned, or that is not open for another reason, is never returned
  again: the request is refused and nothing changes.\<close>

theorem closed_loan_is_not_returned:
  assumes "lending_store A T"
    and "\<forall>l \<in> set (borrowings w). l_id l = to_lower i \<longrightarrow> \<not> open_loan l"
  shows "\<exists>e w'. BorrowingsService_returnBorrowing A T i dto actor w = (Inl e, w') \<and> env_step w w'"
proof -
  have "wp (BorrowingsService_returnBorrowing A T i dto actor) (\<lambda>_ _. False) (\<lambda>_ w'. env_step w w') w"
    by (rule lending_store.return_closed [OF assms(1)]) (use assms(2) in blast)
  then show ?thesis by (auto simp: wp_def split: prod.splits sum.splits)
qed

theorem closed_loan_is_not_returned_witness:
  "\<exists>e w'. BorrowingsService_returnBorrowing mem_app mem_transaction (sample_id CHR ''e'')
     \<lparr>rl_returnedAt = None\<rparr> (Some sample_actor)
     (sample_world\<lparr>borrowings := [close_loan sample_actor 5 sample_loan]\<rparr>) = (Inl e, w') \<and>
     env_step (sample_world\<lparr>borrowings := [close_loan sample_actor 5 sample_loan]\<rparr>) w'"
  by (rule closed_loan_is_not_returned [OF mem_lending.lending_store_axioms]) simp



text \<open>A member who asks for one loan gets the loan of that id, and only if it is the member's
  own; asking changes nothing.\<close>

theorem member_sees_own_loan:
  assumes "lending_store A T"
    and "BorrowingsService_findOneForMember A i memberId w = (Inr r, w')"
  shows "lr_id r = to_lower i \<and> env_step w w' \<and>
    (\<exists>l \<in> set (borrowings w). l_id l = lr_id r \<and> l_memberId l = to_lower memberId)"
  using wp_return_value [OF lending_store.findOneForMember_outcome [OF assms(1)] assms(2)] by blast

theorem member_sees_own_loan_witness:
  "\<exists>l \<in> set (borrowings sample_world). l_id l = sample_id CHR ''e'' \<and> l_memberId l = sample_id CHR ''b''"
proof -
  have run: "\<not> isl (fst (BorrowingsService_findOneForMember mem_app (sample_id CHR ''E'')
      (sample_id CHR ''B'') sample_world))"
    by code_simp
  have lower: "to_lower (sample_id CHR ''E'') = sample_id CHR ''e''"
    "to_lower (sample_id CHR ''B'') = sample_id CHR ''b''"
    by code_simp+
  show ?thesis
    using member_sees_own_loan [OF mem_lending.lending_store_axioms run_returned [OF run]]
    unfolding lower by metis
qed

text \<open>A member's listing holds the member's own loans only, at most a page of them, and a query
  that names another member is refused.\<close>

theorem member_lists_own_loans:
  assumes "lending_store A T" and "memberId \<noteq> []"
    and "BorrowingsService_findByMember A memberId query w = (Inr rs, w')"
  shows "(lq_memberId query \<in> {None, Some [], Some memberId}) \<and> length rs \<le> nat (q_limit query) \<and>
    (\<forall>r \<in> set rs. \<exists>l \<in> set (borrowings w). l_id l = lr_id r \<and> l_memberId l = to_lower memberId)"
proof -
  have "lq_memberId query \<in> {None, Some [], Some memberId}"
    using assms(3) by (cases "lq_memberId query")
      (auto simp: BorrowingsService_findByMember_def throw_def split: if_splits)
  then show ?thesis
    using wp_return_value [OF lending_store.findByMember_outcome [OF assms(1,2)] assms(3)] by blast
qed

definition sample_query :: borrowing_query where
  "sample_query = \<lparr>q_page = 1, q_limit = 20, lq_memberId = None, lq_bookId = None, lq_status = None,
     lq_overdueOnly = True, lq_currentOnly = False\<rparr>"

theorem member_lists_own_loans_witness:
  "length (projr (fst (BorrowingsService_findByMember mem_app (sample_id CHR ''b'') sample_query
     (sample_world\<lparr>env := \<lparr>me_now = 1209600001, me_counter = 0\<rparr>\<rparr>)))) \<le> 20"
proof -
  have run: "\<not> isl (fst (BorrowingsService_findByMember mem_app (sample_id CHR ''b'') sample_query
     (sample_world\<lparr>env := \<lparr>me_now = 1209600001, me_counter = 0\<rparr>\<rparr>)))"
    and ne: "sample_id CHR ''b'' \<noteq> []" and limit: "q_limit sample_query = 20"
    by code_simp+
  show ?thesis
    using member_lists_own_loans [OF mem_lending.lending_store_axioms ne run_returned [OF run]]
    by (simp add: limit)
qed

text \<open>The due date is the loan period, in whole days, after the loan, across the ends of months
  and years.\<close>

theorem due_date_is_period_later:
  "BorrowingsService_calculateDueAt borrowedAt days = borrowedAt + days * ms_per_day"
  by (simp add: BorrowingsService_calculateDueAt_def setUTCDate_shift)

end
