(* ===== verification/Lending_Ledger.thy ===== *)
theory Lending_Ledger
  imports Borrowings "HOL-Library.Sublist"
begin

text \<open>
  An abstract ledger of the library: how many copies of a book are on the shelf, how many loans a
  member has, and which loan is open for whom.  It moves in two ways only, a copy is lent and a copy
  comes back.  The lending service refines it: each request is one move of the ledger or none.
\<close>

record ledger =
  on_shelf :: "string \<rightharpoonup> int"
  loans_of :: "string \<rightharpoonup> int"
  on_loan :: "string \<rightharpoonup> string \<times> string"

datatype ledger_move = Lends string string | TakesBack string

inductive ledger_step :: "ledger_move \<Rightarrow> ledger \<Rightarrow> ledger \<Rightarrow> bool" where
  lends: "on_shelf L b = Some n \<Longrightarrow> 0 < n \<Longrightarrow> loans_of L m = Some k \<Longrightarrow> on_loan L i = None \<Longrightarrow>
    ledger_step (Lends m b) L
      (L\<lparr>on_shelf := (on_shelf L)(b \<mapsto> n - 1), loans_of := (loans_of L)(m \<mapsto> k + 1),
         on_loan := (on_loan L)(i \<mapsto> (m, b))\<rparr>)"
| takes_back: "on_loan L i = Some (m, b) \<Longrightarrow> on_shelf L b = Some n \<Longrightarrow> loans_of L m = Some k \<Longrightarrow> 0 < k \<Longrightarrow>
    ledger_step (TakesBack i) L
      (L\<lparr>on_shelf := (on_shelf L)(b \<mapsto> n + 1), loans_of := (loans_of L)(m \<mapsto> k - 1),
         on_loan := (on_loan L)(i := None)\<rparr>)"

inductive ledger_run :: "ledger_move list \<Rightarrow> ledger \<Rightarrow> ledger \<Rightarrow> bool" where
  stays: "ledger_run [] L L"
| moves: "ledger_step x L L' \<Longrightarrow> ledger_run xs L' L'' \<Longrightarrow> ledger_run (x # xs) L L''"

subsection \<open>The ledger of a world\<close>

definition keyed :: "('d \<Rightarrow> string) \<Rightarrow> ('d \<Rightarrow> 'v) \<Rightarrow> 'd list \<Rightarrow> string \<rightharpoonup> 'v" where
  "keyed ident value ds = map_of (map (\<lambda>d. (ident d, value d)) ds)"

definition ledger_of :: "'e world \<Rightarrow> ledger" where
  "ledger_of w =
     \<lparr>on_shelf = keyed b_id b_availableQuantity (books w),
      loans_of = keyed m_id m_activeLoanCount (members w),
      on_loan = keyed l_id (\<lambda>l. (l_memberId l, l_bookId l)) (filter open_loan (borrowings w))\<rparr>"

lemma keyed_Some: "distinct (map ident ds) \<Longrightarrow> d \<in> set ds \<Longrightarrow> keyed ident value ds (ident d) = Some (value d)"
  unfolding keyed_def by (rule map_of_is_SomeI) (simp_all add: comp_def)

lemma keyed_None: "i \<notin> ident ` set ds \<Longrightarrow> keyed ident value ds i = None"
  unfolding keyed_def by (simp add: map_of_eq_None_iff image_image)

lemma keyed_Nil: "keyed ident value [] = Map.empty"
  by (simp add: keyed_def)

lemma keyed_append: "keyed ident value (xs @ ys) = keyed ident value ys ++ keyed ident value xs"
  by (simp add: keyed_def)

lemma keyed_Cons: "keyed ident value (x # xs) = (keyed ident value xs)(ident x \<mapsto> value x)"
  by (simp add: keyed_def)

lemma keyed_replaced:
  assumes "distinct (map ident ds)" and "replaced ident d ds ds'"
  shows "keyed ident value ds' = (keyed ident value ds)(ident d \<mapsto> value d)"
proof -
  from assms(2) obtain as x bs where ds: "ds = as @ x # bs" "ident x = ident d" "ds' = as @ d # bs"
    unfolding replaced_def by blast
  have "keyed ident value as (ident d) = None"
    by (rule keyed_None) (use assms(1) ds in auto)
  then show ?thesis unfolding ds by (auto simp: keyed_append keyed_Cons map_add_def ds(2) split: option.split)
qed

lemma keyed_fresh:
  assumes "ident d \<notin> ident ` set ds"
  shows "keyed ident value (ds @ [d]) = (keyed ident value ds)(ident d \<mapsto> value d)"
proof -
  have "keyed ident value ds (ident d) = None" by (rule keyed_None [OF assms])
  then show ?thesis by (auto simp: fun_eq_iff keyed_append keyed_Cons keyed_Nil map_add_def split: option.split)
qed

lemma keyed_dropped:
  assumes "distinct (map ident ds)" and "replaced ident d ds ds'" and "x \<in> set ds" and "ident x = ident d"
    and "p x" and "\<not> p d"
  shows "keyed ident value (filter p ds') = (keyed ident value (filter p ds))(ident d := None)"
proof -
  from replaced_same [OF assms(1-4)] obtain as bs where ds: "ds = as @ x # bs" "ds' = as @ d # bs" by blast
  have "keyed ident value (filter p as) (ident d) = None" "keyed ident value (filter p bs) (ident d) = None"
    by (rule keyed_None, use assms(1,4) ds in auto)+
  then show ?thesis unfolding ds using assms(4-6)
    by (auto simp: keyed_append keyed_Cons map_add_def split: option.split)
qed

lemma ledger_of_env [simp]: "env_step w w' \<Longrightarrow> ledger_of w' = ledger_of w"
  by (auto simp: env_step_def ledger_of_def)

subsection \<open>The service moves the ledger\<close>

lemma loan_made_moves:
  assumes "loan_made dto a now w r w'" and ok: "lending_ok w"
  shows "ledger_step (Lends (to_lower (cl_memberId dto)) (to_lower (cl_bookId dto))) (ledger_of w) (ledger_of w')"
proof -
  from assms(1) obtain m b c t i bs ms where m: "m \<in> set (members w)" "m_id m = to_lower (cl_memberId dto)"
    and b: "b \<in> set (books w)" "b_id b = to_lower (cl_bookId dto)" and may: "may_borrow b c m t False"
    and i: "i \<notin> l_id ` set (borrowings w)" and bs: "replaced b_id (lend_copy a b) (books w) bs"
    and ms: "replaced m_id (count_loan a m) (members w) ms"
    and w': "env_step (w\<lparr>borrowings := borrowings w @ [new_loan m b c now a i], books := bs, members := ms\<rparr>) w'"
    unfolding loan_made_def by blast
  have db: "distinct (map b_id (books w))" and dm: "distinct (map m_id (members w))"
    using ok by (simp_all add: lending_ok_def balanced_def)
  have i': "i \<notin> l_id ` set (filter open_loan (borrowings w))" using i by auto
  have "ledger_of w' = (ledger_of w)
      \<lparr>on_shelf := (on_shelf (ledger_of w))(b_id b \<mapsto> b_availableQuantity b - 1),
       loans_of := (loans_of (ledger_of w))(m_id m \<mapsto> m_activeLoanCount m + 1),
       on_loan := (on_loan (ledger_of w))(i \<mapsto> (m_id m, b_id b))\<rparr>"
    using keyed_replaced [OF db bs, of b_availableQuantity] keyed_replaced [OF dm ms, of m_activeLoanCount]
      keyed_fresh [of l_id "new_loan m b c now a i" _ "\<lambda>l. (l_memberId l, l_bookId l)"] i'
    by (simp add: ledger_of_env [OF w'], simp add: ledger_of_def)
  moreover have "0 < b_availableQuantity b" using may by (simp add: may_borrow_def)
  moreover have "on_shelf (ledger_of w) (b_id b) = Some (b_availableQuantity b)"
    "loans_of (ledger_of w) (m_id m) = Some (m_activeLoanCount m)" "on_loan (ledger_of w) i = None"
    using keyed_Some [OF db b(1)] keyed_Some [OF dm m(1)] keyed_None [OF i'] by (simp_all add: ledger_of_def)
  ultimately show ?thesis unfolding m(2) [symmetric] b(2) [symmetric] by (simp only: lends)
qed

lemma loan_closed_moves:
  assumes "loan_closed i a t w r w'" and ok: "lending_ok w"
  shows "ledger_step (TakesBack (to_lower i)) (ledger_of w) (ledger_of w')"
proof -
  from assms(1) obtain l b m ls bs ms where l: "l \<in> set (borrowings w)" "l_id l = to_lower i" "open_loan l"
    and b: "b \<in> set (books w)" "b_id b = to_lower (l_bookId l)"
    and m: "m \<in> set (members w)" "m_id m = to_lower (l_memberId l)"
    and ls: "replaced l_id (close_loan a t l) (borrowings w) ls"
    and bs: "replaced b_id (take_back_copy a b) (books w) bs"
    and ms: "replaced m_id (discount_loan a m) (members w) ms"
    and w': "env_step (w\<lparr>borrowings := ls, books := bs, members := ms\<rparr>) w'"
    unfolding loan_closed_def by blast
  have db: "distinct (map b_id (books w))" and dm: "distinct (map m_id (members w))"
    and dl: "distinct (map l_id (borrowings w))" and refs: "l_bookId l = b_id b" "l_memberId l = m_id m"
    using ok l(1) b(2) m(2) by (auto simp: lending_ok_def balanced_def canonical_refs_def)
  have dl': "distinct (map l_id (filter open_loan (borrowings w)))" using dl by (rule distinct_map_filter)
  have pos: "1 \<le> m_activeLoanCount m"
    using ok m(1) l refs by (intro balanced_counted [of m_id _ l_memberId "members w" "borrowings w" m l])
      (auto simp: lending_ok_def)
  have "keyed l_id (\<lambda>l. (l_memberId l, l_bookId l)) (filter open_loan ls) =
      (keyed l_id (\<lambda>l. (l_memberId l, l_bookId l)) (filter open_loan (borrowings w)))(l_id l := None)"
    using keyed_dropped [OF dl ls l(1), of open_loan] l(3) by simp
  then have "ledger_of w' = (ledger_of w)
      \<lparr>on_shelf := (on_shelf (ledger_of w))(b_id b \<mapsto> b_availableQuantity b + 1),
       loans_of := (loans_of (ledger_of w))(m_id m \<mapsto> m_activeLoanCount m - 1),
       on_loan := (on_loan (ledger_of w))(l_id l := None)\<rparr>"
    using keyed_replaced [OF db bs, of b_availableQuantity] keyed_replaced [OF dm ms, of m_activeLoanCount] pos
    by (simp add: ledger_of_env [OF w'], simp add: ledger_of_def)
  moreover have "on_loan (ledger_of w) (l_id l) = Some (m_id m, b_id b)"
    using keyed_Some [OF dl', of l "\<lambda>l. (l_memberId l, l_bookId l)"] l(1,3) refs by (simp add: ledger_of_def)
  moreover have "on_shelf (ledger_of w) (b_id b) = Some (b_availableQuantity b)"
    "loans_of (ledger_of w) (m_id m) = Some (m_activeLoanCount m)"
    using keyed_Some [OF db b(1)] keyed_Some [OF dm m(1)] by (simp_all add: ledger_of_def)
  moreover have "0 < m_activeLoanCount m" using pos by simp
  ultimately show ?thesis unfolding l(2) [symmetric] by (simp only: takes_back)
qed

context lending_store
begin

lemma create_moves:
  assumes "lending_ok w"
  shows "wp (BorrowingsService_create A T dto actor)
     (\<lambda>_ w'. ledger_step (Lends (to_lower (cl_memberId dto)) (to_lower (cl_bookId dto))) (ledger_of w) (ledger_of w'))
     (\<lambda>e w'. ledger_of w' = ledger_of w \<or> store_error e \<and>
        ledger_step (Lends (to_lower (cl_memberId dto)) (to_lower (cl_bookId dto))) (ledger_of w) (ledger_of w')) w"
  by (rule wp_mono [OF create_outcome]) (use assms loan_made_moves in fastforce)+

lemma return_moves:
  assumes "lending_ok w"
  shows "wp (BorrowingsService_returnBorrowing A T i dto actor)
     (\<lambda>_ w'. ledger_step (TakesBack (to_lower i)) (ledger_of w) (ledger_of w'))
     (\<lambda>e w'. ledger_of w' = ledger_of w \<or> store_error e \<and>
        ledger_step (TakesBack (to_lower i)) (ledger_of w) (ledger_of w')) w"
  by (rule wp_mono [OF return_outcome]) (use assms loan_closed_moves in fastforce)+

end

subsection \<open>Requests, one after the other\<close>

datatype lending_request =
  CreateRequest create_borrowing_dto "audit_actor option"
| ReturnRequest string return_borrowing_dto "audit_actor option"

fun move_of :: "lending_request \<Rightarrow> ledger_move" where
  "move_of (CreateRequest dto actor) = Lends (to_lower (cl_memberId dto)) (to_lower (cl_bookId dto))"
| "move_of (ReturnRequest i dto actor) = TakesBack (to_lower i)"

text \<open>The controller's handlers; what they answer or throw goes to the client.\<close>

fun handle ::
  "'e app \<Rightarrow> (('e world, borrowing_response) io \<Rightarrow> ('e world, borrowing_response) io) \<Rightarrow> lending_request \<Rightarrow>
   ('e world, borrowing_response) io" where
  "handle A T (CreateRequest dto actor) = BorrowingsService_create A T dto actor"
| "handle A T (ReturnRequest i dto actor) = BorrowingsService_returnBorrowing A T i dto actor"

fun serve ::
  "'e app \<Rightarrow> (('e world, borrowing_response) io \<Rightarrow> ('e world, borrowing_response) io) \<Rightarrow> lending_request list \<Rightarrow>
   'e world \<Rightarrow> (exn + borrowing_response) list \<times> 'e world" where
  "serve A T [] w = ([], w)"
| "serve A T (r # rs) w =
     (case handle A T r w of (answer, w1) \<Rightarrow> case serve A T rs w1 of (answers, w2) \<Rightarrow> (answer # answers, w2))"

text \<open>The requests whose answers have a property.\<close>

definition answered :: "(exn + borrowing_response \<Rightarrow> bool) \<Rightarrow> lending_request list \<Rightarrow> (exn + borrowing_response) list \<Rightarrow>
    lending_request list" where
  "answered p rs answers = map fst (filter (p \<circ> snd) (zip rs answers))"

definition granted :: "exn + borrowing_response \<Rightarrow> bool" where
  "granted answer \<longleftrightarrow> \<not> isl answer"

definition maybe_granted :: "exn + borrowing_response \<Rightarrow> bool" where
  "maybe_granted answer \<longleftrightarrow> (case answer of Inl e \<Rightarrow> store_error e | Inr _ \<Rightarrow> True)"

lemma answered_simps [simp]:
  "answered p [] answers = []"
  "answered p (r # rs) (x # xs) = (if p x then [r] else []) @ answered p rs xs"
  by (simp_all add: answered_def)

lemma handle_moves:
  assumes "lending_store A T" and "lending_ok w"
  shows "wp (handle A T r) (\<lambda>_ w'. ledger_step (move_of r) (ledger_of w) (ledger_of w'))
    (\<lambda>e w'. ledger_of w' = ledger_of w \<or> store_error e \<and> ledger_step (move_of r) (ledger_of w) (ledger_of w')) w"
  using lending_store.create_moves [OF assms] lending_store.return_moves [OF assms] by (cases r) simp_all

lemma handle_keeps_lending:
  assumes "lending_store A T" and "lending_ok w"
  shows "lending_ok (snd (handle A T r w))"
  using lending_store.create_keeps_lending [OF assms] lending_store.return_keeps_lending [OF assms]
  by (cases r) (simp_all add: wp_state)

subsection \<open>Properties\<close>

text \<open>C6: the lending service implements the ledger.  Any sequence of loan and return requests, refused
  and failing ones included, moves the ledger by a run that has one move for each request that was
  granted, in their order: a loan lends a copy that was on the shelf to the member under a loan id that
  was free, a return ends an open loan and puts the copy back.  The run has no move for a request
  that was refused; a fault of the store may hide that the move was made.  Books, counters and loans
  are in balance at the end.\<close>

theorem requests_refine_ledger:
  assumes "lending_store A T" and "lending_ok w" and "serve A T rs w = (answers, w')"
  shows "lending_ok w' \<and> (\<exists>xs. ledger_run xs (ledger_of w) (ledger_of w') \<and>
    subseq (map move_of (answered granted rs answers)) xs \<and>
    subseq xs (map move_of (answered maybe_granted rs answers)))"
  using assms(2,3)
proof (induction rs arbitrary: w answers)
  case Nil
  then show ?case by (auto intro: stays)
next
  case (Cons r rs)
  obtain x w1 xs where r: "handle A T r w = (x, w1)" and rs: "serve A T rs w1 = (xs, w')" and answers: "answers = x # xs"
    using Cons.prems(2) by (auto split: prod.splits)
  have "lending_ok w1" using handle_keeps_lending [OF assms(1) Cons.prems(1), of r] r by simp
  then obtain ys where ok: "lending_ok w'" and ys: "ledger_run ys (ledger_of w1) (ledger_of w')"
    "subseq (map move_of (answered granted rs xs)) ys" "subseq ys (map move_of (answered maybe_granted rs xs))"
    using Cons.IH [OF _ rs] by blast
  have step: "ledger_step (move_of r) (ledger_of w) (ledger_of w1) \<and> maybe_granted x \<or>
      ledger_of w1 = ledger_of w \<and> \<not> granted x"
    using handle_moves [OF assms(1) Cons.prems(1), of r] r
    by (auto simp: wp_def granted_def maybe_granted_def split: sum.splits)
  show ?case
  proof (cases "ledger_step (move_of r) (ledger_of w) (ledger_of w1) \<and> maybe_granted x")
    case True
    then have "ledger_run (move_of r # ys) (ledger_of w) (ledger_of w')" using moves ys(1) by blast
    moreover have "subseq (map move_of (answered granted (r # rs) answers)) (move_of r # ys)"
      using ys(2) unfolding answers by (cases "granted x") (simp_all add: list_emb_Cons)
    moreover have "subseq (move_of r # ys) (map move_of (answered maybe_granted (r # rs) answers))"
      using ys(3) True unfolding answers by simp
    ultimately show ?thesis using ok by blast
  next
    case False
    with step have "ledger_of w1 = ledger_of w" and "\<not> granted x" by auto
    moreover have "subseq (map move_of (answered granted (r # rs) answers)) ys"
      using ys(2) \<open>\<not> granted x\<close> unfolding answers by simp
    moreover have "subseq ys (map move_of (answered maybe_granted (r # rs) answers))"
      using ys(3) unfolding answers by (cases "maybe_granted x") (simp_all add: list_emb_Cons)
    ultimately show ?thesis using ok ys(1) by auto
  qed
qed

text \<open>A loan is made, a request without an actor is refused, and an earlier loan is returned.\<close>

definition sample_requests :: "lending_request list" where
  "sample_requests = [CreateRequest sample_request (Some sample_actor), CreateRequest sample_request None,
     ReturnRequest (sample_id CHR ''e'') \<lparr>rl_returnedAt = None\<rparr> (Some sample_actor)]"

lemma sample_requests_answers:
  "map isl (fst (serve mem_app mem_transaction sample_requests sample_world)) = [False, True, False]"
  by code_simp

theorem requests_refine_ledger_witness:
  "\<exists>xs. ledger_run xs (ledger_of sample_world) (ledger_of (snd (serve mem_app mem_transaction sample_requests sample_world))) \<and>
    subseq [Lends (sample_id CHR ''b'') (sample_id CHR ''a''), TakesBack (sample_id CHR ''e'')] xs"
proof -
  obtain answers w' where run: "serve mem_app mem_transaction sample_requests sample_world = (answers, w')"
    by (cases "serve mem_app mem_transaction sample_requests sample_world")
  then have "map isl answers = [False, True, False]" using sample_requests_answers by simp
  then obtain a b c where "answers = [a, b, c]" "\<not> isl a" "isl b" "\<not> isl c"
    by (auto simp: map_eq_Cons_conv)
  moreover have "map move_of sample_requests = [Lends (sample_id CHR ''b'') (sample_id CHR ''a''),
      Lends (sample_id CHR ''b'') (sample_id CHR ''a''), TakesBack (sample_id CHR ''e'')]"
    by code_simp
  ultimately have moved: "map move_of (answered granted sample_requests answers) =
      [Lends (sample_id CHR ''b'') (sample_id CHR ''a''), TakesBack (sample_id CHR ''e'')]"
    by (simp add: sample_requests_def granted_def)
  from requests_refine_ledger [OF mem_lending.lending_store_axioms sample_world_lending run]
  show ?thesis unfolding moved run snd_conv by blast
qed

end
