(* ===== verification/Book_Categories.thy ===== *)
theory Book_Categories
  imports Mongo_Query Sample_World
begin

text \<open>
  \<^verbatim>\<open>src/book-categories/book-categories.service.ts\<close>: the categories of books and their loan periods.
  Codes are stored trimmed and in upper case, and no two categories share one.
\<close>

record create_book_category_dto =
  cc_code :: string
  cc_name :: string
  cc_loanPeriodDays :: int

record update_book_category_dto =
  uc_name :: "string option"
  uc_loanPeriodDays :: "int option"
  uc_status :: "item_status option"

record book_category_query = page +
  cq_status :: "item_status option"

record book_category_response =
  rc_id :: string
  rc_code :: string
  rc_name :: string
  rc_loanPeriodDays :: int
  rc_status :: item_status

definition BookCategoriesService_normalizeCode :: "string \<Rightarrow> string" where
  "BookCategoriesService_normalizeCode code = to_upper (trim code)"

definition BookCategoriesService_toResponse :: "category \<Rightarrow> book_category_response" where
  "BookCategoriesService_toResponse c = \<lparr>rc_id = c_id c, rc_code = c_code c, rc_name = c_name c,
     rc_loanPeriodDays = c_loanPeriodDays c, rc_status = c_status c\<rparr>"

definition BookCategoriesService_findDocumentById :: "'e app \<Rightarrow> string \<Rightarrow> ('e world, category) io" where
  "BookCategoriesService_findDocumentById A i =
     await (toMongoObjectId i ''id'') (\<lambda>oid.
     await (findOne (categoryModel A) (\<lambda>c. c_id c = oid)) (\<lambda>found.
     require (NotFound ''Book category not found'') found))"

definition BookCategoriesService_newCategory ::
  "create_book_category_dto \<Rightarrow> string option \<Rightarrow> string \<Rightarrow> string \<Rightarrow> category" where
  "BookCategoriesService_newCategory dto actor code i = category_cast
     \<lparr>c_id = i, c_code = code, c_name = cc_name dto, c_loanPeriodDays = cc_loanPeriodDays dto,
      c_status = ItemActive, c_createdBy = actor, c_updatedBy = actor\<rparr>"

definition BookCategoriesService_create ::
  "'e app \<Rightarrow> create_book_category_dto \<Rightarrow> string option \<Rightarrow> ('e world, book_category_response) io" where
  "BookCategoriesService_create A dto actor =
     (let code = BookCategoriesService_normalizeCode (cc_code dto) in
      await (exists_doc (categoryModel A) (\<lambda>c. c_code c = code)) (\<lambda>taken.
      if taken then throw (Conflict ''Book category code already exists'')
      else
      await (createDoc (categoryModel A) (BookCategoriesService_newCategory dto actor code)) (\<lambda>created.
      ret (BookCategoriesService_toResponse created))))"

definition BookCategoriesService_findAll ::
  "'e app \<Rightarrow> book_category_query \<Rightarrow> ('e world, book_category_response list) io" where
  "BookCategoriesService_findAll A query =
     await (findSorted (categoryModel A)
       (\<lambda>c. cq_status query = None \<or> c_status c = the (cq_status query))
       (\<lambda>a b. text_le (c_code a) (c_code b))
       ((q_page query - 1) * q_limit query) (q_limit query)) (\<lambda>categories.
     ret (map BookCategoriesService_toResponse categories))"

definition BookCategoriesService_findOne :: "'e app \<Rightarrow> string \<Rightarrow> ('e world, book_category_response) io" where
  "BookCategoriesService_findOne A i =
     await (BookCategoriesService_findDocumentById A i) (\<lambda>c.
     ret (BookCategoriesService_toResponse c))"

definition BookCategoriesService_assign :: "update_book_category_dto \<Rightarrow> string option \<Rightarrow> category \<Rightarrow> category" where
  "BookCategoriesService_assign dto actor c = c\<lparr>
     c_name := (case uc_name dto of None \<Rightarrow> c_name c | Some v \<Rightarrow> trim v),
     c_loanPeriodDays := (case uc_loanPeriodDays dto of None \<Rightarrow> c_loanPeriodDays c | Some v \<Rightarrow> v),
     c_status := (case uc_status dto of None \<Rightarrow> c_status c | Some v \<Rightarrow> v),
     c_updatedBy := actor\<rparr>"

definition BookCategoriesService_update ::
  "'e app \<Rightarrow> string \<Rightarrow> update_book_category_dto \<Rightarrow> string option \<Rightarrow> ('e world, book_category_response) io" where
  "BookCategoriesService_update A i dto actor =
     await (BookCategoriesService_findDocumentById A i) (\<lambda>category.
     await (saveDoc (categoryModel A) (BookCategoriesService_assign dto actor category)) (\<lambda>saved.
     ret (BookCategoriesService_toResponse saved)))"

definition BookCategoriesService_validateActiveLoanPeriod ::
  "'e app \<Rightarrow> string \<Rightarrow> ('e world, book_category_response) io" where
  "BookCategoriesService_validateActiveLoanPeriod A i =
     await (BookCategoriesService_findDocumentById A i) (\<lambda>category.
     if c_status category \<noteq> ItemActive \<or> c_loanPeriodDays category < 1
     then throw (Conflict ''Book category has no active loan period'')
     else ret (BookCategoriesService_toResponse category))"

subsection \<open>Codes stay unique and normalized\<close>

definition category_codes_ok :: "'e world \<Rightarrow> bool" where
  "category_codes_ok w \<longleftrightarrow> distinct (map c_code (categories w)) \<and>
     (\<forall>c \<in> set (categories w). \<exists>s. c_code c = BookCategoriesService_normalizeCode s)"

lemma normalizeCode_idem [simp]:
  "BookCategoriesService_normalizeCode (BookCategoriesService_normalizeCode s) =
   BookCategoriesService_normalizeCode s"
  by (simp add: BookCategoriesService_normalizeCode_def trim_to_upper)

lemma trim_normalizeCode [simp]:
  "trim (BookCategoriesService_normalizeCode s) = BookCategoriesService_normalizeCode s"
  by (simp add: BookCategoriesService_normalizeCode_def trim_to_upper)

lemma newCategory_fields [simp]:
  "c_id (BookCategoriesService_newCategory dto actor code i) = i"
  "c_code (BookCategoriesService_newCategory dto actor code i) = trim code"
  "c_status (BookCategoriesService_newCategory dto actor code i) = ItemActive"
  "c_loanPeriodDays (BookCategoriesService_newCategory dto actor code i) = cc_loanPeriodDays dto"
  by (simp_all add: BookCategoriesService_newCategory_def category_cast_def)

lemma assignCategory_fields [simp]:
  "c_id (BookCategoriesService_assign dto actor c) = c_id c"
  "c_code (BookCategoriesService_assign dto actor c) = c_code c"
  by (simp_all add: BookCategoriesService_assign_def)

lemma category_codes_ok_env [simp]: "category_codes_ok (w\<lparr>env := z\<rparr>) = category_codes_ok w"
  by (simp add: category_codes_ok_def)

lemma category_codes_ok_new:
  "category_codes_ok w \<Longrightarrow>
   one_added category_clash category_valid c_id (BookCategoriesService_newCategory dto actor
     (BookCategoriesService_normalizeCode s) i) (categories w) \<Longrightarrow>
   category_codes_ok (w\<lparr>categories := categories w @ [BookCategoriesService_newCategory dto actor
     (BookCategoriesService_normalizeCode s) i]\<rparr>)"
  by (auto simp: category_codes_ok_def one_added_def category_clash_def)

lemma category_codes_ok_changed:
  assumes "category_codes_ok w" and "c \<in> set (categories w)"
    and "one_updated category_clash (\<lambda>x. c_id x = i)
      (\<lambda>_. BookCategoriesService_assign dto actor c) (categories w) cs x"
  shows "category_codes_ok (w\<lparr>categories := cs\<rparr>)"
  using assms unfolding category_codes_ok_def one_updated_def
  by (elim exE conjE) (force simp: category_clash_def)

locale category_store =
  ct: collection "categoryModel A" categories categories_update category_clash category_valid c_id
  for A :: "'e app"
begin

lemma wp_findDocumentById [wp_rules]:
  assumes "\<And>c z. is_object_id i \<Longrightarrow> c \<in> set (categories w) \<Longrightarrow> c_id c = to_lower i \<Longrightarrow> Q c (w\<lparr>env := z\<rparr>)"
    and "\<And>e z. E e (w\<lparr>env := z\<rparr>)"
  shows "wp (BookCategoriesService_findDocumentById A i) Q E w"
  unfolding BookCategoriesService_findDocumentById_def
  using assms(2) [where z = "env w"] by (auto intro!: wp_rules assms)

lemma create_outcome:
  "wp (BookCategoriesService_create A dto actor)
     (\<lambda>r w'. (\<forall>c \<in> set (categories w). c_code c \<noteq> BookCategoriesService_normalizeCode (cc_code dto)) \<and>
        (\<exists>c. c_code c = BookCategoriesService_normalizeCode (cc_code dto) \<and> c_status c = ItemActive \<and>
           r = BookCategoriesService_toResponse c \<and> categories w' = categories w @ [c]))
     (\<lambda>_ _. True) w"
  unfolding BookCategoriesService_create_def Let_def
  by (auto intro!: wp_rules)

lemma create_keeps_codes:
  "category_codes_ok w \<Longrightarrow>
   wp (BookCategoriesService_create A dto actor) (\<lambda>_. category_codes_ok) (\<lambda>_. category_codes_ok) w"
  unfolding BookCategoriesService_create_def Let_def
  by (auto intro!: wp_rules category_codes_ok_new)

lemma update_keeps_codes:
  "category_codes_ok w \<Longrightarrow>
   wp (BookCategoriesService_update A i dto actor) (\<lambda>_. category_codes_ok) (\<lambda>_. category_codes_ok) w"
  unfolding BookCategoriesService_update_def
  by (auto intro!: wp_rules intro: category_codes_ok_changed)

lemma create_refuses_taken:
  assumes "c \<in> set (categories w)" and "c_code c = BookCategoriesService_normalizeCode (cc_code dto)"
  shows "wp (BookCategoriesService_create A dto actor) (\<lambda>_ _. False) (\<lambda>_ w'. env_step w w') w"
  unfolding BookCategoriesService_create_def Let_def
  using assms by (auto intro!: wp_rules)

lemma validate_outcome:
  "wp (BookCategoriesService_validateActiveLoanPeriod A i)
     (\<lambda>r w'. env_step w w' \<and> (\<exists>c \<in> set (categories w). c_id c = to_lower i \<and> c_status c = ItemActive \<and>
        1 \<le> c_loanPeriodDays c \<and> r = BookCategoriesService_toResponse c))
     (\<lambda>_ w'. env_step w w') w"
  unfolding BookCategoriesService_validateActiveLoanPeriod_def
  by (auto intro!: wp_rules) force

end

interpretation mem_category_store: category_store mem_app ..

subsection \<open>Properties\<close>

text \<open>However categories are added and changed, and whatever fails on the way, no two categories
  have the same code and every code is stored trimmed and in upper case; a code that is taken in
  any spelling is refused.\<close>

theorem category_codes_stay_unique:
  assumes "category_store A" and "category_codes_ok w"
  shows "category_codes_ok (snd (BookCategoriesService_create A dto actor w)) \<and>
    category_codes_ok (snd (BookCategoriesService_update A i change actor w)) \<and>
    ((\<exists>c \<in> set (categories w). c_code c = to_upper (trim (cc_code dto))) \<longrightarrow>
       isl (fst (BookCategoriesService_create A dto actor w)))"
proof (intro conjI impI)
  show "category_codes_ok (snd (BookCategoriesService_create A dto actor w))"
    using category_store.create_keeps_codes [OF assms] by (simp add: wp_state)
  show "category_codes_ok (snd (BookCategoriesService_update A i change actor w))"
    using category_store.update_keeps_codes [OF assms] by (simp add: wp_state)
  assume "\<exists>c \<in> set (categories w). c_code c = to_upper (trim (cc_code dto))"
  then obtain c where "c \<in> set (categories w)"
    and "c_code c = BookCategoriesService_normalizeCode (cc_code dto)"
    by (auto simp: BookCategoriesService_normalizeCode_def)
  from category_store.create_refuses_taken [OF assms(1) this]
  show "isl (fst (BookCategoriesService_create A dto actor w))"
    by (simp add: wp_throws)
qed

theorem category_codes_stay_unique_witness:
  "isl (fst (BookCategoriesService_create mem_app
     \<lparr>cc_code = '' fiction'', cc_name = ''Novels'', cc_loanPeriodDays = 7\<rparr> None sample_world))"
proof -
  have "c_code sample_category = BookCategoriesService_normalizeCode (c_code sample_category)"
    and "to_upper (trim '' fiction'') = c_code sample_category"
    by code_simp+
  then have "category_codes_ok sample_world"
    and "\<exists>c \<in> set (categories sample_world). c_code c = to_upper (trim '' fiction'')"
    unfolding category_codes_ok_def by (auto simp: sample_world_def)
  from category_codes_stay_unique [OF mem_category_store.category_store_axioms this(1),
      where dto = "\<lparr>cc_code = '' fiction'', cc_name = ''Novels'', cc_loanPeriodDays = 7\<rparr>"] this(2)
  show ?thesis by simp
qed

end
