(* ===== verification/Membership_Types.thy ===== *)
theory Membership_Types
  imports Mongo_Query Sample_World
begin

text \<open>
  \<^verbatim>\<open>src/membership-types/membership-types.service.ts\<close>: the membership types and how many loans each allows.
  Codes are stored trimmed and in upper case, and no two types share one.
\<close>

record create_membership_type_dto =
  ct_code :: string
  ct_name :: string
  ct_maxActiveLoans :: int

record update_membership_type_dto =
  ut_name :: "string option"
  ut_maxActiveLoans :: "int option"
  ut_status :: "item_status option"

record membership_type_query = page +
  tq_status :: "item_status option"

record membership_type_response =
  rt_id :: string
  rt_code :: string
  rt_name :: string
  rt_maxActiveLoans :: int
  rt_status :: item_status

definition MembershipTypesService_normalizeCode :: "string \<Rightarrow> string" where
  "MembershipTypesService_normalizeCode code = to_upper (trim code)"

definition MembershipTypesService_toResponse :: "membership_type \<Rightarrow> membership_type_response" where
  "MembershipTypesService_toResponse c = \<lparr>rt_id = t_id c, rt_code = t_code c, rt_name = t_name c,
     rt_maxActiveLoans = t_maxActiveLoans c, rt_status = t_status c\<rparr>"

definition MembershipTypesService_findDocumentById :: "'e app \<Rightarrow> string \<Rightarrow> ('e world, membership_type) io" where
  "MembershipTypesService_findDocumentById A i =
     await (toMongoObjectId i ''id'') (\<lambda>oid.
     await (findOne (membershipTypeModel A) (\<lambda>c. t_id c = oid)) (\<lambda>found.
     require (NotFound ''Membership type not found'') found))"

definition MembershipTypesService_newMembershipType ::
  "create_membership_type_dto \<Rightarrow> string option \<Rightarrow> string \<Rightarrow> string \<Rightarrow> membership_type" where
  "MembershipTypesService_newMembershipType dto actor code i = membership_type_cast
     \<lparr>t_id = i, t_code = code, t_name = ct_name dto, t_maxActiveLoans = ct_maxActiveLoans dto,
      t_status = ItemActive, t_createdBy = actor, t_updatedBy = actor\<rparr>"

definition MembershipTypesService_create ::
  "'e app \<Rightarrow> create_membership_type_dto \<Rightarrow> string option \<Rightarrow> ('e world, membership_type_response) io" where
  "MembershipTypesService_create A dto actor =
     (let code = MembershipTypesService_normalizeCode (ct_code dto) in
      await (exists_doc (membershipTypeModel A) (\<lambda>c. t_code c = code)) (\<lambda>taken.
      if taken then throw (Conflict ''Membership type code already exists'')
      else
      await (createDoc (membershipTypeModel A) (MembershipTypesService_newMembershipType dto actor code)) (\<lambda>created.
      ret (MembershipTypesService_toResponse created))))"

definition MembershipTypesService_findAll ::
  "'e app \<Rightarrow> membership_type_query \<Rightarrow> ('e world, membership_type_response list) io" where
  "MembershipTypesService_findAll A query =
     await (findSorted (membershipTypeModel A)
       (\<lambda>c. tq_status query = None \<or> t_status c = the (tq_status query))
       (\<lambda>a b. text_le (t_code a) (t_code b))
       ((q_page query - 1) * q_limit query) (q_limit query)) (\<lambda>membershipTypes.
     ret (map MembershipTypesService_toResponse membershipTypes))"

definition MembershipTypesService_findOne :: "'e app \<Rightarrow> string \<Rightarrow> ('e world, membership_type_response) io" where
  "MembershipTypesService_findOne A i =
     await (MembershipTypesService_findDocumentById A i) (\<lambda>c.
     ret (MembershipTypesService_toResponse c))"

definition MembershipTypesService_assign :: "update_membership_type_dto \<Rightarrow> string option \<Rightarrow> membership_type \<Rightarrow> membership_type" where
  "MembershipTypesService_assign dto actor c = c\<lparr>
     t_name := (case ut_name dto of None \<Rightarrow> t_name c | Some v \<Rightarrow> trim v),
     t_maxActiveLoans := (case ut_maxActiveLoans dto of None \<Rightarrow> t_maxActiveLoans c | Some v \<Rightarrow> v),
     t_status := (case ut_status dto of None \<Rightarrow> t_status c | Some v \<Rightarrow> v),
     t_updatedBy := actor\<rparr>"

definition MembershipTypesService_update ::
  "'e app \<Rightarrow> string \<Rightarrow> update_membership_type_dto \<Rightarrow> string option \<Rightarrow> ('e world, membership_type_response) io" where
  "MembershipTypesService_update A i dto actor =
     await (MembershipTypesService_findDocumentById A i) (\<lambda>membershipType.
     await (saveDoc (membershipTypeModel A) (MembershipTypesService_assign dto actor membershipType)) (\<lambda>saved.
     ret (MembershipTypesService_toResponse saved)))"

definition MembershipTypesService_validateActivePolicy ::
  "'e app \<Rightarrow> string \<Rightarrow> ('e world, membership_type_response) io" where
  "MembershipTypesService_validateActivePolicy A i =
     await (MembershipTypesService_findDocumentById A i) (\<lambda>membershipType.
     if t_status membershipType \<noteq> ItemActive
     then throw (Conflict ''Membership type is not active'')
     else ret (MembershipTypesService_toResponse membershipType))"

subsection \<open>Codes stay unique and normalized\<close>

definition type_codes_ok :: "'e world \<Rightarrow> bool" where
  "type_codes_ok w \<longleftrightarrow> distinct (map t_code (membershipTypes w)) \<and>
     (\<forall>c \<in> set (membershipTypes w). \<exists>s. t_code c = MembershipTypesService_normalizeCode s)"

lemma normalizeTypeCode_idem [simp]:
  "MembershipTypesService_normalizeCode (MembershipTypesService_normalizeCode s) =
   MembershipTypesService_normalizeCode s"
  by (simp add: MembershipTypesService_normalizeCode_def trim_to_upper)

lemma trim_normalizeTypeCode [simp]:
  "trim (MembershipTypesService_normalizeCode s) = MembershipTypesService_normalizeCode s"
  by (simp add: MembershipTypesService_normalizeCode_def trim_to_upper)

lemma newMembershipType_fields [simp]:
  "t_id (MembershipTypesService_newMembershipType dto actor code i) = i"
  "t_code (MembershipTypesService_newMembershipType dto actor code i) = trim code"
  "t_status (MembershipTypesService_newMembershipType dto actor code i) = ItemActive"
  "t_maxActiveLoans (MembershipTypesService_newMembershipType dto actor code i) = ct_maxActiveLoans dto"
  by (simp_all add: MembershipTypesService_newMembershipType_def membership_type_cast_def)

lemma assignMembershipType_fields [simp]:
  "t_id (MembershipTypesService_assign dto actor c) = t_id c"
  "t_code (MembershipTypesService_assign dto actor c) = t_code c"
  by (simp_all add: MembershipTypesService_assign_def)

lemma type_codes_ok_env [simp]: "type_codes_ok (w\<lparr>env := z\<rparr>) = type_codes_ok w"
  by (simp add: type_codes_ok_def)

lemma type_codes_ok_new:
  "type_codes_ok w \<Longrightarrow>
   one_added membership_type_clash membership_type_valid t_id (MembershipTypesService_newMembershipType dto actor
     (MembershipTypesService_normalizeCode s) i) (membershipTypes w) \<Longrightarrow>
   type_codes_ok (w\<lparr>membershipTypes := membershipTypes w @ [MembershipTypesService_newMembershipType dto actor
     (MembershipTypesService_normalizeCode s) i]\<rparr>)"
  by (auto simp: type_codes_ok_def one_added_def membership_type_clash_def)

lemma type_codes_ok_changed:
  assumes "type_codes_ok w" and "c \<in> set (membershipTypes w)"
    and "one_updated membership_type_clash (\<lambda>x. t_id x = i)
      (\<lambda>_. MembershipTypesService_assign dto actor c) (membershipTypes w) cs x"
  shows "type_codes_ok (w\<lparr>membershipTypes := cs\<rparr>)"
  using assms unfolding type_codes_ok_def one_updated_def
  by (elim exE conjE) (force simp: membership_type_clash_def)

locale membership_type_store =
  ct: collection "membershipTypeModel A" membershipTypes membershipTypes_update membership_type_clash membership_type_valid t_id
  for A :: "'e app"
begin

lemma wp_findDocumentById [wp_rules]:
  assumes "\<And>c z. is_object_id i \<Longrightarrow> c \<in> set (membershipTypes w) \<Longrightarrow> t_id c = to_lower i \<Longrightarrow> Q c (w\<lparr>env := z\<rparr>)"
    and "\<And>e z. E e (w\<lparr>env := z\<rparr>)"
  shows "wp (MembershipTypesService_findDocumentById A i) Q E w"
  unfolding MembershipTypesService_findDocumentById_def
  using assms(2) [where z = "env w"] by (auto intro!: wp_rules assms)

lemma create_outcome:
  "wp (MembershipTypesService_create A dto actor)
     (\<lambda>r w'. (\<forall>c \<in> set (membershipTypes w). t_code c \<noteq> MembershipTypesService_normalizeCode (ct_code dto)) \<and>
        (\<exists>c. t_code c = MembershipTypesService_normalizeCode (ct_code dto) \<and> t_status c = ItemActive \<and>
           r = MembershipTypesService_toResponse c \<and> membershipTypes w' = membershipTypes w @ [c]))
     (\<lambda>_ _. True) w"
  unfolding MembershipTypesService_create_def Let_def
  by (auto intro!: wp_rules)

lemma create_keeps_codes:
  "type_codes_ok w \<Longrightarrow>
   wp (MembershipTypesService_create A dto actor) (\<lambda>_. type_codes_ok) (\<lambda>_. type_codes_ok) w"
  unfolding MembershipTypesService_create_def Let_def
  by (auto intro!: wp_rules type_codes_ok_new)

lemma update_keeps_codes:
  "type_codes_ok w \<Longrightarrow>
   wp (MembershipTypesService_update A i dto actor) (\<lambda>_. type_codes_ok) (\<lambda>_. type_codes_ok) w"
  unfolding MembershipTypesService_update_def
  by (auto intro!: wp_rules intro: type_codes_ok_changed)

lemma create_refuses_taken:
  assumes "c \<in> set (membershipTypes w)" and "t_code c = MembershipTypesService_normalizeCode (ct_code dto)"
  shows "wp (MembershipTypesService_create A dto actor) (\<lambda>_ _. False) (\<lambda>_ w'. env_step w w') w"
  unfolding MembershipTypesService_create_def Let_def
  using assms by (auto intro!: wp_rules)

lemma validate_outcome:
  "wp (MembershipTypesService_validateActivePolicy A i)
     (\<lambda>r w'. env_step w w' \<and> (\<exists>c \<in> set (membershipTypes w). t_id c = to_lower i \<and> t_status c = ItemActive \<and>
        r = MembershipTypesService_toResponse c))
     (\<lambda>_ w'. env_step w w') w"
  unfolding MembershipTypesService_validateActivePolicy_def
  by (auto intro!: wp_rules)

end

interpretation mem_type_store: membership_type_store mem_app ..

subsection \<open>Properties\<close>

text \<open>However membership types are added and changed, and whatever fails on the way, no two types
  have the same code and every code is stored trimmed and in upper case; a code that is taken in
  any spelling is refused.\<close>

theorem type_codes_stay_unique:
  assumes "membership_type_store A" and "type_codes_ok w"
  shows "type_codes_ok (snd (MembershipTypesService_create A dto actor w)) \<and>
    type_codes_ok (snd (MembershipTypesService_update A i change actor w)) \<and>
    ((\<exists>c \<in> set (membershipTypes w). t_code c = to_upper (trim (ct_code dto))) \<longrightarrow>
       isl (fst (MembershipTypesService_create A dto actor w)))"
proof (intro conjI impI)
  show "type_codes_ok (snd (MembershipTypesService_create A dto actor w))"
    using membership_type_store.create_keeps_codes [OF assms] by (simp add: wp_state)
  show "type_codes_ok (snd (MembershipTypesService_update A i change actor w))"
    using membership_type_store.update_keeps_codes [OF assms] by (simp add: wp_state)
  assume "\<exists>c \<in> set (membershipTypes w). t_code c = to_upper (trim (ct_code dto))"
  then obtain c where "c \<in> set (membershipTypes w)"
    and "t_code c = MembershipTypesService_normalizeCode (ct_code dto)"
    by (auto simp: MembershipTypesService_normalizeCode_def)
  from membership_type_store.create_refuses_taken [OF assms(1) this]
  show "isl (fst (MembershipTypesService_create A dto actor w))"
    by (simp add: wp_throws)
qed

theorem type_codes_stay_unique_witness:
  "isl (fst (MembershipTypesService_create mem_app
     \<lparr>ct_code = '' standard'', ct_name = ''Premium'', ct_maxActiveLoans = 7\<rparr> None sample_world))"
proof -
  have "t_code sample_membership_type = MembershipTypesService_normalizeCode (t_code sample_membership_type)"
    and "to_upper (trim '' standard'') = t_code sample_membership_type"
    by code_simp+
  then have "type_codes_ok sample_world"
    and "\<exists>c \<in> set (membershipTypes sample_world). t_code c = to_upper (trim '' standard'')"
    unfolding type_codes_ok_def by (auto simp: sample_world_def)
  from type_codes_stay_unique [OF mem_type_store.membership_type_store_axioms this(1),
      where dto = "\<lparr>ct_code = '' standard'', ct_name = ''Premium'', ct_maxActiveLoans = 7\<rparr>"] this(2)
  show ?thesis by simp
qed

end
