(* ===== verification/Security_Activity.thy ===== *)
theory Security_Activity
  imports Mongo_Query Sample_World
begin

text \<open>
  \<^verbatim>\<open>src/auth/security-activity.service.ts\<close>: the audit trail.  What a caller passes as context is
  redacted before it is stored; the correlation hash of a sign-in identifier is derived here and
  never taken from a caller.  \<^verbatim>\<open>list\<close> and the views it builds are left out.  The fields of an event
  that no caller sets (\<^verbatim>\<open>clientId\<close>, \<^verbatim>\<open>requestId\<close>, \<^verbatim>\<open>ipHash\<close>, \<^verbatim>\<open>userAgentHash\<close>) are left out too.
\<close>

subsection \<open>Redaction\<close>

fun occurs_in :: "string \<Rightarrow> string \<Rightarrow> bool" where
  "occurs_in p [] = (p = [])"
| "occurs_in p (c # cs) = (starts_with p (c # cs) \<or> occurs_in p cs)"

text \<open>The alternatives of \<^verbatim>\<open>sensitiveKeyPattern\<close>, which is tested without regard to case.\<close>

definition sensitive_words :: "string list" where
  "sensitive_words = [''password'', ''token'', ''secret'', ''authorization'', ''cookie'', ''credential'',
     ''identifier'', ''email'', ''login'']"

definition sensitiveKeyPattern :: "string \<Rightarrow> bool" where
  "sensitiveKeyPattern key = list_ex (\<lambda>p. occurs_in p (to_lower key)) sensitive_words"

fun SecurityActivityService_redactContext :: "json \<Rightarrow> json" where
  "SecurityActivityService_redactContext (JArr xs) =
     JArr (map SecurityActivityService_redactContext xs)"
| "SecurityActivityService_redactContext (JObj kvs) =
     JObj (map (\<lambda>(key, v). (key,
       if sensitiveKeyPattern key then JStr ''[REDACTED]''
       else SecurityActivityService_redactContext v)) kvs)"
| "SecurityActivityService_redactContext v = v"

text \<open>No value is left under a sensitive key, at any depth.\<close>

fun redacted :: "json \<Rightarrow> bool" where
  "redacted (JArr xs) = (\<forall>x \<in> set xs. redacted x)"
| "redacted (JObj kvs) = (\<forall>(key, v) \<in> set kvs.
     if sensitiveKeyPattern key then v = JStr ''[REDACTED]'' else redacted v)"
| "redacted v = True"

lemma redacted_redactContext: "redacted (SecurityActivityService_redactContext v)"
  by (induction v rule: SecurityActivityService_redactContext.induct) auto

lemma redactContext_redacted: "redacted v \<Longrightarrow> SecurityActivityService_redactContext v = v"
  by (induction v rule: SecurityActivityService_redactContext.induct)
    (auto intro!: map_idI split: if_splits)

subsection \<open>Recording\<close>

datatype persistence_boundary = SecurityEventBoundary | BrowserOriginDenial

record activity_input =
  si_eventType :: event_type
  si_actorType :: "actor_type option"
  si_actorId :: "string option"
  si_targetType :: "string option"
  si_targetId :: "string option"
  si_subjectType :: "string option"
  si_subjectId :: "string option"
  si_outcome :: outcome
  si_reasonCategory :: "string option"
  si_identifierCorrelationHash :: "string option"
  si_correlationKeyVersion :: "nat option"
  si_operationId :: "string option"
  si_context :: "json option"
  si_persistenceBoundary :: "persistence_boundary option"

definition activity :: "event_type \<Rightarrow> outcome \<Rightarrow> activity_input" where
  "activity eventType result = \<lparr>si_eventType = eventType, si_actorType = None, si_actorId = None,
     si_targetType = None, si_targetId = None, si_subjectType = None, si_subjectId = None,
     si_outcome = result, si_reasonCategory = None, si_identifierCorrelationHash = None,
     si_correlationKeyVersion = None, si_operationId = None, si_context = None,
     si_persistenceBoundary = None\<rparr>"

definition SecurityActivityService_event :: "activity_input \<Rightarrow> date \<Rightarrow> string option \<Rightarrow> string \<Rightarrow> security_event" where
  "SecurityActivityService_event input now eventId i =
     \<lparr>e_id = i, e_eventId = eventId, e_eventType = si_eventType input,
      e_actorType = (case si_actorType input of None \<Rightarrow> UnknownActor | Some a \<Rightarrow> a),
      e_actorId = si_actorId input, e_targetType = si_targetType input,
      e_targetId = si_targetId input, e_subjectType = si_subjectType input,
      e_subjectId = si_subjectId input, e_outcome = si_outcome input,
      e_reasonCategory = si_reasonCategory input,
      e_identifierCorrelationHash = si_identifierCorrelationHash input,
      e_correlationKeyVersion = si_correlationKeyVersion input,
      e_operationId = si_operationId input,
      e_context = SecurityActivityService_redactContext
        (case si_context input of None \<Rightarrow> JObj [] | Some c \<Rightarrow> c),
      e_createdAt = now\<rparr>"

definition SecurityActivityService_persist ::
  "'e app \<Rightarrow> ('e world, security_event) model \<Rightarrow> activity_input \<Rightarrow> bool \<Rightarrow> ('e world, unit) io" where
  "SecurityActivityService_persist A M input allowIdentifierCorrelation =
     (if si_persistenceBoundary input = Some BrowserOriginDenial
      then throw (JsError ''Browser-origin denials are operational telemetry only'')
      else if \<not> allowIdentifierCorrelation \<and>
        (truthy (si_identifierCorrelationHash input) \<or>
         si_correlationKeyVersion input \<notin> {None, Some 0})
      then throw (JsError ''Identifier correlation must be derived by SecurityActivityService'')
      else
      await (asks (clock A)) (\<lambda>now.
      await (createDoc M (SecurityActivityService_event input now None)) (\<lambda>_.
      ret ())))"

definition SecurityActivityService_record ::
  "'e app \<Rightarrow> ('e world, security_event) model \<Rightarrow> activity_input \<Rightarrow> ('e world, unit) io" where
  "SecurityActivityService_record A M input = SecurityActivityService_persist A M input False"

text \<open>A service that got no \<^verbatim>\<open>SecurityActivityService\<close> records nothing.\<close>

definition record_activity :: "'e app \<Rightarrow> activity_input \<Rightarrow> ('e world, unit) io" where
  "record_activity A input =
     (case eventModel A of None \<Rightarrow> ret () | Some M \<Rightarrow> SecurityActivityService_record A M input)"

text \<open>\<^verbatim>\<open>/^[a-z0-9][a-z0-9-]{0,63}$/\<close>\<close>

definition category_char :: "char \<Rightarrow> bool" where
  "category_char c = (let n = char_code c in (97 \<le> n \<and> n \<le> 122) \<or> (48 \<le> n \<and> n \<le> 57))"

definition SecurityActivityService_safeReasonCategory :: "string option \<Rightarrow> string \<Rightarrow> string" where
  "SecurityActivityService_safeReasonCategory value fallback =
     (case value of None \<Rightarrow> fallback
      | Some s \<Rightarrow>
          if s \<noteq> [] \<and> length s \<le> 64 \<and> category_char (hd s) \<and>
            list_all (\<lambda>c. category_char c \<or> c = CHR ''-'') (tl s)
          then s else fallback)"

record audit_key_ring =
  kr_currentVersion :: nat
  kr_keysByVersion :: "nat \<Rightarrow> string option"

text \<open>
  \<open>ring\<close> is the configured key ring, \<open>hmacSha256 A material text\<close> the keyed hash of a text in
  base64url under the decoded key.
\<close>

definition SecurityActivityService_identifierCorrelation ::
  "'e app \<Rightarrow> audit_key_ring option \<Rightarrow> string option \<Rightarrow> (string \<times> nat) option" where
  "SecurityActivityService_identifierCorrelation A ring normalizedIdentifier =
     (if \<not> truthy normalizedIdentifier then None
      else case ring of None \<Rightarrow> None
      | Some r \<Rightarrow>
          if kr_currentVersion r = 0 then None
          else case kr_keysByVersion r (kr_currentVersion r) of None \<Rightarrow> None
          | Some material \<Rightarrow>
              if material = [] then None
              else Some (hmacSha256 A material
                (''book-library/auth-sign-in/v1'' @ [CHR 0x00] @ the normalizedIdentifier),
                kr_currentVersion r))"

record failed_sign_in =
  fs_normalizedIdentifier :: "string option"
  fs_subject :: "(subject_type \<times> string) option"
  fs_reasonCategory :: string

fun subject_name :: "subject_type \<Rightarrow> string" where
  "subject_name StaffSubject = ''staff''"
| "subject_name MemberSubject = ''member''"

definition SecurityActivityService_failedSignIn ::
  "'e app \<Rightarrow> audit_key_ring option \<Rightarrow> failed_sign_in \<Rightarrow> activity_input" where
  "SecurityActivityService_failedSignIn A ring input =
     (let correlation = (if fs_subject input \<noteq> None then None
          else SecurityActivityService_identifierCorrelation A ring (fs_normalizedIdentifier input)) in
      (activity SignInFailure OutcomeFailure)\<lparr>si_actorType := Some UnknownActor,
        si_subjectType := map_option (subject_name \<circ> fst) (fs_subject input),
        si_subjectId := map_option snd (fs_subject input),
        si_reasonCategory := Some (SecurityActivityService_safeReasonCategory
          (Some (fs_reasonCategory input)) ''sign-in-failed''),
        si_identifierCorrelationHash := map_option fst correlation,
        si_correlationKeyVersion := map_option snd correlation\<rparr>)"

definition SecurityActivityService_recordFailedSignIn ::
  "'e app \<Rightarrow> ('e world, security_event) model \<Rightarrow> audit_key_ring option \<Rightarrow> failed_sign_in \<Rightarrow>
   ('e world, unit) io" where
  "SecurityActivityService_recordFailedSignIn A M ring input =
     SecurityActivityService_persist A M (SecurityActivityService_failedSignIn A ring input) True"

text \<open>\<^verbatim>\<open>$setOnInsert\<close> with \<^verbatim>\<open>upsert\<close>: an event that is already there is left alone.\<close>

definition SecurityActivityService_recordIdempotent ::
  "'e app \<Rightarrow> ('e world, security_event) model \<Rightarrow> string \<Rightarrow> activity_input \<Rightarrow> ('e world, unit) io" where
  "SecurityActivityService_recordIdempotent A M eventId input =
     await (asks (clock A)) (\<lambda>now.
     try_catch
       (await (findOneAndUpsert M (\<lambda>e. e_eventId e = Some eventId) (\<lambda>e. e)
         (SecurityActivityService_event input now (Some eventId))) (\<lambda>_. ret ()))
       (\<lambda>error. if error_code error = Some duplicate_key_code then ret () else throw error))"

record actor_reference =
  ar_actorType :: actor_type
  ar_actorId :: "string option"

datatype terminal_status = TerminalCompleted | TerminalFailed

fun terminal_name :: "terminal_status \<Rightarrow> string" where
  "terminal_name TerminalCompleted = ''completed''"
| "terminal_name TerminalFailed = ''failed-terminal''"

definition SecurityActivityService_recordIdentifierOperationTerminal ::
  "'e app \<Rightarrow> ('e world, security_event) model \<Rightarrow> string \<Rightarrow> string \<Rightarrow> terminal_status \<Rightarrow>
   actor_reference option \<Rightarrow> outcome \<Rightarrow> string \<Rightarrow> ('e world, string) io" where
  "SecurityActivityService_recordIdentifierOperationTerminal A M operationId operationType
     terminalStatus actor result reasonCategory =
     (let eventId = ''auth-identifier-operation:'' @ operationId @ '':'' @ terminal_name terminalStatus;
          resolvedConflict = (terminalStatus = TerminalCompleted \<and>
            (operationType = ''resolve-conflict'' \<or> operationType = ''offline-repair'')) in
      await (SecurityActivityService_recordIdempotent A M eventId
        ((activity (if resolvedConflict then IdentifierConflictResolved
                    else IdentifierReservationRecovered) result)
          \<lparr>si_actorType := Some (case actor of None \<Rightarrow> SystemActor | Some a \<Rightarrow> ar_actorType a),
           si_actorId := Option.bind actor ar_actorId,
           si_targetType := Some ''auth-identifier-operation'', si_targetId := Some operationId,
           si_operationId := Some operationId,
           si_reasonCategory := Some (SecurityActivityService_safeReasonCategory (Some reasonCategory)
             ''identifier-operation-terminal''),
           si_context := Some (JObj [(''operationType'', JStr operationType),
             (''terminalStatus'', JStr (terminal_name terminalStatus))])\<rparr>)) (\<lambda>_.
      ret eventId))"

fun actor_type_name :: "actor_type \<Rightarrow> string" where
  "actor_type_name StaffActor = ''staff''"
| "actor_type_name MemberActor = ''member''"
| "actor_type_name SystemActor = ''system''"
| "actor_type_name UnknownActor = ''unknown''"

definition SecurityActivityService_safeActorReference :: "actor_reference option \<Rightarrow> json option" where
  "SecurityActivityService_safeActorReference actor =
     map_option (\<lambda>a. JObj ((''actorType'', JStr (actor_type_name (ar_actorType a))) #
       (if truthy (ar_actorId a) then [(''actorId'', JStr (the (ar_actorId a)))] else []))) actor"

definition SecurityActivityService_recordIdentifierRepairResumed ::
  "'e app \<Rightarrow> ('e world, security_event) model \<Rightarrow> string \<Rightarrow> string \<Rightarrow> actor_reference option \<Rightarrow>
   actor_reference \<Rightarrow> ('e world, string) io" where
  "SecurityActivityService_recordIdentifierRepairResumed A M operationId resumeId originalActor
     resumingActor =
     (let eventId = ''identifier-repair-resumed:'' @ operationId @ '':'' @ resumeId in
      await (SecurityActivityService_recordIdempotent A M eventId
        ((activity IdentifierRepairResumed OutcomeSuccess)
          \<lparr>si_actorType := Some (ar_actorType resumingActor), si_actorId := ar_actorId resumingActor,
           si_targetType := Some ''auth-identifier-operation'', si_targetId := Some operationId,
           si_operationId := Some operationId,
           si_reasonCategory := Some ''identifier-repair-resumed'',
           si_context := Some (JObj
             ((case SecurityActivityService_safeActorReference originalActor of None \<Rightarrow> []
               | Some j \<Rightarrow> [(''originalActor'', j)]) @
              (case SecurityActivityService_safeActorReference (Some resumingActor) of None \<Rightarrow> []
               | Some j \<Rightarrow> [(''resumingActor'', j)])))\<rparr>)) (\<lambda>_.
      ret eventId))"

subsection \<open>What the audit trail keeps\<close>

definition events_redacted :: "'e world \<Rightarrow> bool" where
  "events_redacted w \<longleftrightarrow> (\<forall>e \<in> set (events w). redacted (e_context e))"

text \<open>The earlier events are never changed or removed.\<close>

definition events_extend :: "security_event list \<Rightarrow> 'e world \<Rightarrow> bool" where
  "events_extend es w \<longleftrightarrow> (\<exists>fs. events w = es @ fs)"

lemma event_fields [simp]:
  "redacted (e_context (SecurityActivityService_event input now eventId i))"
  "e_eventId (SecurityActivityService_event input now eventId i) = eventId"
  by (simp_all add: SecurityActivityService_event_def redacted_redactContext)

lemma one_updated_same: "one_updated clash p (\<lambda>x. x) ds ds' d \<Longrightarrow> ds' = ds"
  by (auto simp: one_updated_def)

locale event_store =
  ev: collection M events events_update event_clash event_valid e_id
  for M :: "('e world, security_event) model"
begin

text \<open>A predicate that depends on the events only, and that a new redacted event keeps, is kept.\<close>

lemma keeps_persist:
  assumes "\<And>w z. I w \<Longrightarrow> I (w\<lparr>env := z\<rparr>)"
    and "\<And>w input now i. I w \<Longrightarrow> I (w\<lparr>events := events w @ [SecurityActivityService_event input now None i]\<rparr>)"
  shows "keeps I (SecurityActivityService_persist A M input allow)"
  unfolding SecurityActivityService_persist_def
  by (intro keeps_rules ev.keeps_createDoc) (auto intro: assms)

lemma keeps_recordIdempotent:
  assumes "\<And>w z. I w \<Longrightarrow> I (w\<lparr>env := z\<rparr>)"
    and "\<And>w input now i x. I w \<Longrightarrow> I (w\<lparr>events := events w @ [SecurityActivityService_event input now x i]\<rparr>)"
  shows "keeps I (SecurityActivityService_recordIdempotent A M eventId input)"
  unfolding SecurityActivityService_recordIdempotent_def
  by (intro keeps_rules ev.keeps_findOneAndUpsert) (auto intro: assms dest!: one_updated_same)

lemma trail_grows:
  "keeps (\<lambda>w. events_redacted w \<and> events_extend es w) (SecurityActivityService_persist A M input allow)"
  "keeps (\<lambda>w. events_redacted w \<and> events_extend es w)
     (SecurityActivityService_recordIdempotent A M eventId input)"
  by (rule keeps_persist keeps_recordIdempotent; auto simp: events_redacted_def events_extend_def)+

text \<open>Recording an event with an id once more changes nothing.\<close>

lemma recordIdempotent_present:
  assumes "e \<in> set (events w)" and "e_eventId e = Some eventId"
  shows "wp (SecurityActivityService_recordIdempotent A M eventId input)
    (\<lambda>_ w'. events w' = events w) (\<lambda>_ w'. events w' = events w) w"
  unfolding SecurityActivityService_recordIdempotent_def
  using assms by (auto intro!: wp_rules dest!: one_updated_same)

lemma recordIdempotent_absent:
  "wp (SecurityActivityService_recordIdempotent A M eventId input)
    (\<lambda>_ w'. events w' = events w \<or> (\<exists>e. events w' = events w @ [e] \<and> e_eventId e = Some eventId \<and>
       (\<forall>x \<in> set (events w). e_eventId x \<noteq> Some eventId)))
    (\<lambda>_ w'. True) w"
  unfolding SecurityActivityService_recordIdempotent_def
  by (auto intro!: wp_rules dest!: one_updated_same)

end

text \<open>On a store that does not fail, an event without a correlation is recorded.\<close>

definition plain_activity :: "activity_input \<Rightarrow> bool" where
  "plain_activity input \<longleftrightarrow> si_identifierCorrelationHash input = None \<and>
     si_correlationKeyVersion input = None \<and> si_persistenceBoundary input \<noteq> Some BrowserOriginDenial"

locale reliable_event_store =
  event_store M + ev: reliable_collection M events events_update event_clash event_valid e_id
  for M :: "('e world, security_event) model"
begin

lemma wp_record:
  assumes "plain_activity input"
    and "\<And>i z. Q () (w\<lparr>events := events w @ [SecurityActivityService_event input (clock A w) None i], env := z\<rparr>)"
  shows "wp (SecurityActivityService_record A M input) Q E w"
proof -
  have "one_added event_clash event_valid e_id (SecurityActivityService_event input now None i) es \<longleftrightarrow>
      i \<notin> e_id ` set es" and "e_id (SecurityActivityService_event input now None i) = i" for now i es
    using assms(1) by (auto simp: SecurityActivityService_event_def plain_activity_def one_added_def
        event_clash_def event_valid_def)
  with assms show ?thesis
    by (auto simp: SecurityActivityService_record_def SecurityActivityService_persist_def plain_activity_def
        intro!: ev.wp_createDoc_reliable)
qed

end

interpretation mem_event_store: reliable_event_store "the (eventModel mem_app)" ..

subsection \<open>Properties\<close>

text \<open>C29: the audit trail only grows, and no event in it holds a value under a key that names a
  password, token, secret, cookie, credential, identifier, email or login, at any depth of its
  context, whatever the callers passed and whatever failed.\<close>

theorem audit_trail_is_redacted:
  assumes "event_store M" and "events_redacted w"
  shows "(let w' = snd (SecurityActivityService_record A M input w) in
      events_redacted w' \<and> (\<exists>es. events w' = events w @ es)) \<and>
    (let w' = snd (SecurityActivityService_recordFailedSignIn A M ring failure w) in
      events_redacted w' \<and> (\<exists>es. events w' = events w @ es)) \<and>
    (let w' = snd (SecurityActivityService_recordIdempotent A M eventId input w) in
      events_redacted w' \<and> (\<exists>es. events w' = events w @ es))"
proof -
  have start: "events_redacted w \<and> events_extend (events w) w"
    using assms(2) by (simp add: events_extend_def)
  show ?thesis
    using keeps_snd [OF event_store.trail_grows(1) [OF assms(1)] start]
      keeps_snd [OF event_store.trail_grows(2) [OF assms(1)] start]
    by (simp add: SecurityActivityService_record_def SecurityActivityService_recordFailedSignIn_def
        events_extend_def Let_def)
qed

definition sample_activity :: activity_input where
  "sample_activity = (activity RoleChanged OutcomeSuccess)\<lparr>si_context :=
     Some (JObj [(''roles'', JArr [JObj [(''userEmail'', JStr ''ada@example.org'')]])])\<rparr>"

theorem audit_trail_is_redacted_witness:
  "events_redacted (snd (SecurityActivityService_record mem_app (the (eventModel mem_app)) sample_activity
     sample_world)) \<and>
   map e_context (events (snd (SecurityActivityService_record mem_app (the (eventModel mem_app))
     sample_activity sample_world))) =
   [JObj [(''roles'', JArr [JObj [(''userEmail'', JStr ''[REDACTED]'')]])]]"
proof
  have "events_redacted sample_world" by code_simp
  from audit_trail_is_redacted [OF mem_event_store.event_store_axioms this]
  show "events_redacted (snd (SecurityActivityService_record mem_app (the (eventModel mem_app))
      sample_activity sample_world))"
    by (metis (no_types, lifting))
qed code_simp

text \<open>Recording an event under an id that is already in the trail adds nothing, and recording under
  a new id adds at most one event: retries of a finished operation are not counted twice.\<close>

theorem recording_is_idempotent:
  assumes "event_store M" and "SecurityActivityService_recordIdempotent A M eventId input w = (Inr u, w')"
  shows "events w' = events w \<or>
    (\<exists>e. events w' = events w @ [e] \<and> e_eventId e = Some eventId \<and>
       Some eventId \<notin> e_eventId ` set (events w))"
  using wp_return_value [OF event_store.recordIdempotent_absent [OF assms(1)] assms(2)]
  by (metis (no_types, lifting) imageE)

theorem recording_is_idempotent_witness:
  "\<exists>e. events (snd (SecurityActivityService_recordIdempotent mem_app (the (eventModel mem_app)) ''op-1''
     sample_activity sample_world)) = [e] \<and> e_eventId e = Some ''op-1''"
proof -
  have "\<not> isl (fst (SecurityActivityService_recordIdempotent mem_app (the (eventModel mem_app)) ''op-1''
      sample_activity sample_world))"
    and some: "events (snd (SecurityActivityService_recordIdempotent mem_app (the (eventModel mem_app))
      ''op-1'' sample_activity sample_world)) \<noteq> []" and none: "events sample_world = []"
    by code_simp+
  from recording_is_idempotent [OF mem_event_store.event_store_axioms run_returned [OF this(1)]] some none
  show ?thesis by auto
qed

text \<open>A caller cannot supply the correlation of an identifier with an event: such a call throws
  and stores nothing; and a failed sign-in of a known subject is recorded without a correlation.\<close>

theorem correlation_is_not_supplied:
  assumes "truthy (si_identifierCorrelationHash input)" and "fs_subject failure \<noteq> None"
  shows "(\<exists>e. SecurityActivityService_record A M input w = (Inl e, w)) \<and>
    si_identifierCorrelationHash (SecurityActivityService_failedSignIn A ring failure) = None \<and>
    si_correlationKeyVersion (SecurityActivityService_failedSignIn A ring failure) = None"
  using assms by (simp add: SecurityActivityService_record_def SecurityActivityService_persist_def
      SecurityActivityService_failedSignIn_def throw_def activity_def Let_def)

theorem correlation_is_not_supplied_witness:
  "\<exists>e. SecurityActivityService_record mem_app (the (eventModel mem_app))
     (sample_activity\<lparr>si_identifierCorrelationHash := Some ''forged''\<rparr>) sample_world = (Inl e, sample_world)"
  by (rule correlation_is_not_supplied [of _
      "\<lparr>fs_normalizedIdentifier = None, fs_subject = Some (StaffSubject, ''1''), fs_reasonCategory = ''x''\<rparr>",
      THEN conjunct1]) simp_all

end
