(* ===== verification/Permissions.thy ===== *)
theory Permissions
  imports Security_Activity
begin

text \<open>
  \<^verbatim>\<open>src/common/enums/auth-permission.enum.ts\<close>, \<^verbatim>\<open>src/auth/permissions.service.ts\<close> and the guards that
  decide on a request by what its user may do: \<^verbatim>\<open>permissions.guard.ts\<close>, \<^verbatim>\<open>member-auth.guard.ts\<close> and
  \<^verbatim>\<open>roles.guard.ts\<close>.  What the decorators attach to a handler or its class is a \<open>route_metadata\<close>; what
  the reflector reads of it is the handler's value, or else the class's.
\<close>

subsection \<open>Permissions and roles\<close>

datatype auth_permission =
    CatalogRead | CatalogManage | MembersRead | MembersManage | MembershipTypesRead
  | MembershipTypesManage | BorrowingsRead | BorrowingsManage | StaffUsersRead | StaffUsersManage
  | RolesRead | RolesManage | AuthIdentifiersRead | AuthIdentifiersManage | SecurityEventsRead
  | MemberSelfRead

definition all_permissions :: "auth_permission list" where
  "all_permissions = [CatalogRead, CatalogManage, MembersRead, MembersManage, MembershipTypesRead,
     MembershipTypesManage, BorrowingsRead, BorrowingsManage, StaffUsersRead, StaffUsersManage,
     RolesRead, RolesManage, AuthIdentifiersRead, AuthIdentifiersManage, SecurityEventsRead,
     MemberSelfRead]"

fun permission_name :: "auth_permission \<Rightarrow> string" where
  "permission_name CatalogRead = ''catalog:read''"
| "permission_name CatalogManage = ''catalog:manage''"
| "permission_name MembersRead = ''members:read''"
| "permission_name MembersManage = ''members:manage''"
| "permission_name MembershipTypesRead = ''membership-types:read''"
| "permission_name MembershipTypesManage = ''membership-types:manage''"
| "permission_name BorrowingsRead = ''borrowings:read''"
| "permission_name BorrowingsManage = ''borrowings:manage''"
| "permission_name StaffUsersRead = ''staff-users:read''"
| "permission_name StaffUsersManage = ''staff-users:manage''"
| "permission_name RolesRead = ''roles:read''"
| "permission_name RolesManage = ''roles:manage''"
| "permission_name AuthIdentifiersRead = ''auth-identifiers:read''"
| "permission_name AuthIdentifiersManage = ''auth-identifiers:manage''"
| "permission_name SecurityEventsRead = ''security-events:read''"
| "permission_name MemberSelfRead = ''member:self:read''"

fun staffRolePermissions :: "staff_role \<Rightarrow> auth_permission list" where
  "staffRolePermissions Staff =
     [CatalogRead, CatalogManage, MembersRead, MembersManage, MembershipTypesRead,
      MembershipTypesManage, BorrowingsRead, BorrowingsManage]"
| "staffRolePermissions Admin =
     [CatalogRead, CatalogManage, MembersRead, MembersManage, MembershipTypesRead,
      MembershipTypesManage, BorrowingsRead, BorrowingsManage, StaffUsersRead, StaffUsersManage,
      RolesRead, RolesManage, AuthIdentifiersRead, AuthIdentifiersManage, SecurityEventsRead]"

definition memberRolePermissions :: "auth_permission list" where
  "memberRolePermissions = [MemberSelfRead]"

text \<open>\<^verbatim>\<open>Array.from(new Set(xs))\<close>: the first occurrence of each element, in order.\<close>

definition unique_list :: "'a list \<Rightarrow> 'a list" where
  "unique_list xs = fold (\<lambda>x acc. if x \<in> set acc then acc else acc @ [x]) xs []"

definition permissionsForStaffRoles :: "staff_role list \<Rightarrow> auth_permission list" where
  "permissionsForStaffRoles roles = unique_list (concat (map staffRolePermissions roles))"

text \<open>The permission a text of a scope stands for, if it is a known one.\<close>

definition known_permission :: "string \<Rightarrow> auth_permission option" where
  "known_permission name = find (\<lambda>p. permission_name p = name) all_permissions"

text \<open>\<^verbatim>\<open>text.split(/\s+/)\<close>\<close>

fun split_white :: "string \<Rightarrow> string list" where
  "split_white [] = [[]]"
| "split_white (c # cs) =
     (if white_space c
      then (case cs of [] \<Rightarrow> [[], []]
            | d # ds \<Rightarrow> if white_space d then split_white cs else [] # split_white cs)
      else (case split_white cs of [] \<Rightarrow> [[c]] | p # ps \<Rightarrow> (c # p) # ps))"

subsection \<open>\<open>PermissionsService\<close>\<close>

datatype context_role = StaffRoleOf staff_role | MemberRole

record auth_context =
  x_subjectId :: string
  x_roleArea :: subject_type
  x_roles :: "context_role list"
  x_permissions :: "auth_permission list"
  x_authVersion :: nat
  x_issuer :: "string option"
  x_audience :: "string list option"
  x_tokenId :: "string option"
  x_scope :: "string option"

record raw_auth_payload =
  p_sub :: "string option"
  p_iss :: "string option"
  p_aud :: "string list option"
  p_jti :: "string option"
  p_roleArea :: "string option"
  p_role_area :: "string option"
  p_scope :: "string option"
  p_permissions :: "string list option"
  p_auth_version :: "nat option"

definition PermissionsService_reviewStaffRoles :: "(staff_role \<times> auth_permission list) list" where
  "PermissionsService_reviewStaffRoles =
     map (\<lambda>role. (role, permissionsForStaffRoles [role])) [Staff, Admin]"

definition PermissionsService_permissionsForMember :: "auth_permission list" where
  "PermissionsService_permissionsForMember = memberRolePermissions"

definition PermissionsService_permissionsFromScope :: "string option \<Rightarrow> auth_permission list" where
  "PermissionsService_permissionsFromScope scope =
     (if \<not> truthy scope then []
      else List.map_filter known_permission (split_white (the scope)))"

definition PermissionsService_permissionsFromPayload :: "raw_auth_payload \<Rightarrow> auth_permission list option" where
  "PermissionsService_permissionsFromPayload payload =
     (case p_permissions payload of
        Some (n # ns) \<Rightarrow> Some (List.map_filter known_permission (n # ns))
      | _ \<Rightarrow>
        (let scopedPermissions = PermissionsService_permissionsFromScope (p_scope payload) in
         if scopedPermissions \<noteq> [] then Some scopedPermissions else None))"

definition scope_of :: "auth_permission list \<Rightarrow> string" where
  "scope_of permissions = join '' '' (map permission_name permissions)"

text \<open>
  A document always has its roles and its version here, so the payload's values for them, which the
  sources fall back to, are never needed.
\<close>

definition PermissionsService_buildStaffContext :: "staff_user \<Rightarrow> raw_auth_payload \<Rightarrow> auth_context" where
  "PermissionsService_buildStaffContext user payload =
     (let permissions = (case PermissionsService_permissionsFromPayload payload of
          Some ps \<Rightarrow> ps | None \<Rightarrow> permissionsForStaffRoles (u_roles user)) in
      \<lparr>x_subjectId = u_id user, x_roleArea = StaffSubject,
       x_roles = map StaffRoleOf (u_roles user), x_permissions = permissions,
       x_authVersion = u_authVersion user, x_issuer = p_iss payload, x_audience = p_aud payload,
       x_tokenId = p_jti payload, x_scope = Some (scope_of permissions)\<rparr>)"

definition PermissionsService_buildMemberContext :: "member \<Rightarrow> raw_auth_payload \<Rightarrow> auth_context" where
  "PermissionsService_buildMemberContext member payload =
     (let permissions = (case PermissionsService_permissionsFromPayload payload of
          Some ps \<Rightarrow> ps | None \<Rightarrow> PermissionsService_permissionsForMember) in
      \<lparr>x_subjectId = m_id member, x_roleArea = MemberSubject, x_roles = [MemberRole],
       x_permissions = permissions, x_authVersion = m_authVersion member,
       x_issuer = p_iss payload, x_audience = p_aud payload, x_tokenId = p_jti payload,
       x_scope = Some (scope_of permissions)\<rparr>)"

text \<open>The \<^verbatim>\<open>user\<close> a request carries once it is authenticated.\<close>

record request_user =
  r_id :: "string option"
  r_subjectId :: "string option"
  r_roleArea :: "subject_type option"
  r_roles :: "context_role list option"
  r_permissions :: "auth_permission list option"
  r_authVersion :: "nat option"
  r_issuer :: "string option"
  r_audience :: "string list option"
  r_tokenId :: "string option"
  r_scope :: "string option"
  r_email :: "string option"
  r_displayName :: "string option"
  r_memberNumber :: "string option"
  r_authContext :: "auth_context option"

definition PermissionsService_normalizeRequestContext :: "request_user option \<Rightarrow> auth_context option" where
  "PermissionsService_normalizeRequestContext request =
     (case request of None \<Rightarrow> None
      | Some user \<Rightarrow>
          (case r_authContext user of Some authContext \<Rightarrow> Some authContext
           | None \<Rightarrow>
               if r_roleArea user = None \<or> \<not> truthy (r_id user) then None
               else Some
                 \<lparr>x_subjectId = (case r_subjectId user of Some s \<Rightarrow> s | None \<Rightarrow> the (r_id user)),
                  x_roleArea = the (r_roleArea user),
                  x_roles = (case r_roles user of Some rs \<Rightarrow> rs
                    | None \<Rightarrow> if r_roleArea user = Some MemberSubject then [MemberRole] else []),
                  x_permissions = (case r_permissions user of Some ps \<Rightarrow> ps | None \<Rightarrow> []),
                  x_authVersion = (case r_authVersion user of Some v \<Rightarrow> v | None \<Rightarrow> 0),
                  x_issuer = r_issuer user, x_audience = r_audience user,
                  x_tokenId = r_tokenId user, x_scope = r_scope user\<rparr>))"

definition PermissionsService_hasEveryPermission :: "auth_context option \<Rightarrow> auth_permission list \<Rightarrow> bool" where
  "PermissionsService_hasEveryPermission context requiredPermissions =
     (case context of None \<Rightarrow> False
      | Some c \<Rightarrow>
          requiredPermissions \<noteq> [] \<and> list_all (\<lambda>p. p \<in> set (x_permissions c)) requiredPermissions)"

subsection \<open>The guards\<close>

record route_metadata =
  d_class :: string
  d_handler :: string
  d_handlerPublic :: "bool option"
  d_classPublic :: "bool option"
  d_handlerPermissions :: "auth_permission list option"
  d_classPermissions :: "auth_permission list option"
  d_handlerRoles :: "staff_role list option"
  d_classRoles :: "staff_role list option"

definition getAllAndOverride :: "'a option \<Rightarrow> 'a option \<Rightarrow> 'a option" where
  "getAllAndOverride onHandler onClass = (case onHandler of Some x \<Rightarrow> Some x | None \<Rightarrow> onClass)"

fun area_actor :: "subject_type \<Rightarrow> actor_type" where
  "area_actor StaffSubject = StaffActor"
| "area_actor MemberSubject = MemberActor"

definition permissions_json :: "auth_permission list \<Rightarrow> json" where
  "permissions_json ps = JObj [(''requiredPermissions'', JArr (map (\<lambda>p. JStr (permission_name p)) ps))]"

text \<open>\<^verbatim>\<open>x || fallback\<close> on a string.\<close>

definition or_else :: "string \<Rightarrow> string \<Rightarrow> string" where
  "or_else s fallback = (if s = [] then fallback else s)"

definition denial_event ::
  "route_metadata \<Rightarrow> actor_type \<Rightarrow> string option \<Rightarrow> auth_permission list \<Rightarrow> string \<Rightarrow> activity_input" where
  "denial_event route actor subjectId requiredPermissions reasonCategory =
     (activity AuthorizationDenied OutcomeDenied)
       \<lparr>si_actorType := Some actor,
        si_actorId := (if truthy subjectId then subjectId else None),
        si_targetType := Some (or_else (d_class route) ''controller''),
        si_targetId := Some (or_else (d_handler route) ''handler''),
        si_reasonCategory := Some reasonCategory,
        si_context := Some (permissions_json requiredPermissions)\<rparr>"

definition PermissionsGuard_recordDenial ::
  "'e app \<Rightarrow> route_metadata \<Rightarrow> auth_context option \<Rightarrow> auth_permission list \<Rightarrow> string \<Rightarrow> ('e world, unit) io" where
  "PermissionsGuard_recordDenial A route authContext requiredPermissions reasonCategory =
     try_catch
       (record_activity A (denial_event route
         (case authContext of None \<Rightarrow> UnknownActor | Some c \<Rightarrow> area_actor (x_roleArea c))
         (map_option x_subjectId authContext) requiredPermissions reasonCategory))
       (\<lambda>_. ret ())"

definition PermissionsGuard_canActivate ::
  "'e app \<Rightarrow> route_metadata \<Rightarrow> request_user option \<Rightarrow> ('e world, bool) io" where
  "PermissionsGuard_canActivate A route user =
     (if getAllAndOverride (d_handlerPublic route) (d_classPublic route) = Some True then ret True
      else
      (let requiredPermissions =
             (case getAllAndOverride (d_handlerPermissions route) (d_classPermissions route) of
                Some ps \<Rightarrow> ps | None \<Rightarrow> []);
           authContext = PermissionsService_normalizeRequestContext user in
      if requiredPermissions = []
      then await (PermissionsGuard_recordDenial A route authContext [] ''permission-policy-required'')
        (\<lambda>_. throw (Forbidden ''Permission policy is required''))
      else if list_ex (\<lambda>p. p \<noteq> MemberSelfRead) requiredPermissions \<and>
        map_option x_roleArea authContext = Some MemberSubject
      then await (PermissionsGuard_recordDenial A route authContext requiredPermissions
          ''staff-permission-required'')
        (\<lambda>_. throw (Forbidden ''Staff permission is required''))
      else if \<not> PermissionsService_hasEveryPermission authContext requiredPermissions
      then await (PermissionsGuard_recordDenial A route authContext requiredPermissions
          ''required-permission-missing'')
        (\<lambda>_. throw (Forbidden ''Required permission is missing''))
      else ret True))"

text \<open>What \<^verbatim>\<open>MemberAuthGuard\<close> reads of \<^verbatim>\<open>request.user?.authContext ?? request.user\<close>.\<close>

definition member_area :: "request_user option \<Rightarrow> subject_type option" where
  "member_area user = Option.bind user (\<lambda>u.
     (case r_authContext u of Some c \<Rightarrow> Some (x_roleArea c) | None \<Rightarrow> r_roleArea u))"

definition member_permissions :: "request_user option \<Rightarrow> auth_permission list" where
  "member_permissions user = (case user of None \<Rightarrow> []
     | Some u \<Rightarrow> (case r_authContext u of Some c \<Rightarrow> x_permissions c
        | None \<Rightarrow> (case r_permissions u of Some ps \<Rightarrow> ps | None \<Rightarrow> [])))"

definition member_subject :: "request_user option \<Rightarrow> string option" where
  "member_subject user = Option.bind user (\<lambda>u.
     (case r_authContext u of Some c \<Rightarrow> Some (x_subjectId c)
      | None \<Rightarrow> (case r_subjectId u of Some s \<Rightarrow> Some s | None \<Rightarrow> r_id u)))"

definition MemberAuthGuard_recordDenial ::
  "'e app \<Rightarrow> route_metadata \<Rightarrow> request_user option \<Rightarrow> string \<Rightarrow> ('e world, unit) io" where
  "MemberAuthGuard_recordDenial A route user reasonCategory =
     try_catch
       (record_activity A (denial_event route
         (case member_area user of None \<Rightarrow> UnknownActor | Some a \<Rightarrow> area_actor a)
         (member_subject user) [MemberSelfRead] reasonCategory))
       (\<lambda>_. ret ())"

definition MemberAuthGuard_canActivate ::
  "'e app \<Rightarrow> route_metadata \<Rightarrow> request_user option \<Rightarrow> ('e world, bool) io" where
  "MemberAuthGuard_canActivate A route user =
     (if member_area user \<noteq> Some MemberSubject
      then await (MemberAuthGuard_recordDenial A route user ''member-session-required'')
        (\<lambda>_. throw (Forbidden ''Member session is required''))
      else if MemberSelfRead \<notin> set (member_permissions user)
      then await (MemberAuthGuard_recordDenial A route user ''member-self-permission-required'')
        (\<lambda>_. throw (Forbidden ''Member self-service permission is required''))
      else ret True)"

definition RolesGuard_canActivate :: "route_metadata \<Rightarrow> request_user option \<Rightarrow> ('w, bool) io" where
  "RolesGuard_canActivate route user =
     (let requiredRoles = (case getAllAndOverride (d_handlerRoles route) (d_classRoles route) of
            Some rs \<Rightarrow> rs | None \<Rightarrow> []) in
      if requiredRoles = [] then ret True
      else
      (let userRoles = (case Option.bind user r_roles of Some rs \<Rightarrow> rs | None \<Rightarrow> []) in
       if user = None \<or> \<not> list_ex (\<lambda>role. StaffRoleOf role \<in> set userRoles) requiredRoles
       then throw (Forbidden ''Required role is missing'')
       else ret True))"

subsection \<open>Lemmas\<close>

lemma unique_list_fold:
  "set (fold (\<lambda>x acc. if x \<in> set acc then acc else acc @ [x]) xs acc) = set acc \<union> set xs"
  "distinct acc \<Longrightarrow> distinct (fold (\<lambda>x acc. if x \<in> set acc then acc else acc @ [x]) xs acc)"
  by (induction xs arbitrary: acc) auto

lemma set_unique_list [simp]: "set (unique_list xs) = set xs"
  by (simp add: unique_list_def unique_list_fold)

lemma distinct_unique_list [simp]: "distinct (unique_list xs)"
  by (simp add: unique_list_def unique_list_fold)

lemma unique_list_empty [simp]: "unique_list xs = [] \<longleftrightarrow> xs = []"
  by (metis set_empty set_unique_list)

lemma known_permission_name [simp]: "known_permission (permission_name p) = Some p"
  by (cases p) (simp_all add: known_permission_def all_permissions_def)

lemma known_permission_iff: "known_permission name = Some p \<longleftrightarrow> permission_name p = name"
  by (metis (mono_tags, lifting) find_Some_iff known_permission_def known_permission_name)

lemma map_filter_known [simp]:
  "List.map_filter known_permission (map permission_name ps) = ps"
  by (induction ps) (simp_all add: List.map_filter_def)

lemma permission_name_word:
  "permission_name p \<noteq> []" "list_all (\<lambda>c. \<not> white_space c) (permission_name p)"
  by (cases p; simp add: white_space_def char_code_def)+

text \<open>Words that are joined by a space are read back.\<close>

lemma split_white_word:
  "list_all (\<lambda>c. \<not> white_space c) s \<Longrightarrow> s \<noteq> [] \<Longrightarrow> split_white s = [s]"
proof (induction s)
  case (Cons c cs)
  then show ?case by (cases cs) auto
qed simp

lemma white_space_blank [simp]: "white_space CHR '' ''"
  by (simp add: white_space_def char_code_def)

lemma split_white_blank:
  assumes "cs \<noteq> []" and "\<not> white_space (hd cs)"
  shows "split_white (CHR '' '' # cs) = [] # split_white cs"
  using assms by (cases cs) auto

lemma split_white_cons:
  assumes "list_all (\<lambda>c. \<not> white_space c) s" and "s \<noteq> []" and "t \<noteq> []" and "\<not> white_space (hd t)"
  shows "split_white (s @ CHR '' '' # t) = s # split_white t"
  using assms(1,2)
proof (induction s)
  case (Cons c cs)
  show ?case
  proof (cases cs)
    case Nil
    then show ?thesis using Cons.prems split_white_blank [OF assms(3,4)] by (simp del: split_white.simps(2) add: split_white.simps(2) [of c])
  next
    case (Cons d ds)
    then show ?thesis using Cons.prems Cons.IH by simp
  qed
qed simp

lemma hd_join_word:
  "ps \<noteq> [] \<Longrightarrow> join '' '' (map permission_name ps) \<noteq> [] \<and>
     \<not> white_space (hd (join '' '' (map permission_name ps)))"
proof (induction ps)
  case (Cons p ps)
  have "permission_name p \<noteq> []" "\<not> white_space (hd (permission_name p))"
    using permission_name_word [of p] by (auto simp: list_all_iff)
  then show ?case by (cases ps) auto
qed simp

lemma split_white_scope: "ps \<noteq> [] \<Longrightarrow> split_white (scope_of ps) = map permission_name ps"
proof (induction ps)
  case (Cons p ps)
  show ?case
  proof (cases ps)
    case Nil
    then show ?thesis using permission_name_word [of p] by (simp add: scope_of_def split_white_word)
  next
    case (Cons q qs)
    then show ?thesis
      using Cons.IH permission_name_word [of p] hd_join_word [of ps]
      by (simp add: scope_of_def split_white_cons)
  qed
qed simp

lemma denial_is_swallowed [simp]:
  "wp (PermissionsGuard_recordDenial A route c ps reason) Q E w \<longleftrightarrow>
     Q () (snd (PermissionsGuard_recordDenial A route c ps reason w))"
  "wp (MemberAuthGuard_recordDenial A route user reason) Q E w \<longleftrightarrow>
     Q () (snd (MemberAuthGuard_recordDenial A route user reason w))"
  by (auto simp: PermissionsGuard_recordDenial_def MemberAuthGuard_recordDenial_def wp_def try_catch_def
      ret_def split: prod.split sum.split)

text \<open>A denial that the trail takes down.\<close>

definition denial_recorded ::
  "route_metadata \<Rightarrow> actor_type \<Rightarrow> string option \<Rightarrow> security_event list \<Rightarrow> security_event list \<Rightarrow> bool" where
  "denial_recorded route actor subjectId es es' \<longleftrightarrow>
     (\<exists>e. es' = es @ [e] \<and> e_eventType e = AuthorizationDenied \<and> e_outcome e = OutcomeDenied \<and>
        e_actorType e = actor \<and> e_actorId e = (if truthy subjectId then subjectId else None) \<and>
        e_targetType e = Some (or_else (d_class route) ''controller'') \<and>
        e_targetId e = Some (or_else (d_handler route) ''handler''))"

context reliable_event_store
begin

lemma wp_denial:
  assumes "eventModel A = Some M"
    and "\<And>w'. denial_recorded route actor subjectId (events w) (events w') \<Longrightarrow> Q () w'"
  shows "wp (try_catch (record_activity A (denial_event route actor subjectId ps reason)) (\<lambda>_. ret ())) Q E w"
  using assms(1)
  by (auto simp: record_activity_def plain_activity_def denial_event_def activity_def
      denial_recorded_def SecurityActivityService_event_def intro!: wp_record assms(2))

lemma wp_guard_denial:
  assumes "eventModel A = Some M"
  shows "wp (PermissionsGuard_canActivate A route user) (\<lambda>_ _. True)
    (\<lambda>_ w'. denial_recorded route
       (case PermissionsService_normalizeRequestContext user of None \<Rightarrow> UnknownActor
        | Some c \<Rightarrow> area_actor (x_roleArea c))
       (map_option x_subjectId (PermissionsService_normalizeRequestContext user)) (events w) (events w')) w"
  unfolding PermissionsGuard_canActivate_def PermissionsGuard_recordDenial_def Let_def
  using assms by (auto intro!: wp_denial simp del: wp_try_catch)

end

subsection \<open>Properties\<close>

text \<open>The scope a token carries is read back as the permissions it was written from.\<close>

theorem scope_roundtrip:
  "PermissionsService_permissionsFromScope (Some (scope_of ps)) = ps"
proof (cases "ps = []")
  case True
  then show ?thesis by (simp add: PermissionsService_permissionsFromScope_def scope_of_def)
next
  case False
  moreover from False have "scope_of ps \<noteq> []" using hd_join_word by (simp add: scope_of_def)
  ultimately show ?thesis by (simp add: PermissionsService_permissionsFromScope_def split_white_scope)
qed

text \<open>C7: the permissions guard lets a request through exactly when the route is public, or when it names
  at least one permission, the request's user has all of them, and a member is only ever admitted to
  what asks for nothing but member self-service; otherwise it throws Forbidden, whatever happens to
  the audit record.\<close>

theorem permissions_guard_decides:
  "let required = (case getAllAndOverride (d_handlerPermissions route) (d_classPermissions route) of
       Some ps \<Rightarrow> ps | None \<Rightarrow> []);
     granted = (getAllAndOverride (d_handlerPublic route) (d_classPublic route) = Some True \<or>
       (\<exists>c. PermissionsService_normalizeRequestContext user = Some c \<and> required \<noteq> [] \<and>
          set required \<subseteq> set (x_permissions c) \<and>
          (x_roleArea c = StaffSubject \<or> set required \<subseteq> {MemberSelfRead})));
     outcome = fst (PermissionsGuard_canActivate A route user w) in
   if granted then outcome = Inr True else (\<exists>m. outcome = Inl (Forbidden m))"
proof -
  define required where "required = (case getAllAndOverride (d_handlerPermissions route)
    (d_classPermissions route) of Some ps \<Rightarrow> ps | None \<Rightarrow> [])"
  define granted where "granted = (getAllAndOverride (d_handlerPublic route) (d_classPublic route) = Some True \<or>
       (\<exists>c. PermissionsService_normalizeRequestContext user = Some c \<and> required \<noteq> [] \<and>
          set required \<subseteq> set (x_permissions c) \<and>
          (x_roleArea c = StaffSubject \<or> set required \<subseteq> {MemberSelfRead})))"
  have area: "(a \<noteq> StaffSubject) = (a = MemberSubject)" for a by (cases a) auto
  have "wp (PermissionsGuard_canActivate A route user) (\<lambda>b _. b \<and> granted)
      (\<lambda>e _. \<not> granted \<and> (\<exists>m. e = Forbidden m)) w"
    unfolding PermissionsGuard_canActivate_def required_def [symmetric] Let_def granted_def
    by (auto simp: PermissionsService_hasEveryPermission_def list_all_iff list_ex_iff subset_iff area
        split: option.split)
  then show ?thesis unfolding required_def [symmetric] Let_def granted_def [symmetric]
    by (auto simp: wp_def split: prod.splits sum.splits)
qed

text \<open>While the audit store works, every request the permissions guard refuses leaves one more event
  in the trail, with the class and handler that were asked for and the subject that asked.\<close>

theorem refusals_are_recorded:
  assumes "reliable_event_store M" and "eventModel A = Some M"
    and "PermissionsGuard_canActivate A route user w = (Inl e, w')"
  shows "\<exists>ev. events w' = events w @ [ev] \<and> e_eventType ev = AuthorizationDenied \<and>
    e_outcome ev = OutcomeDenied \<and> e_targetType ev = Some (or_else (d_class route) ''controller'') \<and>
    e_targetId ev = Some (or_else (d_handler route) ''handler'') \<and>
    e_actorId ev = (case PermissionsService_normalizeRequestContext user of None \<Rightarrow> None
      | Some c \<Rightarrow> if x_subjectId c = [] then None else Some (x_subjectId c))"
  using wp_thrown [OF reliable_event_store.wp_guard_denial [OF assms(1,2)] assms(3)]
  by (auto simp: denial_recorded_def split: option.splits)

definition sample_route :: route_metadata where
  "sample_route = \<lparr>d_class = ''StaffUsersController'', d_handler = ''create'', d_handlerPublic = None,
     d_classPublic = None, d_handlerPermissions = Some [StaffUsersManage, RolesManage],
     d_classPermissions = None, d_handlerRoles = None, d_classRoles = None\<rparr>"

theorem refusals_are_recorded_witness:
  "\<exists>ev. events (snd (PermissionsGuard_canActivate mem_app sample_route None sample_world)) = [ev] \<and>
     e_eventType ev = AuthorizationDenied \<and> e_targetId ev = Some ''create''"
proof -
  have some: "eventModel mem_app = Some (the (eventModel mem_app))" by (simp add: mem_app_def)
  have "isl (fst (PermissionsGuard_canActivate mem_app sample_route None sample_world))"
    and none: "events sample_world = []" by code_simp+
  from refusals_are_recorded [OF mem_event_store.reliable_event_store_axioms some run_thrown [OF this(1)]]
  show ?thesis by (auto simp: none sample_route_def or_else_def)
qed

end
