(* ===== verification/Accounts.thy ===== *)
theory Accounts
  imports Permissions
begin

text \<open>
  What the member and the staff user service both do to an account besides its own document: the
  reservation of its sign-in identifiers, the revocation of its refresh sessions, the audit events.
  The methods \<^verbatim>\<open>releaseIdentifier\<close> and \<^verbatim>\<open>revokeSessions\<close> of \<^verbatim>\<open>src/members/members.service.ts\<close>
  and \<^verbatim>\<open>src/staff-users/staff-users.service.ts\<close> differ in the subject type only, which is an argument
  here.  The collections they touch are optional dependencies.
\<close>

text \<open>\<^verbatim>\<open>actor?.id\<close>, and its default \<^verbatim>\<open>'system'\<close>.\<close>

definition actor_name :: "audit_actor option \<Rightarrow> string option" where
  "actor_name actor = map_option actor_id actor"

definition actor_or_system :: "audit_actor option \<Rightarrow> string" where
  "actor_or_system actor = (case actor of None \<Rightarrow> ''system'' | Some a \<Rightarrow> actor_id a)"

definition held_by :: "subject_type \<Rightarrow> string \<Rightarrow> reservation \<Rightarrow> bool" where
  "held_by subject subjectId i =
     (i_status i = IdentifierActive \<and> i_subjectType i = Some subject \<and> i_subjectId i = Some subjectId)"

text \<open>A reservation that is given up, and one that is taken.\<close>

definition give_up :: "date \<Rightarrow> string \<Rightarrow> reservation \<Rightarrow> reservation" where
  "give_up now actorId i =
     i\<lparr>i_status := IdentifierReleased, i_releasedAt := Some now, i_updatedBy := actorId\<rparr>"

definition new_reservation ::
  "string \<Rightarrow> identifier_type \<Rightarrow> subject_type \<Rightarrow> string \<Rightarrow> string \<Rightarrow> string \<Rightarrow> reservation" where
  "new_reservation normalizedIdentifier identifierType subject subjectId actorId i =
     \<lparr>i_id = i, i_normalizedIdentifier = normalizedIdentifier, i_identifierType = identifierType,
      i_subjectType = Some subject, i_subjectId = Some subjectId, i_status = IdentifierActive,
      i_conflictingSubjects = None, i_conflictResolutionStatus = None, i_pendingOperationId = None,
      i_activationGateOperationId = None, i_lastOperationId = None, i_pendingAction = None,
      i_releasedAt = None, i_createdBy = actorId, i_updatedBy = actorId\<rparr>"

definition releaseIdentifier ::
  "'e app \<Rightarrow> subject_type \<Rightarrow> string \<Rightarrow> string \<Rightarrow> string \<Rightarrow> ('e world, unit) io" where
  "releaseIdentifier A subject normalizedIdentifier subjectId actorId =
     (case identifierModel A of None \<Rightarrow> ret ()
      | Some I \<Rightarrow>
          await (asks (clock A)) (\<lambda>now.
          await (updateOne I
            (\<lambda>i. i_normalizedIdentifier i = normalizedIdentifier \<and> held_by subject subjectId i)
            (give_up now actorId)) (\<lambda>_. ret ())))"

definition revokeSessions ::
  "'e app \<Rightarrow> subject_type \<Rightarrow> string \<Rightarrow> string \<Rightarrow> ('e world, unit) io" where
  "revokeSessions A subject subjectId reason =
     (case accountFamilyModel A of None \<Rightarrow> ret ()
      | Some F \<Rightarrow>
          await (asks (clock A)) (\<lambda>now.
          await (updateMany F
            (\<lambda>f. f_subjectType f = subject \<and> f_subjectId f = subjectId \<and> f_status f = FamilyActive)
            (\<lambda>f. f\<lparr>f_status := FamilyRevoked, f_revokedAt := Some now, f_revokedReason := Some reason,
               f_currentTokenHash := None\<rparr>)) (\<lambda>_. ret ())))"

subsection \<open>What they change\<close>

text \<open>The subject holds the identifier, or no longer holds it.\<close>

definition holds :: "subject_type \<Rightarrow> string \<Rightarrow> string \<Rightarrow> reservation list \<Rightarrow> bool" where
  "holds subject subjectId n is \<longleftrightarrow>
     (\<exists>i \<in> set is. i_normalizedIdentifier i = n \<and> held_by subject subjectId i)"

definition identifiers_unique :: "reservation list \<Rightarrow> bool" where
  "identifiers_unique is \<longleftrightarrow> distinct (map i_normalizedIdentifier is) \<and> distinct (map i_id is)"

text \<open>No session of the subject is open.\<close>

definition signed_out :: "subject_type \<Rightarrow> string \<Rightarrow> family list \<Rightarrow> bool" where
  "signed_out subject subjectId fs \<longleftrightarrow>
     (\<forall>f \<in> set fs. f_subjectType f = subject \<and> f_subjectId f = subjectId \<longrightarrow>
        f_status f \<noteq> FamilyActive)"

text \<open>The subject now holds the identifier, and nothing else changed hands.\<close>

definition identifier_reserved ::
  "subject_type \<Rightarrow> string \<Rightarrow> string \<Rightarrow> reservation list \<Rightarrow> reservation list \<Rightarrow> bool" where
  "identifier_reserved subject subjectId n is is' \<longleftrightarrow>
     identifiers_unique is' \<and> holds subject subjectId n is' \<and>
     (\<forall>m s x. m \<noteq> n \<longrightarrow> holds s x m is' = holds s x m is)"

definition identifier_released ::
  "subject_type \<Rightarrow> string \<Rightarrow> string \<Rightarrow> reservation list \<Rightarrow> reservation list \<Rightarrow> bool" where
  "identifier_released subject subjectId n is is' \<longleftrightarrow>
     (is' = is \<and> \<not> holds subject subjectId n is) \<or>
     (\<exists>as i bs now actorId. is = as @ i # bs \<and> is' = as @ give_up now actorId i # bs \<and>
        i_normalizedIdentifier i = n \<and> held_by subject subjectId i)"

lemma give_up_fields [simp]:
  "i_normalizedIdentifier (give_up now actorId i) = i_normalizedIdentifier i"
  "i_id (give_up now actorId i) = i_id i"
  "\<not> held_by subject subjectId (give_up now actorId i)"
  by (simp_all add: give_up_def held_by_def)

lemma new_reservation_fields [simp]:
  "i_normalizedIdentifier (new_reservation n ty subject subjectId actorId i) = n"
  "i_id (new_reservation n ty subject subjectId actorId i) = i"
  "held_by subject subjectId (new_reservation n ty subject subjectId actorId i)"
  by (simp_all add: new_reservation_def held_by_def)

lemma identifier_released_unique:
  "identifier_released subject subjectId n is is' \<Longrightarrow> identifiers_unique is' = identifiers_unique is"
  by (auto simp: identifier_released_def identifiers_unique_def)

lemma identifier_released_not_held:
  "identifier_released subject subjectId n is is' \<Longrightarrow> identifiers_unique is \<Longrightarrow>
   \<not> holds subject subjectId n is'"
proof -
  assume rel: "identifier_released subject subjectId n is is'" and uni: "identifiers_unique is"
  have other: "i_normalizedIdentifier x \<noteq> i_normalizedIdentifier i"
    if "is = as @ i # bs" "x \<in> set as \<union> set bs" for as i bs x
    by (rule distinct_map_split [of i_normalizedIdentifier as i bs])
      (use that uni in \<open>simp_all add: identifiers_unique_def\<close>)
  from rel consider "is' = is" "\<not> holds subject subjectId n is"
    | as i bs now actorId where "is = as @ i # bs" "is' = as @ give_up now actorId i # bs"
        "i_normalizedIdentifier i = n"
    unfolding identifier_released_def by blast
  then show ?thesis
  proof cases
    case 2
    with other [OF 2(1)] show ?thesis unfolding holds_def by fastforce
  qed simp
qed

lemma identifier_released_other:
  "identifier_released subject subjectId n is is' \<Longrightarrow> m \<noteq> n \<Longrightarrow>
   holds subject' subjectId' m is' = holds subject' subjectId' m is"
  by (auto simp: identifier_released_def holds_def)

lemma identifier_reserved_kept:
  "identifiers_unique is \<Longrightarrow> i \<in> set is \<Longrightarrow> i_normalizedIdentifier i = n \<Longrightarrow>
   held_by subject subjectId i \<Longrightarrow> identifier_reserved subject subjectId n is is"
  by (auto simp: identifier_reserved_def holds_def)

lemma identifier_reserved_new:
  assumes "identifiers_unique is" and "one_added reservation_clash reservation_valid i_id r is"
    and "i_normalizedIdentifier r = n" and "held_by subject subjectId r"
  shows "identifier_reserved subject subjectId n is (is @ [r])"
  using assms by (auto simp: identifier_reserved_def identifiers_unique_def one_added_def
      reservation_clash_def holds_def)

lemma identifier_reserved_update:
  assumes uni: "identifiers_unique is" and "existing \<in> set is" and "i_normalizedIdentifier existing = n"
    and upd: "one_updated reservation_clash (\<lambda>i. i_id i = i_id existing \<and> i_status i = IdentifierReleased) g is is' d"
    and g: "\<And>i. i_normalizedIdentifier (g i) = i_normalizedIdentifier i" "\<And>i. i_id (g i) = i_id i"
      "\<And>i. held_by subject subjectId (g i)"
  shows "identifier_reserved subject subjectId n is is'"
proof -
  from upd obtain as bs where ds: "is = as @ d # bs" "is' = as @ g d # bs"
    "i_id d = i_id existing" "i_status d = IdentifierReleased"
    unfolding one_updated_def by blast
  have "d = existing"
    using uni assms(2) ds(1,3) distinct_map_split [of i_id as d bs existing]
    by (auto simp: identifiers_unique_def)
  with ds uni g assms(3) show ?thesis
    by (auto simp: identifier_reserved_def identifiers_unique_def holds_def held_by_def)
qed

lemma signed_out_revoked:
  assumes "\<And>f. f_status (g f) \<noteq> FamilyActive"
  shows "signed_out subject subjectId (update_where
    (\<lambda>f. f_subjectType f = subject \<and> f_subjectId f = subjectId \<and> f_status f = FamilyActive) g fs)"
  unfolding signed_out_def
proof (intro ballI impI)
  fix f assume f: "f \<in> set (update_where
    (\<lambda>f. f_subjectType f = subject \<and> f_subjectId f = subjectId \<and> f_status f = FamilyActive) g fs)"
    and own: "f_subjectType f = subject \<and> f_subjectId f = subjectId"
  then obtain y where "f = (if f_subjectType y = subject \<and> f_subjectId y = subjectId \<and> f_status y = FamilyActive
    then g y else y)" by (auto simp: set_update_where)
  then show "f_status f \<noteq> FamilyActive" using assms own by (metis (full_types))
qed

locale account_store =
  idn: collection I identifiers identifiers_update reservation_clash reservation_valid i_id +
  fam: collection F families families_update family_clash family_valid f_familyId +
  ev: event_store V
  for A :: "'e app" and I :: "('e world, reservation) model" and F :: "('e world, family) model"
    and V :: "('e world, security_event) model" +
  assumes identifier_dep: "identifierModel A = Some I"
    and family_dep: "accountFamilyModel A = Some F"
    and event_dep: "eventModel A = Some V"
begin

lemma wp_releaseIdentifier:
  assumes "\<And>ids z. identifier_released subject subjectId n (identifiers w) ids \<Longrightarrow>
      Q () (w\<lparr>identifiers := ids, env := z\<rparr>)"
    and "\<And>e ids z. ids = identifiers w \<or> identifier_released subject subjectId n (identifiers w) ids \<Longrightarrow>
      E e (w\<lparr>identifiers := ids, env := z\<rparr>)"
  shows "wp (releaseIdentifier A subject n subjectId actorId) Q E w"
proof -
  have step: "identifier_released subject subjectId n (identifiers w) ids"
    if "one_updated reservation_clash
        (\<lambda>i. i_normalizedIdentifier i = n \<and> held_by subject subjectId i) (give_up now actorId)
        (identifiers w) ids d" for ids d now
    using that unfolding one_updated_def identifier_released_def by blast
  show ?thesis
    unfolding releaseIdentifier_def identifier_dep option.case wp_await wp_asks
  proof (rule idn.wp_updateOne, goal_cases)
    case (1 z)
    then have "identifier_released subject subjectId n (identifiers w) (identifiers w)"
      by (auto simp: identifier_released_def holds_def)
    from assms(1) [OF this, of z] show ?case by simp
  next
    case (3 e z)
    show ?case using assms(2) [of "identifiers w" e z] by simp
  qed (auto intro!: assms dest: step)
qed

lemma wp_revokeSessions:
  assumes "\<And>fs z. signed_out subject subjectId fs \<Longrightarrow> Q () (w\<lparr>families := fs, env := z\<rparr>)"
    and "\<And>e fs z. E e (w\<lparr>families := fs, env := z\<rparr>)"
  shows "wp (revokeSessions A subject subjectId reason) Q E w"
  unfolding revokeSessions_def family_dep option.case wp_await wp_asks
  by (rule fam.wp_updateMany) (auto intro!: assms signed_out_revoked)

lemma wp_record_activity:
  assumes "\<And>es z. Q () (w\<lparr>events := es, env := z\<rparr>)"
    and "\<And>e es z. (\<And>m. e \<noteq> Unauthorized m) \<Longrightarrow> E e (w\<lparr>events := es, env := z\<rparr>)"
  shows "wp (record_activity A input) Q E w"
proof -
  have old: "E e w" "E e (w\<lparr>env := z\<rparr>)" if "\<And>m. e \<noteq> Unauthorized m" for e z
    using assms(2) [OF that, where es = "events w" and z = "env w"]
      assms(2) [OF that, where es = "events w" and z = z] by simp_all
  have failed: "E e (w\<lparr>env := z\<rparr>)" "E e (w\<lparr>events := es, env := z\<rparr>)" if "store_error e" for e es z
    using that by (auto intro!: old assms(2))
  show ?thesis
    unfolding record_activity_def event_dep option.case SecurityActivityService_record_def
      SecurityActivityService_persist_def
    by (auto intro!: ev.ev.wp_createDoc assms failed simp: old)
qed

end

end
