(* ===== verification/Members.thy ===== *)
theory Members
  imports Accounts Membership_Types Inventory
begin

text \<open>
  \<^verbatim>\<open>src/members/members.service.ts\<close>: the members, their sign-in identifiers and credentials, and
  their standing under the lending policy.
\<close>

subsection \<open>Requests and responses\<close>

record create_member_dto =
  cm_memberNumber :: string
  cm_fullName :: string
  cm_email :: "string option"
  cm_phone :: "string option"
  cm_membershipTypeId :: string
  cm_activeLoanCount :: "int option"

record update_member_dto =
  um_fullName :: "string option"
  um_email :: "string option"
  um_phone :: "string option"
  um_membershipTypeId :: "string option"
  um_status :: "member_status option"
  um_activeLoanCount :: "int option"

record member_query = page +
  mq_q :: "string option"
  mq_status :: "member_status option"
  mq_membershipTypeId :: "string option"

record member_response =
  rm_id :: string
  rm_memberNumber :: string
  rm_fullName :: string
  rm_email :: "string option"
  rm_phone :: "string option"
  rm_membershipTypeId :: string
  rm_status :: member_status
  rm_activeLoanCount :: int

record member_policy_status =
  ps_memberId :: string
  ps_status :: member_status
  ps_membershipTypeId :: string
  ps_maxActiveLoans :: int
  ps_activeLoanCount :: int
  ps_remainingAllowance :: int
  ps_eligibleByStatus :: bool
  ps_withinLimit :: bool
  ps_limitReached :: bool

record member_profile =
  mp_id :: string
  mp_memberNumber :: string
  mp_displayName :: string
  mp_email :: "string option"
  mp_phone :: "string option"
  mp_membershipStatus :: member_status
  mp_membershipTypeId :: string
  mp_membershipTypeCode :: string
  mp_membershipTypeName :: string
  mp_activeLoanCount :: int

definition MembersService_toResponse :: "member \<Rightarrow> member_response" where
  "MembersService_toResponse m = \<lparr>rm_id = m_id m, rm_memberNumber = m_memberNumber m,
     rm_fullName = m_fullName m, rm_email = m_email m, rm_phone = m_phone m,
     rm_membershipTypeId = m_membershipTypeId m, rm_status = m_status m,
     rm_activeLoanCount = m_activeLoanCount m\<rparr>"

subsection \<open>Helpers of the service\<close>

definition MembersService_normalizeLoginIdentifier :: "string \<Rightarrow> string" where
  "MembersService_normalizeLoginIdentifier loginIdentifier = to_lower (trim loginIdentifier)"

definition MembersService_findDocumentById :: "'e app \<Rightarrow> string \<Rightarrow> ('e world, member) io" where
  "MembersService_findDocumentById A i =
     await (toMongoObjectId i ''id'') (\<lambda>oid.
     await (findOne (memberModel A) (\<lambda>m. m_id m = oid)) (\<lambda>found.
     require (NotFound ''Member not found'') found))"

text \<open>A released reservation is taken over by the member.\<close>

definition MembersService_takeOver :: "identifier_type \<Rightarrow> string \<Rightarrow> string \<Rightarrow> reservation \<Rightarrow> reservation" where
  "MembersService_takeOver identifierType subjectId actorId i =
     i\<lparr>i_status := IdentifierActive, i_identifierType := identifierType,
       i_subjectType := Some MemberSubject, i_subjectId := Some subjectId, i_updatedBy := actorId,
       i_releasedAt := None\<rparr>"

definition MembersService_reserveIdentifier ::
  "'e app \<Rightarrow> string \<Rightarrow> identifier_type \<Rightarrow> string \<Rightarrow> string \<Rightarrow> ('e world, unit) io" where
  "MembersService_reserveIdentifier A normalizedIdentifier identifierType subjectId actorId =
     (case identifierModel A of None \<Rightarrow> ret ()
      | Some I \<Rightarrow>
          await (findOne I (\<lambda>i. i_normalizedIdentifier i = normalizedIdentifier)) (\<lambda>found.
          case found of
            Some existing \<Rightarrow>
              if held_by MemberSubject subjectId existing then ret ()
              else if i_status existing \<noteq> IdentifierReleased
              then throw (Conflict ''Sign-in identifier is already reserved'')
              else
              await (updateOne I (\<lambda>i. i_id i = i_id existing \<and> i_status i = IdentifierReleased)
                (MembersService_takeOver identifierType subjectId actorId)) (\<lambda>_. ret ())
          | None \<Rightarrow>
              try_catch
                (await (createDoc I (new_reservation normalizedIdentifier identifierType MemberSubject
                  subjectId actorId)) (\<lambda>_. ret ()))
                (\<lambda>error. if error_code error = Some duplicate_key_code
                  then throw (Conflict ''Sign-in identifier is already reserved'')
                  else throw error)))"

definition member_event :: "member \<Rightarrow> audit_actor option \<Rightarrow> event_type \<Rightarrow> string \<Rightarrow> activity_input" where
  "member_event m actor eventType reasonCategory =
     (activity eventType OutcomeSuccess)
       \<lparr>si_actorType := Some (if actor \<noteq> None then StaffActor else SystemActor),
        si_actorId := actor_name actor, si_targetType := Some ''member'', si_targetId := Some (m_id m),
        si_subjectType := Some ''member'', si_subjectId := Some (m_id m),
        si_reasonCategory := Some reasonCategory\<rparr>"

definition MembersService_recordMemberChange ::
  "'e app \<Rightarrow> member \<Rightarrow> audit_actor option \<Rightarrow> bool \<Rightarrow> bool \<Rightarrow> ('e world, unit) io" where
  "MembersService_recordMemberChange A m actor identifierChanged statusChanged =
     await (whenM identifierChanged (record_activity A
       (member_event m actor IdentifierReservationRecovered ''member-identifier-updated''))) (\<lambda>_.
     whenM statusChanged (record_activity A
       (member_event m actor AccountStatusChanged ''member-status-updated'')))"

subsection \<open>The service\<close>

definition MembersService_newMember ::
  "create_member_dto \<Rightarrow> audit_actor option \<Rightarrow> string \<Rightarrow> string \<Rightarrow> member" where
  "MembersService_newMember dto actor memberNumber i = member_cast
     \<lparr>m_id = i, m_memberNumber = memberNumber, m_fullName = cm_fullName dto,
      m_email = map_option to_lower (cm_email dto), m_phone = cm_phone dto,
      m_membershipTypeId = cm_membershipTypeId dto, m_status = MemberActive,
      m_activeLoanCount = (case cm_activeLoanCount dto of None \<Rightarrow> 0 | Some n \<Rightarrow> n),
      m_loginIdentifier = None, m_passwordHash = None, m_passwordUpdatedAt = None,
      m_lastLoginAt = None, m_authStatus = Some MemberAuthActive, m_authVersion = 0,
      m_createdBy = actor_name actor, m_updatedBy = actor_name actor\<rparr>"

definition MembersService_create ::
  "'e app \<Rightarrow> create_member_dto \<Rightarrow> audit_actor option \<Rightarrow> ('e world, member_response) io" where
  "MembersService_create A dto actor =
     await (MembershipTypesService_validateActivePolicy A (cm_membershipTypeId dto)) (\<lambda>_.
     (let memberNumber = to_upper (trim (cm_memberNumber dto)) in
      await (exists_doc (memberModel A) (\<lambda>m. m_memberNumber m = memberNumber)) (\<lambda>taken.
      if taken then throw (Conflict ''Member number already exists'')
      else
      await (createDoc (memberModel A) (MembersService_newMember dto actor memberNumber)) (\<lambda>created.
      ret (MembersService_toResponse created)))))"

definition member_filter :: "member_query \<Rightarrow> string option \<Rightarrow> member \<Rightarrow> bool" where
  "member_filter query membershipTypeId m =
     ((\<not> truthy (mq_q query) \<or> (let q = the (mq_q query) in
          containsLiteral q (m_memberNumber m) \<or> containsLiteral q (m_fullName m) \<or>
          (case m_email m of None \<Rightarrow> False | Some e \<Rightarrow> containsLiteral q e))) \<and>
      (mq_status query = None \<or> m_status m = the (mq_status query)) \<and>
      (membershipTypeId = None \<or> m_membershipTypeId m = the membershipTypeId))"

definition MembersService_findAll :: "'e app \<Rightarrow> member_query \<Rightarrow> ('e world, member_response list) io" where
  "MembersService_findAll A query =
     await (if truthy (mq_membershipTypeId query)
            then await (toMongoObjectId (the (mq_membershipTypeId query)) ''membershipTypeId'')
              (\<lambda>t. ret (Some t))
            else ret None) (\<lambda>membershipTypeId.
     await (findSorted (memberModel A) (member_filter query membershipTypeId)
        (\<lambda>a b. text_le (m_memberNumber a) (m_memberNumber b))
        ((q_page query - 1) * q_limit query) (q_limit query)) (\<lambda>members.
     ret (map MembersService_toResponse members)))"

definition MembersService_findOne :: "'e app \<Rightarrow> string \<Rightarrow> ('e world, member_response) io" where
  "MembersService_findOne A i =
     await (MembersService_findDocumentById A i) (\<lambda>m. ret (MembersService_toResponse m))"

definition MembersService_findSelfServiceProfile :: "'e app \<Rightarrow> string \<Rightarrow> ('e world, member_profile) io" where
  "MembersService_findSelfServiceProfile A i =
     await (MembersService_findDocumentById A i) (\<lambda>m.
     await (MembershipTypesService_findOne A (m_membershipTypeId m)) (\<lambda>t.
     ret \<lparr>mp_id = m_id m, mp_memberNumber = m_memberNumber m, mp_displayName = m_fullName m,
          mp_email = m_email m, mp_phone = m_phone m, mp_membershipStatus = m_status m,
          mp_membershipTypeId = m_membershipTypeId m, mp_membershipTypeCode = rt_code t,
          mp_membershipTypeName = rt_name t, mp_activeLoanCount = m_activeLoanCount m\<rparr>))"

text \<open>The assignments of \<^verbatim>\<open>update\<close>, with the setters of the paths.\<close>

definition MembersService_assign ::
  "update_member_dto \<Rightarrow> audit_actor option \<Rightarrow> string option \<Rightarrow> bool \<Rightarrow> bool \<Rightarrow> member \<Rightarrow> member" where
  "MembersService_assign dto actor nextEmail emailChanged statusChanged m = m\<lparr>
     m_membershipTypeId :=
       (case um_membershipTypeId dto of None \<Rightarrow> m_membershipTypeId m | Some t \<Rightarrow> to_lower t),
     m_fullName := (case um_fullName dto of None \<Rightarrow> m_fullName m | Some v \<Rightarrow> trim v),
     m_email := (case nextEmail of None \<Rightarrow> m_email m | Some v \<Rightarrow> Some v),
     m_phone := (case um_phone dto of None \<Rightarrow> m_phone m | Some v \<Rightarrow> Some (trim v)),
     m_status := (if statusChanged then the (um_status dto) else m_status m),
     m_authVersion := m_authVersion m + (if statusChanged then 1 else 0) + (if emailChanged then 1 else 0),
     m_activeLoanCount := (case um_activeLoanCount dto of None \<Rightarrow> m_activeLoanCount m | Some n \<Rightarrow> n),
     m_updatedBy := actor_name actor\<rparr>"

text \<open>The \<^verbatim>\<open>try\<close> block of \<^verbatim>\<open>update\<close>, and what its \<^verbatim>\<open>catch\<close> does first.\<close>

definition MembersService_commitUpdate ::
  "'e app \<Rightarrow> member \<Rightarrow> string option \<Rightarrow> audit_actor option \<Rightarrow> bool \<Rightarrow> bool \<Rightarrow> ('e world, member_response) io" where
  "MembersService_commitUpdate A m previousEmail actor emailChanged statusChanged =
     await (saveDoc (memberModel A) m) (\<lambda>saved.
     await (whenM (emailChanged \<and> truthy previousEmail)
       (releaseIdentifier A MemberSubject (the previousEmail) (m_id m) (actor_or_system actor))) (\<lambda>_.
     await (whenM (emailChanged \<or> statusChanged)
       (revokeSessions A MemberSubject (m_id m) ''member-account-updated'')) (\<lambda>_.
     await (MembersService_recordMemberChange A m actor emailChanged statusChanged) (\<lambda>_.
     ret (MembersService_toResponse saved)))))"

definition MembersService_update ::
  "'e app \<Rightarrow> string \<Rightarrow> update_member_dto \<Rightarrow> audit_actor option \<Rightarrow> ('e world, member_response) io" where
  "MembersService_update A i dto actor =
     await (MembersService_findDocumentById A i) (\<lambda>m.
     (let previousEmail = m_email m;
          nextEmail = map_option (\<lambda>e. to_lower (trim e)) (um_email dto);
          emailChanged = (nextEmail \<noteq> None \<and> nextEmail \<noteq> previousEmail);
          statusChanged = (um_status dto \<noteq> None \<and> um_status dto \<noteq> Some (m_status m)) in
      await (whenM (emailChanged \<and> truthy nextEmail)
        (MembersService_reserveIdentifier A (the nextEmail) EmailIdentifier (m_id m)
          (actor_or_system actor))) (\<lambda>_.
      await (case um_membershipTypeId dto of None \<Rightarrow> ret ()
             | Some t \<Rightarrow> await (MembershipTypesService_validateActivePolicy A t) (\<lambda>_. ret ())) (\<lambda>_.
      try_catch
        (MembersService_commitUpdate A
          (MembersService_assign dto actor nextEmail emailChanged statusChanged m)
          previousEmail actor emailChanged statusChanged)
        (\<lambda>error.
          await (whenM (emailChanged \<and> truthy nextEmail)
            (releaseIdentifier A MemberSubject (the nextEmail) (m_id m) (actor_or_system actor))) (\<lambda>_.
          throw error))))))"

definition MembersService_getPolicyStatus :: "'e app \<Rightarrow> string \<Rightarrow> ('e world, member_policy_status) io" where
  "MembersService_getPolicyStatus A i =
     await (MembersService_findDocumentById A i) (\<lambda>m.
     await (MembershipTypesService_validateActivePolicy A (m_membershipTypeId m)) (\<lambda>t.
     (let remainingAllowance = max (rt_maxActiveLoans t - m_activeLoanCount m) 0;
          eligibleByStatus = (m_status m = MemberActive);
          withinLimit = (m_activeLoanCount m < rt_maxActiveLoans t) in
      ret \<lparr>ps_memberId = m_id m, ps_status = m_status m, ps_membershipTypeId = m_membershipTypeId m,
           ps_maxActiveLoans = rt_maxActiveLoans t, ps_activeLoanCount = m_activeLoanCount m,
           ps_remainingAllowance = remainingAllowance, ps_eligibleByStatus = eligibleByStatus,
           ps_withinLimit = withinLimit, ps_limitReached = (\<not> withinLimit)\<rparr>)))"

definition MembersService_findByLoginIdentifierWithPassword ::
  "'e app \<Rightarrow> string \<Rightarrow> ('e world, member option) io" where
  "MembersService_findByLoginIdentifierWithPassword A loginIdentifier =
     (let normalized = MembersService_normalizeLoginIdentifier loginIdentifier in
      findOne (memberModel A) (\<lambda>m. m_loginIdentifier m = Some normalized \<or>
        m_memberNumber m = to_upper (trim loginIdentifier) \<or> m_email m = Some normalized))"

definition MembersService_findActiveById :: "'e app \<Rightarrow> string \<Rightarrow> ('e world, member) io" where
  "MembersService_findActiveById A i =
     await (MembersService_findDocumentById A i) (\<lambda>m.
     if m_status m \<noteq> MemberActive \<or> m_authStatus m \<noteq> Some MemberAuthActive
     then throw (NotFound ''Active member not found'') else ret m)"

definition MembersService_touchLastLogin :: "'e app \<Rightarrow> string \<Rightarrow> ('e world, unit) io" where
  "MembersService_touchLastLogin A i =
     await (toMongoObjectId i ''id'') (\<lambda>oid.
     await (asks (clock A)) (\<lambda>now.
     await (updateOne (memberModel A) (\<lambda>m. m_id m = oid) (\<lambda>m. m\<lparr>m_lastLoginAt := Some now\<rparr>)) (\<lambda>_.
     ret ())))"

definition MembersService_bumpAuthVersion :: "'e app \<Rightarrow> string \<Rightarrow> ('e world, unit) io" where
  "MembersService_bumpAuthVersion A i =
     await (toMongoObjectId i ''id'') (\<lambda>oid.
     await (updateOne (memberModel A) (\<lambda>m. m_id m = oid)
       (\<lambda>m. m\<lparr>m_authVersion := m_authVersion m + 1\<rparr>)) (\<lambda>matched.
     if matched = 0 then throw (NotFound ''Member not found'') else ret ()))"

text \<open>The new credentials of a member, hashed and dated.\<close>

definition MembersService_withCredentials ::
  "string \<Rightarrow> string \<Rightarrow> date \<Rightarrow> audit_actor option \<Rightarrow> member \<Rightarrow> member" where
  "MembersService_withCredentials loginIdentifier passwordHash now actor m = m\<lparr>
     m_loginIdentifier := Some loginIdentifier, m_passwordHash := Some passwordHash,
     m_passwordUpdatedAt := Some now, m_authStatus := Some MemberAuthActive,
     m_authVersion := m_authVersion m + 1, m_updatedBy := actor_name actor\<rparr>"

definition MembersService_commitCredentials ::
  "'e app \<Rightarrow> member \<Rightarrow> string option \<Rightarrow> string \<Rightarrow> audit_actor option \<Rightarrow> ('e world, member_response) io" where
  "MembersService_commitCredentials A m previousLoginIdentifier normalizedLoginIdentifier actor =
     await (saveDoc (memberModel A) m) (\<lambda>saved.
     await (whenM (truthy previousLoginIdentifier \<and> previousLoginIdentifier \<noteq> Some normalizedLoginIdentifier)
       (releaseIdentifier A MemberSubject (the previousLoginIdentifier) (m_id m) (actor_or_system actor))) (\<lambda>_.
     await (revokeSessions A MemberSubject (m_id m) ''member-credentials-updated'') (\<lambda>_.
     await (MembersService_recordMemberChange A m actor True False) (\<lambda>_.
     ret (MembersService_toResponse saved)))))"

definition MembersService_setMemberCredentials ::
  "'e app \<Rightarrow> string \<Rightarrow> string \<Rightarrow> string \<Rightarrow> audit_actor option \<Rightarrow> ('e world, member_response) io" where
  "MembersService_setMemberCredentials A i loginIdentifier password actor =
     await (MembersService_findDocumentById A i) (\<lambda>m.
     (let previousLoginIdentifier = m_loginIdentifier m;
          normalizedLoginIdentifier = MembersService_normalizeLoginIdentifier loginIdentifier in
      await (exists_doc (memberModel A)
        (\<lambda>x. m_id x \<noteq> m_id m \<and> m_loginIdentifier x = Some normalizedLoginIdentifier)) (\<lambda>taken.
      if taken then throw (Conflict ''Member login identifier already exists'')
      else
      await (MembersService_reserveIdentifier A normalizedLoginIdentifier LoginIdentifier (m_id m)
        (actor_or_system actor)) (\<lambda>_.
      await (bcryptHash A password) (\<lambda>passwordHash.
      await (asks (clock A)) (\<lambda>now.
      try_catch
        (MembersService_commitCredentials A
          (MembersService_withCredentials normalizedLoginIdentifier passwordHash now actor m)
          previousLoginIdentifier normalizedLoginIdentifier actor)
        (\<lambda>error.
          await (releaseIdentifier A MemberSubject normalizedLoginIdentifier (m_id m)
            (actor_or_system actor)) (\<lambda>_.
          throw error))))))))"

subsection \<open>What the service keeps\<close>

lemma newMember_fields [simp]:
  "m_id (MembersService_newMember dto actor n i) = i"
  "m_memberNumber (MembersService_newMember dto actor n i) = trim n"
  "m_activeLoanCount (MembersService_newMember dto actor n i) =
     (case cm_activeLoanCount dto of None \<Rightarrow> 0 | Some n \<Rightarrow> n)"
  by (simp_all add: MembersService_newMember_def member_cast_def)

lemma assignMember_fields [simp]:
  "m_id (MembersService_assign dto actor e ec sc m) = m_id m"
  "m_memberNumber (MembersService_assign dto actor e ec sc m) = m_memberNumber m"
  "m_activeLoanCount (MembersService_assign dto actor e ec sc m) =
     (case um_activeLoanCount dto of None \<Rightarrow> m_activeLoanCount m | Some n \<Rightarrow> n)"
  "m_authVersion (MembersService_assign dto actor e ec sc m) =
     m_authVersion m + (if sc then 1 else 0) + (if ec then 1 else 0)"
  by (simp_all add: MembersService_assign_def split: option.split)

lemma withCredentials_fields [simp]:
  "m_id (MembersService_withCredentials n h now actor m) = m_id m"
  "m_memberNumber (MembersService_withCredentials n h now actor m) = m_memberNumber m"
  "m_activeLoanCount (MembersService_withCredentials n h now actor m) = m_activeLoanCount m"
  "m_authVersion (MembersService_withCredentials n h now actor m) = m_authVersion m + 1"
  by (simp_all add: MembersService_withCredentials_def)

lemma takeOver_fields [simp]:
  "i_normalizedIdentifier (MembersService_takeOver ty sid actorId i) = i_normalizedIdentifier i"
  "i_id (MembersService_takeOver ty sid actorId i) = i_id i"
  "held_by MemberSubject sid (MembersService_takeOver ty sid actorId i)"
  by (simp_all add: MembersService_takeOver_def held_by_def)

text \<open>The collections an operation on a member's account leaves alone.\<close>

definition lending_frame :: "'e world \<Rightarrow> 'e world \<Rightarrow> bool" where
  "lending_frame w w' \<longleftrightarrow> books w' = books w \<and> categories w' = categories w \<and>
     membershipTypes w' = membershipTypes w \<and> borrowings w' = borrowings w \<and> staffUsers w' = staffUsers w"

lemma lending_frame_updates [simp]:
  "lending_frame w w"
  "lending_frame w (w'\<lparr>env := z\<rparr>) = lending_frame w w'"
  "lending_frame w (w'\<lparr>events := es\<rparr>) = lending_frame w w'"
  "lending_frame w (w'\<lparr>identifiers := is\<rparr>) = lending_frame w w'"
  "lending_frame w (w'\<lparr>families := fs\<rparr>) = lending_frame w w'"
  "lending_frame w (w'\<lparr>members := ms\<rparr>) = lending_frame w w'"
  by (simp_all add: lending_frame_def)

lemma lending_ok_frame:
  "lending_frame w w' \<Longrightarrow> members w' = members w \<Longrightarrow> lending_ok w' = lending_ok w"
  by (simp add: lending_frame_def lending_ok_def)

lemma lending_ok_frame_changed:
  assumes "lending_ok w" and "lending_frame w w'" and "replaced m_id m' (members w) (members w')"
    and "m \<in> set (members w)" and "m_id m' = m_id m" and "m_activeLoanCount m' = m_activeLoanCount m"
  shows "lending_ok w'"
proof -
  have "lending_ok (w\<lparr>members := members w'\<rparr>)" by (rule lending_ok_changed_member [OF assms(1,3,4,5,6)])
  then show ?thesis using assms(2) by (simp add: lending_frame_def lending_ok_def)
qed

text \<open>What an update of the member \<open>m\<close> leaves: \<open>ec\<close> and \<open>sc\<close> say whether email and status change.\<close>

definition member_updated :: "member \<Rightarrow> member \<Rightarrow> bool \<Rightarrow> bool \<Rightarrow> string option \<Rightarrow> 'e world \<Rightarrow> 'e world \<Rightarrow> bool" where
  "member_updated m m' ec sc n w w' \<longleftrightarrow>
     lending_frame w w' \<and> replaced m_id m' (members w) (members w') \<and>
     (ec \<or> sc \<longrightarrow> signed_out MemberSubject (m_id m) (families w')) \<and>
     (identifiers_unique (identifiers w) \<longrightarrow> ec \<longrightarrow>
        (\<exists>is. (if truthy n then identifier_reserved MemberSubject (m_id m) (the n) (identifiers w) is
               else is = identifiers w) \<and>
           (if truthy (m_email m)
            then identifier_released MemberSubject (m_id m) (the (m_email m)) is (identifiers w')
            else identifiers w' = is)))"

definition credentials_set :: "member \<Rightarrow> member \<Rightarrow> string \<Rightarrow> 'e world \<Rightarrow> 'e world \<Rightarrow> bool" where
  "credentials_set m m' n w w' \<longleftrightarrow>
     lending_frame w w' \<and> replaced m_id m' (members w) (members w') \<and>
     signed_out MemberSubject (m_id m) (families w') \<and>
     (identifiers_unique (identifiers w) \<longrightarrow>
        (\<exists>is. identifier_reserved MemberSubject (m_id m) n (identifiers w) is \<and>
           (if truthy (m_loginIdentifier m) \<and> m_loginIdentifier m \<noteq> Some n
            then identifier_released MemberSubject (m_id m) (the (m_loginIdentifier m)) is (identifiers w')
            else identifiers w' = is)))"

lemma lending_ok_updated_member:
  assumes "lending_ok w" and "one_updated member_clash p f (members w) ms d"
    and "m_id (f d) = m_id d" and "m_activeLoanCount (f d) = m_activeLoanCount d"
  shows "lending_ok (w\<lparr>members := ms\<rparr>)"
  using assms by (auto simp: one_updated_def lending_ok_def intro: balanced_update)

locale member_store = account_store +
  mb: collection "memberModel A" members members_update member_clash member_valid m_id +
  mt: collection "membershipTypeModel A" membershipTypes membershipTypes_update membership_type_clash
    membership_type_valid t_id +
  assumes bcrypt_env: "env_only (bcryptHash A password)"
begin

lemma wp_findDocumentById [wp_rules]:
  assumes "\<And>m z. m \<in> set (members w) \<Longrightarrow> m_id m = to_lower i \<Longrightarrow> Q m (w\<lparr>env := z\<rparr>)"
    and "\<And>e z. E e (w\<lparr>env := z\<rparr>)"
  shows "wp (MembersService_findDocumentById A i) Q E w"
  unfolding MembersService_findDocumentById_def
  by (auto intro!: mb.wp_findOne assms intro: assms(2) [where z = "env w", simplified])

lemma wp_validateActivePolicy:
  assumes "\<And>t z. t \<in> set (membershipTypes w) \<Longrightarrow> t_id t = to_lower i \<Longrightarrow> t_status t = ItemActive \<Longrightarrow>
      Q (MembershipTypesService_toResponse t) (w\<lparr>env := z\<rparr>)"
    and "\<And>e z. E e (w\<lparr>env := z\<rparr>)"
  shows "wp (MembershipTypesService_validateActivePolicy A i) Q E w"
  unfolding MembershipTypesService_validateActivePolicy_def MembershipTypesService_findDocumentById_def
  by (auto intro!: mt.wp_findOne assms intro: assms(2) [where z = "env w", simplified])

lemma wp_reserveIdentifier:
  assumes "\<And>ids z. (identifiers_unique (identifiers w) \<Longrightarrow>
        identifier_reserved MemberSubject subjectId n (identifiers w) ids) \<Longrightarrow>
      Q () (w\<lparr>identifiers := ids, env := z\<rparr>)"
    and "\<And>e ids z. E e (w\<lparr>identifiers := ids, env := z\<rparr>)"
  shows "wp (MembersService_reserveIdentifier A n ty subjectId actorId) Q E w"
proof -
  have old: "E e w" "E e (w\<lparr>env := z\<rparr>)" for e z
    using assms(2) [where e = e and ids = "identifiers w" and z = "env w"]
      assms(2) [where e = e and ids = "identifiers w" and z = z] by simp_all
  have same: "Q () (w\<lparr>env := z\<rparr>)"
    if "identifiers_unique (identifiers w) \<Longrightarrow>
      identifier_reserved MemberSubject subjectId n (identifiers w) (identifiers w)" for z
    using assms(1) [where ids = "identifiers w" and z = z] that by simp
  have kept: "identifiers_unique is \<Longrightarrow> d \<in> set is \<Longrightarrow> held_by MemberSubject subjectId d \<Longrightarrow>
      identifier_reserved MemberSubject subjectId (i_normalizedIdentifier d) is is" for d "is"
    by (rule identifier_reserved_kept) simp_all
  have new: "identifiers_unique is \<Longrightarrow> one_added reservation_clash reservation_valid i_id
      (new_reservation n ty MemberSubject subjectId actorId i) is \<Longrightarrow>
      identifier_reserved MemberSubject subjectId n is (is @ [new_reservation n ty MemberSubject subjectId actorId i])"
    for i "is"
    by (rule identifier_reserved_new) simp_all
  have taken: "identifiers_unique is \<Longrightarrow> d \<in> set is \<Longrightarrow> one_updated reservation_clash
      (\<lambda>i. i_id i = i_id d \<and> i_status i = IdentifierReleased) (MembersService_takeOver ty subjectId actorId) is ds x \<Longrightarrow>
      identifier_reserved MemberSubject subjectId (i_normalizedIdentifier d) is ds" for d x ds "is"
    by (rule identifier_reserved_update [where g = "MembersService_takeOver ty subjectId actorId"]) simp_all
  show ?thesis
    unfolding MembersService_reserveIdentifier_def identifier_dep option.case
    by (auto intro!: idn.wp_findOne idn.wp_updateOne idn.wp_createDoc assms(1) assms(2) same simp: old;
        (erule (2) taken | erule (1) new | erule (2) kept))
qed

lemma wp_recordMemberChange:
  assumes "\<And>es z. Q () (w\<lparr>events := es, env := z\<rparr>)" and "\<And>e es z. E e (w\<lparr>events := es, env := z\<rparr>)"
  shows "wp (MembersService_recordMemberChange A m actor ic sc) Q E w"
proof -
  have "Q () w" "Q () (w\<lparr>events := es\<rparr>)" for es
    using assms(1) [where es = "events w" and z = "env w"] assms(1) [where es = es and z = "env w"] by simp_all
  with assms show ?thesis
    unfolding MembersService_recordMemberChange_def by (auto intro!: wp_record_activity)
qed

lemma saved_replaced:
  "one_updated member_clash (\<lambda>x. m_id x = m_id m) (\<lambda>_. m) ds ds' x \<Longrightarrow> replaced m_id m ds ds'"
  by (rule one_updated_replaced) simp_all

lemma wp_saveMember:
  assumes "\<And>ms z. replaced m_id m (members w) ms \<Longrightarrow> Q m (w\<lparr>members := ms, env := z\<rparr>)"
    and "\<And>e z. E e (w\<lparr>env := z\<rparr>)"
    and "\<And>e ms z. replaced m_id m (members w) ms \<Longrightarrow> E e (w\<lparr>members := ms, env := z\<rparr>)"
  shows "wp (saveDoc (memberModel A) m) Q E w"
  by (rule mb.wp_saveDoc; (rule assms)?; (erule saved_replaced)?)

text \<open>The work after the checks: the document is saved first; what follows leaves the members alone.\<close>

lemma wp_commitUpdate:
  assumes "\<And>w'. lending_frame w w' \<Longrightarrow> replaced m_id m (members w) (members w') \<Longrightarrow>
      (if ec \<and> truthy prev
       then identifier_released MemberSubject (m_id m) (the prev) (identifiers w) (identifiers w')
       else identifiers w' = identifiers w) \<Longrightarrow>
      (ec \<or> sc \<Longrightarrow> signed_out MemberSubject (m_id m) (families w')) \<Longrightarrow>
      Q (MembersService_toResponse m) w'"
    and "\<And>e w'. lending_frame w w' \<Longrightarrow>
      members w' = members w \<or> replaced m_id m (members w) (members w') \<Longrightarrow> E e w'"
  shows "wp (MembersService_commitUpdate A m prev actor ec sc) Q E w"
  unfolding MembersService_commitUpdate_def
  by (auto intro!: wp_saveMember wp_releaseIdentifier wp_revokeSessions wp_recordMemberChange assms split: if_splits)

lemma wp_commitCredentials:
  assumes "\<And>w'. lending_frame w w' \<Longrightarrow> replaced m_id m (members w) (members w') \<Longrightarrow>
      (if truthy prev \<and> prev \<noteq> Some n
       then identifier_released MemberSubject (m_id m) (the prev) (identifiers w) (identifiers w')
       else identifiers w' = identifiers w) \<Longrightarrow>
      signed_out MemberSubject (m_id m) (families w') \<Longrightarrow> Q (MembersService_toResponse m) w'"
    and "\<And>e w'. lending_frame w w' \<Longrightarrow>
      members w' = members w \<or> replaced m_id m (members w) (members w') \<Longrightarrow> E e w'"
  shows "wp (MembersService_commitCredentials A m prev n actor) Q E w"
  unfolding MembersService_commitCredentials_def
  by (auto intro!: wp_saveMember wp_releaseIdentifier wp_revokeSessions wp_recordMemberChange assms split: if_splits)

text \<open>Changing a member: the identifier first, then the membership type, then the document.\<close>

lemma wp_validateType:
  assumes "\<And>z. Q () (w\<lparr>env := z\<rparr>)" and "\<And>e z. E e (w\<lparr>env := z\<rparr>)"
  shows "wp (case v of None \<Rightarrow> ret ()
    | Some t \<Rightarrow> await (MembershipTypesService_validateActivePolicy A t) (\<lambda>_. ret ())) Q E w"
  using assms(1) [where z = "env w"] by (auto intro!: wp_validateActivePolicy assms split: option.split)

lemma wp_reserveWhen:
  assumes "\<And>ids z. (identifiers_unique (identifiers w) \<Longrightarrow>
        (if b then identifier_reserved MemberSubject subjectId n (identifiers w) ids
         else ids = identifiers w)) \<Longrightarrow>
      (\<not> b \<Longrightarrow> ids = identifiers w) \<Longrightarrow> Q () (w\<lparr>identifiers := ids, env := z\<rparr>)"
    and "\<And>e ids z. E e (w\<lparr>identifiers := ids, env := z\<rparr>)"
  shows "wp (whenM b (MembersService_reserveIdentifier A n ty subjectId actorId)) Q E w"
  using assms(1) [where ids = "identifiers w" and z = "env w"]
  by (cases b) (auto intro!: wp_reserveIdentifier assms)

lemma wp_update:
  assumes ok: "\<And>m n ec sc w'. m \<in> set (members w) \<Longrightarrow> m_id m = to_lower i \<Longrightarrow>
      n = map_option (\<lambda>e. to_lower (trim e)) (um_email dto) \<Longrightarrow>
      ec = (n \<noteq> None \<and> n \<noteq> m_email m) \<Longrightarrow>
      sc = (um_status dto \<noteq> None \<and> um_status dto \<noteq> Some (m_status m)) \<Longrightarrow>
      member_updated m (MembersService_assign dto actor n ec sc m) ec sc n w w' \<Longrightarrow>
      Q (MembersService_toResponse (MembersService_assign dto actor n ec sc m)) w'"
    and unchanged: "\<And>e w'. lending_frame w w' \<Longrightarrow> members w' = members w \<Longrightarrow> E e w'"
    and changed: "\<And>e m m' w'. lending_frame w w' \<Longrightarrow> m \<in> set (members w) \<Longrightarrow> m_id m' = m_id m \<Longrightarrow>
      m_activeLoanCount m' =
        (case um_activeLoanCount dto of None \<Rightarrow> m_activeLoanCount m | Some k \<Rightarrow> k) \<Longrightarrow>
      replaced m_id m' (members w) (members w') \<Longrightarrow> E e w'"
  shows "wp (MembersService_update A i dto actor) Q E w"
  unfolding MembersService_update_def wp_await
proof (rule wp_findDocumentById, goal_cases)
  case (1 m z)
  define n where "n = map_option (\<lambda>e. to_lower (trim e)) (um_email dto)"
  define ec where "ec = (n \<noteq> None \<and> n \<noteq> m_email m)"
  define sc where "sc = (um_status dto \<noteq> None \<and> um_status dto \<noteq> Some (m_status m))"
  define m' where "m' = MembersService_assign dto actor n ec sc m"
  have fail: "E e w'" if "lending_frame w w'" and "members w' = members w \<or> replaced m_id m' (members w) (members w')"
    for e w'
    using that(2) by (elim disjE) (auto intro: unchanged changed [of w' m m'] that(1) 1(1) simp: m'_def)
  have commit: "wp (try_catch (MembersService_commitUpdate A m' (m_email m) actor ec sc)
      (\<lambda>error. await (whenM (ec \<and> truthy n) (releaseIdentifier A MemberSubject (the n) (m_id m)
        (actor_or_system actor))) (\<lambda>_. throw error))) Q E (w\<lparr>identifiers := is, env := y\<rparr>)"
    if reserved: "identifiers_unique (identifiers w) \<Longrightarrow> if ec \<and> truthy n
      then identifier_reserved MemberSubject (m_id m) (the n) (identifiers w) is else is = identifiers w"
    for "is" y
    unfolding wp_try_catch
  proof (rule wp_commitUpdate, goal_cases)
    case (1 w')
    then have "member_updated m m' ec sc n w w'"
      using reserved by (auto simp: member_updated_def m'_def lending_frame_def)
    then show ?case unfolding m'_def
      by (intro ok) (use \<open>m \<in> set (members w)\<close> \<open>m_id m = to_lower i\<close> in \<open>simp_all add: n_def ec_def sc_def\<close>)
  next
    case (2 e w')
    then show ?case by (auto intro!: wp_releaseIdentifier fail simp: lending_frame_def)
  qed
  show ?case
    unfolding Let_def n_def [symmetric] ec_def [symmetric] sc_def [symmetric] m'_def [symmetric] wp_await
    by (rule wp_reserveWhen; (rule wp_validateType)?) (auto intro!: commit fail simp del: wp_try_catch wp_await wp_whenM)
qed (auto intro: unchanged)

lemma wp_setMemberCredentials:
  assumes ok: "\<And>m h now w'. m \<in> set (members w) \<Longrightarrow> m_id m = to_lower i \<Longrightarrow>
      credentials_set m (MembersService_withCredentials (MembersService_normalizeLoginIdentifier login) h now actor m)
        (MembersService_normalizeLoginIdentifier login) w w' \<Longrightarrow>
      Q (MembersService_toResponse (MembersService_withCredentials
        (MembersService_normalizeLoginIdentifier login) h now actor m)) w'"
    and unchanged: "\<And>e w'. lending_frame w w' \<Longrightarrow> members w' = members w \<Longrightarrow> E e w'"
    and changed: "\<And>e m m' w'. lending_frame w w' \<Longrightarrow> m \<in> set (members w) \<Longrightarrow> m_id m' = m_id m \<Longrightarrow>
      m_activeLoanCount m' = m_activeLoanCount m \<Longrightarrow>
      replaced m_id m' (members w) (members w') \<Longrightarrow> E e w'"
  shows "wp (MembersService_setMemberCredentials A i login password actor) Q E w"
  unfolding MembersService_setMemberCredentials_def wp_await
proof (rule wp_findDocumentById, goal_cases)
  case (1 m z)
  define n where "n = MembersService_normalizeLoginIdentifier login"
  have commit: "wp (try_catch (MembersService_commitCredentials A (MembersService_withCredentials n h now actor m)
        (m_loginIdentifier m) n actor)
      (\<lambda>error. await (releaseIdentifier A MemberSubject n (m_id m) (actor_or_system actor))
        (\<lambda>_. throw error))) Q E (w\<lparr>identifiers := is, env := y\<rparr>)"
    if reserved: "identifiers_unique (identifiers w) \<Longrightarrow>
      identifier_reserved MemberSubject (m_id m) n (identifiers w) is" for "is" y h now
    unfolding wp_try_catch
  proof (rule wp_commitCredentials, goal_cases)
    case (1 w')
    then have "credentials_set m (MembersService_withCredentials n h now actor m) n w w'"
      using reserved by (auto simp: credentials_set_def lending_frame_def)
    then show ?case unfolding n_def
      by (intro ok) (use \<open>m \<in> set (members w)\<close> \<open>m_id m = to_lower i\<close> in simp_all)
  next
    case (2 e w')
    have "E e' w''" if "lending_frame w w''" "members w'' = members w'" for e' w''
      using 2(2) that 1(1) by (elim disjE) (auto intro: unchanged
        changed [of w'' m "MembersService_withCredentials n h now actor m"])
    with 2(1) show ?case by (auto intro!: wp_releaseIdentifier simp: lending_frame_def)
  qed
  show ?case
    unfolding Let_def n_def [symmetric] wp_await
    by (rule mb.wp_exists_doc)
      (auto intro!: wp_reserveIdentifier wp_env_only [OF bcrypt_env] commit unchanged
        simp del: wp_try_catch)
qed (auto intro: unchanged)

lemma update_returns:
  assumes "MembersService_update A i dto actor w = (Inr r, w')"
  obtains m n ec sc where "m \<in> set (members w)" and "m_id m = to_lower i"
    and "n = map_option (\<lambda>e. to_lower (trim e)) (um_email dto)" and "ec = (n \<noteq> None \<and> n \<noteq> m_email m)"
    and "sc = (um_status dto \<noteq> None \<and> um_status dto \<noteq> Some (m_status m))"
    and "r = MembersService_toResponse (MembersService_assign dto actor n ec sc m)"
    and "member_updated m (MembersService_assign dto actor n ec sc m) ec sc n w w'"
proof -
  have "wp (MembersService_update A i dto actor)
      (\<lambda>r w'. \<exists>m n ec sc. m \<in> set (members w) \<and> m_id m = to_lower i \<and>
        n = map_option (\<lambda>e. to_lower (trim e)) (um_email dto) \<and> ec = (n \<noteq> None \<and> n \<noteq> m_email m) \<and>
        sc = (um_status dto \<noteq> None \<and> um_status dto \<noteq> Some (m_status m)) \<and>
        r = MembersService_toResponse (MembersService_assign dto actor n ec sc m) \<and>
        member_updated m (MembersService_assign dto actor n ec sc m) ec sc n w w') (\<lambda>_ _. True) w"
    by (rule wp_update) blast+
  from wp_return_value [OF this assms] that show ?thesis by blast
qed

lemma credentials_returns:
  assumes "MembersService_setMemberCredentials A i login password actor w = (Inr r, w')"
  obtains m h now where "m \<in> set (members w)" and "m_id m = to_lower i"
    and "credentials_set m (MembersService_withCredentials (MembersService_normalizeLoginIdentifier login) h now actor m)
      (MembersService_normalizeLoginIdentifier login) w w'"
proof -
  have "wp (MembersService_setMemberCredentials A i login password actor)
      (\<lambda>r w'. \<exists>m h now. m \<in> set (members w) \<and> m_id m = to_lower i \<and>
        credentials_set m (MembersService_withCredentials (MembersService_normalizeLoginIdentifier login) h now actor m)
          (MembersService_normalizeLoginIdentifier login) w w') (\<lambda>_ _. True) w"
    by (rule wp_setMemberCredentials) blast+
  from wp_return_value [OF this assms] that show ?thesis by blast
qed

text \<open>What keeps the lending invariant: every operation that leaves the loan counter alone.\<close>

lemma keeps_lending_update:
  assumes "um_activeLoanCount dto = None"
  shows "keeps lending_ok (MembersService_update A i dto actor)"
proof (rule keepsI, rule wp_update, goal_cases)
  case (1 w m n ec sc w')
  then show ?case by (auto simp: member_updated_def assms intro: lending_ok_frame_changed [of w w' _ m])
next
  case (2 w e w')
  then show ?case by (simp add: lending_ok_frame)
next
  case (3 w e m m' w')
  then show ?case by (simp add: assms lending_ok_frame_changed [of w w' m' m])
qed

lemma keeps_lending_credentials: "keeps lending_ok (MembersService_setMemberCredentials A i login password actor)"
proof (rule keepsI, rule wp_setMemberCredentials, goal_cases)
  case (1 w m h now w')
  then show ?case by (auto simp: credentials_set_def intro: lending_ok_frame_changed [of w w' _ m])
next
  case (2 w e w')
  then show ?case by (simp add: lending_ok_frame)
next
  case (3 w e m m' w')
  then show ?case by (simp add: lending_ok_frame_changed [of w w' m' m])
qed

lemma keeps_lending_create:
  "cm_activeLoanCount dto \<in> {None, Some 0} \<Longrightarrow> keeps lending_ok (MembersService_create A dto actor)"
  unfolding MembersService_create_def MembershipTypesService_validateActivePolicy_def
    MembershipTypesService_findDocumentById_def toMongoObjectId_def
  by (intro keeps_rules mb.keeps_findOne mt.keeps_findOne mb.keeps_exists_doc mb.keeps_createDoc)
    (auto simp: one_added_def intro!: lending_ok_new_member)

lemma keeps_lending_update_one:
  assumes "\<And>d. m_id (f d) = m_id d \<and> m_activeLoanCount (f d) = m_activeLoanCount d"
  shows "keeps lending_ok (updateOne (memberModel A) p f)"
  by (rule mb.keeps_updateOne) (simp_all add: lending_ok_updated_member [where f = f] assms)

lemma keeps_lending_touchLastLogin: "keeps lending_ok (MembersService_touchLastLogin A i)"
  unfolding MembersService_touchLastLogin_def toMongoObjectId_def
  by (cases "is_object_id i") (auto intro!: keeps_rules keeps_lending_update_one)

lemma keeps_lending_bumpAuthVersion: "keeps lending_ok (MembersService_bumpAuthVersion A i)"
  unfolding MembersService_bumpAuthVersion_def toMongoObjectId_def
  by (cases "is_object_id i") (auto intro!: keeps_rules keeps_lending_update_one)

end

interpretation mem_member_store: member_store mem_app "the (identifierModel mem_app)"
  "the (accountFamilyModel mem_app)" "the (eventModel mem_app)"
  by (intro member_store.intro account_store.intro account_store_axioms.intro member_store_axioms.intro
      mem_identifiers.collection_axioms mem_account_families mem_event_store.event_store_axioms
      mem_members.collection_axioms mem_membership_types.collection_axioms mem_bcrypt)
    (simp_all add: mem_app_def)

subsection \<open>Properties\<close>

definition no_change :: update_member_dto where
  "no_change = \<lparr>um_fullName = None, um_email = None, um_phone = None, um_membershipTypeId = None,
     um_status = None, um_activeLoanCount = None\<rparr>"

definition new_mail :: update_member_dto where
  "new_mail = no_change\<lparr>um_email := Some '' New@Example.org''\<rparr>"

text \<open>The sample member with a session and the reservation of her e-mail address.\<close>

definition signed_in_world :: "mem_env world" where
  "signed_in_world = sample_world\<lparr>
     identifiers := [new_reservation ''olivia@example.org'' EmailIdentifier MemberSubject (sample_id CHR ''b'')
       ''system'' ''r1''],
     families := [\<lparr>f_familyId = ''f1'', f_clientId = ''web'', f_subjectType = MemberSubject,
       f_subjectId = sample_id CHR ''b'', f_scopes = [], f_authVersion = 0, f_status = FamilyActive,
       f_currentTokenHash = Some ''sha256:token'', f_lastRotationOperationId = None, f_issuedAt = 0,
       f_lastRotatedAt = 0, f_expiresAt = 5000, f_revokedAt = None, f_revokedReason = None\<rparr>]\<rparr>"

lemma update_mail_returns:
  "\<not> isl (fst (MembersService_update mem_app (sample_id CHR ''b'') new_mail (Some sample_actor) signed_in_world))"
  by code_simp

text \<open>C30: an update that returns has stored exactly the member it answers with; a new status and a
  new e-mail address each raise the version the member's access tokens are checked against, and
  either of them ends every refresh session of the member.\<close>

theorem member_update_signs_out:
  assumes "member_store A I F V" and "MembersService_update A i dto actor w = (Inr r, w')"
  shows "\<exists>m m' ec sc. m \<in> set (members w) \<and> m_id m = to_lower i \<and> m_id m' = m_id m \<and>
    r = MembersService_toResponse m' \<and> replaced m_id m' (members w) (members w') \<and>
    ec = (um_email dto \<noteq> None \<and> Some (to_lower (trim (the (um_email dto)))) \<noteq> m_email m) \<and>
    sc = (um_status dto \<noteq> None \<and> um_status dto \<noteq> Some (m_status m)) \<and>
    m_status m' = (if sc then the (um_status dto) else m_status m) \<and>
    m_email m' = (if ec then Some (to_lower (trim (the (um_email dto)))) else m_email m) \<and>
    m_authVersion m' = m_authVersion m + (if sc then 1 else 0) + (if ec then 1 else 0) \<and>
    (ec \<or> sc \<longrightarrow> signed_out MemberSubject (m_id m) (families w'))"
proof -
  from member_store.update_returns [OF assms] obtain m n ec sc where m: "m \<in> set (members w)" "m_id m = to_lower i"
    and n: "n = map_option (\<lambda>e. to_lower (trim e)) (um_email dto)" and ec: "ec = (n \<noteq> None \<and> n \<noteq> m_email m)"
    and sc: "sc = (um_status dto \<noteq> None \<and> um_status dto \<noteq> Some (m_status m))"
    and r: "r = MembersService_toResponse (MembersService_assign dto actor n ec sc m)"
    and upd: "member_updated m (MembersService_assign dto actor n ec sc m) ec sc n w w'"
    by blast
  have email: "m_email (MembersService_assign dto actor n ec sc m) =
      (if ec then Some (to_lower (trim (the (um_email dto)))) else m_email m)"
    using n ec by (auto simp: MembersService_assign_def split: option.split)
  have status: "m_status (MembersService_assign dto actor n ec sc m) = (if sc then the (um_status dto) else m_status m)"
    by (simp add: MembersService_assign_def)
  have ec': "ec = (um_email dto \<noteq> None \<and> Some (to_lower (trim (the (um_email dto)))) \<noteq> m_email m)"
    using n ec by auto
  show ?thesis
    by (intro exI conjI; (rule m r ec' sc status email assignMember_fields)?)
      (use upd in \<open>simp_all add: member_updated_def\<close>)
qed

theorem member_update_signs_out_witness:
  "\<exists>m'. replaced m_id m' [sample_member] (members (snd (MembersService_update mem_app (sample_id CHR ''b'')
      new_mail (Some sample_actor) signed_in_world))) \<and> m_authVersion m' = 1 \<and>
    signed_out MemberSubject (sample_id CHR ''b'') (families (snd (MembersService_update mem_app
      (sample_id CHR ''b'') new_mail (Some sample_actor) signed_in_world)))"
  using member_update_signs_out [OF mem_member_store.member_store_axioms run_returned [OF update_mail_returns]]
  by (auto simp: signed_in_world_def sample_world_def sample_member_def new_mail_def no_change_def
      trim_def to_lower_def char_lower_def white_space_def char_code_def)

text \<open>A returning update with a new e-mail address leaves the member holding the reservation of
  that address and no longer that of the address before; no other reservation changes hands.\<close>

theorem reservation_follows_email:
  assumes "member_store A I F V" and "identifiers_unique (identifiers w)"
    and "MembersService_update A i dto actor w = (Inr r, w')"
    and "um_email dto = Some e" and "n = to_lower (trim e)" and "n \<noteq> []"
  shows "\<exists>m \<in> set (members w). m_id m = to_lower i \<and>
    (m_email m = Some n \<or>
     holds MemberSubject (m_id m) n (identifiers w') \<and>
     (\<forall>old. m_email m = Some old \<and> old \<noteq> [] \<longrightarrow> \<not> holds MemberSubject (m_id m) old (identifiers w')) \<and>
     (\<forall>k s x. k \<noteq> n \<and> Some k \<noteq> m_email m \<longrightarrow> holds s x k (identifiers w') = holds s x k (identifiers w)))"
proof -
  obtain m n' ec sc where m: "m \<in> set (members w)" "m_id m = to_lower i"
    and n': "n' = map_option (\<lambda>e. to_lower (trim e)) (um_email dto)" and ec: "ec = (n' \<noteq> None \<and> n' \<noteq> m_email m)"
    and "sc = (um_status dto \<noteq> None \<and> um_status dto \<noteq> Some (m_status m))"
    and "r = MembersService_toResponse (MembersService_assign dto actor n' ec sc m)"
    and upd: "member_updated m (MembersService_assign dto actor n' ec sc m) ec sc n' w w'"
    by (rule member_store.update_returns [OF assms(1,3)])
  have n'': "n' = Some n" using n' assms(4,5) by simp
  have ids: "\<exists>is. identifier_reserved MemberSubject (m_id m) n (identifiers w) is \<and>
      (if truthy (m_email m)
       then identifier_released MemberSubject (m_id m) (the (m_email m)) is (identifiers w')
       else identifiers w' = is)" if "m_email m \<noteq> Some n"
  proof -
    have "ec" using that by (simp add: ec n'' not_sym)
    with upd show ?thesis using assms(2,6) by (simp add: member_updated_def n'')
  qed
  show ?thesis
  proof (cases "m_email m = Some n")
    case False
    with ids obtain "is" where res: "identifier_reserved MemberSubject (m_id m) n (identifiers w) is"
      and rel: "if truthy (m_email m)
        then identifier_released MemberSubject (m_id m) (the (m_email m)) is (identifiers w')
        else identifiers w' = is" by blast
    show ?thesis using m False res rel
      by (intro bexI [OF _ m(1)])
        (auto simp: identifier_reserved_def truthy_def identifier_released_other identifier_released_not_held
          split: if_splits)
  qed (use m in blast)
qed

theorem reservation_follows_email_witness:
  "holds MemberSubject (sample_id CHR ''b'') ''new@example.org'' (identifiers (snd (MembersService_update mem_app
      (sample_id CHR ''b'') new_mail (Some sample_actor) signed_in_world)))"
proof -
  have "identifiers_unique (identifiers signed_in_world)"
    by (simp add: signed_in_world_def identifiers_unique_def)
  moreover have "um_email new_mail = Some '' New@Example.org''" by (simp add: new_mail_def)
  moreover have "''new@example.org'' = to_lower (trim '' New@Example.org'')" by code_simp
  moreover have "members signed_in_world = [sample_member]"
    by (simp add: signed_in_world_def sample_world_def)
  moreover have "m_email sample_member \<noteq> Some ''new@example.org'' \<and> m_id sample_member = sample_id CHR ''b''"
    by (simp add: sample_member_def)
  ultimately show ?thesis
    using reservation_follows_email [OF mem_member_store.member_store_axioms _ run_returned [OF update_mail_returns],
        of "'' New@Example.org''" "''new@example.org''"]
    by force
qed

text \<open>The work of the member service outside lending keeps the books, the members' loan
  counters and the loans consistent on every outcome, as long as nobody passes a loan count.\<close>

theorem member_operations_keep_inventory:
  assumes "member_store A I F V" and "lending_ok w" and "cm_activeLoanCount cdto \<in> {None, Some 0}"
    and "um_activeLoanCount dto = None"
  shows "lending_ok (snd (MembersService_create A cdto actor w)) \<and>
    lending_ok (snd (MembersService_update A i dto actor w)) \<and>
    lending_ok (snd (MembersService_setMemberCredentials A i login password actor w)) \<and>
    lending_ok (snd (MembersService_touchLastLogin A i w)) \<and>
    lending_ok (snd (MembersService_bumpAuthVersion A i w))"
  by (intro conjI keeps_snd [OF member_store.keeps_lending_create [OF assms(1,3)] assms(2)]
      keeps_snd [OF member_store.keeps_lending_update [OF assms(1,4)] assms(2)]
      keeps_snd [OF member_store.keeps_lending_credentials [OF assms(1)] assms(2)]
      keeps_snd [OF member_store.keeps_lending_touchLastLogin [OF assms(1)] assms(2)]
      keeps_snd [OF member_store.keeps_lending_bumpAuthVersion [OF assms(1)] assms(2)])

theorem member_operations_keep_inventory_witness:
  "lending_ok (snd (MembersService_update mem_app (sample_id CHR ''b'') no_change None sample_world))"
  using member_operations_keep_inventory [OF mem_member_store.member_store_axioms sample_world_lending,
        where cdto = "\<lparr>cm_memberNumber = ''M-1'', cm_fullName = ''Ann'', cm_email = None, cm_phone = None,
          cm_membershipTypeId = sample_id CHR ''d'', cm_activeLoanCount = None\<rparr>" and dto = no_change]
  by (simp add: no_change_def)

text \<open>Setting a member's credentials stores the identifier, the hash of the password and an
  active sign-in, raises the version the access tokens are checked against, ends every refresh
  session of the member and leaves the member holding the identifier's reservation, the previous
  identifier being given up.\<close>

theorem credentials_take_effect:
  assumes "member_store A I F V" and "identifiers_unique (identifiers w)"
    and "MembersService_setMemberCredentials A i login password actor w = (Inr r, w')"
    and "n = to_lower (trim login)"
  shows "\<exists>m m' h. m \<in> set (members w) \<and> m_id m = to_lower i \<and> replaced m_id m' (members w) (members w') \<and>
    m_loginIdentifier m' = Some n \<and> m_passwordHash m' = Some h \<and> m_authStatus m' = Some MemberAuthActive \<and>
    m_authVersion m' = m_authVersion m + 1 \<and> signed_out MemberSubject (m_id m) (families w') \<and>
    holds MemberSubject (m_id m) n (identifiers w') \<and>
    (\<forall>old. m_loginIdentifier m = Some old \<and> old \<noteq> [] \<and> old \<noteq> n \<longrightarrow>
       \<not> holds MemberSubject (m_id m) old (identifiers w'))"
proof -
  from member_store.credentials_returns [OF assms(1,3)] obtain m h now where
    m: "m \<in> set (members w)" "m_id m = to_lower i"
    and set: "credentials_set m (MembersService_withCredentials n h now actor m) n w w'"
    unfolding assms(4) MembersService_normalizeLoginIdentifier_def by blast
  from set assms(2) obtain "is" where res: "identifier_reserved MemberSubject (m_id m) n (identifiers w) is"
    and rel: "if truthy (m_loginIdentifier m) \<and> m_loginIdentifier m \<noteq> Some n
      then identifier_released MemberSubject (m_id m) (the (m_loginIdentifier m)) is (identifiers w')
      else identifiers w' = is"
    unfolding credentials_set_def by blast
  have held: "holds MemberSubject (m_id m) n (identifiers w')"
    using res rel identifier_released_other [of MemberSubject "m_id m" "the (m_loginIdentifier m)" "is" "identifiers w'" n]
    by (auto simp: identifier_reserved_def truthy_def split: if_splits)
  have gone: "\<not> holds MemberSubject (m_id m) old (identifiers w')"
    if "m_loginIdentifier m = Some old \<and> old \<noteq> [] \<and> old \<noteq> n" for old
    using res rel that by (auto simp: identifier_reserved_def identifier_released_not_held)
  show ?thesis
    by (intro exI [of _ m] exI [of _ "MembersService_withCredentials n h now actor m"] exI [of _ h])
      (use m set held gone in \<open>simp add: credentials_set_def MembersService_withCredentials_def\<close>)
qed

theorem credentials_take_effect_witness:
  "holds MemberSubject (sample_id CHR ''b'') ''ann'' (identifiers (snd (MembersService_setMemberCredentials
     mem_app (sample_id CHR ''b'') ''Ann'' ''pw'' None signed_in_world)))"
proof -
  have "identifiers_unique (identifiers signed_in_world)"
    by (simp add: signed_in_world_def identifiers_unique_def)
  moreover have "\<not> isl (fst (MembersService_setMemberCredentials mem_app (sample_id CHR ''b'') ''Ann'' ''pw''
      None signed_in_world))" by code_simp
  moreover have "''ann'' = to_lower (trim ''Ann'')" by code_simp
  ultimately show ?thesis
    using credentials_take_effect [OF mem_member_store.member_store_axioms _ run_returned, of signed_in_world
        "sample_id CHR ''b''" "''Ann''" "''pw''" None "''ann''"]
    by (auto simp: signed_in_world_def sample_world_def sample_member_def)
qed

text \<open>An update that moves a member to an unknown membership type is refused, and yet the new
  e-mail address it asked for stays reserved for the member whose stored address it is not: the
  reservation is made before the membership type is checked, outside the \<^verbatim>\<open>try\<close> that undoes it.\<close>

theorem refused_update_keeps_reservation:
  "isl (fst (MembersService_update mem_app (sample_id CHR ''b'')
     (new_mail\<lparr>um_membershipTypeId := Some (sample_id CHR ''9'')\<rparr>) None signed_in_world)) \<and>
   members (snd (MembersService_update mem_app (sample_id CHR ''b'')
     (new_mail\<lparr>um_membershipTypeId := Some (sample_id CHR ''9'')\<rparr>) None signed_in_world)) = members signed_in_world \<and>
   holds MemberSubject (sample_id CHR ''b'') ''new@example.org'' (identifiers (snd (MembersService_update mem_app
     (sample_id CHR ''b'') (new_mail\<lparr>um_membershipTypeId := Some (sample_id CHR ''9'')\<rparr>) None signed_in_world)))"
  by code_simp

end
