(* ===== verification/Document_Transaction.thy ===== *)
theory Document_Transaction
  imports Store
begin

text \<open>
  A transaction whose body works on a document it has already read into memory.  The database is
  rolled back between the attempts of \<^verbatim>\<open>session.withTransaction\<close>, the object in memory is not: what a
  failed attempt assigned to it is still there in the next attempt, and after the transaction.

  A computation on the world and an object has the pair as its state.
\<close>

definition on_world :: "('w, 'a) io \<Rightarrow> ('w \<times> 'd, 'a) io" where
  "on_world m = (\<lambda>(w, d). case m w of (r, w') \<Rightarrow> (r, (w', d)))"

text \<open>An assignment to the object's fields.\<close>

definition mutate :: "('d \<Rightarrow> 'd) \<Rightarrow> ('w \<times> 'd, unit) io" where
  "mutate f = (\<lambda>(w, d). (Inr (), (w, f d)))"

text \<open>The object exists as long as \<open>m\<close> runs.\<close>

definition with_object :: "'d \<Rightarrow> ('w \<times> 'd, 'a) io \<Rightarrow> ('w, 'a) io" where
  "with_object d m = (\<lambda>w. case m (w, d) of (r, (w', d')) \<Rightarrow> (r, w'))"

lemma wp_on_world [wp_simps, simp]:
  "wp (on_world m) Q E (w, d) = wp m (\<lambda>a w'. Q a (w', d)) (\<lambda>e w'. E e (w', d)) w"
  by (simp add: wp_def on_world_def split: prod.split sum.split)

lemma wp_mutate [wp_simps, simp]: "wp (mutate f) Q E (w, d) = Q () (w, f d)"
  by (simp add: wp_def mutate_def)

lemma wp_with_object [wp_simps, simp]:
  "wp (with_object d m) Q E w = wp m (\<lambda>a s. Q a (fst s)) (\<lambda>e s. E e (fst s)) (w, d)"
  by (auto simp: wp_def with_object_def split: prod.split sum.split)

lemma keeps_on_world: "keeps I m \<Longrightarrow> keeps (\<lambda>(w, d). I w \<and> J d) (on_world m)"
  unfolding keeps_def by (auto elim!: wp_mono [rotated])

lemma keeps_mutate: "(\<And>d. J d \<Longrightarrow> J (f d)) \<Longrightarrow> keeps (\<lambda>(w, d). I w \<and> J d) (mutate f)"
  unfolding keeps_def by auto

lemma keeps_with_object: "keeps (\<lambda>(w, d). I w \<and> J d) m \<Longrightarrow> J d \<Longrightarrow> keeps I (with_object d m)"
proof (rule keepsI)
  fix w assume m: "keeps (\<lambda>(w, d). I w \<and> J d) m" and "J d" and "I w"
  then have "wp m (\<lambda>_ (w, d). I w \<and> J d) (\<lambda>_ (w, d). I w \<and> J d) (w, d)"
    using keepsD [OF m, of "(w, d)"] by simp
  then show "wp (with_object d m) (\<lambda>_. I) (\<lambda>_. I) w"
    unfolding wp_with_object by (rule wp_mono) auto
qed

subsection \<open>The contract\<close>

text \<open>
  \<open>attempts m w d r w1 d1\<close>: one or more attempts of \<open>m\<close>, each from the world \<open>w\<close> and the object
  the attempt before it left, of which the last had the result \<open>r\<close> and left \<open>w1\<close> and \<open>d1\<close>.
\<close>

inductive attempts ::
  "('e world \<times> 'd, unit) io \<Rightarrow> 'e world \<Rightarrow> 'd \<Rightarrow> exn + unit \<Rightarrow> 'e world \<Rightarrow> 'd \<Rightarrow> bool"
  for m :: "('e world \<times> 'd, unit) io" and w :: "'e world" where
  last_attempt: "m (w\<lparr>env := z\<rparr>, d) = (r, (w1, d1)) \<Longrightarrow> attempts m w d r w1 d1"
| next_attempt: "m (w\<lparr>env := z\<rparr>, d) = (r, (w1, d1)) \<Longrightarrow> attempts m w d1 r' w2 d2 \<Longrightarrow> attempts m w d r' w2 d2"

text \<open>A property of the object that every attempt keeps holds after all of them.\<close>

lemma attempts_wp:
  assumes "attempts m w d r w1 d1" and "J d"
    and "\<And>z d. J d \<Longrightarrow> wp m (\<lambda>a s. J (snd s) \<and> Q s) (\<lambda>e s. J (snd s) \<and> E e s) (w\<lparr>env := z\<rparr>, d)"
  shows "J d1 \<and> (case r of Inl e \<Rightarrow> E e (w1, d1) | Inr a \<Rightarrow> Q (w1, d1))"
  using assms(1,2)
proof (induction rule: attempts.induct)
  case (last_attempt z d r w1 d1)
  from assms(3) [OF last_attempt(2), of z] last_attempt(1) show ?case
    by (auto simp: wp_def split: sum.splits)
next
  case (next_attempt z d r w1 d1 r' w2 d2)
  from assms(3) [OF next_attempt(4), of z] next_attempt(1) have "J d1"
    by (auto simp: wp_def split: sum.splits)
  then show ?case by (rule next_attempt(3))
qed

locale document_transaction =
  fixes D :: "('e world \<times> 'd, unit) io \<Rightarrow> ('e world \<times> 'd, unit) io"
  assumes D_law: "D m (w, d) = (r, (w', d')) \<Longrightarrow>
    (case r of
       Inr _ \<Rightarrow> (\<exists>w1. attempts m w d (Inr ()) w1 d' \<and> env_step w1 w')
     | Inl e \<Rightarrow>
         (env_step w w' \<and> store_error e \<and> d' = d) \<or>
         (env_step w w' \<and> (\<exists>r1 w1. attempts m w d r1 w1 d' \<and> (store_error e \<or> r1 = Inl e))) \<or>
         (store_error e \<and> (\<exists>w1. attempts m w d (Inr ()) w1 d' \<and> env_step w1 w')))"
begin

lemma wp_document_transaction:
  assumes "J d"
    and work: "\<And>z d. J d \<Longrightarrow> wp m
      (\<lambda>_ s. J (snd s) \<and> (\<forall>z'. Q () ((fst s)\<lparr>env := z'\<rparr>, snd s) \<and>
          (\<forall>e. store_error e \<longrightarrow> E e ((fst s)\<lparr>env := z'\<rparr>, snd s))))
      (\<lambda>e s. J (snd s) \<and> (\<forall>z'. E e (w\<lparr>env := z'\<rparr>, snd s))) (w\<lparr>env := z\<rparr>, d)"
    and fail: "\<And>e z d. J d \<Longrightarrow> store_error e \<Longrightarrow> E e (w\<lparr>env := z\<rparr>, d)"
  shows "wp (D m) Q E (w, d)"
proof -
  let ?Q = "\<lambda>s. \<forall>z'. Q () ((fst s)\<lparr>env := z'\<rparr>, snd s) \<and>
    (\<forall>e. store_error e \<longrightarrow> E e ((fst s)\<lparr>env := z'\<rparr>, snd s))"
  let ?E = "\<lambda>e s. \<forall>z'. E e (w\<lparr>env := z'\<rparr>, snd s)"
  have ran: "J d' \<and> (case r of Inl e \<Rightarrow> ?E e (w1, d') | Inr a \<Rightarrow> ?Q (w1, d'))"
    if "attempts m w d r w1 d'" for r w1 d'
    by (rule attempts_wp [where J = J and Q = ?Q and E = ?E, OF that assms(1) work])
  show ?thesis
  proof (rule wpI)
    fix a s assume "D m (w, d) = (Inr a, s)"
    with D_law [of m w d "Inr a" "fst s" "snd s"] obtain w1
      where "attempts m w d (Inr ()) w1 (snd s)" and "env_step w1 (fst s)" by auto
    with ran [of "Inr ()" w1 "snd s"] show "Q a s" by (cases s) (auto simp: env_step_def)
  next
    fix e s assume "D m (w, d) = (Inl e, s)"
    with D_law [of m w d "Inl e" "fst s" "snd s"] consider
        "env_step w (fst s)" "store_error e" "snd s = d"
      | r1 w1 where "env_step w (fst s)" "attempts m w d r1 w1 (snd s)" "store_error e \<or> r1 = Inl e"
      | w1 where "store_error e" "attempts m w d (Inr ()) w1 (snd s)" "env_step w1 (fst s)"
      by auto
    then show "E e s"
    proof cases
      case 1
      then show ?thesis using fail [OF assms(1)] by (cases s) (auto simp: env_step_def)
    next
      case (2 r1 w1)
      from 2(1) obtain z where "fst s = w\<lparr>env := z\<rparr>" by (auto simp: env_step_def)
      with 2(3) ran [OF 2(2)] fail [of "snd s" e z] show ?thesis by (cases s) auto
    next
      case (3 w1)
      with ran [OF 3(2)] show ?thesis by (cases s) (auto simp: env_step_def)
    qed
  qed
qed

lemma keeps_document_transaction:
  assumes env: "\<And>w z. I w \<Longrightarrow> I (w\<lparr>env := z\<rparr>)" and m: "keeps (\<lambda>(w, d). I w \<and> J d) m"
  shows "keeps (\<lambda>(w, d). I w \<and> J d) (D m)"
proof (rule keepsI, clarify)
  fix w d assume w: "I w" and d: "J d"
  have work: "wp m (\<lambda>_ s. J (snd s) \<and> I (fst s)) (\<lambda>e s. J (snd s)) (w\<lparr>env := z\<rparr>, d')" if "J d'" for z d'
    using keepsD [OF m, of "(w\<lparr>env := z\<rparr>, d')"] env [OF w] that by (auto elim!: wp_mono)
  show "wp (D m) (\<lambda>_ (w, d). I w \<and> J d) (\<lambda>_ (w, d). I w \<and> J d) (w, d)"
    by (rule wp_document_transaction [where J = J, OF d])
      (auto intro: env w wp_mono [OF work])
qed

end

subsection \<open>An instance\<close>

text \<open>One attempt on the in-memory store; its writes are undone when it throws.\<close>

definition mem_document_transaction ::
  "('e world \<times> 'd, unit) io \<Rightarrow> ('e world \<times> 'd, unit) io" where
  "mem_document_transaction m s =
     (case m s of (Inr a, s') \<Rightarrow> (Inr a, s') | (Inl e, s') \<Rightarrow> (Inl e, ((fst s)\<lparr>env := env (fst s')\<rparr>, snd s')))"

interpretation mem_dtx: document_transaction mem_document_transaction
proof
  fix m :: "('e world \<times> 'd, unit) io" and w d r w' d'
  assume run: "mem_document_transaction m (w, d) = (r, (w', d'))"
  obtain r1 w1 d1 where m: "m (w, d) = (r1, (w1, d1))" by (metis surj_pair)
  then have att: "attempts m w d r1 w1 d1"
    using last_attempt [where m = m and w = w and z = "env w"] by simp
  show "case r of
       Inr _ \<Rightarrow> (\<exists>w1. attempts m w d (Inr ()) w1 d' \<and> env_step w1 w')
     | Inl e \<Rightarrow>
         (env_step w w' \<and> store_error e \<and> d' = d) \<or>
         (env_step w w' \<and> (\<exists>r1 w1. attempts m w d r1 w1 d' \<and> (store_error e \<or> r1 = Inl e))) \<or>
         (store_error e \<and> (\<exists>w1. attempts m w d (Inr ()) w1 d' \<and> env_step w1 w'))"
  proof (cases r1)
    case (Inl e)
    with run m have "r = Inl e" "d' = d1" "env_step w w'"
      by (auto simp: mem_document_transaction_def env_step_def)
    with att Inl show ?thesis by auto
  next
    case (Inr u)
    with run m have "r = Inr ()" "d' = d1" "w' = w1" by (auto simp: mem_document_transaction_def)
    with att Inr show ?thesis by auto
  qed
qed

end
