(* ===== verification/Staff_Users.thy ===== *)
theory Staff_Users
  imports Accounts Document_Transaction Sample_World
begin

text \<open>
  \<^verbatim>\<open>src/staff-users/staff-users.service.ts\<close>: staff users, their roles and their sign-in identifiers.
  A new e-mail address is reserved, stored and the old one given up in one transaction; where the
  database has no transactions the same steps run one by one, and are undone when saving fails.

  The session of the driver is \<open>S\<close> (whether one can be started; \<^verbatim>\<open>endSession\<close> is taken not to throw),
  \<^verbatim>\<open>session.withTransaction\<close> is \<open>D\<close>, and \<open>objectId\<close> is \<^verbatim>\<open>new Types.ObjectId()\<close>.  A document that a
  failed transaction saved is saved as a new one by the code after it.
\<close>

subsection \<open>Roles\<close>

fun role_name :: "staff_role \<Rightarrow> string" where
  "role_name Staff = ''staff''"
| "role_name Admin = ''admin''"

fun staff_status_name :: "staff_user_status \<Rightarrow> string" where
  "staff_status_name StaffActive = ''active''"
| "staff_status_name StaffSuspended = ''suspended''"
| "staff_status_name StaffInactive = ''inactive''"

text \<open>\<^verbatim>\<open>sort()\<close> compares the names of the roles.\<close>

instantiation staff_role :: linorder
begin

definition less_eq_staff_role :: "staff_role \<Rightarrow> staff_role \<Rightarrow> bool" where
  "less_eq_staff_role a b = (a = Admin \<or> b = Staff)"

definition less_staff_role :: "staff_role \<Rightarrow> staff_role \<Rightarrow> bool" where
  "less_staff_role a b = (a = Admin \<and> b = Staff)"

instance
proof
  fix a b c :: staff_role
  show "(a < b) = (a \<le> b \<and> \<not> b \<le> a)" by (cases a; cases b) (simp_all add: less_eq_staff_role_def less_staff_role_def)
  show "a \<le> a" by (cases a) (simp_all add: less_eq_staff_role_def)
  show "a \<le> b \<Longrightarrow> b \<le> c \<Longrightarrow> a \<le> c" by (cases a; cases b; cases c) (simp_all add: less_eq_staff_role_def)
  show "a \<le> b \<Longrightarrow> b \<le> a \<Longrightarrow> a = b" by (cases a; cases b) (simp_all add: less_eq_staff_role_def)
  show "a \<le> b \<or> b \<le> a" by (cases a; cases b) (simp_all add: less_eq_staff_role_def)
qed

end

definition approvedRoles :: "staff_role list" where
  "approvedRoles = [Staff, Admin]"

definition role_named :: "string \<Rightarrow> staff_role option" where
  "role_named s = find (\<lambda>r. role_name r = s) approvedRoles"

subsection \<open>Requests and responses\<close>

record create_staff_user_dto =
  cu_email :: string
  cu_displayName :: string
  cu_password :: string
  cu_roles :: "string list"

record update_staff_user_dto =
  uu_email :: "string option"
  uu_displayName :: "string option"
  uu_roles :: "string list option"
  uu_status :: "staff_user_status option"

record staff_user_query = page +
  uq_status :: "staff_user_status option"
  uq_role :: "staff_role option"

record staff_user_response =
  ru_id :: string
  ru_email :: string
  ru_displayName :: string
  ru_roles :: "staff_role list"
  ru_permissions :: "auth_permission list"
  ru_status :: staff_user_status
  ru_lastLoginAt :: "date option"

definition StaffUsersService_toResponse :: "staff_user \<Rightarrow> staff_user_response" where
  "StaffUsersService_toResponse user = \<lparr>ru_id = u_id user, ru_email = u_email user,
     ru_displayName = u_displayName user, ru_roles = u_roles user,
     ru_permissions = permissionsForStaffRoles (u_roles user), ru_status = u_status user,
     ru_lastLoginAt = u_lastLoginAt user\<rparr>"

subsection \<open>Helpers of the service\<close>

definition StaffUsersService_normalizeEmail :: "string \<Rightarrow> string" where
  "StaffUsersService_normalizeEmail email = to_lower (trim email)"

definition StaffUsersService_validateRoles :: "string list \<Rightarrow> ('w, staff_role list) io" where
  "StaffUsersService_validateRoles roles =
     (let unique = unique_list roles in
      case those (map role_named unique) of
        Some (r # rs) \<Rightarrow> ret (r # rs)
      | _ \<Rightarrow> throw (Unprocessable ''Only approved staff roles are allowed''))"

definition StaffUsersService_sameRoles :: "staff_role list \<Rightarrow> staff_role list \<Rightarrow> bool" where
  "StaffUsersService_sameRoles left right =
     (join ''|'' (map role_name (sort left)) = join ''|'' (map role_name (sort right)))"

fun exn_message :: "exn \<Rightarrow> string" where
  "exn_message (BadRequest m) = m"
| "exn_message (Unauthorized m) = m"
| "exn_message (Forbidden m) = m"
| "exn_message (NotFound m) = m"
| "exn_message (Conflict m) = m"
| "exn_message (Unprocessable m) = m"
| "exn_message (TooManyRequests m) = m"
| "exn_message (ServiceUnavailable m) = m"
| "exn_message (ValidationError m) = m"
| "exn_message (DriverError c m) = m"
| "exn_message (JsError m) = m"

definition StaffUsersService_identifierError :: "exn \<Rightarrow> exn" where
  "StaffUsersService_identifierError error =
     (if (case error of Conflict m \<Rightarrow> True | _ \<Rightarrow> False) \<or> error_code error = Some duplicate_key_code
      then Conflict ''Sign-in identifier is already reserved'' else error)"

definition StaffUsersService_isTransactionUnavailable :: "exn \<Rightarrow> bool" where
  "StaffUsersService_isTransactionUnavailable error =
     list_ex (\<lambda>t. containsLiteral t (exn_message error)) [''transaction'', ''replica set'', ''mongos'']"

definition StaffUsersService_startSession :: "('w, bool) io \<Rightarrow> ('w, bool) io" where
  "StaffUsersService_startSession S = try_catch S (\<lambda>_. ret False)"

definition StaffUsersService_findDocumentById :: "'e app \<Rightarrow> string \<Rightarrow> ('e world, staff_user) io" where
  "StaffUsersService_findDocumentById A i =
     await (toMongoObjectId i ''id'') (\<lambda>oid.
     await (findOne (staffUserModel A) (\<lambda>u. u_id u = oid)) (\<lambda>found.
     require (NotFound ''Staff user not found'') found))"

text \<open>A released reservation is taken over by the staff user; its identifier type stays.\<close>

definition StaffUsersService_takeOver :: "string \<Rightarrow> string \<Rightarrow> reservation \<Rightarrow> reservation" where
  "StaffUsersService_takeOver subjectId actorId i =
     i\<lparr>i_status := IdentifierActive, i_subjectType := Some StaffSubject, i_subjectId := Some subjectId,
       i_updatedBy := actorId, i_releasedAt := None\<rparr>"

definition StaffUsersService_reserveIdentifier ::
  "'e app \<Rightarrow> string \<Rightarrow> string \<Rightarrow> string \<Rightarrow> ('e world, unit) io" where
  "StaffUsersService_reserveIdentifier A normalizedIdentifier subjectId actorId =
     (case identifierModel A of None \<Rightarrow> ret ()
      | Some I \<Rightarrow>
          await (findOne I (\<lambda>i. i_normalizedIdentifier i = normalizedIdentifier)) (\<lambda>found.
          case found of
            Some existing \<Rightarrow>
              if held_by StaffSubject subjectId existing then ret ()
              else if i_status existing \<noteq> IdentifierReleased
              then throw (Conflict ''Sign-in identifier is already reserved'')
              else
              await (updateOne I (\<lambda>i. i_id i = i_id existing \<and> i_status i = IdentifierReleased)
                (StaffUsersService_takeOver subjectId actorId)) (\<lambda>_. ret ())
          | None \<Rightarrow>
              try_catch
                (await (createDoc I (new_reservation normalizedIdentifier EmailIdentifier StaffSubject
                  subjectId actorId)) (\<lambda>_. ret ()))
                (\<lambda>error. throw (StaffUsersService_identifierError error))))"

definition staff_event :: "staff_user \<Rightarrow> audit_actor option \<Rightarrow> event_type \<Rightarrow> string \<Rightarrow> json \<Rightarrow> activity_input" where
  "staff_event user actor eventType reasonCategory context =
     (activity eventType OutcomeSuccess)
       \<lparr>si_actorType := Some (if actor \<noteq> None then StaffActor else SystemActor),
        si_actorId := actor_name actor, si_targetType := Some ''staff-user'', si_targetId := Some (u_id user),
        si_subjectType := Some ''staff'', si_subjectId := Some (u_id user),
        si_reasonCategory := Some reasonCategory, si_context := Some context\<rparr>"

definition roles_json :: "staff_role list \<Rightarrow> json" where
  "roles_json roles = JArr (map (\<lambda>r. JStr (role_name r)) roles)"

definition StaffUsersService_recordChanges ::
  "'e app \<Rightarrow> staff_user \<Rightarrow> audit_actor option \<Rightarrow> staff_role list \<Rightarrow> staff_user_status \<Rightarrow> bool \<Rightarrow> bool \<Rightarrow>
   ('e world, unit) io" where
  "StaffUsersService_recordChanges A user actor previousRoles previousStatus rolesChanged statusChanged =
     await (whenM rolesChanged (record_activity A
       (staff_event user actor RoleChanged ''staff-roles-updated''
         (JObj [(''previousRoles'', roles_json previousRoles), (''roles'', roles_json (u_roles user))])))) (\<lambda>_.
     whenM statusChanged (record_activity A
       (staff_event user actor AccountStatusChanged ''staff-status-updated''
         (JObj [(''previousStatus'', JStr (staff_status_name previousStatus)),
                (''status'', JStr (staff_status_name (u_status user)))]))))"

subsection \<open>The service\<close>

definition StaffUsersService_newUser ::
  "string \<Rightarrow> create_staff_user_dto \<Rightarrow> string \<Rightarrow> staff_role list \<Rightarrow> string \<Rightarrow> date \<Rightarrow> audit_actor option \<Rightarrow> staff_user" where
  "StaffUsersService_newUser subjectId dto email roles passwordHash now actor = staff_user_cast
     \<lparr>u_id = subjectId, u_email = email, u_displayName = cu_displayName dto, u_passwordHash = passwordHash,
      u_roles = roles, u_status = StaffActive, u_lastLoginAt = None, u_passwordUpdatedAt = Some now,
      u_authVersion = 0, u_createdBy = actor_name actor, u_updatedBy = actor_name actor\<rparr>"

text \<open>\<^verbatim>\<open>document.save()\<close> of a new document, and of one that was read.\<close>

definition save_new :: "'e app \<Rightarrow> staff_user \<Rightarrow> ('e world, staff_user) io" where
  "save_new A document = createDoc (staffUserModel A) (\<lambda>_. document)"

definition save_object :: "'e app \<Rightarrow> ('e world \<times> staff_user, unit) io" where
  "save_object A = await (asks snd) (\<lambda>user. await (on_world (saveDoc (staffUserModel A) user)) (\<lambda>_. ret ()))"

text \<open>
  \<^verbatim>\<open>reserveIdentifier\<close> followed by \<^verbatim>\<open>save\<close>, in a transaction if there is one; otherwise a failed save
  gives the identifier up again.
\<close>

definition StaffUsersService_persistCreateWithIdentifier ::
  "'e app \<Rightarrow> ('e world, bool) io \<Rightarrow>
   (('e world \<times> staff_user, unit) io \<Rightarrow> ('e world \<times> staff_user, unit) io) \<Rightarrow>
   staff_user \<Rightarrow> string \<Rightarrow> string \<Rightarrow> string \<Rightarrow> ('e world, staff_user) io" where
  "StaffUsersService_persistCreateWithIdentifier A S D document email subjectId actorId =
     (if identifierModel A = None then save_new A document
      else
      await (StaffUsersService_startSession S) (\<lambda>session.
      await (if session
             then try_catch
               (with_object document
                 (await (D (await (on_world (StaffUsersService_reserveIdentifier A email subjectId actorId)) (\<lambda>_.
                            await (on_world (save_new A document)) (\<lambda>created. mutate (\<lambda>_. created))))) (\<lambda>_.
                  await (asks snd) (\<lambda>created. ret (Some created)))))
               (\<lambda>error. if \<not> StaffUsersService_isTransactionUnavailable error
                  then throw (StaffUsersService_identifierError error) else ret None)
             else ret None) (\<lambda>created.
      case created of
        Some u \<Rightarrow> ret u
      | None \<Rightarrow>
          await (StaffUsersService_reserveIdentifier A email subjectId actorId) (\<lambda>_.
          try_catch (save_new A document)
            (\<lambda>error. await (releaseIdentifier A StaffSubject email subjectId actorId) (\<lambda>_. throw error))))))"

definition StaffUsersService_create ::
  "'e app \<Rightarrow> ('e world, bool) io \<Rightarrow>
   (('e world \<times> staff_user, unit) io \<Rightarrow> ('e world \<times> staff_user, unit) io) \<Rightarrow> ('e world, string) io \<Rightarrow>
   create_staff_user_dto \<Rightarrow> audit_actor option \<Rightarrow> ('e world, staff_user_response) io" where
  "StaffUsersService_create A S D objectId dto actor =
     (let email = StaffUsersService_normalizeEmail (cu_email dto) in
      await (StaffUsersService_validateRoles (cu_roles dto)) (\<lambda>roles.
      await (exists_doc (staffUserModel A) (\<lambda>u. u_email u = email)) (\<lambda>taken.
      if taken then throw (Conflict ''Staff user email already exists'')
      else
      await (bcryptHash A (cu_password dto)) (\<lambda>passwordHash.
      await objectId (\<lambda>subjectId.
      await (asks (clock A)) (\<lambda>now.
      await (StaffUsersService_persistCreateWithIdentifier A S D
        (StaffUsersService_newUser subjectId dto email roles passwordHash now actor)
        email subjectId (actor_or_system actor)) (\<lambda>created.
      ret (StaffUsersService_toResponse created))))))))"

text \<open>The function \<^verbatim>\<open>applyUpdates\<close> of \<^verbatim>\<open>update\<close>, with the setters of the paths.\<close>

definition StaffUsersService_applyUpdates ::
  "update_staff_user_dto \<Rightarrow> audit_actor option \<Rightarrow> string \<Rightarrow> staff_role list \<Rightarrow> bool \<Rightarrow> staff_user \<Rightarrow> staff_user" where
  "StaffUsersService_applyUpdates dto actor nextEmail nextRoles changed user = user\<lparr>
     u_email := nextEmail, u_roles := nextRoles,
     u_displayName := (case uu_displayName dto of None \<Rightarrow> u_displayName user | Some n \<Rightarrow> trim n),
     u_status := (case uu_status dto of None \<Rightarrow> u_status user | Some s \<Rightarrow> s),
     u_authVersion := u_authVersion user + (if changed then 1 else 0),
     u_updatedBy := actor_name actor\<rparr>"

definition StaffUsersService_persistIdentifierChange ::
  "'e app \<Rightarrow> ('e world, bool) io \<Rightarrow>
   (('e world \<times> staff_user, unit) io \<Rightarrow> ('e world \<times> staff_user, unit) io) \<Rightarrow>
   string \<Rightarrow> string \<Rightarrow> string \<Rightarrow> string \<Rightarrow> (staff_user \<Rightarrow> staff_user) \<Rightarrow> ('e world \<times> staff_user, unit) io" where
  "StaffUsersService_persistIdentifierChange A S D subjectId previousEmail nextEmail actorId applyUpdates =
     await (on_world (StaffUsersService_startSession S)) (\<lambda>session.
     await (if session
            then try_catch
              (await (D (await (on_world (StaffUsersService_reserveIdentifier A nextEmail subjectId actorId)) (\<lambda>_.
                         await (mutate applyUpdates) (\<lambda>_.
                         await (save_object A) (\<lambda>_.
                         on_world (releaseIdentifier A StaffSubject previousEmail subjectId actorId)))))) (\<lambda>_.
               ret True))
              (\<lambda>error. if \<not> StaffUsersService_isTransactionUnavailable error
                 then throw (StaffUsersService_identifierError error) else ret False)
            else ret False) (\<lambda>completed.
     if completed then ret ()
     else
     await (on_world (StaffUsersService_reserveIdentifier A nextEmail subjectId actorId)) (\<lambda>_.
     try_catch
       (await (mutate applyUpdates) (\<lambda>_.
        await (save_object A) (\<lambda>_.
        on_world (releaseIdentifier A StaffSubject previousEmail subjectId actorId))))
       (\<lambda>error. await (on_world (releaseIdentifier A StaffSubject nextEmail subjectId actorId)) (\<lambda>_.
          throw error)))))"

definition StaffUsersService_update ::
  "'e app \<Rightarrow> ('e world, bool) io \<Rightarrow>
   (('e world \<times> staff_user, unit) io \<Rightarrow> ('e world \<times> staff_user, unit) io) \<Rightarrow>
   string \<Rightarrow> update_staff_user_dto \<Rightarrow> audit_actor option \<Rightarrow> ('e world, staff_user_response) io" where
  "StaffUsersService_update A S D i dto actor =
     await (StaffUsersService_findDocumentById A i) (\<lambda>user.
     (let previousEmail = u_email user; previousRoles = u_roles user; previousStatus = u_status user;
          nextEmail = (case uu_email dto of None \<Rightarrow> previousEmail
            | Some e \<Rightarrow> StaffUsersService_normalizeEmail e) in
      await (case uu_roles dto of None \<Rightarrow> ret previousRoles
             | Some roles \<Rightarrow> StaffUsersService_validateRoles roles) (\<lambda>nextRoles.
      (let emailChanged = (nextEmail \<noteq> previousEmail);
           rolesChanged = (\<not> StaffUsersService_sameRoles previousRoles nextRoles);
           statusChanged = (uu_status dto \<noteq> None \<and> uu_status dto \<noteq> Some previousStatus);
           changed = (rolesChanged \<or> statusChanged \<or> emailChanged);
           applyUpdates = StaffUsersService_applyUpdates dto actor nextEmail nextRoles changed in
       with_object user
         (await (if emailChanged \<and> identifierModel A \<noteq> None
                 then StaffUsersService_persistIdentifierChange A S D (u_id user) previousEmail nextEmail
                   (actor_or_system actor) applyUpdates
                 else await (mutate applyUpdates) (\<lambda>_. save_object A)) (\<lambda>_.
          await (whenM changed
            (on_world (revokeSessions A StaffSubject (u_id user) ''staff-account-updated''))) (\<lambda>_.
          await (asks snd) (\<lambda>user.
          await (on_world (StaffUsersService_recordChanges A user actor previousRoles previousStatus
            rolesChanged statusChanged)) (\<lambda>_.
          ret (StaffUsersService_toResponse user))))))))))"

definition staff_user_filter :: "staff_user_query \<Rightarrow> staff_user \<Rightarrow> bool" where
  "staff_user_filter query u =
     ((uq_status query = None \<or> u_status u = the (uq_status query)) \<and>
      (uq_role query = None \<or> the (uq_role query) \<in> set (u_roles u)))"

definition StaffUsersService_findAll ::
  "'e app \<Rightarrow> staff_user_query \<Rightarrow> ('e world, staff_user_response list) io" where
  "StaffUsersService_findAll A query =
     await (findSorted (staffUserModel A) (staff_user_filter query) (\<lambda>a b. text_le (u_email a) (u_email b))
        ((q_page query - 1) * q_limit query) (q_limit query)) (\<lambda>users.
     ret (map StaffUsersService_toResponse users))"

definition StaffUsersService_findByEmailWithPassword ::
  "'e app \<Rightarrow> string \<Rightarrow> ('e world, staff_user option) io" where
  "StaffUsersService_findByEmailWithPassword A email =
     findOne (staffUserModel A) (\<lambda>u. u_email u = StaffUsersService_normalizeEmail email)"

definition StaffUsersService_findActiveById :: "'e app \<Rightarrow> string \<Rightarrow> ('e world, staff_user) io" where
  "StaffUsersService_findActiveById A i =
     await (StaffUsersService_findDocumentById A i) (\<lambda>user.
     if u_status user \<noteq> StaffActive then throw (NotFound ''Active staff user not found'') else ret user)"

definition StaffUsersService_touchLastLogin :: "'e app \<Rightarrow> string \<Rightarrow> ('e world, unit) io" where
  "StaffUsersService_touchLastLogin A i =
     await (toMongoObjectId i ''id'') (\<lambda>oid.
     await (asks (clock A)) (\<lambda>now.
     await (updateOne (staffUserModel A) (\<lambda>u. u_id u = oid) (\<lambda>u. u\<lparr>u_lastLoginAt := Some now\<rparr>)) (\<lambda>_.
     ret ())))"

definition StaffUsersService_bumpAuthVersion :: "'e app \<Rightarrow> string \<Rightarrow> ('e world, unit) io" where
  "StaffUsersService_bumpAuthVersion A i =
     await (toMongoObjectId i ''id'') (\<lambda>oid.
     await (updateOne (staffUserModel A) (\<lambda>u. u_id u = oid)
       (\<lambda>u. u\<lparr>u_authVersion := u_authVersion u + 1\<rparr>)) (\<lambda>_. ret ()))"

subsection \<open>Facts about roles\<close>

lemma role_named_iff: "role_named s = Some r \<longleftrightarrow> role_name r = s"
  by (cases r) (auto simp: role_named_def approvedRoles_def)

lemma role_name_inject [simp]: "role_name r = role_name s \<longleftrightarrow> r = s"
  by (cases r; cases s) simp_all

lemma role_named_name [simp]: "role_named (role_name r) = Some r"
  by (simp add: role_named_iff)

lemma those_role_named: "those (map role_named names) = Some roles \<longleftrightarrow> map role_name roles = names"
proof (induction names arbitrary: roles)
  case (Cons n names)
  show ?case
    by (cases roles) (auto simp: Cons role_named_iff map_eq_Cons_conv split: option.splits)
qed auto

definition roles_ok :: "staff_user \<Rightarrow> bool" where
  "roles_ok u = (u_roles u \<noteq> [] \<and> distinct (u_roles u))"

lemma wp_validateRoles [wp_rules]:
  assumes "\<And>rs. rs \<noteq> [] \<Longrightarrow> distinct rs \<Longrightarrow> role_name ` set rs = set roles \<Longrightarrow> Q rs w"
    and "E (Unprocessable ''Only approved staff roles are allowed'') w"
  shows "wp (StaffUsersService_validateRoles roles) Q E w"
proof (cases "those (map role_named (unique_list roles))")
  case None
  then show ?thesis using assms(2) by (simp add: StaffUsersService_validateRoles_def Let_def)
next
  case (Some rs)
  then have names: "map role_name rs = unique_list roles" by (simp add: those_role_named)
  have "distinct (map role_name rs)" by (simp add: names)
  then have "distinct rs" by (simp add: distinct_map)
  moreover have "role_name ` set rs = set roles" using names by (metis set_map set_unique_list)
  ultimately show ?thesis using Some assms
    by (cases rs) (simp_all add: StaffUsersService_validateRoles_def Let_def)
qed

lemma join_roles_Cons:
  "join ''|'' (map role_name (r # rs)) =
     role_name r @ (if rs = [] then [] else CHR ''|'' # join ''|'' (map role_name rs))"
  by (cases rs) simp_all

lemma join_roles_inject: "join ''|'' (map role_name rs) = join ''|'' (map role_name ss) \<Longrightarrow> rs = ss"
proof (induction rs arbitrary: ss)
  case Nil
  then show ?case by (cases ss) (auto simp: join_roles_Cons simp del: list.map join.simps(3), (cases "hd ss"; simp)+)
next
  case (Cons r rs)
  then obtain s ss' where ss: "ss = s # ss'"
    by (cases ss; cases r) (auto simp: join_roles_Cons simp del: list.map(2) join.simps(3))
  from Cons show ?case
    by (cases r; cases s) (auto simp: ss join_roles_Cons simp del: list.map(2) join.simps(3) split: if_splits)
qed

text \<open>Comparing sorted names is comparing the roles regardless of their order.\<close>

lemma sameRoles_iff: "StaffUsersService_sameRoles rs ss \<longleftrightarrow> mset rs = mset ss"
proof
  assume "StaffUsersService_sameRoles rs ss"
  then have "sort rs = sort ss" unfolding StaffUsersService_sameRoles_def by (rule join_roles_inject)
  then show "mset rs = mset ss" by (metis mset_sort)
next
  assume "mset rs = mset ss"
  then have "sort rs = sort ss" by (metis mset_sort properties_for_sort sorted_sort)
  then show "StaffUsersService_sameRoles rs ss" by (simp add: StaffUsersService_sameRoles_def)
qed

subsection \<open>What the service keeps\<close>

definition staff_ok :: "'e world \<Rightarrow> bool" where
  "staff_ok w \<longleftrightarrow> distinct (map u_id (staffUsers w)) \<and> distinct (map u_email (staffUsers w)) \<and>
     (\<forall>u \<in> set (staffUsers w). roles_ok u)"

lemma staff_ok_updates [simp]:
  "staff_ok (w\<lparr>env := z\<rparr>) = staff_ok w" "staff_ok (w\<lparr>events := es\<rparr>) = staff_ok w"
  "staff_ok (w\<lparr>identifiers := is\<rparr>) = staff_ok w" "staff_ok (w\<lparr>families := fs\<rparr>) = staff_ok w"
  by (simp_all add: staff_ok_def)

lemma staff_ok_added:
  "staff_ok w \<Longrightarrow> one_added staff_user_clash staff_user_valid u_id u (staffUsers w) \<Longrightarrow> roles_ok u \<Longrightarrow>
   staff_ok (w\<lparr>staffUsers := staffUsers w @ [u]\<rparr>)"
  by (auto simp: staff_ok_def one_added_def staff_user_clash_def)

lemma staff_ok_updated:
  assumes "staff_ok w" and "one_updated staff_user_clash p f (staffUsers w) us d"
    and "u_id (f d) = u_id d" and "roles_ok d \<Longrightarrow> roles_ok (f d)"
  shows "staff_ok (w\<lparr>staffUsers := us\<rparr>)"
proof -
  from assms(2) obtain as bs where "staffUsers w = as @ d # bs" "us = as @ f d # bs"
    "\<forall>x \<in> set as \<union> set bs. u_email (f d) \<noteq> u_email x"
    unfolding one_updated_def staff_user_clash_def by blast
  then show ?thesis using assms(1,3,4) by (auto simp: staff_ok_def image_iff)
qed

lemma staff_ok_saved:
  assumes "staff_ok w" and "one_updated staff_user_clash (\<lambda>x. u_id x = u_id u) (\<lambda>_. u) (staffUsers w) us d"
    and "roles_ok u"
  shows "staff_ok (w\<lparr>staffUsers := us\<rparr>)"
proof -
  have "u_id u = u_id d" using assms(2) by (auto simp: one_updated_def)
  then show ?thesis using staff_ok_updated [OF assms(1,2)] assms(3) by simp
qed

lemma funpow_u_id:
  fixes f :: "staff_user \<Rightarrow> staff_user"
  shows "(\<And>u. u_id (f u) = u_id u) \<Longrightarrow> u_id ((f ^^ k) u) = u_id u"
  by (induction k) simp_all

lemma newUser_fields [simp]:
  "u_id (StaffUsersService_newUser i dto email roles h now actor) = i"
  "u_email (StaffUsersService_newUser i dto email roles h now actor) = to_lower email"
  "u_roles (StaffUsersService_newUser i dto email roles h now actor) = roles"
  "u_status (StaffUsersService_newUser i dto email roles h now actor) = StaffActive"
  "u_passwordHash (StaffUsersService_newUser i dto email roles h now actor) = h"
  by (simp_all add: StaffUsersService_newUser_def staff_user_cast_def)

lemma applyUpdates_fields [simp]:
  "u_id (StaffUsersService_applyUpdates dto actor e rs c u) = u_id u"
  "u_email (StaffUsersService_applyUpdates dto actor e rs c u) = e"
  "u_roles (StaffUsersService_applyUpdates dto actor e rs c u) = rs"
  "u_status (StaffUsersService_applyUpdates dto actor e rs c u) =
     (case uu_status dto of None \<Rightarrow> u_status u | Some s \<Rightarrow> s)"
  "u_authVersion (StaffUsersService_applyUpdates dto actor e rs c u) = u_authVersion u + (if c then 1 else 0)"
  by (simp_all add: StaffUsersService_applyUpdates_def)

text \<open>Assigned more than once, the fields are the same and the version has grown by each assignment.\<close>

lemma applyUpdates_again:
  "(StaffUsersService_applyUpdates dto actor e rs True ^^ Suc k) u =
     (StaffUsersService_applyUpdates dto actor e rs True u)\<lparr>u_authVersion := u_authVersion u + Suc k\<rparr>"
proof (induction k)
  case 0
  show ?case by simp
next
  case (Suc k)
  have "(StaffUsersService_applyUpdates dto actor e rs True ^^ Suc (Suc k)) u =
      StaffUsersService_applyUpdates dto actor e rs True ((StaffUsersService_applyUpdates dto actor e rs True ^^ Suc k) u)"
    by simp
  also have "\<dots> = (StaffUsersService_applyUpdates dto actor e rs True u)\<lparr>u_authVersion := u_authVersion u + Suc (Suc k)\<rparr>"
    unfolding Suc by (simp add: StaffUsersService_applyUpdates_def split: option.split)
  finally show ?case .
qed

lemma staff_takeOver_fields [simp]:
  "i_normalizedIdentifier (StaffUsersService_takeOver sid actorId i) = i_normalizedIdentifier i"
  "i_id (StaffUsersService_takeOver sid actorId i) = i_id i"
  "held_by StaffSubject sid (StaffUsersService_takeOver sid actorId i)"
  by (simp_all add: StaffUsersService_takeOver_def held_by_def)

text \<open>
  An identifier was exchanged for another one: the subject holds \<open>new\<close>, no longer \<open>old\<close>, and nothing
  else changed hands.
\<close>

definition identifier_moved ::
  "subject_type \<Rightarrow> string \<Rightarrow> string \<Rightarrow> string \<Rightarrow> reservation list \<Rightarrow> reservation list \<Rightarrow> bool" where
  "identifier_moved subject subjectId old new is is' \<longleftrightarrow>
     identifiers_unique is' \<and> holds subject subjectId new is' \<and> \<not> holds subject subjectId old is' \<and>
     (\<forall>k s x. k \<noteq> new \<and> k \<noteq> old \<longrightarrow> holds s x k is' = holds s x k is)"

lemma identifier_movedI:
  assumes "is1 = is \<or> identifier_moved subject subjectId old new is is1"
    and "identifier_reserved subject subjectId new is1 is2" and "identifier_released subject subjectId old is2 is3"
    and "new \<noteq> old"
  shows "identifier_moved subject subjectId old new is is3"
  using assms identifier_released_unique [OF assms(3)] identifier_released_not_held [OF assms(3)]
    identifier_released_other [OF assms(3)]
  by (auto simp: identifier_moved_def identifier_reserved_def)

text \<open>What a change of the staff user's document and identifier leaves.\<close>

definition staff_frame :: "'e world \<Rightarrow> 'e world \<Rightarrow> bool" where
  "staff_frame w w' \<longleftrightarrow> books w' = books w \<and> categories w' = categories w \<and>
     membershipTypes w' = membershipTypes w \<and> members w' = members w \<and> borrowings w' = borrowings w"

lemma staff_frame_updates [simp]:
  "staff_frame w w" "staff_frame w (w'\<lparr>env := z\<rparr>) = staff_frame w w'"
  "staff_frame (w\<lparr>env := z\<rparr>) w' = staff_frame w w'"
  "staff_frame w (w'\<lparr>events := es\<rparr>) = staff_frame w w'"
  "staff_frame w (w'\<lparr>identifiers := is\<rparr>) = staff_frame w w'"
  "staff_frame w (w'\<lparr>families := fs\<rparr>) = staff_frame w w'"
  "staff_frame w (w'\<lparr>staffUsers := us\<rparr>) = staff_frame w w'"
  by (simp_all add: staff_frame_def)

definition staff_stored :: "string \<Rightarrow> string \<Rightarrow> staff_user \<Rightarrow> 'e world \<Rightarrow> 'e world \<Rightarrow> bool" where
  "staff_stored old new u w w' \<longleftrightarrow> staff_frame w w' \<and> replaced u_id u (staffUsers w) (staffUsers w') \<and>
     (identifiers_unique (identifiers w) \<longrightarrow>
        identifier_moved StaffSubject (u_id u) old new (identifiers w) (identifiers w'))"

lemma staff_stored_env [simp]:
  "staff_stored old new u (w\<lparr>env := z\<rparr>) w' = staff_stored old new u w w'"
  "staff_stored old new u w (w'\<lparr>env := z\<rparr>) = staff_stored old new u w w'"
  by (simp_all add: staff_stored_def staff_frame_def)

text \<open>Where the steps one by one start: nothing was done, or a transaction that reported a fault did it all.\<close>

definition staff_before :: "string \<Rightarrow> string \<Rightarrow> string \<Rightarrow> 'e world \<Rightarrow> 'e world \<Rightarrow> bool" where
  "staff_before sid old new w w1 \<longleftrightarrow> staff_frame w w1 \<and>
     (staffUsers w1 = staffUsers w \<or> (\<exists>u. u_id u = sid \<and> replaced u_id u (staffUsers w) (staffUsers w1))) \<and>
     (identifiers w1 = identifiers w \<or> (identifiers_unique (identifiers w) \<longrightarrow>
        identifier_moved StaffSubject sid old new (identifiers w) (identifiers w1)))"

text \<open>What a creation and an update that return have done.\<close>

definition staff_created ::
  "create_staff_user_dto \<Rightarrow> 'e world \<Rightarrow> staff_user_response \<Rightarrow> 'e world \<Rightarrow> bool" where
  "staff_created dto w r w' \<longleftrightarrow>
     (\<exists>u. r = StaffUsersService_toResponse u \<and> staff_frame w w' \<and> staffUsers w' = staffUsers w @ [u] \<and>
        u_id u \<notin> u_id ` set (staffUsers w) \<and> u_email u \<notin> u_email ` set (staffUsers w) \<and>
        u_email u = to_lower (trim (cu_email dto)) \<and> roles_ok u \<and>
        role_name ` set (u_roles u) = set (cu_roles dto) \<and> u_status u = StaffActive \<and>
        (identifiers_unique (identifiers w) \<longrightarrow>
           identifier_reserved StaffSubject (u_id u) (u_email u) (identifiers w) (identifiers w')))"

definition staff_updated ::
  "string \<Rightarrow> update_staff_user_dto \<Rightarrow> 'e world \<Rightarrow> staff_user_response \<Rightarrow> 'e world \<Rightarrow> bool" where
  "staff_updated i dto w r w' \<longleftrightarrow>
     (\<exists>u u'. u \<in> set (staffUsers w) \<and> u_id u = to_lower i \<and> r = StaffUsersService_toResponse u' \<and>
        u_id u' = u_id u \<and> staff_frame w w' \<and> replaced u_id u' (staffUsers w) (staffUsers w') \<and>
        u_email u' = (case uu_email dto of None \<Rightarrow> u_email u | Some e \<Rightarrow> to_lower (trim e)) \<and>
        u_status u' = (case uu_status dto of None \<Rightarrow> u_status u | Some s \<Rightarrow> s) \<and>
        (case uu_roles dto of None \<Rightarrow> u_roles u' = u_roles u
         | Some rs \<Rightarrow> roles_ok u' \<and> role_name ` set (u_roles u') = set rs) \<and>
        (if u_email u' \<noteq> u_email u \<or> u_status u' \<noteq> u_status u \<or> mset (u_roles u') \<noteq> mset (u_roles u)
         then u_authVersion u < u_authVersion u' \<and> signed_out StaffSubject (u_id u) (families w')
         else u_authVersion u' = u_authVersion u) \<and>
        (u_email u' \<noteq> u_email u \<and> identifiers_unique (identifiers w) \<longrightarrow>
           identifier_moved StaffSubject (u_id u) (u_email u) (u_email u') (identifiers w) (identifiers w')))"

lemma staff_before_start [simp]:
  "staff_before sid old new w (w\<lparr>env := z\<rparr>)" "staff_before sid old new w w"
  by (simp_all add: staff_before_def)

lemma staff_before_stored: "staff_stored old new u w w1 \<Longrightarrow> staff_before (u_id u) old new w w1"
  by (auto simp: staff_before_def staff_stored_def)

lemma staff_before_env [simp]:
  "staff_before sid old new (w\<lparr>env := z\<rparr>) w1 = staff_before sid old new w w1"
  "staff_before sid old new w (w1\<lparr>env := z\<rparr>) = staff_before sid old new w w1"
  by (simp_all add: staff_before_def staff_frame_def)

text \<open>Reading staff users needs their collection only.\<close>

locale staff_documents =
  su: collection "staffUserModel A" staffUsers staffUsers_update staff_user_clash staff_user_valid u_id
  for A :: "'e app"
begin

lemma wp_findDocumentById [wp_rules]:
  assumes "\<And>u z. u \<in> set (staffUsers w) \<Longrightarrow> u_id u = to_lower i \<Longrightarrow> Q u (w\<lparr>env := z\<rparr>)"
    and "\<And>e z. E e (w\<lparr>env := z\<rparr>)"
  shows "wp (StaffUsersService_findDocumentById A i) Q E w"
  unfolding StaffUsersService_findDocumentById_def
  by (auto intro!: su.wp_findOne assms intro: assms(2) [where z = "env w", simplified])

lemma wp_findActiveById [wp_rules]:
  assumes "\<And>u z. u \<in> set (staffUsers w) \<Longrightarrow> u_id u = to_lower i \<Longrightarrow> u_status u = StaffActive \<Longrightarrow>
      Q u (w\<lparr>env := z\<rparr>)"
    and "\<And>e z. E e (w\<lparr>env := z\<rparr>)"
  shows "wp (StaffUsersService_findActiveById A i) Q E w"
  unfolding StaffUsersService_findActiveById_def by (auto intro!: wp_findDocumentById assms)

end

locale staff_store = account_store A I F V + staff_documents A +
  tx: document_transaction D
  for A :: "'e app" and I F V
    and D :: "('e world \<times> staff_user, unit) io \<Rightarrow> ('e world \<times> staff_user, unit) io"
    and S :: "('e world, bool) io" and objectId :: "('e world, string) io" +
  assumes bcrypt_env: "env_only (bcryptHash A password)"
    and session_env: "env_step w (snd (S w))"
    and object_id_env: "env_only objectId"
begin

lemma wp_startSession:
  assumes "\<And>b z. Q b (w\<lparr>env := z\<rparr>)"
  shows "wp (StaffUsersService_startSession S) Q E w"
proof -
  obtain z where "snd (S w) = w\<lparr>env := z\<rparr>" using session_env by (auto simp: env_step_def)
  with assms show ?thesis
    by (auto simp: StaffUsersService_startSession_def try_catch_def wp_def ret_def split: prod.splits sum.splits)
qed

lemma wp_reserveIdentifier:
  assumes "\<And>ids z. (identifiers_unique (identifiers w) \<Longrightarrow>
        identifier_reserved StaffSubject sid n (identifiers w) ids) \<Longrightarrow>
      Q () (w\<lparr>identifiers := ids, env := z\<rparr>)"
    and "\<And>e ids z. E e (w\<lparr>identifiers := ids, env := z\<rparr>)"
  shows "wp (StaffUsersService_reserveIdentifier A n sid actorId) Q E w"
proof -
  have old: "E e w" "E e (w\<lparr>env := z\<rparr>)" for e z
    using assms(2) [where e = e and ids = "identifiers w" and z = "env w"]
      assms(2) [where e = e and ids = "identifiers w" and z = z] by simp_all
  have same: "Q () (w\<lparr>env := z\<rparr>)"
    if "identifiers_unique (identifiers w) \<Longrightarrow>
      identifier_reserved StaffSubject sid n (identifiers w) (identifiers w)" for z
    using assms(1) [where ids = "identifiers w" and z = z] that by simp
  have kept: "identifiers_unique is \<Longrightarrow> d \<in> set is \<Longrightarrow> held_by StaffSubject sid d \<Longrightarrow>
      identifier_reserved StaffSubject sid (i_normalizedIdentifier d) is is" for d "is"
    by (rule identifier_reserved_kept) simp_all
  have new: "identifiers_unique is \<Longrightarrow> one_added reservation_clash reservation_valid i_id
      (new_reservation n ty StaffSubject sid actorId i) is \<Longrightarrow>
      identifier_reserved StaffSubject sid n is (is @ [new_reservation n ty StaffSubject sid actorId i])"
    for i ty "is"
    by (rule identifier_reserved_new) simp_all
  have taken: "identifiers_unique is \<Longrightarrow> d \<in> set is \<Longrightarrow> one_updated reservation_clash
      (\<lambda>i. i_id i = i_id d \<and> i_status i = IdentifierReleased) (StaffUsersService_takeOver sid actorId) is ds x \<Longrightarrow>
      identifier_reserved StaffSubject sid (i_normalizedIdentifier d) is ds" for d x ds "is"
    by (rule identifier_reserved_update [where g = "StaffUsersService_takeOver sid actorId"]) simp_all
  show ?thesis
    unfolding StaffUsersService_reserveIdentifier_def identifier_dep option.case
    by (auto intro!: idn.wp_findOne idn.wp_updateOne idn.wp_createDoc assms(1) assms(2) same simp: old;
        (erule (2) taken | erule (1) new | erule (2) kept))
qed

lemma wp_recordChanges:
  assumes "\<And>es z. Q () (w\<lparr>events := es, env := z\<rparr>)" and "\<And>e es z. E e (w\<lparr>events := es, env := z\<rparr>)"
  shows "wp (StaffUsersService_recordChanges A u actor pr ps rc sc) Q E w"
proof -
  have "Q () w" "Q () (w\<lparr>events := es\<rparr>)" for es
    using assms(1) [where es = "events w" and z = "env w"] assms(1) [where es = es and z = "env w"] by simp_all
  with assms show ?thesis
    unfolding StaffUsersService_recordChanges_def by (auto intro!: wp_record_activity)
qed

lemma wp_save_object:
  assumes "\<And>us z. replaced u_id u (staffUsers w) us \<Longrightarrow> Q () (w\<lparr>staffUsers := us, env := z\<rparr>, u)"
    and "\<And>e us z. us = staffUsers w \<or> replaced u_id u (staffUsers w) us \<Longrightarrow> E e (w\<lparr>staffUsers := us, env := z\<rparr>, u)"
  shows "wp (save_object A) Q E (w, u)"
proof -
  have old: "E e (w\<lparr>env := z\<rparr>, u)" for e z using assms(2) [of "staffUsers w" e z] by simp
  have saved: "replaced u_id u (staffUsers w) us"
    if "one_updated staff_user_clash (\<lambda>x. u_id x = u_id u) (\<lambda>_. u) (staffUsers w) us x" for us x
    by (rule one_updated_replaced [OF that]) simp
  show ?thesis
    unfolding save_object_def wp_await wp_asks wp_on_world snd_conv
    by (rule su.wp_saveDoc) (auto intro!: assms old dest: saved)
qed

text \<open>The exchange of the identifier: in a transaction, or step by step.\<close>

lemma wp_move_rest:
  assumes before: "staff_before sid old new w w1" and ids: "distinct (map u_id (staffUsers w))"
    and f: "u_id (f u) = sid" and ne: "new \<noteq> old"
    and reserved: "identifiers_unique (identifiers w1) \<Longrightarrow>
      identifier_reserved StaffSubject sid new (identifiers w1) (identifiers w2)"
    and w2: "staff_frame w1 w2" "staffUsers w2 = staffUsers w1"
    and ok: "\<And>w'. staff_stored old new (f u) w w' \<Longrightarrow> Q () (w', f u)"
    and bad: "\<And>e w'. E e (w', f u)"
  shows "wp (await (mutate f) (\<lambda>_. await (save_object A) (\<lambda>_.
    on_world (releaseIdentifier A StaffSubject old sid actorId)))) Q E (w2, u)"
proof -
  have "Q () (w2\<lparr>staffUsers := us, env := y, identifiers := is, env := z\<rparr>, f u)"
    if us: "replaced u_id (f u) (staffUsers w2) us"
      and rel: "identifier_released StaffSubject sid old (identifiers w2) is" for us y z "is"
  proof (rule ok, unfold staff_stored_def, intro conjI impI)
    show "staff_frame w (w2\<lparr>staffUsers := us, env := y, identifiers := is, env := z\<rparr>)"
      using before w2(1) by (simp add: staff_before_def staff_frame_def)
    from before consider "staffUsers w1 = staffUsers w"
      | u' where "u_id u' = sid" "replaced u_id u' (staffUsers w) (staffUsers w1)"
      unfolding staff_before_def by blast
    then show "replaced u_id (f u) (staffUsers w)
        (staffUsers (w2\<lparr>staffUsers := us, env := y, identifiers := is, env := z\<rparr>))"
      by cases (use us w2(2) replaced_again [OF ids] f in auto)
    assume uni: "identifiers_unique (identifiers w)"
    with before have "identifiers w1 = identifiers w \<or> identifier_moved StaffSubject sid old new
        (identifiers w) (identifiers w1)" by (simp add: staff_before_def)
    moreover from this uni have "identifiers_unique (identifiers w1)" by (auto simp: identifier_moved_def)
    ultimately show "identifier_moved StaffSubject (u_id (f u)) old new (identifiers w)
        (identifiers (w2\<lparr>staffUsers := us, env := y, identifiers := is, env := z\<rparr>))"
      using identifier_movedI [OF _ reserved rel ne] f by simp
  qed
  then show ?thesis
    by (auto intro!: wp_save_object wp_releaseIdentifier bad)
qed

lemma wp_move:
  assumes before: "staff_before (u_id user) old new w w1" and ids: "distinct (map u_id (staffUsers w))"
    and f: "\<And>u. u_id (f u) = u_id u" and ne: "new \<noteq> old"
    and ok: "\<And>w'. staff_stored old new ((f ^^ Suc k) user) w w' \<Longrightarrow> Q () (w', (f ^^ Suc k) user)"
    and bad: "\<And>e w' k. E e (w', (f ^^ k) user)"
  shows "wp (await (on_world (StaffUsersService_reserveIdentifier A new (u_id user) actorId)) (\<lambda>_.
      await (mutate f) (\<lambda>_. await (save_object A) (\<lambda>_.
      on_world (releaseIdentifier A StaffSubject old (u_id user) actorId))))) Q E (w1, (f ^^ k) user)"
  unfolding wp_await [of "on_world _"] wp_on_world
proof (rule wp_reserveIdentifier, goal_cases)
  case (1 ids z)
  show ?case
    by (rule wp_move_rest [OF before ids _ ne]) (use f 1 ok bad [where k = "Suc k"] in \<open>auto simp: funpow_u_id\<close>)
qed (rule bad)

lemma wp_fallback:
  assumes before: "staff_before (u_id user) old new w w1" and ids: "distinct (map u_id (staffUsers w))"
    and f: "\<And>u. u_id (f u) = u_id u" and ne: "new \<noteq> old"
    and ok: "\<And>w'. staff_stored old new ((f ^^ Suc k) user) w w' \<Longrightarrow> Q () (w', (f ^^ Suc k) user)"
    and bad: "\<And>e w' k. E e (w', (f ^^ k) user)"
  shows "wp (await (on_world (StaffUsersService_reserveIdentifier A new (u_id user) actorId)) (\<lambda>_.
      try_catch (await (mutate f) (\<lambda>_. await (save_object A) (\<lambda>_.
          on_world (releaseIdentifier A StaffSubject old (u_id user) actorId))))
        (\<lambda>error. await (on_world (releaseIdentifier A StaffSubject new (u_id user) actorId)) (\<lambda>_. throw error))))
    Q E (w1, (f ^^ k) user)"
  unfolding wp_await [of "on_world _"] wp_on_world
proof (rule wp_reserveIdentifier, goal_cases)
  case (1 ids z)
  show ?case unfolding wp_try_catch
    by (rule wp_move_rest [OF before ids _ ne])
      (use f 1 ok bad [where k = "Suc k"] in \<open>auto simp: funpow_u_id intro!: wp_releaseIdentifier\<close>)
qed (rule bad)

lemma wp_persistIdentifierChange:
  assumes ids: "distinct (map u_id (staffUsers w))" and f: "\<And>u. u_id (f u) = u_id u" and ne: "new \<noteq> old"
    and ok: "\<And>k w'. staff_stored old new ((f ^^ Suc k) user) w w' \<Longrightarrow> Q () (w', (f ^^ Suc k) user)"
    and bad: "\<And>e w' k. E e (w', (f ^^ k) user)"
  shows "wp (StaffUsersService_persistIdentifierChange A S D (u_id user) old new actorId f) Q E (w, user)"
proof -
  define rest where "rest completed = (if completed then ret ()
     else await (on_world (StaffUsersService_reserveIdentifier A new (u_id user) actorId)) (\<lambda>_.
      try_catch (await (mutate f) (\<lambda>_. await (save_object A) (\<lambda>_.
          on_world (releaseIdentifier A StaffSubject old (u_id user) actorId))))
        (\<lambda>error. await (on_world (releaseIdentifier A StaffSubject new (u_id user) actorId)) (\<lambda>_. throw error))))"
    for completed
  define caught where "caught error = (if \<not> StaffUsersService_isTransactionUnavailable error
    then throw (StaffUsersService_identifierError error) else ret False :: ('e world \<times> staff_user, bool) io)" for error
  have completed: "wp (rest True) Q E s = Q () s" for s by (simp add: rest_def)
  have undone: "wp (rest False) Q E (w1, (f ^^ k) user)" if "staff_before (u_id user) old new w w1" for w1 k
    unfolding rest_def if_False by (rule wp_fallback [OF that ids f ne], erule ok, rule bad)
  have catch: "wp (caught e) (\<lambda>completed. wp (rest completed) Q E) E (w1, (f ^^ k) user)"
    if "staff_before (u_id user) old new w w1" for e w1 k
    using undone [OF that, of k] bad [where k = k] by (simp add: caught_def)
  have tried: "wp (try_catch (await (D (await (on_world (StaffUsersService_reserveIdentifier A new (u_id user) actorId)) (\<lambda>_.
      await (mutate f) (\<lambda>_. await (save_object A) (\<lambda>_.
      on_world (releaseIdentifier A StaffSubject old (u_id user) actorId)))))) (\<lambda>_. ret True)) caught)
      (\<lambda>completed. wp (rest completed) Q E) E (w\<lparr>env := z\<rparr>, user)" for z
    unfolding wp_try_catch wp_await [of "D _"] wp_ret
  proof (rule tx.wp_document_transaction [where J = "\<lambda>d. \<exists>k. d = (f ^^ k) user"], goal_cases)
    case 1
    show ?case by (rule exI [of _ 0]) simp
  next
    case (2 y d)
    then obtain k where d: "d = (f ^^ k) user" by blast
    show ?case unfolding d
    proof (rule wp_move [where w = w, OF _ ids f ne], goal_cases)
      case (2 w')
      then have "staff_before (u_id user) old new w w'"
        using staff_before_stored funpow_u_id [of f "Suc k" user, OF f] by metis
      with 2 show ?case using ok catch by (auto simp: completed simp del: funpow.simps intro: exI [of _ "Suc k"])
    next
      case (3 e w' k)
      show ?case using catch by auto
    qed simp
  next
    case (3 e y d)
    then show ?case using catch by auto
  qed
  show ?thesis
    unfolding StaffUsersService_persistIdentifierChange_def rest_def [symmetric] caught_def [symmetric]
      wp_await [of "on_world _"] wp_on_world
  proof (rule wp_startSession)
    fix session z
    show "wp (await (if session then try_catch (await (D (await (on_world
        (StaffUsersService_reserveIdentifier A new (u_id user) actorId)) (\<lambda>_.
        await (mutate f) (\<lambda>_. await (save_object A) (\<lambda>_.
        on_world (releaseIdentifier A StaffSubject old (u_id user) actorId)))))) (\<lambda>_. ret True)) caught
        else ret False) rest) Q E (w\<lparr>env := z\<rparr>, user)"
      unfolding wp_await using tried [of z] undone [of "w\<lparr>env := z\<rparr>" 0]
      by (cases session) (simp_all del: wp_try_catch wp_await)
  qed
qed

lemma wp_create_fallback:
  assumes before: "staffUsers w1 = staffUsers w \<and> identifiers w1 = identifiers w \<and> staff_frame w w1 \<or>
      u_id u \<in> u_id ` set (staffUsers w1)"
    and ok: "\<And>w'. staff_frame w w' \<Longrightarrow> staffUsers w' = staffUsers w @ [u] \<Longrightarrow>
      one_added staff_user_clash staff_user_valid u_id u (staffUsers w) \<Longrightarrow>
      (identifiers_unique (identifiers w) \<Longrightarrow>
        identifier_reserved StaffSubject sid email (identifiers w) (identifiers w')) \<Longrightarrow> Q u w'"
    and bad: "\<And>e w'. E e w'"
  shows "wp (await (StaffUsersService_reserveIdentifier A email sid actorId) (\<lambda>_.
      try_catch (save_new A u)
        (\<lambda>error. await (releaseIdentifier A StaffSubject email sid actorId) (\<lambda>_. throw error)))) Q E w1"
proof -
  have saved: "Q u (w1\<lparr>identifiers := ids, staffUsers := staffUsers w1 @ [u], env := z\<rparr>)"
    if res: "identifiers_unique (identifiers w1) \<Longrightarrow>
        identifier_reserved StaffSubject sid email (identifiers w1) ids"
      and add: "one_added staff_user_clash staff_user_valid u_id u (staffUsers w1)" for ids z
    using before add res by (intro ok) (auto simp: one_added_def staff_frame_def)
  show ?thesis
    unfolding wp_await save_new_def
    by (rule wp_reserveIdentifier)
      (auto intro!: su.wp_createDoc wp_releaseIdentifier bad saved)
qed

lemma wp_persistCreate:
  assumes ok: "\<And>w'. staff_frame w w' \<Longrightarrow> staffUsers w' = staffUsers w @ [u] \<Longrightarrow>
      one_added staff_user_clash staff_user_valid u_id u (staffUsers w) \<Longrightarrow>
      (identifiers_unique (identifiers w) \<Longrightarrow>
        identifier_reserved StaffSubject sid email (identifiers w) (identifiers w')) \<Longrightarrow> Q u w'"
    and bad: "\<And>e w'. E e w'"
  shows "wp (StaffUsersService_persistCreateWithIdentifier A S D u email sid actorId) Q E w"
proof -
  define rest where "rest created = (case created of Some u \<Rightarrow> ret u
      | None \<Rightarrow> await (StaffUsersService_reserveIdentifier A email sid actorId) (\<lambda>_.
          try_catch (save_new A u)
            (\<lambda>error. await (releaseIdentifier A StaffSubject email sid actorId) (\<lambda>_. throw error))))" for created
  have created: "wp (rest (Some u)) Q E w' = Q u w'" for w' by (simp add: rest_def)
  have again: "wp (rest None) Q E w1"
    if "staffUsers w1 = staffUsers w \<and> identifiers w1 = identifiers w \<and> staff_frame w w1 \<or>
      u_id u \<in> u_id ` set (staffUsers w1)" for w1
    unfolding rest_def option.case by (rule wp_create_fallback [OF that]) (blast intro: ok, rule bad)
  have undone: "wp (rest None) Q E (w\<lparr>env := z\<rparr>)" for z by (rule again) simp
  have body: "wp (await (on_world (StaffUsersService_reserveIdentifier A email sid actorId)) (\<lambda>_.
      await (on_world (save_new A u)) (\<lambda>created. mutate (\<lambda>_. created))))
      (\<lambda>_ s. snd s = u \<and> staff_frame w (fst s) \<and> staffUsers (fst s) = staffUsers w @ [u] \<and>
        one_added staff_user_clash staff_user_valid u_id u (staffUsers w) \<and>
        (identifiers_unique (identifiers w) \<longrightarrow>
          identifier_reserved StaffSubject sid email (identifiers w) (identifiers (fst s))))
      (\<lambda>e s. snd s = u) (w\<lparr>env := z\<rparr>, u)" for z
    unfolding wp_await wp_on_world save_new_def
    by (rule wp_reserveIdentifier) (auto intro!: su.wp_createDoc simp: staff_frame_def)
  have tried: "wp (try_catch (with_object u (await (D (await (on_world (StaffUsersService_reserveIdentifier A email sid actorId)) (\<lambda>_.
        await (on_world (save_new A u)) (\<lambda>created. mutate (\<lambda>_. created))))) (\<lambda>_.
        await (asks snd) (\<lambda>created. ret (Some created)))))
      (\<lambda>error. if \<not> StaffUsersService_isTransactionUnavailable error
         then throw (StaffUsersService_identifierError error) else ret None))
      (\<lambda>created. wp (rest created) Q E) E (w\<lparr>env := z\<rparr>)" for z
    unfolding wp_try_catch wp_with_object wp_await [of "D _"]
  proof (rule tx.wp_document_transaction [where J = "\<lambda>d. d = u"], goal_cases)
    case (2 y d)
    have *: "Q u (w'\<lparr>env := x\<rparr>)" if "staff_frame w w'" "staffUsers w' = staffUsers w @ [u]"
      "one_added staff_user_clash staff_user_valid u_id u (staffUsers w)"
      "identifiers_unique (identifiers w) \<longrightarrow>
        identifier_reserved StaffSubject sid email (identifiers w) (identifiers w')" for w' x
      by (rule ok) (use that in simp_all)
    from body [of y] show ?case unfolding \<open>d = u\<close>
      by (auto elim!: wp_mono intro!: * again undone simp: created bad)
  qed (auto intro!: undone simp: bad)
  show ?thesis
    unfolding StaffUsersService_persistCreateWithIdentifier_def identifier_dep rest_def [symmetric] wp_await
    by (simp add: identifier_dep, rule wp_startSession, auto intro!: undone tried simp del: wp_try_catch)
qed

lemma wp_create:
  "wp (StaffUsersService_create A S D objectId dto actor) (staff_created dto w) (\<lambda>_ _. True) w"
  unfolding StaffUsersService_create_def StaffUsersService_normalizeEmail_def Let_def wp_await
proof (rule wp_validateRoles, goal_cases)
  case (1 roles)
  show ?case
  proof (rule su.wp_exists_doc, goal_cases)
    case (1 z)
    show ?case unfolding if_False wp_await
    proof (rule wp_env_only [OF bcrypt_env], rule wp_env_only [OF object_id_env], unfold wp_asks)
      fix h y sid x
      let ?w = "w\<lparr>env := z\<rparr>\<lparr>env := y\<rparr>\<lparr>env := x\<rparr>"
      let ?u = "StaffUsersService_newUser sid dto (to_lower (trim (cu_email dto))) roles h (clock A ?w) actor"
      show "wp (StaffUsersService_persistCreateWithIdentifier A S D ?u (to_lower (trim (cu_email dto))) sid
          (actor_or_system actor)) (\<lambda>a. wp (ret (StaffUsersService_toResponse a)) (staff_created dto w) (\<lambda>_ _. True))
          (\<lambda>_ _. True) ?w"
        unfolding wp_ret
      proof (rule wp_persistCreate, goal_cases)
        case (1 w')
        then have "?u \<notin> set (staffUsers w) \<and> u_id ?u \<notin> u_id ` set (staffUsers w) \<and>
            u_email ?u \<notin> u_email ` set (staffUsers w)"
          by (auto simp: one_added_def staff_user_clash_def)
        then show ?case unfolding staff_created_def
          by (intro exI [of _ ?u]) (use 1 \<open>roles \<noteq> []\<close> \<open>distinct roles\<close> \<open>role_name ` set roles = set (cu_roles dto)\<close>
            in \<open>auto simp: roles_ok_def staff_frame_def\<close>)
      qed simp
    qed
  qed simp_all
qed simp

text \<open>What follows the change of the document: sessions end, and the change is recorded.\<close>

lemma wp_update_rest:
  assumes "\<And>w'. staff_frame w w' \<Longrightarrow> staffUsers w' = staffUsers w \<Longrightarrow> identifiers w' = identifiers w \<Longrightarrow>
      (c \<Longrightarrow> signed_out StaffSubject sid (families w')) \<Longrightarrow> Q (StaffUsersService_toResponse u) w'"
  shows "wp (await (whenM c (on_world (revokeSessions A StaffSubject sid reason))) (\<lambda>_.
      await (asks snd) (\<lambda>user.
      await (on_world (StaffUsersService_recordChanges A user actor pr ps rc sc)) (\<lambda>_.
      ret (StaffUsersService_toResponse user))))) (\<lambda>r s. Q r (fst s)) (\<lambda>_ _. True) (w, u)"
  by (auto intro!: wp_revokeSessions wp_recordChanges assms simp: staff_frame_def)

lemma wp_update:
  assumes ids: "distinct (map u_id (staffUsers w))"
  shows "wp (StaffUsersService_update A S D i dto actor) (staff_updated i dto w) (\<lambda>_ _. True) w"
  unfolding StaffUsersService_update_def StaffUsersService_normalizeEmail_def wp_await
proof (rule wp_findDocumentById, goal_cases)
  case (1 u z)
  define e where "e = (case uu_email dto of None \<Rightarrow> u_email u | Some e \<Rightarrow> to_lower (trim e))"
  define sc where "sc = (uu_status dto \<noteq> None \<and> uu_status dto \<noteq> Some (u_status u))"
  have status: "(case uu_status dto of None \<Rightarrow> u_status u | Some s \<Rightarrow> s) \<noteq> u_status u \<longleftrightarrow> sc"
    by (auto simp: sc_def split: option.split)
  have change: "wp (with_object u
      (await (if e \<noteq> u_email u \<and> identifierModel A \<noteq> None
              then StaffUsersService_persistIdentifierChange A S D (u_id u) (u_email u) e (actor_or_system actor)
                (StaffUsersService_applyUpdates dto actor e rs c)
              else await (mutate (StaffUsersService_applyUpdates dto actor e rs c)) (\<lambda>_. save_object A)) (\<lambda>_.
       await (whenM c (on_world (revokeSessions A StaffSubject (u_id u) ''staff-account-updated''))) (\<lambda>_.
       await (asks snd) (\<lambda>user.
       await (on_world (StaffUsersService_recordChanges A user actor (u_roles u) (u_status u) rc sc)) (\<lambda>_.
       ret (StaffUsersService_toResponse user))))))) (staff_updated i dto w) (\<lambda>_ _. True) (w\<lparr>env := y\<rparr>)"
    if c: "c = (rc \<or> sc \<or> e \<noteq> u_email u)" and rc: "rc = (\<not> StaffUsersService_sameRoles (u_roles u) rs)"
      and rs: "case uu_roles dto of None \<Rightarrow> rs = u_roles u
        | Some roles \<Rightarrow> rs \<noteq> [] \<and> distinct rs \<and> role_name ` set rs = set roles" for rs c rc y
  proof -
    let ?f = "StaffUsersService_applyUpdates dto actor e rs c"
    have f: "u_id (?f v) = u_id v" for v by simp
    have res: "staff_updated i dto w (StaffUsersService_toResponse u') w''"
      if "u' = (?f u)\<lparr>u_authVersion := v\<rparr>" and "if c then u_authVersion u < v else v = u_authVersion u"
        and "replaced u_id u' (staffUsers w) (staffUsers w'')" and "staff_frame w w''"
        and "c \<Longrightarrow> signed_out StaffSubject (u_id u) (families w'')"
        and "e \<noteq> u_email u \<Longrightarrow> identifiers_unique (identifiers w) \<Longrightarrow>
          identifier_moved StaffSubject (u_id u) (u_email u) e (identifiers w) (identifiers w'')" for u' v w''
    proof -
      have fields: "u_id u' = u_id u" "u_email u' = e" "u_roles u' = rs" "u_authVersion u' = v"
          "u_status u' = (case uu_status dto of None \<Rightarrow> u_status u | Some s \<Rightarrow> s)"
        by (simp_all add: that(1))
      have "(u_email u' \<noteq> u_email u \<or> u_status u' \<noteq> u_status u \<or> mset (u_roles u') \<noteq> mset (u_roles u)) = c"
        unfolding fields status c rc sameRoles_iff by auto
      moreover have "case uu_roles dto of None \<Rightarrow> u_roles u' = u_roles u
          | Some rs \<Rightarrow> roles_ok u' \<and> role_name ` set (u_roles u') = set rs"
        using rs by (simp add: fields roles_ok_def split: option.splits)
      ultimately show ?thesis
        unfolding staff_updated_def
        by (intro exI [of _ u] exI [of _ u'] conjI)
          (use 1 that fields in \<open>simp_all add: e_def [symmetric]\<close>)
    qed
    have after: "wp (await (whenM c (on_world (revokeSessions A StaffSubject (u_id u) ''staff-account-updated''))) (\<lambda>_.
       await (asks snd) (\<lambda>user.
       await (on_world (StaffUsersService_recordChanges A user actor (u_roles u) (u_status u) rc sc)) (\<lambda>_.
       ret (StaffUsersService_toResponse user))))) (\<lambda>r s. staff_updated i dto w r (fst s)) (\<lambda>_ _. True) (w1, u')"
      if "u' = (?f u)\<lparr>u_authVersion := v\<rparr>" and "if c then u_authVersion u < v else v = u_authVersion u"
        and "replaced u_id u' (staffUsers w) (staffUsers w1)" and "staff_frame w w1"
        and "e \<noteq> u_email u \<Longrightarrow> identifiers_unique (identifiers w) \<Longrightarrow>
          identifier_moved StaffSubject (u_id u) (u_email u) e (identifiers w) (identifiers w1)" for u' v w1
      by (rule wp_update_rest, rule res [OF that(1,2)]) (use that in \<open>auto simp: staff_frame_def\<close>)
    show ?thesis
    proof (cases "e = u_email u")
      case False
      then have "c" using c by simp
      then have again: "(?f ^^ Suc k) u = (?f u)\<lparr>u_authVersion := u_authVersion u + Suc k\<rparr>" for k
        using applyUpdates_again [where k = k and dto = dto and e = e and rs = rs and u = u] by simp
      have grown: "if c then u_authVersion u < u_authVersion u + Suc k
          else u_authVersion u + Suc k = u_authVersion u" for k
        using \<open>c\<close> by simp
      have stored: "staff_frame w w'" "replaced u_id ((?f ^^ Suc k) u) (staffUsers w) (staffUsers w')"
          "identifiers_unique (identifiers w) \<Longrightarrow>
            identifier_moved StaffSubject (u_id u) (u_email u) e (identifiers w) (identifiers w')"
        if "staff_stored (u_email u) e ((?f ^^ Suc k) u) (w\<lparr>env := y\<rparr>) w'" for k w'
        using that [unfolded staff_stored_env staff_stored_def funpow_u_id [of ?f "Suc k" u, OF f]] by simp_all
      show ?thesis
        unfolding wp_with_object identifier_dep
        by (simp only: False not_False_eq_True option.distinct simp_thms if_True, subst wp_await,
            rule wp_persistIdentifierChange [OF _ f False], simp add: ids, rule after [OF again])
          (rule grown, erule stored(2), erule stored(1), erule (1) stored(3), simp)
    next
      case True
      show ?thesis
        unfolding wp_with_object
        by (simp only: True simp_thms if_False, subst wp_await, subst wp_await, subst wp_mutate,
            rule wp_save_object, rule after [where v = "u_authVersion u + (if c then 1 else 0)"])
          (use f True in \<open>auto simp: staff_frame_def\<close>)
    qed
  qed
  have email: "(case uu_email dto of None \<Rightarrow> u_email u | Some e \<Rightarrow> to_lower (trim e)) = e" by (simp add: e_def)
  show ?case
  proof (cases "uu_roles dto")
    case None
    then show ?thesis
      unfolding Let_def email sc_def [symmetric] wp_await
      by (simp only: option.case wp_ret, intro change) simp_all
  next
    case (Some roles)
    then show ?thesis
      unfolding Let_def email sc_def [symmetric] wp_await
      by (simp only: option.case, intro wp_validateRoles change) simp_all
  qed
qed simp

text \<open>Every operation keeps the staff users well formed, whatever its outcome.\<close>

lemma keeps_accounts [keeps_rules]:
  "keeps staff_ok (StaffUsersService_startSession S)"
  "keeps staff_ok (StaffUsersService_reserveIdentifier A n sid actorId)"
  "keeps staff_ok (releaseIdentifier A subject n sid actorId)"
  "keeps staff_ok (revokeSessions A subject sid reason)"
  "keeps staff_ok (StaffUsersService_recordChanges A u actor pr ps rc sc)"
  "keeps staff_ok (StaffUsersService_findDocumentById A i)"
  by (rule keepsI; rule wp_startSession wp_reserveIdentifier wp_releaseIdentifier wp_revokeSessions
      wp_recordChanges wp_findDocumentById; simp)+

lemma keeps_save_new [keeps_rules]: "roles_ok u \<Longrightarrow> keeps staff_ok (save_new A u)"
  unfolding save_new_def by (rule su.keeps_createDoc) (simp_all add: staff_ok_added)

lemma keeps_save_object [keeps_rules]: "keeps (\<lambda>(w, d). staff_ok w \<and> roles_ok d) (save_object A)"
proof (rule keepsI, clarify)
  fix w :: "'e world" and u assume "staff_ok w" and "roles_ok u"
  then show "wp (save_object A) (\<lambda>_ (w, d). staff_ok w \<and> roles_ok d) (\<lambda>_ (w, d). staff_ok w \<and> roles_ok d) (w, u)"
    unfolding save_object_def wp_await wp_asks wp_on_world snd_conv
    by (intro su.wp_saveDoc) (simp_all add: staff_ok_saved)
qed

lemma keeps_persistCreate:
  "roles_ok u \<Longrightarrow> keeps staff_ok (StaffUsersService_persistCreateWithIdentifier A S D u email sid actorId)"
  unfolding StaffUsersService_persistCreateWithIdentifier_def
  by (intro keeps_rules keeps_with_object [where J = "\<lambda>_. True"] tx.keeps_document_transaction keeps_on_world
      keeps_mutate) simp_all

lemma keeps_create: "keeps staff_ok (StaffUsersService_create A S D objectId dto actor)"
proof (rule keepsI)
  fix w :: "'e world" assume w: "staff_ok w"
  have rest: "keeps staff_ok (await (exists_doc (staffUserModel A) (\<lambda>u. u_email u = email)) (\<lambda>taken.
      if taken then throw (Conflict ''Staff user email already exists'')
      else
      await (bcryptHash A (cu_password dto)) (\<lambda>passwordHash.
      await objectId (\<lambda>subjectId.
      await (asks (clock A)) (\<lambda>now.
      await (StaffUsersService_persistCreateWithIdentifier A S D
        (StaffUsersService_newUser subjectId dto email roles passwordHash now actor)
        email subjectId (actor_or_system actor)) (\<lambda>created.
      ret (StaffUsersService_toResponse created)))))))" if "roles \<noteq> []" "distinct roles" for roles email
    by (intro keeps_rules su.keeps_exists_doc keeps_env_only [OF bcrypt_env] keeps_env_only [OF object_id_env]
        keeps_persistCreate) (use that in \<open>simp_all add: roles_ok_def\<close>)
  show "wp (StaffUsersService_create A S D objectId dto actor) (\<lambda>_. staff_ok) (\<lambda>_. staff_ok) w"
    unfolding StaffUsersService_create_def Let_def wp_await [of "StaffUsersService_validateRoles _"]
    by (rule wp_validateRoles, rule keepsD [OF rest]) (use w in simp_all)
qed

lemma keeps_persistIdentifierChange:
  assumes "\<And>u. roles_ok u \<Longrightarrow> roles_ok (f u)"
  shows "keeps (\<lambda>(w, d). staff_ok w \<and> roles_ok d)
    (StaffUsersService_persistIdentifierChange A S D sid old new actorId f)"
  unfolding StaffUsersService_persistIdentifierChange_def
  by (intro keeps_rules tx.keeps_document_transaction keeps_on_world keeps_mutate assms) simp_all

lemma keeps_update: "keeps staff_ok (StaffUsersService_update A S D i dto actor)"
proof (rule keepsI)
  fix w :: "'e world" assume w: "staff_ok w"
  have rest: "keeps staff_ok (let emailChanged = (nextEmail \<noteq> u_email user);
           rolesChanged = (\<not> StaffUsersService_sameRoles (u_roles user) nextRoles);
           statusChanged = (uu_status dto \<noteq> None \<and> uu_status dto \<noteq> Some (u_status user));
           changed = (rolesChanged \<or> statusChanged \<or> emailChanged);
           applyUpdates = StaffUsersService_applyUpdates dto actor nextEmail nextRoles changed in
       with_object user
         (await (if emailChanged \<and> identifierModel A \<noteq> None
                 then StaffUsersService_persistIdentifierChange A S D (u_id user) (u_email user) nextEmail
                   (actor_or_system actor) applyUpdates
                 else await (mutate applyUpdates) (\<lambda>_. save_object A)) (\<lambda>_.
          await (whenM changed
            (on_world (revokeSessions A StaffSubject (u_id user) ''staff-account-updated''))) (\<lambda>_.
          await (asks snd) (\<lambda>user'.
          await (on_world (StaffUsersService_recordChanges A user' actor (u_roles user) (u_status user)
            rolesChanged statusChanged)) (\<lambda>_.
          ret (StaffUsersService_toResponse user')))))))"
    if "roles_ok user" and "nextRoles \<noteq> []" "distinct nextRoles" for user nextRoles nextEmail
    unfolding Let_def using that
    by (intro keeps_rules keeps_with_object [where J = roles_ok] keeps_persistIdentifierChange keeps_on_world
        keeps_mutate) (simp_all add: roles_ok_def)
  show "wp (StaffUsersService_update A S D i dto actor) (\<lambda>_. staff_ok) (\<lambda>_. staff_ok) w"
    unfolding StaffUsersService_update_def wp_await
  proof (rule wp_findDocumentById, goal_cases)
    case (1 u z)
    then have u: "roles_ok u" using w by (simp add: staff_ok_def)
    show ?case
    proof (cases "uu_roles dto")
      case None
      show ?thesis unfolding None option.case wp_ret Let_def [of "u_email u"] Let_def [of "u_roles u"]
          Let_def [of "u_status u"] Let_def [of "case _ of None \<Rightarrow> _ | Some e \<Rightarrow> _ e"]
        using keepsD [OF rest [OF u, of "u_roles u"]] u w by (simp add: roles_ok_def)
    next
      case (Some roles)
      show ?thesis unfolding Some option.case Let_def [of "u_email u"] Let_def [of "u_roles u"]
          Let_def [of "u_status u"] Let_def [of "case _ of None \<Rightarrow> _ | Some e \<Rightarrow> _ e"] wp_await
        by (rule wp_validateRoles) (use keepsD [OF rest [OF u]] w in simp_all)
    qed
  qed (use w in simp)
qed

lemma keeps_version:
  "keeps staff_ok (StaffUsersService_touchLastLogin A i)" "keeps staff_ok (StaffUsersService_bumpAuthVersion A i)"
proof -
  have one: "keeps staff_ok (updateOne (staffUserModel A) p f)"
    if "\<And>u. u_id (f u) = u_id u \<and> (roles_ok u \<longrightarrow> roles_ok (f u))" for p f
    by (rule su.keeps_updateOne) (use that in \<open>simp_all add: staff_ok_updated [where f = f]\<close>)
  show "keeps staff_ok (StaffUsersService_touchLastLogin A i)" "keeps staff_ok (StaffUsersService_bumpAuthVersion A i)"
    unfolding StaffUsersService_touchLastLogin_def StaffUsersService_bumpAuthVersion_def toMongoObjectId_def
    by (auto intro!: keeps_rules one simp: roles_ok_def)
qed

end

interpretation mem_staff_store: staff_store mem_app "the (identifierModel mem_app)"
  "the (accountFamilyModel mem_app)" "the (eventModel mem_app)" mem_document_transaction "ret True"
  "mem_name ''64f0''"
  by (intro staff_store.intro account_store.intro account_store_axioms.intro staff_store_axioms.intro
      mem_identifiers.collection_axioms mem_account_families mem_event_store.event_store_axioms
      staff_documents.intro mem_staff_users.collection_axioms mem_dtx.document_transaction_axioms mem_bcrypt mem_name_env_only)
    (simp_all add: mem_app_def ret_def)

subsection \<open>Properties\<close>

definition hire_dto :: create_staff_user_dto where
  "hire_dto = \<lparr>cu_email = '' Bob@Example.org'', cu_displayName = ''Bob'', cu_password = ''correct horse'',
     cu_roles = [''staff'', ''staff'']\<rparr>"

definition promote_dto :: update_staff_user_dto where
  "promote_dto = \<lparr>uu_email = Some ''Ada@Example.org'', uu_displayName = None, uu_roles = Some [''staff'', ''admin''],
     uu_status = None\<rparr>"

lemma sample_world_staff: "staff_ok sample_world"
  by (simp add: sample_world_def staff_ok_def sample_staff_user_def roles_ok_def)

lemma hire_returns:
  "\<not> isl (fst (StaffUsersService_create mem_app (ret True) mem_document_transaction (mem_name ''64f0'')
     hire_dto (Some sample_actor) sample_world))"
  by code_simp

lemma promote_returns:
  "\<not> isl (fst (StaffUsersService_update mem_app (ret True) mem_document_transaction (sample_id CHR ''f'')
     promote_dto (Some sample_actor) sample_world))"
  by code_simp

text \<open>C31: a staff user is only ever stored with an e-mail address of their own and with a non-empty
  list of approved roles without repetition: creating and changing staff users and their versions
  keep this on every outcome, with and without transactions.\<close>

theorem staff_users_stay_valid:
  assumes "staff_store A I F V D S objectId" and "staff_ok w"
  shows "staff_ok (snd (StaffUsersService_create A S D objectId cdto actor w)) \<and>
    staff_ok (snd (StaffUsersService_update A S D i dto actor w)) \<and>
    staff_ok (snd (StaffUsersService_touchLastLogin A i w)) \<and>
    staff_ok (snd (StaffUsersService_bumpAuthVersion A i w))"
  by (intro conjI keeps_snd [OF staff_store.keeps_create [OF assms(1)] assms(2)]
      keeps_snd [OF staff_store.keeps_update [OF assms(1)] assms(2)]
      keeps_snd [OF staff_store.keeps_version(1) [OF assms(1)] assms(2)]
      keeps_snd [OF staff_store.keeps_version(2) [OF assms(1)] assms(2)])

theorem staff_users_stay_valid_witness:
  "staff_ok (snd (StaffUsersService_update mem_app (ret True) mem_document_transaction (sample_id CHR ''f'')
     promote_dto None sample_world))"
  using staff_users_stay_valid [OF mem_staff_store.staff_store_axioms sample_world_staff] by blast

text \<open>A staff user that was created is new, active, has the roles that were asked for and the
  normalized e-mail address that was asked for, which nobody had, and holds its reservation.\<close>

theorem staff_creation_takes_effect:
  assumes "staff_store A I F V D S objectId"
    and "StaffUsersService_create A S D objectId dto actor w = (Inr r, w')"
  shows "\<exists>u. r = StaffUsersService_toResponse u \<and> staffUsers w' = staffUsers w @ [u] \<and>
    u_id u \<notin> u_id ` set (staffUsers w) \<and> u_email u \<notin> u_email ` set (staffUsers w) \<and>
    u_email u = to_lower (trim (cu_email dto)) \<and> u_roles u \<noteq> [] \<and> distinct (u_roles u) \<and>
    role_name ` set (u_roles u) = set (cu_roles dto) \<and> u_status u = StaffActive \<and>
    (identifiers_unique (identifiers w) \<longrightarrow> holds StaffSubject (u_id u) (u_email u) (identifiers w'))"
  using wp_return_value [OF staff_store.wp_create [OF assms(1)] assms(2)]
  unfolding staff_created_def roles_ok_def identifier_reserved_def by blast

theorem staff_creation_takes_effect_witness:
  "\<exists>u. staffUsers (snd (StaffUsersService_create mem_app (ret True) mem_document_transaction (mem_name ''64f0'')
     hire_dto (Some sample_actor) sample_world)) = [sample_staff_user, u] \<and> u_email u = ''bob@example.org''"
proof -
  have "to_lower (trim (cu_email hire_dto)) = ''bob@example.org''" by code_simp
  then show ?thesis
    using staff_creation_takes_effect [OF mem_staff_store.staff_store_axioms run_returned [OF hire_returns]]
    by (auto simp: sample_world_def)
qed

text \<open>An update that returns has stored what was asked for; a change of the roles, the status or
  the e-mail address raises the version the access tokens are checked against and ends every refresh
  session of the staff user, and a new e-mail address is held instead of the old one.\<close>

theorem staff_update_signs_out:
  assumes "staff_store A I F V D S objectId" and "staff_ok w"
    and "StaffUsersService_update A S D i dto actor w = (Inr r, w')"
  shows "\<exists>u u'. u \<in> set (staffUsers w) \<and> u_id u = to_lower i \<and> r = StaffUsersService_toResponse u' \<and>
    u_id u' = u_id u \<and> replaced u_id u' (staffUsers w) (staffUsers w') \<and>
    u_email u' = (case uu_email dto of None \<Rightarrow> u_email u | Some e \<Rightarrow> to_lower (trim e)) \<and>
    u_status u' = (case uu_status dto of None \<Rightarrow> u_status u | Some s \<Rightarrow> s) \<and>
    (case uu_roles dto of None \<Rightarrow> u_roles u' = u_roles u | Some rs \<Rightarrow> role_name ` set (u_roles u') = set rs) \<and>
    (if u_email u' \<noteq> u_email u \<or> u_status u' \<noteq> u_status u \<or> mset (u_roles u') \<noteq> mset (u_roles u)
     then u_authVersion u < u_authVersion u' \<and> signed_out StaffSubject (u_id u) (families w')
     else u_authVersion u' = u_authVersion u) \<and>
    (u_email u' \<noteq> u_email u \<and> identifiers_unique (identifiers w) \<longrightarrow>
       identifier_moved StaffSubject (u_id u) (u_email u) (u_email u') (identifiers w) (identifiers w'))"
proof -
  have "distinct (map u_id (staffUsers w))" using assms(2) by (simp add: staff_ok_def)
  from wp_return_value [OF staff_store.wp_update [OF assms(1) this] assms(3)]
  obtain u u' where "u \<in> set (staffUsers w)" "u_id u = to_lower i" "r = StaffUsersService_toResponse u'"
    "u_id u' = u_id u" "replaced u_id u' (staffUsers w) (staffUsers w')"
    "u_email u' = (case uu_email dto of None \<Rightarrow> u_email u | Some e \<Rightarrow> to_lower (trim e))"
    "u_status u' = (case uu_status dto of None \<Rightarrow> u_status u | Some s \<Rightarrow> s)"
    "case uu_roles dto of None \<Rightarrow> u_roles u' = u_roles u
      | Some rs \<Rightarrow> roles_ok u' \<and> role_name ` set (u_roles u') = set rs"
    "if u_email u' \<noteq> u_email u \<or> u_status u' \<noteq> u_status u \<or> mset (u_roles u') \<noteq> mset (u_roles u)
     then u_authVersion u < u_authVersion u' \<and> signed_out StaffSubject (u_id u) (families w')
     else u_authVersion u' = u_authVersion u"
    "u_email u' \<noteq> u_email u \<and> identifiers_unique (identifiers w) \<longrightarrow>
       identifier_moved StaffSubject (u_id u) (u_email u) (u_email u') (identifiers w) (identifiers w')"
    unfolding staff_updated_def by blast
  then show ?thesis by (intro exI [of _ u] exI [of _ u'] conjI) (simp_all split: option.splits)
qed

theorem staff_update_signs_out_witness:
  "\<exists>u. staffUsers (snd (StaffUsersService_update mem_app (ret True) mem_document_transaction
      (sample_id CHR ''f'') promote_dto (Some sample_actor) sample_world)) = [u] \<and>
    set (u_roles u) = {Staff, Admin} \<and> u_authVersion sample_staff_user < u_authVersion u"
proof -
  have "inj role_name" by (rule injI) simp
  then have names: "role_name ` X = {''staff'', ''admin''} \<longleftrightarrow> X = {Staff, Admin}" for X
    using inj_image_eq_iff [of role_name X "{Staff, Admin}"] by simp
  let ?run = "StaffUsersService_update mem_app (ret True) mem_document_transaction (sample_id CHR ''f'')
    promote_dto (Some sample_actor) sample_world"
  have before: "staffUsers sample_world = [sample_staff_user]" by (simp add: sample_world_def)
  from staff_update_signs_out [OF mem_staff_store.staff_store_axioms sample_world_staff
      run_returned [OF promote_returns]]
  obtain u where u: "replaced u_id u [sample_staff_user] (staffUsers (snd ?run))"
    and "role_name ` set (u_roles u) = {''staff'', ''admin''}"
    and v: "mset (u_roles u) \<noteq> mset (u_roles sample_staff_user) \<Longrightarrow>
      u_authVersion sample_staff_user < u_authVersion u"
    unfolding before by (auto simp: promote_dto_def split: if_splits)
  then have roles: "set (u_roles u) = {Staff, Admin}" by (simp add: names)
  then have "mset (u_roles u) \<noteq> mset (u_roles sample_staff_user)"
    by (metis insert_iff set_mset_mset sample_staff_user_def staff_user.select_convs(5) empty_iff empty_set
        list.simps(15) staff_role.distinct(1))
  moreover have "staffUsers (snd ?run) = [u]" using u by (auto simp: replaced_def Cons_eq_append_conv)
  ultimately show ?thesis using roles v by blast
qed

end
