(* ===== verification/Sign_In.thy ===== *)
theory Sign_In
  imports Members Staff_Users Token_Session
begin

text \<open>
  \<^verbatim>\<open>src/auth/auth.service.ts\<close>: sign-in of staff and members, access tokens, the rotation of refresh
  sessions, and signing out.

  What the service gets besides the services modelled elsewhere is a record \<open>auth_env\<close>: the signing
  of the JWT package, whether refresh sessions are there, the status of an identifier operation (the
  collection of operations is only read here), and the values of the configuration.  The members
  service is always there, and so is \<^verbatim>\<open>recordFailedSignIn\<close> of a security activity service.
\<close>

text \<open>The claims of an access token.\<close>

record token_claims = raw_auth_payload +
  p_email :: "string option"
  p_memberNumber :: "string option"
  p_roles :: "staff_role list option"

record 'e auth_env =
  signAsync :: "token_claims \<Rightarrow> ('e world, string) io"
  sessionsAvailable :: bool
  operationStatus :: "(string \<Rightarrow> ('e world, operation_status option) io) option"
  refreshTokenTtlSeconds :: "rat option"
  accessTokenTtlSeconds :: "int option"
  auditKeyRing :: "audit_key_ring option"

record shared_login_dto =
  sl_identifier :: "string option"
  sl_password :: "string option"

record login_dto =
  ld_email :: string
  ld_password :: string

record member_login_dto =
  ml_loginIdentifier :: string
  ml_password :: string

record staff_login_profile =
  lp_id :: string
  lp_email :: string
  lp_displayName :: string
  lp_roles :: "staff_role list"
  lp_permissions :: "auth_permission list"

record member_login_profile =
  lm_id :: string
  lm_memberNumber :: string
  lm_displayName :: string
  lm_email :: "string option"
  lm_membershipStatus :: member_status
  lm_membershipTypeId :: string
  lm_membershipTypeCode :: string
  lm_membershipTypeName :: string

datatype login_profile = StaffProfile staff_login_profile | MemberProfile member_login_profile

record login_response =
  lg_accessToken :: string
  lg_expiresIn :: int
  lg_scope :: string
  lg_permissions :: "auth_permission list"
  lg_roleArea :: subject_type
  lg_profile :: login_profile

record session_result =
  sr_response :: login_response
  sr_refreshToken :: string
  sr_refreshExpiresAt :: date

text \<open>An account that has been authenticated.\<close>

record staff_auth =
  sa_user :: staff_user
  sa_userId :: string
  sa_permissions :: "auth_permission list"
  sa_scope :: string
  sa_authVersion :: nat

record member_auth =
  ma_member :: member
  ma_memberId :: string
  ma_permissions :: "auth_permission list"
  ma_authVersion :: nat

definition AuthService_getRefreshCookieTtlSeconds :: "'e auth_env \<Rightarrow> rat" where
  "AuthService_getRefreshCookieTtlSeconds V = (case refreshTokenTtlSeconds V of None \<Rightarrow> 0 | Some t \<Rightarrow> t)"

definition AuthService_getAccessTokenTtlSeconds :: "'e auth_env \<Rightarrow> int" where
  "AuthService_getAccessTokenTtlSeconds V = (case accessTokenTtlSeconds V of None \<Rightarrow> 900 | Some t \<Rightarrow> t)"

definition AuthService_getRequiredTokenSessionService :: "'e auth_env \<Rightarrow> ('w, unit) io" where
  "AuthService_getRequiredTokenSessionService V =
     (if sessionsAvailable V then ret () else throw (Unauthorized ''Refresh sessions are unavailable''))"

definition AuthService_getRefreshCookieOptions ::
  "'e auth_env \<Rightarrow> date option \<Rightarrow> bool \<Rightarrow> date \<Rightarrow> ('w, cookie_options) io" where
  "AuthService_getRefreshCookieOptions V expiresAt isProduction now =
     await (AuthService_getRequiredTokenSessionService V) (\<lambda>_.
     ret (TokenSessionService_getRefreshCookieOptions
       (case expiresAt of Some e \<Rightarrow> Inl e | None \<Rightarrow> Inr (AuthService_getRefreshCookieTtlSeconds V))
       isProduction now))"

definition AuthService_getClearRefreshCookieOptions :: "'e auth_env \<Rightarrow> bool \<Rightarrow> ('w, cookie_options) io" where
  "AuthService_getClearRefreshCookieOptions V isProduction =
     await (AuthService_getRequiredTokenSessionService V) (\<lambda>_.
     ret (TokenSessionService_getClearRefreshCookieOptions isProduction))"

definition AuthService_normalizeSharedIdentifier :: "string option \<Rightarrow> string" where
  "AuthService_normalizeSharedIdentifier v = (case v of None \<Rightarrow> [] | Some s \<Rightarrow> to_lower (trim s))"

subsection \<open>Refused sign-ins\<close>

definition AuthService_recordFailedSignIn ::
  "'e app \<Rightarrow> 'e auth_env \<Rightarrow> string \<Rightarrow> string \<Rightarrow> (subject_type \<times> string) option \<Rightarrow> ('e world, unit) io" where
  "AuthService_recordFailedSignIn A V normalizedIdentifier reasonCategory subject =
     (case eventModel A of None \<Rightarrow> ret ()
      | Some M \<Rightarrow> SecurityActivityService_recordFailedSignIn A M (auditKeyRing V)
          \<lparr>fs_normalizedIdentifier = Some normalizedIdentifier, fs_subject = subject,
           fs_reasonCategory = reasonCategory\<rparr>)"

definition AuthService_denySharedSignIn ::
  "'e app \<Rightarrow> 'e auth_env \<Rightarrow> string \<Rightarrow> string \<Rightarrow> (subject_type \<times> string) option \<Rightarrow> ('e world, 'a) io" where
  "AuthService_denySharedSignIn A V normalizedIdentifier reasonCategory subject =
     await (AuthService_recordFailedSignIn A V normalizedIdentifier reasonCategory subject) (\<lambda>_.
     throw (Unauthorized ''Invalid credentials''))"

subsection \<open>The identifier\<close>

definition AuthService_resolveSharedIdentifier ::
  "'e app \<Rightarrow> 'e auth_env \<Rightarrow> string \<Rightarrow> ('e world, reservation option) io" where
  "AuthService_resolveSharedIdentifier A V normalizedIdentifier =
     (case identifierModel A of None \<Rightarrow> ret None
      | Some I \<Rightarrow>
          if normalizedIdentifier = [] then ret None
          else
          await (findOne I (\<lambda>i. i_normalizedIdentifier i = normalizedIdentifier)) (\<lambda>found.
          case found of
            None \<Rightarrow> AuthService_denySharedSignIn A V normalizedIdentifier ''unresolved-identifier'' None
          | Some reservation \<Rightarrow>
              if i_status reservation \<noteq> IdentifierActive \<or> i_subjectType reservation = None \<or>
                \<not> truthy (i_subjectId reservation)
              then AuthService_denySharedSignIn A V normalizedIdentifier
                (if i_status reservation = IdentifierConflict then ''legacy-ambiguous-identifier''
                 else ''unresolved-identifier'') None
              else ret (Some reservation)))"

definition AuthService_assertActivationGateCompleted ::
  "'e app \<Rightarrow> 'e auth_env \<Rightarrow> reservation \<Rightarrow> string \<Rightarrow> ('e world, unit) io" where
  "AuthService_assertActivationGateCompleted A V reservation normalizedIdentifier =
     (if \<not> truthy (i_activationGateOperationId reservation) then ret ()
      else
      await (case operationStatus V of None \<Rightarrow> ret None
             | Some find_status \<Rightarrow> find_status (the (i_activationGateOperationId reservation))) (\<lambda>status.
      if status \<noteq> Some OperationCompleted
      then AuthService_denySharedSignIn A V normalizedIdentifier ''activation-gate-incomplete'' None
      else ret ()))"

subsection \<open>Authentication\<close>

definition staff_auth_of :: "staff_user \<Rightarrow> staff_auth" where
  "staff_auth_of user =
     (let permissions = permissionsForStaffRoles (u_roles user) in
      \<lparr>sa_user = user, sa_userId = u_id user, sa_permissions = permissions,
       sa_scope = scope_of permissions, sa_authVersion = u_authVersion user\<rparr>)"

definition member_auth_of :: "member \<Rightarrow> member_auth" where
  "member_auth_of m = \<lparr>ma_member = m, ma_memberId = m_id m, ma_permissions = memberRolePermissions,
     ma_authVersion = m_authVersion m\<rparr>"

text \<open>\<open>verify\<close> is \<^verbatim>\<open>passwordHasher.verify\<close>; the conjunctions before it are lazy, as in JavaScript.\<close>

definition PasswordHasherService_verify :: "'e app \<Rightarrow> string \<Rightarrow> string \<Rightarrow> ('e world, bool) io" where
  "PasswordHasherService_verify A passwordHash rawPassword = bcryptCompare A passwordHash rawPassword"

definition verify_when :: "bool \<Rightarrow> ('w, bool) io \<Rightarrow> ('w, bool) io" where
  "verify_when b m = (if b then m else ret False)"

definition AuthService_authenticateStaff ::
  "'e app \<Rightarrow> 'e auth_env \<Rightarrow> login_dto \<Rightarrow> ('e world, staff_auth) io" where
  "AuthService_authenticateStaff A V dto =
     await (StaffUsersService_findByEmailWithPassword A (ld_email dto)) (\<lambda>found.
     await (case found of None \<Rightarrow> ret False
            | Some user \<Rightarrow> verify_when (u_status user = StaffActive)
                (PasswordHasherService_verify A (u_passwordHash user) (ld_password dto))) (\<lambda>verified.
     case found of
       Some user \<Rightarrow>
         if verified
         then await (StaffUsersService_touchLastLogin A (u_id user)) (\<lambda>_. ret (staff_auth_of user))
         else await (AuthService_recordFailedSignIn A V (to_lower (trim (ld_email dto)))
             ''invalid-credentials'' (Some (StaffSubject, u_id user)))
           (\<lambda>_. throw (Unauthorized ''Invalid credentials''))
     | None \<Rightarrow> await (AuthService_recordFailedSignIn A V (to_lower (trim (ld_email dto)))
           ''invalid-credentials'' None)
         (\<lambda>_. throw (Unauthorized ''Invalid credentials''))))"

definition may_sign_in :: "member \<Rightarrow> bool" where
  "may_sign_in m \<longleftrightarrow> m_status m = MemberActive \<and> m_authStatus m = Some MemberAuthActive \<and>
     truthy (m_passwordHash m)"

definition AuthService_authenticateMember ::
  "'e app \<Rightarrow> 'e auth_env \<Rightarrow> member_login_dto \<Rightarrow> ('e world, member_auth) io" where
  "AuthService_authenticateMember A V dto =
     await (MembersService_findByLoginIdentifierWithPassword A (ml_loginIdentifier dto)) (\<lambda>found.
     await (case found of None \<Rightarrow> ret False
            | Some m \<Rightarrow> verify_when (may_sign_in m)
                (PasswordHasherService_verify A (the (m_passwordHash m)) (ml_password dto))) (\<lambda>verified.
     case found of
       Some m \<Rightarrow>
         if verified
         then await (MembersService_touchLastLogin A (m_id m)) (\<lambda>_. ret (member_auth_of m))
         else await (AuthService_recordFailedSignIn A V (to_lower (trim (ml_loginIdentifier dto)))
             ''invalid-credentials'' (Some (MemberSubject, m_id m)))
           (\<lambda>_. throw (Unauthorized ''Invalid credentials''))
     | None \<Rightarrow> await (AuthService_recordFailedSignIn A V (to_lower (trim (ml_loginIdentifier dto)))
           ''invalid-credentials'' None)
         (\<lambda>_. throw (Unauthorized ''Invalid credentials''))))"

definition AuthService_authenticateReservedStaff ::
  "'e app \<Rightarrow> 'e auth_env \<Rightarrow> string \<Rightarrow> string \<Rightarrow> string \<Rightarrow> ('e world, staff_auth) io" where
  "AuthService_authenticateReservedStaff A V normalizedIdentifier password reservedSubjectId =
     await (StaffUsersService_findByEmailWithPassword A normalizedIdentifier) (\<lambda>found.
     await (case found of None \<Rightarrow> ret False
            | Some user \<Rightarrow> verify_when (u_id user = reservedSubjectId \<and> u_status user = StaffActive)
                (PasswordHasherService_verify A (u_passwordHash user) password)) (\<lambda>verified.
     case found of
       Some user \<Rightarrow>
         if verified
         then await (StaffUsersService_touchLastLogin A (u_id user)) (\<lambda>_. ret (staff_auth_of user))
         else AuthService_denySharedSignIn A V normalizedIdentifier ''invalid-credentials''
           (Some (StaffSubject, reservedSubjectId))
     | None \<Rightarrow> AuthService_denySharedSignIn A V normalizedIdentifier ''invalid-credentials''
         (Some (StaffSubject, reservedSubjectId))))"

definition AuthService_authenticateReservedMember ::
  "'e app \<Rightarrow> 'e auth_env \<Rightarrow> string \<Rightarrow> string \<Rightarrow> string \<Rightarrow> ('e world, member_auth) io" where
  "AuthService_authenticateReservedMember A V normalizedIdentifier password reservedSubjectId =
     await (MembersService_findByLoginIdentifierWithPassword A normalizedIdentifier) (\<lambda>found.
     await (case found of None \<Rightarrow> ret False
            | Some m \<Rightarrow> verify_when (m_id m = reservedSubjectId \<and> may_sign_in m)
                (PasswordHasherService_verify A (the (m_passwordHash m)) password)) (\<lambda>verified.
     case found of
       Some m \<Rightarrow>
         if verified
         then await (MembersService_touchLastLogin A (m_id m)) (\<lambda>_. ret (member_auth_of m))
         else AuthService_denySharedSignIn A V normalizedIdentifier ''invalid-credentials''
           (Some (MemberSubject, reservedSubjectId))
     | None \<Rightarrow> AuthService_denySharedSignIn A V normalizedIdentifier ''invalid-credentials''
         (Some (MemberSubject, reservedSubjectId))))"

subsection \<open>Access tokens\<close>

definition staff_claims :: "staff_auth \<Rightarrow> string \<Rightarrow> token_claims" where
  "staff_claims auth jti = \<lparr>p_sub = Some (sa_userId auth), p_iss = None, p_aud = None, p_jti = Some jti,
     p_roleArea = Some ''staff'', p_role_area = Some ''staff'', p_scope = Some (sa_scope auth),
     p_permissions = Some (map permission_name (sa_permissions auth)),
     p_auth_version = Some (sa_authVersion auth), p_email = Some (u_email (sa_user auth)),
     p_memberNumber = None, p_roles = Some (u_roles (sa_user auth))\<rparr>"

definition AuthService_buildStaffLoginResponse ::
  "'e app \<Rightarrow> 'e auth_env \<Rightarrow> staff_auth \<Rightarrow> ('e world, login_response) io" where
  "AuthService_buildStaffLoginResponse A V staffAuth =
     (let user = sa_user staffAuth in
      await (uuid A) (\<lambda>jti.
      await (signAsync V (staff_claims staffAuth jti)) (\<lambda>accessToken.
      ret \<lparr>lg_accessToken = accessToken, lg_expiresIn = AuthService_getAccessTokenTtlSeconds V,
           lg_scope = sa_scope staffAuth, lg_permissions = sa_permissions staffAuth,
           lg_roleArea = StaffSubject,
           lg_profile = StaffProfile \<lparr>lp_id = sa_userId staffAuth, lp_email = u_email user,
             lp_displayName = u_displayName user, lp_roles = u_roles user,
             lp_permissions = sa_permissions staffAuth\<rparr>\<rparr>)))"

definition member_claims :: "member_auth \<Rightarrow> string \<Rightarrow> token_claims" where
  "member_claims auth jti = \<lparr>p_sub = Some (ma_memberId auth), p_iss = None, p_aud = None, p_jti = Some jti,
     p_roleArea = Some ''member'', p_role_area = Some ''member'', p_scope = Some (scope_of (ma_permissions auth)),
     p_permissions = Some (map permission_name (ma_permissions auth)),
     p_auth_version = Some (ma_authVersion auth), p_email = None,
     p_memberNumber = Some (m_memberNumber (ma_member auth)), p_roles = None\<rparr>"

definition AuthService_buildMemberLoginResponse ::
  "'e app \<Rightarrow> 'e auth_env \<Rightarrow> member_auth \<Rightarrow> ('e world, login_response) io" where
  "AuthService_buildMemberLoginResponse A V memberAuth =
     (let m = ma_member memberAuth in
      await (MembersService_findSelfServiceProfile A (ma_memberId memberAuth)) (\<lambda>profile.
      await (uuid A) (\<lambda>jti.
      await (signAsync V (member_claims memberAuth jti)) (\<lambda>accessToken.
      ret \<lparr>lg_accessToken = accessToken, lg_expiresIn = AuthService_getAccessTokenTtlSeconds V,
           lg_scope = scope_of (ma_permissions memberAuth), lg_permissions = ma_permissions memberAuth,
           lg_roleArea = MemberSubject,
           lg_profile = MemberProfile \<lparr>lm_id = ma_memberId memberAuth, lm_memberNumber = m_memberNumber m,
             lm_displayName = m_fullName m, lm_email = m_email m, lm_membershipStatus = m_status m,
             lm_membershipTypeId = m_membershipTypeId m, lm_membershipTypeCode = mp_membershipTypeCode profile,
             lm_membershipTypeName = mp_membershipTypeName profile\<rparr>\<rparr>))))"

definition AuthService_createRefreshToken ::
  "'e app \<Rightarrow> 'e auth_env \<Rightarrow> subject_type \<Rightarrow> string \<Rightarrow> auth_permission list \<Rightarrow> nat \<Rightarrow>
   ('e world, string \<times> date) io" where
  "AuthService_createRefreshToken A V subjectType subjectId scopes authVersion =
     await (AuthService_getRequiredTokenSessionService V) (\<lambda>_.
     await (TokenSessionService_createFamily A \<lparr>cf_clientId = ''book-library-web'', cf_subjectType = subjectType,
       cf_subjectId = subjectId, cf_scopes = map permission_name scopes, cf_authVersion = authVersion,
       cf_ttlSeconds = AuthService_getRefreshCookieTtlSeconds V\<rparr>) (\<lambda>session.
     ret (rr_refreshToken session, rr_expiresAt session)))"

definition subject_event :: "event_type \<Rightarrow> subject_type \<Rightarrow> string \<Rightarrow> activity_input" where
  "subject_event eventType subject subjectId = (activity eventType OutcomeSuccess)
     \<lparr>si_actorType := Some (area_actor subject), si_actorId := Some subjectId,
      si_subjectType := Some (subject_name subject), si_subjectId := Some subjectId\<rparr>"

text \<open>The end of a sign-in that opens a session, of a staff user and of a member.\<close>

definition open_staff_session :: "'e app \<Rightarrow> 'e auth_env \<Rightarrow> staff_auth \<Rightarrow> ('e world, session_result) io" where
  "open_staff_session A V staffAuth =
     await (AuthService_buildStaffLoginResponse A V staffAuth) (\<lambda>response.
     await (AuthService_createRefreshToken A V StaffSubject (sa_userId staffAuth) (sa_permissions staffAuth)
       (sa_authVersion staffAuth)) (\<lambda>(refreshToken, refreshExpiresAt).
     await (record_activity A (subject_event SignInSuccess StaffSubject (sa_userId staffAuth))) (\<lambda>_.
     ret \<lparr>sr_response = response, sr_refreshToken = refreshToken, sr_refreshExpiresAt = refreshExpiresAt\<rparr>)))"

definition open_member_session :: "'e app \<Rightarrow> 'e auth_env \<Rightarrow> member_auth \<Rightarrow> ('e world, session_result) io" where
  "open_member_session A V memberAuth =
     await (AuthService_buildMemberLoginResponse A V memberAuth) (\<lambda>response.
     await (AuthService_createRefreshToken A V MemberSubject (ma_memberId memberAuth) (ma_permissions memberAuth)
       (ma_authVersion memberAuth)) (\<lambda>(refreshToken, refreshExpiresAt).
     await (record_activity A (subject_event SignInSuccess MemberSubject (ma_memberId memberAuth))) (\<lambda>_.
     ret \<lparr>sr_response = response, sr_refreshToken = refreshToken, sr_refreshExpiresAt = refreshExpiresAt\<rparr>)))"

subsection \<open>The service\<close>

definition AuthService_createSharedSession ::
  "'e app \<Rightarrow> 'e auth_env \<Rightarrow> shared_login_dto \<Rightarrow> ('e world, session_result) io" where
  "AuthService_createSharedSession A V dto =
     (let identifier = AuthService_normalizeSharedIdentifier (sl_identifier dto);
          password = (case sl_password dto of None \<Rightarrow> [] | Some p \<Rightarrow> p) in
      await (AuthService_resolveSharedIdentifier A V identifier) (\<lambda>found.
      case found of
        None \<Rightarrow> AuthService_denySharedSignIn A V identifier ''unresolved-identifier'' None
      | Some reservation \<Rightarrow>
          await (AuthService_assertActivationGateCompleted A V reservation identifier) (\<lambda>_.
          if i_subjectType reservation = Some StaffSubject
          then await (AuthService_authenticateReservedStaff A V identifier password (the (i_subjectId reservation)))
            (open_staff_session A V)
          else await (AuthService_authenticateReservedMember A V identifier password (the (i_subjectId reservation)))
            (open_member_session A V))))"

definition AuthService_login :: "'e app \<Rightarrow> 'e auth_env \<Rightarrow> login_dto \<Rightarrow> ('e world, login_response) io" where
  "AuthService_login A V dto =
     await (AuthService_authenticateStaff A V dto) (\<lambda>staffAuth.
     await (AuthService_buildStaffLoginResponse A V staffAuth) (\<lambda>response.
     await (record_activity A (subject_event SignInSuccess StaffSubject (sa_userId staffAuth))) (\<lambda>_.
     ret response)))"

definition AuthService_createStaffSession ::
  "'e app \<Rightarrow> 'e auth_env \<Rightarrow> login_dto \<Rightarrow> ('e world, session_result) io" where
  "AuthService_createStaffSession A V dto =
     await (AuthService_authenticateStaff A V dto) (open_staff_session A V)"

definition AuthService_memberLogin ::
  "'e app \<Rightarrow> 'e auth_env \<Rightarrow> member_login_dto \<Rightarrow> ('e world, login_response) io" where
  "AuthService_memberLogin A V dto =
     await (AuthService_authenticateMember A V dto) (\<lambda>memberAuth.
     await (AuthService_buildMemberLoginResponse A V memberAuth) (\<lambda>response.
     await (record_activity A (subject_event SignInSuccess MemberSubject (ma_memberId memberAuth))) (\<lambda>_.
     ret response)))"

definition AuthService_createMemberSession ::
  "'e app \<Rightarrow> 'e auth_env \<Rightarrow> member_login_dto \<Rightarrow> ('e world, session_result) io" where
  "AuthService_createMemberSession A V dto =
     await (AuthService_authenticateMember A V dto) (open_member_session A V)"

definition AuthService_denyRefreshAndRevoke ::
  "'e app \<Rightarrow> 'e auth_env \<Rightarrow> string \<Rightarrow> string \<Rightarrow> ('e world, 'a) io" where
  "AuthService_denyRefreshAndRevoke A V familyId reason =
     await (AuthService_getRequiredTokenSessionService V) (\<lambda>_.
     await (try_catch (TokenSessionService_revokeFamily A familyId reason) (\<lambda>_. ret ())) (\<lambda>_.
     throw (Unauthorized ''Invalid refresh session'')))"

text \<open>\<^verbatim>\<open>findActiveById\<close>, with \<^verbatim>\<open>NotFoundException\<close> refusing the refresh.\<close>

definition active_or_revoke ::
  "'e app \<Rightarrow> 'e auth_env \<Rightarrow> string \<Rightarrow> ('e world, 'a) io \<Rightarrow> ('e world, 'a) io" where
  "active_or_revoke A V familyId find_active =
     try_catch find_active
       (\<lambda>error. case error of
          NotFound m \<Rightarrow> AuthService_denyRefreshAndRevoke A V familyId ''inactive-subject''
        | _ \<Rightarrow> throw error)"

definition AuthService_refresh :: "'e app \<Rightarrow> 'e auth_env \<Rightarrow> string \<Rightarrow> ('e world, session_result) io" where
  "AuthService_refresh A V refreshToken =
     await (AuthService_getRequiredTokenSessionService V) (\<lambda>_.
     await (try_catch (TokenSessionService_rotate A refreshToken)
       (\<lambda>error. await (record_activity A ((activity RefreshReplayDetected OutcomeFailure)
           \<lparr>si_actorType := Some UnknownActor, si_reasonCategory := Some ''invalid-refresh-token''\<rparr>))
         (\<lambda>_. throw error))) (\<lambda>rotated.
     if rr_subjectType rotated = MemberSubject
     then
       await (active_or_revoke A V (rr_familyId rotated) (MembersService_findActiveById A (rr_subjectId rotated))) (\<lambda>m.
       if m_authVersion m \<noteq> rr_authVersion rotated
       then AuthService_denyRefreshAndRevoke A V (rr_familyId rotated) ''stale-auth-version''
       else
       await (AuthService_buildMemberLoginResponse A V (member_auth_of m)) (\<lambda>response.
       await (record_activity A (subject_event TokenRefreshed MemberSubject (m_id m))) (\<lambda>_.
       ret \<lparr>sr_response = response, sr_refreshToken = rr_refreshToken rotated,
            sr_refreshExpiresAt = rr_expiresAt rotated\<rparr>)))
     else
       await (active_or_revoke A V (rr_familyId rotated) (StaffUsersService_findActiveById A (rr_subjectId rotated))) (\<lambda>user.
       if u_authVersion user \<noteq> rr_authVersion rotated
       then AuthService_denyRefreshAndRevoke A V (rr_familyId rotated) ''stale-auth-version''
       else
       await (AuthService_buildStaffLoginResponse A V (staff_auth_of user)) (\<lambda>response.
       await (record_activity A (subject_event TokenRefreshed StaffSubject (u_id user))) (\<lambda>_.
       ret \<lparr>sr_response = response, sr_refreshToken = rr_refreshToken rotated,
            sr_refreshExpiresAt = rr_expiresAt rotated\<rparr>)))))"

definition AuthService_logout :: "'e app \<Rightarrow> 'e auth_env \<Rightarrow> string option \<Rightarrow> ('e world, unit) io" where
  "AuthService_logout A V refreshToken =
     await (whenM (sessionsAvailable V) (TokenSessionService_revokeRefreshToken A refreshToken ''sign-out'')) (\<lambda>_.
     record_activity A ((activity SignOut OutcomeSuccess)\<lparr>si_actorType := Some UnknownActor\<rparr>))"

definition AuthService_logoutAll ::
  "'e app \<Rightarrow> 'e auth_env \<Rightarrow> subject_type \<Rightarrow> string \<Rightarrow> ('e world, unit) io" where
  "AuthService_logoutAll A V roleArea subjectId =
     await (whenM (sessionsAvailable V)
       (TokenSessionService_revokeSubject A roleArea subjectId ''sign-out-all'')) (\<lambda>_.
     await (if roleArea = MemberSubject then MembersService_bumpAuthVersion A subjectId
            else StaffUsersService_bumpAuthVersion A subjectId) (\<lambda>_.
     record_activity A ((subject_event TokenRevoked roleArea subjectId)
       \<lparr>si_reasonCategory := Some ''sign-out-all''\<rparr>)))"

subsection \<open>What a sign-in establishes\<close>

text \<open>A session of the subject was opened, with the permissions and the version given.\<close>

definition session_opened ::
  "'e app \<Rightarrow> subject_type \<Rightarrow> string \<Rightarrow> auth_permission list \<Rightarrow> nat \<Rightarrow> session_result \<Rightarrow>
   family list \<Rightarrow> family list \<Rightarrow> bool" where
  "session_opened A subject subjectId permissions version r fs fs' \<longleftrightarrow>
     (\<exists>f. fs' = fs @ [f] \<and> f_familyId f \<notin> f_familyId ` set fs \<and> f_status f = FamilyActive \<and>
        f_subjectType f = subject \<and> f_subjectId f = subjectId \<and>
        f_scopes f = map permission_name permissions \<and> f_authVersion f = version \<and>
        f_currentTokenHash f = Some (sha256 A (sr_refreshToken r)) \<and> f_expiresAt f = sr_refreshExpiresAt r) \<and>
     lg_permissions (sr_response r) = permissions \<and> lg_roleArea (sr_response r) = subject"

text \<open>The account that the password was verified against.\<close>

definition staff_genuine :: "(string \<Rightarrow> string \<Rightarrow> bool) \<Rightarrow> string \<Rightarrow> string \<Rightarrow> staff_user \<Rightarrow> bool" where
  "staff_genuine matches n password u \<longleftrightarrow>
     u_status u = StaffActive \<and> u_email u = to_lower (trim n) \<and> matches (u_passwordHash u) password"

definition member_genuine :: "(string \<Rightarrow> string \<Rightarrow> bool) \<Rightarrow> string \<Rightarrow> string \<Rightarrow> member \<Rightarrow> bool" where
  "member_genuine matches n password m \<longleftrightarrow> may_sign_in m \<and>
     (m_loginIdentifier m = Some (to_lower (trim n)) \<or> m_memberNumber m = to_upper (trim n) \<or>
      m_email m = Some (to_lower (trim n))) \<and>
     matches (the (m_passwordHash m)) password"

text \<open>The sign-in of a staff user or a member that the request is genuine for.\<close>

definition staff_session_opened ::
  "'e app \<Rightarrow> (string \<Rightarrow> string \<Rightarrow> bool) \<Rightarrow> string \<Rightarrow> string \<Rightarrow> 'e world \<Rightarrow> string \<Rightarrow> session_result \<Rightarrow> 'e world \<Rightarrow> bool" where
  "staff_session_opened A matches n password w sid r w' \<longleftrightarrow>
     (\<exists>u \<in> set (staffUsers w). u_id u = sid \<and> staff_genuine matches n password u \<and>
        session_opened A StaffSubject sid (permissionsForStaffRoles (u_roles u)) (u_authVersion u) r
          (families w) (families w'))"

definition member_session_opened ::
  "'e app \<Rightarrow> (string \<Rightarrow> string \<Rightarrow> bool) \<Rightarrow> string \<Rightarrow> string \<Rightarrow> 'e world \<Rightarrow> string \<Rightarrow> session_result \<Rightarrow> 'e world \<Rightarrow> bool" where
  "member_session_opened A matches n password w sid r w' \<longleftrightarrow>
     (\<exists>m \<in> set (members w). m_id m = sid \<and> member_genuine matches n password m \<and>
        session_opened A MemberSubject sid memberRolePermissions (m_authVersion m) r
          (families w) (families w'))"

text \<open>
  What a refresh that returned goes by: a session that was open with this token and in time, whose
  subject is active, with the version of the session, and gets the permissions it has now.
\<close>

definition refresh_current :: "'e app \<Rightarrow> string \<Rightarrow> 'e world \<Rightarrow> family \<Rightarrow> session_result \<Rightarrow> bool" where
  "refresh_current A t w f r \<longleftrightarrow>
     f \<in> set (families w) \<and> usable_with (sha256 A t) (clock A w) f \<and>
     sr_refreshExpiresAt r = f_expiresAt f \<and> lg_roleArea (sr_response r) = f_subjectType f \<and>
     (if f_subjectType f = MemberSubject
      then \<exists>m \<in> set (members w). m_id m = to_lower (f_subjectId f) \<and> m_status m = MemberActive \<and>
        m_authStatus m = Some MemberAuthActive \<and> m_authVersion m = f_authVersion f \<and>
        lg_permissions (sr_response r) = memberRolePermissions
      else \<exists>u \<in> set (staffUsers w). u_id u = to_lower (f_subjectId f) \<and> u_status u = StaffActive \<and>
        u_authVersion u = f_authVersion f \<and>
        lg_permissions (sr_response r) = permissionsForStaffRoles (u_roles u))"

text \<open>Every session of the subject is ended, those of others are kept; its version is raised by one.\<close>

definition signed_out_everywhere :: "subject_type \<Rightarrow> string \<Rightarrow> 'e world \<Rightarrow> 'e world \<Rightarrow> bool" where
  "signed_out_everywhere area sid w w' \<longleftrightarrow>
     signed_out area sid (families w') \<and>
     (\<forall>f \<in> set (families w). \<not> (f_subjectType f = area \<and> f_subjectId f = sid) \<longrightarrow> f \<in> set (families w')) \<and>
     (case area of
        MemberSubject \<Rightarrow> staffUsers w' = staffUsers w \<and> (\<exists>m \<in> set (members w). m_id m = to_lower sid \<and>
          replaced m_id (m\<lparr>m_authVersion := m_authVersion m + 1\<rparr>) (members w) (members w'))
      | StaffSubject \<Rightarrow> members w' = members w \<and>
          (if \<exists>u \<in> set (staffUsers w). u_id u = to_lower sid
           then \<exists>u \<in> set (staffUsers w). u_id u = to_lower sid \<and>
             replaced u_id (u\<lparr>u_authVersion := u_authVersion u + 1\<rparr>) (staffUsers w) (staffUsers w')
           else staffUsers w' = staffUsers w))"

text \<open>A refusal leaves every session as it was.\<close>

definition refused_clean :: "'e world \<Rightarrow> exn \<Rightarrow> 'e world \<Rightarrow> bool" where
  "refused_clean w e w' \<longleftrightarrow> ((\<exists>m. e = Unauthorized m) \<longrightarrow> families w' = families w)"

lemma same_sessions_clean: "families w' = families w \<Longrightarrow> refused_clean w e w'"
  by (simp add: refused_clean_def)

lemma auth_of_fields [simp]:
  "sa_userId (staff_auth_of u) = u_id u"
  "sa_permissions (staff_auth_of u) = permissionsForStaffRoles (u_roles u)"
  "sa_authVersion (staff_auth_of u) = u_authVersion u"
  "ma_memberId (member_auth_of m) = m_id m"
  "ma_permissions (member_auth_of m) = memberRolePermissions"
  "ma_authVersion (member_auth_of m) = m_authVersion m"
  by (simp_all add: staff_auth_of_def member_auth_of_def Let_def)

text \<open>
  The contract of what the service does not own: signing and comparing passwords leave the
  collections alone, the comparison answers \<open>matches\<close> when it answers, and an operation that is read
  as completed is one of the \<open>completed\<close>.
\<close>

locale sign_in_store = member_store A I F V + session_store A + staff_documents A
  for A :: "'e app" and I F V +
  fixes C :: "'e auth_env" and matches :: "string \<Rightarrow> string \<Rightarrow> bool" and completed :: "string \<Rightarrow> bool"
  assumes signing_env: "env_step w (snd (signAsync C claims w))"
    and status_law: "operationStatus C = Some find_status \<Longrightarrow> find_status n w = (r1, w') \<Longrightarrow>
      env_step w w' \<and> (r1 = Inr (Some OperationCompleted) \<longrightarrow> completed n)"
    and compare_law: "bcryptCompare A hash password w = (r2, w') \<Longrightarrow>
      env_step w w' \<and> (\<forall>b. r2 = Inr b \<longrightarrow> b = matches hash password)"
begin

lemma wp_sign:
  assumes "\<And>t z. Q t (w\<lparr>env := z\<rparr>)" and "\<And>e z. E e (w\<lparr>env := z\<rparr>)"
  shows "wp (signAsync C claims) Q E w"
  using signing_env [of w claims] assms unfolding env_step_def by (auto intro!: wpI)

lemma wp_verify:
  assumes "\<And>z. Q (b \<and> matches hash password) (w\<lparr>env := z\<rparr>)" and "\<And>e z. E e (w\<lparr>env := z\<rparr>)"
  shows "wp (verify_when b (PasswordHasherService_verify A hash password)) Q E w"
proof (cases b)
  case True
  have law: "\<exists>z. w' = w\<lparr>env := z\<rparr>" "r = Inr c \<Longrightarrow> c = matches hash password"
    if "bcryptCompare A hash password w = (r, w')" for r w' c
    using compare_law [OF that] by (auto simp: env_step_def)
  show ?thesis
    unfolding verify_when_def PasswordHasherService_verify_def if_P [OF True]
  proof (rule wpI)
    fix a w' assume "bcryptCompare A hash password w = (Inr a, w')"
    from law [OF this] show "Q a w'" using assms(1) True by auto
  next
    fix e w' assume "bcryptCompare A hash password w = (Inl e, w')"
    from law(1) [OF this] show "E e w'" using assms(2) by auto
  qed
next
  case False
  then show ?thesis using assms(1) [where z = "env w"] by (simp add: verify_when_def)
qed

lemma wp_gate:
  assumes "\<And>s z. (s = Some OperationCompleted \<Longrightarrow> completed n) \<Longrightarrow> Q s (w\<lparr>env := z\<rparr>)"
    and "\<And>e z. E e (w\<lparr>env := z\<rparr>)"
  shows "wp (case operationStatus C of None \<Rightarrow> ret None | Some find_status \<Rightarrow> find_status n) Q E w"
proof (cases "operationStatus C")
  case None
  then show ?thesis using assms(1) [where s = None and z = "env w"] by simp
next
  case (Some find_status)
  show ?thesis unfolding Some option.case
  proof (rule wpI)
    fix a w' assume "find_status n w = (Inr a, w')"
    from status_law [OF Some this] show "Q a w'" using assms(1) by (auto simp: env_step_def)
  next
    fix e w' assume "find_status n w = (Inl e, w')"
    from status_law [OF Some this] show "E e w'" using assms(2) by (auto simp: env_step_def)
  qed
qed

lemma wp_recordFailedSignIn:
  assumes "\<And>es z. Q () (w\<lparr>events := es, env := z\<rparr>)" and "\<And>e es z. E e (w\<lparr>events := es, env := z\<rparr>)"
  shows "wp (AuthService_recordFailedSignIn A C n reason subject) Q E w"
proof -
  have old: "E e w" "E e (w\<lparr>env := z\<rparr>)" for e z
    using assms(2) [where e = e and es = "events w" and z = "env w"]
      assms(2) [where e = e and es = "events w" and z = z] by simp_all
  show ?thesis
    unfolding AuthService_recordFailedSignIn_def event_dep option.case
      SecurityActivityService_recordFailedSignIn_def SecurityActivityService_persist_def
    by (auto intro!: ev.ev.wp_createDoc assms simp: old)
qed

lemma wp_deny:
  assumes "\<And>e es z. E e (w\<lparr>events := es, env := z\<rparr>)"
  shows "wp (AuthService_denySharedSignIn A C n reason subject) Q E w"
  unfolding AuthService_denySharedSignIn_def by (auto intro!: wp_recordFailedSignIn assms)

lemma wp_resolve:
  assumes "\<And>i z. i \<in> set (identifiers w) \<Longrightarrow> i_normalizedIdentifier i = n \<Longrightarrow> i_status i = IdentifierActive \<Longrightarrow>
      i_subjectType i \<noteq> None \<Longrightarrow> truthy (i_subjectId i) \<Longrightarrow> Q (Some i) (w\<lparr>env := z\<rparr>)"
    and "\<And>z. Q None (w\<lparr>env := z\<rparr>)" and "\<And>e es z. E e (w\<lparr>events := es, env := z\<rparr>)"
  shows "wp (AuthService_resolveSharedIdentifier A C n) Q E w"
proof -
  have none: "Q None w" using assms(2) [where z = "env w"] by simp
  have old: "E e (w\<lparr>env := z\<rparr>)" "E e (w\<lparr>events := es, env := z\<rparr>)" for e es z
    using assms(3) [where e = e and es = "events w" and z = z] assms(3) by simp_all
  show ?thesis
    unfolding AuthService_resolveSharedIdentifier_def identifier_dep option.case
    by (auto intro!: idn.wp_findOne wp_deny assms(1) none simp: old)
qed

lemma wp_assertGate:
  assumes "\<And>z. (truthy (i_activationGateOperationId i) \<Longrightarrow> completed (the (i_activationGateOperationId i))) \<Longrightarrow>
      Q () (w\<lparr>env := z\<rparr>)"
    and "\<And>e es z. E e (w\<lparr>events := es, env := z\<rparr>)"
  shows "wp (AuthService_assertActivationGateCompleted A C i n) Q E w"
proof -
  have none: "Q () w" if "\<not> truthy (i_activationGateOperationId i)"
    using assms(1) [where z = "env w"] that by simp
  have old: "E e (w\<lparr>env := z\<rparr>)" "E e (w\<lparr>events := es, env := z\<rparr>)" for e es z
    using assms(2) [where e = e and es = "events w" and z = z] assms(2) by simp_all
  show ?thesis
    unfolding AuthService_assertActivationGateCompleted_def
    by (auto intro!: wp_gate wp_deny assms(1) none simp: old)
qed

lemma normalized [simp]: "StaffUsersService_normalizeEmail n = to_lower (trim n)"
  "MembersService_normalizeLoginIdentifier n = to_lower (trim n)"
  by (simp_all add: StaffUsersService_normalizeEmail_def MembersService_normalizeLoginIdentifier_def trim_to_lower)

lemma wp_touchStaff:
  assumes "\<And>us z. Q () (w\<lparr>staffUsers := us, env := z\<rparr>)" and "\<And>e us z. E e (w\<lparr>staffUsers := us, env := z\<rparr>)"
  shows "wp (StaffUsersService_touchLastLogin A i) Q E w"
proof -
  have old: "Q () (w\<lparr>env := z\<rparr>)" "E e w" "E e (w\<lparr>env := z\<rparr>)" for e z
    using assms(1) [where us = "staffUsers w" and z = z] assms(2) [where e = e and us = "staffUsers w" and z = "env w"]
      assms(2) [where e = e and us = "staffUsers w" and z = z] by simp_all
  show ?thesis
    unfolding StaffUsersService_touchLastLogin_def by (auto intro!: su.wp_updateOne assms simp: old)
qed

lemma wp_touchMember:
  assumes "\<And>ms z. Q () (w\<lparr>members := ms, env := z\<rparr>)" and "\<And>e ms z. E e (w\<lparr>members := ms, env := z\<rparr>)"
  shows "wp (MembersService_touchLastLogin A i) Q E w"
proof -
  have old: "Q () (w\<lparr>env := z\<rparr>)" "E e w" "E e (w\<lparr>env := z\<rparr>)" for e z
    using assms(1) [where ms = "members w" and z = z] assms(2) [where e = e and ms = "members w" and z = "env w"]
      assms(2) [where e = e and ms = "members w" and z = z] by simp_all
  show ?thesis
    unfolding MembersService_touchLastLogin_def by (auto intro!: mb.wp_updateOne assms simp: old)
qed

lemma authenticateReservedStaff_outcome:
  "wp (AuthService_authenticateReservedStaff A C n password sid)
     (\<lambda>auth w'. families w' = families w \<and> (\<exists>u \<in> set (staffUsers w). auth = staff_auth_of u \<and>
        u_id u = sid \<and> staff_genuine matches n password u))
     (\<lambda>e w'. families w' = families w) w"
  unfolding AuthService_authenticateReservedStaff_def StaffUsersService_findByEmailWithPassword_def wp_await
  by (rule su.wp_findOne) (auto simp: staff_genuine_def verify_when_def [of False]
      intro!: wp_deny wp_verify wp_touchStaff)

lemma authenticateReservedMember_outcome:
  "wp (AuthService_authenticateReservedMember A C n password sid)
     (\<lambda>auth w'. families w' = families w \<and> (\<exists>m \<in> set (members w). auth = member_auth_of m \<and>
        m_id m = sid \<and> member_genuine matches n password m))
     (\<lambda>e w'. families w' = families w) w"
  unfolding AuthService_authenticateReservedMember_def MembersService_findByLoginIdentifierWithPassword_def
    Let_def wp_await normalized
  by (rule mb.wp_findOne) (auto simp: member_genuine_def verify_when_def [of False]
      intro!: wp_deny wp_verify wp_touchMember)

lemma authenticateStaff_outcome:
  "wp (AuthService_authenticateStaff A C dto)
     (\<lambda>auth w'. families w' = families w \<and> (\<exists>u \<in> set (staffUsers w). auth = staff_auth_of u \<and>
        staff_genuine matches (ld_email dto) (ld_password dto) u))
     (\<lambda>e w'. families w' = families w) w"
  unfolding AuthService_authenticateStaff_def StaffUsersService_findByEmailWithPassword_def wp_await
  by (rule su.wp_findOne) (auto simp: staff_genuine_def verify_when_def [of False]
      intro!: wp_recordFailedSignIn wp_verify wp_touchStaff)

lemma authenticateMember_outcome:
  "wp (AuthService_authenticateMember A C dto)
     (\<lambda>auth w'. families w' = families w \<and> (\<exists>m \<in> set (members w). auth = member_auth_of m \<and>
        member_genuine matches (ml_loginIdentifier dto) (ml_password dto) m))
     (\<lambda>e w'. families w' = families w) w"
  unfolding AuthService_authenticateMember_def MembersService_findByLoginIdentifierWithPassword_def
    Let_def wp_await normalized
  by (rule mb.wp_findOne) (auto simp: member_genuine_def verify_when_def [of False]
      intro!: wp_recordFailedSignIn wp_verify wp_touchMember)

lemma wp_buildStaff:
  assumes "\<And>r z. lg_permissions r = sa_permissions auth \<Longrightarrow> lg_roleArea r = StaffSubject \<Longrightarrow> Q r (w\<lparr>env := z\<rparr>)"
    and "\<And>e z. E e (w\<lparr>env := z\<rparr>)"
  shows "wp (AuthService_buildStaffLoginResponse A C auth) Q E w"
  unfolding AuthService_buildStaffLoginResponse_def Let_def by (auto intro!: wp_uuid wp_sign assms)

lemma wp_buildMember:
  assumes "\<And>r z. lg_permissions r = ma_permissions auth \<Longrightarrow> lg_roleArea r = MemberSubject \<Longrightarrow> Q r (w\<lparr>env := z\<rparr>)"
    and "\<And>e z. E e (w\<lparr>env := z\<rparr>)"
  shows "wp (AuthService_buildMemberLoginResponse A C auth) Q E w"
proof -
  have profile: "wp (MembersService_findSelfServiceProfile A i) Q' E w"
    if "\<And>p z. Q' p (w\<lparr>env := z\<rparr>)" for Q' :: "member_profile \<Rightarrow> 'e world \<Rightarrow> bool" and i
  proof -
    have old: "E e w" "E e (w\<lparr>env := z\<rparr>)" for e z using assms(2) [where z = "env w"] assms(2) by simp_all
    show ?thesis
      unfolding MembersService_findSelfServiceProfile_def MembershipTypesService_findOne_def
        MembershipTypesService_findDocumentById_def
        MembersService_findDocumentById_def
      by (auto intro!: mb.wp_findOne mt.wp_findOne that simp: old)
  qed
  show ?thesis
    unfolding AuthService_buildMemberLoginResponse_def Let_def wp_await
    by (auto intro!: profile wp_uuid wp_sign assms)
qed

lemma wp_createRefreshToken:
  assumes "\<And>t x f w'. families w' = families w @ [f] \<Longrightarrow> f_familyId f \<notin> f_familyId ` set (families w) \<Longrightarrow>
      f_status f = FamilyActive \<Longrightarrow> f_subjectType f = subject \<Longrightarrow> f_subjectId f = sid \<Longrightarrow>
      f_scopes f = map permission_name permissions \<Longrightarrow> f_authVersion f = version \<Longrightarrow>
      f_currentTokenHash f = Some (sha256 A t) \<Longrightarrow> f_expiresAt f = x \<Longrightarrow> Q (t, x) w'"
    and "\<And>m. E (Unauthorized m) w" and "\<And>e w'. store_error e \<Longrightarrow> E e w'"
  shows "wp (AuthService_createRefreshToken A C subject sid permissions version) Q E w"
proof -
  have create: "wp (TokenSessionService_createFamily A input) Q' E w"
    if "\<And>r w'. \<exists>f. families w' = families w @ [f] \<and> f_familyId f \<notin> f_familyId ` set (families w) \<and>
        f_status f = FamilyActive \<and> f_currentTokenHash f = Some (sha256 A (rr_refreshToken r)) \<and>
        f_expiresAt f = rr_expiresAt r \<and> f_subjectType f = cf_subjectType input \<and>
        f_subjectId f = cf_subjectId input \<and> f_scopes f = cf_scopes input \<and>
        f_authVersion f = cf_authVersion input \<Longrightarrow> Q' r w'"
    for input and Q' :: "rotation_result \<Rightarrow> 'e world \<Rightarrow> bool"
    by (rule wp_mono [OF createFamily_outcome]) (use that assms(3) in blast)+
  show ?thesis
    unfolding AuthService_createRefreshToken_def AuthService_getRequiredTokenSessionService_def wp_await
    by (auto intro!: create intro: assms(1,2))
qed

lemma open_staff_outcome:
  assumes "families w = fs"
  shows "wp (open_staff_session A C auth)
     (\<lambda>r w'. session_opened A StaffSubject (sa_userId auth) (sa_permissions auth) (sa_authVersion auth) r
        fs (families w'))
     (\<lambda>e w'. (\<exists>m. e = Unauthorized m) \<longrightarrow> families w' = fs) w"
  unfolding open_staff_session_def wp_await
  by (rule wp_buildStaff) (auto simp: session_opened_def assms intro!: wp_createRefreshToken wp_record_activity)

lemma open_member_outcome:
  assumes "families w = fs"
  shows "wp (open_member_session A C auth)
     (\<lambda>r w'. session_opened A MemberSubject (ma_memberId auth) (ma_permissions auth) (ma_authVersion auth) r
        fs (families w'))
     (\<lambda>e w'. (\<exists>m. e = Unauthorized m) \<longrightarrow> families w' = fs) w"
  unfolding open_member_session_def wp_await
  by (rule wp_buildMember) (auto simp: session_opened_def assms intro!: wp_createRefreshToken wp_record_activity)

lemma staff_sign_in_outcome:
  assumes "wp m (\<lambda>auth w'. families w' = families w \<and> (\<exists>u \<in> set (staffUsers w). auth = staff_auth_of u \<and> R u))
      (\<lambda>e w'. families w' = families w) w1"
  shows "wp (await m (open_staff_session A C))
     (\<lambda>r w'. \<exists>u \<in> set (staffUsers w). R u \<and> session_opened A StaffSubject (u_id u)
        (permissionsForStaffRoles (u_roles u)) (u_authVersion u) r (families w) (families w'))
     (refused_clean w) w1"
  unfolding wp_await
  by (rule wp_mono [OF assms])
    (auto simp: refused_clean_def intro!: wp_mono [OF open_staff_outcome [of _ "families w"]])

lemma member_sign_in_outcome:
  assumes "wp m (\<lambda>auth w'. families w' = families w \<and> (\<exists>u \<in> set (members w). auth = member_auth_of u \<and> R u))
      (\<lambda>e w'. families w' = families w) w1"
  shows "wp (await m (open_member_session A C))
     (\<lambda>r w'. \<exists>u \<in> set (members w). R u \<and> session_opened A MemberSubject (m_id u)
        memberRolePermissions (m_authVersion u) r (families w) (families w'))
     (refused_clean w) w1"
  unfolding wp_await
  by (rule wp_mono [OF assms])
    (auto simp: refused_clean_def intro!: wp_mono [OF open_member_outcome [of _ "families w"]])

lemma createSharedSession_outcome:
  "wp (AuthService_createSharedSession A C dto)
     (\<lambda>r w'. \<exists>i \<in> set (identifiers w). i_normalizedIdentifier i = AuthService_normalizeSharedIdentifier (sl_identifier dto) \<and>
        i_status i = IdentifierActive \<and>
        (truthy (i_activationGateOperationId i) \<longrightarrow> completed (the (i_activationGateOperationId i))) \<and>
        (if i_subjectType i = Some StaffSubject then staff_session_opened else member_session_opened) A matches
          (i_normalizedIdentifier i) (case sl_password dto of None \<Rightarrow> [] | Some p \<Rightarrow> p) w (the (i_subjectId i)) r w')
     (refused_clean w) w"
proof -
  let ?n = "AuthService_normalizeSharedIdentifier (sl_identifier dto)"
  let ?p = "case sl_password dto of None \<Rightarrow> [] | Some p \<Rightarrow> p"
  have staff: "wp (await (AuthService_authenticateReservedStaff A C ?n ?p sid) (open_staff_session A C))
      (staff_session_opened A matches ?n ?p w sid) (refused_clean w) (w\<lparr>env := z, env := z'\<rparr>)" for sid z z'
    by (rule wp_mono [OF staff_sign_in_outcome [where w = w and R = "\<lambda>u. u_id u = sid \<and> staff_genuine matches ?n ?p u",
        OF wp_mono [OF authenticateReservedStaff_outcome]]])
      (auto simp: staff_session_opened_def)
  have member: "wp (await (AuthService_authenticateReservedMember A C ?n ?p sid) (open_member_session A C))
      (member_session_opened A matches ?n ?p w sid) (refused_clean w) (w\<lparr>env := z, env := z'\<rparr>)" for sid z z'
    by (rule wp_mono [OF member_sign_in_outcome [where w = w and R = "\<lambda>u. m_id u = sid \<and> member_genuine matches ?n ?p u",
        OF wp_mono [OF authenticateReservedMember_outcome]]])
      (auto simp: member_session_opened_def)
  show ?thesis
    unfolding AuthService_createSharedSession_def Let_def wp_await
  proof (rule wp_resolve, goal_cases)
    case (1 i z)
    show ?case unfolding option.case wp_await
    proof (rule wp_assertGate, goal_cases)
      case (1 z')
      have gate: "truthy (i_activationGateOperationId i) \<longrightarrow> completed (the (i_activationGateOperationId i))"
        using 1 by blast
      show ?case
      proof (cases "i_subjectType i = Some StaffSubject")
        case True
        show ?thesis unfolding if_P [OF True]
          by (rule wp_mono [OF staff], intro bexI [of _ i] conjI)
            (use True gate \<open>i \<in> _\<close> \<open>i_normalizedIdentifier i = _\<close> \<open>i_status i = _\<close> in simp_all)
      next
        case False
        show ?thesis unfolding if_not_P [OF False]
          by (rule wp_mono [OF member], intro bexI [of _ i] conjI)
            (use False gate \<open>i \<in> _\<close> \<open>i_normalizedIdentifier i = _\<close> \<open>i_status i = _\<close> in simp_all)
      qed
    qed (simp add: same_sessions_clean)
  qed (auto intro!: wp_deny same_sessions_clean)
qed

lemma rotate_accounts:
  assumes "distinct (map k_tokenHash (markers w))"
  shows "wp (TokenSessionService_rotate A t)
    (\<lambda>r w'. (members w' = members w \<and> staffUsers w' = staffUsers w) \<and>
       (\<exists>f \<in> set (families w). usable_with (sha256 A t) (clock A w) f \<and> rr_subjectType r = f_subjectType f \<and>
          rr_subjectId r = f_subjectId f \<and> rr_expiresAt r = f_expiresAt f \<and> rr_authVersion r = f_authVersion f))
    (\<lambda>_ _. True) w"
proof -
  let ?I = "\<lambda>w'. members w' = members w \<and> staffUsers w' = staffUsers w"
  have "session_closed ?I" by (simp add: session_closed_def)
  from wp_conj [OF keepsD [OF keeps_rotate [OF this]] rotate_outcome [OF assms]]
  have *: "wp (TokenSessionService_rotate A t)
      (\<lambda>r w'. ?I w' \<and> rotated_from (sha256 A t) (clock A w) (sha256 A) w r w') (\<lambda>e w'. ?I w' \<and> True) w"
    by blast
  show ?thesis
  proof (rule wp_mono [OF *])
    fix r w' assume r: "?I w' \<and> rotated_from (sha256 A t) (clock A w) (sha256 A) w r w'"
    then obtain as f bs where "families w = as @ f # bs" "usable_with (sha256 A t) (clock A w) f"
      and eq: "r = TokenSessionService_rotationResult f (rr_refreshToken r)"
      unfolding rotated_from_def by blast
    moreover have "rr_subjectType r = f_subjectType f" "rr_subjectId r = f_subjectId f"
      "rr_expiresAt r = f_expiresAt f" "rr_authVersion r = f_authVersion f"
      by (subst eq, simp add: TokenSessionService_rotationResult_def)+
    ultimately show "?I w' \<and> (\<exists>f \<in> set (families w). usable_with (sha256 A t) (clock A w) f \<and>
        rr_subjectType r = f_subjectType f \<and> rr_subjectId r = f_subjectId f \<and> rr_expiresAt r = f_expiresAt f \<and>
        rr_authVersion r = f_authVersion f)" using r by auto
  qed simp
qed

lemma wp_denyRefreshAndRevoke [simp]: "wp (AuthService_denyRefreshAndRevoke A C i reason) Q (\<lambda>_ _. True) w"
  unfolding AuthService_denyRefreshAndRevoke_def AuthService_getRequiredTokenSessionService_def
    TokenSessionService_revokeFamily_def wp_await wp_try_catch wp_throw wp_ret
  by (auto intro!: wp_revoke_where)

lemma wp_active_member:
  assumes "\<And>m z. m \<in> set (members w) \<Longrightarrow> m_id m = to_lower sid \<Longrightarrow> m_status m = MemberActive \<Longrightarrow>
      m_authStatus m = Some MemberAuthActive \<Longrightarrow> Q m (w\<lparr>env := z\<rparr>)"
  shows "wp (active_or_revoke A C i (MembersService_findActiveById A sid)) Q (\<lambda>_ _. True) w"
  unfolding active_or_revoke_def MembersService_findActiveById_def MembersService_findDocumentById_def
  by (auto intro!: mb.wp_findOne assms split: exn.split)

lemma wp_active_staff:
  assumes "\<And>u z. u \<in> set (staffUsers w) \<Longrightarrow> u_id u = to_lower sid \<Longrightarrow> u_status u = StaffActive \<Longrightarrow>
      Q u (w\<lparr>env := z\<rparr>)"
  shows "wp (active_or_revoke A C i (StaffUsersService_findActiveById A sid)) Q (\<lambda>_ _. True) w"
  unfolding active_or_revoke_def StaffUsersService_findActiveById_def StaffUsersService_findDocumentById_def
  by (auto intro!: su.wp_findOne assms split: exn.split)

lemma refresh_outcome:
  assumes "distinct (map k_tokenHash (markers w))"
  shows "wp (AuthService_refresh A C t) (\<lambda>r w'. \<exists>f. refresh_current A t w f r) (\<lambda>_ _. True) w"
proof -
  have rotate: "wp (try_catch (TokenSessionService_rotate A t)
      (\<lambda>error. await (record_activity A x) (\<lambda>_. throw error))) Q (\<lambda>_ _. True) w"
    if "\<And>r w' f. members w' = members w \<Longrightarrow> staffUsers w' = staffUsers w \<Longrightarrow> f \<in> set (families w) \<Longrightarrow>
      usable_with (sha256 A t) (clock A w) f \<Longrightarrow> rr_subjectType r = f_subjectType f \<Longrightarrow>
      rr_subjectId r = f_subjectId f \<Longrightarrow> rr_expiresAt r = f_expiresAt f \<Longrightarrow> rr_authVersion r = f_authVersion f \<Longrightarrow>
      Q r w'" for Q x
    unfolding wp_try_catch wp_await wp_throw
    by (rule wp_mono [OF rotate_accounts [OF assms]]) (use that in auto)
  show ?thesis
    unfolding AuthService_refresh_def AuthService_getRequiredTokenSessionService_def
      wp_await [of "if _ then _ else _"] wp_await [of "try_catch _ _"] wp_if wp_ret wp_throw
  proof (simp del: wp_await wp_try_catch, intro impI rotate, goal_cases)
    case (1 r w' f)
    have any: "wp m (\<lambda>r _. \<exists>f. refresh_current A t w f r) (\<lambda>_ _. True) w'"
      if "wp m (\<lambda>r _. refresh_current A t w f r) (\<lambda>_ _. True) w'" for m
      by (rule wp_mono [OF that]) blast+
    show ?case
      by (intro conjI impI any; cases "f_subjectType f")
        (use 1 in \<open>(auto intro!: wp_active_member wp_active_staff wp_buildMember wp_buildStaff wp_record_activity
           simp: refresh_current_def, blast+)\<close>)
  qed
qed

lemma logoutAll_outcome:
  assumes "sessionsAvailable C"
  shows "wp (AuthService_logoutAll A C area sid) (\<lambda>_. signed_out_everywhere area sid w) (\<lambda>_ _. True) w"
proof -
  let ?fs = "\<lambda>now. update_where (\<lambda>f. (f_subjectType f = area \<and> f_subjectId f = sid) \<and> f_status f = FamilyActive)
    (TokenSessionService_revocationUpdate FamilyRevoked ''sign-out-all'' now) (families w)"
  have out: "signed_out area sid (?fs now)" for now
    using signed_out_revoked [of "TokenSessionService_revocationUpdate FamilyRevoked ''sign-out-all'' now" area sid]
    by (simp add: conj_assoc)
  have kept: "f \<in> set (?fs now)" if "f \<in> set (families w)" "\<not> (f_subjectType f = area \<and> f_subjectId f = sid)" for f now
    using that unfolding set_update_where by force
  have member: "\<exists>m \<in> set (members w). m_id m = to_lower sid \<and>
      replaced m_id (m\<lparr>m_authVersion := Suc (m_authVersion m)\<rparr>) (members w) ms"
    if "one_updated member_clash (\<lambda>m. m_id m = to_lower sid) (\<lambda>m. m\<lparr>m_authVersion := Suc (m_authVersion m)\<rparr>) (members w) ms d"
    for ms d
    using that by (intro bexI [of _ d]) (auto simp: one_updated_def replaced_def)
  have staff: "\<exists>u \<in> set (staffUsers w). u_id u = to_lower sid \<and>
      replaced u_id (u\<lparr>u_authVersion := Suc (u_authVersion u)\<rparr>) (staffUsers w) us"
    if "one_updated staff_user_clash (\<lambda>u. u_id u = to_lower sid) (\<lambda>u. u\<lparr>u_authVersion := Suc (u_authVersion u)\<rparr>) (staffUsers w) us d"
    for us d
    using that by (intro bexI [of _ d]) (auto simp: one_updated_def replaced_def)
  show ?thesis
    unfolding AuthService_logoutAll_def TokenSessionService_revokeSubject_def wp_await wp_whenM if_P [OF assms]
  proof (rule wp_revoke_where, goal_cases)
    case (1 now z)
    show ?case
    proof (cases area)
      case StaffSubject
      then show ?thesis
        using out kept
        unfolding StaffUsersService_bumpAuthVersion_def signed_out_everywhere_def
        by (auto intro!: su.wp_updateOne wp_record_activity dest!: staff)
    next
      case MemberSubject
      then show ?thesis
        using out kept
        unfolding MembersService_bumpAuthVersion_def signed_out_everywhere_def
        by (auto intro!: mb.wp_updateOne wp_record_activity dest!: member) blast
    qed
  qed simp
qed

end

text \<open>The in-memory service: a token is the kind of its claims, and one operation has completed.\<close>

definition mem_auth_env :: "mem_env auth_env" where
  "mem_auth_env = \<lparr>signAsync = (\<lambda>c. ret (''jwt:'' @ (case p_sub c of None \<Rightarrow> [] | Some s \<Rightarrow> s))),
     sessionsAvailable = True,
     operationStatus = Some (\<lambda>n. ret (if n = ''op-1'' then Some OperationCompleted else None)),
     refreshTokenTtlSeconds = Some 604800, accessTokenTtlSeconds = Some 900, auditKeyRing = None\<rparr>"

interpretation mem_sign_in: sign_in_store mem_app "the (identifierModel mem_app)"
  "the (accountFamilyModel mem_app)" "the (eventModel mem_app)" mem_auth_env
  "\<lambda>h p. h = ''bcrypt:'' @ p" "\<lambda>n. n = ''op-1''"
  by (intro sign_in_store.intro sign_in_store_axioms.intro mem_member_store.member_store_axioms
      mem_sessions.session_store_axioms staff_documents.intro mem_staff_users.collection_axioms)
    (auto simp: mem_auth_env_def mem_app_def ret_def split: if_splits)

subsection \<open>Properties\<close>

text \<open>The member of the sample library, and the administrator, with their reservations.\<close>

definition desk_world :: "mem_env world" where
  "desk_world = sample_world\<lparr>identifiers := [
     new_reservation ''olivia'' LoginIdentifier MemberSubject (sample_id CHR ''b'') ''system'' ''r1'',
     (new_reservation ''admin@example.org'' EmailIdentifier StaffSubject (sample_id CHR ''f'') ''system'' ''r2'')
       \<lparr>i_activationGateOperationId := Some ''op-1''\<rparr>]\<rparr>"

definition admin_login :: shared_login_dto where
  "admin_login = \<lparr>sl_identifier = Some '' Admin@Example.org'', sl_password = Some ''secret-password''\<rparr>"

text \<open>C15: a shared sign-in succeeds only with an identifier in active reservation, past its activation
  gate, and with the password of the very account the reservation names, which is active; it then
  opens exactly one new session, for that account, with the permissions and the version the account
  has.  A sign-in that is denied opens none.\<close>

theorem shared_sign_in_is_genuine:
  assumes "sign_in_store A I F V C matches completed"
  shows "case AuthService_createSharedSession A C dto w of
      (Inr r, w') \<Rightarrow> \<exists>i \<in> set (identifiers w).
        i_normalizedIdentifier i = AuthService_normalizeSharedIdentifier (sl_identifier dto) \<and>
        i_status i = IdentifierActive \<and>
        (truthy (i_activationGateOperationId i) \<longrightarrow> completed (the (i_activationGateOperationId i))) \<and>
        (if i_subjectType i = Some StaffSubject then staff_session_opened else member_session_opened) A matches
          (i_normalizedIdentifier i) (case sl_password dto of None \<Rightarrow> [] | Some p \<Rightarrow> p) w (the (i_subjectId i)) r w'
    | (Inl e, w') \<Rightarrow> (\<exists>m. e = Unauthorized m) \<longrightarrow> families w' = families w"
  using sign_in_store.createSharedSession_outcome [OF assms, of dto w]
  unfolding wp_def refused_clean_def .

theorem shared_sign_in_is_genuine_witness:
  "case AuthService_createSharedSession mem_app mem_auth_env admin_login desk_world of
      (Inr r, w') \<Rightarrow> \<exists>i \<in> set (identifiers desk_world).
        i_normalizedIdentifier i = AuthService_normalizeSharedIdentifier (sl_identifier admin_login) \<and>
        i_status i = IdentifierActive
    | (Inl e, w') \<Rightarrow> False"
proof -
  have "\<not> isl (fst (AuthService_createSharedSession mem_app mem_auth_env admin_login desk_world))" by code_simp
  then show ?thesis
    using shared_sign_in_is_genuine [OF mem_sign_in.sign_in_store_axioms, where dto = admin_login and w = desk_world]
    by (cases "AuthService_createSharedSession mem_app mem_auth_env admin_login desk_world";
        cases "fst (AuthService_createSharedSession mem_app mem_auth_env admin_login desk_world)") auto
qed

text \<open>A refresh succeeds only for the current token of an open session that has not expired, whose
  account is active and still has the version the session was opened with; the answer has the
  permissions that the account's roles give now.\<close>

theorem refresh_needs_current_account:
  assumes "sign_in_store A I F V C matches completed" and "distinct (map k_tokenHash (markers w))"
    and "AuthService_refresh A C t w = (Inr r, w')"
  shows "\<exists>f. f \<in> set (families w) \<and> f_status f = FamilyActive \<and> f_currentTokenHash f = Some (sha256 A t) \<and>
    clock A w < f_expiresAt f \<and> sr_refreshExpiresAt r = f_expiresAt f \<and>
    lg_roleArea (sr_response r) = f_subjectType f \<and>
    (if f_subjectType f = MemberSubject
     then \<exists>m \<in> set (members w). m_id m = to_lower (f_subjectId f) \<and> m_status m = MemberActive \<and>
       m_authStatus m = Some MemberAuthActive \<and> m_authVersion m = f_authVersion f \<and>
       lg_permissions (sr_response r) = memberRolePermissions
     else \<exists>u \<in> set (staffUsers w). u_id u = to_lower (f_subjectId f) \<and> u_status u = StaffActive \<and>
       u_authVersion u = f_authVersion f \<and>
       lg_permissions (sr_response r) = permissionsForStaffRoles (u_roles u))"
  using wp_return_value [OF sign_in_store.refresh_outcome [OF assms(1,2)] assms(3)]
  unfolding refresh_current_def usable_with_def by blast

text \<open>The desk after the administrator has signed in.\<close>

definition admin_in :: "mem_env world" where
  "admin_in = snd (AuthService_createSharedSession mem_app mem_auth_env admin_login desk_world)"

definition admin_token :: string where
  "admin_token = sr_refreshToken (projr (fst
     (AuthService_createSharedSession mem_app mem_auth_env admin_login desk_world)))"

theorem refresh_needs_current_account_witness:
  "\<exists>f \<in> set (families admin_in). f_currentTokenHash f = Some (''sha256:'' @ admin_token)"
proof -
  have run: "\<not> isl (fst (AuthService_refresh mem_app mem_auth_env admin_token admin_in))"
    and markers: "distinct (map k_tokenHash (markers admin_in))"
    and hash: "sha256 mem_app admin_token = ''sha256:'' @ admin_token"
    by code_simp+
  from refresh_needs_current_account [OF mem_sign_in.sign_in_store_axioms markers run_returned [OF run]]
  show ?thesis unfolding hash by blast
qed

text \<open>Signing out everywhere ends every session of the account and no other session, and raises the
  version that access tokens are checked against, so that those handed out before are stale.\<close>

theorem logout_all_ends_sessions:
  assumes "sign_in_store A I F V C matches completed" and "sessionsAvailable C"
    and "AuthService_logoutAll A C area sid w = (Inr u, w')"
  shows "signed_out area sid (families w') \<and>
    (\<forall>f \<in> set (families w). \<not> (f_subjectType f = area \<and> f_subjectId f = sid) \<longrightarrow> f \<in> set (families w')) \<and>
    (case area of
       MemberSubject \<Rightarrow> \<exists>m \<in> set (members w). m_id m = to_lower sid \<and>
         replaced m_id (m\<lparr>m_authVersion := m_authVersion m + 1\<rparr>) (members w) (members w')
     | StaffSubject \<Rightarrow> (\<exists>u \<in> set (staffUsers w). u_id u = to_lower sid) \<longrightarrow>
         (\<exists>u \<in> set (staffUsers w). u_id u = to_lower sid \<and>
           replaced u_id (u\<lparr>u_authVersion := u_authVersion u + 1\<rparr>) (staffUsers w) (staffUsers w')))"
  using wp_return_value [OF sign_in_store.logoutAll_outcome [OF assms(1,2)] assms(3)]
  unfolding signed_out_everywhere_def by (auto split: subject_type.splits if_splits)

theorem logout_all_ends_sessions_witness:
  "signed_out StaffSubject (sample_id CHR ''f'') (families (snd (AuthService_logoutAll mem_app mem_auth_env
     StaffSubject (sample_id CHR ''f'') admin_in)))"
proof -
  have run: "\<not> isl (fst (AuthService_logoutAll mem_app mem_auth_env StaffSubject (sample_id CHR ''f'') admin_in))"
    and on: "sessionsAvailable mem_auth_env"
    by code_simp+
  from logout_all_ends_sessions [OF mem_sign_in.sign_in_store_axioms on run_returned [OF run]]
  show ?thesis by blast
qed

end
