(* ===== verification/Throttle.thy ===== *)
theory Throttle
  imports Complex_Main Accounts Sample_World
begin

text \<open>
  \<^verbatim>\<open>src/auth/auth-throttle.service.ts\<close>: sign-ins and refreshes are counted in buckets, one for each
  dimension and keyed hash of the value counted, for a window of time; an attempt that takes the
  count over the limit is denied.

  A record \<open>throttle_env\<close> has what the service gets besides the bucket model: the numbers at the paths
  of the configuration (\<^verbatim>\<open>Number(...)\<close> of the value, \<open>None\<close> where that is not a number), the secrets,
  already read from the configuration or the environment, the required key versions of a key policy
  service, and two calls of the driver on the bucket collection that the contract of a model does not
  have: \<^verbatim>\<open>findOneAndUpdate\<close> with a sort by descending \<^verbatim>\<open>keyVersion\<close>, and \<^verbatim>\<open>distinct\<close>.
\<close>

record throttle_policy =
  tp_limit :: nat
  tp_windowSeconds :: nat

record dimension_input = throttle_policy +
  di_dimension :: throttle_dimension
  di_value :: string

record versioned_secret =
  vs_version :: nat
  vs_secret :: string

datatype denial_reason = ThrottleLimitExceeded | ThrottleKeyRequired

record throttle_decision =
  td_allowed :: bool
  td_reason :: "denial_reason option"
  td_retryAfterSeconds :: "int option"

datatype failure_category =
  UnknownFailure | AmbiguousFailure | InvalidPassword | InactiveFailure | SuspendedFailure | LockedFailure
  | MissingCredential

definition generic_failure_categories :: "failure_category list" where
  "generic_failure_categories = [UnknownFailure, AmbiguousFailure, InvalidPassword, InactiveFailure,
     SuspendedFailure, LockedFailure, MissingCredential]"

record sign_in_throttle_input =
  st_sourceIdentity :: string
  st_normalizedIdentifier :: "string option"
  st_failureCategory :: "failure_category option"

record refresh_throttle_input =
  rf_sourceIdentity :: string
  rf_familyId :: "string option"

record 'e throttle_env =
  configNumber :: "string \<Rightarrow> rat option"
  currentKeyVersion :: "rat option"
  currentKeySecret :: "string option"
  previousKeySecrets :: "(rat option \<times> string option) list option"
  requiredThrottleVersions :: "(date \<Rightarrow> ('e world, nat list) io) option"
  bumpNewest :: "(bucket \<Rightarrow> bool) \<Rightarrow> (bucket \<Rightarrow> bucket) \<Rightarrow> ('e world, bucket option) io"
  distinctKeyVersions :: "(bucket \<Rightarrow> bool) \<Rightarrow> ('e world, nat list) io"

subsection \<open>Configuration\<close>

definition AuthThrottleService_positiveInteger :: "rat option \<Rightarrow> nat option" where
  "AuthThrottleService_positiveInteger parsed =
     (case parsed of None \<Rightarrow> None
      | Some q \<Rightarrow> if q = of_int \<lfloor>q\<rfloor> \<and> 0 < q then Some (nat \<lfloor>q\<rfloor>) else None)"

datatype policy_name = SignInIdentifierFailurePolicy | SignInSourcePolicy | RefreshPolicy

fun flatPaths :: "policy_name \<Rightarrow> string \<times> string" where
  "flatPaths SignInIdentifierFailurePolicy = (''auth.signInIdentifierFailureLimit'', ''auth.signInWindowSeconds'')"
| "flatPaths SignInSourcePolicy = (''auth.signInSourceLimit'', ''auth.signInWindowSeconds'')"
| "flatPaths RefreshPolicy = (''auth.refreshThrottleLimit'', ''auth.refreshThrottleWindowSeconds'')"

fun policy_text :: "policy_name \<Rightarrow> string" where
  "policy_text SignInIdentifierFailurePolicy = ''signInIdentifierFailure''"
| "policy_text SignInSourcePolicy = ''signInSource''"
| "policy_text RefreshPolicy = ''refresh''"

text \<open>\<^verbatim>\<open>a ?? b ?? fallback\<close>\<close>

definition first_of :: "nat option \<Rightarrow> nat option \<Rightarrow> nat \<Rightarrow> nat" where
  "first_of a b fallback = (case a of Some x \<Rightarrow> x | None \<Rightarrow> (case b of Some x \<Rightarrow> x | None \<Rightarrow> fallback))"

definition AuthThrottleService_policy :: "'e throttle_env \<Rightarrow> policy_name \<Rightarrow> nat \<Rightarrow> nat \<Rightarrow> throttle_policy" where
  "AuthThrottleService_policy T name defaultLimit defaultWindowSeconds =
     (let read = (\<lambda>path. AuthThrottleService_positiveInteger (configNumber T path)) in
      \<lparr>tp_limit = first_of (read (fst (flatPaths name)))
         (read (''auth.throttle.'' @ policy_text name @ ''.limit'')) defaultLimit,
       tp_windowSeconds = first_of (read (snd (flatPaths name)))
         (read (''auth.throttle.'' @ policy_text name @ ''.windowSeconds'')) defaultWindowSeconds\<rparr>)"

text \<open>\<^verbatim>\<open>/^[A-Za-z0-9_-]+$/\<close>, and the number of bytes that so many characters decode to.\<close>

definition base64url_char :: "char \<Rightarrow> bool" where
  "base64url_char c = (let n = char_code c in
     (65 \<le> n \<and> n \<le> 90) \<or> (97 \<le> n \<and> n \<le> 122) \<or> (48 \<le> n \<and> n \<le> 57) \<or> n = 95 \<or> n = 45)"

definition base64url_bytes :: "string \<Rightarrow> nat" where
  "base64url_bytes s = 3 * length s div 4"

definition AuthThrottleService_decodeSecret :: "string option \<Rightarrow> string option" where
  "AuthThrottleService_decodeSecret v =
     (case v of None \<Rightarrow> None
      | Some s \<Rightarrow>
          if s = [] \<or> \<not> list_all base64url_char s then None
          else if 32 \<le> base64url_bytes s then Some s else None)"

definition AuthThrottleService_loadKeyring :: "'e throttle_env \<Rightarrow> versioned_secret list" where
  "AuthThrottleService_loadKeyring T =
     (case (AuthThrottleService_positiveInteger (currentKeyVersion T),
            AuthThrottleService_decodeSecret (currentKeySecret T), previousKeySecrets T) of
        (Some currentVersion, Some currentSecret, Some previous) \<Rightarrow>
          \<lparr>vs_version = currentVersion, vs_secret = currentSecret\<rparr> #
          sort_by (\<lambda>a b. vs_version b \<le> vs_version a)
            (List.map_filter (\<lambda>(version, secret).
               case (AuthThrottleService_positiveInteger version, AuthThrottleService_decodeSecret secret) of
                 (Some v, Some s) \<Rightarrow> if v \<noteq> currentVersion then Some \<lparr>vs_version = v, vs_secret = s\<rparr> else None
               | _ \<Rightarrow> None) previous)
      | _ \<Rightarrow> [])"

definition AuthThrottleService_deriveBucketKey :: "'e app \<Rightarrow> string \<Rightarrow> throttle_dimension \<Rightarrow> string \<Rightarrow> string" where
  "AuthThrottleService_deriveBucketKey A secret dimension v =
     hmacSha256 A secret (''book-library/auth-throttle/v1'' @ [CHR 0x00] @ dimension_name dimension @ [CHR 0x00] @ v)"

subsection \<open>One dimension\<close>

definition AuthThrottleService_toDecision :: "bucket \<Rightarrow> nat \<Rightarrow> date \<Rightarrow> throttle_decision" where
  "AuthThrottleService_toDecision b limit now =
     (if a_count b \<le> limit
      then \<lparr>td_allowed = True, td_reason = None, td_retryAfterSeconds = None\<rparr>
      else \<lparr>td_allowed = False, td_reason = Some ThrottleLimitExceeded,
            td_retryAfterSeconds = Some (max 1 \<lceil>of_int (a_expiresAt b - now) / (1000 :: rat)\<rceil>)\<rparr>)"

text \<open>The version and key of the bucket of a value under each secret.\<close>

definition candidates :: "'e app \<Rightarrow> versioned_secret list \<Rightarrow> throttle_dimension \<Rightarrow> string \<Rightarrow> (nat \<times> string) list" where
  "candidates A keyring dimension v =
     map (\<lambda>s. (vs_version s, AuthThrottleService_deriveBucketKey A (vs_secret s) dimension v)) keyring"

definition one_of_buckets :: "throttle_dimension \<Rightarrow> (nat \<times> string) list \<Rightarrow> bucket \<Rightarrow> bool" where
  "one_of_buckets dimension keys b =
     (a_dimension b = dimension \<and> (a_keyVersion b, a_bucketKey b) \<in> set keys)"

definition count_once :: "bucket \<Rightarrow> bucket" where
  "count_once b = b\<lparr>a_count := a_count b + 1\<rparr>"

text \<open>The update pipeline: an unexpired bucket is counted up, any other starts a new window.\<close>

definition count_or_restart :: "date \<Rightarrow> date \<Rightarrow> bucket \<Rightarrow> bucket" where
  "count_or_restart now expiresAt b =
     (if now < a_expiresAt b then count_once b
      else b\<lparr>a_count := 1, a_windowStartedAt := now, a_expiresAt := expiresAt\<rparr>)"

definition first_bucket :: "throttle_dimension \<Rightarrow> nat \<times> string \<Rightarrow> date \<Rightarrow> date \<Rightarrow> bucket" where
  "first_bucket dimension key now expiresAt =
     \<lparr>a_dimension = dimension, a_keyVersion = fst key, a_bucketKey = snd key, a_count = 1,
      a_windowStartedAt = now, a_expiresAt = expiresAt\<rparr>"

definition AuthThrottleService_isDuplicateKeyError :: "exn \<Rightarrow> bool" where
  "AuthThrottleService_isDuplicateKeyError e = (error_code e = Some duplicate_key_code)"

definition AuthThrottleService_consumeDimension ::
  "'e app \<Rightarrow> 'e throttle_env \<Rightarrow> dimension_input \<Rightarrow> versioned_secret list \<Rightarrow> date \<Rightarrow> ('e world, throttle_decision) io" where
  "AuthThrottleService_consumeDimension A T input keyring now =
     (let keys = candidates A keyring (di_dimension input) (di_value input);
          current = hd keys;
          expiresAt = now + int (tp_windowSeconds input) * 1000 in
      await (bumpNewest T (\<lambda>b. one_of_buckets (di_dimension input) keys b \<and> now < a_expiresAt b) count_once) (\<lambda>existing.
      case existing of
        Some b \<Rightarrow> ret (AuthThrottleService_toDecision b (tp_limit input) now)
      | None \<Rightarrow>
          await (try_catch
            (await (findOneAndUpsert (bucketModel A) (one_of_buckets (di_dimension input) [current])
               (count_or_restart now expiresAt)
               (\<lambda>_. first_bucket (di_dimension input) current now expiresAt)) (\<lambda>b. ret (Some b)))
            (\<lambda>error.
              if \<not> AuthThrottleService_isDuplicateKeyError error then throw error
              else findOneAndUpdate (bucketModel A)
                (\<lambda>b. one_of_buckets (di_dimension input) [current] b \<and> now < a_expiresAt b) count_once)) (\<lambda>bucket.
          case bucket of
            None \<Rightarrow> ret \<lparr>td_allowed = False, td_reason = Some ThrottleLimitExceeded, td_retryAfterSeconds = None\<rparr>
          | Some b \<Rightarrow> ret (AuthThrottleService_toDecision b (tp_limit input) now))))"

subsection \<open>Several dimensions\<close>

text \<open>
  \<^verbatim>\<open>Promise.all\<close>: every computation runs, and the first that has failed fails the whole.  The
  dimensions of one call have buckets of their own, so their order does not matter.
\<close>

fun settle_all :: "('w, 'a) io list \<Rightarrow> ('w, (exn + 'a) list) io" where
  "settle_all [] = ret []"
| "settle_all (m # ms) =
     await (try_catch (await m (\<lambda>a. ret (Inr a))) (\<lambda>e. ret (Inl e))) (\<lambda>r.
     await (settle_all ms) (\<lambda>rs. ret (r # rs)))"

definition promise_all :: "('w, 'a) io list \<Rightarrow> ('w, 'a list) io" where
  "promise_all ms = await (settle_all ms) (\<lambda>rs.
     case find isl rs of Some r \<Rightarrow> throw (projl r) | None \<Rightarrow> ret (map projr rs))"

definition AuthThrottleService_hasEveryReferencedKey ::
  "'e throttle_env \<Rightarrow> versioned_secret list \<Rightarrow> date \<Rightarrow> ('e world, bool) io" where
  "AuthThrottleService_hasEveryReferencedKey T keyring now =
     await (case requiredThrottleVersions T of
         Some required \<Rightarrow> required now
       | None \<Rightarrow> distinctKeyVersions T (\<lambda>b. now < a_expiresAt b)) (\<lambda>versions.
     ret (list_all (\<lambda>v. v \<in> vs_version ` set keyring) versions))"

definition AuthThrottleService_consumeMany ::
  "'e app \<Rightarrow> 'e throttle_env \<Rightarrow> dimension_input list \<Rightarrow> date \<Rightarrow> ('e world, throttle_decision) io" where
  "AuthThrottleService_consumeMany A T dimensions now =
     (let keyring = AuthThrottleService_loadKeyring T;
          key_required = \<lparr>td_allowed = False, td_reason = Some ThrottleKeyRequired, td_retryAfterSeconds = None\<rparr> in
      if keyring = [] then ret key_required
      else
      await (AuthThrottleService_hasEveryReferencedKey T keyring now) (\<lambda>complete.
      if \<not> complete then ret key_required
      else
      await (promise_all (map (\<lambda>d. AuthThrottleService_consumeDimension A T d keyring now) dimensions)) (\<lambda>decisions.
      (let denied = filter (\<lambda>d. \<not> td_allowed d) decisions in
       if denied = [] then ret \<lparr>td_allowed = True, td_reason = None, td_retryAfterSeconds = None\<rparr>
       else ret \<lparr>td_allowed = False, td_reason = Some ThrottleLimitExceeded,
         td_retryAfterSeconds = Some (Max (set (map (\<lambda>d. case td_retryAfterSeconds d of Some s \<Rightarrow> s | None \<Rightarrow> 1)
           denied)))\<rparr>))))"

definition sign_in_source :: "'e throttle_env \<Rightarrow> string \<Rightarrow> dimension_input" where
  "sign_in_source T v = (let p = AuthThrottleService_policy T SignInSourcePolicy 20 900 in
     \<lparr>tp_limit = tp_limit p, tp_windowSeconds = tp_windowSeconds p, di_dimension = SignInSource, di_value = v\<rparr>)"

definition identifier_failure :: "'e throttle_env \<Rightarrow> string \<Rightarrow> dimension_input" where
  "identifier_failure T v = (let p = AuthThrottleService_policy T SignInIdentifierFailurePolicy 5 900 in
     \<lparr>tp_limit = tp_limit p, tp_windowSeconds = tp_windowSeconds p, di_dimension = SignInIdentifierFailure,
      di_value = v\<rparr>)"

definition refresh_dimension :: "'e throttle_env \<Rightarrow> throttle_dimension \<Rightarrow> string \<Rightarrow> dimension_input" where
  "refresh_dimension T dimension v = (let p = AuthThrottleService_policy T RefreshPolicy 30 300 in
     \<lparr>tp_limit = tp_limit p, tp_windowSeconds = tp_windowSeconds p, di_dimension = dimension, di_value = v\<rparr>)"

definition AuthThrottleService_consumeSignInAttempt ::
  "'e app \<Rightarrow> 'e throttle_env \<Rightarrow> sign_in_throttle_input \<Rightarrow> date \<Rightarrow> ('e world, throttle_decision) io" where
  "AuthThrottleService_consumeSignInAttempt A T input now =
     AuthThrottleService_consumeMany A T
       (sign_in_source T (st_sourceIdentity input) #
        (if truthy (st_normalizedIdentifier input) \<and>
            (case st_failureCategory input of None \<Rightarrow> False | Some c \<Rightarrow> c \<in> set generic_failure_categories)
         then [identifier_failure T (the (st_normalizedIdentifier input))] else [])) now"

definition AuthThrottleService_consumeSignInIdentifierFailure ::
  "'e app \<Rightarrow> 'e throttle_env \<Rightarrow> string \<Rightarrow> failure_category \<Rightarrow> date \<Rightarrow> ('e world, throttle_decision) io" where
  "AuthThrottleService_consumeSignInIdentifierFailure A T normalizedIdentifier failureCategory now =
     (if failureCategory \<notin> set generic_failure_categories
      then ret \<lparr>td_allowed = True, td_reason = None, td_retryAfterSeconds = None\<rparr>
      else AuthThrottleService_consumeMany A T [identifier_failure T normalizedIdentifier] now)"

definition AuthThrottleService_consumeRefreshAttempt ::
  "'e app \<Rightarrow> 'e throttle_env \<Rightarrow> refresh_throttle_input \<Rightarrow> date \<Rightarrow> ('e world, throttle_decision) io" where
  "AuthThrottleService_consumeRefreshAttempt A T input now =
     AuthThrottleService_consumeMany A T
       (refresh_dimension T RefreshSource (rf_sourceIdentity input) #
        (if truthy (rf_familyId input) then [refresh_dimension T RefreshFamily (the (rf_familyId input))] else [])) now"

subsection \<open>A window\<close>

text \<open>
  Of the buckets of a value, at most one is unexpired at \<open>t0\<close>; it stays so until \<open>until\<close> and has
  counted \<open>n\<close> attempts or more.
\<close>

definition window ::
  "throttle_dimension \<Rightarrow> (nat \<times> string) list \<Rightarrow> date \<Rightarrow> date \<Rightarrow> nat \<Rightarrow> bucket list \<Rightarrow> bool" where
  "window dimension keys t0 until n bs \<longleftrightarrow>
     (let live = filter (\<lambda>b. one_of_buckets dimension keys b \<and> t0 < a_expiresAt b) bs in
      live = [] \<and> n = 0 \<or> (\<exists>b. live = [b] \<and> until \<le> a_expiresAt b \<and> n \<le> a_count b))"

text \<open>The number of attempts that are allowed, one attempt at each of the times given.\<close>

fun allowed_attempts ::
  "'e app \<Rightarrow> 'e throttle_env \<Rightarrow> dimension_input \<Rightarrow> versioned_secret list \<Rightarrow> date list \<Rightarrow> 'e world \<Rightarrow> nat" where
  "allowed_attempts A T input keyring [] w = 0"
| "allowed_attempts A T input keyring (t # ts) w =
     (case AuthThrottleService_consumeDimension A T input keyring t w of
        (Inr d, w') \<Rightarrow> (if td_allowed d then 1 else 0) + allowed_attempts A T input keyring ts w'
      | (Inl e, w') \<Rightarrow> allowed_attempts A T input keyring ts w')"

lemma window_less: "window dimension keys t0 until n bs \<Longrightarrow> m \<le> n \<Longrightarrow> window dimension keys t0 until m bs"
  by (auto simp: window_def Let_def)

lemma count_once_fields [simp]:
  "a_dimension (count_once b) = a_dimension b" "a_keyVersion (count_once b) = a_keyVersion b"
  "a_bucketKey (count_once b) = a_bucketKey b" "a_expiresAt (count_once b) = a_expiresAt b"
  "a_count (count_once b) = Suc (a_count b)" "one_of_buckets dimension keys (count_once b) = one_of_buckets dimension keys b"
  by (simp_all add: count_once_def one_of_buckets_def)

lemma restart_fields [simp]:
  "one_of_buckets dimension keys (count_or_restart now x b) = one_of_buckets dimension keys b"
  "\<not> now < a_expiresAt b \<Longrightarrow> a_expiresAt (count_or_restart now x b) = x"
  "\<not> now < a_expiresAt b \<Longrightarrow> a_count (count_or_restart now x b) = 1"
  by (simp_all add: count_or_restart_def one_of_buckets_def)

lemma window_counted:
  assumes "window dimension keys t0 until n bs" and "one_updated bucket_clash p count_once bs bs' d"
    and "one_of_buckets dimension keys d" and "t0 < a_expiresAt d"
  shows "window dimension keys t0 until (Suc n) bs' \<and> Suc n \<le> a_count (count_once d)"
proof -
  from assms(2) obtain as cs where bs: "bs = as @ d # cs" "bs' = as @ count_once d # cs"
    unfolding one_updated_def by blast
  with assms(1,3,4) show ?thesis by (auto simp: window_def Let_def append_eq_Cons_conv)
qed

lemma window_opened:
  assumes "window dimension keys t0 until n bs"
    and none: "\<forall>b \<in> set bs. \<not> (one_of_buckets dimension keys b \<and> t < a_expiresAt b)"
    and t: "t0 \<le> t" "t < until" "until \<le> x"
  shows "n = 0" and "one_updated bucket_clash p (count_or_restart t x) bs bs' d \<Longrightarrow>
      one_of_buckets dimension keys d \<Longrightarrow>
      window dimension keys t0 until 1 bs' \<and> a_count (count_or_restart t x d) = 1"
    and "key \<in> set keys \<Longrightarrow> window dimension keys t0 until 1 (bs @ [first_bucket dimension key t x])"
proof -
  have live: "filter (\<lambda>b. one_of_buckets dimension keys b \<and> t0 < a_expiresAt b) bs = []"
  proof (rule ccontr)
    assume "\<not> ?thesis"
    then obtain b where b: "filter (\<lambda>b. one_of_buckets dimension keys b \<and> t0 < a_expiresAt b) bs = [b]"
      and "until \<le> a_expiresAt b" using assms(1) by (auto simp: window_def Let_def)
    moreover have "b \<in> set bs" "one_of_buckets dimension keys b"
      using b by (metis (no_types, lifting) filter_eq_ConsD in_set_conv_decomp)+
    ultimately show False using none t by auto
  qed
  then show "n = 0" using assms(1) by (simp add: window_def)
  show "window dimension keys t0 until 1 (bs @ [first_bucket dimension key t x])" if "key \<in> set keys"
    using live t that by (simp add: window_def first_bucket_def one_of_buckets_def)
  assume "one_updated bucket_clash p (count_or_restart t x) bs bs' d" and d: "one_of_buckets dimension keys d"
  then obtain as cs where bs: "bs = as @ d # cs" "bs' = as @ count_or_restart t x d # cs"
    unfolding one_updated_def by blast
  have "\<not> t < a_expiresAt d" using none bs(1) d by simp
  then show "window dimension keys t0 until 1 bs' \<and> a_count (count_or_restart t x d) = 1"
    using live t bs d by (auto simp: window_def split: if_splits)
qed

text \<open>The contract of the sorted update, and of \<^verbatim>\<open>distinct\<close>.\<close>

locale throttle_store =
  bk: collection "bucketModel A" buckets buckets_update bucket_clash always_valid bucket_ident
  for A :: "'e app" +
  fixes T :: "'e throttle_env"
  assumes bump_law: "bumpNewest T p f w = (r, w') \<Longrightarrow>
      (case r of
         Inl e \<Rightarrow> store_error e \<and> (env_step w w' \<or>
           (\<exists>bs d. one_updated bucket_clash p f (buckets w) bs d \<and> env_step (w\<lparr>buckets := bs\<rparr>) w'))
       | Inr None \<Rightarrow> (\<forall>d \<in> set (buckets w). \<not> p d) \<and> env_step w w'
       | Inr (Some b) \<Rightarrow> (\<exists>bs d. b = f d \<and> one_updated bucket_clash p f (buckets w) bs d \<and>
           (\<forall>x \<in> set (buckets w). p x \<longrightarrow> a_keyVersion x \<le> a_keyVersion d) \<and>
           env_step (w\<lparr>buckets := bs\<rparr>) w'))"
    and distinct_law: "distinctKeyVersions T p w = (r2, w') \<Longrightarrow>
      env_step w w' \<and> (case r2 of Inl e \<Rightarrow> store_error e
        | Inr vs \<Rightarrow> set vs = a_keyVersion ` {b \<in> set (buckets w). p b})"
begin

lemma wp_bump:
  assumes "\<And>z. \<forall>d \<in> set (buckets w). \<not> p d \<Longrightarrow> Q None (w\<lparr>env := z\<rparr>)"
    and "\<And>bs d z. one_updated bucket_clash p f (buckets w) bs d \<Longrightarrow> Q (Some (f d)) (w\<lparr>buckets := bs, env := z\<rparr>)"
    and "\<And>e z. E e (w\<lparr>env := z\<rparr>)"
    and "\<And>e bs d z. one_updated bucket_clash p f (buckets w) bs d \<Longrightarrow> E e (w\<lparr>buckets := bs, env := z\<rparr>)"
  shows "wp (bumpNewest T p f) Q E w"
proof (rule wpI)
  fix a w' assume "bumpNewest T p f w = (Inr a, w')"
  from bump_law [OF this] show "Q a w'" using assms(1,2) by (cases a) (auto simp: env_step_def)
next
  fix e w' assume "bumpNewest T p f w = (Inl e, w')"
  from bump_law [OF this] show "E e w'" using assms(3,4) by (auto simp: env_step_def)
qed

lemma consumeDimension_outcome:
  assumes "window (di_dimension input) (candidates A keyring (di_dimension input) (di_value input)) t0 until n (buckets w)"
    and "keyring \<noteq> []" and "t0 \<le> t" and "t < until" and "until \<le> t0 + int (tp_windowSeconds input) * 1000"
  shows "wp (AuthThrottleService_consumeDimension A T input keyring t)
    (\<lambda>d w'. window (di_dimension input) (candidates A keyring (di_dimension input) (di_value input)) t0 until
        (if td_allowed d then Suc n else n) (buckets w') \<and> (td_allowed d \<longrightarrow> Suc n \<le> tp_limit input))
    (\<lambda>e w'. window (di_dimension input) (candidates A keyring (di_dimension input) (di_value input)) t0 until
        n (buckets w')) w"
proof -
  let ?d = "di_dimension input" and ?keys = "candidates A keyring (di_dimension input) (di_value input)"
    and ?x = "t + int (tp_windowSeconds input) * 1000"
  have x: "until \<le> ?x" using assms(3,5) by simp
  have hd: "hd ?keys \<in> set ?keys" using assms(2) by (cases keyring) (simp_all add: candidates_def)
  have own: "one_of_buckets ?d ?keys b" if "one_of_buckets ?d [hd ?keys] b" for b
    using that hd by (auto simp: one_of_buckets_def)
  have decided: "window ?d ?keys t0 until (if td_allowed d then Suc n else n) bs \<and> (td_allowed d \<longrightarrow> Suc n \<le> tp_limit input)"
    if "window ?d ?keys t0 until (Suc n) bs" "Suc n \<le> a_count b"
      "d = AuthThrottleService_toDecision b (tp_limit input) t" for d b bs
    using that window_less [OF that(1)] by (auto simp: AuthThrottleService_toDecision_def)
  show ?thesis
    unfolding AuthThrottleService_consumeDimension_def Let_def wp_await
  proof (rule wp_bump, goal_cases)
    case (1 z)
    note opened = window_opened [OF assms(1) 1 assms(3,4) x]
    have retry: "wp (findOneAndUpdate (bucketModel A)
        (\<lambda>b. one_of_buckets ?d [hd ?keys] b \<and> t < a_expiresAt b) count_once)
        (\<lambda>b. wp (case b of None \<Rightarrow> ret \<lparr>td_allowed = False, td_reason = Some ThrottleLimitExceeded,
              td_retryAfterSeconds = None\<rparr>
            | Some b \<Rightarrow> ret (AuthThrottleService_toDecision b (tp_limit input) t))
          (\<lambda>d w'. window ?d ?keys t0 until (if td_allowed d then Suc n else n) (buckets w') \<and>
             (td_allowed d \<longrightarrow> Suc n \<le> tp_limit input))
          (\<lambda>e w'. window ?d ?keys t0 until n (buckets w')))
        (\<lambda>e w'. window ?d ?keys t0 until n (buckets w')) w1"
      if w1: "window ?d ?keys t0 until n (buckets w1)" for w1
    proof (rule bk.wp_findOneAndUpdate, goal_cases)
      case (2 bs b z')
      then have "one_of_buckets ?d [hd ?keys] b \<and> t < a_expiresAt b" by (auto simp: one_updated_def)
      with window_counted [OF w1 2] own assms(3)
      have "window ?d ?keys t0 until (Suc n) bs \<and> Suc n \<le> a_count (count_once b)" by auto
      then show ?case using decided [of bs "count_once b"] by (simp del: count_once_fields)
    next
      case (4 e bs b z')
      then have "one_of_buckets ?d [hd ?keys] b \<and> t < a_expiresAt b" by (auto simp: one_updated_def)
      with window_counted [OF w1 4(2)] own assms(3) show ?case by (auto intro: window_less)
    qed (use w1 in simp_all)
    show ?case unfolding option.case wp_await wp_try_catch
    proof (rule bk.wp_findOneAndUpsert, goal_cases)
      case (1 bs b z')
      then have "one_of_buckets ?d ?keys b" using own by (auto simp: one_updated_def)
      with opened(2) 1 have "window ?d ?keys t0 until 1 bs \<and> a_count (count_or_restart t ?x b) = 1" by simp
      then show ?case using decided [of bs "count_or_restart t ?x b"] opened(1) by simp
    next
      case (2 i z')
      then show ?case using decided [of _ "first_bucket ?d (hd ?keys) t ?x"] opened(1) opened(3) [OF hd]
        by (simp add: first_bucket_def)
    next
      case (3 e z')
      then show ?case using retry assms(1) by (simp add: wp_if del: wp_await)
    next
      case (4 e bs b z')
      then have "one_of_buckets ?d ?keys b" using own by (auto simp: one_updated_def)
      with opened(2) 4(2) have "window ?d ?keys t0 until n bs" by (auto simp: opened(1) intro: window_less)
      then show ?case using retry by (simp add: wp_if del: wp_await)
    next
      case (5 e i z')
      have "window ?d ?keys t0 until n (buckets w @ [first_bucket ?d (hd ?keys) t ?x])"
        using opened(3) [OF hd] by (auto simp: opened(1) intro: window_less)
      then show ?case using retry by (simp add: wp_if del: wp_await)
    qed
  next
    case (2 bs b z)
    then have "one_of_buckets ?d ?keys b \<and> t < a_expiresAt b" by (auto simp: one_updated_def)
    with window_counted [OF assms(1) 2] assms(3)
    have "window ?d ?keys t0 until (Suc n) bs \<and> Suc n \<le> a_count (count_once b)" by auto
    then show ?case using decided [of bs "count_once b"] by (simp del: count_once_fields)
  next
    case (4 e bs b z)
    then have "one_of_buckets ?d ?keys b \<and> t < a_expiresAt b" by (auto simp: one_updated_def)
    with window_counted [OF assms(1) 4] assms(3) show ?case by (auto intro: window_less)
  qed (use assms(1) in simp)
qed

lemma allowed_attempts_bound:
  assumes "window (di_dimension input) (candidates A keyring (di_dimension input) (di_value input)) t0 until n (buckets w)"
    and "keyring \<noteq> []" and "\<forall>t \<in> set ts. t0 \<le> t \<and> t < until"
    and "until \<le> t0 + int (tp_windowSeconds input) * 1000"
  shows "allowed_attempts A T input keyring ts w \<le> tp_limit input - n"
  using assms
proof (induction ts arbitrary: w n)
  case (Cons t ts)
  have "wp (AuthThrottleService_consumeDimension A T input keyring t)
      (\<lambda>d w'. window (di_dimension input) (candidates A keyring (di_dimension input) (di_value input)) t0 until
          (if td_allowed d then Suc n else n) (buckets w') \<and> (td_allowed d \<longrightarrow> Suc n \<le> tp_limit input))
      (\<lambda>e w'. window (di_dimension input) (candidates A keyring (di_dimension input) (di_value input)) t0 until
          n (buckets w')) w"
    by (rule consumeDimension_outcome) (use Cons.prems in auto)
  then show ?case using Cons.IH [OF _ Cons.prems(2) _ Cons.prems(4)] Cons.prems(3)
    by (fastforce simp: wp_def split: prod.splits sum.splits if_splits)
qed simp

lemma wp_hasEveryReferencedKey:
  assumes "requiredThrottleVersions T = None"
    and "\<And>z. Q (\<forall>b \<in> set (buckets w). now < a_expiresAt b \<longrightarrow> a_keyVersion b \<in> vs_version ` set keyring) (w\<lparr>env := z\<rparr>)"
    and "\<And>e z. E e (w\<lparr>env := z\<rparr>)"
  shows "wp (AuthThrottleService_hasEveryReferencedKey T keyring now) Q E w"
  unfolding AuthThrottleService_hasEveryReferencedKey_def assms(1) option.case wp_await
proof (rule wpI)
  fix vs w' assume "distinctKeyVersions T (\<lambda>b. now < a_expiresAt b) w = (Inr vs, w')"
  from distinct_law [OF this] obtain z where w': "w' = w\<lparr>env := z\<rparr>"
    and "set vs = a_keyVersion ` {b \<in> set (buckets w). now < a_expiresAt b}" by (auto simp: env_step_def)
  then have "list_all (\<lambda>v. v \<in> vs_version ` set keyring) vs =
      (\<forall>b \<in> set (buckets w). now < a_expiresAt b \<longrightarrow> a_keyVersion b \<in> vs_version ` set keyring)"
    by (auto simp: list_all_iff)
  then show "wp (ret (list_all (\<lambda>v. v \<in> vs_version ` set keyring) vs)) Q E w'"
    using assms(2) w' by simp
next
  fix e w' assume "distinctKeyVersions T (\<lambda>b. now < a_expiresAt b) w = (Inl e, w')"
  from distinct_law [OF this] show "E e w'" using assms(3) by (auto simp: env_step_def)
qed

lemma consumeMany_missing_key:
  assumes "requiredThrottleVersions T = None"
    and "AuthThrottleService_loadKeyring T = [] \<or>
      (\<exists>b \<in> set (buckets w). now < a_expiresAt b \<and> a_keyVersion b \<notin> vs_version ` set (AuthThrottleService_loadKeyring T))"
  shows "wp (AuthThrottleService_consumeMany A T ds now)
    (\<lambda>d w'. d = \<lparr>td_allowed = False, td_reason = Some ThrottleKeyRequired, td_retryAfterSeconds = None\<rparr> \<and>
       buckets w' = buckets w)
    (\<lambda>e w'. buckets w' = buckets w) w"
proof (cases "AuthThrottleService_loadKeyring T = []")
  case False
  with assms(2) have miss: "\<not> (\<forall>b \<in> set (buckets w). now < a_expiresAt b \<longrightarrow>
      a_keyVersion b \<in> vs_version ` set (AuthThrottleService_loadKeyring T))" by blast
  show ?thesis
    unfolding AuthThrottleService_consumeMany_def Let_def if_not_P [OF False] wp_await
    by (rule wp_hasEveryReferencedKey [OF assms(1)]) (simp_all only: miss, simp_all)
qed (simp add: AuthThrottleService_consumeMany_def)

end

subsection \<open>In memory\<close>

definition mem_bump :: "(bucket \<Rightarrow> bool) \<Rightarrow> (bucket \<Rightarrow> bucket) \<Rightarrow> (mem_env world, bucket option) io" where
  "mem_bump p f w =
     mem_update buckets buckets_update bucket_clash
       (\<lambda>b. p b \<and> list_all (\<lambda>x. p x \<longrightarrow> a_keyVersion x \<le> a_keyVersion b) (buckets w)) f w"

definition mem_throttle_env :: "mem_env throttle_env" where
  "mem_throttle_env = \<lparr>configNumber = (\<lambda>_. None), currentKeyVersion = Some 2,
     currentKeySecret = Some (replicate 43 CHR ''k''),
     previousKeySecrets = Some [(Some 1, Some (replicate 43 CHR ''p''))],
     requiredThrottleVersions = None, bumpNewest = mem_bump,
     distinctKeyVersions = (\<lambda>p w. (Inr (remdups (map a_keyVersion (filter p (buckets w)))), w))\<rparr>"

lemma newest_exists:
  assumes "b \<in> set bs" and "p b"
  shows "\<exists>d \<in> set bs. p d \<and> list_all (\<lambda>x. p x \<longrightarrow> a_keyVersion x \<le> a_keyVersion d) bs"
proof -
  let ?V = "a_keyVersion ` {x \<in> set bs. p x}"
  have "finite ?V" "?V \<noteq> {}" using assms by auto
  then have "Max ?V \<in> ?V" and le: "\<forall>v \<in> ?V. v \<le> Max ?V" by simp_all
  then obtain d where "d \<in> set bs" "p d" "Max ?V = a_keyVersion d" by blast
  with le show ?thesis by (intro bexI [of _ d]) (auto simp: list_all_iff)
qed

interpretation mem_throttle: throttle_store mem_app mem_throttle_env
proof unfold_locales
  fix p f w r w' assume "bumpNewest mem_throttle_env p f w = (r, w')"
  then have upd: "mem_update buckets buckets_update bucket_clash
      (\<lambda>b. p b \<and> list_all (\<lambda>x. p x \<longrightarrow> a_keyVersion x \<le> a_keyVersion b) (buckets w)) f w = (r, w')"
    by (simp add: mem_throttle_env_def mem_bump_def)
  have one: "one_updated bucket_clash p f (buckets w) bs d \<and> (\<forall>x \<in> set (buckets w). p x \<longrightarrow> a_keyVersion x \<le> a_keyVersion d)"
    if "one_updated bucket_clash (\<lambda>b. p b \<and> list_all (\<lambda>x. p x \<longrightarrow> a_keyVersion x \<le> a_keyVersion b) (buckets w)) f
      (buckets w) bs d" for bs d
    using that by (fastforce simp: one_updated_def list_all_iff)
  have none: "\<forall>d \<in> set (buckets w). \<not> p d"
    if "\<forall>d \<in> set (buckets w). \<not> (p d \<and> list_all (\<lambda>x. p x \<longrightarrow> a_keyVersion x \<le> a_keyVersion d) (buckets w))"
    using that newest_exists [of _ "buckets w" p] by blast
  show "case r of
      Inl e \<Rightarrow> store_error e \<and> (env_step w w' \<or>
        (\<exists>bs d. one_updated bucket_clash p f (buckets w) bs d \<and> env_step (w\<lparr>buckets := bs\<rparr>) w'))
    | Inr None \<Rightarrow> (\<forall>d \<in> set (buckets w). \<not> p d) \<and> env_step w w'
    | Inr (Some b) \<Rightarrow> (\<exists>bs d. b = f d \<and> one_updated bucket_clash p f (buckets w) bs d \<and>
        (\<forall>x \<in> set (buckets w). p x \<longrightarrow> a_keyVersion x \<le> a_keyVersion d) \<and> env_step (w\<lparr>buckets := bs\<rparr>) w')"
  proof (cases r)
    case (Inl e)
    with mem_update_outcome [OF upd] show ?thesis by auto
  next
    case (Inr found)
    then show ?thesis
    proof (cases found)
      case None
      with mem_update_outcome [OF upd] Inr have "w' = w" and "\<forall>d \<in> set (buckets w). \<not> (p d \<and>
          list_all (\<lambda>x. p x \<longrightarrow> a_keyVersion x \<le> a_keyVersion d) (buckets w))" by simp_all
      with none None Inr show ?thesis by simp
    next
      case (Some b)
      with mem_update_outcome [OF upd] Inr obtain bs d where "b = f d"
        and "one_updated bucket_clash (\<lambda>b. p b \<and> list_all (\<lambda>x. p x \<longrightarrow> a_keyVersion x \<le> a_keyVersion b) (buckets w)) f
          (buckets w) bs d" and "w' = buckets_update (\<lambda>_. bs) w" by auto
      with one [of bs d] Some Inr show ?thesis by (simp, intro exI [of _ bs] exI [of _ d]) simp
    qed
  qed
next
  fix p w r w' assume "distinctKeyVersions mem_throttle_env p w = (r, w')"
  then show "env_step w w' \<and> (case r of Inl e \<Rightarrow> store_error e
      | Inr vs \<Rightarrow> set vs = a_keyVersion ` {b \<in> set (buckets w). p b})"
    by (auto simp: mem_throttle_env_def)
qed

subsection \<open>Properties\<close>

text \<open>C36: of the attempts that are made for one value within one window, starting when no window of it
  is open, at most as many as the limit are allowed, whatever errors the store reports in between.\<close>

theorem throttle_limit_is_kept:
  assumes "throttle_store A T" and "keyring \<noteq> []"
    and "\<forall>b \<in> set (buckets w). one_of_buckets (di_dimension input)
      (candidates A keyring (di_dimension input) (di_value input)) b \<longrightarrow> a_expiresAt b \<le> t0"
    and "\<forall>t \<in> set ts. t0 \<le> t \<and> t < t0 + int (tp_windowSeconds input) * 1000"
  shows "allowed_attempts A T input keyring ts w \<le> tp_limit input"
proof -
  have "window (di_dimension input) (candidates A keyring (di_dimension input) (di_value input)) t0
      (t0 + int (tp_windowSeconds input) * 1000) 0 (buckets w)"
    using assms(3) by (auto simp: window_def Let_def filter_empty_conv)
  from throttle_store.allowed_attempts_bound [OF assms(1) this assms(2) assms(4)] show ?thesis by simp
qed

theorem throttle_limit_is_kept_witness:
  "allowed_attempts mem_app mem_throttle_env (identifier_failure mem_throttle_env ''ada'')
     (AuthThrottleService_loadKeyring mem_throttle_env) [1000, 2000, 3000, 4000, 5000, 6000, 900999] sample_world \<le> 5"
proof -
  let ?input = "identifier_failure mem_throttle_env ''ada''"
  have policy: "tp_limit ?input = 5" "tp_windowSeconds ?input = 900" by code_simp+
  have "AuthThrottleService_loadKeyring mem_throttle_env \<noteq> []" by code_simp
  moreover have "buckets sample_world = []" by code_simp
  ultimately show ?thesis
    using throttle_limit_is_kept [OF mem_throttle.throttle_store_axioms, of _ sample_world ?input 1000
      "[1000, 2000, 3000, 4000, 5000, 6000, 900999]"]
    by (simp add: policy)
qed

text \<open>While an unexpired bucket was counted under a key that is no longer configured, or no key is
  configured at all, every attempt is denied and nothing is counted.\<close>

theorem throttle_fails_closed:
  assumes "throttle_store A T" and "requiredThrottleVersions T = None"
    and "AuthThrottleService_loadKeyring T = [] \<or>
      (\<exists>b \<in> set (buckets w). now < a_expiresAt b \<and> a_keyVersion b \<notin> vs_version ` set (AuthThrottleService_loadKeyring T))"
  shows "buckets (snd (AuthThrottleService_consumeSignInAttempt A T input now w)) = buckets w \<and>
    (\<forall>d. fst (AuthThrottleService_consumeSignInAttempt A T input now w) = Inr d \<longrightarrow> \<not> td_allowed d)"
proof -
  obtain ds where "AuthThrottleService_consumeSignInAttempt A T input now = AuthThrottleService_consumeMany A T ds now"
    unfolding AuthThrottleService_consumeSignInAttempt_def by blast
  then show ?thesis
    using throttle_store.consumeMany_missing_key [OF assms, of ds]
    by (cases "AuthThrottleService_consumeMany A T ds now w") (auto simp: wp_def split: sum.splits)
qed

theorem throttle_fails_closed_witness:
  "buckets (snd (AuthThrottleService_consumeSignInAttempt mem_app (mem_throttle_env\<lparr>currentKeySecret := None\<rparr>)
     input now sample_world)) = []"
proof -
  have "throttle_store mem_app (mem_throttle_env\<lparr>currentKeySecret := None\<rparr>)"
    using mem_throttle.throttle_store_axioms by (simp add: throttle_store_def throttle_store_axioms_def)
  moreover have "requiredThrottleVersions (mem_throttle_env\<lparr>currentKeySecret := None\<rparr>) = None"
    "AuthThrottleService_loadKeyring (mem_throttle_env\<lparr>currentKeySecret := None\<rparr>) = []"
    "buckets sample_world = []" by code_simp+
  ultimately show ?thesis
    using throttle_fails_closed [of mem_app "mem_throttle_env\<lparr>currentKeySecret := None\<rparr>" sample_world] by simp
qed

end
