(* ===== verification/Source_Identity.thy ===== *)
theory Source_Identity
  imports Prelude
begin

text \<open>
  \<^verbatim>\<open>src/auth/auth-source-identity.service.ts\<close>: the address that an authentication request is counted
  under, and \<^verbatim>\<open>isIP\<close> of \<^verbatim>\<open>node:net\<close>, which it uses.

  The package \<^verbatim>\<open>proxy-addr\<close> is an argument: \<open>compile\<close> gives the trust function of a list of address
  ranges or refuses it, and \<open>all_addrs\<close> the chain of addresses of a request, from the direct peer to
  the first address that is not trusted; it may throw.
\<close>

subsection \<open>Addresses\<close>

definition digit :: "char \<Rightarrow> bool" where
  "digit c = (48 \<le> char_code c \<and> char_code c \<le> 57)"

definition hex_digit :: "char \<Rightarrow> bool" where
  "hex_digit c = (digit c \<or> (97 \<le> char_code (char_lower c) \<and> char_code (char_lower c) \<le> 102))"

definition digits_value :: "string \<Rightarrow> nat" where
  "digits_value s = foldl (\<lambda>n c. 10 * n + (char_code c - 48)) 0 s"

definition ipv4_segment :: "string \<Rightarrow> bool" where
  "ipv4_segment s = (s \<noteq> [] \<and> length s \<le> 3 \<and> list_all digit s \<and> digits_value s \<le> 255 \<and>
     (s = ''0'' \<or> hd s \<noteq> CHR ''0''))"

definition is_ipv4 :: "string \<Rightarrow> bool" where
  "is_ipv4 s = (let parts = split_on CHR ''.'' s in length parts = 4 \<and> list_all ipv4_segment parts)"

definition ipv6_group :: "string \<Rightarrow> bool" where
  "ipv6_group s = (s \<noteq> [] \<and> length s \<le> 4 \<and> list_all hex_digit s)"

text \<open>The number of 16-bit groups that the parts between colons stand for; the last may be an IPv4 address.\<close>

fun group_count :: "bool \<Rightarrow> string list \<Rightarrow> nat option" where
  "group_count allowIpv4 [] = Some 0"
| "group_count allowIpv4 [s] = (if ipv6_group s then Some 1 else if allowIpv4 \<and> is_ipv4 s then Some 2 else None)"
| "group_count allowIpv4 (s # t # ss) =
     (if ipv6_group s then map_option Suc (group_count allowIpv4 (t # ss)) else None)"

text \<open>The text before and after the first \<^verbatim>\<open>::\<close>.\<close>

fun split_double_colon :: "string \<Rightarrow> (string \<times> string) option" where
  "split_double_colon [] = None"
| "split_double_colon (c # s) =
     (if c = CHR '':'' \<and> s \<noteq> [] \<and> hd s = CHR '':'' then Some ([], tl s)
      else map_option (\<lambda>(a, b). (c # a, b)) (split_double_colon s))"

definition groups_of :: "string \<Rightarrow> string list" where
  "groups_of s = (if s = [] then [] else split_on CHR '':'' s)"

definition ipv6_body :: "string \<Rightarrow> bool" where
  "ipv6_body s =
     (case split_double_colon s of
        None \<Rightarrow> group_count True (split_on CHR '':'' s) = Some 8
      | Some (a, b) \<Rightarrow>
          (case (group_count False (groups_of a), group_count True (groups_of b)) of
             (Some m, Some n) \<Rightarrow> m + n \<le> 7
           | _ \<Rightarrow> False))"

definition zone_char :: "char \<Rightarrow> bool" where
  "zone_char c = (digit c \<or> (97 \<le> char_code (char_lower c) \<and> char_code (char_lower c) \<le> 122) \<or>
     c = CHR ''-'' \<or> c = CHR ''.'' \<or> c = CHR '':'')"

definition is_ipv6 :: "string \<Rightarrow> bool" where
  "is_ipv6 s =
     (case split_on CHR ''%'' s of
        [body] \<Rightarrow> ipv6_body body
      | [body, zone] \<Rightarrow> ipv6_body body \<and> zone \<noteq> [] \<and> list_all zone_char zone
      | _ \<Rightarrow> False)"

definition isIP :: "string \<Rightarrow> nat" where
  "isIP s = (if is_ipv4 s then 4 else if is_ipv6 s then 6 else 0)"

lemma isIP_examples:
  "isIP ''192.168.0.1'' = 4" "isIP ''256.1.1.1'' = 0" "isIP ''01.2.3.4'' = 0" "isIP ''::1'' = 6"
  "isIP ''2001:db8::8a2e:370:7334'' = 6" "isIP ''::ffff:10.0.0.1'' = 6" "isIP ''1:2:3:4:5:6:7:8'' = 6"
  "isIP ''1:2:3:4:5:6:7::8'' = 0" "isIP ''fe80::1%eth0'' = 6" "isIP '':::'' = 0" "isIP ''1::2::3'' = 0" "isIP [] = 0"
  by code_simp+

subsection \<open>The service\<close>

text \<open>\<^verbatim>\<open>/^::ffff:(\d{1,3}(?:\.\d{1,3}){3})$/i\<close>\<close>

definition ipv4_mapped :: "string \<Rightarrow> string option" where
  "ipv4_mapped s =
     (let rest = drop 7 s; parts = split_on CHR ''.'' rest in
      if to_lower (take 7 s) = ''::ffff:'' \<and> length parts = 4 \<and>
        list_all (\<lambda>p. p \<noteq> [] \<and> length p \<le> 3 \<and> list_all digit p) parts
      then Some rest else None)"

definition AuthSourceIdentityService_normalizeAddress :: "string option \<Rightarrow> string option" where
  "AuthSourceIdentityService_normalizeAddress address =
     (case address of None \<Rightarrow> None
      | Some a \<Rightarrow>
          if a = [] then None
          else
          (let unwrapped = (if starts_with ''['' a \<and> ends_with '']'' a then butlast (tl a) else a);
               normalized = (case ipv4_mapped unwrapped of Some v4 \<Rightarrow> v4 | None \<Rightarrow> to_lower unwrapped) in
           if isIP normalized \<noteq> 0 then Some normalized else None))"

text \<open>The addresses the connection knows, and the headers the proxies have set.\<close>

record 'h source_request =
  sq_headers :: 'h
  sq_socketAddress :: "string option"
  sq_connectionAddress :: "string option"

definition unknown_source_identity :: string where
  "unknown_source_identity = ''unknown-peer''"

definition AuthSourceIdentityService_loadTrustedProxyCidrs ::
  "(string list \<Rightarrow> (string \<Rightarrow> nat \<Rightarrow> bool) option) \<Rightarrow> string list option \<Rightarrow> exn + string list" where
  "AuthSourceIdentityService_loadTrustedProxyCidrs compile parsed =
     (case parsed of
        None \<Rightarrow> Inl (JsError ''AUTH_TRUSTED_PROXY_CIDRS must be a JSON string array'')
      | Some cidrs \<Rightarrow>
          if cidrs \<noteq> [] \<and> compile cidrs = None
          then Inl (JsError ''AUTH_TRUSTED_PROXY_CIDRS contains an invalid CIDR'')
          else Inr cidrs)"

text \<open>\<open>trust\<close> is the service's \<^verbatim>\<open>trustProxy\<close>, which it has when ranges are configured.\<close>

definition AuthSourceIdentityService_resolve ::
  "('h \<Rightarrow> string \<Rightarrow> (string \<Rightarrow> nat \<Rightarrow> bool) \<Rightarrow> string list option) \<Rightarrow> (string \<Rightarrow> nat \<Rightarrow> bool) option \<Rightarrow>
   'h source_request \<Rightarrow> string" where
  "AuthSourceIdentityService_resolve all_addrs trust request =
     (case AuthSourceIdentityService_normalizeAddress
        (case sq_socketAddress request of Some a \<Rightarrow> Some a | None \<Rightarrow> sq_connectionAddress request) of
        None \<Rightarrow> unknown_source_identity
      | Some directPeer \<Rightarrow>
          (case trust of None \<Rightarrow> directPeer
           | Some trusted \<Rightarrow>
               if \<not> trusted directPeer 0 then directPeer
               else
               (case all_addrs (sq_headers request) directPeer trusted of
                  None \<Rightarrow> directPeer
                | Some chain \<Rightarrow>
                    (let normalizedChain = map (\<lambda>a. AuthSourceIdentityService_normalizeAddress (Some a)) chain in
                     if None \<in> set normalizedChain then directPeer
                     else if normalizedChain = [] then directPeer
                     else the (last normalizedChain)))))"

lemma normalized_address: "AuthSourceIdentityService_normalizeAddress a = Some n \<Longrightarrow> isIP n \<noteq> 0"
  by (auto simp: AuthSourceIdentityService_normalizeAddress_def Let_def split: option.splits if_splits)

text \<open>What a peer that is not trusted says of itself in headers does not matter.\<close>

lemma headers_of_strangers:
  assumes "trust = None \<or> (\<forall>a. \<not> the trust a 0)"
  shows "AuthSourceIdentityService_resolve all_addrs trust (request\<lparr>sq_headers := h\<rparr>) =
    AuthSourceIdentityService_resolve all_addrs trust request"
  using assms by (auto simp: AuthSourceIdentityService_resolve_def split: option.split)

end
