(* ===== verification/Auth_Routes.thy ===== *)
theory Auth_Routes
  imports Sign_In Throttle Source_Identity
begin

text \<open>
  \<^verbatim>\<open>src/auth/auth-endpoint-throttle.guard.ts\<close> and the sign-in and session routes of
  \<^verbatim>\<open>src/auth/auth.controller.ts\<close>.

  A request is what these read of it: the path of its route, the parsed body, the \<^verbatim>\<open>cookie\<close> header and
  the address the source identity service gives.  \<open>decode\<close> is \<^verbatim>\<open>decodeURIComponent\<close>, \<open>None\<close> where it
  throws: it can give characters beyond those of \<open>char\<close>.  The cookies of the response are returned;
  the header \<^verbatim>\<open>Retry-After\<close> is left out.
\<close>

record auth_request =
  ar_path :: string
  ar_body :: "json option"
  ar_cookie :: "string option"
  ar_source :: string

definition refreshCookieName :: string where
  "refreshCookieName = ''book_library_refresh''"

text \<open>What the guard leaves in \<^verbatim>\<open>request.authThrottle\<close>.\<close>

record throttle_context =
  tc_sourceIdentity :: string
  tc_normalizedIdentifier :: "string option"

definition assertAuthThrottleAllowed :: "bool \<Rightarrow> ('w, unit) io" where
  "assertAuthThrottleAllowed allowed =
     (if allowed then ret () else throw (TooManyRequests ''Authentication temporarily unavailable''))"

subsection \<open>The guard\<close>

datatype route_category = LoginRoute | MemberLoginRoute | RefreshRoute | OtherRoute

definition AuthEndpointThrottleGuard_routeCategory :: "string \<Rightarrow> route_category" where
  "AuthEndpointThrottleGuard_routeCategory path =
     (if ends_with ''/member-login'' path \<or> path = ''member-login'' then MemberLoginRoute
      else if ends_with ''/login'' path \<or> path = ''login'' then LoginRoute
      else if ends_with ''/refresh'' path \<or> path = ''refresh'' then RefreshRoute
      else OtherRoute)"

text \<open>A property of an object; \<^verbatim>\<open>undefined\<close> and \<^verbatim>\<open>null\<close> are passed over by \<^verbatim>\<open>??\<close>.\<close>

definition field :: "(string \<times> json) list \<Rightarrow> string \<Rightarrow> json option" where
  "field props name = (case map_of props name of Some JNull \<Rightarrow> None | v \<Rightarrow> v)"

definition identifier_field :: "(string \<times> json) list \<Rightarrow> json option" where
  "identifier_field props =
     (case field props ''identifier'' of Some v \<Rightarrow> Some v
      | None \<Rightarrow> (case field props ''email'' of Some v \<Rightarrow> Some v
         | None \<Rightarrow> field props ''loginIdentifier''))"

definition AuthEndpointThrottleGuard_normalizedIdentifier :: "json option \<Rightarrow> string option" where
  "AuthEndpointThrottleGuard_normalizedIdentifier body =
     (case body of
        Some (JObj props) \<Rightarrow>
          (case identifier_field props of
             Some (JStr v) \<Rightarrow> (let normalized = to_lower (trim v) in if normalized = [] then None else Some normalized)
           | _ \<Rightarrow> None)
      | _ \<Rightarrow> None)"

definition AuthEndpointThrottleGuard_hasMissingCredential :: "json option \<Rightarrow> bool" where
  "AuthEndpointThrottleGuard_hasMissingCredential body =
     (case body of
        Some (JObj props) \<Rightarrow>
          (case identifier_field props of Some (JStr v) \<Rightarrow> trim v = [] | _ \<Rightarrow> True) \<or>
          (case map_of props ''password'' of Some (JStr p) \<Rightarrow> p = [] | _ \<Rightarrow> True)
      | _ \<Rightarrow> True)"

text \<open>The value of the refresh cookie in a \<^verbatim>\<open>cookie\<close> header, before it is decoded.\<close>

definition raw_refresh_cookie :: "string option \<Rightarrow> string option" where
  "raw_refresh_cookie header =
     (let cookies = map trim (split_on CHR '';'' (case header of None \<Rightarrow> [] | Some h \<Rightarrow> h)) in
      map_option (\<lambda>c. join ''='' (tl (split_on CHR ''='' c)))
        (find (starts_with (refreshCookieName @ ''='')) cookies))"

definition decoded :: "(string \<Rightarrow> string option) \<Rightarrow> string \<Rightarrow> ('w, string) io" where
  "decoded decode v = (case decode v of None \<Rightarrow> throw (JsError ''URI malformed'') | Some s \<Rightarrow> ret s)"

definition AuthEndpointThrottleGuard_refreshCookie ::
  "(string \<Rightarrow> string option) \<Rightarrow> auth_request \<Rightarrow> ('w, string option) io" where
  "AuthEndpointThrottleGuard_refreshCookie decode request =
     (let v = raw_refresh_cookie (ar_cookie request) in
      if truthy v then await (decoded decode (the v)) (\<lambda>s. ret (Some s)) else ret None)"

text \<open>Whether a throttle call allows the attempt; a call that throws denies it.\<close>

definition allowed_by :: "('w, throttle_decision) io \<Rightarrow> ('w, bool) io" where
  "allowed_by m = try_catch (await m (\<lambda>d. ret (td_allowed d))) (\<lambda>_. ret False)"

definition AuthEndpointThrottleGuard_canActivate ::
  "'e app \<Rightarrow> 'e throttle_env \<Rightarrow> (string \<Rightarrow> string option) \<Rightarrow> auth_request \<Rightarrow> ('e world, throttle_context option) io" where
  "AuthEndpointThrottleGuard_canActivate A T decode request =
     (let route = AuthEndpointThrottleGuard_routeCategory (ar_path request) in
      if route = LoginRoute \<or> route = MemberLoginRoute then
        (let normalizedIdentifier = AuthEndpointThrottleGuard_normalizedIdentifier (ar_body request);
             missingCredential = AuthEndpointThrottleGuard_hasMissingCredential (ar_body request) in
         await (asks (clock A)) (\<lambda>now.
         await (allowed_by (AuthThrottleService_consumeSignInAttempt A T
           \<lparr>st_sourceIdentity = ar_source request, st_normalizedIdentifier = normalizedIdentifier,
            st_failureCategory = (if truthy normalizedIdentifier \<and> missingCredential then Some MissingCredential else None)\<rparr>
           now)) (\<lambda>allowed.
         await (assertAuthThrottleAllowed allowed) (\<lambda>_.
         ret (Some \<lparr>tc_sourceIdentity = ar_source request, tc_normalizedIdentifier = normalizedIdentifier\<rparr>)))))
      else if route = RefreshRoute then
        await (AuthEndpointThrottleGuard_refreshCookie decode request) (\<lambda>refreshToken.
        await (TokenSessionService_resolveFamilyId A refreshToken) (\<lambda>familyId.
        await (asks (clock A)) (\<lambda>now.
        await (allowed_by (AuthThrottleService_consumeRefreshAttempt A T
          \<lparr>rf_sourceIdentity = ar_source request, rf_familyId = familyId\<rparr> now)) (\<lambda>allowed.
        await (assertAuthThrottleAllowed allowed) (\<lambda>_.
        ret (Some \<lparr>tc_sourceIdentity = ar_source request, tc_normalizedIdentifier = None\<rparr>))))))
      else ret None)"

subsection \<open>The controller\<close>

text \<open>A cookie of the response: its value and options.\<close>

type_synonym set_cookie = "string \<times> cookie_options"

definition AuthController_setRefreshCookie ::
  "'e app \<Rightarrow> 'e auth_env \<Rightarrow> bool \<Rightarrow> string \<Rightarrow> date \<Rightarrow> ('e world, set_cookie) io" where
  "AuthController_setRefreshCookie A C isProduction refreshToken expiresAt =
     await (asks (clock A)) (\<lambda>now.
     await (AuthService_getRefreshCookieOptions C (Some expiresAt) isProduction now) (\<lambda>options.
     ret (refreshToken, options)))"

definition AuthController_clearRefreshCookie :: "'e auth_env \<Rightarrow> bool \<Rightarrow> ('w, set_cookie) io" where
  "AuthController_clearRefreshCookie C isProduction =
     await (AuthService_getClearRefreshCookieOptions C isProduction) (\<lambda>options.
     ret ([], options\<lparr>co_maxAge := 0\<rparr>))"

definition AuthController_getRefreshCookie :: "(string \<Rightarrow> string option) \<Rightarrow> auth_request \<Rightarrow> ('w, string) io" where
  "AuthController_getRefreshCookie decode request =
     decoded decode (case raw_refresh_cookie (ar_cookie request) of None \<Rightarrow> [] | Some v \<Rightarrow> v)"

definition AuthController_recordIdentifierFailure ::
  "'e app \<Rightarrow> 'e throttle_env \<Rightarrow> throttle_context option \<Rightarrow> ('e world, unit) io" where
  "AuthController_recordIdentifierFailure A T context =
     (let normalizedIdentifier = Option.bind context tc_normalizedIdentifier in
      if \<not> truthy normalizedIdentifier then ret ()
      else
      await (asks (clock A)) (\<lambda>now.
      await (allowed_by (AuthThrottleService_consumeSignInIdentifierFailure A T (the normalizedIdentifier)
        InvalidPassword now)) assertAuthThrottleAllowed))"

text \<open>The three sign-in routes differ in the body they read only.\<close>

definition AuthController_completeSharedLogin ::
  "'e app \<Rightarrow> 'e auth_env \<Rightarrow> 'e throttle_env \<Rightarrow> bool \<Rightarrow> throttle_context option \<Rightarrow> shared_login_dto \<Rightarrow>
   ('e world, login_response \<times> set_cookie) io" where
  "AuthController_completeSharedLogin A C T isProduction context dto =
     await (try_catch (AuthService_createSharedSession A C dto)
       (\<lambda>error. await (AuthController_recordIdentifierFailure A T context) (\<lambda>_. throw error))) (\<lambda>session.
     await (AuthController_setRefreshCookie A C isProduction (sr_refreshToken session) (sr_refreshExpiresAt session)) (\<lambda>cookie.
     ret (sr_response session, cookie)))"

definition AuthController_login ::
  "'e app \<Rightarrow> 'e auth_env \<Rightarrow> 'e throttle_env \<Rightarrow> bool \<Rightarrow> throttle_context option \<Rightarrow> shared_login_dto \<Rightarrow>
   ('e world, login_response \<times> set_cookie) io" where
  "AuthController_login = AuthController_completeSharedLogin"

definition AuthController_staffLogin ::
  "'e app \<Rightarrow> 'e auth_env \<Rightarrow> 'e throttle_env \<Rightarrow> bool \<Rightarrow> throttle_context option \<Rightarrow> login_dto \<Rightarrow>
   ('e world, login_response \<times> set_cookie) io" where
  "AuthController_staffLogin A C T isProduction context dto =
     await (try_catch (AuthService_createSharedSession A C
         \<lparr>sl_identifier = Some (ld_email dto), sl_password = Some (ld_password dto)\<rparr>)
       (\<lambda>error. await (AuthController_recordIdentifierFailure A T context) (\<lambda>_. throw error))) (\<lambda>session.
     await (AuthController_setRefreshCookie A C isProduction (sr_refreshToken session) (sr_refreshExpiresAt session)) (\<lambda>cookie.
     ret (sr_response session, cookie)))"

definition AuthController_memberLogin ::
  "'e app \<Rightarrow> 'e auth_env \<Rightarrow> 'e throttle_env \<Rightarrow> bool \<Rightarrow> throttle_context option \<Rightarrow> member_login_dto \<Rightarrow>
   ('e world, login_response \<times> set_cookie) io" where
  "AuthController_memberLogin A C T isProduction context dto =
     await (try_catch (AuthService_createSharedSession A C
         \<lparr>sl_identifier = Some (ml_loginIdentifier dto), sl_password = Some (ml_password dto)\<rparr>)
       (\<lambda>error. await (AuthController_recordIdentifierFailure A T context) (\<lambda>_. throw error))) (\<lambda>session.
     await (AuthController_setRefreshCookie A C isProduction (sr_refreshToken session) (sr_refreshExpiresAt session)) (\<lambda>cookie.
     ret (sr_response session, cookie)))"

definition AuthController_refresh ::
  "'e app \<Rightarrow> 'e auth_env \<Rightarrow> (string \<Rightarrow> string option) \<Rightarrow> bool \<Rightarrow> auth_request \<Rightarrow>
   ('e world, login_response \<times> set_cookie) io" where
  "AuthController_refresh A C decode isProduction request =
     await (AuthController_getRefreshCookie decode request) (\<lambda>refreshToken.
     await (AuthService_refresh A C refreshToken) (\<lambda>session.
     await (AuthController_setRefreshCookie A C isProduction (sr_refreshToken session) (sr_refreshExpiresAt session)) (\<lambda>cookie.
     ret (sr_response session, cookie))))"

definition AuthController_logout ::
  "'e app \<Rightarrow> 'e auth_env \<Rightarrow> (string \<Rightarrow> string option) \<Rightarrow> bool \<Rightarrow> auth_request \<Rightarrow> ('e world, set_cookie) io" where
  "AuthController_logout A C decode isProduction request =
     await (AuthController_getRefreshCookie decode request) (\<lambda>refreshToken.
     await (AuthService_logout A C (Some refreshToken)) (\<lambda>_.
     AuthController_clearRefreshCookie C isProduction))"

definition AuthController_logoutAll ::
  "'e app \<Rightarrow> 'e auth_env \<Rightarrow> bool \<Rightarrow> request_user option \<Rightarrow> ('e world, set_cookie) io" where
  "AuthController_logoutAll A C isProduction user =
     (let authContext = Option.bind user r_authContext in
      await (case authContext of None \<Rightarrow> ret ()
        | Some c \<Rightarrow> AuthService_logoutAll A C (x_roleArea c) (x_subjectId c)) (\<lambda>_.
      AuthController_clearRefreshCookie C isProduction))"

text \<open>A route with the guard before it.\<close>

definition throttled_sign_in ::
  "'e app \<Rightarrow> 'e throttle_env \<Rightarrow> (string \<Rightarrow> string option) \<Rightarrow> auth_request \<Rightarrow>
   (throttle_context option \<Rightarrow> ('e world, 'a) io) \<Rightarrow> ('e world, 'a) io" where
  "throttled_sign_in A T decode request handler =
     await (AuthEndpointThrottleGuard_canActivate A T decode request) handler"

subsection \<open>Properties\<close>

lemma wp_allowed_by: "wp m (\<lambda>d. Q (td_allowed d)) (\<lambda>_. Q False) w \<Longrightarrow> wp (allowed_by m) Q E w"
  by (simp add: allowed_by_def)

lemma try_catch_throw: "try_catch m throw = m"
  by (rule ext) (simp add: try_catch_def throw_def split: prod.splits sum.splits)

text \<open>The two routes that the throttle guard counts sign-ins on refuse every attempt, before any
  password is looked at, while an unexpired bucket was counted under a key that is no longer
  configured or no key is configured at all; no count changes.\<close>

theorem counted_sign_in_fails_closed:
  assumes "throttle_store A T" and "requiredThrottleVersions T = None"
    and "AuthThrottleService_loadKeyring T = [] \<or>
      (\<exists>b \<in> set (buckets w). clock A w < a_expiresAt b \<and>
        a_keyVersion b \<notin> vs_version ` set (AuthThrottleService_loadKeyring T))"
    and "ar_path request \<in> {''/auth/login'', ''/auth/member-login''}"
  shows "case throttled_sign_in A T decode request handler w of
      (Inl e, w') \<Rightarrow> e = TooManyRequests ''Authentication temporarily unavailable'' \<and> buckets w' = buckets w
    | (Inr r, w') \<Rightarrow> False"
proof -
  have counted: "AuthEndpointThrottleGuard_routeCategory (ar_path request) \<in> {LoginRoute, MemberLoginRoute}"
    using assms(4) by (elim insertE emptyE; simp) code_simp+
  have closed: "wp (AuthThrottleService_consumeSignInAttempt A T input (clock A w))
      (\<lambda>d w'. \<not> td_allowed d \<and> buckets w' = buckets w) (\<lambda>_ w'. buckets w' = buckets w) w" for input
  proof -
    obtain ds where "AuthThrottleService_consumeSignInAttempt A T input (clock A w) =
        AuthThrottleService_consumeMany A T ds (clock A w)"
      unfolding AuthThrottleService_consumeSignInAttempt_def by blast
    then show ?thesis by (auto intro!: wp_mono [OF throttle_store.consumeMany_missing_key [OF assms(1-3), of ds]])
  qed
  have "wp (throttled_sign_in A T decode request handler) (\<lambda>_ _. False)
      (\<lambda>e w'. e = TooManyRequests ''Authentication temporarily unavailable'' \<and> buckets w' = buckets w) w"
    unfolding throttled_sign_in_def AuthEndpointThrottleGuard_canActivate_def Let_def wp_await
    using counted
    by (auto simp: assertAuthThrottleAllowed_def intro!: wp_allowed_by wp_mono [OF closed])
  then show ?thesis by (auto simp: wp_def split: prod.splits sum.splits)
qed

theorem counted_sign_in_fails_closed_witness:
  "isl (fst (throttled_sign_in mem_app (mem_throttle_env\<lparr>currentKeySecret := None\<rparr>) Some
     \<lparr>ar_path = ''/auth/login'', ar_body = None, ar_cookie = None, ar_source = ''10.0.0.1''\<rparr>
     (\<lambda>context. AuthController_login mem_app mem_auth_env mem_throttle_env False context admin_login) desk_world))"
proof -
  have "throttle_store mem_app (mem_throttle_env\<lparr>currentKeySecret := None\<rparr>)"
    using mem_throttle.throttle_store_axioms by (simp add: throttle_store_def throttle_store_axioms_def)
  moreover have "requiredThrottleVersions (mem_throttle_env\<lparr>currentKeySecret := None\<rparr>) = None"
    "AuthThrottleService_loadKeyring (mem_throttle_env\<lparr>currentKeySecret := None\<rparr>) = []" by code_simp+
  ultimately show ?thesis
    using counted_sign_in_fails_closed [of mem_app "mem_throttle_env\<lparr>currentKeySecret := None\<rparr>" desk_world
      "\<lparr>ar_path = ''/auth/login'', ar_body = None, ar_cookie = None, ar_source = ''10.0.0.1''\<rparr>" Some
      "\<lambda>context. AuthController_login mem_app mem_auth_env mem_throttle_env False context admin_login"]
    by (auto split: prod.splits sum.splits)
qed


end
