(* ===== verification/Access.thy ===== *)
theory Access
  imports Sign_In
begin

text \<open>
  \<^verbatim>\<open>src/auth/jwt.strategy.ts\<close>, \<^verbatim>\<open>src/auth/jwt-auth.guard.ts\<close>, and the routes of the controllers with
  the guards their decorators put before them.

  What \<^verbatim>\<open>passport-jwt\<close> makes of the bearer token of a request is an argument: the verified claims, or
  \<open>None\<close> if there is no token or its signature, expiry, issuer or audience is refused.
\<close>

subsection \<open>The strategy\<close>

definition staff_request_user :: "staff_user \<Rightarrow> auth_context \<Rightarrow> request_user" where
  "staff_request_user user authContext =
     \<lparr>r_id = Some (u_id user), r_subjectId = Some (u_id user), r_roleArea = Some StaffSubject,
      r_roles = Some (map StaffRoleOf (u_roles user)), r_permissions = Some (x_permissions authContext),
      r_authVersion = Some (x_authVersion authContext), r_issuer = None, r_audience = None, r_tokenId = None,
      r_scope = None, r_email = Some (u_email user), r_displayName = Some (u_displayName user),
      r_memberNumber = None, r_authContext = Some authContext\<rparr>"

definition member_request_user :: "member \<Rightarrow> auth_context \<Rightarrow> request_user" where
  "member_request_user m authContext =
     \<lparr>r_id = Some (m_id m), r_subjectId = Some (m_id m), r_roleArea = Some MemberSubject,
      r_roles = None, r_permissions = Some (x_permissions authContext),
      r_authVersion = Some (x_authVersion authContext), r_issuer = None, r_audience = None, r_tokenId = None,
      r_scope = None, r_email = None, r_displayName = None,
      r_memberNumber = Some (m_memberNumber m), r_authContext = Some authContext\<rparr>"

text \<open>\<^verbatim>\<open>payload.auth_version ?? 0\<close>\<close>

definition token_version :: "raw_auth_payload \<Rightarrow> nat" where
  "token_version payload = (case p_auth_version payload of None \<Rightarrow> 0 | Some v \<Rightarrow> v)"

definition JwtStrategy_validate :: "'e app \<Rightarrow> raw_auth_payload \<Rightarrow> ('e world, request_user) io" where
  "JwtStrategy_validate A payload =
     (let roleArea = (case p_role_area payload of Some a \<Rightarrow> Some a | None \<Rightarrow> p_roleArea payload) in
      if \<not> truthy (p_sub payload) \<or> \<not> truthy (p_jti payload) \<or> \<not> truthy roleArea
      then throw (Unauthorized ''Invalid token claims'')
      else if roleArea = Some ''member''
      then
        await (MembersService_findActiveById A (the (p_sub payload))) (\<lambda>m.
        if token_version payload \<noteq> m_authVersion m then throw (Unauthorized ''Stale token'')
        else ret (member_request_user m (PermissionsService_buildMemberContext m payload)))
      else if roleArea \<noteq> Some ''staff'' then throw (Unauthorized ''Invalid token role area'')
      else
        await (StaffUsersService_findActiveById A (the (p_sub payload))) (\<lambda>user.
        if token_version payload \<noteq> u_authVersion user then throw (Unauthorized ''Stale token'')
        else ret (staff_request_user user (PermissionsService_buildStaffContext user payload))))"

definition JwtAuthGuard_canActivate ::
  "'e app \<Rightarrow> route_metadata \<Rightarrow> raw_auth_payload option \<Rightarrow> ('e world, request_user option) io" where
  "JwtAuthGuard_canActivate A route verified =
     (if getAllAndOverride (d_handlerPublic route) (d_classPublic route) = Some True then ret None
      else case verified of
        None \<Rightarrow> throw (Unauthorized ''Unauthorized'')
      | Some payload \<Rightarrow> await (JwtStrategy_validate A payload) (\<lambda>user. ret (Some user)))"

definition getRequestAuthContext :: "request_user option \<Rightarrow> auth_context option" where
  "getRequestAuthContext user = Option.bind user r_authContext"

subsection \<open>Routes\<close>

text \<open>
  The guards of a handler, those of its class first.  \<open>OriginCheck\<close> and \<open>ThrottleCheck\<close> do not look
  at the user.
\<close>

datatype guard = OriginCheck | ThrottleCheck | TokenCheck | PermissionCheck | MemberCheck

record endpoint =
  ep_method :: string
  ep_path :: string
  ep_meta :: route_metadata
  ep_guards :: "guard list"

definition metadata :: "string \<Rightarrow> string \<Rightarrow> bool option \<Rightarrow> auth_permission list option \<Rightarrow> route_metadata" where
  "metadata controller handler public permissions =
     \<lparr>d_class = controller, d_handler = handler, d_handlerPublic = public, d_classPublic = None,
      d_handlerPermissions = permissions, d_classPermissions = None, d_handlerRoles = None, d_classRoles = None\<rparr>"

definition permitted :: "string \<Rightarrow> string \<Rightarrow> string \<Rightarrow> string \<Rightarrow> auth_permission list \<Rightarrow> endpoint" where
  "permitted controller verb path handler permissions =
     \<lparr>ep_method = verb, ep_path = path, ep_meta = metadata controller handler None (Some permissions),
      ep_guards = [TokenCheck, PermissionCheck]\<rparr>"

definition guarded :: "string \<Rightarrow> string \<Rightarrow> string \<Rightarrow> string \<Rightarrow> guard list \<Rightarrow> endpoint" where
  "guarded controller verb path handler guards =
     \<lparr>ep_method = verb, ep_path = path, ep_meta = metadata controller handler None None, ep_guards = guards\<rparr>"

definition open_to_all :: "string \<Rightarrow> string \<Rightarrow> string \<Rightarrow> string \<Rightarrow> endpoint" where
  "open_to_all controller verb path handler =
     \<lparr>ep_method = verb, ep_path = path, ep_meta = metadata controller handler (Some True) None, ep_guards = []\<rparr>"

definition BooksController :: "endpoint list" where
  "BooksController =
     [permitted ''BooksController'' ''GET'' ''/books'' ''findAll'' [CatalogRead],
      permitted ''BooksController'' ''GET'' ''/books/:id'' ''findOne'' [CatalogRead],
      permitted ''BooksController'' ''POST'' ''/books'' ''create'' [CatalogManage],
      permitted ''BooksController'' ''PATCH'' ''/books/:id'' ''update'' [CatalogManage]]"

definition BookCategoriesController :: "endpoint list" where
  "BookCategoriesController =
     [permitted ''BookCategoriesController'' ''POST'' ''/book-categories'' ''create'' [CatalogManage],
      permitted ''BookCategoriesController'' ''GET'' ''/book-categories'' ''findAll'' [CatalogRead],
      permitted ''BookCategoriesController'' ''PATCH'' ''/book-categories/:id'' ''update'' [CatalogManage]]"

definition MembershipTypesController :: "endpoint list" where
  "MembershipTypesController =
     [permitted ''MembershipTypesController'' ''POST'' ''/membership-types'' ''create'' [MembershipTypesManage],
      permitted ''MembershipTypesController'' ''GET'' ''/membership-types'' ''findAll'' [MembershipTypesRead],
      permitted ''MembershipTypesController'' ''PATCH'' ''/membership-types/:id'' ''update'' [MembershipTypesManage]]"

definition MembersController :: "endpoint list" where
  "MembersController =
     [permitted ''MembersController'' ''POST'' ''/members'' ''create'' [MembersManage],
      permitted ''MembersController'' ''GET'' ''/members'' ''findAll'' [MembersRead],
      guarded ''MembersController'' ''GET'' ''/members/me'' ''getMe'' [TokenCheck, MemberCheck],
      guarded ''MembersController'' ''GET'' ''/members/me/policy-status'' ''getMyPolicyStatus'' [TokenCheck, MemberCheck],
      guarded ''MembersController'' ''GET'' ''/members/me/borrowings'' ''findMyBorrowings'' [TokenCheck, MemberCheck],
      guarded ''MembersController'' ''GET'' ''/members/me/borrowings/:borrowingId'' ''findMyBorrowing''
        [TokenCheck, MemberCheck],
      permitted ''MembersController'' ''GET'' ''/members/:id/policy-status'' ''getPolicyStatus'' [MembersRead],
      permitted ''MembersController'' ''GET'' ''/members/:id/borrowings'' ''findBorrowings'' [MembersRead],
      permitted ''MembersController'' ''GET'' ''/members/:id'' ''findOne'' [MembersRead],
      permitted ''MembersController'' ''PATCH'' ''/members/:id'' ''update'' [MembersManage]]"

definition BorrowingsController :: "endpoint list" where
  "BorrowingsController =
     [permitted ''BorrowingsController'' ''POST'' ''/borrowings'' ''create'' [BorrowingsManage],
      permitted ''BorrowingsController'' ''GET'' ''/borrowings/overdue'' ''findOverdue'' [BorrowingsRead],
      permitted ''BorrowingsController'' ''GET'' ''/borrowings'' ''findAll'' [BorrowingsRead],
      permitted ''BorrowingsController'' ''GET'' ''/borrowings/:id'' ''findOne'' [BorrowingsRead],
      permitted ''BorrowingsController'' ''POST'' ''/borrowings/:id/return'' ''returnBorrowing'' [BorrowingsManage]]"

definition StaffUsersController :: "endpoint list" where
  "StaffUsersController =
     [permitted ''StaffUsersController'' ''POST'' ''/staff-users'' ''create'' [StaffUsersManage, RolesManage],
      permitted ''StaffUsersController'' ''GET'' ''/staff-users'' ''findAll'' [StaffUsersRead, RolesRead],
      permitted ''StaffUsersController'' ''PATCH'' ''/staff-users/:id'' ''update'' [StaffUsersManage, RolesManage]]"

definition AuthController :: "endpoint list" where
  "AuthController =
     [guarded ''AuthController'' ''POST'' ''/auth/login'' ''login'' [OriginCheck, ThrottleCheck],
      guarded ''AuthController'' ''POST'' ''/auth/staff-login'' ''staffLogin'' [OriginCheck, ThrottleCheck],
      guarded ''AuthController'' ''POST'' ''/auth/member-login'' ''memberLogin'' [OriginCheck, ThrottleCheck],
      guarded ''AuthController'' ''POST'' ''/auth/refresh'' ''refresh'' [OriginCheck, ThrottleCheck],
      guarded ''AuthController'' ''POST'' ''/auth/logout'' ''logout'' [OriginCheck],
      guarded ''AuthController'' ''POST'' ''/auth/logout-all'' ''logoutAll'' [OriginCheck, TokenCheck],
      guarded ''AuthController'' ''GET'' ''/auth/me'' ''me'' [TokenCheck],
      permitted ''AuthController'' ''GET'' ''/auth/roles'' ''roleReview'' [RolesRead],
      permitted ''AuthController'' ''GET'' ''/auth/security-activity'' ''securityActivity'' [SecurityEventsRead],
      permitted ''AuthController'' ''GET'' ''/auth/identifier-conflicts'' ''listIdentifierConflicts'' [AuthIdentifiersRead],
      permitted ''AuthController'' ''POST'' ''/auth/identifier-conflicts/:id/resolve'' ''resolveIdentifierConflict''
        [AuthIdentifiersManage],
      permitted ''AuthController'' ''GET'' ''/auth/identifier-operations/:operationId'' ''identifierOperationStatus''
        [AuthIdentifiersRead]]"

definition HealthController :: "endpoint list" where
  "HealthController =
     [open_to_all ''HealthController'' ''GET'' ''/health'' ''getHealth'',
      open_to_all ''HealthController'' ''GET'' ''/health/ready'' ''getReadiness'']"

definition all_endpoints :: "endpoint list" where
  "all_endpoints = BooksController @ BookCategoriesController @ MembershipTypesController @ MembersController @
     BorrowingsController @ StaffUsersController @ AuthController @ HealthController"

text \<open>
  The guards of a route, in order, on a request with the verified claims given: the user that the
  handler gets.  \<open>before\<close> is what the guards do that do not look at the user.
\<close>

fun run_guards ::
  "'e app \<Rightarrow> (guard \<Rightarrow> ('e world, unit) io) \<Rightarrow> route_metadata \<Rightarrow> raw_auth_payload option \<Rightarrow> guard list \<Rightarrow>
   request_user option \<Rightarrow> ('e world, request_user option) io" where
  "run_guards A before route verified [] user = ret user"
| "run_guards A before route verified (TokenCheck # gs) user =
     await (JwtAuthGuard_canActivate A route verified) (\<lambda>user. run_guards A before route verified gs user)"
| "run_guards A before route verified (PermissionCheck # gs) user =
     await (PermissionsGuard_canActivate A route user) (\<lambda>_. run_guards A before route verified gs user)"
| "run_guards A before route verified (MemberCheck # gs) user =
     await (MemberAuthGuard_canActivate A route user) (\<lambda>_. run_guards A before route verified gs user)"
| "run_guards A before route verified (g # gs) user =
     await (before g) (\<lambda>_. run_guards A before route verified gs user)"

definition admitted ::
  "'e app \<Rightarrow> (guard \<Rightarrow> ('e world, unit) io) \<Rightarrow> endpoint \<Rightarrow> raw_auth_payload option \<Rightarrow> ('e world, request_user option) io" where
  "admitted A before ep verified = run_guards A before (ep_meta ep) verified (ep_guards ep) None"

subsection \<open>What the guards let through\<close>

lemma wp_any: "(\<And>a w'. Q a w') \<Longrightarrow> (\<And>e w'. E e w') \<Longrightarrow> wp m Q E w"
  by (rule wp_mono [OF wp_True])

lemma wp_validate_any:
  assumes "\<And>u c w'. r_authContext u = Some c \<Longrightarrow> r_roleArea u = Some (x_roleArea c) \<Longrightarrow> Q u w'"
  shows "wp (JwtStrategy_validate A payload) Q (\<lambda>_ _. True) w"
proof -
  have area: "x_roleArea (PermissionsService_buildMemberContext m p) = MemberSubject"
    "x_roleArea (PermissionsService_buildStaffContext u p) = StaffSubject" for m u p
    by (simp_all add: PermissionsService_buildMemberContext_def PermissionsService_buildStaffContext_def Let_def)
  have member: "Q (member_request_user m (PermissionsService_buildMemberContext m p)) w'" for m p w'
    by (rule assms [where c = "PermissionsService_buildMemberContext m p"]) (simp_all add: member_request_user_def area)
  have staff: "Q (staff_request_user u (PermissionsService_buildStaffContext u p)) w'" for u p w'
    by (rule assms [where c = "PermissionsService_buildStaffContext u p"]) (simp_all add: staff_request_user_def area)
  show ?thesis
    unfolding JwtStrategy_validate_def Let_def
    by (simp add: wp_if, intro conjI impI; rule wp_any) (simp_all add: wp_if member staff)
qed

lemma wp_token_guard:
  assumes "getAllAndOverride (d_handlerPublic route) (d_classPublic route) \<noteq> Some True"
    and "\<And>p u c w'. verified = Some p \<Longrightarrow> r_authContext u = Some c \<Longrightarrow> r_roleArea u = Some (x_roleArea c) \<Longrightarrow>
      Q (Some u) w'"
  shows "wp (JwtAuthGuard_canActivate A route verified) Q (\<lambda>_ _. True) w"
  unfolding JwtAuthGuard_canActivate_def if_not_P [OF assms(1)]
  by (cases verified) (auto intro!: wp_validate_any assms(2))

lemma wp_permission_guard:
  assumes "r_authContext u = Some c" and "d_handlerPermissions route = Some ps" and "ps \<noteq> []"
    and "MemberSelfRead \<notin> set ps"
    and "getAllAndOverride (d_handlerPublic route) (d_classPublic route) \<noteq> Some True"
    and "x_roleArea c = StaffSubject \<Longrightarrow> set ps \<subseteq> set (x_permissions c) \<Longrightarrow> Q True w"
  shows "wp (PermissionsGuard_canActivate A route (Some u)) Q (\<lambda>_ _. True) w"
proof -
  have denied: "wp (await m (\<lambda>_. throw e)) Q (\<lambda>_ _. True) w" for m e by simp
  have "list_ex (\<lambda>p. p \<noteq> MemberSelfRead) ps" using assms(3,4) by (cases ps) auto
  moreover have "x_roleArea c = StaffSubject" if "x_roleArea c \<noteq> MemberSubject" using that by (cases "x_roleArea c") auto
  ultimately show ?thesis
    unfolding PermissionsGuard_canActivate_def if_not_P [OF assms(5)] Let_def
    using assms(1-3,6)
    by (auto simp: getAllAndOverride_def PermissionsService_normalizeRequestContext_def
        PermissionsService_hasEveryPermission_def list_all_iff intro!: denied simp del: wp_await)
qed

lemma wp_member_guard:
  assumes "r_authContext u = Some c"
    and "x_roleArea c = MemberSubject \<Longrightarrow> MemberSelfRead \<in> set (x_permissions c) \<Longrightarrow> Q True w"
  shows "wp (MemberAuthGuard_canActivate A route (Some u)) Q (\<lambda>_ _. True) w"
  unfolding MemberAuthGuard_canActivate_def using assms
  by (auto simp: member_area_def member_permissions_def)

text \<open>The routes by the guards that look at the user.\<close>

definition open_paths :: "string list" where
  "open_paths = [''/auth/login'', ''/auth/staff-login'', ''/auth/member-login'', ''/auth/refresh'', ''/auth/logout'',
     ''/health'', ''/health/ready'']"

definition session_paths :: "string list" where
  "session_paths = [''/auth/logout-all'', ''/auth/me'']"

definition self_service_paths :: "string list" where
  "self_service_paths = [''/members/me'', ''/members/me/policy-status'', ''/members/me/borrowings'',
     ''/members/me/borrowings/:borrowingId'']"

definition well_guarded :: "endpoint \<Rightarrow> bool" where
  "well_guarded ep \<longleftrightarrow>
     (if ep_path ep \<in> set open_paths then TokenCheck \<notin> set (ep_guards ep) \<and> PermissionCheck \<notin> set (ep_guards ep) \<and>
        MemberCheck \<notin> set (ep_guards ep)
      else getAllAndOverride (d_handlerPublic (ep_meta ep)) (d_classPublic (ep_meta ep)) \<noteq> Some True \<and>
        (if ep_path ep \<in> set session_paths then ep_guards ep \<in> {[TokenCheck], [OriginCheck, TokenCheck]}
         else if ep_path ep \<in> set self_service_paths then ep_guards ep = [TokenCheck, MemberCheck]
         else ep_guards ep = [TokenCheck, PermissionCheck] \<and>
           (case d_handlerPermissions (ep_meta ep) of None \<Rightarrow> False
            | Some ps \<Rightarrow> ps \<noteq> [] \<and> MemberSelfRead \<notin> set ps)))"

lemma all_well_guarded: "list_all well_guarded all_endpoints"
  by code_simp

text \<open>What the request of an admitted user is allowed.\<close>

definition entitled :: "endpoint \<Rightarrow> auth_context \<Rightarrow> bool" where
  "entitled ep c \<longleftrightarrow>
     ep_path ep \<in> set session_paths \<or>
     ep_path ep \<in> set self_service_paths \<and> x_roleArea c = MemberSubject \<and> MemberSelfRead \<in> set (x_permissions c) \<or>
     x_roleArea c = StaffSubject \<and>
       (\<exists>ps. d_handlerPermissions (ep_meta ep) = Some ps \<and> ps \<noteq> [] \<and> set ps \<subseteq> set (x_permissions c))"

lemma admitted_outcome:
  assumes "well_guarded ep"
  shows "wp (admitted A before ep verified)
    (\<lambda>user w'. if ep_path ep \<in> set open_paths then user = None
       else \<exists>p u c. verified = Some p \<and> user = Some u \<and> r_authContext u = Some c \<and> entitled ep c)
    (\<lambda>_ _. True) w"
proof (cases "ep_path ep \<in> set open_paths")
  case True
  have open_route: "wp (run_guards A before route verified gs None) (\<lambda>user w'. user = None) (\<lambda>_ _. True) w"
    if "TokenCheck \<notin> set gs" "PermissionCheck \<notin> set gs" "MemberCheck \<notin> set gs" for route gs w
    using that
  proof (induction gs arbitrary: w)
    case (Cons g gs)
    then show ?case by (cases g) (simp_all add: wp_any)
  qed simp
  from assms True show ?thesis unfolding admitted_def well_guarded_def by (auto intro: open_route)
next
  case False
  let ?Q = "\<lambda>user w'. \<exists>p u c. verified = Some p \<and> user = Some u \<and> r_authContext u = Some c \<and> entitled ep c"
  from assms False have public: "getAllAndOverride (d_handlerPublic (ep_meta ep)) (d_classPublic (ep_meta ep)) \<noteq> Some True"
    by (simp add: well_guarded_def)
  have token: "wp (run_guards A before (ep_meta ep) verified (TokenCheck # gs) None) ?Q (\<lambda>_ _. True) w"
    if "\<And>p u c w'. verified = Some p \<Longrightarrow> r_authContext u = Some c \<Longrightarrow>
      wp (run_guards A before (ep_meta ep) verified gs (Some u)) ?Q (\<lambda>_ _. True) w'" for gs w
    unfolding run_guards.simps wp_await by (rule wp_token_guard [OF public]) (use that in blast)
  consider "ep_path ep \<in> set session_paths" "ep_guards ep = [TokenCheck] \<or> ep_guards ep = [OriginCheck, TokenCheck]"
    | "ep_path ep \<in> set self_service_paths" "ep_guards ep = [TokenCheck, MemberCheck]"
    | ps where "ep_guards ep = [TokenCheck, PermissionCheck]" "d_handlerPermissions (ep_meta ep) = Some ps"
        "ps \<noteq> []" "MemberSelfRead \<notin> set ps"
    using assms False by (auto simp: well_guarded_def split: if_splits option.splits)
  then have "wp (admitted A before ep verified) ?Q (\<lambda>_ _. True) w"
  proof cases
    case 1
    then have last: "wp (run_guards A before (ep_meta ep) verified [TokenCheck] None) ?Q (\<lambda>_ _. True) w'" for w'
      by (intro token) (auto simp: entitled_def)
    from 1(2) show ?thesis
      unfolding admitted_def
      by (elim disjE; simp only: run_guards.simps(5) wp_await last) (intro wp_any last TrueI)
  next
    case 2
    then show ?thesis unfolding admitted_def 2(2)
      by (intro token) (auto simp: entitled_def intro!: wp_member_guard)
  next
    case 3
    then show ?thesis unfolding admitted_def 3(1)
      by (intro token) (auto simp: entitled_def intro!: wp_permission_guard [OF _ 3(2-4) public])
  qed
  with False show ?thesis by simp
qed

subsection \<open>How staff users change\<close>

text \<open>
  Whatever happens to a staff user, the version never falls, and while it stays the same the roles
  do too.
\<close>

definition user_step :: "staff_user \<Rightarrow> staff_user \<Rightarrow> bool" where
  "user_step u d \<longleftrightarrow> u_id d = u_id u \<and> u_authVersion u \<le> u_authVersion d \<and>
     (u_authVersion d = u_authVersion u \<longrightarrow> mset (u_roles d) = mset (u_roles u))"

definition staff_grown :: "staff_user list \<Rightarrow> 'e world \<Rightarrow> bool" where
  "staff_grown us w \<longleftrightarrow> distinct (map u_id (staffUsers w)) \<and> u_id ` set us \<subseteq> u_id ` set (staffUsers w) \<and>
     (\<forall>u \<in> set us. \<forall>d \<in> set (staffUsers w). u_id d = u_id u \<longrightarrow> user_step u d)"

lemma user_step_refl [simp]: "user_step u u"
  by (simp add: user_step_def)

lemma user_step_trans: "user_step u d \<Longrightarrow> user_step d e \<Longrightarrow> user_step u e"
  by (auto simp: user_step_def)

lemma user_step_id: "user_step u d \<Longrightarrow> u_id d = u_id u"
  by (simp add: user_step_def)

lemma user_step_updates:
  assumes "user_step u d"
    and "\<not> StaffUsersService_sameRoles (u_roles u) nextRoles \<Longrightarrow> changed"
  shows "user_step u (StaffUsersService_applyUpdates dto actor e nextRoles changed d)"
  using assms by (cases "mset (u_roles u) = mset nextRoles")
    (auto simp: user_step_def StaffUsersService_applyUpdates_def sameRoles_iff)

lemma staff_grown_start: "distinct (map u_id (staffUsers w)) \<Longrightarrow> staff_grown (staffUsers w) w"
  unfolding staff_grown_def by (metis distinct_map inj_onD order_refl user_step_refl)

lemma staff_grown_seen: "staff_grown us w \<Longrightarrow> staff_grown (staffUsers w @ us) w"
  using staff_grown_start [of w] by (auto simp: staff_grown_def)

lemma staff_grown_same: "staff_grown us w \<Longrightarrow> staffUsers w' = staffUsers w \<Longrightarrow> staff_grown us w'"
  by (simp add: staff_grown_def)

lemma staff_grown_frame [simp]:
  "staff_grown us (w\<lparr>env := z\<rparr>) = staff_grown us w" "staff_grown us (w\<lparr>events := es\<rparr>) = staff_grown us w"
  "staff_grown us (w\<lparr>identifiers := is\<rparr>) = staff_grown us w" "staff_grown us (w\<lparr>families := fs\<rparr>) = staff_grown us w"
  by (simp_all add: staff_grown_def)

lemma staff_grown_added:
  "staff_grown us w \<Longrightarrow> one_added staff_user_clash staff_user_valid u_id u (staffUsers w) \<Longrightarrow>
   staff_grown us (w\<lparr>staffUsers := staffUsers w @ [u]\<rparr>)"
  by (auto simp: staff_grown_def one_added_def image_iff)

lemma staff_grown_updated:
  assumes "staff_grown us w" and "one_updated staff_user_clash p f (staffUsers w) ds d"
    and "\<And>u. u \<in> set us \<Longrightarrow> u_id u = u_id d \<Longrightarrow> user_step u d \<Longrightarrow> user_step u (f d)" and "u_id (f d) = u_id d"
  shows "staff_grown us (w\<lparr>staffUsers := ds\<rparr>)"
proof -
  from assms(2) obtain as bs where "staffUsers w = as @ d # bs" "ds = as @ f d # bs"
    unfolding one_updated_def by blast
  then show ?thesis using assms(1,3,4) by (auto simp: staff_grown_def)
qed

text \<open>The object is a later state of every user with its id.\<close>

definition later :: "staff_user list \<Rightarrow> staff_user \<Rightarrow> bool" where
  "later us d \<longleftrightarrow> (\<forall>u \<in> set us. u_id u = u_id d \<longrightarrow> user_step u d)"

context staff_store
begin

lemma grown_accounts:
  "keeps (staff_grown us) (StaffUsersService_startSession S)"
  "keeps (staff_grown us) (StaffUsersService_reserveIdentifier A n sid actorId)"
  "keeps (staff_grown us) (releaseIdentifier A subject n sid actorId)"
  "keeps (staff_grown us) (revokeSessions A subject sid reason)"
  "keeps (staff_grown us) (StaffUsersService_recordChanges A u actor pr ps rc sc)"
  "keeps (staff_grown us) (StaffUsersService_findDocumentById A i)"
  by (rule keepsI; rule wp_startSession wp_reserveIdentifier wp_releaseIdentifier wp_revokeSessions
      wp_recordChanges wp_findDocumentById; simp)+

lemma grown_save_new: "keeps (staff_grown us) (save_new A u)"
  unfolding save_new_def by (rule su.keeps_createDoc) (simp_all add: staff_grown_added)

lemma grown_save_object:
  assumes "later us x"
  shows "keeps (\<lambda>(w, d). staff_grown us w \<and> user_step x d) (save_object A)"
proof (rule keepsI, clarify)
  fix w :: "'e world" and u assume w: "staff_grown us w" and u: "user_step x u"
  have saved: "staff_grown us (w\<lparr>staffUsers := ds\<rparr>)"
    if "one_updated staff_user_clash (\<lambda>d. u_id d = u_id u) (\<lambda>_. u) (staffUsers w) ds d" for ds d
  proof (rule staff_grown_updated [OF w that])
    show "u_id u = u_id d" using that by (auto simp: one_updated_def)
    then show "user_step v u" if "v \<in> set us" "u_id v = u_id d" for v
      using that assms u user_step_id [OF u] user_step_trans unfolding later_def by metis
  qed
  show "wp (save_object A) (\<lambda>_ (w, d). staff_grown us w \<and> user_step x d)
      (\<lambda>_ (w, d). staff_grown us w \<and> user_step x d) (w, u)"
    unfolding save_object_def wp_await wp_asks wp_on_world snd_conv
    by (intro su.wp_saveDoc) (use w u saved in simp_all)
qed

lemma grown_persistCreate:
  "keeps (staff_grown us) (StaffUsersService_persistCreateWithIdentifier A S D u email sid actorId)"
  unfolding StaffUsersService_persistCreateWithIdentifier_def
  by (intro keeps_rules grown_accounts grown_save_new keeps_with_object [where J = "\<lambda>_. True"]
      tx.keeps_document_transaction keeps_on_world keeps_mutate) simp_all

lemma grown_create: "keeps (staff_grown us) (StaffUsersService_create A S D objectId dto actor)"
proof -
  have roles: "keeps (staff_grown us) (StaffUsersService_validateRoles rs)" for rs
    by (rule keepsI, rule wp_validateRoles) simp_all
  show ?thesis
    unfolding StaffUsersService_create_def Let_def
    by (intro keeps_rules roles su.keeps_exists_doc keeps_env_only [OF bcrypt_env] keeps_env_only [OF object_id_env]
        grown_persistCreate) simp_all
qed

lemma grown_persistIdentifierChange:
  assumes "later us x" and "\<And>d. user_step x d \<Longrightarrow> user_step x (f d)"
  shows "keeps (\<lambda>(w, d). staff_grown us w \<and> user_step x d)
    (StaffUsersService_persistIdentifierChange A S D sid old new actorId f)"
  unfolding StaffUsersService_persistIdentifierChange_def
  by (intro keeps_rules grown_accounts grown_save_object [OF assms(1)] tx.keeps_document_transaction keeps_on_world
      keeps_mutate assms(2)) simp_all

lemma grown_update: "keeps (staff_grown us) (StaffUsersService_update A S D i dto actor)"
proof (rule keepsI)
  fix w :: "'e world" assume w: "staff_grown us w"
  have rest: "keeps (staff_grown us) (let emailChanged = (nextEmail \<noteq> u_email user);
           rolesChanged = (\<not> StaffUsersService_sameRoles (u_roles user) nextRoles);
           statusChanged = (uu_status dto \<noteq> None \<and> uu_status dto \<noteq> Some (u_status user));
           changed = (rolesChanged \<or> statusChanged \<or> emailChanged);
           applyUpdates = StaffUsersService_applyUpdates dto actor nextEmail nextRoles changed in
       with_object user
         (await (if emailChanged \<and> identifierModel A \<noteq> None
                 then StaffUsersService_persistIdentifierChange A S D (u_id user) (u_email user) nextEmail
                   (actor_or_system actor) applyUpdates
                 else await (mutate applyUpdates) (\<lambda>_. save_object A)) (\<lambda>_.
          await (whenM changed
            (on_world (revokeSessions A StaffSubject (u_id user) ''staff-account-updated''))) (\<lambda>_.
          await (asks snd) (\<lambda>user'.
          await (on_world (StaffUsersService_recordChanges A user' actor (u_roles user) (u_status user)
            rolesChanged statusChanged)) (\<lambda>_.
          ret (StaffUsersService_toResponse user')))))))"
    if "later us user" for user nextRoles nextEmail
    unfolding Let_def using that
    by (intro keeps_rules grown_accounts keeps_with_object [where J = "user_step user"] grown_persistIdentifierChange
        grown_save_object keeps_on_world keeps_mutate user_step_updates) simp_all
  have roles: "keeps (staff_grown us) (StaffUsersService_validateRoles rs)" for rs
    by (rule keepsI, rule wp_validateRoles) simp_all
  show "wp (StaffUsersService_update A S D i dto actor) (\<lambda>_. staff_grown us) (\<lambda>_. staff_grown us) w"
    unfolding StaffUsersService_update_def wp_await [of "StaffUsersService_findDocumentById A i"]
  proof (rule wp_findDocumentById, goal_cases)
    case (1 u z)
    then have "later us u" using w by (auto simp: staff_grown_def later_def)
    then show ?case
      unfolding Let_def [of "u_email u"] Let_def [of "u_roles u"] Let_def [of "u_status u"]
        Let_def [of "case _ of None \<Rightarrow> _ | Some e \<Rightarrow> _ e"]
      by (intro keepsD [of "staff_grown us"] keeps_await keeps_option keeps_ret roles rest) (simp_all add: w)
  qed (use w in simp)
qed

lemma grown_version:
  "keeps (staff_grown us) (StaffUsersService_touchLastLogin A i)"
  "keeps (staff_grown us) (StaffUsersService_bumpAuthVersion A i)"
proof -
  have one: "keeps (staff_grown us) (updateOne (staffUserModel A) p f)" if "\<And>u. user_step u (f u)" for p f
    by (rule su.keeps_updateOne)
      (use that user_step_id [OF that] in \<open>auto intro: staff_grown_updated user_step_trans\<close>)
  show "keeps (staff_grown us) (StaffUsersService_touchLastLogin A i)"
    "keeps (staff_grown us) (StaffUsersService_bumpAuthVersion A i)"
    unfolding StaffUsersService_touchLastLogin_def StaffUsersService_bumpAuthVersion_def toMongoObjectId_def
    by (auto intro!: keeps_rules one simp: user_step_def)
qed

end

subsection \<open>Tokens over time\<close>

text \<open>
  The states that staff users have been in so far, and the world now: staff users are added, changed
  and signed in, their versions are raised, and whatever else happens leaves them alone.  An access
  token of any of those states may still be about, as \<^verbatim>\<open>AuthService.buildStaffLoginResponse\<close> made it.
\<close>

inductive staff_history ::
  "'e app \<Rightarrow> ('e world, bool) io \<Rightarrow>
   (('e world \<times> staff_user, unit) io \<Rightarrow> ('e world \<times> staff_user, unit) io) \<Rightarrow>
   ('e world, string) io \<Rightarrow> staff_user list \<Rightarrow> 'e world \<Rightarrow> bool"
  for A :: "'e app" and S D objectId where
  opened: "distinct (map u_id (staffUsers w)) \<Longrightarrow> staff_history A S D objectId (staffUsers w) w"
| created: "staff_history A S D objectId us w \<Longrightarrow> StaffUsersService_create A S D objectId cdto actor w = (r, w') \<Longrightarrow>
    staff_history A S D objectId (staffUsers w' @ us) w'"
| updated: "staff_history A S D objectId us w \<Longrightarrow> StaffUsersService_update A S D i dto actor w = (r', w') \<Longrightarrow>
    staff_history A S D objectId (staffUsers w' @ us) w'"
| signed_in: "staff_history A S D objectId us w \<Longrightarrow> StaffUsersService_touchLastLogin A i w = (v, w') \<Longrightarrow>
    staff_history A S D objectId (staffUsers w' @ us) w'"
| signed_out: "staff_history A S D objectId us w \<Longrightarrow> StaffUsersService_bumpAuthVersion A i w = (v, w') \<Longrightarrow>
    staff_history A S D objectId (staffUsers w' @ us) w'"
| elsewhere: "staff_history A S D objectId us w \<Longrightarrow> staffUsers w' = staffUsers w \<Longrightarrow>
    staff_history A S D objectId us w'"

context staff_store
begin

lemma history_grown: "staff_history A S D objectId us w \<Longrightarrow> staff_grown us w"
proof (induction rule: staff_history.induct)
  case (created us w cdto actor r w')
  then show ?case using keeps_snd [OF grown_create, of us w cdto actor] by (simp add: staff_grown_seen)
next
  case (updated us w i dto actor r' w')
  then show ?case using keeps_snd [OF grown_update, of us w i dto actor] by (simp add: staff_grown_seen)
next
  case (signed_in us w i v w')
  then show ?case using keeps_snd [OF grown_version(1), of us w i] by (simp add: staff_grown_seen)
next
  case (signed_out us w i v w')
  then show ?case using keeps_snd [OF grown_version(2), of us w i] by (simp add: staff_grown_seen)
qed (blast intro: staff_grown_start staff_grown_same)+

end

lemma permissions_of_roles: "mset rs = mset qs \<Longrightarrow> set (permissionsForStaffRoles rs) = set (permissionsForStaffRoles qs)"
  by (simp add: permissionsForStaffRoles_def) (metis set_mset_mset)

context staff_documents
begin

lemma wp_validate_staff:
  fixes u :: staff_user and jti
  defines "payload \<equiv> raw_auth_payload.truncate (staff_claims (staff_auth_of u) jti)"
  shows "wp (JwtStrategy_validate A payload)
     (\<lambda>r w'. \<exists>d \<in> set (staffUsers w). u_id d = to_lower (u_id u) \<and> u_status d = StaffActive \<and>
        u_authVersion d = u_authVersion u \<and> r_subjectId r = Some (u_id d) \<and>
        (\<exists>ps. r_permissions r = Some ps \<and> (ps = permissionsForStaffRoles (u_roles u) \<or>
          ps = permissionsForStaffRoles (u_roles d))))
     (\<lambda>_ _. True) w"
proof -
  have claims: "p_sub payload = Some (u_id u)" "p_jti payload = Some jti" "p_role_area payload = Some ''staff''"
    "token_version payload = u_authVersion u"
    by (simp_all add: payload_def raw_auth_payload.truncate_def staff_claims_def staff_auth_of_def token_version_def Let_def)
  have named: "PermissionsService_permissionsFromPayload payload =
      (if permissionsForStaffRoles (u_roles u) = [] then None else Some (permissionsForStaffRoles (u_roles u)))"
    using map_filter_known [of "permissionsForStaffRoles (u_roles u)"]
    by (cases "permissionsForStaffRoles (u_roles u)")
      (simp_all add: payload_def raw_auth_payload.truncate_def staff_claims_def staff_auth_of_def Let_def
        PermissionsService_permissionsFromPayload_def PermissionsService_permissionsFromScope_def scope_of_def)
  have user: "r_permissions (staff_request_user d (PermissionsService_buildStaffContext d payload)) =
      Some (if permissionsForStaffRoles (u_roles u) = [] then permissionsForStaffRoles (u_roles d)
        else permissionsForStaffRoles (u_roles u))" "r_subjectId (staff_request_user d c) = Some (u_id d)" for d c
    by (simp_all add: staff_request_user_def PermissionsService_buildStaffContext_def named Let_def)
  show ?thesis
    unfolding JwtStrategy_validate_def claims Let_def option.case
    by (auto simp: wp_if user intro!: wp_findActiveById) metis+
qed

end

subsection \<open>Properties\<close>

text \<open>A request gets past the guards of a route only as the route declares: without a user on the
  sign-in, refresh, sign-out and health routes, and on every other route with a verified token whose
  context has, for a staff route, the staff area and all the permissions that the route names, and
  for a member's own pages, the member area and the permission to read them.\<close>

theorem routes_are_guarded:
  assumes "ep \<in> set all_endpoints" and "admitted A before ep verified w = (Inr user, w')"
  shows "if ep_path ep \<in> set open_paths then user = None
    else \<exists>p u c. verified = Some p \<and> user = Some u \<and> getRequestAuthContext (Some u) = Some c \<and> entitled ep c"
  using wp_return_value [OF admitted_outcome assms(2)] assms(1) all_well_guarded
  by (auto simp: list_all_iff getRequestAuthContext_def split: if_splits)

text \<open>The token that the administrator of the sample library gets, and a route that takes it.\<close>

definition sample_payload :: raw_auth_payload where
  "sample_payload = raw_auth_payload.truncate (staff_claims (staff_auth_of sample_staff_user) ''token-1'')"

definition lend_route :: endpoint where
  "lend_route = permitted ''BorrowingsController'' ''POST'' ''/borrowings'' ''create'' [BorrowingsManage]"

theorem routes_are_guarded_witness:
  "\<exists>u c. fst (admitted mem_app (\<lambda>_. ret ()) lend_route (Some sample_payload) sample_world) = Inr (Some u) \<and>
     getRequestAuthContext (Some u) = Some c \<and> BorrowingsManage \<in> set (x_permissions c)"
proof -
  have run: "\<not> isl (fst (admitted mem_app (\<lambda>_. ret ()) lend_route (Some sample_payload) sample_world))"
    and listed: "lend_route \<in> set all_endpoints"
    and staff_only: "ep_path lend_route \<notin> set (open_paths @ session_paths @ self_service_paths)"
    by code_simp+
  from run obtain user where r: "fst (admitted mem_app (\<lambda>_. ret ()) lend_route (Some sample_payload) sample_world) =
      Inr user" by (auto simp: isl_def split: sum.splits) (metis sum.exhaust)
  from routes_are_guarded [OF listed run_returned [OF run]] staff_only r show ?thesis
    by (auto simp: entitled_def lend_route_def permitted_def metadata_def)
qed

text \<open>C14: of all the access tokens that were handed out to a staff user so far, the strategy accepts only
  those of a user who is active now and whose version has not been raised since; the permissions that
  the token carries are then the ones that the user's roles give now, even though roles are not
  looked up again.\<close>

theorem accepted_token_is_current:
  assumes "staff_store A I F V D S objectId" and "staff_history A S D objectId us w" and "u \<in> set us"
    and "to_lower (u_id u) = u_id u"
    and "JwtStrategy_validate A (raw_auth_payload.truncate (staff_claims (staff_auth_of u) jti)) w = (Inr r, w')"
  shows "\<exists>d ps. d \<in> set (staffUsers w) \<and> u_id d = u_id u \<and> u_status d = StaffActive \<and>
    u_authVersion d = u_authVersion u \<and> r_subjectId r = Some (u_id d) \<and> r_permissions r = Some ps \<and>
    set ps = set (permissionsForStaffRoles (u_roles d))"
proof -
  have documents: "staff_documents A" using assms(1) by (simp add: staff_store_def)
  from wp_return_value [OF staff_documents.wp_validate_staff [OF documents] assms(5)] assms(4)
  obtain d ps where d: "d \<in> set (staffUsers w)" "u_id d = u_id u" "u_status d = StaffActive"
      "u_authVersion d = u_authVersion u" "r_subjectId r = Some (u_id d)" "r_permissions r = Some ps"
    and ps: "ps = permissionsForStaffRoles (u_roles u) \<or> ps = permissionsForStaffRoles (u_roles d)" by metis
  have "user_step u d"
    using staff_store.history_grown [OF assms(1,2)] assms(3) d(1,2) by (auto simp: staff_grown_def)
  then have "set ps = set (permissionsForStaffRoles (u_roles d))"
    using ps d(4) permissions_of_roles [of "u_roles d" "u_roles u"] by (auto simp: user_step_def)
  with d show ?thesis by blast
qed

theorem accepted_token_is_current_witness:
  "\<exists>ps. r_permissions (projr (fst (JwtStrategy_validate mem_app sample_payload sample_world))) = Some ps \<and>
     set ps = set (permissionsForStaffRoles [Admin])"
proof -
  have run: "\<not> isl (fst (JwtStrategy_validate mem_app sample_payload sample_world))"
    and lower: "to_lower (u_id sample_staff_user) = u_id sample_staff_user"
    by code_simp+
  have us: "staffUsers sample_world = [sample_staff_user]" by (simp add: sample_world_def)
  have "staff_history mem_app (ret True) mem_document_transaction (mem_name ''64f0'') (staffUsers sample_world) sample_world"
    by (rule opened) (simp add: us)
  from accepted_token_is_current [OF mem_staff_store.staff_store_axioms this _ lower run_returned [OF run [unfolded sample_payload_def]]]
  show ?thesis by (simp add: us sample_payload_def) (metis sample_staff_user_def staff_user.select_convs(5))
qed

end
