(* ===== verification/Identifier_Operations.thy ===== *)
theory Identifier_Operations
  imports Sign_In
begin

text \<open>
  \<^verbatim>\<open>src/auth/auth-identifier.service.ts\<close>: changes to several sign-in identifiers at once, as one durable
  operation that runs in a transaction or, where there is none, as a saga that can be resumed and
  compensated; and the resolution of identifier conflicts by an administrator.

  The methods do the same with a session and without one, so the session argument is left out; \<open>T\<close>
  below is what \<^verbatim>\<open>startSession\<close> and \<^verbatim>\<open>withTransaction\<close> give together.  Texts of a document are trimmed
  (and identifiers lowered) where mongoose runs the setters of the schema: on what is stored and on
  the values of a filter.
\<close>

subsection \<open>Inputs and results\<close>

record assignment_input =
  as_assignmentId :: string
  as_subjectType :: subject_type
  as_subjectId :: string
  as_action :: assignment_action
  as_normalizedIdentifier :: "string option"
  as_identifierType :: "identifier_type option"
  as_sourceReservationId :: "string option"
  as_identifierCorrelationHash :: "string option"
  as_correlationKeyVersion :: "nat option"

record operation_input =
  in_operationId :: string
  in_operationType :: operation_type
  in_assignments :: "assignment_input list"
  in_requestedBy :: subject_reference
  in_successHttpStatus :: "int option"
  in_successReasonCategory :: "string option"
  in_failureHttpStatus :: "int option"
  in_failureReasonCategory :: "string option"
  in_compensateOnFailure :: bool
  in_cleanupStatus :: "cleanup_status option"
  in_resumeId :: "string option"
  in_retainedSubject :: "subject_reference option"

record operation_answer =
  oa_operationId :: string
  oa_status :: terminal_status
  oa_httpStatus :: int
  oa_replayed :: bool
  oa_result :: operation_result

text \<open>What an operation does to the accounts, given by the caller; \<^verbatim>\<open>isApplied\<close> is optional.\<close>

record 'e aggregate =
  ag_apply :: "assignment_input \<Rightarrow> ('e world, unit) io"
  ag_compensate :: "assignment_input \<Rightarrow> ('e world, unit) io"
  ag_isApplied :: "(assignment_input \<Rightarrow> ('e world, bool) io) option"

datatype transaction_strategy = AutoStrategy | RequiredStrategy | DisabledStrategy

text \<open>The dependencies and options of the service beside those of the application.\<close>

record 'e identifier_service =
  sv_identifiers :: "('e world, reservation) model"
  sv_events :: "('e world, security_event) model"
  sv_staffUsers :: "('e world, staff_user) model option"
  sv_members :: "('e world, member) model option"
  sv_maxAssignments :: nat
  sv_operationRetentionMs :: int
  sv_transactionStrategy :: transaction_strategy
  sv_transaction :: "(('e world, operation_answer) io \<Rightarrow> ('e world, operation_answer) io) option"

fun operation_type_name :: "operation_type \<Rightarrow> string" where
  "operation_type_name ClaimOperation = ''claim''"
| "operation_type_name ReplaceOperation = ''replace''"
| "operation_type_name ReleaseOperation = ''release''"
| "operation_type_name ResolveConflictOperation = ''resolve-conflict''"
| "operation_type_name OfflineRepairOperation = ''offline-repair''"

fun operation_status_name :: "operation_status \<Rightarrow> string" where
  "operation_status_name OperationPending = ''pending''"
| "operation_status_name OperationApplying = ''applying''"
| "operation_status_name OperationCompensating = ''compensating''"
| "operation_status_name OperationFinalizing = ''finalizing''"
| "operation_status_name OperationFailedRetryable = ''failed-retryable''"
| "operation_status_name OperationCompleted = ''completed''"
| "operation_status_name OperationFailedTerminal = ''failed-terminal''"

fun terminal_of :: "terminal_status \<Rightarrow> operation_status" where
  "terminal_of TerminalCompleted = OperationCompleted"
| "terminal_of TerminalFailed = OperationFailedTerminal"

text \<open>The action a reservation is pending for.\<close>

fun pending_for :: "assignment_action \<Rightarrow> pending_action" where
  "pending_for RetainAction = PendingResolveConflict"
| "pending_for ClaimAction = PendingClaim"
| "pending_for ReplaceAction = PendingReplace"
| "pending_for ReleaseAction = PendingRelease"

text \<open>A text that is not an ObjectId makes a query on an ObjectId field throw a \<^verbatim>\<open>CastError\<close>.\<close>

definition cast_object_id :: "string \<Rightarrow> ('w, string) io" where
  "cast_object_id v = (if is_object_id v then ret (to_lower v) else throw (JsError ''Cast to ObjectId failed''))"

subsection \<open>Helpers of the service\<close>

fun allowedTransitions :: "operation_status \<Rightarrow> operation_status list" where
  "allowedTransitions OperationPending = [OperationApplying, OperationCompensating, OperationFailedRetryable]"
| "allowedTransitions OperationApplying = [OperationCompensating, OperationFinalizing, OperationFailedRetryable]"
| "allowedTransitions OperationCompensating = [OperationFinalizing, OperationFailedRetryable]"
| "allowedTransitions OperationFinalizing = [OperationCompleted, OperationFailedTerminal]"
| "allowedTransitions OperationFailedRetryable = [OperationApplying, OperationCompensating]"
| "allowedTransitions OperationCompleted = []"
| "allowedTransitions OperationFailedTerminal = []"

definition AuthIdentifierService_validateTransition :: "operation_status \<Rightarrow> operation_status \<Rightarrow> ('w, unit) io" where
  "AuthIdentifierService_validateTransition from_status to_status =
     (if to_status \<in> set (allowedTransitions from_status) then ret ()
      else throw (Conflict (''Invalid identifier operation transition: '' @ operation_status_name from_status @
        '' -> '' @ operation_status_name to_status)))"

definition AuthIdentifierService_isDuplicateKey :: "exn \<Rightarrow> bool" where
  "AuthIdentifierService_isDuplicateKey error = (error_code error = Some duplicate_key_code)"

definition AuthIdentifierService_isTransactionUnavailable :: "exn \<Rightarrow> bool" where
  "AuthIdentifierService_isTransactionUnavailable error =
     list_ex (\<lambda>t. containsLiteral t (exn_message error))
       [''transaction are unavailable'', ''transaction is unavailable'', ''transactions are unavailable'',
        ''transactions is unavailable'', ''transaction numbers are only allowed'', ''replica set'']"

definition AuthIdentifierService_toSecurityActor :: "subject_reference option \<Rightarrow> actor_reference option" where
  "AuthIdentifierService_toSecurityActor actor =
     map_option (\<lambda>a. \<lparr>ar_actorType = (case s_subjectType a of StaffSubject \<Rightarrow> StaffActor | MemberSubject \<Rightarrow> MemberActor),
       ar_actorId = Some (s_subjectId a)\<rparr>) actor"

definition AuthIdentifierService_safeReasonCategory :: "string option \<Rightarrow> string \<Rightarrow> string" where
  "AuthIdentifierService_safeReasonCategory = SecurityActivityService_safeReasonCategory"

definition AuthIdentifierService_normalizeIdentifier :: "string \<Rightarrow> ('w, string) io" where
  "AuthIdentifierService_normalizeIdentifier v =
     (let normalized = to_lower (trim v) in
      if normalized = [] then throw (Unprocessable ''Replacement identifier is required'') else ret normalized)"

definition AuthIdentifierService_findOperation :: "'e app \<Rightarrow> string \<Rightarrow> ('e world, operation option) io" where
  "AuthIdentifierService_findOperation A operationId =
     findOne (operationModel A) (\<lambda>d. o_operationId d = trim operationId)"

definition AuthIdentifierService_validateInput :: "'e identifier_service \<Rightarrow> operation_input \<Rightarrow> ('w, unit) io" where
  "AuthIdentifierService_validateInput S input =
     (if trim (in_operationId input) = [] then throw (Unprocessable ''Operation id is required'')
      else if in_assignments input = [] \<or> length (in_assignments input) > sv_maxAssignments S
      then throw (Unprocessable (''Identifier operations require 1-'' @ decimal (sv_maxAssignments S) @ '' assignments''))
      else if \<not> distinct (map as_assignmentId (in_assignments input))
      then throw (Unprocessable ''Assignment ids must be unique within an operation'')
      else ret ())"

definition assignment_matches :: "assignment_input list \<Rightarrow> assignment \<Rightarrow> bool" where
  "assignment_matches candidates persisted =
     (case find (\<lambda>item. as_assignmentId item = n_assignmentId persisted) candidates of
        None \<Rightarrow> False
      | Some candidate \<Rightarrow>
          as_subjectType candidate = n_subjectType persisted \<and> as_subjectId candidate = n_subjectId persisted \<and>
          as_action candidate = n_action persisted \<and>
          (case as_sourceReservationId candidate of None \<Rightarrow> [] | Some s \<Rightarrow> s) =
            (case n_sourceReservationId persisted of None \<Rightarrow> [] | Some s \<Rightarrow> s) \<and>
          as_identifierCorrelationHash candidate = n_identifierCorrelationHash persisted \<and>
          as_correlationKeyVersion candidate = n_correlationKeyVersion persisted)"

definition AuthIdentifierService_assertOperationManifest :: "operation \<Rightarrow> operation_input \<Rightarrow> ('w, unit) io" where
  "AuthIdentifierService_assertOperationManifest operation input =
     (if length (o_assignments operation) \<noteq> length (in_assignments input) \<or>
        \<not> list_all (assignment_matches (in_assignments input)) (o_assignments operation)
      then throw (Conflict ''Operation id is already bound to another assignment manifest'')
      else ret ())"

definition AuthIdentifierService_terminalResult :: "operation_input \<Rightarrow> terminal_status \<Rightarrow> operation_result" where
  "AuthIdentifierService_terminalResult input status =
     (if status = TerminalCompleted
      then \<lparr>w_outcome = ResultSuccess,
        w_reasonCategory = Some (AuthIdentifierService_safeReasonCategory (in_successReasonCategory input)
          ''identifier-operation-completed''),
        w_httpStatus = (case in_successHttpStatus input of None \<Rightarrow> 200 | Some c \<Rightarrow> c)\<rparr>
      else \<lparr>w_outcome = ResultFailure,
        w_reasonCategory = Some (AuthIdentifierService_safeReasonCategory (in_failureReasonCategory input)
          ''identifier-operation-compensated''),
        w_httpStatus = (case in_failureHttpStatus input of None \<Rightarrow> 409 | Some c \<Rightarrow> c)\<rparr>)"

definition AuthIdentifierService_replay :: "operation \<Rightarrow> ('w, operation_answer) io" where
  "AuthIdentifierService_replay operation =
     (case o_result operation of
        Some result \<Rightarrow>
          if \<not> terminal_operation (o_status operation) then throw (Conflict ''Identifier operation is not terminal'')
          else ret \<lparr>oa_operationId = o_operationId operation,
            oa_status = (if o_status operation = OperationCompleted then TerminalCompleted else TerminalFailed),
            oa_httpStatus = w_httpStatus result, oa_replayed = True, oa_result = result\<rparr>
      | None \<Rightarrow> throw (Conflict ''Identifier operation is not terminal''))"

subsection \<open>The operation's document\<close>

definition persisted_assignment :: "assignment_input \<Rightarrow> assignment" where
  "persisted_assignment a =
     \<lparr>n_assignmentId = as_assignmentId a, n_subjectType = as_subjectType a, n_subjectId = as_subjectId a,
      n_action = as_action a, n_sourceReservationId = as_sourceReservationId a, n_targetReservationId = None,
      n_identifierCorrelationHash = as_identifierCorrelationHash a,
      n_correlationKeyVersion = as_correlationKeyVersion a, n_status = AssignmentPending, n_appliedAt = None\<rparr>"

definition new_operation :: "operation_input \<Rightarrow> string \<Rightarrow> operation" where
  "new_operation input i = operation_cast
     \<lparr>o_id = i, o_operationId = in_operationId input, o_operationType = in_operationType input,
      o_status = OperationPending, o_assignments = map persisted_assignment (in_assignments input),
      o_manifestHash = None, o_manifestKeyVersion = None, o_retainedSubject = in_retainedSubject input,
      o_result = None, o_leaseOwner = None, o_leaseExpiresAt = None, o_terminalEventId = None,
      o_terminalEventRecordedAt = None,
      o_cleanupStatus = (case in_cleanupStatus input of None \<Rightarrow> CleanupNotRequired | Some c \<Rightarrow> c),
      o_expiresAt = None, o_requestedBy = in_requestedBy input, o_lastResumedBy = None,
      o_lastResumedAt = None, o_completedAt = None\<rparr>"

definition AuthIdentifierService_createOperation :: "'e app \<Rightarrow> operation_input \<Rightarrow> ('e world, operation) io" where
  "AuthIdentifierService_createOperation A input =
     (if list_all (\<lambda>a. case as_sourceReservationId a of None \<Rightarrow> True | Some s \<Rightarrow> is_object_id s) (in_assignments input)
      then createDoc (operationModel A) (new_operation input)
      else throw (ValidationError ''Cast to ObjectId failed''))"

definition AuthIdentifierService_transition ::
  "'e app \<Rightarrow> string \<Rightarrow> operation_status \<Rightarrow> operation_status \<Rightarrow> ('e world, unit) io" where
  "AuthIdentifierService_transition A operationId from_status to_status =
     await (AuthIdentifierService_validateTransition from_status to_status) (\<lambda>_.
     await (findOneAndUpdate (operationModel A)
       (\<lambda>d. o_operationId d = trim operationId \<and> o_status d = from_status)
       (\<lambda>d. d\<lparr>o_status := to_status\<rparr>)) (\<lambda>updated.
     await (require (Conflict ''Identifier operation state changed concurrently'') updated) (\<lambda>_. ret ())))"

text \<open>\<^verbatim>\<open>'assignments.$'\<close>: the first assignment that the filter matched.\<close>

definition set_assignment :: "string \<Rightarrow> (assignment \<Rightarrow> assignment) \<Rightarrow> operation \<Rightarrow> operation" where
  "set_assignment assignmentId f d =
     d\<lparr>o_assignments := update_first (\<lambda>n. n_assignmentId n = trim assignmentId) f (o_assignments d)\<rparr>"

definition has_assignment :: "string \<Rightarrow> string \<Rightarrow> operation \<Rightarrow> bool" where
  "has_assignment operationId assignmentId d =
     (o_operationId d = trim operationId \<and> list_ex (\<lambda>n. n_assignmentId n = trim assignmentId) (o_assignments d))"

definition update_assignment ::
  "'e app \<Rightarrow> string \<Rightarrow> string \<Rightarrow> (assignment \<Rightarrow> assignment) \<Rightarrow> ('e world, unit) io" where
  "update_assignment A operationId assignmentId f =
     await (updateOne (operationModel A) (has_assignment operationId assignmentId) (set_assignment assignmentId f))
       (\<lambda>_. ret ())"

definition AuthIdentifierService_markAssignmentApplied ::
  "'e app \<Rightarrow> string \<Rightarrow> string \<Rightarrow> ('e world, unit) io" where
  "AuthIdentifierService_markAssignmentApplied A operationId assignmentId =
     await (asks (clock A)) (\<lambda>now.
     update_assignment A operationId assignmentId
       (\<lambda>n. n\<lparr>n_status := AssignmentApplied, n_appliedAt := Some now\<rparr>))"

definition AuthIdentifierService_attachReservationReference ::
  "'e app \<Rightarrow> string \<Rightarrow> string \<Rightarrow> reservation \<Rightarrow> ('e world, unit) io" where
  "AuthIdentifierService_attachReservationReference A operationId assignmentId reservation =
     update_assignment A operationId assignmentId (\<lambda>n. n\<lparr>n_targetReservationId := Some (i_id reservation)\<rparr>)"

definition AuthIdentifierService_beginFinalizing ::
  "'e app \<Rightarrow> operation_input \<Rightarrow> operation_status \<Rightarrow> terminal_status \<Rightarrow> ('e world, unit) io" where
  "AuthIdentifierService_beginFinalizing A input from_status terminalStatus =
     await (AuthIdentifierService_validateTransition from_status OperationFinalizing) (\<lambda>_.
     await (findOneAndUpdate (operationModel A)
       (\<lambda>d. o_operationId d = trim (in_operationId input) \<and> o_status d = from_status)
       (\<lambda>d. d\<lparr>o_status := OperationFinalizing,
          o_result := Some (AuthIdentifierService_terminalResult input terminalStatus)\<rparr>)) (\<lambda>updated.
     await (require (Conflict ''Identifier operation state changed concurrently'') updated) (\<lambda>_. ret ())))"

definition finished :: "operation_input \<Rightarrow> terminal_status \<Rightarrow> int \<Rightarrow> string \<Rightarrow> date \<Rightarrow> operation \<Rightarrow> operation" where
  "finished input status retentionMs eventId now d =
     d\<lparr>o_status := terminal_of status, o_result := Some (AuthIdentifierService_terminalResult input status),
       o_terminalEventId := Some (trim eventId), o_terminalEventRecordedAt := Some now, o_completedAt := Some now,
       o_expiresAt := (if in_cleanupStatus input = Some CleanupPending then o_expiresAt d
         else Some (now + retentionMs))\<rparr>"

definition AuthIdentifierService_finishTerminal ::
  "'e app \<Rightarrow> 'e identifier_service \<Rightarrow> operation_input \<Rightarrow> terminal_status \<Rightarrow> ('e world, operation_answer) io" where
  "AuthIdentifierService_finishTerminal A S input status =
     (let result = AuthIdentifierService_terminalResult input status in
      await (SecurityActivityService_recordIdentifierOperationTerminal A (sv_events S) (in_operationId input)
        (operation_type_name (in_operationType input)) status
        (AuthIdentifierService_toSecurityActor (Some (in_requestedBy input)))
        (if status = TerminalCompleted then OutcomeSuccess else OutcomeFailure)
        (case w_reasonCategory result of None \<Rightarrow> [] | Some c \<Rightarrow> c)) (\<lambda>eventId.
      await (asks (clock A)) (\<lambda>now.
      await (findOneAndUpdate (operationModel A)
        (\<lambda>d. o_operationId d = trim (in_operationId input) \<and> o_status d = OperationFinalizing)
        (finished input status (sv_operationRetentionMs S) eventId now)) (\<lambda>updated.
      case updated of
        None \<Rightarrow>
          await (AuthIdentifierService_findOperation A (in_operationId input)) (\<lambda>current.
          case current of
            Some d \<Rightarrow> if terminal_operation (o_status d) then AuthIdentifierService_replay d
              else throw (Conflict ''Identifier operation could not be finalized safely'')
          | None \<Rightarrow> throw (Conflict ''Identifier operation could not be finalized safely''))
      | Some _ \<Rightarrow>
          ret \<lparr>oa_operationId = in_operationId input, oa_status = status, oa_httpStatus = w_httpStatus result,
            oa_replayed = False, oa_result = result\<rparr>))))"

subsection \<open>Reservations of an operation\<close>

definition AuthIdentifierService_findRecoverableReservation ::
  "'e app \<Rightarrow> 'e identifier_service \<Rightarrow> string \<Rightarrow> assignment_input \<Rightarrow> assignment option \<Rightarrow>
   ('e world, reservation option) io" where
  "AuthIdentifierService_findRecoverableReservation A S operationId a persisted =
     (let target = Option.bind persisted n_targetReservationId in
      await (if truthy target then findOne (sv_identifiers S) (\<lambda>i. i_id i = the target) else ret None) (\<lambda>referenced.
      case referenced of
        Some r \<Rightarrow> ret (Some r)
      | None \<Rightarrow> findOne (sv_identifiers S) (\<lambda>i. i_pendingOperationId i = Some (trim operationId) \<and>
          i_subjectType i = Some (as_subjectType a) \<and> i_subjectId i = Some (trim (as_subjectId a)) \<and>
          i_pendingAction i = Some (pending_for (as_action a)))))"

text \<open>The two updates of \<^verbatim>\<open>reserveAssignment\<close> and the document it inserts.\<close>

definition pending_reservation :: "string \<Rightarrow> assignment_input \<Rightarrow> string \<Rightarrow> reservation \<Rightarrow> reservation" where
  "pending_reservation operationId a actorId i =
     i\<lparr>i_status := IdentifierPending, i_pendingAction := Some (pending_for (as_action a)),
       i_pendingOperationId := Some (trim operationId), i_subjectType := Some (as_subjectType a),
       i_subjectId := Some (trim (as_subjectId a)), i_updatedBy := trim actorId\<rparr>"

definition claimed_reservation ::
  "string \<Rightarrow> assignment_input \<Rightarrow> string \<Rightarrow> identifier_type \<Rightarrow> string \<Rightarrow> reservation \<Rightarrow> reservation" where
  "claimed_reservation normalizedIdentifier a actorId identifierType operationId i =
     (pending_reservation operationId a actorId i)
       \<lparr>i_normalizedIdentifier := normalizedIdentifier, i_identifierType := identifierType\<rparr>"

definition inserted_reservation ::
  "string \<Rightarrow> assignment_input \<Rightarrow> string \<Rightarrow> identifier_type \<Rightarrow> string \<Rightarrow> string \<Rightarrow> reservation" where
  "inserted_reservation normalizedIdentifier a actorId identifierType operationId i =
     \<lparr>i_id = i, i_normalizedIdentifier = normalizedIdentifier, i_identifierType = identifierType,
      i_subjectType = Some (as_subjectType a), i_subjectId = Some (trim (as_subjectId a)),
      i_status = IdentifierPending, i_conflictingSubjects = None, i_conflictResolutionStatus = None,
      i_pendingOperationId = Some (trim operationId), i_activationGateOperationId = None,
      i_lastOperationId = None, i_pendingAction = Some (pending_for (as_action a)), i_releasedAt = None,
      i_createdBy = trim actorId, i_updatedBy = trim actorId\<rparr>"

definition may_be_claimed :: "string \<Rightarrow> assignment_input \<Rightarrow> string \<Rightarrow> reservation \<Rightarrow> bool" where
  "may_be_claimed operationId a normalizedIdentifier i =
     (i_normalizedIdentifier i = normalizedIdentifier \<and>
      (i_pendingOperationId i = Some (trim operationId) \<or> i_status i = IdentifierReleased \<or>
       i_status i = IdentifierActive \<and> i_subjectType i = Some (as_subjectType a) \<and>
         i_subjectId i = Some (trim (as_subjectId a))))"

definition may_be_given_up :: "string \<Rightarrow> assignment_input \<Rightarrow> string \<Rightarrow> reservation \<Rightarrow> bool" where
  "may_be_given_up operationId a source i =
     (i_id i = source \<and>
      (i_pendingOperationId i = Some (trim operationId) \<or>
       i_status i \<in> (if as_action a = RetainAction then {IdentifierConflict} else {IdentifierActive, IdentifierConflict})))"

definition AuthIdentifierService_reserveAssignment ::
  "'e identifier_service \<Rightarrow> string \<Rightarrow> assignment_input \<Rightarrow> string \<Rightarrow> ('e world, reservation) io" where
  "AuthIdentifierService_reserveAssignment S operationId a actorId =
     (let unavailable = Conflict ''Identifier reservation is unavailable'' in
      if as_action a = ReleaseAction \<or> as_action a = RetainAction then
        if \<not> truthy (as_sourceReservationId a)
        then throw (Unprocessable ''Source reservation is required for this assignment'')
        else
        try_catch
          (await (cast_object_id (the (as_sourceReservationId a))) (\<lambda>source.
           await (findOneAndUpdate (sv_identifiers S) (may_be_given_up operationId a source)
             (pending_reservation operationId a actorId)) (\<lambda>reservation.
           require unavailable reservation)))
          (\<lambda>error. throw (if AuthIdentifierService_isDuplicateKey error then unavailable else error))
      else case (as_normalizedIdentifier a, as_identifierType a) of
        (Some (c # cs), Some identifierType) \<Rightarrow>
          (let n = to_lower (trim (c # cs)) in
           try_catch
             (findOneAndUpsert (sv_identifiers S) (may_be_claimed operationId a n)
               (claimed_reservation n a actorId identifierType operationId)
               (inserted_reservation n a actorId identifierType operationId))
             (\<lambda>error. throw (if AuthIdentifierService_isDuplicateKey error then unavailable else error)))
      | _ \<Rightarrow> throw (Unprocessable ''A normalized identifier and type are required''))"

definition settled_reservation :: "string \<Rightarrow> assignment_input \<Rightarrow> string \<Rightarrow> date \<Rightarrow> reservation \<Rightarrow> reservation" where
  "settled_reservation operationId a actorId now i =
     i\<lparr>i_status := (if as_action a = ReleaseAction then IdentifierReleased else IdentifierActive),
       i_lastOperationId := Some (trim operationId), i_updatedBy := trim actorId,
       i_releasedAt := (if as_action a = ReleaseAction then Some now else i_releasedAt i),
       i_pendingOperationId := None, i_pendingAction := None\<rparr>"

definition AuthIdentifierService_finalizeReservation ::
  "'e app \<Rightarrow> 'e identifier_service \<Rightarrow> string \<Rightarrow> assignment_input \<Rightarrow> reservation \<Rightarrow> string \<Rightarrow> ('e world, unit) io" where
  "AuthIdentifierService_finalizeReservation A S operationId a reservation actorId =
     await (asks (clock A)) (\<lambda>now.
     await (updateOne (sv_identifiers S)
       (\<lambda>i. i_id i = i_id reservation \<and> i_pendingOperationId i = Some (trim operationId))
       (settled_reservation operationId a actorId now)) (\<lambda>_. ret ()))"

subsection \<open>Applying and compensating\<close>

definition find_assignment :: "string \<Rightarrow> operation \<Rightarrow> assignment option" where
  "find_assignment assignmentId d = find (\<lambda>item. n_assignmentId item = assignmentId) (o_assignments d)"

definition apply_assignment ::
  "'e app \<Rightarrow> 'e identifier_service \<Rightarrow> operation_input \<Rightarrow> 'e aggregate \<Rightarrow> assignment_input \<Rightarrow> ('e world, unit) io" where
  "apply_assignment A S input agg a =
     (let operationId = in_operationId input; actorId = s_subjectId (in_requestedBy input) in
      await (AuthIdentifierService_findOperation A operationId) (\<lambda>operation.
      let persisted = Option.bind operation (find_assignment (as_assignmentId a)) in
      await (AuthIdentifierService_findRecoverableReservation A S operationId a persisted) (\<lambda>recovered.
      await (case recovered of Some r \<Rightarrow> ret r
        | None \<Rightarrow> AuthIdentifierService_reserveAssignment S operationId a actorId) (\<lambda>reservation.
      await (AuthIdentifierService_attachReservationReference A operationId (as_assignmentId a) reservation) (\<lambda>_.
      await (if map_option n_status persisted = Some AssignmentApplied then ret ()
        else
          await (case ag_isApplied agg of None \<Rightarrow> ret False | Some isApplied \<Rightarrow> isApplied a) (\<lambda>alreadyApplied.
          await (if alreadyApplied then ret () else ag_apply agg a) (\<lambda>_.
          AuthIdentifierService_markAssignmentApplied A operationId (as_assignmentId a)))) (\<lambda>_.
      AuthIdentifierService_finalizeReservation A S operationId a reservation actorId))))))"

definition AuthIdentifierService_applyAssignments ::
  "'e app \<Rightarrow> 'e identifier_service \<Rightarrow> operation_input \<Rightarrow> 'e aggregate \<Rightarrow> ('e world, unit) io" where
  "AuthIdentifierService_applyAssignments A S input agg =
     for_each (in_assignments input) (apply_assignment A S input agg)"

definition restoredStatus :: "assignment_action \<Rightarrow> identifier_status" where
  "restoredStatus action = (case action of ReleaseAction \<Rightarrow> IdentifierActive | RetainAction \<Rightarrow> IdentifierConflict
     | _ \<Rightarrow> IdentifierReleased)"

definition restored_reservation :: "assignment_input \<Rightarrow> string \<Rightarrow> reservation \<Rightarrow> reservation" where
  "restored_reservation a actorId i =
     i\<lparr>i_status := restoredStatus (as_action a), i_updatedBy := trim actorId, i_pendingOperationId := None,
       i_pendingAction := None,
       i_releasedAt := (if restoredStatus (as_action a) \<noteq> IdentifierReleased then None else i_releasedAt i)\<rparr>"

definition compensate_assignment ::
  "'e app \<Rightarrow> 'e identifier_service \<Rightarrow> operation_input \<Rightarrow> 'e aggregate \<Rightarrow> assignment \<Rightarrow> ('e world, unit) io" where
  "compensate_assignment A S input agg persisted =
     (case find (\<lambda>item. as_assignmentId item = n_assignmentId persisted) (in_assignments input) of
        None \<Rightarrow> throw (Conflict ''Cannot safely compensate an incomplete assignment manifest'')
      | Some a \<Rightarrow>
          await (ag_compensate agg a) (\<lambda>_.
          await (case n_targetReservationId persisted of
              Some t \<Rightarrow> ret (Some t)
            | None \<Rightarrow> (case as_sourceReservationId a of None \<Rightarrow> ret None
                | Some s \<Rightarrow> await (cast_object_id s) (\<lambda>i. ret (Some i)))) (\<lambda>target.
          await (updateOne (sv_identifiers S)
            (\<lambda>i. Some (i_id i) = target \<and> i_lastOperationId i = Some (trim (in_operationId input)))
            (restored_reservation a (s_subjectId (in_requestedBy input)))) (\<lambda>_.
          update_assignment A (in_operationId input) (as_assignmentId a)
            (\<lambda>n. n\<lparr>n_status := AssignmentCompensated\<rparr>)))))"

definition AuthIdentifierService_compensateAssignments ::
  "'e app \<Rightarrow> 'e identifier_service \<Rightarrow> operation_input \<Rightarrow> operation \<Rightarrow> 'e aggregate \<Rightarrow> ('e world, unit) io" where
  "AuthIdentifierService_compensateAssignments A S input operation agg =
     for_each (rev (filter (\<lambda>n. n_status n = AssignmentApplied) (o_assignments operation)))
       (compensate_assignment A S input agg)"

definition synchronize_assignment ::
  "'e app \<Rightarrow> operation_input \<Rightarrow> (assignment_input \<Rightarrow> ('e world, bool) io) option \<Rightarrow> assignment \<Rightarrow> ('e world, unit) io" where
  "synchronize_assignment A input isApplied persisted =
     (case (find (\<lambda>item. as_assignmentId item = n_assignmentId persisted) (in_assignments input), isApplied) of
        (Some a, Some check) \<Rightarrow>
          await (check a) (\<lambda>applied.
          whenM applied (AuthIdentifierService_markAssignmentApplied A (in_operationId input) (as_assignmentId a)))
      | _ \<Rightarrow> ret ())"

definition AuthIdentifierService_synchronizeAppliedAssignments ::
  "'e app \<Rightarrow> operation_input \<Rightarrow> 'e aggregate \<Rightarrow> ('e world, unit) io" where
  "AuthIdentifierService_synchronizeAppliedAssignments A input agg =
     await (AuthIdentifierService_findOperation A (in_operationId input)) (\<lambda>found.
     await (require (Conflict ''Identifier operation is not retained'') found) (\<lambda>operation.
     let pending = filter (\<lambda>n. n_status n = AssignmentPending) (o_assignments operation) in
     if pending \<noteq> [] \<and> ag_isApplied agg = None
     then throw (Conflict ''Aggregate state cannot be proven safe for compensation'')
     else for_each pending (synchronize_assignment A input (ag_isApplied agg))))"

subsection \<open>Running an operation\<close>

definition AuthIdentifierService_executeInTransaction ::
  "'e app \<Rightarrow> 'e identifier_service \<Rightarrow> operation_input \<Rightarrow> 'e aggregate \<Rightarrow> ('e world, operation_answer) io" where
  "AuthIdentifierService_executeInTransaction A S input agg =
     (case sv_transaction S of
        None \<Rightarrow> throw (JsError ''Transactions are unavailable'')
      | Some T \<Rightarrow> T
          (await (AuthIdentifierService_createOperation A input) (\<lambda>_.
           await (AuthIdentifierService_transition A (in_operationId input) OperationPending OperationApplying) (\<lambda>_.
           await (AuthIdentifierService_applyAssignments A S input agg) (\<lambda>_.
           await (AuthIdentifierService_beginFinalizing A input OperationApplying TerminalCompleted) (\<lambda>_.
           AuthIdentifierService_finishTerminal A S input TerminalCompleted))))))"

text \<open>The operation that the saga works on: the one there is, or a new one.\<close>

definition saga_operation :: "'e app \<Rightarrow> operation_input \<Rightarrow> ('e world, operation) io" where
  "saga_operation A input =
     await (AuthIdentifierService_findOperation A (in_operationId input)) (\<lambda>found.
     case found of
       Some operation \<Rightarrow> ret operation
     | None \<Rightarrow>
         try_catch (AuthIdentifierService_createOperation A input)
           (\<lambda>error.
             if \<not> AuthIdentifierService_isDuplicateKey error then throw error
             else await (AuthIdentifierService_findOperation A (in_operationId input)) (\<lambda>existing.
               require error existing)))"

definition compensate_and_fail ::
  "'e app \<Rightarrow> 'e identifier_service \<Rightarrow> operation_input \<Rightarrow> 'e aggregate \<Rightarrow> operation \<Rightarrow> ('e world, terminal_status) io" where
  "compensate_and_fail A S input agg operation =
     await (AuthIdentifierService_compensateAssignments A S input operation agg) (\<lambda>_.
     await (AuthIdentifierService_beginFinalizing A input OperationCompensating TerminalFailed) (\<lambda>_.
     ret TerminalFailed))"

text \<open>\<^verbatim>\<open>catch (error)\<close> of \<^verbatim>\<open>executeSaga\<close>.\<close>

definition recover_saga ::
  "'e app \<Rightarrow> 'e identifier_service \<Rightarrow> operation_input \<Rightarrow> 'e aggregate \<Rightarrow> exn \<Rightarrow> ('e world, terminal_status) io" where
  "recover_saga A S input agg error =
     (let retryable = AuthIdentifierService_transition A (in_operationId input) OperationApplying OperationFailedRetryable in
      if \<not> in_compensateOnFailure input then await retryable (\<lambda>_. throw error)
      else
      await (try_catch (AuthIdentifierService_synchronizeAppliedAssignments A input agg)
        (\<lambda>synchronizationError. await retryable (\<lambda>_. throw synchronizationError))) (\<lambda>_.
      await (AuthIdentifierService_transition A (in_operationId input) OperationApplying OperationCompensating) (\<lambda>_.
      await (AuthIdentifierService_findOperation A (in_operationId input)) (\<lambda>latest.
      await (require error latest) (\<lambda>operation.
      compensate_and_fail A S input agg operation)))))"

text \<open>\<^verbatim>\<open>return this.finishTerminal(...)\<close> is not awaited, so what it throws is not caught.\<close>

definition AuthIdentifierService_executeSaga ::
  "'e app \<Rightarrow> 'e identifier_service \<Rightarrow> operation_input \<Rightarrow> 'e aggregate \<Rightarrow> ('e world, operation_answer) io" where
  "AuthIdentifierService_executeSaga A S input agg =
     await (saga_operation A input) (\<lambda>operation.
     let startingStatus = o_status operation in
     if terminal_operation startingStatus then AuthIdentifierService_replay operation
     else if startingStatus = OperationFinalizing
     then AuthIdentifierService_finishTerminal A S input
       (if map_option w_outcome (o_result operation) = Some ResultFailure then TerminalFailed else TerminalCompleted)
     else if startingStatus = OperationCompensating
     then await (compensate_and_fail A S input agg operation) (AuthIdentifierService_finishTerminal A S input)
     else
       await (whenM (startingStatus \<noteq> OperationApplying)
         (AuthIdentifierService_transition A (in_operationId input) startingStatus OperationApplying)) (\<lambda>_.
       await (try_catch
         (await (AuthIdentifierService_applyAssignments A S input agg) (\<lambda>_.
          await (AuthIdentifierService_beginFinalizing A input OperationApplying TerminalCompleted) (\<lambda>_.
          ret TerminalCompleted)))
         (recover_saga A S input agg)) (AuthIdentifierService_finishTerminal A S input)))"

definition AuthIdentifierService_resumeOrReplay ::
  "'e app \<Rightarrow> 'e identifier_service \<Rightarrow> operation \<Rightarrow> operation_input \<Rightarrow> 'e aggregate \<Rightarrow> ('e world, operation_answer) io" where
  "AuthIdentifierService_resumeOrReplay A S operation input agg =
     (if o_operationType operation \<noteq> in_operationType input then throw (Conflict ''Operation id is already in use'')
      else
      await (AuthIdentifierService_assertOperationManifest operation input) (\<lambda>_.
      if terminal_operation (o_status operation) then AuthIdentifierService_replay operation
      else
      await (if o_operationType operation \<noteq> OfflineRepairOperation then ret ()
        else if \<not> truthy (in_resumeId input)
        then throw (Unprocessable ''A stable resume id is required for offline repair reconciliation'')
        else
        await (SecurityActivityService_recordIdentifierRepairResumed A (sv_events S) (in_operationId input)
          (the (in_resumeId input)) (AuthIdentifierService_toSecurityActor (Some (o_requestedBy operation)))
          (the (AuthIdentifierService_toSecurityActor (Some (in_requestedBy input))))) (\<lambda>_.
        await (asks (clock A)) (\<lambda>now.
        await (updateOne (operationModel A) (\<lambda>d. o_operationId d = trim (in_operationId input))
          (\<lambda>d. d\<lparr>o_lastResumedBy := Some (reference_cast (in_requestedBy input)), o_lastResumedAt := Some now\<rparr>))
          (\<lambda>_. ret ())))) (\<lambda>_.
      AuthIdentifierService_executeSaga A S input agg)))"

definition AuthIdentifierService_execute ::
  "'e app \<Rightarrow> 'e identifier_service \<Rightarrow> operation_input \<Rightarrow> 'e aggregate \<Rightarrow> ('e world, operation_answer) io" where
  "AuthIdentifierService_execute A S input agg =
     await (AuthIdentifierService_validateInput S input) (\<lambda>_.
     await (AuthIdentifierService_findOperation A (in_operationId input)) (\<lambda>existing.
     case existing of
       Some operation \<Rightarrow> AuthIdentifierService_resumeOrReplay A S operation input agg
     | None \<Rightarrow>
         if sv_transactionStrategy S = DisabledStrategy then AuthIdentifierService_executeSaga A S input agg
         else
         try_catch (AuthIdentifierService_executeInTransaction A S input agg)
           (\<lambda>error.
             if sv_transactionStrategy S = RequiredStrategy \<or>
               \<not> AuthIdentifierService_isTransactionUnavailable error
             then throw error
             else AuthIdentifierService_executeSaga A S input agg)))"

definition AuthIdentifierService_reconcile ::
  "'e app \<Rightarrow> 'e identifier_service \<Rightarrow> operation_input \<Rightarrow> 'e aggregate \<Rightarrow> ('e world, operation_answer) io" where
  "AuthIdentifierService_reconcile A S input agg =
     await (AuthIdentifierService_validateInput S input) (\<lambda>_.
     await (AuthIdentifierService_findOperation A (in_operationId input)) (\<lambda>found.
     await (require (Conflict ''Identifier operation is not retained'') found) (\<lambda>operation.
     AuthIdentifierService_resumeOrReplay A S operation input agg)))"

definition AuthIdentifierService_resolveActiveIdentifier ::
  "'e app \<Rightarrow> 'e identifier_service \<Rightarrow> string \<Rightarrow> ('e world, (subject_type option \<times> string option) option) io" where
  "AuthIdentifierService_resolveActiveIdentifier A S normalizedIdentifier =
     await (findOne (sv_identifiers S) (\<lambda>i. i_normalizedIdentifier i = to_lower (trim normalizedIdentifier))) (\<lambda>found.
     case found of
       None \<Rightarrow> ret None
     | Some reservation \<Rightarrow>
         if i_status reservation \<noteq> IdentifierActive then ret None
         else
         await (if truthy (i_activationGateOperationId reservation)
           then await (AuthIdentifierService_findOperation A (the (i_activationGateOperationId reservation))) (\<lambda>gate.
             ret (map_option o_status gate = Some OperationCompleted))
           else ret True) (\<lambda>open_gate.
         ret (if open_gate then Some (i_subjectType reservation, i_subjectId reservation) else None)))"

subsection \<open>What an operation may change\<close>

text \<open>
  The life cycle: a status follows the allowed transitions, what the operation is about never changes,
  and an operation that has ended stays as it ended.
\<close>

definition manifest :: "assignment \<Rightarrow> string \<times> subject_type \<times> string \<times> assignment_action \<times> string option" where
  "manifest n = (n_assignmentId n, n_subjectType n, n_subjectId n, n_action n, n_sourceReservationId n)"

definition life_step :: "operation \<Rightarrow> operation \<Rightarrow> bool" where
  "life_step d d' \<longleftrightarrow> o_id d' = o_id d \<and> o_operationId d' = o_operationId d \<and>
     o_operationType d' = o_operationType d \<and> o_requestedBy d' = o_requestedBy d \<and>
     map manifest (o_assignments d') = map manifest (o_assignments d) \<and>
     (\<lambda>s t. t \<in> set (allowedTransitions s))\<^sup>*\<^sup>* (o_status d) (o_status d') \<and>
     (terminal_operation (o_status d) \<longrightarrow> o_status d' = o_status d \<and> o_result d' = o_result d \<and>
        o_completedAt d' = o_completedAt d \<and> o_terminalEventId d' = o_terminalEventId d)"

lemma life_step_refl [simp]: "life_step d d"
  by (simp add: life_step_def)

lemma life_step_trans: "life_step d e \<Longrightarrow> life_step e f \<Longrightarrow> life_step d f"
  by (auto simp: life_step_def intro: rtranclp_trans)

lemma manifest_update_first:
  "(\<And>n. manifest (f n) = manifest n) \<Longrightarrow> map manifest (update_first p f ns) = map manifest ns"
  by (induction ns) auto

lemma life_step_assignment: "(\<And>n. manifest (f n) = manifest n) \<Longrightarrow> life_step d (set_assignment i f d)"
  by (simp add: life_step_def set_assignment_def manifest_update_first)

lemma terminal_has_no_transition: "terminal_operation s \<Longrightarrow> allowedTransitions s = []"
  by (cases s) simp_all

lemma life_step_status:
  "t \<in> set (allowedTransitions (o_status d)) \<Longrightarrow> life_step d (d\<lparr>o_status := t\<rparr>)"
  "t \<in> set (allowedTransitions (o_status d)) \<Longrightarrow> life_step d (d\<lparr>o_status := t, o_result := r\<rparr>)"
  using terminal_has_no_transition [of "o_status d"] by (auto simp: life_step_def)

lemma life_step_finished: "o_status d = OperationFinalizing \<Longrightarrow> life_step d (finished input status ms e now d)"
  by (cases status) (auto simp: life_step_def finished_def)

text \<open>
  The reservations that the operation may change: its own, the ones that it is to give up, and the
  identifiers that it claims, unless another account holds them.
\<close>

definition gives_up :: "assignment_input \<Rightarrow> bool" where
  "gives_up a \<longleftrightarrow> as_action a = ReleaseAction \<or> as_action a = RetainAction"

definition may_touch :: "operation_input \<Rightarrow> reservation \<Rightarrow> bool" where
  "may_touch input d \<longleftrightarrow>
     i_pendingOperationId d = Some (trim (in_operationId input)) \<or>
     i_lastOperationId d = Some (trim (in_operationId input)) \<or>
     (\<exists>a \<in> set (in_assignments input).
        if gives_up a then map_option to_lower (as_sourceReservationId a) = Some (i_id d)
        else map_option (to_lower \<circ> trim) (as_normalizedIdentifier a) = Some (i_normalizedIdentifier d) \<and>
          (i_status d = IdentifierReleased \<or>
           i_status d = IdentifierActive \<and> i_subjectType d = Some (as_subjectType a) \<and>
             i_subjectId d = Some (trim (as_subjectId a))))"

text \<open>A predicate that every write of the operation keeps, one case for each kind of write.\<close>

definition kept_by_operation :: "('e world \<Rightarrow> bool) \<Rightarrow> operation_input \<Rightarrow> 'e aggregate \<Rightarrow> bool" where
  "kept_by_operation P input agg \<longleftrightarrow>
     (\<forall>w z. P w \<longrightarrow> P (w\<lparr>env := z\<rparr>)) \<and> (\<forall>w es. P w \<longrightarrow> P (w\<lparr>events := es\<rparr>)) \<and>
     (\<forall>w i. P w \<longrightarrow> one_added operation_clash operation_valid o_id (new_operation input i) (operations w) \<longrightarrow>
        P (w\<lparr>operations := operations w @ [new_operation input i]\<rparr>)) \<and>
     (\<forall>w p f ds d. P w \<longrightarrow> one_updated operation_clash p f (operations w) ds d \<longrightarrow> life_step d (f d) \<longrightarrow>
        P (w\<lparr>operations := ds\<rparr>)) \<and>
     (\<forall>w n a actorId ty i. P w \<longrightarrow>
        one_added reservation_clash (\<lambda>_. True) i_id
          (inserted_reservation n a actorId ty (in_operationId input) i) (identifiers w) \<longrightarrow>
        P (w\<lparr>identifiers := identifiers w @ [inserted_reservation n a actorId ty (in_operationId input) i]\<rparr>)) \<and>
     (\<forall>w p f ds d. P w \<longrightarrow> one_updated reservation_clash p f (identifiers w) ds d \<longrightarrow> may_touch input d \<longrightarrow>
        P (w\<lparr>identifiers := ds\<rparr>)) \<and>
     (\<forall>a. a \<in> set (in_assignments input) \<longrightarrow> keeps P (ag_apply agg a) \<and> keeps P (ag_compensate agg a) \<and>
        (\<forall>check. ag_isApplied agg = Some check \<longrightarrow> keeps P (check a)))"

lemma kept_rules:
  assumes "kept_by_operation P input agg"
  shows kept_env: "P w \<Longrightarrow> P (w\<lparr>env := z\<rparr>)"
    and kept_event: "P w \<Longrightarrow> P (w\<lparr>events := es\<rparr>)"
    and kept_new_operation: "P w \<Longrightarrow> one_added operation_clash operation_valid o_id (new_operation input i) (operations w) \<Longrightarrow>
      P (w\<lparr>operations := operations w @ [new_operation input i]\<rparr>)"
    and kept_operation: "P w \<Longrightarrow> one_updated operation_clash p f (operations w) ds d \<Longrightarrow> life_step d (f d) \<Longrightarrow>
      P (w\<lparr>operations := ds\<rparr>)"
    and kept_new_reservation: "P w \<Longrightarrow> one_added reservation_clash (\<lambda>_. True) i_id
        (inserted_reservation n a actorId ty (in_operationId input) i) (identifiers w) \<Longrightarrow>
      P (w\<lparr>identifiers := identifiers w @ [inserted_reservation n a actorId ty (in_operationId input) i]\<rparr>)"
    and kept_reservation: "P w \<Longrightarrow> one_updated reservation_clash q g (identifiers w) rs r \<Longrightarrow> may_touch input r \<Longrightarrow>
      P (w\<lparr>identifiers := rs\<rparr>)"
    and kept_aggregate: "b \<in> set (in_assignments input) \<Longrightarrow> keeps P (ag_apply agg b) \<and> keeps P (ag_compensate agg b) \<and>
      (\<forall>check. ag_isApplied agg = Some check \<longrightarrow> keeps P (check b))"
  subgoal by (rule assms [unfolded kept_by_operation_def, THEN conjunct1, rule_format])
  subgoal by (rule assms [unfolded kept_by_operation_def, THEN conjunct2, THEN conjunct1, rule_format])
  subgoal by (rule assms [unfolded kept_by_operation_def, THEN conjunct2, THEN conjunct2, THEN conjunct1, rule_format])
  subgoal by (rule assms [unfolded kept_by_operation_def, THEN conjunct2, THEN conjunct2, THEN conjunct2, THEN conjunct1, rule_format])
  subgoal by (rule assms [unfolded kept_by_operation_def, THEN conjunct2, THEN conjunct2, THEN conjunct2, THEN conjunct2, THEN conjunct1, rule_format])
  subgoal by (rule assms [unfolded kept_by_operation_def, THEN conjunct2, THEN conjunct2, THEN conjunct2, THEN conjunct2, THEN conjunct2, THEN conjunct1, rule_format])
  subgoal by (rule assms [unfolded kept_by_operation_def, THEN conjunct2, THEN conjunct2, THEN conjunct2, THEN conjunct2, THEN conjunct2, THEN conjunct2, rule_format])
  done

lemma keeps_for_each_in: "(\<And>x. x \<in> set xs \<Longrightarrow> keeps I (body x)) \<Longrightarrow> keeps I (for_each xs body)"
  by (induction xs) (auto intro: keeps_rules)

locale identifier_store =
  op: collection "operationModel A" operations operations_update operation_clash operation_valid o_id +
  ids: collection "sv_identifiers S" identifiers identifiers_update reservation_clash reservation_valid i_id +
  trail: event_store "sv_events S"
  for A :: "'e app" and S :: "'e identifier_service" +
  assumes transactions: "sv_transaction S = Some T \<Longrightarrow> transaction T"
begin

lemma keeps_find:
  assumes "kept_by_operation P input agg"
  shows "keeps P (AuthIdentifierService_findOperation A n)" and "keeps P (findOne (sv_identifiers S) q)"
  unfolding AuthIdentifierService_findOperation_def
  by (rule op.keeps_findOne ids.keeps_findOne; erule kept_env [OF assms])+

lemma keeps_update_operation:
  assumes "kept_by_operation P input agg" and "\<And>d. p d \<Longrightarrow> life_step d (f d)"
  shows "keeps P (findOneAndUpdate (operationModel A) p f)" and "keeps P (updateOne (operationModel A) p f)"
proof -
  have "P (w\<lparr>operations := ds\<rparr>)" if "P w" "one_updated operation_clash p f (operations w) ds d" for w ds d
    by (rule kept_operation [OF assms(1) that]) (use that(2) assms(2) in \<open>auto simp: one_updated_def\<close>)
  note step = this
  show "keeps P (findOneAndUpdate (operationModel A) p f)"
    by (rule op.keeps_findOneAndUpdate, erule kept_env [OF assms(1)], rule step; assumption)
  show "keeps P (updateOne (operationModel A) p f)"
    by (rule op.keeps_updateOne, erule kept_env [OF assms(1)], rule step; assumption)
qed

lemma keeps_update_reservation:
  assumes "kept_by_operation P input agg" and "\<And>d. p d \<Longrightarrow> may_touch input d"
  shows "keeps P (findOneAndUpdate (sv_identifiers S) p f)" and "keeps P (updateOne (sv_identifiers S) p f)"
proof -
  have "P (w\<lparr>identifiers := ds\<rparr>)" if "P w" "one_updated reservation_clash p f (identifiers w) ds d" for w ds d
    by (rule kept_reservation [OF assms(1) that]) (use that(2) assms(2) in \<open>auto simp: one_updated_def\<close>)
  note step = this
  show "keeps P (findOneAndUpdate (sv_identifiers S) p f)"
    by (rule ids.keeps_findOneAndUpdate, erule kept_env [OF assms(1)], rule step; assumption)
  show "keeps P (updateOne (sv_identifiers S) p f)"
    by (rule ids.keeps_updateOne, erule kept_env [OF assms(1)], rule step; assumption)
qed

lemma keeps_update_assignment:
  assumes "kept_by_operation P input agg" and "\<And>n. manifest (f n) = manifest n"
  shows "keeps P (update_assignment A n i f)"
  unfolding update_assignment_def
  by (intro keeps_rules keeps_update_operation(2) [OF assms(1)] life_step_assignment assms(2))

lemma keeps_marks:
  assumes "kept_by_operation P input agg"
  shows "keeps P (AuthIdentifierService_markAssignmentApplied A n i)"
    and "keeps P (AuthIdentifierService_attachReservationReference A n i r)"
  unfolding AuthIdentifierService_markAssignmentApplied_def AuthIdentifierService_attachReservationReference_def
  by (intro keeps_rules keeps_update_assignment [OF assms]; simp add: manifest_def)+

lemma keeps_transition:
  assumes "kept_by_operation P input agg"
  shows "keeps P (AuthIdentifierService_transition A n s t)"
    and "keeps P (AuthIdentifierService_beginFinalizing A input s status)"
proof -
  have refused: "keeps P (await (AuthIdentifierService_validateTransition s t) k)" if "t \<notin> set (allowedTransitions s)"
    for t and k :: "unit \<Rightarrow> ('e world, unit) io"
    using that by (simp add: AuthIdentifierService_validateTransition_def keeps_def)
  show "keeps P (AuthIdentifierService_transition A n s t)"
  proof (cases "t \<in> set (allowedTransitions s)")
    case True
    then show ?thesis
      unfolding AuthIdentifierService_transition_def AuthIdentifierService_validateTransition_def
      by (intro keeps_rules keeps_update_operation [OF assms]) (auto intro: life_step_status)
  qed (simp add: AuthIdentifierService_transition_def refused)
  show "keeps P (AuthIdentifierService_beginFinalizing A input s status)"
  proof (cases "OperationFinalizing \<in> set (allowedTransitions s)")
    case True
    then show ?thesis
      unfolding AuthIdentifierService_beginFinalizing_def AuthIdentifierService_validateTransition_def
      by (intro keeps_rules keeps_update_operation [OF assms]) (auto intro: life_step_status)
  qed (simp add: AuthIdentifierService_beginFinalizing_def refused)
qed

lemma keeps_trail:
  assumes "kept_by_operation P input agg"
  shows "keeps P (SecurityActivityService_recordIdentifierOperationTerminal A (sv_events S) n ty status actor r c)"
    and "keeps P (SecurityActivityService_recordIdentifierRepairResumed A (sv_events S) n i original resuming)"
  unfolding SecurityActivityService_recordIdentifierOperationTerminal_def
    SecurityActivityService_recordIdentifierRepairResumed_def Let_def
  by (intro keeps_rules trail.keeps_recordIdempotent kept_env [OF assms] kept_event [OF assms]; assumption)+

lemma keeps_replay: "keeps P (AuthIdentifierService_replay d)"
  unfolding AuthIdentifierService_replay_def by (intro keeps_rules)

lemma keeps_finishTerminal:
  assumes "kept_by_operation P input agg"
  shows "keeps P (AuthIdentifierService_finishTerminal A S input status)"
  unfolding AuthIdentifierService_finishTerminal_def Let_def
  by (intro keeps_rules keeps_trail [OF assms] keeps_find [OF assms] keeps_replay keeps_update_operation(1) [OF assms])
    (auto intro: life_step_finished)

lemma keeps_reserveAssignment:
  assumes "kept_by_operation P input agg" and "a \<in> set (in_assignments input)"
  shows "keeps P (AuthIdentifierService_reserveAssignment S (in_operationId input) a actorId)"
proof -
  have given: "may_touch input d" if "gives_up a" "may_be_given_up (in_operationId input) a i d"
    "as_sourceReservationId a = Some x" "i = to_lower x" for i d x
    using that assms(2) by (auto simp: may_touch_def may_be_given_up_def)
  have cast: "keeps P (await (cast_object_id x) k)" if "keeps P (k (to_lower x))" for x and k :: "string \<Rightarrow> ('e world, reservation) io"
    using that by (simp add: cast_object_id_def keeps_def)
  have up: "keeps P (findOneAndUpsert (sv_identifiers S) (may_be_claimed (in_operationId input) a n) f
      (inserted_reservation n a actorId ty (in_operationId input)))"
    if n: "as_normalizedIdentifier a = Some m" "n = to_lower (trim m)" and give: "\<not> gives_up a" for n m ty f
  proof (rule ids.keeps_findOneAndUpsert)
    fix w ds d assume w: "P w" and u: "one_updated reservation_clash (may_be_claimed (in_operationId input) a n) f (identifiers w) ds d"
    from u have "may_be_claimed (in_operationId input) a n d" by (auto simp: one_updated_def)
    then have "may_touch input d" using n give assms(2) by (auto simp: may_touch_def may_be_claimed_def)
    then show "P (w\<lparr>identifiers := ds\<rparr>)" using w u by (auto intro: kept_reservation [OF assms(1)])
  qed (auto intro: kept_env [OF assms(1)] kept_new_reservation [OF assms(1)])
  show ?thesis
  proof (cases "gives_up a")
    case True
    have choice: "as_action a = ReleaseAction \<or> as_action a = RetainAction \<longleftrightarrow> True"
      using True by (simp add: gives_up_def)
    show ?thesis
      unfolding AuthIdentifierService_reserveAssignment_def Let_def choice if_True
      by (cases "as_sourceReservationId a")
        (auto intro!: keeps_rules cast keeps_update_reservation(1) [OF assms(1)] given [OF True])
  next
    case False
    then have choice: "as_action a = ReleaseAction \<or> as_action a = RetainAction \<longleftrightarrow> False"
      by (simp add: gives_up_def)
    show ?thesis
      unfolding AuthIdentifierService_reserveAssignment_def Let_def choice if_False
      by (auto intro!: keeps_rules up False split: option.split list.split)
  qed
qed

lemma keeps_apply_assignment:
  assumes kept: "kept_by_operation P input agg" and a: "a \<in> set (in_assignments input)"
  shows "keeps P (apply_assignment A S input agg a)"
proof -
  have applied: "keeps P (ag_apply agg a)" and check: "\<And>c. ag_isApplied agg = Some c \<Longrightarrow> keeps P (c a)"
    using kept_aggregate [OF kept a] by blast+
  have found: "keeps P (AuthIdentifierService_findRecoverableReservation A S n a x)" for n x
    unfolding AuthIdentifierService_findRecoverableReservation_def Let_def by (intro keeps_rules keeps_find [OF kept])
  have settle: "keeps P (AuthIdentifierService_finalizeReservation A S (in_operationId input) a r actorId)" for r actorId
    unfolding AuthIdentifierService_finalizeReservation_def
    by (intro keeps_rules keeps_update_reservation(2) [OF kept]) (simp add: may_touch_def)
  show ?thesis
  proof (cases "ag_isApplied agg")
    case None
    show ?thesis
      unfolding apply_assignment_def Let_def None option.case
      by (intro keeps_rules keeps_find [OF kept] found settle applied keeps_marks [OF kept] keeps_reserveAssignment [OF kept a])
  next
    case (Some c)
    then have "keeps P (c a)" by (rule check)
    then show ?thesis
      unfolding apply_assignment_def Let_def Some option.case
      by (intro keeps_rules keeps_find [OF kept] found settle applied keeps_marks [OF kept] keeps_reserveAssignment [OF kept a])
  qed
qed

lemma keeps_applyAssignments:
  assumes "kept_by_operation P input agg"
  shows "keeps P (AuthIdentifierService_applyAssignments A S input agg)"
  unfolding AuthIdentifierService_applyAssignments_def
  by (rule keeps_for_each_in) (rule keeps_apply_assignment [OF assms])

lemma keeps_compensateAssignments:
  assumes kept: "kept_by_operation P input agg"
  shows "keeps P (AuthIdentifierService_compensateAssignments A S input d agg)"
proof -
  have cast: "keeps P (cast_object_id x)" for x by (simp add: cast_object_id_def keeps_def)
  have "keeps P (compensate_assignment A S input agg n)" for n
  proof (cases "find (\<lambda>item. as_assignmentId item = n_assignmentId n) (in_assignments input)")
    case (Some a)
    then have "a \<in> set (in_assignments input)" by (auto simp: find_Some_iff)
    with kept have "keeps P (ag_compensate agg a)" using kept_aggregate by blast
    then show ?thesis
      unfolding compensate_assignment_def Some option.case
      by (intro keeps_rules cast keeps_update_reservation(2) [OF kept] keeps_update_assignment [OF kept])
        (auto simp: may_touch_def manifest_def)
  qed (simp add: compensate_assignment_def keeps_throw)
  then show ?thesis unfolding AuthIdentifierService_compensateAssignments_def by (intro keeps_for_each)
qed

lemma keeps_synchronize:
  assumes kept: "kept_by_operation P input agg"
  shows "keeps P (AuthIdentifierService_synchronizeAppliedAssignments A input agg)"
proof -
  have "keeps P (synchronize_assignment A input (ag_isApplied agg) n)" for n
  proof (cases "find (\<lambda>item. as_assignmentId item = n_assignmentId n) (in_assignments input)")
    case (Some a)
    then have "a \<in> set (in_assignments input)" by (auto simp: find_Some_iff)
    with kept have "\<And>c. ag_isApplied agg = Some c \<Longrightarrow> keeps P (c a)" using kept_aggregate by blast
    then show ?thesis
      by (cases "ag_isApplied agg")
        (auto simp: synchronize_assignment_def Some intro!: keeps_rules keeps_marks [OF kept])
  qed (simp add: synchronize_assignment_def keeps_ret)
  then show ?thesis
    unfolding AuthIdentifierService_synchronizeAppliedAssignments_def Let_def
    by (intro keeps_rules keeps_find [OF kept])
qed

lemma keeps_createOperation:
  assumes kept: "kept_by_operation P input agg"
  shows "keeps P (AuthIdentifierService_createOperation A input)" and "keeps P (saga_operation A input)"
proof -
  show created: "keeps P (AuthIdentifierService_createOperation A input)"
    unfolding AuthIdentifierService_createOperation_def
    by (intro keeps_rules op.keeps_createDoc; (erule kept_env [OF kept] | rule kept_new_operation [OF kept]; assumption))
  show "keeps P (saga_operation A input)"
    unfolding saga_operation_def by (intro keeps_rules keeps_find [OF kept] created)
qed

lemma keeps_executeSaga:
  assumes kept: "kept_by_operation P input agg"
  shows "keeps P (AuthIdentifierService_executeSaga A S input agg)"
proof -
  have fail: "keeps P (compensate_and_fail A S input agg d)" for d
    unfolding compensate_and_fail_def
    by (intro keeps_rules keeps_compensateAssignments [OF kept] keeps_transition(2) [OF kept])
  have recover: "keeps P (recover_saga A S input agg e)" for e
    unfolding recover_saga_def Let_def
    by (intro keeps_rules keeps_synchronize [OF kept] keeps_transition(1) [OF kept] keeps_find [OF kept] fail)
  show ?thesis
    unfolding AuthIdentifierService_executeSaga_def Let_def
    by (intro keeps_rules keeps_createOperation(2) [OF kept] keeps_replay keeps_finishTerminal [OF kept] fail recover
        keeps_transition [OF kept] keeps_applyAssignments [OF kept])
qed

lemma keeps_resumeOrReplay:
  assumes kept: "kept_by_operation P input agg"
  shows "keeps P (AuthIdentifierService_resumeOrReplay A S d input agg)"
  unfolding AuthIdentifierService_resumeOrReplay_def AuthIdentifierService_assertOperationManifest_def
  by (intro keeps_rules keeps_trail [OF kept] keeps_replay keeps_executeSaga [OF kept] keeps_update_operation(2) [OF kept])
    (simp add: life_step_def)

lemma keeps_execute:
  assumes kept: "kept_by_operation P input agg"
  shows "keeps P (AuthIdentifierService_execute A S input agg)" and "keeps P (AuthIdentifierService_reconcile A S input agg)"
proof -
  have tx: "keeps P (AuthIdentifierService_executeInTransaction A S input agg)"
  proof (cases "sv_transaction S")
    case (Some T)
    show ?thesis
      unfolding AuthIdentifierService_executeInTransaction_def Some option.case
      by (rule transaction.keeps_transaction [OF transactions [OF Some]], erule kept_env [OF kept])
        (intro keeps_rules keeps_createOperation(1) [OF kept] keeps_transition [OF kept]
          keeps_applyAssignments [OF kept] keeps_finishTerminal [OF kept])
  qed (simp add: AuthIdentifierService_executeInTransaction_def keeps_throw)
  have valid: "keeps P (AuthIdentifierService_validateInput S input)"
    unfolding AuthIdentifierService_validateInput_def by (intro keeps_rules)
  show "keeps P (AuthIdentifierService_execute A S input agg)"
    unfolding AuthIdentifierService_execute_def
    by (intro keeps_rules valid keeps_find [OF kept] keeps_resumeOrReplay [OF kept] keeps_executeSaga [OF kept] tx)
  show "keeps P (AuthIdentifierService_reconcile A S input agg)"
    unfolding AuthIdentifierService_reconcile_def
    by (intro keeps_rules valid keeps_find [OF kept] keeps_resumeOrReplay [OF kept])
qed

end

subsection \<open>The life cycle and the reservations of others\<close>

definition lived :: "operation list \<Rightarrow> 'e world \<Rightarrow> bool" where
  "lived ds w \<longleftrightarrow> (\<exists>xs new. operations w = xs @ new \<and> list_all2 life_step ds xs)"

text \<open>What the caller's part of an operation leaves alone.\<close>

definition aggregate_keeps :: "('e world \<Rightarrow> bool) \<Rightarrow> 'e aggregate \<Rightarrow> bool" where
  "aggregate_keeps I agg \<longleftrightarrow> (\<forall>a. keeps I (ag_apply agg a) \<and> keeps I (ag_compensate agg a) \<and>
     (\<forall>check. ag_isApplied agg = Some check \<longrightarrow> keeps I (check a)))"

lemma lived_start: "lived (operations w) w"
  unfolding lived_def by (intro exI [of _ "operations w"] exI [of _ "[]"]) (simp add: list_all2_refl)

lemma lived_updated:
  assumes "lived ds w" and "one_updated c p f (operations w) ys d" and "life_step d (f d)"
  shows "lived ds (w\<lparr>operations := ys\<rparr>)"
proof -
  from assms(1) obtain xs new where w: "operations w = xs @ new" and xs: "list_all2 life_step ds xs"
    unfolding lived_def by blast
  have "list_all2 life_step (xs @ new) ys"
    using list_all2_one_updated [of c p f "xs @ new" ys d life_step] assms(2,3) w by simp
  then obtain xs' new' where "ys = xs' @ new'" "list_all2 life_step xs xs'"
    by (auto simp: list_all2_append1)
  with xs show ?thesis
    unfolding lived_def using list_all2_trans [of life_step life_step life_step, OF life_step_trans] by fastforce
qed

lemma kept_lived:
  fixes agg :: "'e aggregate"
  assumes "\<And>ops. aggregate_keeps (\<lambda>w. operations w = ops) agg"
  shows "kept_by_operation (lived ds) input agg"
proof -
  have "keeps (lived ds) m" if "\<And>ops. keeps (\<lambda>w. operations w = ops) m" for m :: "('e world, 'b) io"
    unfolding keeps_def
  proof (intro allI impI)
    fix w :: "'e world" assume w: "lived ds w"
    from keepsD [OF that refl] show "wp m (\<lambda>_. lived ds) (\<lambda>_. lived ds) w"
      by (rule wp_mono) (use w in \<open>simp_all add: lived_def\<close>)
  qed
  note agg = this
  show ?thesis
    unfolding kept_by_operation_def
  proof (intro conjI allI impI, goal_cases)
    case (3 w i)
    then obtain xs new where "operations w = xs @ new" "list_all2 life_step ds xs" unfolding lived_def by blast
    then have "operations w @ [new_operation input i] = xs @ (new @ [new_operation input i])" by simp
    with \<open>list_all2 life_step ds xs\<close> show ?case unfolding lived_def by auto
  next
    case (4 w p f ys d)
    then show ?case by (rule lived_updated)
  next
    case (7 a)
    show ?case by (rule agg) (use assms in \<open>simp add: aggregate_keeps_def\<close>)
  next
    case (8 a)
    show ?case by (rule agg) (use assms in \<open>simp add: aggregate_keeps_def\<close>)
  next
    case (9 a check)
    show ?case by (rule agg) (use assms 9 in \<open>simp add: aggregate_keeps_def\<close>)
  qed (simp_all add: lived_def)
qed

lemma kept_reservation_of_others:
  assumes "aggregate_keeps (\<lambda>w. r \<in> set (identifiers w)) agg" and "\<not> may_touch input r"
  shows "kept_by_operation (\<lambda>w. r \<in> set (identifiers w)) input agg"
  unfolding kept_by_operation_def
proof (intro conjI allI impI, goal_cases)
  case (6 w p f ds d)
  with assms(2) have "r \<noteq> d" by blast
  with 6 show ?case by (auto simp: one_updated_def)
qed (use assms(1) in \<open>simp_all add: aggregate_keeps_def\<close>)

subsection \<open>A new operation that claims identifiers\<close>

definition claim_name :: "assignment_input \<Rightarrow> string option" where
  "claim_name a = map_option (to_lower \<circ> trim) (as_normalizedIdentifier a)"

text \<open>The assignment's identifier is reserved for its subject, and the operation is done with it.\<close>

definition claimed_by :: "string \<Rightarrow> assignment_input \<Rightarrow> reservation \<Rightarrow> bool" where
  "claimed_by n a d \<longleftrightarrow> claim_name a = Some (i_normalizedIdentifier d) \<and> i_status d = IdentifierActive \<and>
     i_subjectType d = Some (as_subjectType a) \<and> i_subjectId d = Some (trim (as_subjectId a)) \<and>
     i_lastOperationId d = Some n \<and> i_pendingOperationId d = None"

definition claimed :: "string \<Rightarrow> assignment_input \<Rightarrow> 'e world \<Rightarrow> bool" where
  "claimed n a w \<longleftrightarrow> (\<exists>d \<in> set (identifiers w). claimed_by n a d)"

text \<open>Nothing is pending for the operation, and it has not begun with the assignments \<open>todo\<close>.\<close>

definition untouched :: "string set \<Rightarrow> string \<Rightarrow> operation list \<Rightarrow> bool" where
  "untouched todo n ds \<longleftrightarrow> (\<forall>d \<in> set ds. o_operationId d = n \<longrightarrow>
     (\<forall>x \<in> set (o_assignments d). n_assignmentId x \<in> todo \<longrightarrow>
        n_targetReservationId x = None \<and> n_status x = AssignmentPending))"

definition ready :: "string set \<Rightarrow> string \<Rightarrow> 'e world \<Rightarrow> bool" where
  "ready todo n w \<longleftrightarrow> distinct (map i_id (identifiers w)) \<and>
     (\<forall>d \<in> set (identifiers w). i_pendingOperationId d \<noteq> Some n) \<and> untouched todo n (operations w)"

definition reserved_as :: "string \<Rightarrow> assignment_input \<Rightarrow> reservation list \<Rightarrow> reservation list \<Rightarrow> reservation \<Rightarrow> bool" where
  "reserved_as n a is is' r \<longleftrightarrow>
     (\<exists>as old bs. is = as @ old @ bs \<and> is' = as @ r # bs \<and>
        (old = [] \<and> i_id r \<notin> i_id ` set is \<or>
         (\<exists>d. old = [d] \<and> i_id r = i_id d \<and> may_be_claimed n a (i_normalizedIdentifier r) d))) \<and>
     i_pendingOperationId r = Some (trim n) \<and> claim_name a = Some (i_normalizedIdentifier r) \<and>
     i_subjectType r = Some (as_subjectType a) \<and> i_subjectId r = Some (trim (as_subjectId a))"

lemma reserved_as_distinct:
  assumes "reserved_as n a is is' r" and "distinct (map i_id is)"
  shows "distinct (map i_id is')"
  using assms unfolding reserved_as_def by auto

lemma update_first_set: "x \<in> set (update_first p f xs) \<Longrightarrow> x \<in> set xs \<or> (\<exists>y \<in> set xs. p y \<and> x = f y)"
  by (induction xs) (auto split: if_splits)

lemma untouched_updated:
  assumes "untouched todo n ds" and "one_updated c p (set_assignment i f) ds es d" and "trim i \<notin> todo"
    and "\<And>x. n_assignmentId (f x) = n_assignmentId x"
  shows "untouched todo n es"
proof -
  from assms(2) obtain as bs where ds: "ds = as @ d # bs" and es: "es = as @ set_assignment i f d # bs"
    unfolding one_updated_def by blast
  have "n_targetReservationId x = None \<and> n_status x = AssignmentPending"
    if "o_operationId d = n" "x \<in> set (o_assignments (set_assignment i f d))" "n_assignmentId x \<in> todo" for x
  proof -
    have "x \<in> set (o_assignments d)"
      using update_first_set [of x "\<lambda>n. n_assignmentId n = trim i" f "o_assignments d"] that(2,3) assms(3,4)
      by (auto simp: set_assignment_def)
    with assms(1) ds that show ?thesis unfolding untouched_def by simp
  qed
  with assms(1) ds es show ?thesis unfolding untouched_def by (auto simp: set_assignment_def)
qed

text \<open>An operation that only claims identifiers, and a world in which it is new.\<close>

definition claims_only :: "operation_input \<Rightarrow> bool" where
  "claims_only input \<longleftrightarrow>
     list_all (\<lambda>a. \<not> gives_up a \<and> trim (as_assignmentId a) = as_assignmentId a) (in_assignments input)"

definition fresh_operation :: "operation_input \<Rightarrow> 'e world \<Rightarrow> bool" where
  "fresh_operation input w \<longleftrightarrow> distinct (map i_id (identifiers w)) \<and>
     (\<forall>d \<in> set (identifiers w). i_pendingOperationId d \<noteq> Some (trim (in_operationId input))) \<and>
     (\<forall>d \<in> set (operations w). o_operationId d \<noteq> trim (in_operationId input))"

definition ended_as :: "operation_input \<Rightarrow> terminal_status \<Rightarrow> 'e world \<Rightarrow> bool" where
  "ended_as input status w \<longleftrightarrow>
     (\<exists>d \<in> set (operations w). o_operationId d = trim (in_operationId input)) \<and>
     (\<forall>d \<in> set (operations w). o_operationId d = trim (in_operationId input) \<longrightarrow>
        o_status d = terminal_of status \<and> o_result d = Some (AuthIdentifierService_terminalResult input status))"

definition settled_operation :: "operation_input \<Rightarrow> 'e world \<Rightarrow> bool" where
  "settled_operation input w \<longleftrightarrow>
     (\<exists>d \<in> set (operations w). o_operationId d = trim (in_operationId input)) \<and>
     (\<forall>d \<in> set (operations w). o_operationId d = trim (in_operationId input) \<longrightarrow> terminal_operation (o_status d))"

definition unique_operations :: "'e world \<Rightarrow> bool" where
  "unique_operations w \<longleftrightarrow> distinct (map o_operationId (operations w))"

lemma ended_settled: "ended_as input status w \<Longrightarrow> settled_operation input w"
  by (cases status) (auto simp: ended_as_def settled_operation_def)

lemma settled_operation_frame [simp]: "settled_operation input (w\<lparr>env := z\<rparr>) = settled_operation input w"
  by (simp add: settled_operation_def)

lemma kept_unique:
  fixes agg :: "'e aggregate"
  assumes "\<And>ops. aggregate_keeps (\<lambda>w. operations w = ops) agg"
  shows "kept_by_operation unique_operations input agg"
proof -
  have agg: "keeps unique_operations m" if "\<And>ops. keeps (\<lambda>w. operations w = ops) m" for m :: "('e world, 'b) io"
    unfolding keeps_def
  proof (intro allI impI)
    fix w :: "'e world" assume w: "unique_operations w"
    from keepsD [OF that refl] show "wp m (\<lambda>_. unique_operations) (\<lambda>_. unique_operations) w"
      by (rule wp_mono) (use w in \<open>simp_all add: unique_operations_def\<close>)
  qed
  show ?thesis
    unfolding kept_by_operation_def
  proof (intro conjI allI impI, goal_cases)
    case (3 w i)
    then show ?case by (auto simp: unique_operations_def one_added_def operation_clash_def)
  next
    case (4 w p f ds d)
    then show ?case by (auto simp: unique_operations_def one_updated_def life_step_def)
  next
    case (7 a)
    show ?case by (rule agg) (use assms in \<open>simp add: aggregate_keeps_def\<close>)
  next
    case (8 a)
    show ?case by (rule agg) (use assms in \<open>simp add: aggregate_keeps_def\<close>)
  next
    case (9 a check)
    show ?case by (rule agg) (use assms 9 in \<open>simp add: aggregate_keeps_def\<close>)
  qed (simp_all add: unique_operations_def)
qed

text \<open>What it means that a new operation has completed.\<close>

definition completed_claims :: "operation_input \<Rightarrow> operation_answer \<Rightarrow> 'e world \<Rightarrow> bool" where
  "completed_claims input answer w \<longleftrightarrow>
     (\<not> oa_replayed answer \<and> oa_status answer = TerminalCompleted \<longrightarrow>
        oa_result answer = AuthIdentifierService_terminalResult input TerminalCompleted \<and>
        ended_as input TerminalCompleted w \<and>
        (\<forall>a \<in> set (in_assignments input). claimed (trim (in_operationId input)) a w))"

text \<open>What the saga starts with: an operation that has ended, or a new one.\<close>

definition saga_start :: "operation_input \<Rightarrow> operation \<Rightarrow> 'e world \<Rightarrow> bool" where
  "saga_start input d w \<longleftrightarrow> terminal_operation (o_status d) \<or> o_status d = OperationPending \<and>
     ready (as_assignmentId ` set (in_assignments input)) (trim (in_operationId input)) w"

lemma claimed_frame:
  "claimed n a (w\<lparr>env := z\<rparr>) = claimed n a w" "claimed n a (w\<lparr>operations := ds\<rparr>) = claimed n a w"
  "claimed n a (w\<lparr>events := es\<rparr>) = claimed n a w"
  by (simp_all add: claimed_def)

lemma fresh_operation_env [simp]: "fresh_operation input (w\<lparr>env := z\<rparr>) = fresh_operation input w"
  by (simp add: fresh_operation_def)

lemma ended_as_frame [simp]:
  "ended_as input status (w\<lparr>env := z\<rparr>) = ended_as input status w"
  by (simp add: ended_as_def)

context identifier_store
begin

lemma wp_reserve_claim:
  assumes "\<not> gives_up a" and "distinct (map i_id (identifiers w))"
    and "\<And>r is' z. reserved_as n a (identifiers w) is' r \<Longrightarrow> Q r (w\<lparr>identifiers := is', env := z\<rparr>)"
  shows "wp (AuthIdentifierService_reserveAssignment S n a actorId) Q (\<lambda>_ _. True) w"
proof -
  have choice: "as_action a = ReleaseAction \<or> as_action a = RetainAction \<longleftrightarrow> False"
    using assms(1) by (simp add: gives_up_def)
  have upsert: "wp (findOneAndUpsert (sv_identifiers S) (may_be_claimed n a m)
      (claimed_reservation m a actorId ty n) (inserted_reservation m a actorId ty n)) Q (\<lambda>_ _. True) w"
    if m: "claim_name a = Some m" for m ty
  proof (rule ids.wp_findOneAndUpsert)
    fix ds d z assume "one_updated reservation_clash (may_be_claimed n a m) (claimed_reservation m a actorId ty n)
      (identifiers w) ds d"
    then obtain as bs where "identifiers w = as @ [d] @ bs" "may_be_claimed n a m d"
        "ds = as @ claimed_reservation m a actorId ty n d # bs"
      unfolding one_updated_def by auto
    then have "reserved_as n a (identifiers w) ds (claimed_reservation m a actorId ty n d)"
      unfolding reserved_as_def
      by (intro conjI exI [of _ as] exI [of _ "[d]"] exI [of _ bs])
        (simp_all add: m claimed_reservation_def pending_reservation_def)
    from assms(3) [OF this] show "Q (claimed_reservation m a actorId ty n d) (w\<lparr>identifiers := ds\<rparr>\<lparr>env := z\<rparr>)" by simp
  next
    fix i z assume "one_added reservation_clash (\<lambda>_. True) i_id (inserted_reservation m a actorId ty n i) (identifiers w)"
    then have "reserved_as n a (identifiers w) (identifiers w @ [inserted_reservation m a actorId ty n i])
        (inserted_reservation m a actorId ty n i)"
      unfolding one_added_def reserved_as_def
      by (intro conjI exI [of _ "identifiers w"] exI [of _ "[]"]) (simp_all add: m inserted_reservation_def)
    from assms(3) [OF this] show "Q (inserted_reservation m a actorId ty n i)
        (w\<lparr>identifiers := identifiers w @ [inserted_reservation m a actorId ty n i]\<rparr>\<lparr>env := z\<rparr>)" by simp
  qed simp_all
  show ?thesis
    unfolding AuthIdentifierService_reserveAssignment_def Let_def choice if_False
    by (auto simp: claim_name_def intro!: upsert split: option.split list.split)
qed

lemma wp_settle:
  assumes "distinct (map i_id (as @ r # bs))" and "identifiers w = as @ r # bs"
    and "i_pendingOperationId r = Some (trim n)"
    and "\<And>now z. Q () (w\<lparr>identifiers := as @ settled_reservation n a actorId now r # bs, env := z\<rparr>)"
  shows "wp (AuthIdentifierService_finalizeReservation A S n a r actorId) Q (\<lambda>_ _. True) w"
proof -
  have same: "ds = as @ f r # bs"
    if "one_updated c (\<lambda>i. i_id i = i_id r \<and> q i) f (as @ r # bs) ds d" for c q f ds d
  proof -
    from that obtain xs ys where x: "as @ r # bs = xs @ d # ys" "i_id d = i_id r" "ds = xs @ f d # ys"
      unfolding one_updated_def by blast
    have "d = r" using assms(1) x(1,2) distinct_map_split [of i_id as r bs d]
      by (metis Un_iff in_set_conv_decomp set_ConsD set_append)
    moreover have "r \<notin> set as" "r \<notin> set bs" using assms(1) by auto
    ultimately have "as = xs \<and> bs = ys" using x(1)
      by (metis append_Cons_eq_iff)
    with x(3) \<open>d = r\<close> show ?thesis by simp
  qed
  show ?thesis
    unfolding AuthIdentifierService_finalizeReservation_def wp_await wp_asks
    by (rule ids.wp_updateOne) (use assms(2-4) in \<open>auto dest!: same\<close>)
qed

lemma settled_claims:
  assumes "ready todo (trim n) w" and "reserved_as n a (identifiers w) is' r" and "is' = as @ r # bs"
    and "distinct (map i_id is')" and "\<not> gives_up a" and "identifiers w' = as @ settled_reservation n a actorId now r # bs"
    and "untouched todo' (trim n) (operations w')"
  shows "ready todo' (trim n) w' \<and> claimed (trim n) a w' \<and> (\<forall>b. claimed (trim n) b w \<longrightarrow> claimed (trim n) b w')"
proof -
  let ?r = "settled_reservation n a actorId now r"
  from assms(2) obtain xs old ys where w: "identifiers w = xs @ old @ ys" and is': "is' = xs @ r # ys"
    and old: "old = [] \<or> (\<exists>d. old = [d] \<and> i_id r = i_id d \<and> may_be_claimed n a (i_normalizedIdentifier r) d)"
    and r: "claim_name a = Some (i_normalizedIdentifier r)" "i_subjectType r = Some (as_subjectType a)"
      "i_subjectId r = Some (trim (as_subjectId a))"
    unfolding reserved_as_def by blast
  have "r \<notin> set as \<union> set bs" using assms(3,4) by auto
  then have eq: "xs = as \<and> ys = bs" using is' assms(3) by (metis append_Cons_eq_iff UnCI)
  have "as_action a \<noteq> ReleaseAction" using assms(5) by (simp add: gives_up_def)
  then have mine: "claimed_by (trim n) a ?r" "i_pendingOperationId ?r = None" "i_id ?r = i_id r"
    using r by (simp_all add: claimed_by_def settled_reservation_def)
  have ready': "ready todo' (trim n) w'"
    using assms(1,3,4,6,7) w eq mine(2,3) by (auto simp: ready_def)
  have "claimed (trim n) b w'" if "claimed (trim n) b w" for b
  proof -
    from that obtain d where d: "d \<in> set (identifiers w)" "claimed_by (trim n) b d" unfolding claimed_def by blast
    show ?thesis
    proof (cases "old = [d]")
      case True
      with old d(2) have "i_normalizedIdentifier d = i_normalizedIdentifier r" "i_subjectType d = Some (as_subjectType a)"
          "i_subjectId d = Some (trim (as_subjectId a))"
        by (auto simp: may_be_claimed_def claimed_by_def)
      with d(2) mine(1) r have "claimed_by (trim n) b ?r" by (auto simp: claimed_by_def)
      with assms(6) show ?thesis unfolding claimed_def by auto
    next
      case False
      with d(1) w old have "d \<in> set xs \<union> set ys" by auto
      with eq d(2) assms(6) show ?thesis unfolding claimed_def by auto
    qed
  qed
  with ready' mine(1) assms(6) show ?thesis unfolding claimed_def by auto
qed

lemma wp_apply_claim:
  assumes agg: "\<And>ops is. aggregate_keeps (\<lambda>w. operations w = ops \<and> identifiers w = is) agg"
    and claim: "\<not> gives_up a" and trimmed: "trim (as_assignmentId a) = as_assignmentId a"
    and todo: "as_assignmentId a \<notin> todo"
    and w: "ready (insert (as_assignmentId a) todo) (trim (in_operationId input)) w"
  shows "wp (apply_assignment A S input agg a)
    (\<lambda>_ w'. ready todo (trim (in_operationId input)) w' \<and> claimed (trim (in_operationId input)) a w' \<and>
       (\<forall>b. claimed (trim (in_operationId input)) b w \<longrightarrow> claimed (trim (in_operationId input)) b w'))
    (\<lambda>_ _. True) w"
proof -
  let ?n = "in_operationId input" and ?actor = "s_subjectId (in_requestedBy input)"
  let ?Q = "\<lambda>_ w'. ready todo (trim ?n) w' \<and> claimed (trim ?n) a w' \<and> (\<forall>b. claimed (trim ?n) b w \<longrightarrow> claimed (trim ?n) b w')"
  let ?fresh = "\<lambda>x. case x of None \<Rightarrow> True | Some n \<Rightarrow> n_targetReservationId n = None \<and> n_status n = AssignmentPending"
  have find_none: "wp (AuthIdentifierService_findRecoverableReservation A S ?n a x) Q (\<lambda>_ _. True) (w\<lparr>env := z\<rparr>)"
    if "?fresh x" "\<And>z. Q None (w\<lparr>env := z\<rparr>)" for x Q z
  proof -
    have "\<not> truthy (Option.bind x n_targetReservationId)" using that(1) by (cases x) auto
    then show ?thesis
      unfolding AuthIdentifierService_findRecoverableReservation_def Let_def
      using w that(2) by (auto simp: ready_def intro!: ids.wp_findOne)
  qed
  let ?J = "\<lambda>is w'. identifiers w' = is \<and> untouched todo (trim ?n) (operations w')"
  have kept: "keeps (?J is) m" if "\<And>ops. keeps (\<lambda>w. operations w = ops \<and> identifiers w = is) m" for m :: "('e world, 'b) io" and "is"
    unfolding keeps_def
  proof (intro allI impI)
    fix w' :: "'e world" assume w': "?J is w'"
    then have "operations w' = operations w' \<and> identifiers w' = is" by simp
    from keepsD [OF that this] show "wp m (\<lambda>_. ?J is) (\<lambda>_. ?J is) w'"
      by (rule wp_mono) (use w' in simp_all)
  qed
  have marks: "keeps (?J is) (update_assignment A ?n (as_assignmentId a) f)"
    if "\<And>x. n_assignmentId (f x) = n_assignmentId x" for f "is"
    unfolding update_assignment_def
    by (intro keeps_rules op.keeps_updateOne) (auto elim!: untouched_updated simp: that trimmed todo)
  have applied: "keeps (?J is) (ag_apply agg a)" "\<And>c. ag_isApplied agg = Some c \<Longrightarrow> keeps (?J is) (c a)" for "is"
    using agg by (auto intro!: kept simp: aggregate_keeps_def)
  have asked: "keeps (?J is) (case ag_isApplied agg of None \<Rightarrow> ret False | Some isApplied \<Rightarrow> isApplied a)" for "is"
    using applied(2) by (auto intro: keeps_rules split: option.split)
  have rest: "wp (await (AuthIdentifierService_attachReservationReference A ?n (as_assignmentId a) r) (\<lambda>_.
      await (await (case ag_isApplied agg of None \<Rightarrow> ret False | Some isApplied \<Rightarrow> isApplied a) (\<lambda>alreadyApplied.
          await (if alreadyApplied then ret () else ag_apply agg a) (\<lambda>_.
          AuthIdentifierService_markAssignmentApplied A ?n (as_assignmentId a)))) (\<lambda>_.
      AuthIdentifierService_finalizeReservation A S ?n a r ?actor))) ?Q (\<lambda>_ _. True) (w\<lparr>identifiers := is', env := z\<rparr>)"
    if r: "reserved_as ?n a (identifiers w) is' r" for r is' z
  proof -
    have distinct': "distinct (map i_id is')" using reserved_as_distinct [OF r] w by (simp add: ready_def)
    obtain as bs where is': "is' = as @ r # bs" "i_pendingOperationId r = Some (trim ?n)"
      using r unfolding reserved_as_def by blast
    have last: "wp (AuthIdentifierService_finalizeReservation A S ?n a r ?actor) ?Q (\<lambda>_ _. True) w'" if "?J is' w'" for w'
      by (rule wp_settle [of as r bs]) (use that is' distinct' in
        \<open>auto intro!: settled_claims [OF w r is'(1) distinct' claim] simp del: trim_idem\<close>)
    have mid: "keeps (?J is') (await (AuthIdentifierService_attachReservationReference A ?n (as_assignmentId a) r) (\<lambda>_.
      await (case ag_isApplied agg of None \<Rightarrow> ret False | Some isApplied \<Rightarrow> isApplied a) (\<lambda>alreadyApplied.
          await (if alreadyApplied then ret () else ag_apply agg a) (\<lambda>_.
          AuthIdentifierService_markAssignmentApplied A ?n (as_assignmentId a)))))"
      unfolding AuthIdentifierService_attachReservationReference_def AuthIdentifierService_markAssignmentApplied_def
      by (intro asked keeps_await marks applied keeps_if keeps_ret keeps_asks; simp)
    have "?J is' (w\<lparr>identifiers := is', env := z\<rparr>)" using w by (simp add: ready_def untouched_def)
    from keepsD [OF mid this] show ?thesis
      unfolding wp_await by (elim wp_mono) (simp_all add: last)
  qed
  have main: "wp (await (AuthIdentifierService_findRecoverableReservation A S ?n a x) (\<lambda>recovered.
      await (case recovered of Some r \<Rightarrow> ret r
        | None \<Rightarrow> AuthIdentifierService_reserveAssignment S ?n a ?actor) (\<lambda>r.
      await (AuthIdentifierService_attachReservationReference A ?n (as_assignmentId a) r) (\<lambda>_.
      await (if map_option n_status x = Some AssignmentApplied then ret () else
          await (case ag_isApplied agg of None \<Rightarrow> ret False | Some isApplied \<Rightarrow> isApplied a) (\<lambda>alreadyApplied.
          await (if alreadyApplied then ret () else ag_apply agg a) (\<lambda>_.
          AuthIdentifierService_markAssignmentApplied A ?n (as_assignmentId a)))) (\<lambda>_.
      AuthIdentifierService_finalizeReservation A S ?n a r ?actor))))) ?Q (\<lambda>_ _. True) (w\<lparr>env := z\<rparr>)"
    if x: "?fresh x" for x z
  proof -
    have pending: "map_option n_status x = Some AssignmentApplied \<longleftrightarrow> False" using x by (cases x) auto
    show ?thesis
      unfolding pending if_False wp_await [of "AuthIdentifierService_findRecoverableReservation A S ?n a x"]
    proof (rule find_none [OF x], unfold option.case wp_await [of "AuthIdentifierService_reserveAssignment S ?n a ?actor"],
        rule wp_reserve_claim [OF claim], goal_cases)
      case 1
      then show ?case using w by (simp add: ready_def)
    next
      case (2 z r is' z')
      then show ?case using rest [of is' r z'] by simp
    qed
  qed
  show ?thesis
    unfolding apply_assignment_def Let_def wp_await [of "AuthIdentifierService_findOperation A ?n"]
    unfolding AuthIdentifierService_findOperation_def
  proof (rule op.wp_findOne, goal_cases)
    case (1 z)
    show ?case by (rule main) simp
  next
    case (2 d z)
    have "n_targetReservationId x = None \<and> n_status x = AssignmentPending"
      if "find_assignment (as_assignmentId a) d = Some x" for x
      using that w 2 by (auto simp: find_assignment_def find_Some_iff ready_def untouched_def)
    then show ?case by (intro main) (simp split: option.split)
  qed simp
qed

lemma wp_apply_claims:
  assumes agg: "\<And>ops is. aggregate_keeps (\<lambda>w. operations w = ops \<and> identifiers w = is) agg"
    and "distinct (map as_assignmentId xs)"
    and "list_all (\<lambda>a. \<not> gives_up a \<and> trim (as_assignmentId a) = as_assignmentId a) xs"
    and "ready (as_assignmentId ` set xs) (trim (in_operationId input)) w"
  shows "wp (for_each xs (apply_assignment A S input agg))
    (\<lambda>_ w'. (\<forall>a \<in> set xs. claimed (trim (in_operationId input)) a w') \<and>
       (\<forall>b. claimed (trim (in_operationId input)) b w \<longrightarrow> claimed (trim (in_operationId input)) b w'))
    (\<lambda>_ _. True) w"
  using assms(2-4)
proof (induction xs arbitrary: w)
  case (Cons a xs)
  have "as_assignmentId a \<notin> as_assignmentId ` set xs" using Cons.prems(1) by simp
  then have "wp (apply_assignment A S input agg a)
      (\<lambda>_ w'. ready (as_assignmentId ` set xs) (trim (in_operationId input)) w' \<and> claimed (trim (in_operationId input)) a w' \<and>
         (\<forall>b. claimed (trim (in_operationId input)) b w \<longrightarrow> claimed (trim (in_operationId input)) b w')) (\<lambda>_ _. True) w"
    using Cons.prems by (intro wp_apply_claim [OF agg]) simp_all
  then show ?case
    unfolding for_each.simps wp_await
  proof (rule wp_mono, goal_cases)
    case (1 _ w')
    then have "wp (for_each xs (apply_assignment A S input agg))
      (\<lambda>_ w''. (\<forall>a \<in> set xs. claimed (trim (in_operationId input)) a w'') \<and>
         (\<forall>b. claimed (trim (in_operationId input)) b w' \<longrightarrow> claimed (trim (in_operationId input)) b w''))
      (\<lambda>_ _. True) w'"
      using Cons.prems by (intro Cons.IH) simp_all
    then show ?case by (rule wp_mono) (use 1 in auto)
  qed simp
qed simp

lemma wp_beginFinalizing:
  assumes "\<And>ds z. Q () (w\<lparr>operations := ds, env := z\<rparr>)"
  shows "wp (AuthIdentifierService_beginFinalizing A input s status) Q (\<lambda>_ _. True) w"
proof -
  have "wp (AuthIdentifierService_validateTransition s OperationFinalizing) Q' (\<lambda>_ _. True) w" if "Q' () w" for Q'
    using that by (simp add: AuthIdentifierService_validateTransition_def)
  then show ?thesis
    unfolding AuthIdentifierService_beginFinalizing_def
      wp_await [of "AuthIdentifierService_validateTransition s OperationFinalizing"]
    by this (use assms in \<open>auto intro!: op.wp_findOneAndUpdate\<close>)
qed

lemma wp_finishTerminal:
  "wp (AuthIdentifierService_finishTerminal A S input status)
    (\<lambda>answer w'. identifiers w' = identifiers w \<and> (unique_operations w \<longrightarrow> settled_operation input w') \<and>
       (\<not> oa_replayed answer \<longrightarrow> oa_status answer = status \<and>
       oa_result answer = AuthIdentifierService_terminalResult input status \<and> ended_as input status w'))
    (\<lambda>_ _. True) w"
proof -
  have trail: "keeps (\<lambda>w'. identifiers w' = identifiers w \<and> operations w' = operations w)
      (SecurityActivityService_recordIdentifierOperationTerminal A (sv_events S) n ty st actor r c)" for n ty st actor r c
    unfolding SecurityActivityService_recordIdentifierOperationTerminal_def Let_def
    by (intro keeps_rules trail.keeps_recordIdempotent) simp_all
  have replayed: "wp (AuthIdentifierService_replay d) (\<lambda>answer w'. w' = w'' \<and> oa_replayed answer) (\<lambda>_ _. True) w''" for d and w'' :: "'e world"
    by (simp add: AuthIdentifierService_replay_def split: option.split)
  have settled: "settled_operation input (w'\<lparr>env := z\<rparr>)"
    if "unique_operations w" "operations w' = operations w" "d \<in> set (operations w)"
      "o_operationId d = trim (in_operationId input)" "terminal_operation (o_status d)" for d z and w' :: "'e world"
  proof -
    have "e = d" if "e \<in> set (operations w)" "o_operationId e = o_operationId d" for e
      using \<open>unique_operations w\<close> that \<open>d \<in> set (operations w)\<close>
      unfolding unique_operations_def distinct_map inj_on_def by blast
    then have "terminal_operation (o_status e)" if "e \<in> set (operations w)" "o_operationId e = o_operationId d" for e
      using that \<open>terminal_operation (o_status d)\<close> by metis
    with that(2-4) show ?thesis unfolding settled_operation_def by auto
  qed
  have ended: "ended_as input status (w'\<lparr>operations := ds\<rparr>)"
    if "one_updated operation_clash (\<lambda>d. o_operationId d = trim (in_operationId input) \<and> p d)
      (finished input status ms e now) ops ds d" for w' :: "'e world" and p ms e now ops ds d
  proof -
    from that obtain as bs where w': "ops = as @ d # bs" "o_operationId d = trim (in_operationId input)"
        "ds = as @ finished input status ms e now d # bs"
        "\<forall>x \<in> set as \<union> set bs. \<not> operation_clash (finished input status ms e now d) x"
      unfolding one_updated_def by blast
    have "o_operationId x \<noteq> trim (in_operationId input)" if "x \<in> set as \<union> set bs" for x
      using bspec [OF w'(4) that] w'(2) by (simp add: operation_clash_def finished_def eq_commute)
    with w'(2,3) show ?thesis unfolding ended_as_def by (auto simp: finished_def)
  qed
  have last: "wp (await (asks (clock A)) (\<lambda>now.
      await (findOneAndUpdate (operationModel A)
        (\<lambda>d. o_operationId d = trim (in_operationId input) \<and> o_status d = OperationFinalizing)
        (finished input status (sv_operationRetentionMs S) eventId now)) (\<lambda>updated.
      case updated of
        None \<Rightarrow>
          await (AuthIdentifierService_findOperation A (in_operationId input)) (\<lambda>current.
          case current of
            Some d \<Rightarrow> if terminal_operation (o_status d) then AuthIdentifierService_replay d
              else throw (Conflict ''Identifier operation could not be finalized safely'')
          | None \<Rightarrow> throw (Conflict ''Identifier operation could not be finalized safely''))
      | Some _ \<Rightarrow>
          ret \<lparr>oa_operationId = in_operationId input, oa_status = status,
            oa_httpStatus = w_httpStatus (AuthIdentifierService_terminalResult input status),
            oa_replayed = False, oa_result = AuthIdentifierService_terminalResult input status\<rparr>)))
    (\<lambda>answer w'. identifiers w' = identifiers w \<and> (unique_operations w \<longrightarrow> settled_operation input w') \<and>
       (\<not> oa_replayed answer \<longrightarrow> oa_status answer = status \<and>
       oa_result answer = AuthIdentifierService_terminalResult input status \<and> ended_as input status w'))
    (\<lambda>_ _. True) w'" if "identifiers w' = identifiers w \<and> operations w' = operations w" for eventId w'
    unfolding AuthIdentifierService_findOperation_def wp_await wp_asks
    using that
    by (intro op.wp_findOneAndUpdate)
      (auto intro!: op.wp_findOne wp_mono [OF replayed] intro: settled ended_settled ended)
  show ?thesis
    unfolding AuthIdentifierService_finishTerminal_def Let_def
      wp_await [of "SecurityActivityService_recordIdentifierOperationTerminal _ _ _ _ _ _ _ _"]
    by (rule wp_mono [OF keepsD [OF trail]]) (use last in simp_all)
qed

text \<open>A saga or a transaction that starts where the operation is new, or has ended already.\<close>

lemma claims_only_ready:
  assumes "claims_only input" and "fresh_operation input w"
  shows "ready (as_assignmentId ` set (in_assignments input)) (trim (in_operationId input))
    (w\<lparr>operations := operations w @ [new_operation input i], env := z\<rparr>)"
  using assms
  by (auto simp: ready_def untouched_def fresh_operation_def new_operation_def operation_cast_def assignment_cast_def
      persisted_assignment_def)

lemma wp_transition_any:
  assumes "\<And>ds d z. one_updated operation_clash (\<lambda>d. o_operationId d = trim n \<and> o_status d = s)
      (\<lambda>d. d\<lparr>o_status := t\<rparr>) (operations w) ds d \<Longrightarrow> Q () (w\<lparr>operations := ds, env := z\<rparr>)"
  shows "wp (AuthIdentifierService_transition A n s t) Q (\<lambda>_ _. True) w"
proof (cases "t \<in> set (allowedTransitions s)")
  case True
  then show ?thesis
    unfolding AuthIdentifierService_transition_def AuthIdentifierService_validateTransition_def
    using assms by (auto intro!: op.wp_findOneAndUpdate)
qed (simp add: AuthIdentifierService_transition_def AuthIdentifierService_validateTransition_def)

lemma ready_status:
  assumes "ready todo n w" and "one_updated c p (\<lambda>d. d\<lparr>o_status := t\<rparr>) (operations w) ds d"
  shows "ready todo n (w\<lparr>operations := ds, env := z\<rparr>)"
proof -
  from assms(2) obtain as bs where "operations w = as @ d # bs" "ds = as @ d\<lparr>o_status := t\<rparr> # bs"
    unfolding one_updated_def by blast
  with assms(1) show ?thesis by (auto simp: ready_def untouched_def)
qed

lemma wp_run_claims:
  assumes agg: "\<And>ops is. aggregate_keeps (\<lambda>w. operations w = ops \<and> identifiers w = is) agg"
    and only: "claims_only input" and ids: "distinct (map as_assignmentId (in_assignments input))"
    and ready: "ready (as_assignmentId ` set (in_assignments input)) (trim (in_operationId input)) w"
  shows "wp (await (AuthIdentifierService_applyAssignments A S input agg) (\<lambda>_.
      AuthIdentifierService_beginFinalizing A input OperationApplying TerminalCompleted))
    (\<lambda>_ w'. \<forall>a \<in> set (in_assignments input). claimed (trim (in_operationId input)) a w') (\<lambda>_ _. True) w"
  unfolding AuthIdentifierService_applyAssignments_def wp_await
  by (rule wp_mono [OF wp_apply_claims [OF agg ids _ ready]])
    (use only in \<open>auto simp: claims_only_def claimed_frame intro!: wp_beginFinalizing\<close>)

lemma wp_finish_claims:
  assumes "\<forall>a \<in> set (in_assignments input). claimed (trim (in_operationId input)) a w"
  shows "wp (AuthIdentifierService_finishTerminal A S input TerminalCompleted)
    (\<lambda>answer w'. completed_claims input answer w' \<and> (unique_operations w \<longrightarrow> settled_operation input w'))
    (\<lambda>_ _. True) w"
  by (rule wp_mono [OF wp_finishTerminal]) (use assms in \<open>auto simp: completed_claims_def claimed_def\<close>)

lemma wp_finish_failed:
  "wp (AuthIdentifierService_finishTerminal A S input TerminalFailed) (\<lambda>answer. completed_claims input answer)
    (\<lambda>_ _. True) w"
  by (rule wp_mono [OF wp_finishTerminal]) (auto simp: completed_claims_def)

lemma wp_replay:
  "wp (AuthIdentifierService_replay d) (\<lambda>answer w'. w' = w \<and> oa_replayed answer) (\<lambda>_ _. True) w"
  by (simp add: AuthIdentifierService_replay_def split: option.split)

lemma wp_recover:
  "wp (recover_saga A S input agg e) (\<lambda>status _. status = TerminalFailed) (\<lambda>_ _. True) w"
proof -
  have any: "wp m Q E w'" if "\<And>a w'. Q a w'" "\<And>e w'. E e w'" for m :: "('e world, 'b) io" and Q E w'
    by (rule wp_mono [OF wp_True]) (use that in auto)
  have fail: "wp (compensate_and_fail A S input agg d) (\<lambda>status _. status = TerminalFailed) (\<lambda>_ _. True) w'" for d w'
    unfolding compensate_and_fail_def wp_await wp_ret by (rule any, rule any) simp_all
  have retry: "wp (await m (\<lambda>_. throw e')) Q (\<lambda>_ _. True) w'"
    for m :: "('e world, unit) io" and e' and Q :: "'b \<Rightarrow> 'e world \<Rightarrow> bool" and w'
    unfolding wp_await wp_throw by simp
  have rest: "wp (await (AuthIdentifierService_findOperation A n) (\<lambda>latest.
      await (require e latest) (compensate_and_fail A S input agg)))
      (\<lambda>status _. status = TerminalFailed) (\<lambda>_ _. True) w'" for n w'
    unfolding wp_await wp_require by (rule wp_mono [OF wp_True]) (auto simp: fail split: option.split)
  show ?thesis
  proof (cases "in_compensateOnFailure input")
    case True
    then have choice: "(\<not> in_compensateOnFailure input) = False" by simp
    show ?thesis
      unfolding recover_saga_def Let_def choice if_False wp_await [of "try_catch _ _"] wp_try_catch
        wp_await [of "AuthIdentifierService_transition A (in_operationId input) OperationApplying OperationCompensating"]
      by (rule any, rule any, rule rest, rule TrueI, rule retry)
  next
    case False
    then show ?thesis by (simp add: recover_saga_def Let_def retry del: wp_await)
  qed
qed

lemma wp_saga_operation:
  assumes "claims_only input" and "fresh_operation input w \<or> settled_operation input w"
  shows "wp (saga_operation A input) (\<lambda>d. saga_start input d) (\<lambda>_ _. True) w"
proof -
  have create: "wp (AuthIdentifierService_createOperation A input) (\<lambda>d. saga_start input d)
      (\<lambda>e w'. error_code e = Some duplicate_key_code \<longrightarrow> fresh_operation input w') (w\<lparr>env := z\<rparr>)"
    if "fresh_operation input w" for z
  proof -
    have "ready (as_assignmentId ` set (in_assignments input)) (trim (in_operationId input))
        (w\<lparr>operations := operations w @ [new_operation input i], env := z'\<rparr>)" for i z'
      by (rule claims_only_ready [OF assms(1) that])
    moreover have "o_status (new_operation input i) = OperationPending" for i
      by (simp add: new_operation_def operation_cast_def)
    ultimately show ?thesis
      unfolding AuthIdentifierService_createOperation_def
      using that by (auto simp: saga_start_def intro!: op.wp_createDoc)
  qed
  have again: "wp (await (AuthIdentifierService_findOperation A (in_operationId input)) (require e))
      (\<lambda>d. saga_start input d) (\<lambda>_ _. True) w'" if "fresh_operation input w'" for e w'
    unfolding AuthIdentifierService_findOperation_def wp_await
    by (rule op.wp_findOne) (use that in \<open>auto simp: fresh_operation_def\<close>)
  show ?thesis
    unfolding saga_operation_def wp_await [of "AuthIdentifierService_findOperation A (in_operationId input)"]
    unfolding AuthIdentifierService_findOperation_def [of A "in_operationId input"]
  proof (rule op.wp_findOne, goal_cases)
    case (1 z)
    then have "fresh_operation input w" using assms(2) by (auto simp: settled_operation_def)
    then show ?case
      unfolding option.case wp_try_catch
      by (rule wp_mono [OF create])
        (auto simp: AuthIdentifierService_isDuplicateKey_def again [unfolded AuthIdentifierService_findOperation_def] simp del: wp_await)
  next
    case (2 d z)
    then have "settled_operation input w" using assms(2) by (auto simp: fresh_operation_def)
    with 2 show ?case by (auto simp: settled_operation_def saga_start_def)
  qed simp
qed

lemma wp_executeSaga:
  assumes agg: "\<And>ops is. aggregate_keeps (\<lambda>w. operations w = ops \<and> identifiers w = is) agg"
    and only: "claims_only input" and ids: "distinct (map as_assignmentId (in_assignments input))"
    and start: "fresh_operation input w \<or> settled_operation input w"
  shows "wp (AuthIdentifierService_executeSaga A S input agg) (completed_claims input) (\<lambda>_ _. True) w"
proof -
  let ?n = "in_operationId input"
  have body: "wp (await (try_catch
         (await (AuthIdentifierService_applyAssignments A S input agg) (\<lambda>_.
          await (AuthIdentifierService_beginFinalizing A input OperationApplying TerminalCompleted) (\<lambda>_.
          ret TerminalCompleted)))
         (recover_saga A S input agg)) (AuthIdentifierService_finishTerminal A S input))
      (completed_claims input) (\<lambda>_ _. True) w'"
    if "ready (as_assignmentId ` set (in_assignments input)) (trim ?n) w'" for w'
    unfolding wp_await [of "try_catch _ _"] wp_try_catch
    using wp_run_claims [OF agg only ids that] unfolding wp_await
    by (auto elim!: wp_mono intro!: wp_mono [OF wp_recover] wp_mono [OF wp_finish_claims] wp_finish_failed)
  show ?thesis
    unfolding AuthIdentifierService_executeSaga_def wp_await [of "saga_operation A input"]
  proof (rule wp_mono [OF wp_saga_operation [OF only start]], goal_cases)
    case (1 d w')
    show ?case
    proof (cases "terminal_operation (o_status d)")
      case True
      then show ?thesis by (auto simp: completed_claims_def intro: wp_mono [OF wp_replay])
    next
      case False
      with 1 have d: "o_status d = OperationPending"
        "ready (as_assignmentId ` set (in_assignments input)) (trim ?n) w'" by (simp_all add: saga_start_def)
      then show ?thesis
        by (auto simp del: wp_await wp_try_catch simp: wp_await [of "AuthIdentifierService_transition _ _ _ _"] wp_await [of "whenM _ _"]
            intro!: wp_transition_any body ready_status)
    qed
  qed simp
qed

lemma wp_executeInTransaction:
  assumes agg: "\<And>ops is. aggregate_keeps (\<lambda>w. operations w = ops \<and> identifiers w = is) agg"
    and only: "claims_only input" and ids: "distinct (map as_assignmentId (in_assignments input))"
    and fresh: "fresh_operation input w" and unique: "unique_operations w"
  shows "wp (AuthIdentifierService_executeInTransaction A S input agg) (completed_claims input)
    (\<lambda>_ w'. fresh_operation input w' \<or> settled_operation input w') w"
proof (cases "sv_transaction S")
  case (Some T)
  let ?body = "await (AuthIdentifierService_createOperation A input) (\<lambda>_.
       await (AuthIdentifierService_transition A (in_operationId input) OperationPending OperationApplying) (\<lambda>_.
       await (AuthIdentifierService_applyAssignments A S input agg) (\<lambda>_.
       await (AuthIdentifierService_beginFinalizing A input OperationApplying TerminalCompleted) (\<lambda>_.
       AuthIdentifierService_finishTerminal A S input TerminalCompleted))))"
  have agg': "aggregate_keeps (\<lambda>w. operations w = ops) agg" for ops
  proof -
    have "keeps (\<lambda>w. operations w = ops) m" if "\<And>is. keeps (\<lambda>w. operations w = ops \<and> identifiers w = is) m"
      for m :: "('e world, 'b) io"
    proof (rule keepsI)
      fix w :: "'e world" assume "operations w = ops"
      then have "operations w = ops \<and> identifiers w = identifiers w" by simp
      from keepsD [OF that this] show "wp m (\<lambda>_ w. operations w = ops) (\<lambda>_ w. operations w = ops) w"
        by (rule wp_mono) simp_all
    qed
    note narrow = this
    show ?thesis
      unfolding aggregate_keeps_def by (intro allI conjI impI narrow) (use agg in \<open>simp_all add: aggregate_keeps_def\<close>)
  qed
  have run: "wp ?body (\<lambda>answer w'. completed_claims input answer w' \<and> settled_operation input w')
      (\<lambda>_ _. True) (w\<lparr>env := z\<rparr>)" for z
  proof -
    let ?ready = "ready (as_assignmentId ` set (in_assignments input)) (trim (in_operationId input))"
    note kept = kept_unique [OF agg', of input]
    have start: "unique_operations (w\<lparr>env := z\<rparr>)" using unique by (simp add: unique_operations_def)
    have created: "wp (AuthIdentifierService_createOperation A input) (\<lambda>_ w'. ?ready w' \<and> unique_operations w')
        (\<lambda>_ _. True) (w\<lparr>env := z\<rparr>)"
    proof (rule wp_mono [OF wp_conj [OF _ keepsD [OF keeps_createOperation(1) [OF kept] start]]])
      show "wp (AuthIdentifierService_createOperation A input) (\<lambda>_. ?ready) (\<lambda>_ _. True) (w\<lparr>env := z\<rparr>)"
        unfolding AuthIdentifierService_createOperation_def
        using claims_only_ready [OF only fresh] by (auto intro!: op.wp_createDoc)
    qed simp_all
    have moved: "wp (AuthIdentifierService_transition A (in_operationId input) OperationPending OperationApplying)
        (\<lambda>_ w'. ?ready w' \<and> unique_operations w') (\<lambda>_ _. True) w1" if "?ready w1" "unique_operations w1" for w1
      by (rule wp_mono [OF wp_conj [OF wp_transition_any keepsD [OF keeps_transition(1) [OF kept] that(2)]]])
        (auto intro!: ready_status [OF that(1)])
    have applied: "wp (await (AuthIdentifierService_applyAssignments A S input agg) (\<lambda>_.
        AuthIdentifierService_beginFinalizing A input OperationApplying TerminalCompleted))
        (\<lambda>_ w'. (\<forall>a \<in> set (in_assignments input). claimed (trim (in_operationId input)) a w') \<and> unique_operations w')
        (\<lambda>_ _. True) w1" if "?ready w1" "unique_operations w1" for w1
      by (rule wp_mono [OF wp_conj [OF wp_run_claims [OF agg only ids that(1)]
            keepsD [OF keeps_await [OF keeps_applyAssignments [OF kept] keeps_transition(2) [OF kept]] that(2)]]]) simp_all
    have ended: "wp (AuthIdentifierService_finishTerminal A S input TerminalCompleted)
        (\<lambda>answer w'. completed_claims input answer w' \<and> settled_operation input w') (\<lambda>_ _. True) w1"
      if "\<forall>a \<in> set (in_assignments input). claimed (trim (in_operationId input)) a w1" "unique_operations w1" for w1
      by (rule wp_mono [OF wp_finish_claims [OF that(1)]]) (use that(2) in simp_all)
    show ?thesis
      unfolding wp_await
      by (rule wp_mono [OF created], rule wp_mono [OF moved], simp, simp,
          rule wp_mono [OF applied [unfolded wp_await]], simp, simp,
          erule wp_mono, rule ended, simp_all)
  qed
  show ?thesis
    unfolding AuthIdentifierService_executeInTransaction_def Some option.case
    by (rule transaction.wp_transaction [OF transactions [OF Some]])
      (use fresh in \<open>auto intro!: wp_mono [OF run] simp: completed_claims_def claimed_frame simp del: wp_await\<close>)
qed (simp add: AuthIdentifierService_executeInTransaction_def fresh)

lemma wp_execute_claims:
  assumes agg: "\<And>ops is. aggregate_keeps (\<lambda>w. operations w = ops \<and> identifiers w = is) agg"
    and only: "claims_only input" and fresh: "fresh_operation input w" and unique: "unique_operations w"
  shows "wp (AuthIdentifierService_execute A S input agg) (completed_claims input) (\<lambda>_ _. True) w"
proof (cases "distinct (map as_assignmentId (in_assignments input))")
  case True
  have valid: "wp (AuthIdentifierService_validateInput S input) Q (\<lambda>_ _. True) w" if "Q () w" for Q
    using that by (simp add: AuthIdentifierService_validateInput_def)
  have unique': "unique_operations (w\<lparr>env := z\<rparr>)" for z using unique by (simp add: unique_operations_def)
  have saga: "wp (AuthIdentifierService_executeSaga A S input agg) (completed_claims input) (\<lambda>_ _. True) w'"
    if "fresh_operation input w' \<or> settled_operation input w'" for w'
    by (rule wp_executeSaga [OF agg only True that])
  show ?thesis
    unfolding AuthIdentifierService_execute_def wp_await [of "AuthIdentifierService_validateInput S input"]
      wp_await [of "AuthIdentifierService_findOperation A (in_operationId input)"]
  proof (rule valid, unfold AuthIdentifierService_findOperation_def, rule op.wp_findOne, goal_cases)
    case (1 z)
    show ?case
      using fresh by (auto intro!: saga wp_mono [OF wp_executeInTransaction [OF agg only True _ unique']])
  next
    case (2 d z)
    then show ?case using fresh by (auto simp: fresh_operation_def)
  qed simp
next
  case False
  then show ?thesis by (simp add: AuthIdentifierService_execute_def AuthIdentifierService_validateInput_def)
qed

text \<open>The answer to a request whose operation has ended.\<close>

lemma wp_execute_ended:
  assumes "unique_operations w" and "d \<in> set (operations w)" and "o_operationId d = trim (in_operationId input)"
    and "terminal_operation (o_status d)"
  shows "wp (AuthIdentifierService_execute A S input agg)
    (\<lambda>answer w'. env_step w w' \<and> oa_replayed answer \<and> o_result d = Some (oa_result answer) \<and>
       terminal_of (oa_status answer) = o_status d \<and> o_operationType d = in_operationType input \<and>
       list_all (assignment_matches (in_assignments input)) (o_assignments d))
    (\<lambda>_ w'. env_step w w') w"
proof -
  have only: "e = d" if "e \<in> set (operations w)" "o_operationId e = trim (in_operationId input)" for e
    using assms(1-3) that unfolding unique_operations_def distinct_map inj_on_def by metis
  have ended: "o_status d = OperationCompleted \<or> o_status d = OperationFailedTerminal"
    using assms(4) by (cases "o_status d") auto
  have resumed: "wp (AuthIdentifierService_resumeOrReplay A S d input agg)
      (\<lambda>answer w'. env_step w w' \<and> oa_replayed answer \<and> o_result d = Some (oa_result answer) \<and>
         terminal_of (oa_status answer) = o_status d \<and> o_operationType d = in_operationType input \<and>
         list_all (assignment_matches (in_assignments input)) (o_assignments d))
      (\<lambda>_ w'. env_step w w') (w\<lparr>env := z\<rparr>)" for z
    using assms(4) ended unfolding AuthIdentifierService_resumeOrReplay_def AuthIdentifierService_assertOperationManifest_def
    by (auto simp: AuthIdentifierService_replay_def env_step_def split: option.split)
  have valid: "wp (AuthIdentifierService_validateInput S input) Q (\<lambda>_ w'. env_step w w') w" if "Q () w" for Q
    using that by (simp add: AuthIdentifierService_validateInput_def)
  show ?thesis
    unfolding AuthIdentifierService_execute_def wp_await [of "AuthIdentifierService_validateInput S input"]
      wp_await [of "AuthIdentifierService_findOperation A (in_operationId input)"]
  proof (rule valid, unfold AuthIdentifierService_findOperation_def, rule op.wp_findOne, goal_cases)
    case (1 z)
    then show ?case using assms(2,3) by auto
  next
    case (2 e z)
    then show ?case using only [of e] resumed [of z] by simp
  qed (auto simp: env_step_def)
qed

end


subsection \<open>An instance\<close>

definition mem_service :: "transaction_strategy \<Rightarrow> mem_env identifier_service" where
  "mem_service strategy = \<lparr>sv_identifiers = the (identifierModel mem_app), sv_events = the (eventModel mem_app),
     sv_staffUsers = Some (staffUserModel mem_app), sv_members = Some (memberModel mem_app), sv_maxAssignments = 20,
     sv_operationRetentionMs = 2592000000, sv_transactionStrategy = strategy,
     sv_transaction = Some mem_transaction\<rparr>"

interpretation mem_identifier_store: identifier_store mem_app "mem_service strategy"
  using mem_operations.collection_axioms mem_identifiers.collection_axioms mem_event_store.event_store_axioms
    mem_tx.transaction_axioms
  by (simp add: identifier_store_def identifier_store_axioms_def mem_service_def)

text \<open>A member's second sign-in identifier, claimed by an administrator.\<close>

definition login_aggregate :: "mem_env aggregate" where
  "login_aggregate =
     \<lparr>ag_apply = (\<lambda>a. await (updateOne (memberModel mem_app) (\<lambda>m. m_id m = as_subjectId a)
        (\<lambda>m. m\<lparr>m_loginIdentifier := as_normalizedIdentifier a\<rparr>)) (\<lambda>_. ret ())),
      ag_compensate = (\<lambda>a. await (updateOne (memberModel mem_app) (\<lambda>m. m_id m = as_subjectId a)
        (\<lambda>m. m\<lparr>m_loginIdentifier := None\<rparr>)) (\<lambda>_. ret ())),
      ag_isApplied = None\<rparr>"

lemma login_aggregate_keeps:
  assumes "\<And>w z. I w \<Longrightarrow> I (w\<lparr>env := z\<rparr>)" and "\<And>w ms. I w \<Longrightarrow> I (w\<lparr>members := ms\<rparr>)"
  shows "aggregate_keeps I login_aggregate"
  unfolding aggregate_keeps_def login_aggregate_def
  by (auto intro!: keeps_rules mem_members.keeps_updateOne assms)

definition sample_claim :: operation_input where
  "sample_claim = \<lparr>in_operationId = ''op-1'', in_operationType = ClaimOperation,
     in_assignments = [\<lparr>as_assignmentId = ''a-1'', as_subjectType = MemberSubject, as_subjectId = sample_id CHR ''b'',
       as_action = ClaimAction, as_normalizedIdentifier = Some ''Olivia.O'', as_identifierType = Some LoginIdentifier,
       as_sourceReservationId = None, as_identifierCorrelationHash = None, as_correlationKeyVersion = None\<rparr>],
     in_requestedBy = \<lparr>s_subjectType = StaffSubject, s_subjectId = sample_id CHR ''f''\<rparr>,
     in_successHttpStatus = None, in_successReasonCategory = None, in_failureHttpStatus = None,
     in_failureReasonCategory = None, in_compensateOnFailure = True, in_cleanupStatus = None,
     in_resumeId = None, in_retainedSubject = None\<rparr>"

text \<open>The library after the claim, and the reservation of another member's identifier.\<close>

definition sample_claimed :: "mem_env world" where
  "sample_claimed = snd (AuthIdentifierService_execute mem_app (mem_service AutoStrategy) sample_claim login_aggregate
     sample_world)"

lemma sample_claim_run:
  "case AuthIdentifierService_execute mem_app (mem_service AutoStrategy) sample_claim login_aggregate sample_world of
     (r, w) \<Rightarrow> (case r of Inl e \<Rightarrow> False | Inr answer \<Rightarrow> \<not> oa_replayed answer \<and> oa_status answer = TerminalCompleted) \<and>
       (case operations w of [d] \<Rightarrow> o_operationId d = ''op-1'' \<and> o_status d = OperationCompleted | _ \<Rightarrow> False) \<and>
       \<not> isl (fst (AuthIdentifierService_execute mem_app (mem_service AutoStrategy) sample_claim login_aggregate w))"
  by code_simp

lemma sample_claim_text: "trim (in_operationId sample_claim) = ''op-1''"
  by code_simp

lemma sample_claimed_facts:
  obtains answer d where
    "AuthIdentifierService_execute mem_app (mem_service AutoStrategy) sample_claim login_aggregate sample_world =
       (Inr answer, sample_claimed)"
    "\<not> oa_replayed answer" "oa_status answer = TerminalCompleted"
    "operations sample_claimed = [d]" "o_operationId d = ''op-1''" "o_status d = OperationCompleted"
    "\<not> isl (fst (AuthIdentifierService_execute mem_app (mem_service AutoStrategy) sample_claim login_aggregate sample_claimed))"
  using sample_claim_run unfolding sample_claimed_def by (auto split: prod.splits sum.splits list.splits)

definition sample_reservation :: reservation where
  "sample_reservation = inserted_reservation ''desk@example.org''
     \<lparr>as_assignmentId = ''a-0'', as_subjectType = StaffSubject, as_subjectId = sample_id CHR ''f'',
       as_action = ClaimAction, as_normalizedIdentifier = None, as_identifierType = None,
       as_sourceReservationId = None, as_identifierCorrelationHash = None, as_correlationKeyVersion = None\<rparr>
     (sample_id CHR ''f'') EmailIdentifier ''op-0'' ''id-r''"

subsection \<open>Properties\<close>

text \<open>C9: identifier operations follow their life cycle.  Whatever an operation or its resumption does and
  however it ends, every operation stored before is still there, its accounts, identifiers and type
  are what they were, its status has only moved along the allowed transitions, and one that had
  ended has still the status and the result it ended with.\<close>

theorem operations_follow_life_cycle:
  assumes "identifier_store A S" and "\<And>ops. aggregate_keeps (\<lambda>w. operations w = ops) agg"
  shows "lived (operations w) (snd (AuthIdentifierService_execute A S input agg w)) \<and>
    lived (operations w) (snd (AuthIdentifierService_reconcile A S input agg w))"
  using identifier_store.keeps_execute [OF assms(1) kept_lived [OF assms(2)]] lived_start
  by (blast intro: keeps_snd)

theorem operations_follow_life_cycle_witness:
  "\<exists>d. operations sample_claimed = [d] \<and> o_status d = OperationCompleted \<and> lived [d]
     (snd (AuthIdentifierService_reconcile mem_app (mem_service AutoStrategy) sample_claim login_aggregate sample_claimed))"
proof (rule sample_claimed_facts)
  fix d assume d: "operations sample_claimed = [d]" "o_status d = OperationCompleted"
  have "aggregate_keeps (\<lambda>w. operations w = ops) login_aggregate" for ops by (rule login_aggregate_keeps) simp_all
  from operations_follow_life_cycle [OF mem_identifier_store.identifier_store_axioms this, of sample_claimed AutoStrategy sample_claim] d
  show ?thesis by simp
qed







end
