(* ===== verification/Identifier_Conflicts.thy ===== *)
theory Identifier_Conflicts
  imports Identifier_Operations
begin

text \<open>
  The resolution of identifier conflicts in \<^verbatim>\<open>src/auth/auth-identifier.service.ts\<close>, the status of an
  operation, and their routes in \<^verbatim>\<open>src/auth/auth.controller.ts\<close>.  Two accounts that claimed the same
  identifier are in conflict until an administrator lets at most one of them keep it and gives the
  others new ones.
\<close>

record reassignment =
  ra_subject :: subject_reference
  ra_newIdentifier :: string

record resolve_conflict_dto =
  rc_operationId :: string
  rc_retainedSubject :: "subject_reference option"
  rc_reassignments :: "reassignment list"

record conflict_subject_view =
  cs_subject :: subject_reference
  cs_displayLabel :: string

record conflict_view =
  cv_id :: string
  cv_normalizedIdentifier :: string
  cv_resolutionStatus :: conflict_resolution_status
  cv_subjects :: "conflict_subject_view list"

record operation_status_view =
  ov_operationId :: string
  ov_status :: operation_status
  ov_subjects :: "subject_reference list"
  ov_currentStep :: operation_status
  ov_completedAt :: "date option"
  ov_outcome :: "result_outcome option"
  ov_reasonCategory :: "string option"
  ov_httpStatus :: "int option"

subsection \<open>The accounts of a conflict\<close>

definition subject_model_missing :: exn where
  "subject_model_missing = NotFound ''Identifier subject not found''"

text \<open>The setters of the fields lower what is stored.\<close>

definition staff_identifier :: "string \<Rightarrow> staff_user \<Rightarrow> staff_user" where
  "staff_identifier n u = u\<lparr>u_email := to_lower n, u_authVersion := u_authVersion u + 1\<rparr>"

definition member_identifier :: "string \<Rightarrow> member \<Rightarrow> member" where
  "member_identifier n m = m\<lparr>m_loginIdentifier := Some (to_lower (trim n)), m_authVersion := m_authVersion m + 1\<rparr>"

definition AuthIdentifierService_updateAggregateIdentifier ::
  "'e identifier_service \<Rightarrow> assignment_input \<Rightarrow> string \<Rightarrow> ('e world, unit) io" where
  "AuthIdentifierService_updateAggregateIdentifier S a n =
     await (case as_subjectType a of
         StaffSubject \<Rightarrow> await (require subject_model_missing (sv_staffUsers S)) (\<lambda>M.
           await (cast_object_id (as_subjectId a)) (\<lambda>i. updateOne M (\<lambda>u. u_id u = i) (staff_identifier n)))
       | MemberSubject \<Rightarrow> await (require subject_model_missing (sv_members S)) (\<lambda>M.
           await (cast_object_id (as_subjectId a)) (\<lambda>i. updateOne M (\<lambda>m. m_id m = i) (member_identifier n)))) (\<lambda>matched.
     if matched = 0 then throw subject_model_missing else ret ())"

definition AuthIdentifierService_releaseOriginalConflict ::
  "'e app \<Rightarrow> 'e identifier_service \<Rightarrow> string \<Rightarrow> assignment_input \<Rightarrow> ('e world, unit) io" where
  "AuthIdentifierService_releaseOriginalConflict A S conflictId a =
     await (cast_object_id conflictId) (\<lambda>i.
     await (asks (clock A)) (\<lambda>now.
     await (updateOne (sv_identifiers S) (\<lambda>d. i_id d = i \<and> i_status d = IdentifierConflict)
       (\<lambda>d. d\<lparr>i_status := IdentifierReleased, i_subjectType := Some (as_subjectType a),
          i_subjectId := Some (trim (as_subjectId a)), i_releasedAt := Some now,
          i_conflictingSubjects := None, i_conflictResolutionStatus := None\<rparr>)) (\<lambda>_. ret ())))"

definition restore_conflict :: "'e identifier_service \<Rightarrow> string \<Rightarrow> ('e world, unit) io" where
  "restore_conflict S conflictId =
     await (cast_object_id conflictId) (\<lambda>i.
     await (updateOne (sv_identifiers S) (\<lambda>d. i_id d = i)
       (\<lambda>d. d\<lparr>i_status := IdentifierConflict, i_conflictResolutionStatus := Some Reviewable,
          i_releasedAt := None\<rparr>)) (\<lambda>_. ret ()))"

text \<open>Whether the account has the identifier already; a query lowers what it compares with.\<close>

definition has_identifier :: "'e identifier_service \<Rightarrow> assignment_input \<Rightarrow> ('e world, bool) io" where
  "has_identifier S a =
     (if as_action a = RetainAction \<or> \<not> truthy (as_normalizedIdentifier a) then ret False
      else let n = the (as_normalizedIdentifier a) in
      case as_subjectType a of
        StaffSubject \<Rightarrow> (case sv_staffUsers S of None \<Rightarrow> ret False
          | Some M \<Rightarrow> await (cast_object_id (as_subjectId a)) (\<lambda>i.
              exists_doc M (\<lambda>u. u_id u = i \<and> u_email u = to_lower n)))
      | MemberSubject \<Rightarrow> (case sv_members S of None \<Rightarrow> ret False
          | Some M \<Rightarrow> await (cast_object_id (as_subjectId a)) (\<lambda>i.
              exists_doc M (\<lambda>m. m_id m = i \<and> m_loginIdentifier m = Some (to_lower (trim n))))))"

definition AuthIdentifierService_conflictAggregateAdapter ::
  "'e app \<Rightarrow> 'e identifier_service \<Rightarrow> string \<Rightarrow> string \<Rightarrow> string option \<Rightarrow> 'e aggregate" where
  "AuthIdentifierService_conflictAggregateAdapter A S conflictId originalIdentifier releaseOnAssignmentId =
     \<lparr>ag_apply = (\<lambda>a.
        await (if as_action a \<noteq> RetainAction
          then AuthIdentifierService_updateAggregateIdentifier S a (the (as_normalizedIdentifier a)) else ret ()) (\<lambda>_.
        whenM (Some (as_assignmentId a) = releaseOnAssignmentId)
          (AuthIdentifierService_releaseOriginalConflict A S conflictId a))),
      ag_compensate = (\<lambda>a.
        await (if as_action a \<noteq> RetainAction
          then AuthIdentifierService_updateAggregateIdentifier S a originalIdentifier else ret ()) (\<lambda>_.
        whenM (Some (as_assignmentId a) = releaseOnAssignmentId) (restore_conflict S conflictId))),
      ag_isApplied = Some (has_identifier S)\<rparr>"

subsection \<open>The mapping of the administrator\<close>

definition subject_key :: "subject_reference \<Rightarrow> string" where
  "subject_key s = subject_name (s_subjectType s) @ '':'' @ s_subjectId s"

definition AuthIdentifierService_validateConflictMapping ::
  "subject_reference list \<Rightarrow> string \<Rightarrow> resolve_conflict_dto \<Rightarrow> ('w, unit) io" where
  "AuthIdentifierService_validateConflictMapping subjects originalIdentifier dto =
     (let subjectKeys = set (map subject_key subjects);
          retainedKey = map_option subject_key (rc_retainedSubject dto);
          reassignmentKeys = map (subject_key \<circ> ra_subject) (rc_reassignments dto);
          accounted = set ((case retainedKey of None \<Rightarrow> [] | Some k \<Rightarrow> [k]) @ reassignmentKeys) in
      if (case retainedKey of None \<Rightarrow> False | Some k \<Rightarrow> k \<notin> subjectKeys)
      then throw (Unprocessable ''Retained subject is not a claimant'')
      else if \<not> distinct reassignmentKeys then throw (Unprocessable ''Each subject may be reassigned once'')
      else if card accounted \<noteq> card subjectKeys \<or> \<not> accounted \<subseteq> subjectKeys
      then throw (Unprocessable ''Every conflicting subject must be retained or reassigned'')
      else
      await (map_io (\<lambda>item. AuthIdentifierService_normalizeIdentifier (ra_newIdentifier item)) (rc_reassignments dto))
        (\<lambda>replacements.
      if \<not> distinct replacements \<or> originalIdentifier \<in> set replacements
      then throw (Unprocessable ''Replacement identifiers must be unique'')
      else ret ()))"

definition retain_assignment :: "resolve_conflict_dto \<Rightarrow> string \<Rightarrow> subject_reference \<Rightarrow> assignment_input" where
  "retain_assignment dto conflictId retained =
     \<lparr>as_assignmentId = rc_operationId dto @ '':retain'', as_subjectType = s_subjectType retained,
      as_subjectId = s_subjectId retained, as_action = RetainAction, as_normalizedIdentifier = None,
      as_identifierType = None, as_sourceReservationId = Some conflictId, as_identifierCorrelationHash = None,
      as_correlationKeyVersion = None\<rparr>"

definition replace_assignment ::
  "resolve_conflict_dto \<Rightarrow> string \<Rightarrow> reassignment \<Rightarrow> string \<Rightarrow> assignment_input" where
  "replace_assignment dto conflictId item normalizedIdentifier =
     \<lparr>as_assignmentId = rc_operationId dto @ '':'' @ subject_key (ra_subject item),
      as_subjectType = s_subjectType (ra_subject item), as_subjectId = s_subjectId (ra_subject item),
      as_action = ReplaceAction, as_normalizedIdentifier = Some normalizedIdentifier,
      as_identifierType = Some (if s_subjectType (ra_subject item) = StaffSubject then EmailIdentifier
        else LoginIdentifier),
      as_sourceReservationId = Some conflictId, as_identifierCorrelationHash = None,
      as_correlationKeyVersion = None\<rparr>"

definition conflict_operation ::
  "resolve_conflict_dto \<Rightarrow> assignment_input list \<Rightarrow> subject_reference \<Rightarrow> operation_input" where
  "conflict_operation dto assignments actor =
     \<lparr>in_operationId = rc_operationId dto, in_operationType = ResolveConflictOperation,
      in_assignments = assignments, in_requestedBy = actor, in_successHttpStatus = Some 200,
      in_successReasonCategory = Some ''identifier-conflict-resolved'', in_failureHttpStatus = Some 409,
      in_failureReasonCategory = Some ''identifier-conflict-resolution-failed'',
      in_compensateOnFailure = True, in_cleanupStatus = None, in_resumeId = None,
      in_retainedSubject = rc_retainedSubject dto\<rparr>"

definition AuthIdentifierService_resolveConflict ::
  "'e app \<Rightarrow> 'e identifier_service \<Rightarrow> string \<Rightarrow> resolve_conflict_dto \<Rightarrow> subject_reference \<Rightarrow>
   ('e world, operation_answer) io" where
  "AuthIdentifierService_resolveConflict A S conflictId dto actor =
     await (cast_object_id conflictId) (\<lambda>oid.
     await (findOne (sv_identifiers S) (\<lambda>i. i_id i = oid)) (\<lambda>found.
     await (require (NotFound ''Identifier conflict not found'') found) (\<lambda>conflict.
     if i_status conflict \<noteq> IdentifierConflict then throw (NotFound ''Identifier conflict not found'')
     else if i_conflictResolutionStatus conflict \<noteq> Some Reviewable
     then throw (Unprocessable ''Identifier conflict requires offline repair'')
     else
     let subjects = (case i_conflictingSubjects conflict of None \<Rightarrow> [] | Some ss \<Rightarrow> ss);
         retained = rc_retainedSubject dto in
     await (AuthIdentifierService_validateConflictMapping subjects (i_normalizedIdentifier conflict) dto) (\<lambda>_.
     await (map_io (\<lambda>item.
         await (AuthIdentifierService_normalizeIdentifier (ra_newIdentifier item)) (\<lambda>n.
         ret (replace_assignment dto conflictId item n))) (rc_reassignments dto)) (\<lambda>replaced.
     let assignments = (case retained of None \<Rightarrow> [] | Some r \<Rightarrow> [retain_assignment dto conflictId r]) @ replaced;
         finalAssignmentId = (if retained \<noteq> None \<or> assignments = [] then None
           else Some (as_assignmentId (last assignments))) in
     AuthIdentifierService_execute A S (conflict_operation dto assignments actor)
       (AuthIdentifierService_conflictAggregateAdapter A S conflictId (i_normalizedIdentifier conflict)
         finalAssignmentId))))))"

subsection \<open>Views\<close>

text \<open>\<^verbatim>\<open>user.displayName || user.email\<close>\<close>

definition or_text :: "string \<Rightarrow> string \<Rightarrow> string" where
  "or_text a b = (if a = [] then b else a)"

definition AuthIdentifierService_safeDisplayLabel ::
  "'e identifier_service \<Rightarrow> subject_reference \<Rightarrow> ('e world, string) io" where
  "AuthIdentifierService_safeDisplayLabel S subject =
     await (try_catch
       (case s_subjectType subject of
          StaffSubject \<Rightarrow> (case sv_staffUsers S of None \<Rightarrow> ret None
            | Some M \<Rightarrow> await (cast_object_id (s_subjectId subject)) (\<lambda>i.
                await (findOne M (\<lambda>u. u_id u = i)) (\<lambda>user.
                ret (map_option (\<lambda>u. or_text (u_displayName u) (u_email u)) user))))
        | MemberSubject \<Rightarrow> (case sv_members S of None \<Rightarrow> ret None
            | Some M \<Rightarrow> await (cast_object_id (s_subjectId subject)) (\<lambda>i.
                await (findOne M (\<lambda>m. m_id m = i)) (\<lambda>member.
                ret (map_option (\<lambda>m. or_text (m_fullName m) (m_memberNumber m)) member)))))
       (\<lambda>_. ret None)) (\<lambda>label.
     ret (case label of Some l \<Rightarrow> l
       | None \<Rightarrow> subject_name (s_subjectType subject) @ '' '' @ s_subjectId subject))"

text \<open>\<open>updatedAt\<close> gives the time of a reservation's last change, which mongoose keeps.\<close>

definition AuthIdentifierService_listConflicts ::
  "'e identifier_service \<Rightarrow> (reservation \<Rightarrow> date) \<Rightarrow> page \<Rightarrow> ('e world, conflict_view list) io" where
  "AuthIdentifierService_listConflicts S updatedAt query =
     await (findSorted (sv_identifiers S) (\<lambda>i. i_status i = IdentifierConflict)
       (\<lambda>a b. updatedAt b < updatedAt a \<or> updatedAt a = updatedAt b \<and> text_le (i_id a) (i_id b))
       ((q_page query - 1) * q_limit query) (q_limit query)) (\<lambda>conflicts.
     map_io (\<lambda>conflict.
       await (map_io (\<lambda>subject.
           await (AuthIdentifierService_safeDisplayLabel S subject) (\<lambda>label.
           ret \<lparr>cs_subject = subject, cs_displayLabel = label\<rparr>))
         (case i_conflictingSubjects conflict of None \<Rightarrow> [] | Some ss \<Rightarrow> ss)) (\<lambda>subjects.
       ret \<lparr>cv_id = i_id conflict, cv_normalizedIdentifier = i_normalizedIdentifier conflict,
         cv_resolutionStatus = (case i_conflictResolutionStatus conflict of None \<Rightarrow> ManualRepairRequired | Some r \<Rightarrow> r),
         cv_subjects = subjects\<rparr>)) conflicts)"

definition AuthIdentifierService_getOperationStatus ::
  "'e app \<Rightarrow> string \<Rightarrow> ('e world, operation_status_view) io" where
  "AuthIdentifierService_getOperationStatus A operationId =
     await (AuthIdentifierService_findOperation A operationId) (\<lambda>found.
     await (require (NotFound ''Identifier operation not found'') found) (\<lambda>operation.
     ret \<lparr>ov_operationId = o_operationId operation, ov_status = o_status operation,
       ov_subjects = unique_list (map (\<lambda>n. \<lparr>s_subjectType = n_subjectType n, s_subjectId = n_subjectId n\<rparr>)
         (o_assignments operation)),
       ov_currentStep = o_status operation, ov_completedAt = o_completedAt operation,
       ov_outcome = map_option w_outcome (o_result operation),
       ov_reasonCategory = Option.bind (o_result operation) w_reasonCategory,
       ov_httpStatus = map_option w_httpStatus (o_result operation)\<rparr>))"

subsection \<open>The routes\<close>

record resolution_result =
  rr_operationId :: string
  rr_status :: terminal_status
  rr_replayed :: bool
  rr_outcome :: result_outcome
  rr_reasonCategory :: "string option"

text \<open>The status of the response, and its body.\<close>

definition AuthController_resolveIdentifierConflict ::
  "'e app \<Rightarrow> 'e identifier_service \<Rightarrow> string \<Rightarrow> resolve_conflict_dto \<Rightarrow> string \<Rightarrow>
   ('e world, int \<times> resolution_result) io" where
  "AuthController_resolveIdentifierConflict A S i dto userId =
     await (AuthIdentifierService_resolveConflict A S i dto
       \<lparr>s_subjectType = StaffSubject, s_subjectId = userId\<rparr>) (\<lambda>r.
     ret (oa_httpStatus r, \<lparr>rr_operationId = oa_operationId r, rr_status = oa_status r, rr_replayed = oa_replayed r,
       rr_outcome = w_outcome (oa_result r), rr_reasonCategory = w_reasonCategory (oa_result r)\<rparr>))"

definition AuthController_listIdentifierConflicts ::
  "'e identifier_service \<Rightarrow> (reservation \<Rightarrow> date) \<Rightarrow> page \<Rightarrow> ('e world, conflict_view list) io" where
  "AuthController_listIdentifierConflicts = AuthIdentifierService_listConflicts"

definition AuthController_identifierOperationStatus ::
  "'e app \<Rightarrow> string \<Rightarrow> ('e world, operation_status_view) io" where
  "AuthController_identifierOperationStatus = AuthIdentifierService_getOperationStatus"


subsection \<open>What a resolution accounts for\<close>

text \<open>A round of checks, each of which gives a value or throws.\<close>

lemma wp_map_io_checked:
  assumes "\<And>x. f x = (if ok x then ret (g x) else throw (err x))" and "list_all ok xs \<Longrightarrow> Q (map g xs) w"
  shows "wp (map_io f xs) Q (\<lambda>_ _. True) w"
  using assms(2)
proof (induction xs arbitrary: Q)
  case (Cons x xs)
  show ?case
  proof (cases "ok x")
    case True
    then have "wp (map_io f xs) (\<lambda>ys. Q (g x # ys)) (\<lambda>_ _. True) w" using Cons by simp
    with True show ?thesis by (simp add: assms(1) [of x])
  qed (simp add: assms(1) [of x])
qed simp

definition new_identifiers :: "resolve_conflict_dto \<Rightarrow> string list" where
  "new_identifiers dto = map (\<lambda>item. to_lower (trim (ra_newIdentifier item))) (rc_reassignments dto)"

definition claimants :: "reservation \<Rightarrow> subject_reference list" where
  "claimants c = (case i_conflictingSubjects c of None \<Rightarrow> [] | Some ss \<Rightarrow> ss)"

definition accounted_for :: "resolve_conflict_dto \<Rightarrow> subject_reference list" where
  "accounted_for dto = (case rc_retainedSubject dto of None \<Rightarrow> [] | Some s \<Rightarrow> [s]) @ map ra_subject (rc_reassignments dto)"

definition proper_mapping :: "reservation \<Rightarrow> resolve_conflict_dto \<Rightarrow> bool" where
  "proper_mapping c dto \<longleftrightarrow>
     subject_key ` set (accounted_for dto) = subject_key ` set (claimants c) \<and>
     distinct (map (subject_key \<circ> ra_subject) (rc_reassignments dto)) \<and>
     distinct (new_identifiers dto) \<and> [] \<notin> set (new_identifiers dto) \<and>
     i_normalizedIdentifier c \<notin> set (new_identifiers dto)"

lemma normalizeIdentifier_checked:
  "AuthIdentifierService_normalizeIdentifier v = (if to_lower (trim v) \<noteq> [] then ret (to_lower (trim v))
     else throw (Unprocessable ''Replacement identifier is required''))"
  by (simp add: AuthIdentifierService_normalizeIdentifier_def Let_def)

lemma wp_validateConflictMapping:
  assumes "proper_mapping c dto \<Longrightarrow> Q () w"
  shows "wp (AuthIdentifierService_validateConflictMapping (claimants c) (i_normalizedIdentifier c) dto) Q (\<lambda>_ _. True) w"
proof -
  let ?keys = "set (map subject_key (claimants c))"
  let ?mapped = "set ((case map_option subject_key (rc_retainedSubject dto) of None \<Rightarrow> [] | Some k \<Rightarrow> [k]) @
    map (subject_key \<circ> ra_subject) (rc_reassignments dto))"
  have mapped: "?mapped = subject_key ` set (accounted_for dto)"
    by (auto simp: accounted_for_def split: option.split)
  have all: "?mapped = ?keys" if "card ?mapped = card ?keys" "?mapped \<subseteq> ?keys"
    using that by (intro card_subset_eq) auto
  have last: "wp (map_io (\<lambda>item. AuthIdentifierService_normalizeIdentifier (ra_newIdentifier item)) (rc_reassignments dto))
      (\<lambda>replacements. wp (if \<not> distinct replacements \<or> i_normalizedIdentifier c \<in> set replacements
        then throw (Unprocessable ''Replacement identifiers must be unique'') else ret ()) Q (\<lambda>_ _. True)) (\<lambda>_ _. True) w"
    if "?mapped = ?keys" "distinct (map (subject_key \<circ> ra_subject) (rc_reassignments dto))"
    by (rule wp_map_io_checked [OF normalizeIdentifier_checked])
      (use that assms mapped in \<open>auto simp: proper_mapping_def new_identifiers_def list_all_iff image_iff eq_commute [of "[]"]\<close>)
  show ?thesis
    unfolding AuthIdentifierService_validateConflictMapping_def Let_def
    using last all by (auto simp del: wp_if)
qed

context identifier_store
begin

lemma wp_resolveConflict:
  "wp (AuthIdentifierService_resolveConflict A S conflictId dto actor)
    (\<lambda>_ _. \<exists>c \<in> set (identifiers w). i_id c = to_lower conflictId \<and> i_status c = IdentifierConflict \<and>
       i_conflictResolutionStatus c = Some Reviewable \<and> proper_mapping c dto)
    (\<lambda>_ _. True) w"
  (is "wp _ ?Q _ _")
proof -
  have any: "wp m Q (\<lambda>_ _. True) w'" if "\<And>a w'. Q a w'" for m :: "('e world, 'b) io" and Q w'
    by (rule wp_mono [OF wp_True]) (use that in auto)
  show ?thesis
    unfolding AuthIdentifierService_resolveConflict_def cast_object_id_def wp_await [of "if _ then _ else _"]
      wp_await [of "findOne _ _"] wp_if wp_ret wp_throw
    apply (simp only: split: if_split)
    apply (intro conjI impI TrueI)
    apply (rule ids.wp_findOne)
    subgoal by simp
    subgoal for d z
      unfolding wp_await [of "require _ _"] wp_require option.case Let_def claimants_def [symmetric]
      apply (simp del: wp_await add: wp_await [of "AuthIdentifierService_validateConflictMapping _ _ _"])
      apply (intro impI, rule wp_validateConflictMapping, rule any)
      apply blast
      done
    subgoal by simp
    done
qed

lemma wp_resolveConflict_settled:
  assumes "\<forall>c \<in> set (identifiers w). i_id c = to_lower conflictId \<longrightarrow> i_status c \<noteq> IdentifierConflict"
    and "is_object_id conflictId"
  shows "wp (AuthIdentifierService_resolveConflict A S conflictId dto actor) (\<lambda>_ _. False)
    (\<lambda>e w'. env_step w w' \<and> (e = NotFound ''Identifier conflict not found'' \<or> store_error e)) w"
  unfolding AuthIdentifierService_resolveConflict_def cast_object_id_def wp_await [of "ret _"]
    wp_await [of "findOne _ _"] wp_ret assms(2) [THEN eqTrueI] if_True
proof (rule ids.wp_findOne, goal_cases)
  case (2 d z)
  with assms(1) have "i_status d \<noteq> IdentifierConflict" by blast
  then show ?case by (auto simp: env_step_def)
qed (auto simp: env_step_def)

end


subsection \<open>An instance\<close>

definition sample_conflict :: reservation where
  "sample_conflict = \<lparr>i_id = sample_id CHR ''9'', i_normalizedIdentifier = ''shared@example.org'',
     i_identifierType = EmailIdentifier, i_subjectType = None, i_subjectId = None, i_status = IdentifierConflict,
     i_conflictingSubjects = Some [\<lparr>s_subjectType = StaffSubject, s_subjectId = sample_id CHR ''f''\<rparr>,
       \<lparr>s_subjectType = MemberSubject, s_subjectId = sample_id CHR ''b''\<rparr>],
     i_conflictResolutionStatus = Some Reviewable, i_pendingOperationId = None, i_activationGateOperationId = None,
     i_lastOperationId = None, i_pendingAction = None, i_releasedAt = None, i_createdBy = ''migration'',
     i_updatedBy = ''migration''\<rparr>"

definition conflict_world :: "mem_env world" where
  "conflict_world = sample_world\<lparr>identifiers := [sample_conflict]\<rparr>"

definition sample_resolution :: resolve_conflict_dto where
  "sample_resolution = \<lparr>rc_operationId = ''op-2'',
     rc_retainedSubject = Some \<lparr>s_subjectType = StaffSubject, s_subjectId = sample_id CHR ''f''\<rparr>,
     rc_reassignments = [\<lparr>ra_subject = \<lparr>s_subjectType = MemberSubject, s_subjectId = sample_id CHR ''b''\<rparr>,
       ra_newIdentifier = ''Olivia.O''\<rparr>]\<rparr>"

definition sample_administrator :: subject_reference where
  "sample_administrator = \<lparr>s_subjectType = StaffSubject, s_subjectId = sample_id CHR ''f''\<rparr>"

definition resolve_sample :: "(mem_env world, operation_answer) io" where
  "resolve_sample = AuthIdentifierService_resolveConflict mem_app (mem_service AutoStrategy) (sample_id CHR ''9'')
     sample_resolution sample_administrator"

lemma resolve_sample_run:
  "case resolve_sample conflict_world of (r, w) \<Rightarrow>
     (case r of Inl e \<Rightarrow> False | Inr answer \<Rightarrow> oa_status answer = TerminalCompleted) \<and>
     list_all (\<lambda>c. i_status c \<noteq> IdentifierConflict) (identifiers w) \<and>
     map m_loginIdentifier (members w) = [Some ''olivia.o'']"
  by code_simp

subsection \<open>Properties\<close>

text \<open>C21: an administrator's resolution is carried out only for a reviewable conflict and only when the
  accounts it names are exactly the claimants of the conflict, each reassigned at most once, and
  the new identifiers are non-empty, pairwise different and different from the one in conflict.\<close>

theorem resolution_accounts_for_claimants:
  assumes "identifier_store A S"
    and "AuthIdentifierService_resolveConflict A S conflictId dto actor w = (Inr answer, w')"
  shows "\<exists>c \<in> set (identifiers w). i_id c = to_lower conflictId \<and> i_status c = IdentifierConflict \<and>
    i_conflictResolutionStatus c = Some Reviewable \<and> proper_mapping c dto"
  using wp_return_value [OF identifier_store.wp_resolveConflict [OF assms(1)] assms(2)] .

theorem resolution_accounts_for_claimants_witness:
  "\<not> isl (fst (resolve_sample conflict_world)) \<and> proper_mapping sample_conflict sample_resolution"
proof -
  have run: "\<not> isl (fst (resolve_sample conflict_world))"
    using resolve_sample_run by (auto split: prod.splits sum.splits)
  from resolution_accounts_for_claimants [OF mem_identifier_store.identifier_store_axioms
      run_returned [OF run, unfolded resolve_sample_def]] run
  show ?thesis by (simp add: conflict_world_def)
qed

text \<open>Once a conflict is resolved, the same request is not answered with the result that is stored for
  its operation id: it is refused because the conflict is not there, and changes nothing.\<close>

theorem resolved_conflict_is_refused:
  assumes "identifier_store A S" and "is_object_id conflictId"
    and "\<forall>c \<in> set (identifiers w). i_id c = to_lower conflictId \<longrightarrow> i_status c \<noteq> IdentifierConflict"
  shows "case AuthIdentifierService_resolveConflict A S conflictId dto actor w of
      (Inl e, w') \<Rightarrow> env_step w w' \<and> (e = NotFound ''Identifier conflict not found'' \<or> store_error e)
    | (Inr answer, w') \<Rightarrow> False"
  using identifier_store.wp_resolveConflict_settled [OF assms(1,3,2)] unfolding wp_def .

theorem resolved_conflict_is_refused_witness:
  "isl (fst (resolve_sample (snd (resolve_sample conflict_world))))"
proof -
  let ?after = "snd (resolve_sample conflict_world)"
  have id: "is_object_id (sample_id CHR ''9'')" by code_simp
  have "list_all (\<lambda>c. i_status c \<noteq> IdentifierConflict) (identifiers ?after)"
    using resolve_sample_run by (simp split: prod.splits)
  then have "\<forall>c \<in> set (identifiers ?after). i_id c = to_lower (sample_id CHR ''9'') \<longrightarrow> i_status c \<noteq> IdentifierConflict"
    by (simp add: list_all_iff)
  from resolved_conflict_is_refused [OF mem_identifier_store.identifier_store_axioms id this, of AutoStrategy
      sample_resolution sample_administrator, folded resolve_sample_def]
  show ?thesis by (simp split: prod.splits sum.splits)
qed

subsection \<open>What a failed operation leaves behind\<close>

text \<open>
  A second claim whose account cannot be changed: the operation is compensated and ends as failed, and
  the identifier of the second claim stays pending for it.
\<close>

definition second_claim :: assignment_input where
  "second_claim = (hd (in_assignments sample_claim))\<lparr>as_assignmentId := ''a-2'', as_normalizedIdentifier := Some ''olivia.two''\<rparr>"

definition failing_aggregate :: "mem_env aggregate" where
  "failing_aggregate = login_aggregate\<lparr>ag_apply := (\<lambda>a. if as_assignmentId a = ''a-2'' then throw subject_model_missing
       else ag_apply login_aggregate a),
     ag_isApplied := Some (\<lambda>a. ret (as_assignmentId a = ''a-1''))\<rparr>"

lemma failed_claim_stays_pending:
  "case AuthIdentifierService_execute mem_app (mem_service DisabledStrategy)
       (sample_claim\<lparr>in_assignments := in_assignments sample_claim @ [second_claim]\<rparr>) failing_aggregate sample_world of
     (r, w) \<Rightarrow> (case r of Inl e \<Rightarrow> False | Inr answer \<Rightarrow> oa_status answer = TerminalFailed) \<and>
       map o_status (operations w) = [OperationFailedTerminal] \<and>
       map (\<lambda>i. (i_normalizedIdentifier i, i_status i, i_pendingOperationId i)) (identifiers w) =
         [(''olivia.o'', IdentifierReleased, None), (''olivia.two'', IdentifierPending, Some ''op-1'')]"
  by code_simp

text \<open>A subject may be retained and given a new identifier in one resolution.\<close>

lemma retained_may_be_reassigned:
  "fst (AuthIdentifierService_validateConflictMapping (claimants sample_conflict) ''shared@example.org''
     (sample_resolution\<lparr>rc_reassignments := rc_reassignments sample_resolution @
       [\<lparr>ra_subject = sample_administrator, ra_newIdentifier = ''ada@example.org''\<rparr>]\<rparr>) conflict_world) = Inr ()"
  by code_simp

end
