(* ===== verification/Repair_Keys.thy ===== *)
theory Repair_Keys
  imports Throttle "HOL-Library.AList"
begin

text \<open>
  \<^verbatim>\<open>src/auth/auth-identifier-repair-key-policy.service.ts\<close>: which audit keys must stay configured, because
  a stored repair or a live throttle bucket was made with them, and whether a rotation of the keys may
  go on.

  A record \<open>audit_keys\<close> has what the configuration holds: each entry with \<^verbatim>\<open>Number(...)\<close> of its key, \<open>None\<close>
  where that is not a number.
\<close>

datatype key_material = KeyText string | KeyBytes "nat list"

record audit_keys =
  ak_keyRing :: "(rat option \<times> key_material) list option"
  ak_keys :: "(rat option \<times> key_material) list option"
  ak_keyLookup :: "(rat option \<times> key_material) list option"
  ak_currentVersion :: "rat option"
  ak_currentSecret :: "key_material option"
  ak_previousKeys :: "(rat option \<times> key_material) list option"

datatype key_policy_reason = KeysReady | RepairKeyRequired | ThrottleKeyMissing

record key_policy_decision =
  kd_allowed :: bool
  kd_reason :: key_policy_reason
  kd_requiredVersion :: "nat option"

record key_policy_readiness =
  kr_ready :: bool
  kr_reason :: key_policy_reason
  kr_requiredVersions :: "nat list"
  kr_requiredVersionCount :: nat
  kr_missingVersions :: "nat list"

record required_key_versions =
  rk_repairVersions :: "nat list"
  rk_throttleVersions :: "nat list"
  rk_requiredVersions :: "nat list"

record rotation_input =
  ri_candidateCurrentVersion :: nat
  ri_candidatePreviousVersions :: "rat list"

record preflight_result =
  rt_blocked :: bool
  rt_requiredPreviousVersions :: "nat list"
  rt_requiredPreviousCount :: nat
  rt_maxPreviousKeys :: nat

definition max_previous_keys :: nat where
  "max_previous_keys = 2"

fun incomplete_repair :: "operation_status \<Rightarrow> bool" where
  "incomplete_repair OperationPending = True"
| "incomplete_repair OperationApplying = True"
| "incomplete_repair OperationCompensating = True"
| "incomplete_repair OperationFinalizing = True"
| "incomplete_repair OperationFailedRetryable = True"
| "incomplete_repair _ = False"

text \<open>\<^verbatim>\<open>isPositiveVersion\<close> with the version that it is.\<close>

definition AuthIdentifierRepairKeyPolicyService_isPositiveVersion :: "rat option \<Rightarrow> nat option" where
  "AuthIdentifierRepairKeyPolicyService_isPositiveVersion v =
     (case v of None \<Rightarrow> None
      | Some q \<Rightarrow> if q = of_int \<lfloor>q\<rfloor> \<and> 0 < q then Some (nat \<lfloor>q\<rfloor>) else None)"

definition AuthIdentifierRepairKeyPolicyService_sortedVersions :: "rat option list \<Rightarrow> nat list" where
  "AuthIdentifierRepairKeyPolicyService_sortedVersions versions =
     sort (remdups (List.map_filter AuthIdentifierRepairKeyPolicyService_isPositiveVersion versions))"

definition numbers :: "nat list \<Rightarrow> rat option list" where
  "numbers ns = map (\<lambda>n. Some (of_nat n)) ns"

definition usable_key :: "key_material \<Rightarrow> bool" where
  "usable_key k = (case k of KeyText s \<Rightarrow> s \<noteq> [] | KeyBytes b \<Rightarrow> True)"

definition AuthIdentifierRepairKeyPolicyService_addConfiguredEntries ::
  "(nat \<times> key_material) list \<Rightarrow> (rat option \<times> key_material) list \<Rightarrow> (nat \<times> key_material) list" where
  "AuthIdentifierRepairKeyPolicyService_addConfiguredEntries target source =
     fold (\<lambda>(rawVersion, secret) keys.
       case AuthIdentifierRepairKeyPolicyService_isPositiveVersion rawVersion of
         Some version \<Rightarrow> if usable_key secret then AList.update version secret keys else keys
       | None \<Rightarrow> keys) source target"

definition AuthIdentifierRepairKeyPolicyService_configuredKeys :: "audit_keys \<Rightarrow> (nat \<times> key_material) list" where
  "AuthIdentifierRepairKeyPolicyService_configuredKeys K =
     (let add = AuthIdentifierRepairKeyPolicyService_addConfiguredEntries;
          keys = (case ak_keyRing K of None \<Rightarrow> [] | Some ring \<Rightarrow> add [] ring);
          keys = (case (case ak_keys K of None \<Rightarrow> ak_keyLookup K | Some lookup \<Rightarrow> Some lookup) of
            None \<Rightarrow> keys | Some configured \<Rightarrow> add keys configured);
          keys = (case (AuthIdentifierRepairKeyPolicyService_isPositiveVersion (ak_currentVersion K), ak_currentSecret K) of
            (Some version, Some secret) \<Rightarrow> if usable_key secret then AList.update version secret keys else keys
          | _ \<Rightarrow> keys)
      in (case ak_previousKeys K of None \<Rightarrow> keys | Some previous \<Rightarrow> add keys previous))"

definition AuthIdentifierRepairKeyPolicyService_getConfiguredKeyVersions :: "audit_keys \<Rightarrow> nat list" where
  "AuthIdentifierRepairKeyPolicyService_getConfiguredKeyVersions K =
     AuthIdentifierRepairKeyPolicyService_sortedVersions
       (numbers (map fst (AuthIdentifierRepairKeyPolicyService_configuredKeys K)))"

definition AuthIdentifierRepairKeyPolicyService_getKeyMaterial :: "audit_keys \<Rightarrow> nat option \<Rightarrow> key_material option" where
  "AuthIdentifierRepairKeyPolicyService_getKeyMaterial K version =
     Option.bind version (map_of (AuthIdentifierRepairKeyPolicyService_configuredKeys K))"

definition AuthIdentifierRepairKeyPolicyService_decisionForVersion ::
  "audit_keys \<Rightarrow> nat option \<Rightarrow> key_policy_reason \<Rightarrow> key_policy_decision" where
  "AuthIdentifierRepairKeyPolicyService_decisionForVersion K version deniedReason =
     (if AuthIdentifierRepairKeyPolicyService_getKeyMaterial K version = None
      then \<lparr>kd_allowed = False, kd_reason = deniedReason, kd_requiredVersion = version\<rparr>
      else \<lparr>kd_allowed = True, kd_reason = KeysReady, kd_requiredVersion = version\<rparr>)"

definition AuthIdentifierRepairKeyPolicyService_repairWorkerDecision ::
  "audit_keys \<Rightarrow> nat option \<Rightarrow> key_policy_decision" where
  "AuthIdentifierRepairKeyPolicyService_repairWorkerDecision K version =
     AuthIdentifierRepairKeyPolicyService_decisionForVersion K version RepairKeyRequired"

definition AuthIdentifierRepairKeyPolicyService_throttleRequestDecision ::
  "audit_keys \<Rightarrow> nat option \<Rightarrow> key_policy_decision" where
  "AuthIdentifierRepairKeyPolicyService_throttleRequestDecision K version =
     AuthIdentifierRepairKeyPolicyService_decisionForVersion K version ThrottleKeyMissing"

definition needs_repair_key :: "operation \<Rightarrow> bool" where
  "needs_repair_key d = (o_operationType d = OfflineRepairOperation \<and> o_manifestKeyVersion d \<noteq> None \<and>
     (incomplete_repair (o_status d) \<or> o_cleanupStatus d = CleanupPending))"

definition AuthIdentifierRepairKeyPolicyService_getRequiredKeyVersions ::
  "'e app \<Rightarrow> date \<Rightarrow> ('e world, required_key_versions) io" where
  "AuthIdentifierRepairKeyPolicyService_getRequiredKeyVersions A now =
     await (findAll (operationModel A) needs_repair_key (\<lambda>_ _. True)) (\<lambda>repairRows.
     await (findAll (bucketModel A) (\<lambda>b. now < a_expiresAt b) (\<lambda>_ _. True)) (\<lambda>throttleRows.
     let repairVersions = AuthIdentifierRepairKeyPolicyService_sortedVersions
           (map (\<lambda>d. map_option of_nat (o_manifestKeyVersion d)) repairRows);
         throttleVersions = AuthIdentifierRepairKeyPolicyService_sortedVersions (numbers (map a_keyVersion throttleRows)) in
     ret \<lparr>rk_repairVersions = repairVersions, rk_throttleVersions = throttleVersions,
       rk_requiredVersions = AuthIdentifierRepairKeyPolicyService_sortedVersions
         (numbers (repairVersions @ throttleVersions))\<rparr>))"

definition AuthIdentifierRepairKeyPolicyService_evaluateReadiness ::
  "'e app \<Rightarrow> audit_keys \<Rightarrow> date \<Rightarrow> ('e world, key_policy_readiness) io" where
  "AuthIdentifierRepairKeyPolicyService_evaluateReadiness A K now =
     await (AuthIdentifierRepairKeyPolicyService_getRequiredKeyVersions A now) (\<lambda>required.
     let configured = set (AuthIdentifierRepairKeyPolicyService_getConfiguredKeyVersions K);
         missingRepair = filter (\<lambda>v. v \<notin> configured) (rk_repairVersions required);
         missingThrottle = filter (\<lambda>v. v \<notin> configured) (rk_throttleVersions required);
         missingVersions = AuthIdentifierRepairKeyPolicyService_sortedVersions (numbers (missingRepair @ missingThrottle)) in
     ret \<lparr>kr_ready = (length missingVersions = 0),
       kr_reason = (if missingRepair \<noteq> [] then RepairKeyRequired
         else if missingThrottle \<noteq> [] then ThrottleKeyMissing else KeysReady),
       kr_requiredVersions = rk_requiredVersions required,
       kr_requiredVersionCount = length (rk_requiredVersions required), kr_missingVersions = missingVersions\<rparr>)"

definition AuthIdentifierRepairKeyPolicyService_preflightRotation ::
  "'e app \<Rightarrow> rotation_input \<Rightarrow> date \<Rightarrow> ('e world, preflight_result) io" where
  "AuthIdentifierRepairKeyPolicyService_preflightRotation A input now =
     await (AuthIdentifierRepairKeyPolicyService_getRequiredKeyVersions A now) (\<lambda>required.
     let requiredPreviousVersions = AuthIdentifierRepairKeyPolicyService_sortedVersions
           (map Some (ri_candidatePreviousVersions input) @
            numbers (filter (\<lambda>v. v \<noteq> ri_candidateCurrentVersion input) (rk_requiredVersions required))) in
     ret \<lparr>rt_blocked = (max_previous_keys < length requiredPreviousVersions),
       rt_requiredPreviousVersions = requiredPreviousVersions,
       rt_requiredPreviousCount = length requiredPreviousVersions, rt_maxPreviousKeys = max_previous_keys\<rparr>)"

subsection \<open>Which keys are needed\<close>

lemma isPositiveVersion_of_nat [simp]:
  "AuthIdentifierRepairKeyPolicyService_isPositiveVersion (Some (of_nat n)) = (if 0 < n then Some n else None)"
  by (simp add: AuthIdentifierRepairKeyPolicyService_isPositiveVersion_def)

lemma set_map_filter: "v \<in> set (List.map_filter f xs) \<longleftrightarrow> (\<exists>x \<in> set xs. f x = Some v)"
  by (force simp: List.map_filter_def)

lemma in_sortedVersions:
  "v \<in> set (AuthIdentifierRepairKeyPolicyService_sortedVersions vs) \<longleftrightarrow>
     (\<exists>x \<in> set vs. AuthIdentifierRepairKeyPolicyService_isPositiveVersion x = Some v)"
  by (simp add: AuthIdentifierRepairKeyPolicyService_sortedVersions_def set_map_filter)

lemma in_sortedVersions_numbers [simp]:
  "v \<in> set (AuthIdentifierRepairKeyPolicyService_sortedVersions (numbers ns)) \<longleftrightarrow> 0 < v \<and> v \<in> set ns"
  by (auto simp: in_sortedVersions numbers_def split: if_splits)

definition needs_version :: "date \<Rightarrow> nat \<Rightarrow> 'e world \<Rightarrow> bool" where
  "needs_version now v w \<longleftrightarrow> 0 < v \<and>
     ((\<exists>d \<in> set (operations w). needs_repair_key d \<and> o_manifestKeyVersion d = Some v) \<or>
      (\<exists>b \<in> set (buckets w). now < a_expiresAt b \<and> a_keyVersion b = v))"

definition configured :: "audit_keys \<Rightarrow> nat \<Rightarrow> bool" where
  "configured K v \<longleftrightarrow> AuthIdentifierRepairKeyPolicyService_getKeyMaterial K (Some v) \<noteq> None"

lemma in_configured_versions:
  "0 < v \<Longrightarrow> v \<in> set (AuthIdentifierRepairKeyPolicyService_getConfiguredKeyVersions K) \<longleftrightarrow> configured K v"
  by (simp add: AuthIdentifierRepairKeyPolicyService_getConfiguredKeyVersions_def configured_def
      AuthIdentifierRepairKeyPolicyService_getKeyMaterial_def map_of_eq_None_iff)

locale key_store =
  op: collection "operationModel A" operations operations_update operation_clash operation_valid o_id +
  bk: collection "bucketModel A" buckets buckets_update bucket_clash always_valid bucket_ident
  for A :: "'e app"
begin

lemma wp_getRequiredKeyVersions:
  "wp (AuthIdentifierRepairKeyPolicyService_getRequiredKeyVersions A now)
    (\<lambda>r w'. \<forall>v. (v \<in> set (rk_requiredVersions r) \<longleftrightarrow> needs_version now v w) \<and>
       (v \<in> set (rk_repairVersions r) \<or> v \<in> set (rk_throttleVersions r) \<longleftrightarrow> needs_version now v w)) (\<lambda>_ _. True) w"
proof -
  have versions: "v \<in> set (AuthIdentifierRepairKeyPolicyService_sortedVersions
      (map (\<lambda>d. map_option of_nat (o_manifestKeyVersion d)) rows)) \<longleftrightarrow>
      0 < v \<and> (\<exists>d \<in> set (operations w). needs_repair_key d \<and> o_manifestKeyVersion d = Some v)"
    if "mset rows = mset (filter needs_repair_key (operations w))" for rows v
  proof -
    have rows: "set rows = {d \<in> set (operations w). needs_repair_key d}"
      using that by (metis set_filter set_mset_mset)
    have "AuthIdentifierRepairKeyPolicyService_isPositiveVersion (map_option of_nat x) = Some v \<longleftrightarrow> 0 < v \<and> x = Some v" for x
      by (cases x) (auto simp: AuthIdentifierRepairKeyPolicyService_isPositiveVersion_def)
    then show ?thesis by (auto simp: in_sortedVersions rows)
  qed
  have live: "v \<in> set (map a_keyVersion rows) \<longleftrightarrow> (\<exists>b \<in> set (buckets w). now < a_expiresAt b \<and> a_keyVersion b = v)"
    if "mset rows = mset (filter (\<lambda>b. now < a_expiresAt b) (buckets w))" for rows v
  proof -
    have "set rows = {b \<in> set (buckets w). now < a_expiresAt b}" using that by (metis set_filter set_mset_mset)
    then show ?thesis by auto
  qed
  show ?thesis
    unfolding AuthIdentifierRepairKeyPolicyService_getRequiredKeyVersions_def wp_await [of "findAll (operationModel A) _ _"]
  proof (rule op.wp_findAll, goal_cases)
    case (1 rows z)
    show ?case
      unfolding wp_await
    proof (rule bk.wp_findAll, goal_cases)
      case (1 rows' z')
      have mset': "mset rows' = mset (filter (\<lambda>b. now < a_expiresAt b) (buckets w))" using 1(1) by simp
      show ?case
        unfolding Let_def wp_ret required_key_versions.simps in_sortedVersions_numbers set_append Un_iff
          versions [OF \<open>mset rows = _\<close>] live [OF mset'] needs_version_def
        by blast
    qed simp
  qed simp
qed

lemma wp_evaluateReadiness:
  "wp (AuthIdentifierRepairKeyPolicyService_evaluateReadiness A K now)
    (\<lambda>r w'. kr_ready r \<longleftrightarrow> (\<forall>v. needs_version now v w \<longrightarrow> configured K v)) (\<lambda>_ _. True) w"
proof -
  have "(AuthIdentifierRepairKeyPolicyService_sortedVersions (numbers
      (filter (\<lambda>v. v \<notin> set (AuthIdentifierRepairKeyPolicyService_getConfiguredKeyVersions K)) xs @
       filter (\<lambda>v. v \<notin> set (AuthIdentifierRepairKeyPolicyService_getConfiguredKeyVersions K)) ys)) = []) =
      (\<forall>v. needs_version now v w \<longrightarrow> configured K v)"
    if needed: "\<And>v. (v \<in> set xs \<or> v \<in> set ys) = needs_version now v w" for xs ys
  proof -
    have "0 < v" if "needs_version now v w" for v using that by (simp add: needs_version_def)
    then have "(\<exists>v. v \<in> set (AuthIdentifierRepairKeyPolicyService_sortedVersions (numbers
        (filter (\<lambda>v. v \<notin> set (AuthIdentifierRepairKeyPolicyService_getConfiguredKeyVersions K)) xs @
         filter (\<lambda>v. v \<notin> set (AuthIdentifierRepairKeyPolicyService_getConfiguredKeyVersions K)) ys)))) =
        (\<exists>v. needs_version now v w \<and> \<not> configured K v)"
      unfolding in_sortedVersions_numbers set_append Un_iff set_filter mem_Collect_eq
      by (metis needed in_configured_versions)
    then show ?thesis by (metis empty_iff empty_set last_in_set)
  qed
  note missing = this
  show ?thesis
    unfolding AuthIdentifierRepairKeyPolicyService_evaluateReadiness_def wp_await
    by (rule wp_mono [OF wp_getRequiredKeyVersions]) (simp_all add: Let_def missing del: in_sortedVersions_numbers)
qed

lemma wp_preflightRotation:
  "wp (AuthIdentifierRepairKeyPolicyService_preflightRotation A input now)
    (\<lambda>r w'. (rt_blocked r \<longleftrightarrow> 2 < length (rt_requiredPreviousVersions r)) \<and>
       (\<forall>v. needs_version now v w \<longrightarrow> v = ri_candidateCurrentVersion input \<or> v \<in> set (rt_requiredPreviousVersions r)))
    (\<lambda>_ _. True) w"
proof -
  have all: "v \<in> set (AuthIdentifierRepairKeyPolicyService_sortedVersions (map Some xs @ numbers ns))"
    if "0 < v" "v \<in> set ns" for v xs ns
    using that by (force simp: in_sortedVersions numbers_def)
  show ?thesis
    unfolding AuthIdentifierRepairKeyPolicyService_preflightRotation_def wp_await
  proof (rule wp_mono [OF wp_getRequiredKeyVersions], goal_cases)
    case (1 r w')
    have "0 < v" if "needs_version now v w" for v using that by (simp add: needs_version_def)
    with 1 show ?case by (auto simp: Let_def max_previous_keys_def intro!: all)
  qed simp
qed

end

interpretation mem_key_store: key_store mem_app
  using mem_operations.collection_axioms mem_buckets.collection_axioms by (simp add: key_store_def)

text \<open>The service is ready exactly when a usable key is configured for every version that an unfinished
  repair, a repair with cleanup to do, or a throttle bucket that has not expired was made with.\<close>

theorem readiness_means_keys:
  assumes "key_store A" and "AuthIdentifierRepairKeyPolicyService_evaluateReadiness A K now w = (Inr r, w')"
  shows "kr_ready r \<longleftrightarrow> (\<forall>v. needs_version now v w \<longrightarrow> configured K v)"
  using wp_return_value [OF key_store.wp_evaluateReadiness [OF assms(1)] assms(2)] .

definition sample_keys :: audit_keys where
  "sample_keys = \<lparr>ak_keyRing = None, ak_keys = None, ak_keyLookup = None, ak_currentVersion = Some 3,
     ak_currentSecret = Some (KeyText ''a-secret''), ak_previousKeys = Some [(Some 2, KeyText ''an-old-secret'')]\<rparr>"

definition keyed_world :: "mem_env world" where
  "keyed_world = sample_world\<lparr>buckets := [\<lparr>a_dimension = SignInSource, a_keyVersion = 2, a_bucketKey = ''k'', a_count = 1,
     a_windowStartedAt = 0, a_expiresAt = 5000\<rparr>]\<rparr>"

theorem readiness_means_keys_witness:
  "needs_version 1000 2 keyed_world \<and> configured sample_keys 2"
proof -
  have run: "\<not> isl (fst (AuthIdentifierRepairKeyPolicyService_evaluateReadiness mem_app sample_keys 1000 keyed_world))"
    by code_simp
  have ready: "kr_ready (projr (fst (AuthIdentifierRepairKeyPolicyService_evaluateReadiness mem_app sample_keys 1000 keyed_world)))"
    by code_simp
  have needed: "needs_version 1000 2 keyed_world" by code_simp
  from readiness_means_keys [OF mem_key_store.key_store_axioms run_returned [OF run]] ready needed show ?thesis by blast
qed

text \<open>C32: a rotation of the audit keys that the preflight does not block strands nothing: the new current
  key with the previous keys it names, at most two, has the key of every version that is needed, so
  the service is ready with any configuration that has these.\<close>

theorem admitted_rotation_keeps_keys:
  assumes "key_store A" and "AuthIdentifierRepairKeyPolicyService_preflightRotation A input now w = (Inr r, w1)"
    and "\<not> rt_blocked r" and "configured K (ri_candidateCurrentVersion input)"
    and "list_all (configured K) (rt_requiredPreviousVersions r)"
    and "AuthIdentifierRepairKeyPolicyService_evaluateReadiness A K now w = (Inr q, w2)"
  shows "kr_ready q \<and> length (rt_requiredPreviousVersions r) \<le> 2"
  using wp_return_value [OF key_store.wp_preflightRotation [OF assms(1)] assms(2)]
    wp_return_value [OF key_store.wp_evaluateReadiness [OF assms(1)] assms(6)] assms(3-5)
  by (auto simp: list_all_iff)

theorem admitted_rotation_keeps_keys_witness:
  "kr_ready (projr (fst (AuthIdentifierRepairKeyPolicyService_evaluateReadiness mem_app sample_keys 1000 keyed_world)))"
proof -
  let ?input = "\<lparr>ri_candidateCurrentVersion = 3, ri_candidatePreviousVersions = []\<rparr>"
  let ?run = "AuthIdentifierRepairKeyPolicyService_preflightRotation mem_app ?input 1000 keyed_world"
  have run: "case fst ?run of Inl e \<Rightarrow> False | Inr r \<Rightarrow> \<not> rt_blocked r \<and>
      list_all (configured sample_keys) (rt_requiredPreviousVersions r)" by code_simp
  then obtain r w1 where r: "?run = (Inr r, w1)" and open_: "\<not> rt_blocked r"
    and previous: "list_all (configured sample_keys) (rt_requiredPreviousVersions r)"
    by (cases ?run) (auto split: sum.splits)
  have current: "configured sample_keys (ri_candidateCurrentVersion ?input)" by code_simp
  have read: "\<not> isl (fst (AuthIdentifierRepairKeyPolicyService_evaluateReadiness mem_app sample_keys 1000 keyed_world))"
    by code_simp
  from admitted_rotation_keeps_keys [OF mem_key_store.key_store_axioms r open_ current previous run_returned [OF read]]
  show ?thesis by blast
qed

end
