(* ===== verification/Repair_Manifest.thy ===== *)
theory Repair_Manifest
  imports Repair_Keys
begin

text \<open>
  \<^verbatim>\<open>src/auth/auth-identifier-repair-manifest.ts\<close>: the manifest of an offline repair in a normal form, its
  canonical JSON text, and the keyed hash that binds a repair to the manifest of its dry run.

  A record \<open>repair_crypto\<close> has \<^verbatim>\<open>hkdfSync\<close> with the salt and length of the source, and the order of
  \<^verbatim>\<open>localeCompare\<close>; HMAC is that of the application.
\<close>

record manifest_reassignment =
  mr_subject :: subject_reference
  mr_newIdentifier :: string

record repair_manifest =
  rm_conflictId :: string
  rm_retainedSubject :: "subject_reference option"
  rm_reassignments :: "manifest_reassignment list"

record repair_crypto =
  hkdfSha256 :: "nat list \<Rightarrow> string \<Rightarrow> string"
  localeLe :: "string \<Rightarrow> string \<Rightarrow> bool"

subsection \<open>Normal form\<close>

definition manifest_le :: "repair_crypto \<Rightarrow> manifest_reassignment \<Rightarrow> manifest_reassignment \<Rightarrow> bool" where
  "manifest_le C a b =
     (let s = subject_name (s_subjectType (mr_subject a)); t = subject_name (s_subjectType (mr_subject b)) in
      if localeLe C s t \<and> localeLe C t s then localeLe C (s_subjectId (mr_subject a)) (s_subjectId (mr_subject b))
      else localeLe C s t)"

definition normalizeRepairManifest :: "repair_crypto \<Rightarrow> repair_manifest \<Rightarrow> exn + repair_manifest" where
  "normalizeRepairManifest C m =
     (let conflictId = trim (rm_conflictId m) in
      if conflictId = [] then Inl (Unprocessable ''Conflict id is required'')
      else
      let reassignments = sort_by (manifest_le C)
            (map (\<lambda>item. item\<lparr>mr_subject := (mr_subject item)\<lparr>s_subjectId := trim (s_subjectId (mr_subject item))\<rparr>,
               mr_newIdentifier := to_lower (trim (mr_newIdentifier item))\<rparr>) (rm_reassignments m)) in
      if reassignments = [] \<or>
        list_ex (\<lambda>item. s_subjectId (mr_subject item) = [] \<or> mr_newIdentifier item = []) reassignments
      then Inl (Unprocessable ''Every repair reassignment requires a subject and identifier'')
      else Inr \<lparr>rm_conflictId = conflictId,
        rm_retainedSubject = map_option (\<lambda>s. s\<lparr>s_subjectId := trim (s_subjectId s)\<rparr>) (rm_retainedSubject m),
        rm_reassignments = reassignments\<rparr>)"

subsection \<open>Canonical JSON\<close>

definition hex_char :: "nat \<Rightarrow> char" where
  "hex_char n = (if n < 10 then char_of (48 + n) else char_of (87 + n))"

definition escaped :: "char \<Rightarrow> string" where
  "escaped c = (let n = char_code c in
     if n = 34 then [CHR 0x5C, CHR 0x22] else if n = 92 then [CHR 0x5C, CHR 0x5C]
     else if n = 8 then [CHR 0x5C, CHR ''b''] else if n = 9 then [CHR 0x5C, CHR ''t'']
     else if n = 10 then [CHR 0x5C, CHR ''n''] else if n = 12 then [CHR 0x5C, CHR ''f'']
     else if n = 13 then [CHR 0x5C, CHR ''r'']
     else if n < 32 then [CHR 0x5C, CHR ''u'', CHR ''0'', CHR ''0'', hex_char (n div 16), hex_char (n mod 16)]
     else [c])"

definition json_text :: "string \<Rightarrow> string" where
  "json_text s = CHR 0x22 # concat (map escaped s) @ [CHR 0x22]"

definition json_number :: "int \<Rightarrow> string" where
  "json_number i = (if i < 0 then CHR ''-'' # decimal (nat (- i)) else decimal (nat i))"

text \<open>The order of \<^verbatim>\<open>Array.prototype.sort\<close> on texts, by code.\<close>

fun code_le :: "string \<Rightarrow> string \<Rightarrow> bool" where
  "code_le [] t = True"
| "code_le (c # s) [] = False"
| "code_le (c # s) (d # t) = (char_code c < char_code d \<or> char_code c = char_code d \<and> code_le s t)"

fun canonicalJson :: "json \<Rightarrow> string" where
  "canonicalJson JNull = ''null''"
| "canonicalJson (JBool b) = (if b then ''true'' else ''false'')"
| "canonicalJson (JStr s) = json_text s"
| "canonicalJson (JNum i) = json_number i"
| "canonicalJson (JArr xs) = ''['' @ join '','' (map canonicalJson xs) @ '']''"
| "canonicalJson (JObj kvs) = ''{'' @ join '',''
     (map (\<lambda>(key, v). json_text key @ '':'' @ v)
       (sort_by (\<lambda>a b. code_le (fst a) (fst b)) (map (\<lambda>(key, v). (key, canonicalJson v)) kvs))) @ ''}''"

definition json_subject :: "subject_reference \<Rightarrow> (string \<times> json) list" where
  "json_subject s = [(''subjectType'', JStr (subject_name (s_subjectType s))), (''subjectId'', JStr (s_subjectId s))]"

definition json_manifest :: "repair_manifest \<Rightarrow> json" where
  "json_manifest m = JObj ([(''conflictId'', JStr (rm_conflictId m)),
     (''reassignments'', JArr (map (\<lambda>item. JObj (json_subject (mr_subject item) @
        [(''newIdentifier'', JStr (mr_newIdentifier item))])) (rm_reassignments m)))] @
     (case rm_retainedSubject m of None \<Rightarrow> [] | Some s \<Rightarrow> [(''retainedSubject'', JObj (json_subject s))]))"

definition canonicalizeRepairManifest :: "repair_crypto \<Rightarrow> repair_manifest \<Rightarrow> exn + string" where
  "canonicalizeRepairManifest C m = map_sum id (canonicalJson \<circ> json_manifest) (normalizeRepairManifest C m)"

subsection \<open>Keys\<close>

text \<open>The base64url alphabet; decoding skips what is not in it.\<close>

definition base64url_value :: "char \<Rightarrow> nat option" where
  "base64url_value c = (let n = char_code c in
     if 65 \<le> n \<and> n \<le> 90 then Some (n - 65) else if 97 \<le> n \<and> n \<le> 122 then Some (n - 71)
     else if 48 \<le> n \<and> n \<le> 57 then Some (n + 4) else if n = 45 \<or> n = 43 then Some 62
     else if n = 95 \<or> n = 47 then Some 63 else None)"

definition base64url_digit :: "nat \<Rightarrow> char" where
  "base64url_digit v = (if v < 26 then char_of (v + 65) else if v < 52 then char_of (v + 71)
     else if v < 62 then char_of (v - 4) else if v = 62 then CHR ''-'' else CHR ''_'')"

fun from_sextets :: "nat list \<Rightarrow> nat list" where
  "from_sextets (a # b # c # d # rest) =
     (a * 4 + b div 16) # (b mod 16 * 16 + c div 4) # (c mod 4 * 64 + d) # from_sextets rest"
| "from_sextets [a, b, c] = [a * 4 + b div 16, b mod 16 * 16 + c div 4]"
| "from_sextets [a, b] = [a * 4 + b div 16]"
| "from_sextets _ = []"

fun to_sextets :: "nat list \<Rightarrow> nat list" where
  "to_sextets (x # y # z # rest) = x div 4 # (x mod 4 * 16 + y div 16) # (y mod 16 * 4 + z div 64) # z mod 64 # to_sextets rest"
| "to_sextets [x, y] = [x div 4, x mod 4 * 16 + y div 16, y mod 16 * 4]"
| "to_sextets [x] = [x div 4, x mod 4 * 16]"
| "to_sextets [] = []"

definition from_base64url :: "string \<Rightarrow> nat list" where
  "from_base64url s = from_sextets (List.map_filter base64url_value s)"

definition to_base64url :: "nat list \<Rightarrow> string" where
  "to_base64url bytes = map base64url_digit (to_sextets bytes)"

definition decodeKeyMaterial :: "key_material \<Rightarrow> nat list" where
  "decodeKeyMaterial k = (case k of KeyBytes b \<Rightarrow> b
     | KeyText s \<Rightarrow> let decoded = from_base64url s in
         if 0 < length decoded \<and> to_base64url decoded = s then decoded else map char_code s)"

text \<open>A version is a safe integer when it is at most \<^verbatim>\<open>Number.MAX_SAFE_INTEGER\<close>.\<close>

definition deriveRepairManifestKey :: "repair_crypto \<Rightarrow> key_material \<Rightarrow> nat \<Rightarrow> exn + string" where
  "deriveRepairManifestKey C k version =
     (if 9007199254740991 < int version \<or> version < 1 then Inl (Unprocessable ''Manifest key version must be a positive integer'')
      else Inr (hkdfSha256 C (decodeKeyMaterial k) (''key-version:'' @ decimal version)))"

definition hashRepairManifest ::
  "'e app \<Rightarrow> repair_crypto \<Rightarrow> repair_manifest \<Rightarrow> key_material \<Rightarrow> nat \<Rightarrow> exn + string" where
  "hashRepairManifest A C m k version =
     (case canonicalizeRepairManifest C m of Inl e \<Rightarrow> Inl e
      | Inr text \<Rightarrow> (case deriveRepairManifestKey C k version of Inl e \<Rightarrow> Inl e
          | Inr derivedKey \<Rightarrow> Inr (hmacSha256 A derivedKey text)))"

definition verifyRepairManifest ::
  "'e app \<Rightarrow> repair_crypto \<Rightarrow> repair_manifest \<Rightarrow> string \<Rightarrow> key_material \<Rightarrow> nat \<Rightarrow> exn + bool" where
  "verifyRepairManifest A C m expectedHash k version =
     map_sum id (\<lambda>h. from_base64url h = from_base64url expectedHash) (hashRepairManifest A C m k version)"

subsection \<open>The canonical text determines the manifest\<close>

text \<open>Reading one character of a JSON text back.\<close>

definition unhex :: "char \<Rightarrow> nat" where
  "unhex c = (if char_code c < 58 then char_code c - 48 else char_code c - 87)"

definition unescape :: "string \<Rightarrow> (char \<times> string) option" where
  "unescape s = (case s of [] \<Rightarrow> None
     | c # r \<Rightarrow> if c \<noteq> CHR 0x5C then Some (c, r)
         else (case r of [] \<Rightarrow> None
           | x # r' \<Rightarrow> if x = CHR ''u''
               then (if length r' < 4 then None
                 else Some (char_of (unhex (r' ! 2) * 16 + unhex (r' ! 3)), drop 4 r'))
               else Some (if x = CHR ''b'' then CHR 0x08 else if x = CHR ''t'' then CHR 0x09
                 else if x = CHR ''n'' then CHR 0x0A else if x = CHR ''f'' then CHR 0x0C
                 else if x = CHR ''r'' then CHR 0x0D else x, r')))"

lemma unhex_hex_char: "n < 16 \<Longrightarrow> unhex (hex_char n) = n"
  by (auto simp: unhex_def hex_char_def)

lemma short_escape:
  "list_all (\<lambda>n. unescape (escaped (char_of n)) = Some (char_of n, [])) [34 :: nat, 92, 8, 9, 10, 12, 13]"
  by code_simp

lemma unescape_escaped: "unescape (escaped c @ r) = Some (c, r)"
proof -
  let ?n = "char_code c"
  have c: "c = char_of ?n" by (simp add: char_code_def)
  have u: "char_code CHR 0x5C = 92" "char_code CHR ''u'' = 117" by (simp_all add: char_code_def)
  have "unescape (escaped c) = Some (c, [])"
  proof (cases "?n \<in> set [34, 92, 8, 9, 10, 12, 13]")
    case True
    with short_escape have "unescape (escaped (char_of ?n)) = Some (char_of ?n, [])" unfolding list_all_iff by blast
    then show ?thesis by (simp add: c [symmetric])
  next
    case False
    then have "?n \<noteq> 92" by simp
    then have "c \<noteq> CHR 0x5C" using u by auto
    moreover have "char_of (unhex (hex_char (?n div 16)) * 16 + unhex (hex_char (?n mod 16))) = c" if "?n < 32"
      using that c by (simp add: unhex_hex_char div_mult_mod_eq)
    ultimately show ?thesis using False by (auto simp: escaped_def unescape_def Let_def)
  qed
  moreover have "unescape (s @ r) = Some (c, r)" if "unescape s = Some (c, [])" for s
    using that by (cases s rule: remdups_adj.cases) (auto simp: unescape_def nth_append split: if_splits)
  ultimately show ?thesis by blast
qed

lemma escaped_not_quote: "escaped c @ r \<noteq> CHR 0x22 # r'"
proof
  assume eq: "escaped c @ r = CHR 0x22 # r'"
  then have "c = CHR 0x22" using unescape_escaped [of c r] by (simp add: unescape_def)
  with eq show False by (simp add: escaped_def char_code_def)
qed

lemma json_text_prefix:
  assumes "json_text s @ r = json_text t @ r'"
  shows "s = t \<and> r = r'"
proof -
  have "concat (map escaped s) @ CHR 0x22 # r = concat (map escaped t) @ CHR 0x22 # r' \<Longrightarrow> s = t \<and> r = r'"
  proof (induction s arbitrary: t)
    case Nil
    then show ?case by (cases t) (auto simp: escaped_not_quote [symmetric] dest: sym)
  next
    case (Cons c s)
    show ?case
    proof (cases t)
      case Nil
      with Cons.prems escaped_not_quote [of c "concat (map escaped s) @ CHR 0x22 # r" r'] show ?thesis by simp
    next
      case (Cons d t')
      with Cons.prems have eq: "escaped c @ concat (map escaped s) @ CHR 0x22 # r =
          escaped d @ concat (map escaped t') @ CHR 0x22 # r'" by simp
      from arg_cong [OF this, of unescape] have "c = d" by (simp add: unescape_escaped)
      with eq Cons.IH [of t'] Cons show ?thesis by simp
    qed
  qed
  with assms show ?thesis by (simp add: json_text_def)
qed

lemma subject_name_eq [simp]: "subject_name s = subject_name t \<longleftrightarrow> s = t"
  by (cases s; cases t) simp_all

text \<open>The texts of the parts of a manifest, with their keys in order.\<close>

definition item_text :: "manifest_reassignment \<Rightarrow> string" where
  "item_text item = ''{'' @ json_text ''newIdentifier'' @ '':'' @ json_text (mr_newIdentifier item) @ '','' @
     json_text ''subjectId'' @ '':'' @ json_text (s_subjectId (mr_subject item)) @ '','' @
     json_text ''subjectType'' @ '':'' @ json_text (subject_name (s_subjectType (mr_subject item))) @ ''}''"

definition subject_text :: "subject_reference \<Rightarrow> string" where
  "subject_text s = ''{'' @ json_text ''subjectId'' @ '':'' @ json_text (s_subjectId s) @ '','' @
     json_text ''subjectType'' @ '':'' @ json_text (subject_name (s_subjectType s)) @ ''}''"

lemma key_order:
  "code_le ''subjectType'' ''subjectId'' = False" "code_le ''subjectId'' ''subjectType'' = True"
  "code_le ''subjectType'' ''newIdentifier'' = False" "code_le ''subjectId'' ''newIdentifier'' = False"
  "code_le ''conflictId'' ''reassignments'' = True" "code_le ''conflictId'' ''retainedSubject'' = True"
  "code_le ''reassignments'' ''retainedSubject'' = True"
  by code_simp+

lemma canonicalJson_parts:
  "canonicalJson (JObj (json_subject u)) = subject_text u"
  "canonicalJson (JObj (json_subject u @ [(''newIdentifier'', JStr n)])) = item_text \<lparr>mr_subject = u, mr_newIdentifier = n\<rparr>"
  by (simp_all add: json_subject_def key_order item_text_def subject_text_def del: code_le.simps)

lemma canonicalJson_manifest:
  "canonicalJson (json_manifest m) = ''{'' @ json_text ''conflictId'' @ '':'' @ json_text (rm_conflictId m) @ '','' @
     json_text ''reassignments'' @ '':['' @ join '','' (map item_text (rm_reassignments m)) @ '']'' @
     (case rm_retainedSubject m of None \<Rightarrow> ''}''
      | Some s \<Rightarrow> '','' @ json_text ''retainedSubject'' @ '':'' @ subject_text s @ ''}'')"
proof -
  have again: "item_text \<lparr>mr_subject = mr_subject x, mr_newIdentifier = mr_newIdentifier x\<rparr> = item_text x" for x
    by (simp add: item_text_def)
  have items: "canonicalJson (JArr (map (\<lambda>item. JObj (json_subject (mr_subject item) @
      [(''newIdentifier'', JStr (mr_newIdentifier item))])) items)) = ''['' @ join '','' (map item_text items) @ '']''" for items
    by (simp add: comp_def canonicalJson_parts again del: canonicalJson.simps(6))
  show ?thesis
  proof (cases "rm_retainedSubject m")
    case None
    then show ?thesis
      by (simp del: code_le.simps canonicalJson.simps
          add: json_manifest_def canonicalJson.simps(3,6) items key_order)
  next
    case (Some s)
    have obj: "canonicalJson (JObj (json_subject s)) = subject_text s" by (rule canonicalJson_parts)
    show ?thesis
      unfolding json_manifest_def Some option.case canonicalJson.simps(6) [of "_ @ _"]
      by (simp del: code_le.simps canonicalJson.simps add: canonicalJson.simps(3) items key_order obj)
  qed
qed

lemma item_text_prefix:
  assumes "item_text a @ r = item_text b @ r'"
  shows "a = b \<and> r = r'"
proof -
  let ?rest = "\<lambda>x u. '','' @ json_text ''subjectId'' @ '':'' @ json_text (s_subjectId (mr_subject x)) @ '','' @
    json_text ''subjectType'' @ '':'' @ json_text (subject_name (s_subjectType (mr_subject x))) @ ''}'' @ u"
  from assms have "json_text (mr_newIdentifier a) @ ?rest a r = json_text (mr_newIdentifier b) @ ?rest b r'"
    by (simp only: item_text_def append_assoc same_append_eq)
  note one = json_text_prefix [OF this]
  then have "json_text (s_subjectId (mr_subject a)) @ '','' @ json_text ''subjectType'' @ '':'' @
      json_text (subject_name (s_subjectType (mr_subject a))) @ ''}'' @ r =
    json_text (s_subjectId (mr_subject b)) @ '','' @ json_text ''subjectType'' @ '':'' @
      json_text (subject_name (s_subjectType (mr_subject b))) @ ''}'' @ r'"
    by (simp only: append_assoc same_append_eq)
  note two = json_text_prefix [OF this]
  then have "json_text (subject_name (s_subjectType (mr_subject a))) @ ''}'' @ r =
      json_text (subject_name (s_subjectType (mr_subject b))) @ ''}'' @ r'"
    by (simp only: append_assoc same_append_eq)
  from json_text_prefix [OF this] one two show ?thesis
    by (auto intro!: manifest_reassignment.equality subject_reference.equality)
qed

lemma join_Cons: "join sep (x # xs) = x @ concat (map (\<lambda>y. sep @ y) xs)"
  by (induction xs arbitrary: x) simp_all

lemma more_items_prefix:
  "concat (map (\<lambda>y. '','' @ item_text y) xs) @ '']'' @ r = concat (map (\<lambda>y. '','' @ item_text y) ys) @ '']'' @ r' \<Longrightarrow>
     xs = ys \<and> r = r'"
proof (induction xs arbitrary: ys)
  case Nil
  then show ?case by (cases ys) auto
next
  case (Cons x xs)
  then show ?case
  proof (cases ys)
    case (Cons y zs)
    with Cons.prems have "item_text x @ concat (map (\<lambda>y. '','' @ item_text y) xs) @ '']'' @ r =
        item_text y @ concat (map (\<lambda>y. '','' @ item_text y) zs) @ '']'' @ r'" by simp
    from item_text_prefix [OF this] Cons.IH [of zs] Cons show ?thesis by simp
  qed auto
qed

lemma items_text_prefix:
  assumes "join '','' (map item_text xs) @ '']'' @ r = join '','' (map item_text ys) @ '']'' @ r'"
  shows "xs = ys \<and> r = r'"
proof (cases xs; cases ys)
  fix x xs' y ys' assume xs: "xs = x # xs'" and ys: "ys = y # ys'"
  with assms have "item_text x @ concat (map (\<lambda>y. '','' @ item_text y) xs') @ '']'' @ r =
      item_text y @ concat (map (\<lambda>y. '','' @ item_text y) ys') @ '']'' @ r'" by (simp add: join_Cons comp_def)
  from item_text_prefix [OF this] more_items_prefix [of xs' r ys' r'] xs ys show ?thesis by simp
qed (use assms in \<open>auto simp: join_Cons item_text_def\<close>)

lemma subject_text_prefix:
  assumes "subject_text a @ r = subject_text b @ r'"
  shows "a = b"
proof -
  from assms have "json_text (s_subjectId a) @ '','' @ json_text ''subjectType'' @ '':'' @
      json_text (subject_name (s_subjectType a)) @ ''}'' @ r =
    json_text (s_subjectId b) @ '','' @ json_text ''subjectType'' @ '':'' @
      json_text (subject_name (s_subjectType b)) @ ''}'' @ r'"
    by (simp only: subject_text_def append_assoc same_append_eq)
  note one = json_text_prefix [OF this]
  then have "json_text (subject_name (s_subjectType a)) @ ''}'' @ r = json_text (subject_name (s_subjectType b)) @ ''}'' @ r'"
    by (simp only: append_assoc same_append_eq)
  from json_text_prefix [OF this] one show ?thesis by (auto intro!: subject_reference.equality)
qed

lemma canonical_manifest_injective:
  assumes "canonicalJson (json_manifest m) = canonicalJson (json_manifest m')"
  shows "m = m'"
proof -
  from assms have "json_text (rm_conflictId m) @ '','' @ json_text ''reassignments'' @ '':['' @
      join '','' (map item_text (rm_reassignments m)) @ '']'' @
      (case rm_retainedSubject m of None \<Rightarrow> ''}'' | Some s \<Rightarrow> '','' @ json_text ''retainedSubject'' @ '':'' @ subject_text s @ ''}'') =
    json_text (rm_conflictId m') @ '','' @ json_text ''reassignments'' @ '':['' @
      join '','' (map item_text (rm_reassignments m')) @ '']'' @
      (case rm_retainedSubject m' of None \<Rightarrow> ''}'' | Some s \<Rightarrow> '','' @ json_text ''retainedSubject'' @ '':'' @ subject_text s @ ''}'')"
    unfolding canonicalJson_manifest by simp
  from json_text_prefix [OF this] have id: "rm_conflictId m = rm_conflictId m'"
    and rest: "join '','' (map item_text (rm_reassignments m)) @ '']'' @
      (case rm_retainedSubject m of None \<Rightarrow> ''}'' | Some s \<Rightarrow> '','' @ json_text ''retainedSubject'' @ '':'' @ subject_text s @ ''}'') =
      join '','' (map item_text (rm_reassignments m')) @ '']'' @
      (case rm_retainedSubject m' of None \<Rightarrow> ''}'' | Some s \<Rightarrow> '','' @ json_text ''retainedSubject'' @ '':'' @ subject_text s @ ''}'')"
    by simp_all
  from items_text_prefix [OF rest] id show ?thesis
    by (auto intro!: repair_manifest.equality split: option.splits dest: subject_text_prefix [of _ "[]" _ "[]", unfolded append_Nil2])
qed


definition mem_crypto :: repair_crypto where
  "mem_crypto = \<lparr>hkdfSha256 = (\<lambda>k info. map char_of k @ info), localeLe = code_le\<rparr>"

definition sample_manifest :: repair_manifest where
  "sample_manifest = \<lparr>rm_conflictId = sample_id CHR ''9'',
     rm_retainedSubject = Some \<lparr>s_subjectType = StaffSubject, s_subjectId = sample_id CHR ''f''\<rparr>,
     rm_reassignments = [\<lparr>mr_subject = \<lparr>s_subjectType = MemberSubject, s_subjectId = sample_id CHR ''b''\<rparr>,
       mr_newIdentifier = ''olivia.o''\<rparr>]\<rparr>"

definition written_manifest :: repair_manifest where
  "written_manifest = sample_manifest\<lparr>rm_conflictId := sample_id CHR ''9'' @ '' '',
     rm_reassignments := [\<lparr>mr_subject = \<lparr>s_subjectType = MemberSubject, s_subjectId = sample_id CHR ''b''\<rparr>,
       mr_newIdentifier = '' Olivia.O''\<rparr>]\<rparr>"


subsection \<open>Keys given as text\<close>

lemma from_to_sextets: "list_all (\<lambda>b. b < 256) bytes \<Longrightarrow> from_sextets (to_sextets bytes) = bytes"
  by (induction bytes rule: to_sextets.induct) auto

lemma to_sextets_bound: "list_all (\<lambda>b. b < 256) bytes \<Longrightarrow> list_all (\<lambda>v. v < 64) (to_sextets bytes)"
  by (induction bytes rule: to_sextets.induct) auto

lemma base64url_value_digit: "v < 64 \<Longrightarrow> base64url_value (base64url_digit v) = Some v"
  by (auto simp: base64url_value_def base64url_digit_def Let_def char_code_def)

text \<open>A key of bytes that is configured as its base64url text is read as these bytes.\<close>

theorem key_text_roundtrip:
  assumes "list_all (\<lambda>b. b < 256) bytes" and "bytes \<noteq> []"
  shows "decodeKeyMaterial (KeyText (to_base64url bytes)) = bytes"
proof -
  have "List.map_filter base64url_value (map base64url_digit vs) = vs" if "list_all (\<lambda>v. v < 64) vs" for vs
    using that by (induction vs) (simp_all add: List.map_filter_def base64url_value_digit)
  then have "from_base64url (to_base64url bytes) = bytes"
    using assms(1) by (simp add: from_base64url_def to_base64url_def to_sextets_bound from_to_sextets)
  with assms(2) show ?thesis by (simp add: decodeKeyMaterial_def)
qed

theorem key_text_roundtrip_witness:
  "decodeKeyMaterial (KeyText (to_base64url [251, 255, 0, 7])) = [251, 255, 0, 7]"
  by (rule key_text_roundtrip) simp_all

end
