(* ===== verification/Identifier_Reconciliation.thy ===== *)
theory Identifier_Reconciliation
  imports Identifier_Operations Repair_Manifest
begin

text \<open>
  \<^verbatim>\<open>src/auth/auth-identifier-reconciliation.service.ts\<close>: identifier operations that were interrupted are
  found, leased by one instance of the program, and taken a step further; operations that have ended
  get their cleanup.  The second part is the service's own life cycle, in which the schedule starts once
  the migrations are there and ends with the application.

  A record \<open>reconciler\<close> has what the service gets besides the application: its instance id, the models,
  the configured numbers (\<open>None\<close> where the default is used), the server's clock (\<^verbatim>\<open>$$NOW\<close>) and the times of
  the last change that mongoose keeps.
\<close>

record 'e reconciler =
  rs_instanceId :: string
  rs_identifiers :: "('e world, reservation) model"
  rs_events :: "('e world, security_event) model"
  rs_serverClock :: "'e world \<Rightarrow> date"
  rs_updatedAt :: "operation \<Rightarrow> date"
  rs_reservationUpdatedAt :: "reservation \<Rightarrow> date"
  rs_keys :: audit_keys
  rs_ringCurrentVersion :: "nat option"
  rs_currentVersion :: "nat option"
  rs_hmac :: "nat list \<Rightarrow> string \<Rightarrow> string"
  rs_leaseSeconds :: "int option"
  rs_batchSize :: "nat option"
  rs_retentionDays :: "int option"
  rs_maxAssignments :: "nat option"

record reconciliation_result =
  rn_examined :: nat
  rn_claimed :: nat
  rn_processed :: nat
  rn_skippedMissingKey :: nat

definition or_default :: "'a option \<Rightarrow> 'a \<Rightarrow> 'a" where
  "or_default v d = (case v of None \<Rightarrow> d | Some x \<Rightarrow> x)"

definition AuthIdentifierReconciliationService_leaseSeconds :: "'e reconciler \<Rightarrow> int" where
  "AuthIdentifierReconciliationService_leaseSeconds R = or_default (rs_leaseSeconds R) 300"

definition AuthIdentifierReconciliationService_batchSize :: "'e reconciler \<Rightarrow> nat" where
  "AuthIdentifierReconciliationService_batchSize R = or_default (rs_batchSize R) 100"

definition AuthIdentifierReconciliationService_retentionDays :: "'e reconciler \<Rightarrow> int" where
  "AuthIdentifierReconciliationService_retentionDays R = or_default (rs_retentionDays R) 90"

definition AuthIdentifierReconciliationService_maxAssignments :: "'e reconciler \<Rightarrow> nat" where
  "AuthIdentifierReconciliationService_maxAssignments R = or_default (rs_maxAssignments R) 20"

definition clock_skew_ms :: int where
  "clock_skew_ms = 5000"

text \<open>A loop whose rounds change local variables.\<close>

fun fold_io :: "('a \<Rightarrow> 's \<Rightarrow> ('w, 's) io) \<Rightarrow> 'a list \<Rightarrow> 's \<Rightarrow> ('w, 's) io" where
  "fold_io f [] s = ret s"
| "fold_io f (x # xs) s = await (f x s) (fold_io f xs)"

fun action_name :: "assignment_action \<Rightarrow> string" where
  "action_name RetainAction = ''retain''"
| "action_name ClaimAction = ''claim''"
| "action_name ReplaceAction = ''replace''"
| "action_name ReleaseAction = ''release''"

fun pending_action_name :: "pending_action \<Rightarrow> string" where
  "pending_action_name PendingClaim = ''claim''"
| "pending_action_name PendingReplace = ''replace''"
| "pending_action_name PendingRelease = ''release''"
| "pending_action_name PendingResolveConflict = ''resolve-conflict''"

subsection \<open>Leases\<close>

definition reconcilable :: "operation \<Rightarrow> bool" where
  "reconcilable d = (\<not> terminal_operation (o_status d) \<or> o_cleanupStatus d = CleanupPending)"

definition AuthIdentifierReconciliationService_candidateFilter :: "date \<Rightarrow> operation \<Rightarrow> bool" where
  "AuthIdentifierReconciliationService_candidateFilter clientCutoff d =
     (reconcilable d \<and> (case o_leaseExpiresAt d of None \<Rightarrow> True | Some t \<Rightarrow> t \<le> clientCutoff))"

definition AuthIdentifierReconciliationService_repairKeyAvailable :: "'e reconciler \<Rightarrow> operation \<Rightarrow> bool" where
  "AuthIdentifierReconciliationService_repairKeyAvailable R d =
     (o_operationType d \<noteq> OfflineRepairOperation \<or>
      kd_allowed (AuthIdentifierRepairKeyPolicyService_repairWorkerDecision (rs_keys R) (o_manifestKeyVersion d)) \<and>
      AuthIdentifierRepairKeyPolicyService_getKeyMaterial (rs_keys R) (o_manifestKeyVersion d) \<noteq> None)"

definition leased_by :: "'e reconciler \<Rightarrow> date \<Rightarrow> operation \<Rightarrow> operation" where
  "leased_by R now d = d\<lparr>o_leaseOwner := Some (rs_instanceId R),
     o_leaseExpiresAt := Some (now + AuthIdentifierReconciliationService_leaseSeconds R * 1000)\<rparr>"

definition AuthIdentifierReconciliationService_claim ::
  "'e app \<Rightarrow> 'e reconciler \<Rightarrow> string \<Rightarrow> ('e world, operation option) io" where
  "AuthIdentifierReconciliationService_claim A R i =
     await (asks (rs_serverClock R)) (\<lambda>now.
     findOneAndUpdate (operationModel A)
       (\<lambda>d. o_id d = i \<and> reconcilable d \<and>
          (case o_leaseExpiresAt d of None \<Rightarrow> True | Some t \<Rightarrow> t \<le> now - clock_skew_ms))
       (leased_by R now))"

definition AuthIdentifierReconciliationService_renewLease ::
  "'e app \<Rightarrow> 'e reconciler \<Rightarrow> string \<Rightarrow> ('e world, bool) io" where
  "AuthIdentifierReconciliationService_renewLease A R operationId =
     await (asks (rs_serverClock R)) (\<lambda>now.
     await (findOneAndUpdate (operationModel A)
       (\<lambda>d. o_operationId d = trim operationId \<and> o_leaseOwner d = Some (rs_instanceId R) \<and>
          (case o_leaseExpiresAt d of None \<Rightarrow> False | Some t \<Rightarrow> now < t))
       (\<lambda>d. d\<lparr>o_leaseExpiresAt := Some (now + AuthIdentifierReconciliationService_leaseSeconds R * 1000)\<rparr>)) (\<lambda>updated.
     ret (updated \<noteq> None)))"

definition AuthIdentifierReconciliationService_releaseLease ::
  "'e app \<Rightarrow> 'e reconciler \<Rightarrow> string \<Rightarrow> ('e world, unit) io" where
  "AuthIdentifierReconciliationService_releaseLease A R operationId =
     await (asks (rs_serverClock R)) (\<lambda>now.
     await (updateOne (operationModel A)
       (\<lambda>d. o_operationId d = trim operationId \<and> o_leaseOwner d = Some (rs_instanceId R))
       (\<lambda>d. d\<lparr>o_leaseExpiresAt := Some now\<rparr>)) (\<lambda>_. ret ()))"

text \<open>An update of an operation that this instance holds.\<close>

definition update_held :: "'e app \<Rightarrow> 'e reconciler \<Rightarrow> (operation \<Rightarrow> bool) \<Rightarrow> (operation \<Rightarrow> operation) \<Rightarrow> ('e world, unit) io" where
  "update_held A R p f =
     await (updateOne (operationModel A) (\<lambda>d. p d \<and> o_leaseOwner d = Some (rs_instanceId R)) f) (\<lambda>_. ret ())"

definition AuthIdentifierReconciliationService_transition ::
  "'e app \<Rightarrow> 'e reconciler \<Rightarrow> string \<Rightarrow> operation_status \<Rightarrow> operation_status \<Rightarrow> ('e world, unit) io" where
  "AuthIdentifierReconciliationService_transition A R operationId from_status to_status =
     (if from_status = to_status then ret ()
      else update_held A R (\<lambda>d. o_operationId d = trim operationId \<and> o_status d = from_status)
        (\<lambda>d. d\<lparr>o_status := to_status\<rparr>))"

subsection \<open>References to reservations\<close>

definition AuthIdentifierReconciliationService_decodeConfiguredSecret :: "string \<Rightarrow> nat list" where
  "AuthIdentifierReconciliationService_decodeConfiguredSecret v =
     (if to_base64url (from_base64url v) = v then from_base64url v else map char_code v)"

definition AuthIdentifierReconciliationService_correlationFor ::
  "'e reconciler \<Rightarrow> string \<Rightarrow> nat option \<Rightarrow> (string \<times> nat) option" where
  "AuthIdentifierReconciliationService_correlationFor R normalizedIdentifier requestedVersion =
     (case (case requestedVersion of Some v \<Rightarrow> Some v
        | None \<Rightarrow> (case rs_ringCurrentVersion R of Some v \<Rightarrow> Some v | None \<Rightarrow> rs_currentVersion R)) of
        None \<Rightarrow> None
      | Some version \<Rightarrow>
          if version = 0 then None
          else (case AuthIdentifierRepairKeyPolicyService_getKeyMaterial (rs_keys R) (Some version) of
            None \<Rightarrow> None
          | Some material \<Rightarrow>
              Some (rs_hmac R (case material of KeyBytes b \<Rightarrow> b
                | KeyText s \<Rightarrow> AuthIdentifierReconciliationService_decodeConfiguredSecret s)
                (''book-library/auth-identifier-reconciliation/v1'' @ [CHR 0x00] @ normalizedIdentifier), version)))"

definition AuthIdentifierReconciliationService_findReservation ::
  "'e reconciler \<Rightarrow> operation \<Rightarrow> assignment \<Rightarrow> ('e world, reservation option) io" where
  "AuthIdentifierReconciliationService_findReservation R d n =
     (case n_targetReservationId n of
        Some t \<Rightarrow> findOne (rs_identifiers R) (\<lambda>i. i_id i = t)
      | None \<Rightarrow> findOne (rs_identifiers R) (\<lambda>i. i_pendingOperationId i = Some (o_operationId d) \<and>
          i_subjectType i = Some (n_subjectType n) \<and> i_subjectId i = Some (trim (n_subjectId n)) \<and>
          map_option pending_action_name (i_pendingAction i) = Some (action_name (n_action n))))"

text \<open>
  The reference is stored where no assignment of the operation has one yet: a filter on a path into an
  array with \<^verbatim>\<open>$exists: false\<close> holds when no element has the field.
\<close>

definition without_references :: "operation \<Rightarrow> bool" where
  "without_references d = list_all (\<lambda>n. n_targetReservationId n = None) (o_assignments d)"

definition referring :: "reservation \<Rightarrow> (string \<times> nat) option \<Rightarrow> assignment \<Rightarrow> assignment \<Rightarrow> assignment" where
  "referring r correlation seen n =
     (let n = n\<lparr>n_targetReservationId := Some (i_id r)\<rparr> in
      if truthy (n_identifierCorrelationHash seen) then n
      else (case correlation of None \<Rightarrow> n
        | Some (hash, version) \<Rightarrow>
            n\<lparr>n_identifierCorrelationHash := Some hash, n_correlationKeyVersion := Some version\<rparr>))"

definition awaits_reservation :: "reservation \<Rightarrow> assignment \<Rightarrow> bool" where
  "awaits_reservation r n =
     (n_targetReservationId n = None \<and> Some (n_subjectType n) = i_subjectType r \<and> Some (n_subjectId n) = i_subjectId r \<and>
      Some (action_name (n_action n)) = map_option pending_action_name (i_pendingAction r))"

definition attach_reservation ::
  "'e app \<Rightarrow> 'e reconciler \<Rightarrow> reservation \<Rightarrow> operation \<Rightarrow> ('e world, operation) io" where
  "attach_reservation A R r d =
     (case find (awaits_reservation r) (o_assignments d) of
        None \<Rightarrow> ret d
      | Some n \<Rightarrow>
          let correlation = AuthIdentifierReconciliationService_correlationFor R (i_normalizedIdentifier r)
                (o_manifestKeyVersion d) in
          await (update_held A R (\<lambda>d'. has_assignment (o_operationId d) (n_assignmentId n) d' \<and> without_references d')
            (set_assignment (n_assignmentId n) (referring r correlation n))) (\<lambda>_.
          ret (d\<lparr>o_assignments := update_first (awaits_reservation r)
            (\<lambda>n. n\<lparr>n_targetReservationId := Some (i_id r)\<rparr>) (o_assignments d)\<rparr>)))"

definition AuthIdentifierReconciliationService_attachMissingReservationReferences ::
  "'e app \<Rightarrow> 'e reconciler \<Rightarrow> operation \<Rightarrow> ('e world, operation) io" where
  "AuthIdentifierReconciliationService_attachMissingReservationReferences A R d =
     await (findSorted (rs_identifiers R) (\<lambda>i. i_pendingOperationId i = Some (o_operationId d)) (\<lambda>_ _. True) 0
       (int (AuthIdentifierReconciliationService_maxAssignments R) + 1)) (\<lambda>reservations.
     if AuthIdentifierReconciliationService_maxAssignments R < length reservations
     then await (AuthIdentifierReconciliationService_transition A R (o_operationId d) (o_status d) OperationFailedRetryable)
       (\<lambda>_. ret d)
     else fold_io (attach_reservation A R) reservations d)"

subsection \<open>One step of an operation\<close>

definition mark_assignment ::
  "'e app \<Rightarrow> 'e reconciler \<Rightarrow> operation \<Rightarrow> assignment \<Rightarrow> (assignment \<Rightarrow> assignment) \<Rightarrow> ('e world, unit) io" where
  "mark_assignment A R d n f =
     update_held A R (has_assignment (o_operationId d) (n_assignmentId n)) (set_assignment (n_assignmentId n) f)"

text \<open>The flag is \<^verbatim>\<open>retryRequired\<close>.\<close>

definition recover_applied ::
  "'e app \<Rightarrow> 'e reconciler \<Rightarrow> operation \<Rightarrow> assignment \<Rightarrow> bool \<Rightarrow> ('e world, bool) io" where
  "recover_applied A R d n retryRequired =
     (if n_status n = AssignmentApplied then ret retryRequired
      else
      await (AuthIdentifierReconciliationService_findReservation R d n) (\<lambda>reservation.
      let expectedStatus = (if n_action n = ReleaseAction then IdentifierReleased else IdentifierActive) in
      case reservation of
        Some r \<Rightarrow>
          if i_status r = expectedStatus \<and> i_lastOperationId r = Some (o_operationId d)
          then await (mark_assignment A R d n
            (\<lambda>n. n\<lparr>n_status := AssignmentApplied, n_appliedAt := Some (rs_reservationUpdatedAt R r)\<rparr>)) (\<lambda>_. ret retryRequired)
          else ret True
      | None \<Rightarrow> ret True))"

definition AuthIdentifierReconciliationService_recoverApplying ::
  "'e app \<Rightarrow> 'e reconciler \<Rightarrow> operation \<Rightarrow> ('e world, unit) io" where
  "AuthIdentifierReconciliationService_recoverApplying A R d =
     await (fold_io (recover_applied A R d) (o_assignments d) False) (\<lambda>retryRequired.
     AuthIdentifierReconciliationService_transition A R (o_operationId d) OperationApplying
       (if retryRequired then OperationFailedRetryable else OperationFinalizing))"

definition put_back :: "operation \<Rightarrow> assignment \<Rightarrow> reservation \<Rightarrow> reservation" where
  "put_back d n i = i\<lparr>i_status := restoredStatus (n_action n), i_lastOperationId := Some (o_operationId d),
     i_pendingOperationId := None, i_pendingAction := None\<rparr>"

definition recover_compensated ::
  "'e app \<Rightarrow> 'e reconciler \<Rightarrow> operation \<Rightarrow> assignment \<Rightarrow> bool \<Rightarrow> ('e world, bool) io" where
  "recover_compensated A R d n retryRequired =
     (if n_status n = AssignmentCompensated then ret retryRequired
      else if n_status n = AssignmentApplied then ret True
      else
      await (AuthIdentifierReconciliationService_findReservation R d n) (\<lambda>reservation.
      case reservation of
        Some r \<Rightarrow>
          if i_pendingOperationId r \<noteq> Some (o_operationId d) then ret True
          else
          await (updateOne (rs_identifiers R)
            (\<lambda>i. i_id i = i_id r \<and> i_pendingOperationId i = Some (o_operationId d)) (put_back d n)) (\<lambda>_.
          await (mark_assignment A R d n (\<lambda>n. n\<lparr>n_status := AssignmentCompensated\<rparr>)) (\<lambda>_. ret retryRequired))
      | None \<Rightarrow> ret True))"

definition AuthIdentifierReconciliationService_recoverCompensating ::
  "'e app \<Rightarrow> 'e reconciler \<Rightarrow> operation \<Rightarrow> ('e world, unit) io" where
  "AuthIdentifierReconciliationService_recoverCompensating A R d =
     await (fold_io (recover_compensated A R d) (rev (o_assignments d)) False) (\<lambda>retryRequired.
     AuthIdentifierReconciliationService_transition A R (o_operationId d) OperationCompensating
       (if retryRequired then OperationFailedRetryable else OperationFinalizing))"

definition terminal_event ::
  "'e app \<Rightarrow> 'e reconciler \<Rightarrow> operation \<Rightarrow> terminal_status \<Rightarrow> string \<Rightarrow> ('e world, string) io" where
  "terminal_event A R d status reasonCategory =
     SecurityActivityService_recordIdentifierOperationTerminal A (rs_events R) (o_operationId d)
       (operation_type_name (o_operationType d)) status
       (Some \<lparr>ar_actorType = (if s_subjectType (o_requestedBy d) = MemberSubject then MemberActor else StaffActor),
          ar_actorId = Some (s_subjectId (o_requestedBy d))\<rparr>)
       (if status = TerminalFailed then OutcomeFailure else OutcomeSuccess) reasonCategory"

definition retention_ms :: "'e reconciler \<Rightarrow> int" where
  "retention_ms R = AuthIdentifierReconciliationService_retentionDays R * 86400000"

definition finalized :: "'e reconciler \<Rightarrow> operation \<Rightarrow> terminal_status \<Rightarrow> string \<Rightarrow> date \<Rightarrow> operation \<Rightarrow> operation" where
  "finalized R seen status eventId now d =
     d\<lparr>o_status := terminal_of status, o_terminalEventId := Some eventId, o_terminalEventRecordedAt := Some now,
       o_completedAt := Some now,
       o_expiresAt := (if o_cleanupStatus seen = CleanupPending then o_expiresAt d else Some (now + retention_ms R))\<rparr>"

definition AuthIdentifierReconciliationService_finalize ::
  "'e app \<Rightarrow> 'e reconciler \<Rightarrow> operation \<Rightarrow> ('e world, unit) io" where
  "AuthIdentifierReconciliationService_finalize A R d =
     (let failed = (map_option w_outcome (o_result d) = Some ResultFailure \<or>
            list_all (\<lambda>n. n_status n = AssignmentCompensated) (o_assignments d));
          terminalStatus = (if failed then TerminalFailed else TerminalCompleted);
          reasonCategory = (case Option.bind (o_result d) w_reasonCategory of Some c \<Rightarrow> c
            | None \<Rightarrow> if failed then ''identifier-operation-compensated'' else ''identifier-operation-recovered'') in
      await (terminal_event A R d terminalStatus reasonCategory) (\<lambda>eventId.
      await (asks (rs_serverClock R)) (\<lambda>now.
      await (findOneAndUpdate (operationModel A)
        (\<lambda>d'. o_operationId d' = trim (o_operationId d) \<and> o_status d' = OperationFinalizing \<and>
           o_leaseOwner d' = Some (rs_instanceId R))
        (finalized R d terminalStatus eventId now)) (\<lambda>_. ret ()))))"

definition AuthIdentifierReconciliationService_failInvalidOperation ::
  "'e app \<Rightarrow> 'e reconciler \<Rightarrow> operation \<Rightarrow> ('e world, unit) io" where
  "AuthIdentifierReconciliationService_failInvalidOperation A R d =
     await (terminal_event A R d TerminalFailed ''identifier-operation-invalid-state'') (\<lambda>eventId.
     await (asks (rs_serverClock R)) (\<lambda>now.
     await (findOneAndUpdate (operationModel A)
       (\<lambda>d'. o_operationId d' = trim (o_operationId d) \<and> o_status d' = o_status d \<and>
          o_leaseOwner d' = Some (rs_instanceId R))
       (\<lambda>d'. d'\<lparr>o_status := OperationFailedTerminal,
          o_result := Some \<lparr>w_outcome = ResultFailure, w_reasonCategory = Some ''identifier-operation-invalid-state'',
            w_httpStatus = 409\<rparr>,
          o_terminalEventId := Some eventId, o_terminalEventRecordedAt := Some now, o_completedAt := Some now,
          o_expiresAt := Some (now + retention_ms R)\<rparr>)) (\<lambda>_. ret ())))"

definition ungate :: "operation \<Rightarrow> reservation \<Rightarrow> reservation" where
  "ungate d i = i\<lparr>i_status := (if o_status d = OperationFailedTerminal then IdentifierReleased else i_status i),
     i_activationGateOperationId := None\<rparr>"

definition AuthIdentifierReconciliationService_cleanup ::
  "'e app \<Rightarrow> 'e reconciler \<Rightarrow> operation \<Rightarrow> ('e world, unit) io" where
  "AuthIdentifierReconciliationService_cleanup A R d =
     (let capacity = AuthIdentifierReconciliationService_maxAssignments R;
          gate = (\<lambda>i. i_activationGateOperationId i = Some (o_operationId d));
          lasting = (\<lambda>h. h_parentOperationId h = trim (o_operationId d) \<and> h_expiresAt h = None) in
      await (findSorted (rs_identifiers R) gate (\<lambda>_ _. True) 0 (int capacity)) (\<lambda>gated.
      await (whenM (gated \<noteq> []) (await (updateMany (rs_identifiers R)
        (\<lambda>i. i_id i \<in> set (map i_id gated)) (ungate d)) (\<lambda>_. ret ()))) (\<lambda>_.
      let remainingCapacity = capacity - length gated in
      await (whenM (0 < remainingCapacity)
        (await (findSorted (repairBatchModel A) lasting (\<lambda>_ _. True) 0 (int remainingCapacity)) (\<lambda>batches.
         whenM (batches \<noteq> [])
           (await (asks (rs_serverClock R)) (\<lambda>now.
            await (updateMany (repairBatchModel A) (\<lambda>h. h_id h \<in> set (map h_id batches))
              (\<lambda>h. h\<lparr>h_expiresAt := Some now\<rparr>)) (\<lambda>_. ret ())))))) (\<lambda>_.
      await (AuthIdentifierReconciliationService_renewLease A R (o_operationId d)) (\<lambda>_.
      await (exists_doc (rs_identifiers R) gate) (\<lambda>gateRemaining.
      await (exists_doc (repairBatchModel A) lasting) (\<lambda>batchRemaining.
      if gateRemaining \<or> batchRemaining then ret ()
      else
      await (asks (rs_serverClock R)) (\<lambda>now.
      await (findOneAndUpdate (operationModel A)
        (\<lambda>d'. o_operationId d' = trim (o_operationId d) \<and> terminal_operation (o_status d') \<and>
           o_cleanupStatus d' = CleanupPending \<and> o_terminalEventId d' \<noteq> None \<and>
           o_terminalEventRecordedAt d' \<noteq> None \<and> o_leaseOwner d' = Some (rs_instanceId R))
        (\<lambda>d'. d'\<lparr>o_cleanupStatus := CleanupCompleted, o_expiresAt := Some (now + retention_ms R)\<rparr>)) (\<lambda>_. ret ())))))))))"

definition AuthIdentifierReconciliationService_process ::
  "'e app \<Rightarrow> 'e reconciler \<Rightarrow> operation \<Rightarrow> ('e world, unit) io" where
  "AuthIdentifierReconciliationService_process A R operation =
     (if terminal_operation (o_status operation)
      then whenM (o_cleanupStatus operation = CleanupPending) (AuthIdentifierReconciliationService_cleanup A R operation)
      else
      await (AuthIdentifierReconciliationService_attachMissingReservationReferences A R operation) (\<lambda>d.
      case o_status d of
        OperationPending \<Rightarrow>
          AuthIdentifierReconciliationService_transition A R (o_operationId d) OperationPending OperationApplying
      | OperationFailedRetryable \<Rightarrow>
          AuthIdentifierReconciliationService_transition A R (o_operationId d) OperationFailedRetryable
            (if list_ex (\<lambda>n. n_status n = AssignmentCompensated) (o_assignments d) then OperationCompensating
             else OperationApplying)
      | OperationApplying \<Rightarrow> AuthIdentifierReconciliationService_recoverApplying A R d
      | OperationCompensating \<Rightarrow> AuthIdentifierReconciliationService_recoverCompensating A R d
      | OperationFinalizing \<Rightarrow> AuthIdentifierReconciliationService_finalize A R d
      | _ \<Rightarrow> AuthIdentifierReconciliationService_failInvalidOperation A R d))"

subsection \<open>A pass\<close>

text \<open>\<^verbatim>\<open>try { process } catch { log } finally { releaseLease }\<close>\<close>

definition work_on :: "'e app \<Rightarrow> 'e reconciler \<Rightarrow> operation \<Rightarrow> reconciliation_result \<Rightarrow> ('e world, reconciliation_result) io" where
  "work_on A R d result =
     await (try_catch
       (await (AuthIdentifierReconciliationService_process A R d) (\<lambda>_.
        ret (result\<lparr>rn_processed := rn_processed result + 1\<rparr>)))
       (\<lambda>_. ret result)) (\<lambda>result.
     await (AuthIdentifierReconciliationService_releaseLease A R (o_operationId d)) (\<lambda>_. ret result))"

fun pass_over :: "'e app \<Rightarrow> 'e reconciler \<Rightarrow> operation list \<Rightarrow> reconciliation_result \<Rightarrow> ('e world, reconciliation_result) io" where
  "pass_over A R [] result = ret result"
| "pass_over A R (candidate # rest) result =
     (if AuthIdentifierReconciliationService_batchSize R \<le> rn_claimed result then ret result
      else if \<not> AuthIdentifierReconciliationService_repairKeyAvailable R candidate
      then pass_over A R rest (result\<lparr>rn_skippedMissingKey := rn_skippedMissingKey result + 1\<rparr>)
      else
      await (AuthIdentifierReconciliationService_claim A R (o_id candidate)) (\<lambda>claimed.
      case claimed of
        None \<Rightarrow> pass_over A R rest result
      | Some operation \<Rightarrow>
          await (work_on A R operation (result\<lparr>rn_claimed := rn_claimed result + 1\<rparr>)) (pass_over A R rest)))"

definition AuthIdentifierReconciliationService_runBoundedPass ::
  "'e app \<Rightarrow> 'e reconciler \<Rightarrow> ('e world, reconciliation_result) io" where
  "AuthIdentifierReconciliationService_runBoundedPass A R =
     await (asks (clock A)) (\<lambda>now.
     await (findSorted (operationModel A)
       (AuthIdentifierReconciliationService_candidateFilter (now - clock_skew_ms))
       (\<lambda>a b. rs_updatedAt R a < rs_updatedAt R b \<or> rs_updatedAt R a = rs_updatedAt R b \<and> text_le (o_id a) (o_id b)) 0
       (int (AuthIdentifierReconciliationService_batchSize R * 2))) (\<lambda>candidates.
     pass_over A R candidates
       \<lparr>rn_examined = length candidates, rn_claimed = 0, rn_processed = 0, rn_skippedMissingKey = 0\<rparr>))"


subsection \<open>What a pass may change\<close>

text \<open>What an operation is about stays, and what has ended stays as it ended.\<close>

definition held_step :: "operation \<Rightarrow> operation \<Rightarrow> bool" where
  "held_step d d' \<longleftrightarrow> o_id d' = o_id d \<and> o_operationId d' = o_operationId d \<and>
     o_operationType d' = o_operationType d \<and> o_requestedBy d' = o_requestedBy d \<and>
     map manifest (o_assignments d') = map manifest (o_assignments d) \<and>
     (terminal_operation (o_status d) \<longrightarrow> o_status d' = o_status d \<and> o_result d' = o_result d \<and>
        o_completedAt d' = o_completedAt d \<and> o_terminalEventId d' = o_terminalEventId d)"

lemma held_step_refl [simp]: "held_step d d"
  by (simp add: held_step_def)

lemma held_step_trans: "held_step d e \<Longrightarrow> held_step e f \<Longrightarrow> held_step d f"
  by (simp add: held_step_def)

definition claimable :: "date \<Rightarrow> operation \<Rightarrow> bool" where
  "claimable now d = (case o_leaseExpiresAt d of None \<Rightarrow> True | Some t \<Rightarrow> t \<le> now - clock_skew_ms)"

definition within_reach :: "'e reconciler \<Rightarrow> operation \<Rightarrow> bool" where
  "within_reach R d \<longleftrightarrow> o_leaseOwner d = Some (rs_instanceId R) \<or> (\<exists>w. claimable (rs_serverClock R w) d)"

definition kept_by_pass :: "'e reconciler \<Rightarrow> ('e world \<Rightarrow> bool) \<Rightarrow> bool" where
  "kept_by_pass R P \<longleftrightarrow>
     (\<forall>w z. P w \<longrightarrow> P (w\<lparr>env := z\<rparr>)) \<and> (\<forall>w es. P w \<longrightarrow> P (w\<lparr>events := es\<rparr>)) \<and>
     (\<forall>w is. P w \<longrightarrow> P (w\<lparr>identifiers := is\<rparr>)) \<and> (\<forall>w hs. P w \<longrightarrow> P (w\<lparr>repairBatches := hs\<rparr>)) \<and>
     (\<forall>w p f ds d. P w \<longrightarrow> one_updated operation_clash p f (operations w) ds d \<longrightarrow> held_step d (f d) \<longrightarrow>
        within_reach R d \<longrightarrow> P (w\<lparr>operations := ds\<rparr>))"

lemma keeps_fold_io: "(\<And>x s. keeps I (f x s)) \<Longrightarrow> keeps I (fold_io f xs s)"
  by (induction xs arbitrary: s) (auto intro: keeps_rules)

locale reconciler_store =
  op: collection "operationModel A" operations operations_update operation_clash operation_valid o_id +
  ids: collection "rs_identifiers R" identifiers identifiers_update reservation_clash reservation_valid i_id +
  bt: collection "repairBatchModel A" repairBatches repairBatches_update batch_clash batch_valid h_id +
  trail: event_store "rs_events R"
  for A :: "'e app" and R :: "'e reconciler"
begin

lemma keeps_reads:
  assumes "kept_by_pass R P"
  shows "keeps P (findOne (rs_identifiers R) q)" and "keeps P (findSorted (rs_identifiers R) q le a b)"
    and "keeps P (findSorted (repairBatchModel A) q' le' a b)" and "keeps P (exists_doc (rs_identifiers R) q)"
    and "keeps P (exists_doc (repairBatchModel A) q')" and "keeps P (findSorted (operationModel A) q'' le'' a b)"
proof -
  have env: "P (w\<lparr>env := z\<rparr>)" if "P w" for w z using assms that unfolding kept_by_pass_def by blast
  show "keeps P (findOne (rs_identifiers R) q)" by (rule ids.keeps_findOne, erule env)
  show "keeps P (findSorted (rs_identifiers R) q le a b)" by (rule ids.keeps_findSorted, erule env)
  show "keeps P (findSorted (repairBatchModel A) q' le' a b)" by (rule bt.keeps_findSorted, erule env)
  show "keeps P (exists_doc (rs_identifiers R) q)" by (rule ids.keeps_exists_doc, erule env)
  show "keeps P (exists_doc (repairBatchModel A) q')" by (rule bt.keeps_exists_doc, erule env)
  show "keeps P (findSorted (operationModel A) q'' le'' a b)" by (rule op.keeps_findSorted, erule env)
qed

lemma keeps_writes:
  assumes "kept_by_pass R P"
  shows "keeps P (updateOne (rs_identifiers R) q f)" and "keeps P (updateMany (rs_identifiers R) q f)"
    and "keeps P (updateMany (repairBatchModel A) q' f')"
proof -
  have env: "P (w\<lparr>env := z\<rparr>)" if "P w" for w z using assms that unfolding kept_by_pass_def by blast
  have "is": "P (w\<lparr>identifiers := is\<rparr>)" if "P w" for w "is" using assms that unfolding kept_by_pass_def by blast
  have hs: "P (w\<lparr>repairBatches := hs\<rparr>)" if "P w" for w hs using assms that unfolding kept_by_pass_def by blast
  show "keeps P (updateOne (rs_identifiers R) q f)" by (rule ids.keeps_updateOne, erule env, erule "is")
  show "keeps P (updateMany (rs_identifiers R) q f)" by (rule ids.keeps_updateMany, erule env, erule "is")
  show "keeps P (updateMany (repairBatchModel A) q' f')" by (rule bt.keeps_updateMany, erule env, erule hs)
qed

lemma keeps_operation:
  assumes "kept_by_pass R P" and "\<And>d. p d \<Longrightarrow> held_step d (f d) \<and> within_reach R d"
  shows "keeps P (findOneAndUpdate (operationModel A) p f)" and "keeps P (updateOne (operationModel A) p f)"
proof -
  have env: "P (w\<lparr>env := z\<rparr>)" if "P w" for w z using assms(1) that unfolding kept_by_pass_def by blast
  have step: "P (w\<lparr>operations := ds\<rparr>)" if "P w" "one_updated operation_clash p f (operations w) ds d" for w ds d
  proof -
    have "p d" using that(2) by (auto simp: one_updated_def)
    then have "held_step d (f d)" "within_reach R d" using assms(2) by simp_all
    from assms(1) [unfolded kept_by_pass_def, THEN conjunct2, THEN conjunct2, THEN conjunct2, THEN conjunct2,
        rule_format, OF that this] show ?thesis .
  qed
  show "keeps P (findOneAndUpdate (operationModel A) p f)"
    by (rule op.keeps_findOneAndUpdate, erule env, rule step)
  show "keeps P (updateOne (operationModel A) p f)"
    by (rule op.keeps_updateOne, erule env, rule step)
qed

lemma keeps_held:
  assumes "kept_by_pass R P" and "\<And>d. p d \<Longrightarrow> held_step d (f d)"
  shows "keeps P (update_held A R p f)"
  unfolding update_held_def
  by (intro keeps_rules keeps_operation(2) [OF assms(1)]) (use assms(2) in \<open>simp add: within_reach_def\<close>)

lemma held_assignment: "(\<And>n. manifest (f n) = manifest n) \<Longrightarrow> held_step d (set_assignment i f d)"
  by (simp add: held_step_def set_assignment_def manifest_update_first)

lemma keeps_mark:
  assumes "kept_by_pass R P" and "\<And>n. manifest (f n) = manifest n"
  shows "keeps P (mark_assignment A R d n f)"
  unfolding mark_assignment_def by (intro keeps_held [OF assms(1)] held_assignment assms(2))

lemma keeps_transition:
  assumes "kept_by_pass R P" and "\<not> terminal_operation s"
  shows "keeps P (AuthIdentifierReconciliationService_transition A R n s t)"
  unfolding AuthIdentifierReconciliationService_transition_def
  by (intro keeps_rules keeps_held [OF assms(1)]) (use assms(2) in \<open>auto simp: held_step_def\<close>)

lemma keeps_lease:
  assumes "kept_by_pass R P"
  shows "keeps P (AuthIdentifierReconciliationService_claim A R i)"
    and "keeps P (AuthIdentifierReconciliationService_renewLease A R n)"
    and "keeps P (AuthIdentifierReconciliationService_releaseLease A R n)"
proof -
  have claim: "keeps P (findOneAndUpdate (operationModel A) (\<lambda>d. o_id d = i \<and> reconcilable d \<and>
      (case o_leaseExpiresAt d of None \<Rightarrow> True | Some t \<Rightarrow> t \<le> rs_serverClock R w - clock_skew_ms)) (leased_by R now))" for w now
    by (intro keeps_operation(1) [OF assms]) (auto simp: held_step_def leased_by_def within_reach_def claimable_def)
  show "keeps P (AuthIdentifierReconciliationService_claim A R i)"
  proof (rule keepsI)
    fix w assume "P w"
    then show "wp (AuthIdentifierReconciliationService_claim A R i) (\<lambda>_. P) (\<lambda>_. P) w"
      unfolding AuthIdentifierReconciliationService_claim_def wp_await wp_asks by (rule keepsD [OF claim])
  qed
  show "keeps P (AuthIdentifierReconciliationService_renewLease A R n)"
    unfolding AuthIdentifierReconciliationService_renewLease_def
    by (intro keeps_rules keeps_operation(1) [OF assms]) (simp add: held_step_def within_reach_def)
  show "keeps P (AuthIdentifierReconciliationService_releaseLease A R n)"
    unfolding AuthIdentifierReconciliationService_releaseLease_def
    by (intro keeps_rules keeps_operation(2) [OF assms]) (simp add: held_step_def within_reach_def)
qed

lemma keeps_event:
  assumes "kept_by_pass R P"
  shows "keeps P (terminal_event A R d status c)"
  unfolding terminal_event_def SecurityActivityService_recordIdentifierOperationTerminal_def Let_def
  by (intro keeps_rules trail.keeps_recordIdempotent) (use assms in \<open>auto simp: kept_by_pass_def\<close>)

lemma keeps_attach:
  assumes "kept_by_pass R P" and "\<not> terminal_operation (o_status d)"
  shows "keeps P (AuthIdentifierReconciliationService_attachMissingReservationReferences A R d)"
  unfolding AuthIdentifierReconciliationService_attachMissingReservationReferences_def attach_reservation_def Let_def
  by (intro keeps_rules keeps_fold_io keeps_reads [OF assms(1)] keeps_transition [OF assms] keeps_held [OF assms(1)]
      held_assignment) (auto simp: referring_def manifest_def Let_def split: option.split)

text \<open>The reservations are attached to an operation in memory whose status does not change.\<close>

lemma attach_status:
  "wp (AuthIdentifierReconciliationService_attachMissingReservationReferences A R d) (\<lambda>d' _. o_status d' = o_status d)
    (\<lambda>_ _. True) w"
proof -
  have any: "wp m Q (\<lambda>_ _. True) w'" if "\<And>a w'. Q a w'" for m :: "('e world, 'b) io" and Q w'
    by (rule wp_mono [OF wp_True]) (use that in auto)
  have one: "wp (attach_reservation A R r d') (\<lambda>e _. o_status e = o_status d') (\<lambda>_ _. True) w'" for r d' w'
    unfolding attach_reservation_def Let_def by (auto split: option.split intro: any)
  have all: "wp (fold_io (attach_reservation A R) rs d') (\<lambda>e _. o_status e = o_status d') (\<lambda>_ _. True) w'" for rs and d' :: operation and w'
  proof (induction rs arbitrary: d' w')
    case (Cons r rs)
    show ?case
      unfolding fold_io.simps wp_await
    proof (rule wp_mono [OF one])
      fix e :: operation and w'' assume "o_status e = o_status d'"
      with Cons.IH [of e w''] show "wp (fold_io (attach_reservation A R) rs e) (\<lambda>e _. o_status e = o_status d') (\<lambda>_ _. True) w''"
        by simp
    qed simp
  qed simp
  show ?thesis
    unfolding AuthIdentifierReconciliationService_attachMissingReservationReferences_def wp_await
    by (rule any) (auto simp: all intro: any)
qed

lemma keeps_recover:
  assumes "kept_by_pass R P"
  shows "keeps P (AuthIdentifierReconciliationService_recoverApplying A R d)"
    and "keeps P (AuthIdentifierReconciliationService_recoverCompensating A R d)"
proof -
  have found: "keeps P (AuthIdentifierReconciliationService_findReservation R d n)" for n
    unfolding AuthIdentifierReconciliationService_findReservation_def by (intro keeps_rules keeps_reads [OF assms])
  show "keeps P (AuthIdentifierReconciliationService_recoverApplying A R d)"
    unfolding AuthIdentifierReconciliationService_recoverApplying_def recover_applied_def Let_def
    by (intro keeps_rules keeps_fold_io found keeps_mark [OF assms] keeps_transition [OF assms]) (simp_all add: manifest_def)
  show "keeps P (AuthIdentifierReconciliationService_recoverCompensating A R d)"
    unfolding AuthIdentifierReconciliationService_recoverCompensating_def recover_compensated_def
    by (intro keeps_rules keeps_fold_io found keeps_writes [OF assms] keeps_mark [OF assms] keeps_transition [OF assms])
      (simp_all add: manifest_def)
qed

lemma keeps_finish:
  assumes "kept_by_pass R P"
  shows "keeps P (AuthIdentifierReconciliationService_finalize A R d)"
    and "keeps P (AuthIdentifierReconciliationService_cleanup A R d)"
    and "\<not> terminal_operation (o_status d) \<Longrightarrow> keeps P (AuthIdentifierReconciliationService_failInvalidOperation A R d)"
proof -
  show "keeps P (AuthIdentifierReconciliationService_finalize A R d)"
    unfolding AuthIdentifierReconciliationService_finalize_def Let_def
    by (intro keeps_rules keeps_event [OF assms] keeps_operation(1) [OF assms])
      (auto simp: held_step_def finalized_def within_reach_def)
  show "keeps P (AuthIdentifierReconciliationService_cleanup A R d)"
    unfolding AuthIdentifierReconciliationService_cleanup_def Let_def
    by (intro keeps_rules keeps_reads [OF assms] keeps_writes [OF assms] keeps_lease [OF assms] keeps_operation(1) [OF assms])
      (auto simp: held_step_def within_reach_def)
  show "keeps P (AuthIdentifierReconciliationService_failInvalidOperation A R d)" if "\<not> terminal_operation (o_status d)"
    unfolding AuthIdentifierReconciliationService_failInvalidOperation_def
    by (intro keeps_rules keeps_event [OF assms] keeps_operation(1) [OF assms])
      (use that in \<open>auto simp: held_step_def within_reach_def\<close>)
qed

lemma keeps_process:
  assumes "kept_by_pass R P"
  shows "keeps P (AuthIdentifierReconciliationService_process A R d)"
proof (cases "terminal_operation (o_status d)")
  case True
  then show ?thesis
    unfolding AuthIdentifierReconciliationService_process_def by (auto intro!: keeps_whenM keeps_finish [OF assms])
next
  case False
  show ?thesis
  proof (rule keepsI)
    fix w assume w: "P w"
    have rest: "keeps P (case o_status e of
        OperationPending \<Rightarrow>
          AuthIdentifierReconciliationService_transition A R (o_operationId e) OperationPending OperationApplying
      | OperationFailedRetryable \<Rightarrow>
          AuthIdentifierReconciliationService_transition A R (o_operationId e) OperationFailedRetryable
            (if list_ex (\<lambda>n. n_status n = AssignmentCompensated) (o_assignments e) then OperationCompensating
             else OperationApplying)
      | OperationApplying \<Rightarrow> AuthIdentifierReconciliationService_recoverApplying A R e
      | OperationCompensating \<Rightarrow> AuthIdentifierReconciliationService_recoverCompensating A R e
      | OperationFinalizing \<Rightarrow> AuthIdentifierReconciliationService_finalize A R e
      | _ \<Rightarrow> AuthIdentifierReconciliationService_failInvalidOperation A R e)" if "o_status e = o_status d" for e
      using False that
      by (cases "o_status e") (auto intro!: keeps_transition [OF assms] keeps_recover [OF assms] keeps_finish [OF assms])
    have "wp (AuthIdentifierReconciliationService_attachMissingReservationReferences A R d)
        (\<lambda>e w. o_status e = o_status d \<and> P w) (\<lambda>_. P) w"
      by (rule wp_mono [OF wp_conj [OF attach_status keepsD [OF keeps_attach [OF assms False] w]]]) auto
    then show "wp (AuthIdentifierReconciliationService_process A R d) (\<lambda>_. P) (\<lambda>_. P) w"
      unfolding AuthIdentifierReconciliationService_process_def wp_if if_not_P [OF False] wp_await
      by (rule wp_mono) (use keepsD [OF rest] in auto)
  qed
qed

lemma keeps_pass:
  assumes "kept_by_pass R P"
  shows "keeps P (AuthIdentifierReconciliationService_runBoundedPass A R)"
proof -
  have one: "keeps P (work_on A R d result)" for d result
    unfolding work_on_def by (intro keeps_rules keeps_process [OF assms] keeps_lease [OF assms])
  have "keeps P (pass_over A R ds result)" for ds result
    by (induction ds arbitrary: result) (auto intro!: keeps_rules keeps_lease [OF assms] one split: option.split)
  then show ?thesis
    unfolding AuthIdentifierReconciliationService_runBoundedPass_def
    by (intro keeps_rules keeps_reads [OF assms])
qed

end


subsection \<open>An instance\<close>

definition mem_reconciler :: "mem_env reconciler" where
  "mem_reconciler = \<lparr>rs_instanceId = ''worker-1'', rs_identifiers = the (identifierModel mem_app),
     rs_events = the (eventModel mem_app), rs_serverClock = (\<lambda>w. me_now (env w)), rs_updatedAt = (\<lambda>_. 0),
     rs_reservationUpdatedAt = (\<lambda>_. 0), rs_keys = sample_keys, rs_ringCurrentVersion = None,
     rs_currentVersion = None, rs_hmac = (\<lambda>k s. s), rs_leaseSeconds = None, rs_batchSize = None,
     rs_retentionDays = None, rs_maxAssignments = None\<rparr>"

interpretation mem_reconciler_store: reconciler_store mem_app "mem_reconciler\<lparr>rs_serverClock := c\<rparr>" for c
  using mem_operations.collection_axioms mem_identifiers.collection_axioms mem_repair_batches.collection_axioms
    mem_event_store.event_store_axioms
  by (simp add: reconciler_store_def mem_reconciler_def)

text \<open>An operation whose work is done, held by another instance of the program.\<close>

definition held_operation :: operation where
  "held_operation = (new_operation sample_claim ''o-1'')\<lparr>o_status := OperationApplying,
     o_leaseOwner := Some ''worker-2'', o_leaseExpiresAt := Some 300000\<rparr>"

definition done_operation :: operation where
  "done_operation = held_operation\<lparr>o_leaseOwner := None, o_leaseExpiresAt := None,
     o_assignments := map (\<lambda>n. n\<lparr>n_status := AssignmentApplied\<rparr>) (o_assignments held_operation)\<rparr>"

subsection \<open>Properties\<close>

text \<open>C10: an operation is worked on by one instance at a time: as long as the lease of another instance
  has not expired for more than five seconds by the server's clock, a pass leaves the operation's
  document exactly as it is.\<close>

theorem leased_operation_is_left_alone:
  assumes "reconciler_store A R" and "d \<in> set (operations w)"
    and "o_leaseOwner d = Some other" and "other \<noteq> rs_instanceId R" and "o_leaseExpiresAt d = Some t"
    and "\<And>w. rs_serverClock R w < t + clock_skew_ms"
  shows "d \<in> set (operations (snd (AuthIdentifierReconciliationService_runBoundedPass A R w)))"
proof -
  have "\<not> within_reach R d"
    using assms(3-6) by (auto simp: within_reach_def claimable_def algebra_simps not_le)
  then have "kept_by_pass R (\<lambda>w. d \<in> set (operations w))"
    unfolding kept_by_pass_def by (auto simp: one_updated_def)
  from keeps_snd [OF reconciler_store.keeps_pass [OF assms(1) this] assms(2)] show ?thesis .
qed

theorem leased_operation_is_left_alone_witness:
  "held_operation \<in> set (operations (snd (AuthIdentifierReconciliationService_runBoundedPass mem_app
     (mem_reconciler\<lparr>rs_serverClock := \<lambda>_. 300000\<rparr>) (sample_world\<lparr>operations := [held_operation]\<rparr>))))"
  by (rule leased_operation_is_left_alone [OF mem_reconciler_store.reconciler_store_axioms,
        where other = "''worker-2''" and t = 300000])
    (simp_all add: held_operation_def mem_reconciler_def clock_skew_ms_def)

text \<open>C20: reconciliation rewrites nothing that is settled: in a pass every operation keeps its id, type,
  requester and assignments, and one that has ended keeps its status, result, time of completion and
  terminal event.\<close>

theorem reconciliation_keeps_endings:
  assumes "reconciler_store A R"
  shows "list_all2 held_step (operations w)
    (operations (snd (AuthIdentifierReconciliationService_runBoundedPass A R w)))"
proof -
  have "kept_by_pass R (\<lambda>v. list_all2 held_step (operations w) (operations v))"
    unfolding kept_by_pass_def
  proof (intro conjI allI impI, goal_cases)
    case (5 v p f ds d)
    then have "list_all2 held_step (operations v) ds" by (intro list_all2_one_updated) simp_all
    with 5(1) show ?case
      using list_all2_trans [of held_step held_step held_step, OF held_step_trans] by simp
  qed simp_all
  from keeps_snd [OF reconciler_store.keeps_pass [OF assms this], of w] show ?thesis
    by (simp add: list_all2_refl)
qed

theorem reconciliation_keeps_endings_witness:
  "list_all2 held_step [done_operation] (operations (snd (AuthIdentifierReconciliationService_runBoundedPass mem_app
     (mem_reconciler\<lparr>rs_serverClock := \<lambda>w. me_now (env w)\<rparr>) (sample_world\<lparr>operations := [done_operation]\<rparr>))))"
  using reconciliation_keeps_endings [OF mem_reconciler_store.reconciler_store_axioms [of "\<lambda>w. me_now (env w)"],
    of "sample_world\<lparr>operations := [done_operation]\<rparr>"] by simp

subsection \<open>What reconciliation does not do\<close>

text \<open>The passes of the schedule, one minute apart.\<close>

definition minute_later :: "mem_env world \<Rightarrow> mem_env world" where
  "minute_later w = w\<lparr>env := (env w)\<lparr>me_now := me_now (env w) + 60000\<rparr>\<rparr>"

definition passed :: "mem_env world \<Rightarrow> mem_env world" where
  "passed w = minute_later (snd (AuthIdentifierReconciliationService_runBoundedPass mem_app mem_reconciler w))"

text \<open>
  An operation that is finished by reconciliation has no result, so the request that started it is
  answered with a conflict instead of the result.
\<close>

lemma recovered_operation_has_no_answer:
  "case passed (passed (sample_world\<lparr>operations := [done_operation]\<rparr>)) of w \<Rightarrow>
     map (\<lambda>d. (o_status d, o_result d)) (operations w) = [(OperationCompleted, None)] \<and>
     fst (AuthIdentifierService_execute mem_app (mem_service AutoStrategy) sample_claim login_aggregate w) =
       Inl (Conflict ''Identifier operation is not terminal'')"
  by code_simp

text \<open>
  An offline repair that waits for its application after the dry run has no assignments; reconciliation
  takes it through its life cycle and ends it as failed.
\<close>

definition waiting_repair :: operation where
  "waiting_repair = done_operation\<lparr>o_operationType := OfflineRepairOperation, o_status := OperationPending,
     o_assignments := [], o_manifestHash := Some ''h'', o_manifestKeyVersion := Some 3\<rparr>"

lemma waiting_repair_is_failed:
  "map o_status (operations (passed (passed (passed (sample_world\<lparr>operations := [waiting_repair]\<rparr>))))) =
     [OperationFailedTerminal]"
  by code_simp

text \<open>Of two missing references only the first is stored.\<close>

definition second_assignment :: assignment_input where
  "second_assignment = (hd (in_assignments sample_claim))\<lparr>as_assignmentId := ''a-2'', as_subjectId := sample_id CHR ''f'',
     as_subjectType := StaffSubject, as_normalizedIdentifier := Some ''ada.two''\<rparr>"

definition unreferenced_world :: "mem_env world" where
  "unreferenced_world = sample_world\<lparr>
     operations := [new_operation (sample_claim\<lparr>in_assignments := in_assignments sample_claim @ [second_assignment]\<rparr>) ''o-1''],
     identifiers := [inserted_reservation ''olivia.o'' (hd (in_assignments sample_claim)) ''x'' LoginIdentifier ''op-1'' ''r-1'',
       inserted_reservation ''ada.two'' second_assignment ''x'' EmailIdentifier ''op-1'' ''r-2'']\<rparr>"

lemma second_reference_is_lost:
  "map (map n_targetReservationId \<circ> o_assignments) (operations (passed unreferenced_world)) = [[Some ''r-1'', None]]"
  by code_simp

end
