(* ===== verification/Reconciliation_Schedule.thy ===== *)
theory Reconciliation_Schedule
  imports Main
begin

text \<open>
  The life cycle of \<^verbatim>\<open>src/auth/auth-identifier-reconciliation.service.ts\<close>: the passes are scheduled once
  the migrations are ready, which is asked at the application's bootstrap and then by a probe until it
  is so; the application's shutdown ends both.  The fields of the service are the state, and a step is
  what runs between two points at which the methods await something.
\<close>

text \<open>\<^verbatim>\<open>readinessStart\<close>: waiting for the migrations' record, or for the first pass, with the generation it began in.\<close>

datatype start_phase = CheckingMigrations nat | FirstPass nat

record schedule_state =
  sc_stopped :: bool
  sc_scheduled :: bool
  sc_interval :: bool
  sc_probe :: bool
  sc_generation :: nat
  sc_starting :: "start_phase option"
  sc_bootstrapping :: bool
  sc_probing :: bool

definition schedule_start :: schedule_state where
  "schedule_start = \<lparr>sc_stopped = False, sc_scheduled = False, sc_interval = False, sc_probe = False,
     sc_generation = 0, sc_starting = None, sc_bootstrapping = False, sc_probing = False\<rparr>"

definition AuthIdentifierReconciliationService_registerReadinessProbe :: "schedule_state \<Rightarrow> schedule_state" where
  "AuthIdentifierReconciliationService_registerReadinessProbe s =
     (if sc_stopped s \<or> sc_probe s \<or> sc_scheduled s then s else s\<lparr>sc_probe := True\<rparr>)"

text \<open>The registry is optional.\<close>

definition AuthIdentifierReconciliationService_registerSchedule :: "bool \<Rightarrow> schedule_state \<Rightarrow> schedule_state" where
  "AuthIdentifierReconciliationService_registerSchedule registry s =
     (if \<not> registry \<or> sc_scheduled s then s else s\<lparr>sc_interval := True, sc_scheduled := True\<rparr>)"

text \<open>What waits for the start goes on: the bootstrap sets up the probe, a probe that succeeded ends.\<close>

definition started :: "bool \<Rightarrow> schedule_state \<Rightarrow> schedule_state" where
  "started success s =
     (let s = s\<lparr>sc_starting := None\<rparr>;
          s = (if sc_bootstrapping s \<and> \<not> success
            then AuthIdentifierReconciliationService_registerReadinessProbe s else s);
          s = (if sc_probing s \<and> success then s\<lparr>sc_probe := False\<rparr> else s)
      in s\<lparr>sc_bootstrapping := False, sc_probing := False\<rparr>)"

definition AuthIdentifierReconciliationService_startWhenMigrationsReady :: "schedule_state \<Rightarrow> schedule_state" where
  "AuthIdentifierReconciliationService_startWhenMigrationsReady s =
     (if sc_starting s \<noteq> None then s
      else if sc_stopped s \<or> sc_scheduled s then started (sc_scheduled s) s
      else s\<lparr>sc_starting := Some (CheckingMigrations (sc_generation s))\<rparr>)"

definition AuthIdentifierReconciliationService_onApplicationBootstrap :: "schedule_state \<Rightarrow> schedule_state" where
  "AuthIdentifierReconciliationService_onApplicationBootstrap s =
     (let s = (if sc_stopped s then s\<lparr>sc_stopped := False, sc_generation := sc_generation s + 1\<rparr> else s) in
      AuthIdentifierReconciliationService_startWhenMigrationsReady (s\<lparr>sc_bootstrapping := True\<rparr>))"

definition AuthIdentifierReconciliationService_runReadinessProbe :: "schedule_state \<Rightarrow> schedule_state" where
  "AuthIdentifierReconciliationService_runReadinessProbe s =
     AuthIdentifierReconciliationService_startWhenMigrationsReady (s\<lparr>sc_probing := True\<rparr>)"

text \<open>\<^verbatim>\<open>startWhenMigrationsReadyOnce\<close> after its first await: \<open>None\<close> is a query that failed.\<close>

definition AuthIdentifierReconciliationService_startWhenMigrationsReadyOnce ::
  "bool \<Rightarrow> nat \<Rightarrow> bool option \<Rightarrow> schedule_state \<Rightarrow> schedule_state" where
  "AuthIdentifierReconciliationService_startWhenMigrationsReadyOnce registry generation ready s =
     (case ready of
        None \<Rightarrow> started False s
      | Some False \<Rightarrow> started (sc_scheduled s) s
      | Some True \<Rightarrow>
          if sc_stopped s \<or> generation \<noteq> sc_generation s \<or> sc_scheduled s then started (sc_scheduled s) s
          else
          let s = AuthIdentifierReconciliationService_registerSchedule registry s in
          if sc_stopped s \<or> generation \<noteq> sc_generation s \<or> \<not> sc_scheduled s then started False s
          else s\<lparr>sc_starting := Some (FirstPass generation)\<rparr>)"

definition AuthIdentifierReconciliationService_onApplicationShutdown :: "schedule_state \<Rightarrow> schedule_state" where
  "AuthIdentifierReconciliationService_onApplicationShutdown s =
     s\<lparr>sc_stopped := True, sc_generation := sc_generation s + 1, sc_probe := False,
       sc_interval := (if sc_scheduled s then False else sc_interval s), sc_scheduled := False\<rparr>"

inductive schedule_step :: "bool \<Rightarrow> schedule_state \<Rightarrow> schedule_state \<Rightarrow> bool" for registry :: bool where
  bootstrap: "schedule_step registry s (AuthIdentifierReconciliationService_onApplicationBootstrap s)"
| migrations: "sc_starting s = Some (CheckingMigrations g) \<Longrightarrow>
    schedule_step registry s (AuthIdentifierReconciliationService_startWhenMigrationsReadyOnce registry g ready s)"
| first_pass: "sc_starting s = Some (FirstPass g) \<Longrightarrow> schedule_step registry s (started True s)"
| probe: "sc_probe s \<Longrightarrow> schedule_step registry s (AuthIdentifierReconciliationService_runReadinessProbe s)"
| shutdown: "schedule_step registry s (AuthIdentifierReconciliationService_onApplicationShutdown s)"

inductive_cases schedule_stepE: "schedule_step registry s s'"

lemmas schedule_defs =
  AuthIdentifierReconciliationService_registerReadinessProbe_def AuthIdentifierReconciliationService_registerSchedule_def
  AuthIdentifierReconciliationService_startWhenMigrationsReady_def
  AuthIdentifierReconciliationService_onApplicationBootstrap_def
  AuthIdentifierReconciliationService_runReadinessProbe_def
  AuthIdentifierReconciliationService_startWhenMigrationsReadyOnce_def
  AuthIdentifierReconciliationService_onApplicationShutdown_def started_def

text \<open>
  The invariant: a stopped service has no timer, the registry holds the interval exactly while the
  service counts as scheduled, and a start that is under way began in a generation that has been.
\<close>

definition schedule_ok :: "schedule_state \<Rightarrow> bool" where
  "schedule_ok s \<longleftrightarrow> (sc_stopped s \<longrightarrow> \<not> sc_scheduled s \<and> \<not> sc_probe s) \<and> (sc_interval s \<longleftrightarrow> sc_scheduled s) \<and>
     (case sc_starting s of None \<Rightarrow> True | Some (CheckingMigrations g) \<Rightarrow> g \<le> sc_generation s
      | Some (FirstPass g) \<Rightarrow> g \<le> sc_generation s)"

lemma schedule_ok_step: "schedule_step registry s s' \<Longrightarrow> schedule_ok s \<Longrightarrow> schedule_ok s'"
  by (erule schedule_stepE)
    (auto simp: schedule_ok_def schedule_defs Let_def split: option.splits start_phase.splits bool.splits)

lemma schedule_ok_start: "schedule_ok schedule_start"
  by (simp add: schedule_ok_def schedule_start_def)

text \<open>In every state that the service can reach, whatever the order in which bootstrap, shutdown,
  probes, the answer about the migrations and the first pass come, a service that is stopped has no
  schedule and no probe, and there is an interval exactly when the service counts as scheduled: a
  start that was under way when the service stopped sets none up.\<close>

theorem stopped_service_has_no_timers:
  assumes "(schedule_step registry)\<^sup>*\<^sup>* schedule_start s"
  shows "(sc_stopped s \<longrightarrow> \<not> sc_interval s \<and> \<not> sc_probe s) \<and> (sc_interval s \<longleftrightarrow> sc_scheduled s)"
proof -
  from assms have "schedule_ok s"
    by (induction rule: rtranclp_induct) (auto intro: schedule_ok_start schedule_ok_step)
  then show ?thesis by (auto simp: schedule_ok_def)
qed

text \<open>Bootstrap, and shutdown before the migrations are found ready.\<close>

definition stopped_early :: schedule_state where
  "stopped_early = AuthIdentifierReconciliationService_startWhenMigrationsReadyOnce True 0 (Some True)
     (AuthIdentifierReconciliationService_onApplicationShutdown
       (AuthIdentifierReconciliationService_onApplicationBootstrap schedule_start))"

theorem stopped_service_has_no_timers_witness:
  "sc_stopped stopped_early \<and> \<not> sc_interval stopped_early \<and> \<not> sc_probe stopped_early"
proof -
  let ?booted = "AuthIdentifierReconciliationService_onApplicationBootstrap schedule_start"
  let ?stopped = "AuthIdentifierReconciliationService_onApplicationShutdown ?booted"
  have "schedule_step True schedule_start ?booted" by (rule bootstrap)
  moreover have "schedule_step True ?booted ?stopped" by (rule shutdown)
  moreover have "sc_starting ?stopped = Some (CheckingMigrations 0)" by code_simp
  then have "schedule_step True ?stopped stopped_early" unfolding stopped_early_def by (rule migrations)
  ultimately have "(schedule_step True)\<^sup>*\<^sup>* schedule_start stopped_early"
    by (metis converse_rtranclp_into_rtranclp rtranclp.rtrancl_refl)
  moreover have "sc_stopped stopped_early" by code_simp
  ultimately show ?thesis using stopped_service_has_no_timers by blast
qed

text \<open>
  A restart during the first pass waits for the start that the shutdown has made void, takes its
  success for its own, and leaves the service without schedule and without probe.
\<close>

lemma restart_during_first_pass_is_idle:
  "case started True (AuthIdentifierReconciliationService_onApplicationBootstrap
      (AuthIdentifierReconciliationService_onApplicationShutdown
        (AuthIdentifierReconciliationService_startWhenMigrationsReadyOnce True 0 (Some True)
          (AuthIdentifierReconciliationService_onApplicationBootstrap schedule_start)))) of s \<Rightarrow>
     \<not> sc_stopped s \<and> \<not> sc_scheduled s \<and> \<not> sc_probe s \<and> sc_starting s = None"
  by code_simp

end
