(* ===== verification/Identifier_Repair.thy ===== *)
theory Identifier_Repair
  imports Identifier_Conflicts Repair_Manifest
begin

text \<open>
  \<^verbatim>\<open>src/auth/auth-identifier-repair.service.ts\<close> and \<^verbatim>\<open>auth-identifier-repair-authorization.service.ts\<close>: the
  offline repair of an identifier conflict that is too large for one request.  A dry run stores an
  operation with the keyed hash of the manifest; the application reserves and sets the new identifiers
  in batches, one transaction each, behind a gate that opens when the operation completes; a
  cancellation takes the batches back.

  A record \<open>repair_env\<close> has the models and services that are injected; \<open>rp_verify\<close> is \<^verbatim>\<open>verifyAsync\<close> of the
  JWT package, and \<open>rp_transaction\<close> what \<^verbatim>\<open>startSession\<close> and \<^verbatim>\<open>withTransaction\<close> give together, if sessions
  have \<^verbatim>\<open>withTransaction\<close>.
\<close>

record repair_claims = raw_auth_payload +
  p_exp :: int

record authorized_actor =
  aa_subjectId :: string
  aa_authVersion :: nat
  aa_expiresAt :: int

record 'e repair_env =
  rp_identifiers :: "('e world, reservation) model"
  rp_events :: "('e world, security_event) model"
  rp_verify :: "string \<Rightarrow> ('e world, repair_claims) io"
  rp_crypto :: repair_crypto
  rp_keys :: audit_keys
  rp_currentKeyVersion :: "nat option"
  rp_maxAssignments :: "nat option"
  rp_transaction :: "(('e world, unit) io \<Rightarrow> ('e world, unit) io) option"

record repair_request =
  rq_token :: string
  rq_operationId :: string
  rq_manifest :: repair_manifest
  rq_resumeId :: "string option"

record repair_result =
  rr_repairId :: string
  rr_repairStatus :: operation_status
  rr_assignmentCount :: nat
  rr_batchCount :: nat
  rr_repairReplayed :: bool
  rr_repairReason :: string

definition lift_result :: "exn + 'a \<Rightarrow> ('w, 'a) io" where
  "lift_result r = (case r of Inl e \<Rightarrow> throw e | Inr a \<Rightarrow> ret a)"

subsection \<open>Authorization\<close>

definition AuthIdentifierRepairAuthorizationService_denial :: exn where
  "AuthIdentifierRepairAuthorizationService_denial = Unauthorized ''Repair authorization required''"

definition AuthIdentifierRepairAuthorizationService_authorize ::
  "'e app \<Rightarrow> 'e repair_env \<Rightarrow> string \<Rightarrow> ('e world, authorized_actor) io" where
  "AuthIdentifierRepairAuthorizationService_authorize A E token =
     (let denial = throw AuthIdentifierRepairAuthorizationService_denial in
      if token = [] then denial
      else
      try_catch
        (await (rp_verify E token) (\<lambda>payload.
         if p_role_area payload \<noteq> Some ''staff'' \<or>
           (case p_permissions payload of None \<Rightarrow> True
            | Some ps \<Rightarrow> permission_name AuthIdentifiersManage \<notin> set ps)
         then denial
         else
         await (StaffUsersService_findActiveById A (case p_sub payload of None \<Rightarrow> [] | Some s \<Rightarrow> s)) (\<lambda>account.
         let currentPermissions = permissionsForStaffRoles (u_roles account) in
         if Admin \<notin> set (u_roles account) \<or> AuthIdentifiersManage \<notin> set currentPermissions \<or>
           Some (u_authVersion account) \<noteq> p_auth_version payload
         then denial
         else ret \<lparr>aa_subjectId = u_id account, aa_authVersion = u_authVersion account,
           aa_expiresAt = p_exp payload\<rparr>)))
        (\<lambda>_. denial))"

definition AuthIdentifierRepairAuthorizationService_authorizeDryRun ::
  "'e app \<Rightarrow> 'e repair_env \<Rightarrow> string \<Rightarrow> ('e world, authorized_actor) io" where
  "AuthIdentifierRepairAuthorizationService_authorizeDryRun = AuthIdentifierRepairAuthorizationService_authorize"

definition AuthIdentifierRepairAuthorizationService_authorizeMutation ::
  "'e app \<Rightarrow> 'e repair_env \<Rightarrow> string \<Rightarrow> ('e world, authorized_actor) io" where
  "AuthIdentifierRepairAuthorizationService_authorizeMutation = AuthIdentifierRepairAuthorizationService_authorize"

subsection \<open>Helpers of the service\<close>

definition AuthIdentifierRepairService_maxAssignments :: "'e repair_env \<Rightarrow> nat" where
  "AuthIdentifierRepairService_maxAssignments E = (case rp_maxAssignments E of None \<Rightarrow> 20 | Some n \<Rightarrow> n)"

text \<open>The loop does not end when the step is zero; then the result is \<open>None\<close>.\<close>

partial_function (option) AuthIdentifierRepairService_partition :: "nat \<Rightarrow> 'a list \<Rightarrow> 'a list list option" where
  "AuthIdentifierRepairService_partition n items =
     (if items = [] then Some []
      else Option.bind (AuthIdentifierRepairService_partition n (drop n items)) (\<lambda>rest. Some (take n items # rest)))"

text \<open>The same by recursion on the number of batches.\<close>

lemma partition_stuck:
  assumes "AuthIdentifierRepairService_partition n items = Some bs"
  shows "n = 0 \<longrightarrow> items = []"
proof (rule AuthIdentifierRepairService_partition.raw_induct [where P = "\<lambda>n items _. n = 0 \<longrightarrow> items = []", OF _ assms], goal_cases)
  case (1 f n items r)
  show ?case
  proof
    assume "n = 0"
    with 1(2) have "items = [] \<or> (\<exists>y. f 0 items = Some y)" by (auto split: if_splits simp: Option.bind_eq_Some_conv)
    with 1(1) [of 0 items] show "items = []" by auto
  qed
qed

fun batches_upto :: "nat \<Rightarrow> nat \<Rightarrow> 'a list \<Rightarrow> 'a list list" where
  "batches_upto 0 n xs = []"
| "batches_upto (Suc k) n [] = []"
| "batches_upto (Suc k) n (x # xs) = take n (x # xs) # batches_upto k n (drop n (x # xs))"

lemma partition_batches: "0 < n \<Longrightarrow> length xs \<le> k \<Longrightarrow> AuthIdentifierRepairService_partition n xs = Some (batches_upto k n xs)"
proof (induction k n xs rule: batches_upto.induct)
  case (3 k n x xs)
  then have "length (drop n (x # xs)) \<le> k" by simp
  from 3(1) [OF 3(2) this] show ?case by (subst AuthIdentifierRepairService_partition.simps) simp
qed (simp_all add: AuthIdentifierRepairService_partition.simps)

declare AuthIdentifierRepairService_partition.simps [code del]
lemma partition_code [code]:
  "AuthIdentifierRepairService_partition n xs = (if xs = [] then Some [] else if n = 0 then None else Some (batches_upto (length xs) n xs))"
  using partition_stuck [of n xs] partition_batches [of n xs "length xs"] by (cases "xs = []"; cases "AuthIdentifierRepairService_partition n xs") (auto simp: AuthIdentifierRepairService_partition.simps [of n "[]"])

definition AuthIdentifierRepairService_requireKey :: "'e repair_env \<Rightarrow> nat option \<Rightarrow> ('w, key_material) io" where
  "AuthIdentifierRepairService_requireKey E version =
     (let decision = AuthIdentifierRepairKeyPolicyService_repairWorkerDecision (rp_keys E) version in
      case AuthIdentifierRepairKeyPolicyService_getKeyMaterial (rp_keys E) version of
        Some k \<Rightarrow> if kd_allowed decision then ret k else throw (ServiceUnavailable ''repair-key-required'')
      | None \<Rightarrow> throw (ServiceUnavailable ''repair-key-required''))"

definition AuthIdentifierRepairService_currentKeyVersion :: "'e repair_env \<Rightarrow> ('w, nat) io" where
  "AuthIdentifierRepairService_currentKeyVersion E =
     (case rp_currentKeyVersion E of
        Some v \<Rightarrow> if v = 0 then throw (ServiceUnavailable ''repair-key-required'') else ret v
      | None \<Rightarrow> throw (ServiceUnavailable ''repair-key-required''))"

definition AuthIdentifierRepairService_requireOperation :: "'e app \<Rightarrow> string \<Rightarrow> ('e world, operation) io" where
  "AuthIdentifierRepairService_requireOperation A operationId =
     await (findOne (operationModel A) (\<lambda>d. o_operationId d = trim operationId))
       (require (NotFound ''Repair operation not found''))"

definition AuthIdentifierRepairService_loadConflict :: "'e repair_env \<Rightarrow> string \<Rightarrow> ('e world, reservation) io" where
  "AuthIdentifierRepairService_loadConflict E conflictId =
     await (cast_object_id conflictId) (\<lambda>i.
     await (findOne (rp_identifiers E) (\<lambda>d. i_id d = i)) (\<lambda>found.
     case found of
       Some c \<Rightarrow> if i_status c = IdentifierConflict then ret c else throw (NotFound ''Identifier conflict not found'')
     | None \<Rightarrow> throw (NotFound ''Identifier conflict not found'')))"

definition AuthIdentifierRepairService_validateManifestSubjects ::
  "reservation \<Rightarrow> repair_manifest \<Rightarrow> ('w, unit) io" where
  "AuthIdentifierRepairService_validateManifestSubjects conflict m =
     (let claimantKeys = set (map subject_key (claimants conflict));
          mappedKeys = map subject_key ((case rm_retainedSubject m of None \<Rightarrow> [] | Some s \<Rightarrow> [s]) @
            map mr_subject (rm_reassignments m)) in
      if card (set mappedKeys) \<noteq> card claimantKeys \<or> \<not> set mappedKeys \<subseteq> claimantKeys
      then throw (Unprocessable ''Repair manifest must account for every conflict claimant'')
      else ret ())"

definition AuthIdentifierRepairService_verifyPersistedManifest ::
  "'e app \<Rightarrow> 'e repair_env \<Rightarrow> operation \<Rightarrow> repair_manifest \<Rightarrow> ('w, unit) io" where
  "AuthIdentifierRepairService_verifyPersistedManifest A E operation m =
     (case (o_manifestHash operation, o_manifestKeyVersion operation) of
        (Some hash, Some version) \<Rightarrow>
          if o_operationType operation \<noteq> OfflineRepairOperation \<or> hash = [] \<or> version = 0
          then throw (Conflict ''Repair operation is invalid'')
          else
          await (AuthIdentifierRepairService_requireKey E (Some version)) (\<lambda>k.
          await (lift_result (verifyRepairManifest A (rp_crypto E) m hash k version)) (\<lambda>same.
          if same then ret () else throw (Conflict ''Repair manifest does not match dry run'')))
      | _ \<Rightarrow> throw (Conflict ''Repair operation is invalid''))"

definition AuthIdentifierRepairService_result ::
  "'e repair_env \<Rightarrow> operation \<Rightarrow> nat \<Rightarrow> bool \<Rightarrow> repair_result" where
  "AuthIdentifierRepairService_result E operation assignmentCount replayed =
     \<lparr>rr_repairId = o_operationId operation, rr_repairStatus = o_status operation,
      rr_assignmentCount = assignmentCount,
      rr_batchCount = (let n = AuthIdentifierRepairService_maxAssignments E in (assignmentCount + n - 1) div n),
      rr_repairReplayed = replayed,
      rr_repairReason = (case Option.bind (o_result operation) w_reasonCategory of Some c \<Rightarrow> c
        | None \<Rightarrow> ''identifier-offline-repair-pending'')\<rparr>"

definition staff_actor :: "string \<Rightarrow> actor_reference" where
  "staff_actor i = \<lparr>ar_actorType = StaffActor, ar_actorId = Some i\<rparr>"

definition AuthIdentifierRepairService_recordResume ::
  "'e app \<Rightarrow> 'e repair_env \<Rightarrow> operation \<Rightarrow> string \<Rightarrow> string \<Rightarrow> ('e world, unit) io" where
  "AuthIdentifierRepairService_recordResume A E operation actorId resumeId =
     await (SecurityActivityService_recordIdentifierRepairResumed A (rp_events E) (o_operationId operation) resumeId
       (Some (staff_actor (s_subjectId (o_requestedBy operation)))) (staff_actor actorId)) (\<lambda>_. ret ())"

text \<open>\<^verbatim>\<open>requireTransactionSession\<close> and \<^verbatim>\<open>withTransaction\<close>\<close>

definition in_transaction :: "'e repair_env \<Rightarrow> ('e world, unit) io \<Rightarrow> ('e world, unit) io" where
  "in_transaction E body =
     (case rp_transaction E of
        None \<Rightarrow> throw (Conflict ''Offline repair requires transaction support'')
      | Some T \<Rightarrow> T body)"

subsection \<open>Batches\<close>

definition reassigned_type :: "manifest_reassignment \<Rightarrow> identifier_type" where
  "reassigned_type item =
     (if s_subjectType (mr_subject item) = StaffSubject then EmailIdentifier else LoginIdentifier)"

definition replaced_reservation :: "operation \<Rightarrow> manifest_reassignment \<Rightarrow> reservation \<Rightarrow> reservation" where
  "replaced_reservation operation item i =
     i\<lparr>i_normalizedIdentifier := to_lower (trim (mr_newIdentifier item)), i_identifierType := reassigned_type item,
       i_subjectType := Some (s_subjectType (mr_subject item)), i_subjectId := Some (trim (s_subjectId (mr_subject item))),
       i_status := IdentifierPending, i_pendingAction := Some PendingReplace,
       i_pendingOperationId := Some (o_operationId operation), i_updatedBy := trim (s_subjectId (o_requestedBy operation))\<rparr>"

definition replacement_reservation :: "operation \<Rightarrow> manifest_reassignment \<Rightarrow> string \<Rightarrow> reservation" where
  "replacement_reservation operation item i = replaced_reservation operation item
     \<lparr>i_id = i, i_normalizedIdentifier = [], i_identifierType = reassigned_type item, i_subjectType = None,
      i_subjectId = None, i_status = IdentifierPending, i_conflictingSubjects = None,
      i_conflictResolutionStatus = None, i_pendingOperationId = None, i_activationGateOperationId = None,
      i_lastOperationId = None, i_pendingAction = None, i_releasedAt = None,
      i_createdBy = trim (s_subjectId (o_requestedBy operation)), i_updatedBy = []\<rparr>"

definition AuthIdentifierRepairService_reserveReplacement ::
  "'e repair_env \<Rightarrow> operation \<Rightarrow> manifest_reassignment \<Rightarrow> ('e world, reservation) io" where
  "AuthIdentifierRepairService_reserveReplacement E operation item =
     try_catch
       (findOneAndUpsert (rp_identifiers E)
         (\<lambda>i. i_normalizedIdentifier i = to_lower (trim (mr_newIdentifier item)) \<and>
            (i_pendingOperationId i = Some (o_operationId operation) \<or> i_status i = IdentifierReleased))
         (replaced_reservation operation item) (replacement_reservation operation item))
       (\<lambda>error. throw (if AuthIdentifierService_isDuplicateKey error
         then Conflict ''Replacement identifier is already reserved'' else error))"

definition AuthIdentifierRepairService_setAggregateIdentifier ::
  "'e app \<Rightarrow> subject_reference \<Rightarrow> string \<Rightarrow> ('e world, unit) io" where
  "AuthIdentifierRepairService_setAggregateIdentifier A subject n =
     await (cast_object_id (s_subjectId subject)) (\<lambda>i.
     await (case s_subjectType subject of
         StaffSubject \<Rightarrow> updateOne (staffUserModel A) (\<lambda>u. u_id u = i) (staff_identifier n)
       | MemberSubject \<Rightarrow> updateOne (memberModel A) (\<lambda>m. m_id m = i) (member_identifier n)) (\<lambda>_. ret ()))"

definition AuthIdentifierRepairService_applyAggregateIdentifier ::
  "'e app \<Rightarrow> manifest_reassignment \<Rightarrow> ('e world, unit) io" where
  "AuthIdentifierRepairService_applyAggregateIdentifier A item =
     (let missing = NotFound ''Repair subject not found'' in
      await (cast_object_id (s_subjectId (mr_subject item))) (\<lambda>i.
      await (case s_subjectType (mr_subject item) of
          StaffSubject \<Rightarrow> await (findOne (staffUserModel A) (\<lambda>u. u_id u = i)) (\<lambda>found.
            await (require missing found) (\<lambda>u. ret (Some (u_email u))))
        | MemberSubject \<Rightarrow> await (findOne (memberModel A) (\<lambda>m. m_id m = i)) (\<lambda>found.
            await (require missing found) (\<lambda>m. ret (m_loginIdentifier m)))) (\<lambda>current.
      if current = Some (mr_newIdentifier item) then ret ()
      else AuthIdentifierRepairService_setAggregateIdentifier A (mr_subject item) (mr_newIdentifier item))))"

definition batch_assignment ::
  "'e app \<Rightarrow> string \<Rightarrow> operation \<Rightarrow> reservation \<Rightarrow> manifest_reassignment \<Rightarrow> assignment" where
  "batch_assignment A derived operation conflict item =
     \<lparr>n_assignmentId = o_operationId operation @ '':'' @ subject_key (mr_subject item),
      n_subjectType = s_subjectType (mr_subject item), n_subjectId = s_subjectId (mr_subject item),
      n_action = ReplaceAction, n_sourceReservationId = Some (i_id conflict), n_targetReservationId = None,
      n_identifierCorrelationHash = Some (hmacSha256 A derived (mr_newIdentifier item)),
      n_correlationKeyVersion = o_manifestKeyVersion operation, n_status = AssignmentPending, n_appliedAt = None\<rparr>"

definition batch_checkpoint :: "'e app \<Rightarrow> string \<Rightarrow> operation \<Rightarrow> nat \<Rightarrow> assignment list \<Rightarrow> string" where
  "batch_checkpoint A derived operation batchNumber assignments =
     hmacSha256 A derived (o_operationId operation @ '':'' @ decimal batchNumber @ '':'' @
       join ''|'' (map n_assignmentId assignments))"

definition new_batch :: "operation \<Rightarrow> nat \<Rightarrow> nat \<Rightarrow> assignment list \<Rightarrow> string \<Rightarrow> nat \<Rightarrow> string \<Rightarrow> repair_batch" where
  "new_batch operation batchNumber batchCount assignments checkpointHash version i = batch_cast
     \<lparr>h_id = i, h_parentOperationId = o_operationId operation, h_batchNumber = batchNumber, h_batchCount = batchCount,
      h_status = BatchPending, h_assignments = assignments, h_checkpointHash = checkpointHash,
      h_manifestKeyVersion = version, h_preparedAt = None, h_activatedAt = None, h_compensatedAt = None,
      h_expiresAt = None\<rparr>"

definition the_batch :: "string \<Rightarrow> nat \<Rightarrow> repair_batch \<Rightarrow> bool" where
  "the_batch operationId batchNumber h = (h_parentOperationId h = trim operationId \<and> h_batchNumber h = batchNumber)"

definition apply_reassignment ::
  "'e app \<Rightarrow> 'e repair_env \<Rightarrow> operation \<Rightarrow> nat \<Rightarrow> manifest_reassignment \<times> assignment \<Rightarrow> ('e world, unit) io" where
  "apply_reassignment A E operation batchNumber = (\<lambda>(item, assignment).
     await (AuthIdentifierRepairService_reserveReplacement E operation item) (\<lambda>reservation.
     await (AuthIdentifierRepairService_applyAggregateIdentifier A item) (\<lambda>_.
     await (asks (clock A)) (\<lambda>now.
     await (updateOne (repairBatchModel A)
       (\<lambda>h. the_batch (o_operationId operation) batchNumber h \<and>
          list_ex (\<lambda>n. n_assignmentId n = trim (n_assignmentId assignment)) (h_assignments h))
       (\<lambda>h. h\<lparr>h_assignments := update_first (\<lambda>n. n_assignmentId n = trim (n_assignmentId assignment))
          (\<lambda>n. n\<lparr>n_targetReservationId := Some (i_id reservation), n_status := AssignmentApplied,
             n_appliedAt := Some now\<rparr>) (h_assignments h)\<rparr>)) (\<lambda>_. ret ())))))"

definition AuthIdentifierRepairService_prepareBatch ::
  "'e app \<Rightarrow> 'e repair_env \<Rightarrow> operation \<Rightarrow> reservation \<Rightarrow> manifest_reassignment list \<Rightarrow> nat \<Rightarrow> nat \<Rightarrow>
   ('e world, unit) io" where
  "AuthIdentifierRepairService_prepareBatch A E operation conflict reassignments batchNumber batchCount =
     await (findOne (repairBatchModel A) (the_batch (o_operationId operation) batchNumber)) (\<lambda>existing.
     if (case existing of Some h \<Rightarrow> h_status h \<noteq> BatchPending | None \<Rightarrow> False) then ret ()
     else
     let version = (case o_manifestKeyVersion operation of None \<Rightarrow> 0 | Some v \<Rightarrow> v) in
     await (AuthIdentifierRepairService_requireKey E (o_manifestKeyVersion operation)) (\<lambda>k.
     await (lift_result (deriveRepairManifestKey (rp_crypto E) k version)) (\<lambda>derived.
     let assignments = map (batch_assignment A derived operation conflict) reassignments;
         checkpointHash = batch_checkpoint A derived operation batchNumber assignments in
     in_transaction E
       (await (case existing of
           None \<Rightarrow> await (createDoc (repairBatchModel A)
               (new_batch operation batchNumber batchCount assignments checkpointHash version)) (\<lambda>_. ret ())
         | Some h \<Rightarrow> if h_checkpointHash h \<noteq> checkpointHash
             then throw (Conflict ''Repair batch checkpoint does not match'') else ret ()) (\<lambda>_.
        await (for_each (zip reassignments assignments) (apply_reassignment A E operation batchNumber)) (\<lambda>_.
        await (asks (clock A)) (\<lambda>now.
        await (updateOne (repairBatchModel A) (the_batch (o_operationId operation) batchNumber)
          (\<lambda>h. h\<lparr>h_status := BatchPrepared, h_preparedAt := Some now\<rparr>)) (\<lambda>_. ret ()))))))))"

definition gated_reservation :: "string \<Rightarrow> reservation \<Rightarrow> reservation" where
  "gated_reservation operationId i =
     i\<lparr>i_status := IdentifierActive, i_activationGateOperationId := Some (trim operationId),
       i_lastOperationId := Some (trim operationId), i_pendingOperationId := None, i_pendingAction := None\<rparr>"

definition AuthIdentifierRepairService_activateBatch ::
  "'e app \<Rightarrow> 'e repair_env \<Rightarrow> string \<Rightarrow> nat \<Rightarrow> ('e world, unit) io" where
  "AuthIdentifierRepairService_activateBatch A E operationId batchNumber =
     await (findOne (repairBatchModel A) (the_batch operationId batchNumber)) (\<lambda>found.
     case found of
       None \<Rightarrow> ret ()
     | Some batch \<Rightarrow>
         if h_status batch = BatchActivated then ret ()
         else if h_status batch \<noteq> BatchPrepared then throw (Conflict ''Repair batch is not prepared'')
         else
         let targetIds = List.map_filter n_targetReservationId (h_assignments batch) in
         in_transaction E
           (await (updateMany (rp_identifiers E)
              (\<lambda>i. i_id i \<in> set targetIds \<and> i_pendingOperationId i = Some (trim operationId))
              (gated_reservation operationId)) (\<lambda>_.
            await (asks (clock A)) (\<lambda>now.
            await (updateOne (repairBatchModel A) (the_batch operationId batchNumber)
              (\<lambda>h. h\<lparr>h_status := BatchActivated, h_activatedAt := Some now\<rparr>)) (\<lambda>_. ret ())))))"

definition compensate_reassignment ::
  "'e app \<Rightarrow> 'e repair_env \<Rightarrow> repair_manifest \<Rightarrow> string \<Rightarrow> assignment \<Rightarrow> ('e world, unit) io" where
  "compensate_reassignment A E m originalIdentifier n =
     (case find (\<lambda>item. subject_key (mr_subject item) = subject_name (n_subjectType n) @ '':'' @ n_subjectId n)
         (rev (rm_reassignments m)) of
        None \<Rightarrow> ret ()
      | Some item \<Rightarrow>
          await (AuthIdentifierRepairService_setAggregateIdentifier A (mr_subject item) originalIdentifier) (\<lambda>_.
          case n_targetReservationId n of
            None \<Rightarrow> ret ()
          | Some target \<Rightarrow>
              await (asks (clock A)) (\<lambda>now.
              await (updateOne (rp_identifiers E) (\<lambda>i. i_id i = target)
                (\<lambda>i. i\<lparr>i_status := IdentifierReleased, i_releasedAt := Some now, i_activationGateOperationId := None,
                   i_pendingOperationId := None, i_pendingAction := None\<rparr>)) (\<lambda>_. ret ()))))"

definition AuthIdentifierRepairService_compensateBatch ::
  "'e app \<Rightarrow> 'e repair_env \<Rightarrow> repair_manifest \<Rightarrow> repair_batch \<Rightarrow> ('e world, unit) io" where
  "AuthIdentifierRepairService_compensateBatch A E m batch =
     (if h_status batch = BatchCompensated then ret ()
      else
      await (AuthIdentifierRepairService_loadConflict E (rm_conflictId m)) (\<lambda>conflict.
      in_transaction E
        (await (for_each (rev (h_assignments batch))
           (compensate_reassignment A E m (i_normalizedIdentifier conflict))) (\<lambda>_.
         await (asks (clock A)) (\<lambda>now.
         await (updateOne (repairBatchModel A) (\<lambda>h. h_id h = h_id batch)
           (\<lambda>h. h\<lparr>h_status := BatchCompensated, h_compensatedAt := Some now\<rparr>)) (\<lambda>_. ret ()))))))"


subsection \<open>The end of a repair\<close>

definition resolved_original :: "repair_manifest \<Rightarrow> string \<Rightarrow> date \<Rightarrow> reservation \<Rightarrow> reservation" where
  "resolved_original m operationId now i =
     (let i = i\<lparr>i_conflictingSubjects := None, i_conflictResolutionStatus := None, i_pendingOperationId := None,
          i_pendingAction := None, i_lastOperationId := Some (trim operationId)\<rparr> in
      case rm_retainedSubject m of
        Some s \<Rightarrow> i\<lparr>i_status := IdentifierActive, i_subjectType := Some (s_subjectType s),
          i_subjectId := Some (trim (s_subjectId s)), i_releasedAt := None\<rparr>
      | None \<Rightarrow> (let s = mr_subject (hd (rm_reassignments m)) in
          i\<lparr>i_status := IdentifierReleased, i_subjectType := Some (s_subjectType s),
            i_subjectId := Some (trim (s_subjectId s)), i_releasedAt := Some now\<rparr>))"

definition ended_repair :: "terminal_status \<Rightarrow> string \<Rightarrow> string \<Rightarrow> date \<Rightarrow> operation \<Rightarrow> operation" where
  "ended_repair status reasonCategory eventId now d =
     d\<lparr>o_status := terminal_of status,
       o_result := Some \<lparr>w_outcome = (if status = TerminalCompleted then ResultSuccess else ResultFailure),
         w_reasonCategory = Some reasonCategory, w_httpStatus = (if status = TerminalCompleted then 200 else 409)\<rparr>,
       o_terminalEventId := Some (trim eventId), o_terminalEventRecordedAt := Some now, o_completedAt := Some now,
       o_cleanupStatus := CleanupPending\<rparr>"

text \<open>What \<^verbatim>\<open>completeParent\<close> and \<^verbatim>\<open>finishFailedParent\<close> share.\<close>

definition finish_parent ::
  "'e app \<Rightarrow> 'e repair_env \<Rightarrow> string \<Rightarrow> string \<Rightarrow> terminal_status \<Rightarrow> string \<Rightarrow> ('e world, unit) io" where
  "finish_parent A E operationId actorId status reasonCategory =
     await (SecurityActivityService_recordIdentifierOperationTerminal A (rp_events E) operationId
       (operation_type_name OfflineRepairOperation) status (Some (staff_actor actorId))
       (if status = TerminalCompleted then OutcomeSuccess else OutcomeFailure) reasonCategory) (\<lambda>eventId.
     await (asks (clock A)) (\<lambda>now.
     await (updateOne (operationModel A)
       (\<lambda>d. o_operationId d = trim operationId \<and> o_status d = OperationFinalizing)
       (ended_repair status reasonCategory eventId now)) (\<lambda>_. ret ())))"

definition AuthIdentifierRepairService_completeParent ::
  "'e app \<Rightarrow> 'e repair_env \<Rightarrow> string \<Rightarrow> repair_manifest \<Rightarrow> string \<Rightarrow> ('e world, unit) io" where
  "AuthIdentifierRepairService_completeParent A E operationId m actorId =
     in_transaction E
       (await (asks (clock A)) (\<lambda>now.
        await (cast_object_id (rm_conflictId m)) (\<lambda>c.
        await (updateOne (rp_identifiers E) (\<lambda>i. i_id i = c \<and> i_status i = IdentifierConflict)
          (resolved_original m operationId now)) (\<lambda>_.
        finish_parent A E operationId actorId TerminalCompleted ''identifier-offline-repair-completed''))))"

definition AuthIdentifierRepairService_finishFailedParent ::
  "'e app \<Rightarrow> 'e repair_env \<Rightarrow> string \<Rightarrow> string \<Rightarrow> ('e world, unit) io" where
  "AuthIdentifierRepairService_finishFailedParent A E operationId actorId =
     in_transaction E (finish_parent A E operationId actorId TerminalFailed ''identifier-offline-repair-cancelled'')"

subsection \<open>The requests\<close>

definition move_repair ::
  "'e app \<Rightarrow> string \<Rightarrow> operation_status list \<Rightarrow> (operation \<Rightarrow> operation) \<Rightarrow> ('e world, unit) io" where
  "move_repair A operationId from_statuses f =
     await (updateOne (operationModel A) (\<lambda>d. o_operationId d = trim operationId \<and> o_status d \<in> set from_statuses) f)
       (\<lambda>_. ret ())"

definition new_repair :: "string \<Rightarrow> string \<Rightarrow> nat \<Rightarrow> repair_manifest \<Rightarrow> string \<Rightarrow> string \<Rightarrow> operation" where
  "new_repair operationId hash version m actorId i = operation_cast
     \<lparr>o_id = i, o_operationId = operationId, o_operationType = OfflineRepairOperation, o_status = OperationPending,
      o_assignments = [], o_manifestHash = Some hash, o_manifestKeyVersion = Some version,
      o_retainedSubject = rm_retainedSubject m, o_result = None, o_leaseOwner = None, o_leaseExpiresAt = None,
      o_terminalEventId = None, o_terminalEventRecordedAt = None, o_cleanupStatus = CleanupNotRequired,
      o_expiresAt = None, o_requestedBy = \<lparr>s_subjectType = StaffSubject, s_subjectId = actorId\<rparr>,
      o_lastResumedBy = None, o_lastResumedAt = None, o_completedAt = None\<rparr>"

definition AuthIdentifierRepairService_dryRun ::
  "'e app \<Rightarrow> 'e repair_env \<Rightarrow> repair_request \<Rightarrow> ('e world, repair_result) io" where
  "AuthIdentifierRepairService_dryRun A E input =
     await (AuthIdentifierRepairAuthorizationService_authorizeDryRun A E (rq_token input)) (\<lambda>actor.
     await (lift_result (normalizeRepairManifest (rp_crypto E) (rq_manifest input))) (\<lambda>m.
     await (AuthIdentifierRepairService_loadConflict E (rm_conflictId m)) (\<lambda>conflict.
     await (AuthIdentifierRepairService_validateManifestSubjects conflict m) (\<lambda>_.
     await (AuthIdentifierRepairService_currentKeyVersion E) (\<lambda>version.
     await (AuthIdentifierRepairService_requireKey E (Some version)) (\<lambda>k.
     await (lift_result (hashRepairManifest A (rp_crypto E) m k version)) (\<lambda>hash.
     let count = length (rm_reassignments m) in
     await (findOne (operationModel A) (\<lambda>d. o_operationId d = trim (rq_operationId input))) (\<lambda>existing.
     case existing of
       Some d \<Rightarrow>
         if o_operationType d \<noteq> OfflineRepairOperation \<or> o_manifestKeyVersion d \<noteq> Some version \<or>
           o_manifestHash d \<noteq> Some hash
         then throw (Conflict ''Repair operation id is already in use'')
         else ret (AuthIdentifierRepairService_result E d count True)
     | None \<Rightarrow>
         await (createDoc (operationModel A)
           (new_repair (rq_operationId input) hash version m (aa_subjectId actor))) (\<lambda>_.
         await (AuthIdentifierRepairService_requireOperation A (rq_operationId input)) (\<lambda>created.
         ret (AuthIdentifierRepairService_result E created count False)))))))))))"

text \<open>The batches of \<^verbatim>\<open>apply\<close>, each step after another authorization.\<close>

definition prepare_batches ::
  "'e app \<Rightarrow> 'e repair_env \<Rightarrow> string \<Rightarrow> operation \<Rightarrow> reservation \<Rightarrow> manifest_reassignment list list \<Rightarrow> ('e world, unit) io" where
  "prepare_batches A E token operation conflict batches =
     for_each (enumerate 0 batches) (\<lambda>(index, batch).
       await (AuthIdentifierRepairAuthorizationService_authorizeMutation A E token) (\<lambda>_.
       AuthIdentifierRepairService_prepareBatch A E operation conflict batch index (length batches)))"

definition activate_batches :: "'e app \<Rightarrow> 'e repair_env \<Rightarrow> string \<Rightarrow> string \<Rightarrow> nat \<Rightarrow> ('e world, unit) io" where
  "activate_batches A E token operationId batchCount =
     for_each [0..<batchCount] (\<lambda>index.
       await (AuthIdentifierRepairAuthorizationService_authorizeMutation A E token) (\<lambda>_.
       AuthIdentifierRepairService_activateBatch A E operationId index))"

definition AuthIdentifierRepairService_apply ::
  "'e app \<Rightarrow> 'e repair_env \<Rightarrow> repair_request \<Rightarrow> ('e world, repair_result) io" where
  "AuthIdentifierRepairService_apply A E input =
     (case rq_resumeId input of
        None \<Rightarrow> throw (Unprocessable ''A stable resume id is required'')
      | Some resumeId \<Rightarrow>
     if trim resumeId = [] then throw (Unprocessable ''A stable resume id is required'')
     else
     let operationId = rq_operationId input; token = rq_token input in
     await (AuthIdentifierRepairAuthorizationService_authorizeMutation A E token) (\<lambda>actor.
     await (lift_result (normalizeRepairManifest (rp_crypto E) (rq_manifest input))) (\<lambda>m.
     let count = length (rm_reassignments m) in
     await (AuthIdentifierRepairService_requireOperation A operationId) (\<lambda>operation.
     await (AuthIdentifierRepairService_verifyPersistedManifest A E operation m) (\<lambda>_.
     if terminal_operation (o_status operation) then ret (AuthIdentifierRepairService_result E operation count True)
     else
     await (AuthIdentifierRepairService_loadConflict E (rm_conflictId m)) (\<lambda>conflict.
     await (AuthIdentifierRepairService_validateManifestSubjects conflict m) (\<lambda>_.
     await (AuthIdentifierRepairService_recordResume A E operation (aa_subjectId actor) resumeId) (\<lambda>_.
     await (whenM (o_status operation \<in> {OperationPending, OperationFailedRetryable})
       (await (asks (clock A)) (\<lambda>now.
        move_repair A operationId [o_status operation] (\<lambda>d. d\<lparr>o_status := OperationApplying,
          o_lastResumedBy := Some \<lparr>s_subjectType = StaffSubject, s_subjectId = trim (aa_subjectId actor)\<rparr>,
          o_lastResumedAt := Some now\<rparr>)))) (\<lambda>_.
     case AuthIdentifierRepairService_partition (AuthIdentifierRepairService_maxAssignments E) (rm_reassignments m) of
       None \<Rightarrow> throw (JsError ''the partition does not end'')
     | Some batches \<Rightarrow>
     await (try_catch
       (await (prepare_batches A E token operation conflict batches) (\<lambda>_.
        await (activate_batches A E token operationId (length batches)) (\<lambda>_.
        await (AuthIdentifierRepairAuthorizationService_authorizeMutation A E token) (\<lambda>_.
        await (move_repair A operationId [OperationApplying] (\<lambda>d. d\<lparr>o_status := OperationFinalizing\<rparr>)) (\<lambda>_.
        AuthIdentifierRepairService_completeParent A E operationId m (aa_subjectId actor))))))
       (\<lambda>error. await (move_repair A operationId [OperationApplying] (\<lambda>d. d\<lparr>o_status := OperationFailedRetryable\<rparr>))
          (\<lambda>_. throw error))) (\<lambda>_.
     await (AuthIdentifierRepairService_requireOperation A operationId) (\<lambda>operation.
     ret (AuthIdentifierRepairService_result E operation count False))))))))))))"

definition AuthIdentifierRepairService_cancel ::
  "'e app \<Rightarrow> 'e repair_env \<Rightarrow> repair_request \<Rightarrow> ('e world, repair_result) io" where
  "AuthIdentifierRepairService_cancel A E input =
     (let operationId = rq_operationId input; token = rq_token input in
     await (AuthIdentifierRepairAuthorizationService_authorizeMutation A E token) (\<lambda>actor.
     await (lift_result (normalizeRepairManifest (rp_crypto E) (rq_manifest input))) (\<lambda>m.
     let count = length (rm_reassignments m) in
     await (AuthIdentifierRepairService_requireOperation A operationId) (\<lambda>operation.
     await (AuthIdentifierRepairService_verifyPersistedManifest A E operation m) (\<lambda>_.
     if terminal_operation (o_status operation) then ret (AuthIdentifierRepairService_result E operation count True)
     else
     await (move_repair A operationId [OperationApplying, OperationFailedRetryable, OperationPending]
       (\<lambda>d. d\<lparr>o_status := OperationCompensating\<rparr>)) (\<lambda>_.
     await (findAll (repairBatchModel A) (\<lambda>h. h_parentOperationId h = trim operationId)
       (\<lambda>a b. h_batchNumber b \<le> h_batchNumber a)) (\<lambda>batches.
     await (try_catch
       (await (for_each batches (\<lambda>batch.
          await (AuthIdentifierRepairAuthorizationService_authorizeMutation A E token) (\<lambda>_.
          AuthIdentifierRepairService_compensateBatch A E m batch))) (\<lambda>_.
        await (AuthIdentifierRepairAuthorizationService_authorizeMutation A E token) (\<lambda>_.
        await (cast_object_id (rm_conflictId m)) (\<lambda>c.
        await (updateOne (rp_identifiers E) (\<lambda>i. i_id i = c)
          (\<lambda>i. i\<lparr>i_status := IdentifierConflict, i_conflictResolutionStatus := Some ManualRepairRequired\<rparr>)) (\<lambda>_.
        await (move_repair A operationId [OperationCompensating] (\<lambda>d. d\<lparr>o_status := OperationFinalizing\<rparr>)) (\<lambda>_.
        AuthIdentifierRepairService_finishFailedParent A E operationId (aa_subjectId actor)))))))
       (\<lambda>error. await (move_repair A operationId [OperationCompensating] (\<lambda>d. d\<lparr>o_status := OperationFailedRetryable\<rparr>))
          (\<lambda>_. throw error))) (\<lambda>_.
     await (AuthIdentifierRepairService_requireOperation A operationId) (\<lambda>operation.
     ret (AuthIdentifierRepairService_result E operation count False))))))))))"


subsection \<open>What a repair needs\<close>

definition may_repair :: "'e repair_env \<Rightarrow> string \<Rightarrow> 'e world \<Rightarrow> bool" where
  "may_repair E token w =
     (case fst (rp_verify E token w) of
        Inl e \<Rightarrow> False
      | Inr c \<Rightarrow> p_role_area c = Some ''staff'' \<and>
          (case p_permissions c of None \<Rightarrow> False | Some ps \<Rightarrow> permission_name AuthIdentifiersManage \<in> set ps) \<and>
          (\<exists>u \<in> set (staffUsers w). u_id u = to_lower (case p_sub c of None \<Rightarrow> [] | Some s \<Rightarrow> s) \<and>
             u_status u = StaffActive \<and> Admin \<in> set (u_roles u) \<and> p_auth_version c = Some (u_authVersion u)))"

text \<open>The manifest is the one of the dry run, as far as the stored hash can tell.\<close>

definition manifest_matches :: "'e app \<Rightarrow> 'e repair_env \<Rightarrow> repair_manifest \<Rightarrow> operation \<Rightarrow> bool" where
  "manifest_matches A E m d =
     (case (normalizeRepairManifest (rp_crypto E) m, o_manifestHash d, o_manifestKeyVersion d) of
        (Inr n, Some hash, Some version) \<Rightarrow>
          (case AuthIdentifierRepairKeyPolicyService_getKeyMaterial (rp_keys E) (Some version) of
             None \<Rightarrow> False
           | Some k \<Rightarrow> verifyRepairManifest A (rp_crypto E) n hash k version = Inr True)
      | _ \<Rightarrow> False)"

locale repair_store = staff_documents A +
  op: collection "operationModel A" operations operations_update operation_clash operation_valid o_id
  for A :: "'e app" and E :: "'e repair_env" +
  assumes verify_env: "env_step w (snd (rp_verify E token w))"
begin

lemma wp_authorize:
  assumes "\<And>actor z. may_repair E token w \<Longrightarrow> Q actor (w\<lparr>env := z\<rparr>)" and "\<And>e z. F e (w\<lparr>env := z\<rparr>)"
  shows "wp (AuthIdentifierRepairAuthorizationService_authorize A E token) Q F w"
proof (cases "token = []")
  case True
  then show ?thesis
    using assms(2) [of _ "env w"] by (simp add: AuthIdentifierRepairAuthorizationService_authorize_def)
next
  case False
  obtain r z where run: "rp_verify E token w = (r, w\<lparr>env := z\<rparr>)"
    using verify_env [of w token] unfolding env_step_def by (metis prod.collapse)
  have verified: "wp (rp_verify E token) Q' F' w = (case r of Inl e \<Rightarrow> F' e (w\<lparr>env := z\<rparr>) | Inr c \<Rightarrow> Q' c (w\<lparr>env := z\<rparr>))" for Q' F'
    by (rule wp_outcome) (rule run)
  show ?thesis
  proof (cases r)
    case (Inl e)
    with False assms(2) show ?thesis
      by (simp add: AuthIdentifierRepairAuthorizationService_authorize_def verified Let_def)
  next
    case (Inr c)
    have ok: "may_repair E token w"
      if "u \<in> set (staffUsers w)" "u_id u = to_lower (case p_sub c of None \<Rightarrow> [] | Some s \<Rightarrow> s)" "u_status u = StaffActive"
        "Admin \<in> set (u_roles u)" "Some (u_authVersion u) = p_auth_version c" "p_role_area c = Some ''staff''"
        "p_permissions c = Some ps" "permission_name AuthIdentifiersManage \<in> set ps" for u ps
      using that unfolding may_repair_def run Inr by (auto split: sum.split)
    from False Inr assms(2) show ?thesis
      unfolding AuthIdentifierRepairAuthorizationService_authorize_def Let_def
      by (auto simp: verified split: option.split intro!: wp_findActiveById assms(1) ok)
  qed
qed

text \<open>A request whose token is not one of a current administrator is refused before anything else.\<close>

lemma wp_requests_refused:
  assumes "\<not> may_repair E (rq_token input) w"
  shows "wp (AuthIdentifierRepairService_dryRun A E input) (\<lambda>_ _. False) (\<lambda>_ w'. env_step w w') w"
    and "wp (AuthIdentifierRepairService_apply A E input) (\<lambda>_ _. False) (\<lambda>_ w'. env_step w w') w"
    and "wp (AuthIdentifierRepairService_cancel A E input) (\<lambda>_ _. False) (\<lambda>_ w'. env_step w w') w"
proof -
  have refused: "wp (await (AuthIdentifierRepairAuthorizationService_authorize A E (rq_token input)) k)
      (\<lambda>_ _. False) (\<lambda>_ w'. env_step w w') w" for k :: "authorized_actor \<Rightarrow> ('e world, 'b) io"
    unfolding wp_await by (rule wp_authorize) (use assms in \<open>auto simp: env_step_def\<close>)
  show "wp (AuthIdentifierRepairService_dryRun A E input) (\<lambda>_ _. False) (\<lambda>_ w'. env_step w w') w"
    unfolding AuthIdentifierRepairService_dryRun_def AuthIdentifierRepairAuthorizationService_authorizeDryRun_def
    by (rule refused)
  show "wp (AuthIdentifierRepairService_cancel A E input) (\<lambda>_ _. False) (\<lambda>_ w'. env_step w w') w"
    unfolding AuthIdentifierRepairService_cancel_def AuthIdentifierRepairAuthorizationService_authorizeMutation_def Let_def
    by (rule refused)
  show "wp (AuthIdentifierRepairService_apply A E input) (\<lambda>_ _. False) (\<lambda>_ w'. env_step w w') w"
  proof (cases "rq_resumeId input")
    case (Some resumeId)
    show ?thesis
      unfolding AuthIdentifierRepairService_apply_def AuthIdentifierRepairAuthorizationService_authorizeMutation_def
        Let_def Some option.case wp_if
      by (simp add: refused del: wp_await)
  qed (simp add: AuthIdentifierRepairService_apply_def)
qed

text \<open>The first steps of an application or a cancellation.\<close>

lemma wp_bound_request:
  fixes k :: "authorized_actor \<Rightarrow> repair_manifest \<Rightarrow> operation \<Rightarrow> ('e world, 'b) io"
  assumes "\<forall>d \<in> set (operations w). o_operationId d = trim operationId \<longrightarrow> \<not> manifest_matches A E m d"
  shows "wp (await (AuthIdentifierRepairAuthorizationService_authorizeMutation A E token) (\<lambda>actor.
      await (lift_result (normalizeRepairManifest (rp_crypto E) m)) (\<lambda>n.
      await (AuthIdentifierRepairService_requireOperation A operationId) (\<lambda>operation.
      await (AuthIdentifierRepairService_verifyPersistedManifest A E operation n) (\<lambda>_. k actor n operation)))))
    (\<lambda>_ _. False) (\<lambda>_ w'. env_step w w') w"
proof -
  have verified: "wp (await (AuthIdentifierRepairService_verifyPersistedManifest A E d n) (\<lambda>_. k')) (\<lambda>_ _. False)
      (\<lambda>_ w'. env_step w w') (w\<lparr>env := z\<rparr>)"
    if "\<not> manifest_matches A E m d" "normalizeRepairManifest (rp_crypto E) m = Inr n" for d n z and k' :: "('e world, 'b) io"
  proof -
    have "wp (AuthIdentifierRepairService_verifyPersistedManifest A E d n) (\<lambda>_ _. False) (\<lambda>_ w'. env_step w w') (w\<lparr>env := z\<rparr>)"
      using that
      by (auto simp: AuthIdentifierRepairService_verifyPersistedManifest_def AuthIdentifierRepairService_requireKey_def
          manifest_matches_def lift_result_def Let_def split: option.splits sum.splits)
    then show ?thesis unfolding wp_await by (rule wp_mono) simp_all
  qed
  have found: "wp (await (AuthIdentifierRepairService_requireOperation A operationId) (\<lambda>operation.
      await (AuthIdentifierRepairService_verifyPersistedManifest A E operation n) (\<lambda>_. k actor n operation)))
      (\<lambda>_ _. False) (\<lambda>_ w'. env_step w w') (w\<lparr>env := z\<rparr>)"
    if "normalizeRepairManifest (rp_crypto E) m = Inr n" for n actor z
    unfolding AuthIdentifierRepairService_requireOperation_def wp_await [of "await _ _"] wp_await [of "findOne _ _"]
  proof (rule op.wp_findOne, goal_cases)
    case (2 d z')
    then have "\<not> manifest_matches A E m d" using assms by simp
    with that show ?case by (simp add: verified del: wp_await)
  qed (auto simp: env_step_def)
  show ?thesis
    unfolding AuthIdentifierRepairAuthorizationService_authorizeMutation_def
      wp_await [of "AuthIdentifierRepairAuthorizationService_authorize _ _ _"]
  proof (rule wp_authorize, goal_cases)
    case (1 actor z)
    show ?case
      unfolding lift_result_def
      by (cases "normalizeRepairManifest (rp_crypto E) m")
        (auto simp: wp_await [of "ret _"] wp_await [of "throw _"] found env_step_def simp del: wp_await)
  qed (auto simp: env_step_def)
qed

end


subsection \<open>An instance\<close>

text \<open>The token of the administrator of the sample library.\<close>

definition admin_claims :: repair_claims where
  "admin_claims = \<lparr>p_sub = Some (sample_id CHR ''f''), p_iss = None, p_aud = None, p_jti = Some ''j'',
     p_roleArea = None, p_role_area = Some ''staff'', p_scope = None,
     p_permissions = Some [permission_name AuthIdentifiersManage], p_auth_version = Some 0, p_exp = 5000\<rparr>"

definition mem_repair :: "mem_env repair_env" where
  "mem_repair = \<lparr>rp_identifiers = the (identifierModel mem_app), rp_events = the (eventModel mem_app),
     rp_verify = (\<lambda>token. if token = ''admin-token'' then ret admin_claims else throw (JsError ''invalid token'')),
     rp_crypto = mem_crypto, rp_keys = sample_keys, rp_currentKeyVersion = Some 3, rp_maxAssignments = None,
     rp_transaction = Some mem_transaction\<rparr>"

text \<open>A digest that is short enough to compute with: the part of the text with the first new identifier.\<close>

definition repair_app :: "mem_env app" where
  "repair_app = mem_app\<lparr>hmacSha256 := \<lambda>k s. ''h'' @ take 8 (drop 75 s)\<rparr>"

interpretation mem_repair_store: repair_store repair_app mem_repair
  using mem_staff_users.collection_axioms mem_operations.collection_axioms
  by (simp add: repair_store_def repair_store_axioms_def staff_documents_def repair_app_def mem_repair_def ret_def throw_def)

definition repair_input :: "repair_manifest \<Rightarrow> repair_request" where
  "repair_input m = \<lparr>rq_token = ''admin-token'', rq_operationId = ''op-3'', rq_manifest = m, rq_resumeId = Some ''r-1''\<rparr>"

definition dry_world :: "mem_env world" where
  "dry_world = snd (AuthIdentifierRepairService_dryRun repair_app mem_repair (repair_input sample_manifest) conflict_world)"

text \<open>The dry run and the application of the sample manifest.\<close>

lemma sample_repair_run:
  "case AuthIdentifierRepairService_apply repair_app mem_repair (repair_input written_manifest) dry_world of (r, w) \<Rightarrow>
     (case r of Inl e \<Rightarrow> False | Inr s \<Rightarrow> rr_repairStatus s = OperationCompleted) \<and>
     map (\<lambda>i. (i_normalizedIdentifier i, i_status i, i_activationGateOperationId i)) (identifiers w) =
       [(''shared@example.org'', IdentifierActive, None), (''olivia.o'', IdentifierActive, Some ''op-3'')] \<and>
     map m_loginIdentifier (members w) = [Some ''olivia.o'']"
  by code_simp

definition other_manifest :: repair_manifest where
  "other_manifest = sample_manifest\<lparr>rm_reassignments :=
     [\<lparr>mr_subject = \<lparr>s_subjectType = MemberSubject, s_subjectId = sample_id CHR ''b''\<rparr>, mr_newIdentifier = ''eve''\<rparr>]\<rparr>"

subsection \<open>Properties\<close>

text \<open>A request that is refused throws and leaves every collection as it was.\<close>

definition refused :: "('e world, 'a) io \<Rightarrow> 'e world \<Rightarrow> bool" where
  "refused m w \<longleftrightarrow> isl (fst (m w)) \<and> env_step w (snd (m w))"

text \<open>C11: a repair needs a current administrator: a dry run, an application or a cancellation whose token is
  not that of an active staff user who is an administrator now and has the token's version is refused,
  and changes nothing.\<close>

theorem repair_needs_current_administrator:
  assumes "repair_store A E" and "\<not> may_repair E (rq_token input) w"
  shows "refused (AuthIdentifierRepairService_dryRun A E input) w \<and>
    refused (AuthIdentifierRepairService_apply A E input) w \<and> refused (AuthIdentifierRepairService_cancel A E input) w"
  using repair_store.wp_requests_refused [OF assms] by (simp add: wp_throws refused_def)

theorem repair_needs_current_administrator_witness:
  "isl (fst (AuthIdentifierRepairService_apply repair_app mem_repair (repair_input sample_manifest)
     (dry_world\<lparr>staffUsers := [sample_staff_user\<lparr>u_roles := [Staff]\<rparr>]\<rparr>)))"
proof -
  have "\<not> may_repair mem_repair (rq_token (repair_input sample_manifest))
      (dry_world\<lparr>staffUsers := [sample_staff_user\<lparr>u_roles := [Staff]\<rparr>]\<rparr>)"
    by (simp add: may_repair_def sample_staff_user_def admin_claims_def mem_repair_def repair_input_def ret_def)
  from repair_needs_current_administrator [OF mem_repair_store.repair_store_axioms this] show ?thesis by (simp add: refused_def)
qed

text \<open>C12: what is applied or cancelled is what the dry run was for: when the keyed hash of the request's
  manifest is not the one stored with the operation, the request is refused and changes nothing.\<close>

theorem repair_is_bound_to_dry_run:
  assumes "repair_store A E"
    and "\<forall>d \<in> set (operations w). o_operationId d = trim (rq_operationId input) \<longrightarrow> \<not> manifest_matches A E (rq_manifest input) d"
  shows "refused (AuthIdentifierRepairService_apply A E input) w \<and> refused (AuthIdentifierRepairService_cancel A E input) w"
proof -
  have cancel: "wp (AuthIdentifierRepairService_cancel A E input) (\<lambda>_ _. False) (\<lambda>_ w'. env_step w w') w"
    unfolding AuthIdentifierRepairService_cancel_def Let_def by (rule repair_store.wp_bound_request [OF assms])
  have "wp (AuthIdentifierRepairService_apply A E input) (\<lambda>_ _. False) (\<lambda>_ w'. env_step w w') w"
  proof (cases "rq_resumeId input")
    case (Some resumeId)
    show ?thesis
      unfolding AuthIdentifierRepairService_apply_def Let_def Some option.case wp_if
      by (simp add: repair_store.wp_bound_request [OF assms] del: wp_await)
  qed (simp add: AuthIdentifierRepairService_apply_def)
  with cancel show ?thesis by (simp add: wp_throws refused_def)
qed

theorem repair_is_bound_to_dry_run_witness:
  "isl (fst (AuthIdentifierRepairService_apply repair_app mem_repair (repair_input other_manifest) dry_world))"
proof -
  have "list_all (\<lambda>d. \<not> manifest_matches repair_app mem_repair other_manifest d) (operations dry_world)" by code_simp
  then have "\<forall>d \<in> set (operations dry_world). o_operationId d = trim (rq_operationId (repair_input other_manifest)) \<longrightarrow>
      \<not> manifest_matches repair_app mem_repair (rq_manifest (repair_input other_manifest)) d"
    by (simp add: list_all_iff repair_input_def)
  from repair_is_bound_to_dry_run [OF mem_repair_store.repair_store_axioms this] show ?thesis by (simp add: refused_def)
qed

text \<open>C40: the partition of a repair into batches ends for every positive limit, and does not when the limit
  is zero and there is something to partition; where it ends, the batches together are the
  reassignments in their order, and each has at least one and at most the limit.\<close>

theorem partition_ends:
  "case AuthIdentifierRepairService_partition n items of
      None \<Rightarrow> n = 0 \<and> items \<noteq> []
    | Some batches \<Rightarrow> concat batches = items \<and> list_all (\<lambda>b. b \<noteq> [] \<and> length b \<le> n) batches"
proof (cases "n = 0")
  case True
  then show ?thesis
    using partition_stuck [of n items] by (auto simp: AuthIdentifierRepairService_partition.simps [of _ "[]"] split: option.split)
next
  case False
  have "concat (batches_upto k n xs) = xs \<and> list_all (\<lambda>b. b \<noteq> [] \<and> length b \<le> n) (batches_upto k n xs)"
    if "length xs \<le> k" for k and xs :: "'a list"
    using that False
  proof (induction k n xs rule: batches_upto.induct)
    case (3 k n x xs)
    then have "length (drop n (x # xs)) \<le> k" by simp
    with 3 show ?case by (cases n) auto
  qed simp_all
  with False show ?thesis by (simp add: partition_batches [of n items "length items"])
qed


text \<open>
  An administrator whose own identifier the repair changes loses the version of the token, and the
  application stops half-way.
\<close>

definition own_manifest :: repair_manifest where
  "own_manifest = sample_manifest\<lparr>rm_retainedSubject := Some \<lparr>s_subjectType = MemberSubject, s_subjectId = sample_id CHR ''b''\<rparr>,
     rm_reassignments := [\<lparr>mr_subject = sample_administrator, mr_newIdentifier = ''ada@example.org''\<rparr>]\<rparr>"

lemma own_identifier_stops_repair:
  "case AuthIdentifierRepairService_dryRun repair_app mem_repair (repair_input own_manifest) conflict_world of (_, dry) \<Rightarrow>
   case AuthIdentifierRepairService_apply repair_app mem_repair (repair_input own_manifest) dry of (r, w) \<Rightarrow>
     r = Inl AuthIdentifierRepairAuthorizationService_denial \<and>
     map o_status (operations w) = [OperationFailedRetryable] \<and>
     map u_email (staffUsers w) = [''ada@example.org'']"
  by code_simp

end
