(* ===== verification/Health.thy ===== *)
theory Health
  imports Repair_Keys Staff_Users
begin

text \<open>
  \<^verbatim>\<open>src/health/health.service.ts\<close>, the readiness of the process, and
  \<^verbatim>\<open>src/common/filters/http-exception.filter.ts\<close> with \<^verbatim>\<open>src/common/exceptions/domain-conflict.exception.ts\<close>,
  what a client sees of an exception.

  A promise that \<open>withTimeout\<close> waits for is given by its outcome and the milliseconds after which it
  settles, \<open>None\<close> if it never does.  The clock texts of the answers (\<^verbatim>\<open>timestamp\<close>, \<^verbatim>\<open>uptimeSeconds\<close>) are
  left out.
\<close>

subsection \<open>Exceptions as responses\<close>

text \<open>
  An \<^verbatim>\<open>HttpException\<close>: its status, class name and message, and the response it was made with: a text, or
  an object of named values.
\<close>

datatype exception_response = TextResponse string | RecordResponse "(string \<times> json) list" | OtherResponse

record http_exception =
  hx_status :: nat
  hx_name :: string
  hx_message :: string
  hx_response :: exception_response

text \<open>What is thrown: an \<^verbatim>\<open>HttpException\<close>, or anything else.\<close>

datatype thrown = HttpThrown http_exception | OtherThrown

record error_response =
  er_statusCode :: nat
  er_message :: json
  er_error :: string
  er_details :: "json option"
  er_path :: string

definition internal_server_error :: nat where
  "internal_server_error = 500"

text \<open>A text or a list of texts; the code asks no more of a list than that it is one.\<close>

fun message_like :: "json option \<Rightarrow> bool" where
  "message_like (Some (JStr s)) = True"
| "message_like (Some (JArr xs)) = True"
| "message_like _ = False"

definition HttpExceptionFilter_normalizeResponse :: "thrown \<Rightarrow> nat \<Rightarrow> string \<Rightarrow> error_response" where
  "HttpExceptionFilter_normalizeResponse exception statusCode path =
     (case exception of
        OtherThrown \<Rightarrow>
          \<lparr>er_statusCode = statusCode, er_message = JStr ''Internal server error'', er_error = ''InternalServerError'',
            er_details = None, er_path = path\<rparr>
      | HttpThrown x \<Rightarrow>
          (case hx_response x of
             TextResponse t \<Rightarrow>
               \<lparr>er_statusCode = statusCode, er_message = JStr t, er_error = hx_name x, er_details = None, er_path = path\<rparr>
           | RecordResponse body \<Rightarrow>
               (let message = map_of body ''message'' in
                \<lparr>er_statusCode = statusCode,
                  er_message = (if message_like message then the message else JStr (hx_message x)),
                  er_error = (case map_of body ''error'' of Some (JStr s) \<Rightarrow> s | _ \<Rightarrow> hx_name x),
                  er_details = map_of body ''details'', er_path = path\<rparr>)
           | OtherResponse \<Rightarrow>
               \<lparr>er_statusCode = statusCode, er_message = JStr (hx_message x), er_error = hx_name x, er_details = None,
                 er_path = path\<rparr>))"

text \<open>The status of the response and its body.\<close>

definition HttpExceptionFilter_catch :: "thrown \<Rightarrow> string option \<Rightarrow> nat \<times> error_response" where
  "HttpExceptionFilter_catch exception url =
     (let status = (case exception of HttpThrown x \<Rightarrow> hx_status x | OtherThrown \<Rightarrow> internal_server_error) in
      (status, HttpExceptionFilter_normalizeResponse exception status (case url of None \<Rightarrow> [] | Some u \<Rightarrow> u)))"

text \<open>
  The exceptions the services throw, as \<^verbatim>\<open>@nestjs/common\<close> makes them from a message: the class, the
  status, and the object with message and error.  The errors of mongoose and of the driver and a plain
  \<^verbatim>\<open>Error\<close> are no \<^verbatim>\<open>HttpException\<close>s.
\<close>

definition nest_exception :: "nat \<Rightarrow> string \<Rightarrow> string \<Rightarrow> string \<Rightarrow> thrown" where
  "nest_exception status className reason message =
     HttpThrown \<lparr>hx_status = status, hx_name = className, hx_message = message,
       hx_response = RecordResponse [(''message'', JStr message), (''error'', JStr reason), (''statusCode'', JNum (int status))]\<rparr>"

fun thrown_of :: "exn \<Rightarrow> thrown" where
  "thrown_of (BadRequest m) = nest_exception 400 ''BadRequestException'' ''Bad Request'' m"
| "thrown_of (Unauthorized m) = nest_exception 401 ''UnauthorizedException'' ''Unauthorized'' m"
| "thrown_of (Forbidden m) = nest_exception 403 ''ForbiddenException'' ''Forbidden'' m"
| "thrown_of (NotFound m) = nest_exception 404 ''NotFoundException'' ''Not Found'' m"
| "thrown_of (Conflict m) = nest_exception 409 ''ConflictException'' ''Conflict'' m"
| "thrown_of (Unprocessable m) = nest_exception 422 ''UnprocessableEntityException'' ''Unprocessable Entity'' m"
| "thrown_of (TooManyRequests m) = nest_exception 429 ''HttpException'' ''Too Many Requests'' m"
| "thrown_of (ServiceUnavailable m) = nest_exception 503 ''ServiceUnavailableException'' ''Service Unavailable'' m"
| "thrown_of (ValidationError m) = OtherThrown"
| "thrown_of (DriverError c m) = OtherThrown"
| "thrown_of (JsError m) = OtherThrown"

text \<open>\<^verbatim>\<open>DomainConflictException\<close>: no service throws it yet.\<close>

definition optional_field :: "string \<Rightarrow> json option \<Rightarrow> (string \<times> json) list" where
  "optional_field name v = (case v of None \<Rightarrow> [] | Some j \<Rightarrow> [(name, j)])"

definition DomainConflictException :: "string \<Rightarrow> string option \<Rightarrow> json option \<Rightarrow> thrown" where
  "DomainConflictException message code details =
     HttpThrown \<lparr>hx_status = 409, hx_name = ''DomainConflictException'', hx_message = message,
       hx_response = RecordResponse ([(''error'', JStr ''DomainConflict''), (''message'', JStr message)] @
         optional_field ''code'' (map_option JStr code) @ optional_field ''details'' details)\<rparr>"

subsection \<open>Readiness\<close>

datatype readiness_reason =
    DatabaseUnavailable
  | AuthRepairKeyRequired
  | AuthThrottleKeyRequired
  | AuthMigrationRequired
  | AuthInfrastructureUnavailable

fun readiness_reason_name :: "readiness_reason \<Rightarrow> string" where
  "readiness_reason_name DatabaseUnavailable = ''database-unavailable''"
| "readiness_reason_name AuthRepairKeyRequired = ''repair-key-required''"
| "readiness_reason_name AuthThrottleKeyRequired = ''throttle-key-required''"
| "readiness_reason_name AuthMigrationRequired = ''migration-required''"
| "readiness_reason_name AuthInfrastructureUnavailable = ''auth-infrastructure-unavailable''"

text \<open>A check is ready, or not for a reason.\<close>

type_synonym check_result = "readiness_reason option"

definition readiness_timeout_ms :: nat where
  "readiness_timeout_ms = 4000"

text \<open>
  The connection, how its ping settles, the key policy with the time its evaluation takes; the
  policy is optional.
\<close>

record health_env =
  he_readyState :: nat
  he_database :: bool
  he_ping :: "((exn + unit) \<times> nat) option"
  he_keyPolicy :: "audit_keys option"
  he_policyTime :: "nat option"

definition HealthService_withTimeout :: "((exn + 'a) \<times> nat) option \<Rightarrow> exn + 'a" where
  "HealthService_withTimeout operation =
     (case operation of
        Some (outcome, ms) \<Rightarrow> if ms < readiness_timeout_ms then outcome else Inl (JsError ''readiness-timeout'')
      | None \<Rightarrow> Inl (JsError ''readiness-timeout''))"

definition HealthService_checkDatabase :: "health_env \<Rightarrow> check_result" where
  "HealthService_checkDatabase H =
     (if he_readyState H \<noteq> 1 \<or> \<not> he_database H then Some DatabaseUnavailable
      else case HealthService_withTimeout (he_ping H) of
        Inr _ \<Rightarrow> None
      | Inl _ \<Rightarrow> Some DatabaseUnavailable)"

text \<open>\<^verbatim>\<open>isAuthReadinessFailureReason\<close> on the reasons the key policy gives.\<close>

fun allowed_reason :: "key_policy_reason \<Rightarrow> readiness_reason" where
  "allowed_reason RepairKeyRequired = AuthRepairKeyRequired"
| "allowed_reason ThrottleKeyMissing = AuthThrottleKeyRequired"
| "allowed_reason KeysReady = AuthInfrastructureUnavailable"

definition HealthService_checkAuthInfrastructure ::
  "'e app \<Rightarrow> health_env \<Rightarrow> 'e world \<Rightarrow> check_result \<times> 'e world" where
  "HealthService_checkAuthInfrastructure A H w =
     (case he_keyPolicy H of
        None \<Rightarrow> (None, w)
      | Some K \<Rightarrow>
          case AuthIdentifierRepairKeyPolicyService_evaluateReadiness A K (clock A w) w of
            (outcome, w') \<Rightarrow>
              (case HealthService_withTimeout (map_option (\<lambda>ms. (outcome, ms)) (he_policyTime H)) of
                 Inr result \<Rightarrow> if kr_ready result then None else Some (allowed_reason (kr_reason result))
               | Inl _ \<Rightarrow> Some AuthInfrastructureUnavailable, w'))"

text \<open>
  \<^verbatim>\<open>new ServiceUnavailableException({status: 'error', reason})\<close>: an object without message or error,
  for which the class gives its name in words as the message.
\<close>

definition unavailable :: "readiness_reason \<Rightarrow> http_exception" where
  "unavailable reason =
     \<lparr>hx_status = 503, hx_name = ''ServiceUnavailableException'', hx_message = ''Service Unavailable Exception'',
       hx_response = RecordResponse [(''status'', JStr ''error''), (''reason'', JStr (readiness_reason_name reason))]\<rparr>"

definition HealthService_getReadiness ::
  "'e app \<Rightarrow> health_env \<Rightarrow> 'e world \<Rightarrow> (readiness_reason + unit) \<times> 'e world" where
  "HealthService_getReadiness A H w =
     (let database = HealthService_checkDatabase H in
      case HealthService_checkAuthInfrastructure A H w of
        (auth, w') \<Rightarrow>
          (case database of
             Some reason \<Rightarrow> Inl reason
           | None \<Rightarrow> (case auth of Some reason \<Rightarrow> Inl reason | None \<Rightarrow> Inr ()), w'))"

text \<open>The route: the answer, or what the filter makes of the exception.\<close>

definition HealthController_getReadiness ::
  "'e app \<Rightarrow> health_env \<Rightarrow> string \<Rightarrow> 'e world \<Rightarrow> (nat \<times> error_response) option" where
  "HealthController_getReadiness A H url w =
     (case fst (HealthService_getReadiness A H w) of
        Inr _ \<Rightarrow> None
      | Inl reason \<Rightarrow> Some (HttpExceptionFilter_catch (HttpThrown (unavailable reason)) (Some url)))"

subsection \<open>Properties\<close>

text \<open>What readiness needs: a connection whose ping is answered in time, and a key policy that says so in time.\<close>

definition answered_in_time :: "((exn + 'a) \<times> nat) option \<Rightarrow> 'a option" where
  "answered_in_time operation =
     (case operation of Some (Inr v, ms) \<Rightarrow> if ms < readiness_timeout_ms then Some v else None | _ \<Rightarrow> None)"

lemma withTimeout_cases:
  "(case HealthService_withTimeout operation of Inl e \<Rightarrow> bad | Inr v \<Rightarrow> good v) =
   (case answered_in_time operation of None \<Rightarrow> bad | Some v \<Rightarrow> good v)"
  by (auto simp: HealthService_withTimeout_def answered_in_time_def split: option.split sum.split)

definition database_answers :: "health_env \<Rightarrow> bool" where
  "database_answers H \<longleftrightarrow> he_readyState H = 1 \<and> he_database H \<and> answered_in_time (he_ping H) \<noteq> None"

definition needed_versions :: "'e app \<Rightarrow> 'e world \<Rightarrow> nat list" where
  "needed_versions A w = filter (\<lambda>v. needs_version (clock A w) v w)
     (List.map_filter o_manifestKeyVersion (operations w) @ map a_keyVersion (buckets w))"

lemma set_needed_versions: "set (needed_versions A w) = {v. needs_version (clock A w) v w}"
proof -
  have "v \<in> set (List.map_filter o_manifestKeyVersion (operations w) @ map a_keyVersion (buckets w))"
    if "needs_version (clock A w) v w" for v
    using that unfolding needs_version_def set_append Un_iff set_map_filter set_map by blast
  then show ?thesis unfolding needed_versions_def set_filter by blast
qed

definition keys_in_place :: "'e app \<Rightarrow> health_env \<Rightarrow> 'e world \<Rightarrow> bool" where
  "keys_in_place A H w \<longleftrightarrow>
     (case he_keyPolicy H of None \<Rightarrow> True | Some K \<Rightarrow> list_all (configured K) (needed_versions A w))"

lemma keys_in_place_iff:
  "keys_in_place A H w \<longleftrightarrow> (\<forall>K. he_keyPolicy H = Some K \<longrightarrow> (\<forall>v. needs_version (clock A w) v w \<longrightarrow> configured K v))"
  by (simp add: keys_in_place_def list_all_iff set_needed_versions split: option.split)

lemma checkDatabase_iff:
  "HealthService_checkDatabase H = (if database_answers H then None else Some DatabaseUnavailable)"
  unfolding HealthService_checkDatabase_def withTimeout_cases database_answers_def by (simp split: option.split)

lemma checkAuth_outcome:
  assumes "key_store A"
  shows "case HealthService_checkAuthInfrastructure A H w of
      (None, w') \<Rightarrow> keys_in_place A H w
    | (Some reason, w') \<Rightarrow> reason \<noteq> DatabaseUnavailable \<and>
        (reason \<in> {AuthRepairKeyRequired, AuthThrottleKeyRequired} \<longrightarrow> \<not> keys_in_place A H w)"
proof (cases "he_keyPolicy H")
  case None
  then show ?thesis by (simp add: HealthService_checkAuthInfrastructure_def keys_in_place_def)
next
  case (Some K)
  obtain outcome w' where run: "AuthIdentifierRepairKeyPolicyService_evaluateReadiness A K (clock A w) w = (outcome, w')"
    by (cases "AuthIdentifierRepairKeyPolicyService_evaluateReadiness A K (clock A w) w")
  have ready: "kr_ready r \<longleftrightarrow> keys_in_place A H w" if "outcome = Inr r" for r
    using wp_return_value [OF key_store.wp_evaluateReadiness [OF assms]] run that by (simp add: keys_in_place_iff Some)
  show ?thesis
  proof (cases "answered_in_time (map_option (\<lambda>ms. (outcome, ms)) (he_policyTime H))")
    case None
    then show ?thesis
      by (simp add: HealthService_checkAuthInfrastructure_def Some run withTimeout_cases)
  next
    case (Some r)
    then have "outcome = Inr r"
      by (auto simp: answered_in_time_def split: option.splits sum.splits if_splits)
    with Some ready \<open>he_keyPolicy H = Some K\<close> show ?thesis
      by (cases "kr_reason r") (simp_all add: HealthService_checkAuthInfrastructure_def run withTimeout_cases)
  qed
qed

text \<open>C38: the process reports ready only when the database answers a ping within the time limit and the
  key policy, where there is one, finds a usable key for every version that unfinished repairs and live
  throttle buckets need.  When it reports a missing key, one is missing; and the database is at fault
  exactly when it is named.\<close>

theorem readiness_is_honest:
  assumes "key_store A"
  shows "case fst (HealthService_getReadiness A H w) of
      Inr _ \<Rightarrow> database_answers H \<and> keys_in_place A H w
    | Inl reason \<Rightarrow> (reason = DatabaseUnavailable \<longleftrightarrow> \<not> database_answers H) \<and>
        (reason \<in> {AuthRepairKeyRequired, AuthThrottleKeyRequired} \<longrightarrow> \<not> keys_in_place A H w)"
  using checkAuth_outcome [OF assms, of H w]
  by (auto simp: HealthService_getReadiness_def checkDatabase_iff split: prod.splits option.splits)

definition sample_health :: health_env where
  "sample_health = \<lparr>he_readyState = 1, he_database = True, he_ping = Some (Inr (), 3), he_keyPolicy = Some sample_keys,
     he_policyTime = Some 20\<rparr>"

theorem readiness_is_honest_witness:
  "database_answers sample_health \<and> keys_in_place mem_app sample_health (empty_world 0)"
proof -
  have "fst (HealthService_getReadiness mem_app sample_health (empty_world 0)) = Inr ()" by code_simp
  with readiness_is_honest [OF mem_key_store.key_store_axioms, of sample_health "empty_world 0"] show ?thesis by simp
qed

text \<open>
  The reason does not reach the client: the filter keeps message, error and details of a response
  object and drops the rest, so every failure of readiness looks the same.
\<close>

lemma readiness_reason_is_dropped:
  "HttpExceptionFilter_catch (HttpThrown (unavailable reason)) url =
     (503, \<lparr>er_statusCode = 503, er_message = JStr ''Service Unavailable Exception'',
        er_error = ''ServiceUnavailableException'', er_details = None, er_path = (case url of None \<Rightarrow> [] | Some u \<Rightarrow> u)\<rparr>)"
  by (simp add: HttpExceptionFilter_catch_def HttpExceptionFilter_normalizeResponse_def unavailable_def)

text \<open>What the services throw on purpose, and the status they mean.\<close>

definition deliberate :: "exn \<Rightarrow> bool" where
  "deliberate e \<longleftrightarrow> (case e of ValidationError _ \<Rightarrow> False | DriverError _ _ \<Rightarrow> False | JsError _ \<Rightarrow> False | _ \<Rightarrow> True)"

fun exn_status :: "exn \<Rightarrow> nat" where
  "exn_status (BadRequest m) = 400"
| "exn_status (Unauthorized m) = 401"
| "exn_status (Forbidden m) = 403"
| "exn_status (NotFound m) = 404"
| "exn_status (Conflict m) = 409"
| "exn_status (Unprocessable m) = 422"
| "exn_status (TooManyRequests m) = 429"
| "exn_status (ServiceUnavailable m) = 503"
| "exn_status _ = 500"

text \<open>What is not an \<^verbatim>\<open>HttpException\<close> reaches the client as a fault without any of its text; what the
  services throw on purpose reaches it with its status and message.
\<close>

theorem filter_hides_faults:
  "case HttpExceptionFilter_catch (thrown_of e) url of (status, body) \<Rightarrow>
     status = exn_status e \<and> er_statusCode body = status \<and>
     (if deliberate e then er_message body = JStr (exn_message e)
      else er_message body = JStr ''Internal server error'' \<and> er_error body = ''InternalServerError'' \<and> er_details body = None)"
  by (cases e) (simp_all add: HttpExceptionFilter_catch_def HttpExceptionFilter_normalizeResponse_def nest_exception_def
      deliberate_def internal_server_error_def)

end
