(* ===== verification/Migrations.thy ===== *)
theory Migrations
  imports Identifier_Conflicts Repair_Manifest Source_Identity
begin

text \<open>
  \<^verbatim>\<open>migrations/migrate.ts\<close>, the runner of the database migrations, with the first three migrations
  (\<^verbatim>\<open>migrations/versions/000\<close> to \<^verbatim>\<open>002\<close>); the fourth is in \<open>Auth_Migration\<close>.

  The migrations do not pass the session on: what they write is not part of the transaction that the
  runner opens for the record of the migration.  The database is a state of its own, with the legacy
  documents as they are stored.  Each operation on it may fail, and an operation on many documents may
  fail after some of them were written: \<open>md_faults\<close> has an entry for each operation, \<open>Some k\<close> for a failure
  after \<open>k\<close> documents, with the time that it leaves on the clock.  An index that cannot be built over
  the documents is such a failure, and where the driver runs the callback of \<^verbatim>\<open>withTransaction\<close> again
  the outcome is that of a further run of the command.  Connecting and the output on the console are
  left out.
\<close>

subsection \<open>The database\<close>

record index_spec =
  ix_collection :: string
  ix_keys :: "(string \<times> int) list"
  ix_unique :: bool
  ix_sparse :: bool
  ix_name :: "string option"
  ix_expireAfterSeconds :: "nat option"
  ix_partial :: bool

definition index_on :: "string \<Rightarrow> (string \<times> int) list \<Rightarrow> index_spec" where
  "index_on coll keys = \<lparr>ix_collection = coll, ix_keys = keys, ix_unique = False, ix_sparse = False,
     ix_name = None, ix_expireAfterSeconds = None, ix_partial = False\<rparr>"

text \<open>An account as it is stored: the fields may have any type or be missing.\<close>

record legacy_account =
  la_id :: string
  la_email :: "json option"
  la_loginIdentifier :: "json option"
  la_memberNumber :: "json option"
  la_authVersion :: "int option"
  la_passwordHash :: "string option"
  la_passwordUpdatedAt :: "date option"

record legacy_family = family +
  f_previousTokenHash :: "string option"

record migration_record =
  mr_version :: string
  mr_name :: string
  mr_rollbackNotes :: "string list"
  mr_appliedAt :: date

record migration_db =
  md_staffUsers :: "legacy_account list"
  md_members :: "legacy_account list"
  md_families :: "legacy_family list"
  md_identifiers :: "reservation list"
  md_events :: "security_event list"
  md_indexes :: "index_spec list"
  md_records :: "migration_record list"
  md_now :: date
  md_faults :: "(nat option \<times> date) list"

definition connection_lost :: exn where
  "connection_lost = DriverError None ''connection lost''"

text \<open>What an operation does to the database is given for each number of documents after which it may stop.\<close>

definition effect :: "(nat option \<Rightarrow> migration_db \<Rightarrow> migration_db) \<Rightarrow> (migration_db, unit) io" where
  "effect f db =
     (case md_faults db of
        [] \<Rightarrow> (Inr (), f None db)
      | (k, now) # rest \<Rightarrow>
          (if k = None then Inr () else Inl connection_lost, f k (db\<lparr>md_faults := rest, md_now := now\<rparr>)))"

definition one_write :: "(migration_db \<Rightarrow> migration_db) \<Rightarrow> nat option \<Rightarrow> migration_db \<Rightarrow> migration_db" where
  "one_write f k db = (if k = Some 0 then db else f db)"

definition read :: "(migration_db \<Rightarrow> 'a) \<Rightarrow> (migration_db, 'a) io" where
  "read g = await (effect (\<lambda>_ db. db)) (\<lambda>_. asks g)"

text \<open>\<^verbatim>\<open>updateMany\<close> on the documents of a collection\<close>

fun update_upto :: "nat option \<Rightarrow> ('d \<Rightarrow> bool) \<Rightarrow> ('d \<Rightarrow> 'd) \<Rightarrow> 'd list \<Rightarrow> 'd list" where
  "update_upto k p g [] = []"
| "update_upto k p g (d # ds) =
     (if k = Some 0 then d # ds
      else if p d then g d # update_upto (map_option (\<lambda>n. n - 1) k) p g ds
      else d # update_upto k p g ds)"

text \<open>
  \<^verbatim>\<open>createIndex\<close>: an index that is there is left alone; one with the same keys or the same name but
  other options is refused.
\<close>

definition index_name :: "index_spec \<Rightarrow> string" where
  "index_name x = (case ix_name x of Some n \<Rightarrow> n
     | None \<Rightarrow> join ''_'' (map (\<lambda>(field, direction). field @ (if direction < 0 then ''_-1'' else ''_1'')) (ix_keys x)))"

definition index_clash :: "index_spec \<Rightarrow> index_spec \<Rightarrow> bool" where
  "index_clash x y \<longleftrightarrow> ix_collection x = ix_collection y \<and> (ix_keys x = ix_keys y \<or> index_name x = index_name y)"

definition createIndex :: "index_spec \<Rightarrow> (migration_db, unit) io" where
  "createIndex x =
     await (asks md_indexes) (\<lambda>there.
     if x \<in> set there then effect (\<lambda>_ db. db)
     else if list_ex (index_clash x) there then throw (DriverError (Some 85) ''IndexOptionsConflict'')
     else effect (one_write (\<lambda>db. db\<lparr>md_indexes := md_indexes db @ [x]\<rparr>)))"

lemma effect_cases:
  obtains (returned) rest now where "effect f db = (Inr (), f None (db\<lparr>md_faults := rest, md_now := now\<rparr>))"
  | (lost) k rest now where "effect f db = (Inl connection_lost, f (Some k) (db\<lparr>md_faults := rest, md_now := now\<rparr>))"
proof (cases "md_faults db")
  case Nil
  then have "db\<lparr>md_faults := [], md_now := md_now db\<rparr> = db" by simp
  with Nil that(1) [where rest = "[]" and now = "md_now db"] show ?thesis by (simp add: effect_def)
next
  case (Cons a rest)
  then show ?thesis using that by (cases a; cases "fst a") (auto simp: effect_def)
qed

lemma wp_effect:
  assumes "\<And>rest now. Q () (f None (db\<lparr>md_faults := rest, md_now := now\<rparr>))"
    and "\<And>k rest now. E connection_lost (f (Some k) (db\<lparr>md_faults := rest, md_now := now\<rparr>))"
  shows "wp (effect f) Q E db"
  by (rule effect_cases [of f db]) (use assms in \<open>auto simp: wp_def\<close>)

text \<open>What the clock and the failures to come do not matter to.\<close>

definition timeless :: "(migration_db \<Rightarrow> bool) \<Rightarrow> bool" where
  "timeless I \<longleftrightarrow> (\<forall>db rest now. I (db\<lparr>md_faults := rest, md_now := now\<rparr>) = I db)"

lemma timelessD: "timeless I \<Longrightarrow> I (db\<lparr>md_faults := rest, md_now := now\<rparr>) = I db"
  by (simp add: timeless_def)

lemma keeps_effect:
  assumes "timeless I" and "\<And>k db. I db \<Longrightarrow> I (f k db)"
  shows "keeps I (effect f)"
  by (rule keepsI, rule wp_effect) (use assms in \<open>simp_all add: timelessD\<close>)

lemma keeps_read: "timeless I \<Longrightarrow> keeps I (read g)"
  unfolding read_def by (auto intro!: keeps_rules keeps_effect)

lemma keeps_one_write:
  assumes "timeless I" and "\<And>db. I db \<Longrightarrow> I (f db)"
  shows "keeps I (effect (one_write f))"
  using assms by (auto intro!: keeps_effect simp: one_write_def)

lemma wp_one_write:
  assumes "timeless P" and "P db" and "\<And>db. P db \<Longrightarrow> Q () (f db)" and "\<And>db. P db \<Longrightarrow> E connection_lost db"
    and "\<And>db. P db \<Longrightarrow> E connection_lost (f db)"
  shows "wp (effect (one_write f)) Q E db"
  by (rule wp_effect) (use assms(2-) in \<open>auto simp: one_write_def timelessD [OF assms(1)]\<close>)

lemma keeps_createIndex:
  assumes "timeless I" and "\<And>db. I db \<Longrightarrow> I (db\<lparr>md_indexes := md_indexes db @ [x]\<rparr>)"
  shows "keeps I (createIndex x)"
  unfolding createIndex_def by (intro keeps_rules keeps_effect keeps_one_write) (use assms in auto)

lemma wp_read:
  assumes "\<And>rest now. Q (g (db\<lparr>md_faults := rest, md_now := now\<rparr>)) (db\<lparr>md_faults := rest, md_now := now\<rparr>)"
    and "\<And>rest now. E connection_lost (db\<lparr>md_faults := rest, md_now := now\<rparr>)"
  shows "wp (read g) Q E db"
  unfolding read_def wp_await by (rule wp_effect) (use assms in simp_all)

lemma wp_createIndex:
  assumes "timeless I" and "I db" and "\<And>db. I db \<Longrightarrow> I (db\<lparr>md_indexes := md_indexes db @ [x]\<rparr>)"
  shows "wp (createIndex x) (\<lambda>_ db. I db \<and> x \<in> set (md_indexes db)) (\<lambda>_. I) db"
proof -
  have "I (db\<lparr>md_faults := rest, md_now := now, md_indexes := md_indexes db @ [x]\<rparr>)"
    and "I (db\<lparr>md_faults := rest, md_now := now\<rparr>)" for rest now
    using assms(3) [of "db\<lparr>md_faults := rest, md_now := now\<rparr>"] assms(2) by (simp_all add: timelessD [OF assms(1)])
  then show ?thesis
    using assms(2) by (auto simp: createIndex_def wp_simps one_write_def intro!: wp_effect)
qed

lemma update_upto_None: "update_upto None p g ds = map (\<lambda>d. if p d then g d else d) ds"
  by (induction ds) auto

lemma map_update_upto: "(\<And>d. h (g d) = h d) \<Longrightarrow> map h (update_upto k p g ds) = map h ds"
  by (induction ds arbitrary: k) auto

lemma update_upto_in: "d \<in> set (update_upto k p g ds) \<Longrightarrow> d \<in> set ds \<or> (\<exists>d'\<in>set ds. p d' \<and> d = g d')"
  by (induction ds arbitrary: k) (auto split: if_splits)

subsection \<open>The runner\<close>

record migration_definition =
  mg_version :: string
  mg_name :: string
  mg_rollbackNotes :: "string list"
  mg_up :: "(migration_db, unit) io"

datatype migration_command = CommandUp | CommandStatus

definition getCommand :: "string option \<Rightarrow> exn + migration_command" where
  "getCommand argument =
     (let command = (case argument of None \<Rightarrow> ''status'' | Some c \<Rightarrow> c) in
      if command = ''up'' then Inr CommandUp
      else if command = ''status'' then Inr CommandStatus
      else Inl (JsError (''Unsupported migration command \"'' @ command @ ''\". Use \"up\" or \"status\".'')))"

text \<open>\<^verbatim>\<open>/^\d+-.+\.(ts|js)$/\<close>, on names without line ends.\<close>

definition migration_file :: "string \<Rightarrow> bool" where
  "migration_file file =
     (let digits = takeWhile digit file; rest = dropWhile digit file in
      digits \<noteq> [] \<and> rest \<noteq> [] \<and> hd rest = CHR ''-'' \<and>
      (ends_with ''.ts'' rest \<or> ends_with ''.js'' rest) \<and> 4 < length rest)"

text \<open>
  The names in the directory, if it exists, and what \<^verbatim>\<open>require\<close> gives for each: a definition that is
  complete, or not.
\<close>

fun load_all :: "(string \<Rightarrow> migration_definition option) \<Rightarrow> string list \<Rightarrow> exn + migration_definition list" where
  "load_all exported [] = Inr []"
| "load_all exported (file # files) =
     (case exported file of
        None \<Rightarrow> Inl (JsError (''Migration '' @ file @ '' must export a MigrationDefinition''))
      | Some m \<Rightarrow> (case load_all exported files of Inl e \<Rightarrow> Inl e | Inr ms \<Rightarrow> Inr (m # ms)))"

definition loadMigrations ::
  "string list option \<Rightarrow> (string \<Rightarrow> migration_definition option) \<Rightarrow> exn + migration_definition list" where
  "loadMigrations directory exported =
     (case directory of
        None \<Rightarrow> Inr []
      | Some names \<Rightarrow> load_all exported (sort_by code_le (filter migration_file names)))"

definition migration_records_index :: index_spec where
  "migration_records_index = (index_on ''migration_records'' [(''version'', 1)])\<lparr>ix_unique := True\<rparr>"

definition getAppliedRecords :: "(migration_db, (string \<times> migration_record) list) io" where
  "getAppliedRecords =
     await (createIndex migration_records_index) (\<lambda>_.
     await (read (\<lambda>db. sort_by (\<lambda>a b. code_le (mr_version a) (mr_version b)) (md_records db))) (\<lambda>records.
     ret (map (\<lambda>r. (mr_version r, r)) records)))"

text \<open>The lines of the status: a migration with the time it was applied, if it was.\<close>

definition printStatus ::
  "migration_definition list \<Rightarrow> (migration_db, (string \<times> string \<times> date option) list) io" where
  "printStatus migrations =
     await getAppliedRecords (\<lambda>applied.
     ret (map (\<lambda>m. (mg_version m, mg_name m, map_option mr_appliedAt (map_of applied (mg_version m)))) migrations))"

definition insert_record :: "migration_definition \<Rightarrow> (migration_db, unit) io" where
  "insert_record m =
     await (asks md_records) (\<lambda>records.
     if mg_version m \<in> mr_version ` set records
     then throw (DriverError (Some duplicate_key_code) ''E11000 duplicate key'')
     else effect (one_write (\<lambda>db. db\<lparr>md_records := md_records db @
       [\<lparr>mr_version = mg_version m, mr_name = mg_name m, mr_rollbackNotes = mg_rollbackNotes m, mr_appliedAt = md_now db\<rparr>]\<rparr>)))"

text \<open>
  One turn of the loop.  The session is started, the migration runs, and the record, the only write
  that is part of the transaction, is inserted and committed.
\<close>

definition apply_migration :: "migration_definition \<Rightarrow> (migration_db, unit) io" where
  "apply_migration m =
     await (effect (\<lambda>_ db. db)) (\<lambda>_.
     await (mg_up m) (\<lambda>_.
     insert_record m))"

definition runPendingMigrations :: "migration_definition list \<Rightarrow> (migration_db, unit) io" where
  "runPendingMigrations migrations =
     await getAppliedRecords (\<lambda>applied.
     let pending = filter (\<lambda>m. mg_version m \<notin> fst ` set applied) migrations in
     if pending = [] then ret () else for_each pending apply_migration)"

text \<open>\<^verbatim>\<open>main\<close>, as far as the database is concerned.\<close>

definition migrate_main ::
  "string option \<Rightarrow> string list option \<Rightarrow> (string \<Rightarrow> migration_definition option) \<Rightarrow> (migration_db, unit) io" where
  "migrate_main argument directory exported =
     (case getCommand argument of
        Inl e \<Rightarrow> throw e
      | Inr command \<Rightarrow>
          (case loadMigrations directory exported of
             Inl e \<Rightarrow> throw e
           | Inr migrations \<Rightarrow>
               (case command of
                  CommandStatus \<Rightarrow> await (printStatus migrations) (\<lambda>_. ret ())
                | CommandUp \<Rightarrow> runPendingMigrations migrations)))"

subsection \<open>The first migrations\<close>

definition migration_000 :: migration_definition where
  "migration_000 =
     \<lparr>mg_version = ''000'', mg_name = ''migration-record'',
      mg_rollbackNotes = [''Drop the migration_records collection only when intentionally resetting migration history.''],
      mg_up = createIndex migration_records_index\<rparr>"

definition library_core_indexes :: "index_spec list" where
  "library_core_indexes =
     [(index_on ''staffusers'' [(''email'', 1)])
       \<lparr>ix_unique := True\<rparr>,
      index_on ''staffusers'' [(''status'', 1), (''roles'', 1)],
      (index_on ''bookcategories'' [(''code'', 1)])
       \<lparr>ix_unique := True\<rparr>,
      index_on ''bookcategories'' [(''status'', 1)],
      (index_on ''books'' [(''catalogIdentifier'', 1)])
       \<lparr>ix_unique := True\<rparr>,
      (index_on ''books'' [(''isbn'', 1)])
       \<lparr>ix_unique := True, ix_sparse := True\<rparr>,
      index_on ''books'' [(''title'', 1)],
      index_on ''books'' [(''author'', 1)],
      index_on ''books'' [(''status'', 1)],
      index_on ''books'' [(''categoryId'', 1)],
      (index_on ''membershiptypes'' [(''code'', 1)])
       \<lparr>ix_unique := True\<rparr>,
      index_on ''membershiptypes'' [(''status'', 1)],
      (index_on ''members'' [(''memberNumber'', 1)])
       \<lparr>ix_unique := True\<rparr>,
      (index_on ''members'' [(''email'', 1)])
       \<lparr>ix_unique := True, ix_sparse := True\<rparr>,
      index_on ''members'' [(''status'', 1), (''membershipTypeId'', 1)],
      index_on ''borrowings'' [(''memberId'', 1), (''status'', 1)],
      index_on ''borrowings'' [(''bookId'', 1), (''status'', 1)],
      index_on ''borrowings'' [(''dueAt'', 1), (''status'', 1)]]"

definition member_auth_indexes :: "index_spec list" where
  "member_auth_indexes =
     [(index_on ''members'' [(''loginIdentifier'', 1)])
       \<lparr>ix_unique := True, ix_sparse := True\<rparr>,
      index_on ''members'' [(''authStatus'', 1)],
      index_on ''borrowings'' [(''memberId'', 1), (''status'', 1), (''dueAt'', 1)]]"

definition migration_001 :: migration_definition where
  "migration_001 =
     \<lparr>mg_version = ''001'', mg_name = ''library-core'',
      mg_rollbackNotes =
       [''Drops for this migration must be reviewed per collection because deployed code depends on these indexes for auth, catalog, membership, and borrowing queries.'',
        ''If rollback is required, drop the staffusers email and status/roles indexes only after confirming no staff login or authorization flow depends on them.'',
        ''Drop bookcategories, books, membershiptypes, members, and borrowings indexes only after confirming replacement indexes or older code paths are deployed.'',
        ''Do not drop collections as part of rollback; borrowing history and audit-related records must be preserved unless an explicit data-retention decision is approved.''],
      mg_up = for_each library_core_indexes createIndex\<rparr>"

definition migration_002 :: migration_definition where
  "migration_002 =
     \<lparr>mg_version = ''002'', mg_name = ''member-auth'',
      mg_rollbackNotes =
       [''Drop the members loginIdentifier unique sparse index only after member self-service login is disabled or replaced.'',
        ''Unset members loginIdentifier, passwordHash, passwordUpdatedAt, lastLoginAt, and authStatus only after confirming no member tokens or login flows depend on them.'',
        ''Keep member documents and borrowing history intact; rollback must not delete members or borrowings.'',
        ''Drop the borrowings memberId/status/dueAt index only after confirming member self-service borrowing queries no longer use it.''],
      mg_up = for_each member_auth_indexes createIndex\<rparr>"

subsection \<open>A set of migrations\<close>

text \<open>
  What the runner promises of any set of migrations.  \<open>settled v\<close> is what the migration of version \<open>v\<close>
  brings about, \<open>sound\<close> what they may rely on; neither depends on the clock, the failures to come and the
  records, a migration that returns has settled its version, and none undoes what another has done.
\<close>

definition recorded :: "migration_db \<Rightarrow> string set" where
  "recorded db = mr_version ` set (md_records db)"

locale migration_set =
  fixes migrations :: "migration_definition list"
    and sound :: "migration_db \<Rightarrow> bool"
    and settled :: "string \<Rightarrow> migration_db \<Rightarrow> bool"
  assumes sound_timeless: "timeless sound"
    and settled_timeless: "timeless (settled v)"
    and sound_records: "sound (db\<lparr>md_records := rs\<rparr>) = sound db"
    and settled_records: "settled v (db\<lparr>md_records := rs\<rparr>) = settled v db"
    and sound_index: "sound (db\<lparr>md_indexes := md_indexes db @ [x]\<rparr>) = sound db"
    and settled_index: "settled v db \<Longrightarrow> settled v (db\<lparr>md_indexes := md_indexes db @ [x]\<rparr>)"
    and up_keeps: "m \<in> set migrations \<Longrightarrow> keeps (\<lambda>db. sound db \<and> settled v db) (mg_up m)"
    and up_keeps_sound: "m \<in> set migrations \<Longrightarrow> keeps sound (mg_up m)"
    and up_keeps_records: "m \<in> set migrations \<Longrightarrow> keeps (\<lambda>db. md_records db = rs) (mg_up m)"
    and up_settles: "m \<in> set migrations \<Longrightarrow> sound db \<Longrightarrow> wp (mg_up m) (\<lambda>_. settled (mg_version m)) (\<lambda>_ _. True) db"
begin

definition records_done :: "migration_db \<Rightarrow> bool" where
  "records_done db \<longleftrightarrow> sound db \<and> (\<forall>v\<in>recorded db. settled v db)"

lemma timeless_records_done: "timeless records_done"
  unfolding timeless_def records_done_def recorded_def
  using timelessD [OF sound_timeless] timelessD [OF settled_timeless] by simp

lemma up_keeps_done:
  assumes "m \<in> set migrations"
  shows "keeps records_done (mg_up m)"
proof (rule keepsI)
  fix db assume db: "records_done db"
  let ?db = "snd (mg_up m db)"
  have "sound ?db \<and> settled v ?db" if "settled v db" for v
    using up_keeps [OF assms, of v] that db unfolding records_done_def by (blast dest: keeps_snd)
  moreover have "sound ?db"
    using up_keeps_sound [OF assms] db unfolding records_done_def by (blast dest: keeps_snd)
  moreover have "md_records ?db = md_records db"
    by (rule keeps_snd [OF up_keeps_records [OF assms]]) simp
  ultimately show "wp (mg_up m) (\<lambda>_. records_done) (\<lambda>_. records_done) db"
    using db by (auto simp: wp_state records_done_def recorded_def)
qed

lemma up_settles_all:
  assumes "m \<in> set migrations" and "records_done db"
  shows "wp (mg_up m) (\<lambda>_ db. records_done db \<and> settled (mg_version m) db) (\<lambda>_. records_done) db"
  by (rule wp_mono [OF wp_conj [OF keepsD [OF up_keeps_done [OF assms(1)] assms(2)] up_settles [OF assms(1)]]])
    (use assms(2) in \<open>auto simp: records_done_def\<close>)

lemma insert_record_done:
  assumes "records_done db" and "settled (mg_version m) db"
  shows "wp (insert_record m) (\<lambda>_ db'. records_done db' \<and> recorded db' = insert (mg_version m) (recorded db))
    (\<lambda>_. records_done) db"
proof -
  have step: "records_done (db\<lparr>md_faults := rest, md_now := now, md_records := md_records db @ [r]\<rparr>)"
    if "mr_version r = mg_version m" for rest now r
    using assms that timelessD [OF sound_timeless, where db = db] timelessD [OF settled_timeless, where db = db]
      sound_records [where db = "db\<lparr>md_faults := rest, md_now := now\<rparr>"] settled_records [where db = "db\<lparr>md_faults := rest, md_now := now\<rparr>"]
    by (auto simp: records_done_def recorded_def)
  have "records_done (db\<lparr>md_faults := rest, md_now := now\<rparr>)" for rest now
    using assms(1) by (simp add: timelessD [OF timeless_records_done])
  with step assms(1) show ?thesis
    by (auto simp: insert_record_def wp_simps one_write_def recorded_def intro!: wp_effect)
qed

lemma apply_migration_done:
  assumes "m \<in> set migrations" and "records_done db"
  shows "wp (apply_migration m) (\<lambda>_ db'. records_done db' \<and> recorded db' = insert (mg_version m) (recorded db))
    (\<lambda>_. records_done) db"
proof -
  have up: "wp (mg_up m) (\<lambda>_. wp (insert_record m)
      (\<lambda>_ db'. records_done db' \<and> recorded db' = insert (mg_version m) (recorded db)) (\<lambda>_. records_done)) (\<lambda>_. records_done) db1"
    if "records_done db1" and "md_records db1 = md_records db" for db1
  proof (rule wp_mono [OF wp_conj [OF up_settles_all [OF assms(1) that(1)] keepsD [OF up_keeps_records [OF assms(1)] that(2)]]])
    fix a w assume "(records_done w \<and> settled (mg_version m) w) \<and> md_records w = md_records db"
    then show "wp (insert_record m)
      (\<lambda>_ db'. records_done db' \<and> recorded db' = insert (mg_version m) (recorded db)) (\<lambda>_. records_done) w"
      using insert_record_done [of w m] by (auto simp: recorded_def)
  qed auto
  have "records_done (db\<lparr>md_faults := rest, md_now := now\<rparr>)" for rest now
    using assms(2) by (simp add: timelessD [OF timeless_records_done])
  with up show ?thesis
    unfolding apply_migration_def wp_await by (auto intro!: wp_effect)
qed

lemma for_each_done:
  assumes "set ms \<subseteq> set migrations" and "records_done db"
  shows "wp (for_each ms apply_migration) (\<lambda>_ db'. records_done db' \<and> recorded db' = mg_version ` set ms \<union> recorded db)
    (\<lambda>_. records_done) db"
  using assms
proof (induction ms arbitrary: db)
  case (Cons m ms)
  from Cons.prems have "m \<in> set migrations" and ms: "set ms \<subseteq> set migrations" by simp_all
  from apply_migration_done [OF this(1) Cons.prems(2)] show ?case
  proof (simp add: wp_simps, rule wp_mono, goal_cases)
    case (1 a w)
    then show ?case by (intro wp_mono [OF Cons.IH [OF ms]]) auto
  qed auto
qed simp

lemma getAppliedRecords_done:
  assumes "records_done db"
  shows "wp getAppliedRecords (\<lambda>applied db'. records_done db' \<and> recorded db' = recorded db \<and> fst ` set applied = recorded db)
    (\<lambda>_. records_done) db"
proof -
  let ?I = "\<lambda>db'. records_done db' \<and> md_records db' = md_records db"
  have tI: "timeless ?I" using timeless_records_done by (simp add: timeless_def)
  have step: "?I (db'\<lparr>md_indexes := md_indexes db' @ [x]\<rparr>)" if "?I db'" for db' x
    using that settled_index sound_index by (auto simp: records_done_def recorded_def)
  have "wp (createIndex migration_records_index) (\<lambda>_. ?I) (\<lambda>_. ?I) db" by (rule wp_mono [OF wp_createIndex [OF tI]]) (use assms step in auto)
  moreover have "wp (read (\<lambda>db. sort_by (\<lambda>a b. code_le (mr_version a) (mr_version b)) (md_records db)))
      (\<lambda>rs db'. records_done db' \<and> recorded db' = recorded db \<and> mr_version ` set rs = recorded db)
      (\<lambda>_. records_done) db'" if "?I db'" for db'
    using that timelessD [OF tI, where db = db']
    by (auto intro!: wp_read simp: recorded_def mset_eq_setD [OF mset_sort_by])
  ultimately show ?thesis
    unfolding getAppliedRecords_def wp_simps by (auto elim!: wp_mono simp: image_image)
qed

lemma runPendingMigrations_done:
  assumes "set ms \<subseteq> set migrations" and "records_done db"
  shows "wp (runPendingMigrations ms) (\<lambda>_ db'. records_done db' \<and> recorded db' = mg_version ` set ms \<union> recorded db)
    (\<lambda>_. records_done) db"
  unfolding runPendingMigrations_def wp_await
proof (rule wp_mono [OF getAppliedRecords_done [OF assms(2)]], goal_cases)
  case (1 applied db')
  let ?pending = "filter (\<lambda>m. mg_version m \<notin> fst ` set applied) ms"
  have "mg_version ` set ?pending \<union> recorded db = mg_version ` set ms \<union> recorded db" using 1 by auto
  with 1 for_each_done [of ?pending db'] assms(1) show ?case
    by (auto simp: Let_def filter_empty_conv elim!: wp_mono)
qed

text \<open>A run of the command.\<close>

lemma migrate_main_done:
  assumes "\<And>file m. exported file = Some m \<Longrightarrow> m \<in> set migrations"
  shows "keeps records_done (migrate_main argument directory exported)"
proof (rule keepsI)
  fix db assume db: "records_done db"
  have loaded: "set ms \<subseteq> set migrations" if "loadMigrations directory exported = Inr ms" for ms
  proof -
    have "set ms \<subseteq> set migrations" if "load_all exported fs = Inr ms" for fs
      using that assms by (induction fs arbitrary: ms) (force split: option.splits sum.splits)+
    with that show ?thesis by (auto simp: loadMigrations_def split: option.splits)
  qed
  have "wp (printStatus ms) (\<lambda>_. records_done) (\<lambda>_. records_done) db" for ms
    unfolding printStatus_def wp_simps by (rule wp_mono [OF getAppliedRecords_done [OF db]]) auto
  moreover have "wp (runPendingMigrations ms) (\<lambda>_. records_done) (\<lambda>_. records_done) db"
    if "set ms \<subseteq> set migrations" for ms
    by (rule wp_mono [OF runPendingMigrations_done [OF that db]]) auto
  ultimately show "wp (migrate_main argument directory exported) (\<lambda>_. records_done) (\<lambda>_. records_done) db"
    using db loaded by (auto simp: migrate_main_def wp_simps split: sum.split migration_command.split)
qed

end

end
