(* ===== verification/Auth_Migration.thy ===== *)
theory Auth_Migration
  imports Migrations Security_Activity "HOL-Library.AList"
begin

text \<open>
  \<^verbatim>\<open>migrations/versions/003-auth-roles-permissions.ts\<close>: the migration that ends the sessions of the old
  scheme, gives every account a version, creates the indexes of the authentication collections and
  reserves the identifiers of the accounts there are.

  The setting of \<^verbatim>\<open>AUTH_IDENTIFIER_MAX_OPERATION_ASSIGNMENTS\<close> and the order of \<^verbatim>\<open>localeCompare\<close> are
  parameters.  A \<^verbatim>\<open>Map\<close> is a list of entries in the order in which its keys came in.
\<close>

record auth_migration_env =
  am_maxAssignments :: "string option"
  am_collate :: "string \<Rightarrow> string \<Rightarrow> bool"

definition MIGRATION_ACTOR :: string where
  "MIGRATION_ACTOR = ''migration:003-auth-roles-permissions''"

subsection \<open>Indexes\<close>

definition staff_identity_indexes :: "index_spec list" where
  "staff_identity_indexes =
     [(index_on ''staffusers'' [(''identityProvider'', 1), (''identitySubject'', 1)])
       \<lparr>ix_unique := True, ix_sparse := True\<rparr>,
      index_on ''staffusers'' [(''status'', 1), (''roles'', 1)]]"

definition member_identity_indexes :: "index_spec list" where
  "member_identity_indexes =
     [(index_on ''members'' [(''identityProvider'', 1), (''identitySubject'', 1)])
       \<lparr>ix_unique := True, ix_sparse := True\<rparr>,
      index_on ''members'' [(''authStatus'', 1)],
      index_on ''members'' [(''status'', 1), (''membershipTypeId'', 1)]]"

definition auth_indexes :: "index_spec list" where
  "auth_indexes =
     [(index_on ''auth_identifiers'' [(''normalizedIdentifier'', 1)])
       \<lparr>ix_unique := True, ix_name := Some ''uq_auth_identifier_normalized''\<rparr>,
      (index_on ''auth_identifiers'' [(''subjectType'', 1), (''subjectId'', 1), (''status'', 1)])
       \<lparr>ix_name := Some ''ix_auth_identifier_subject_status''\<rparr>,
      (index_on ''auth_identifiers'' [(''status'', 1), (''updatedAt'', - 1)])
       \<lparr>ix_name := Some ''ix_auth_identifier_status_updated''\<rparr>,
      (index_on ''auth_identifiers'' [(''pendingOperationId'', 1), (''status'', 1)])
       \<lparr>ix_sparse := True, ix_name := Some ''ix_auth_identifier_pending_operation''\<rparr>,
      (index_on ''auth_identifiers'' [(''activationGateOperationId'', 1), (''status'', 1)])
       \<lparr>ix_sparse := True, ix_name := Some ''ix_auth_identifier_activation_gate''\<rparr>,
      (index_on ''auth_identifiers'' [(''lastOperationId'', 1)])
       \<lparr>ix_sparse := True, ix_name := Some ''ix_auth_identifier_last_operation''\<rparr>,
      (index_on ''auth_identifier_operations'' [(''operationId'', 1)])
       \<lparr>ix_unique := True, ix_name := Some ''uq_auth_identifier_operation_id''\<rparr>,
      (index_on ''auth_identifier_operations'' [(''terminalEventId'', 1)])
       \<lparr>ix_unique := True, ix_sparse := True, ix_name := Some ''uq_auth_identifier_operation_terminal_event''\<rparr>,
      (index_on ''auth_identifier_operations'' [(''operationType'', 1), (''status'', 1), (''cleanupStatus'', 1), (''manifestKeyVersion'', 1)])
       \<lparr>ix_name := Some ''ix_auth_identifier_operation_repair_key_policy'', ix_partial := True\<rparr>,
      (index_on ''auth_identifier_operations'' [(''status'', 1), (''leaseExpiresAt'', 1)])
       \<lparr>ix_name := Some ''ix_auth_identifier_operation_status_lease''\<rparr>,
      (index_on ''auth_identifier_operations'' [(''leaseOwner'', 1), (''leaseExpiresAt'', 1)])
       \<lparr>ix_name := Some ''ix_auth_identifier_operation_owner_lease''\<rparr>,
      (index_on ''auth_identifier_operations'' [(''createdAt'', - 1)])
       \<lparr>ix_name := Some ''ix_auth_identifier_operation_created''\<rparr>,
      (index_on ''auth_identifier_operations'' [(''expiresAt'', 1)])
       \<lparr>ix_name := Some ''ttl_auth_identifier_operation'', ix_expireAfterSeconds := Some 0\<rparr>,
      (index_on ''auth_identifier_repair_batches'' [(''parentOperationId'', 1), (''batchNumber'', 1)])
       \<lparr>ix_unique := True, ix_name := Some ''uq_auth_identifier_repair_batch_checkpoint''\<rparr>,
      (index_on ''auth_identifier_repair_batches'' [(''parentOperationId'', 1), (''status'', 1)])
       \<lparr>ix_name := Some ''ix_auth_identifier_repair_batch_parent_status''\<rparr>,
      (index_on ''auth_identifier_repair_batches'' [(''expiresAt'', 1)])
       \<lparr>ix_name := Some ''ttl_auth_identifier_repair_batch'', ix_expireAfterSeconds := Some 0\<rparr>,
      (index_on ''refresh_token_families'' [(''familyId'', 1)])
       \<lparr>ix_unique := True, ix_name := Some ''uq_refresh_token_family_id''\<rparr>,
      (index_on ''refresh_token_families'' [(''currentTokenHash'', 1)])
       \<lparr>ix_unique := True, ix_sparse := True, ix_name := Some ''uq_refresh_token_family_current_hash''\<rparr>,
      (index_on ''refresh_token_families'' [(''subjectType'', 1), (''subjectId'', 1), (''status'', 1)])
       \<lparr>ix_name := Some ''ix_refresh_token_family_subject_status''\<rparr>,
      (index_on ''refresh_token_families'' [(''lastRotationOperationId'', 1)])
       \<lparr>ix_sparse := True, ix_name := Some ''ix_refresh_token_family_last_rotation''\<rparr>,
      (index_on ''refresh_token_families'' [(''expiresAt'', 1)])
       \<lparr>ix_name := Some ''ttl_refresh_token_family'', ix_expireAfterSeconds := Some 0\<rparr>,
      (index_on ''refresh_token_replay_markers'' [(''tokenHash'', 1)])
       \<lparr>ix_unique := True, ix_name := Some ''uq_refresh_replay_marker_token_hash''\<rparr>,
      (index_on ''refresh_token_replay_markers'' [(''rotationOperationId'', 1)])
       \<lparr>ix_unique := True, ix_name := Some ''uq_refresh_replay_marker_rotation_operation''\<rparr>,
      (index_on ''refresh_token_replay_markers'' [(''familyId'', 1), (''expiresAt'', 1)])
       \<lparr>ix_name := Some ''ix_refresh_replay_marker_family_expiry''\<rparr>,
      (index_on ''refresh_token_replay_markers'' [(''status'', 1), (''leaseExpiresAt'', 1)])
       \<lparr>ix_name := Some ''ix_refresh_replay_marker_status_lease''\<rparr>,
      (index_on ''refresh_token_replay_markers'' [(''expiresAt'', 1)])
       \<lparr>ix_name := Some ''ttl_refresh_replay_marker'', ix_expireAfterSeconds := Some 0\<rparr>,
      (index_on ''auth_throttle_buckets'' [(''dimension'', 1), (''keyVersion'', 1), (''bucketKey'', 1)])
       \<lparr>ix_unique := True, ix_name := Some ''uq_auth_throttle_bucket_dimension_key''\<rparr>,
      (index_on ''auth_throttle_buckets'' [(''expiresAt'', 1)])
       \<lparr>ix_name := Some ''ttl_auth_throttle_bucket'', ix_expireAfterSeconds := Some 0\<rparr>,
      (index_on ''auth_throttle_buckets'' [(''dimension'', 1), (''expiresAt'', 1)])
       \<lparr>ix_name := Some ''ix_auth_throttle_bucket_dimension_expiry''\<rparr>,
      (index_on ''auth_throttle_buckets'' [(''keyVersion'', 1), (''expiresAt'', 1)])
       \<lparr>ix_name := Some ''ix_auth_throttle_bucket_key_version_expiry''\<rparr>,
      (index_on ''security_activity_events'' [(''eventId'', 1)])
       \<lparr>ix_unique := True, ix_sparse := True, ix_name := Some ''uq_security_activity_event_id''\<rparr>,
      (index_on ''security_activity_events'' [(''createdAt'', - 1)])
       \<lparr>ix_name := Some ''ix_security_activity_created''\<rparr>,
      (index_on ''security_activity_events'' [(''eventType'', 1), (''createdAt'', - 1)])
       \<lparr>ix_name := Some ''ix_security_activity_type_created''\<rparr>,
      (index_on ''security_activity_events'' [(''actorType'', 1), (''actorId'', 1), (''createdAt'', - 1)])
       \<lparr>ix_name := Some ''ix_security_activity_actor_created''\<rparr>,
      (index_on ''security_activity_events'' [(''subjectType'', 1), (''subjectId'', 1), (''createdAt'', - 1)])
       \<lparr>ix_name := Some ''ix_security_activity_subject_created''\<rparr>]"

definition AUTH_MIGRATION_REQUIRED_INDEXES :: "(string \<times> string list) list" where
  "AUTH_MIGRATION_REQUIRED_INDEXES =
     [(''auth_identifiers'', [''uq_auth_identifier_normalized'',
         ''ix_auth_identifier_pending_operation'',
         ''ix_auth_identifier_activation_gate'']),
      (''auth_identifier_operations'', [''uq_auth_identifier_operation_id'',
         ''uq_auth_identifier_operation_terminal_event'',
         ''ix_auth_identifier_operation_repair_key_policy'',
         ''ix_auth_identifier_operation_status_lease'',
         ''ttl_auth_identifier_operation'']),
      (''auth_identifier_repair_batches'', [''uq_auth_identifier_repair_batch_checkpoint'',
         ''ix_auth_identifier_repair_batch_parent_status'',
         ''ttl_auth_identifier_repair_batch'']),
      (''refresh_token_families'', [''uq_refresh_token_family_id'',
         ''uq_refresh_token_family_current_hash'',
         ''ix_refresh_token_family_last_rotation'',
         ''ttl_refresh_token_family'']),
      (''refresh_token_replay_markers'', [''uq_refresh_replay_marker_token_hash'',
         ''uq_refresh_replay_marker_rotation_operation'',
         ''ix_refresh_replay_marker_status_lease'',
         ''ttl_refresh_replay_marker'']),
      (''auth_throttle_buckets'', [''uq_auth_throttle_bucket_dimension_key'',
         ''ix_auth_throttle_bucket_key_version_expiry'',
         ''ttl_auth_throttle_bucket'']),
      (''security_activity_events'', [''uq_security_activity_event_id'',
         ''ix_security_activity_created''])]"

text \<open>The indexes of a collection that are not there; a collection that cannot be listed has none.\<close>

definition missing_of :: "string \<times> string list \<Rightarrow> (migration_db, string list) io" where
  "missing_of required =
     await (try_catch (read (\<lambda>db. map index_name (filter (\<lambda>x. ix_collection x = fst required) (md_indexes db))))
       (\<lambda>_. ret [])) (\<lambda>actualNames.
     ret (map (\<lambda>requiredName. fst required @ ''.'' @ requiredName)
       (filter (\<lambda>requiredName. requiredName \<notin> set actualNames) (snd required))))"

definition findMissingAuthMigrationIndexes :: "(migration_db, string list) io" where
  "findMissingAuthMigrationIndexes =
     await (map_io missing_of AUTH_MIGRATION_REQUIRED_INDEXES) (\<lambda>missing. ret (concat missing))"

definition createAuthIndexes :: "(migration_db, unit) io" where
  "createAuthIndexes = for_each auth_indexes createIndex"

subsection \<open>Candidates\<close>

record identifier_candidate =
  ic_normalizedIdentifier :: string
  ic_identifierType :: identifier_type
  ic_subjectType :: subject_type
  ic_subjectId :: string

definition migration_normalizeIdentifier :: "json option \<Rightarrow> string option" where
  "migration_normalizeIdentifier v =
     (case v of
        Some (JStr s) \<Rightarrow> (let normalized = to_lower (trim s) in if normalized \<noteq> [] then Some normalized else None)
      | _ \<Rightarrow> None)"

text \<open>\<^verbatim>\<open>Number.parseInt(text, 10)\<close>, \<open>None\<close> for \<^verbatim>\<open>NaN\<close>\<close>

definition parseInt :: "string \<Rightarrow> int option" where
  "parseInt s =
     (let t = dropWhile white_space s;
          negative = (t \<noteq> [] \<and> hd t = CHR ''-'');
          signed = (t \<noteq> [] \<and> hd t \<in> {CHR ''-'', CHR ''+''});
          digits = takeWhile digit (if signed then tl t else t) in
      if digits = [] then None
      else Some (if negative then - int (digits_value digits) else int (digits_value digits)))"

definition configuredMaxAssignments :: "auth_migration_env \<Rightarrow> nat" where
  "configuredMaxAssignments E =
     (case parseInt (case am_maxAssignments E of None \<Rightarrow> [] | Some s \<Rightarrow> s) of
        None \<Rightarrow> 20
      | Some n \<Rightarrow> if 2 \<le> n \<and> n \<le> 100 then nat n else 20)"

type_synonym candidate_groups = "(string \<times> (string \<times> identifier_candidate) list) list"

definition claimer_key :: "subject_type \<Rightarrow> string \<Rightarrow> string" where
  "claimer_key subjectType subjectId = subject_name subjectType @ '':'' @ subjectId"

definition addCandidate ::
  "json option \<Rightarrow> identifier_type \<Rightarrow> subject_type \<Rightarrow> string \<Rightarrow> candidate_groups \<Rightarrow> candidate_groups" where
  "addCandidate v identifierType subjectType subjectId groups =
     (case migration_normalizeIdentifier v of
        None \<Rightarrow> groups
      | Some normalizedIdentifier \<Rightarrow>
          (let candidate = \<lparr>ic_normalizedIdentifier = normalizedIdentifier, ic_identifierType = identifierType,
                 ic_subjectType = subjectType, ic_subjectId = subjectId\<rparr>;
               subjects = (case map_of groups normalizedIdentifier of None \<Rightarrow> [] | Some xs \<Rightarrow> xs);
               subjectKey = claimer_key subjectType subjectId in
           AList.update normalizedIdentifier
             (if subjectKey \<in> fst ` set subjects then subjects else subjects @ [(subjectKey, candidate)]) groups))"

definition candidateGroups :: "legacy_account list \<Rightarrow> legacy_account list \<Rightarrow> candidate_groups" where
  "candidateGroups staffDocuments memberDocuments =
     fold (\<lambda>m groups.
         addCandidate (la_memberNumber m) MemberNumberIdentifier MemberSubject (la_id m)
           (addCandidate (la_loginIdentifier m) LoginIdentifier MemberSubject (la_id m) groups)) memberDocuments
       (fold (\<lambda>s. addCandidate (la_email s) EmailIdentifier StaffSubject (la_id s)) staffDocuments [])"

subsection \<open>Reservation of the identifiers\<close>

definition sorted_candidates :: "auth_migration_env \<Rightarrow> (string \<times> identifier_candidate) list \<Rightarrow> identifier_candidate list" where
  "sorted_candidates E subjects =
     sort_by (\<lambda>a b. am_collate E (claimer_key (ic_subjectType a) (ic_subjectId a)) (claimer_key (ic_subjectType b) (ic_subjectId b)))
       (map snd subjects)"

definition migrationDocument :: "string \<Rightarrow> string \<Rightarrow> identifier_candidate list \<Rightarrow> nat \<Rightarrow> reservation" where
  "migrationDocument identifierId normalizedIdentifier claimers maxAssignments =
     (let primaryCandidate = hd claimers;
          isConflict = 1 < length claimers in
      \<lparr>i_id = identifierId, i_normalizedIdentifier = normalizedIdentifier,
       i_identifierType = ic_identifierType primaryCandidate,
       i_subjectType = (if isConflict then None else Some (ic_subjectType primaryCandidate)),
       i_subjectId = (if isConflict then None else Some (ic_subjectId primaryCandidate)),
       i_status = (if isConflict then IdentifierConflict else IdentifierActive),
       i_conflictingSubjects = (if isConflict
         then Some (map (\<lambda>c. \<lparr>s_subjectType = ic_subjectType c, s_subjectId = ic_subjectId c\<rparr>) claimers) else None),
       i_conflictResolutionStatus = (if isConflict
         then Some (if maxAssignments < length claimers then ManualRepairRequired else Reviewable) else None),
       i_pendingOperationId = None, i_activationGateOperationId = None, i_lastOperationId = None,
       i_pendingAction = None, i_releasedAt = None, i_createdBy = MIGRATION_ACTOR, i_updatedBy = MIGRATION_ACTOR\<rparr>)"

text \<open>\<^verbatim>\<open>updateMany\<close> with \<^verbatim>\<open>$setOnInsert\<close> and \<^verbatim>\<open>upsert\<close>: a document that matches is left as it is.\<close>

definition upsert_identifier :: "reservation \<Rightarrow> (migration_db, unit) io" where
  "upsert_identifier d = effect (one_write (\<lambda>db.
     if i_normalizedIdentifier d \<in> i_normalizedIdentifier ` set (md_identifiers db) then db
     else db\<lparr>md_identifiers := md_identifiers db @ [d]\<rparr>))"

definition conflict_event_id :: "string \<Rightarrow> string" where
  "conflict_event_id identifierId = ''migration-003-identifier-conflict:'' @ identifierId"

definition conflict_event :: "reservation \<Rightarrow> date \<Rightarrow> migration_db \<Rightarrow> security_event" where
  "conflict_event d now db =
     \<lparr>e_id = fresh_id e_id (md_events db), e_eventId = Some (conflict_event_id (i_id d)),
      e_eventType = IdentifierConflictDetected, e_actorType = SystemActor, e_actorId = None,
      e_targetType = Some ''auth-identifier'', e_targetId = Some (i_id d), e_subjectType = None, e_subjectId = None,
      e_outcome = OutcomeDenied,
      e_reasonCategory = Some (if i_conflictResolutionStatus d = Some ManualRepairRequired
        then ''legacy-identifier-conflict-oversized'' else ''legacy-identifier-conflict''),
      e_identifierCorrelationHash = None, e_correlationKeyVersion = None, e_operationId = None, e_context = JNull,
      e_createdAt = now\<rparr>"

definition upsert_conflict_event :: "reservation \<Rightarrow> date \<Rightarrow> (migration_db, unit) io" where
  "upsert_conflict_event d now = effect (one_write (\<lambda>db.
     if Some (conflict_event_id (i_id d)) \<in> e_eventId ` set (md_events db) then db
     else db\<lparr>md_events := md_events db @ [conflict_event d now db]\<rparr>))"

definition backfill_identifier ::
  "auth_migration_env \<Rightarrow> date \<Rightarrow> (string \<rightharpoonup> reservation) \<Rightarrow> candidate_groups \<Rightarrow> string \<Rightarrow> (migration_db, unit) io" where
  "backfill_identifier E migrationStartedAt existingByIdentifier groups normalizedIdentifier =
     (let claimers = sorted_candidates E (the (map_of groups normalizedIdentifier)) in
      await (asks (\<lambda>db. case existingByIdentifier normalizedIdentifier of
        Some existing \<Rightarrow> i_id existing | None \<Rightarrow> fresh_id i_id (md_identifiers db))) (\<lambda>identifierId.
      let d = migrationDocument identifierId normalizedIdentifier claimers (configuredMaxAssignments E) in
      await (upsert_identifier d) (\<lambda>_.
      whenM (1 < length claimers) (upsert_conflict_event d migrationStartedAt))))"

definition backfillAuthIdentifiers :: "auth_migration_env \<Rightarrow> date \<Rightarrow> (migration_db, unit) io" where
  "backfillAuthIdentifiers E migrationStartedAt =
     await (read (\<lambda>db. sort_by (\<lambda>a b. code_le (la_id a) (la_id b)) (md_staffUsers db))) (\<lambda>staffDocuments.
     await (read (\<lambda>db. sort_by (\<lambda>a b. code_le (la_id a) (la_id b)) (md_members db))) (\<lambda>memberDocuments.
     await (read (\<lambda>db. sort_by (\<lambda>a b. code_le (i_normalizedIdentifier a) (i_normalizedIdentifier b)) (md_identifiers db))) (\<lambda>existingIdentifiers.
     let groups = candidateGroups staffDocuments memberDocuments;
         existingByIdentifier = map_of (rev (map (\<lambda>d. (i_normalizedIdentifier d, d)) existingIdentifiers)) in
     for_each (sort_by code_le (map fst groups))
       (backfill_identifier E migrationStartedAt existingByIdentifier groups))))"

subsection \<open>The migration\<close>

definition revoke_active_families :: "date \<Rightarrow> (migration_db, unit) io" where
  "revoke_active_families migrationStartedAt = effect (\<lambda>k db. db\<lparr>md_families :=
     update_upto k (\<lambda>f. f_status f = FamilyActive)
       (\<lambda>f. f\<lparr>f_status := FamilyRevoked, f_revokedAt := Some migrationStartedAt,
         f_revokedReason := Some ''security-upgrade-reauth'', f_currentTokenHash := None, f_previousTokenHash := None\<rparr>)
       (md_families db)\<rparr>)"

definition forget_token_hashes :: "(migration_db, unit) io" where
  "forget_token_hashes = effect (\<lambda>k db. db\<lparr>md_families :=
     update_upto k (\<lambda>_. True) (\<lambda>f. f\<lparr>f_currentTokenHash := None, f_previousTokenHash := None\<rparr>) (md_families db)\<rparr>)"

definition version_account :: "legacy_account \<Rightarrow> legacy_account" where
  "version_account a = a\<lparr>la_authVersion := Some 0\<rparr>"

definition version_staff :: "(migration_db, unit) io" where
  "version_staff = effect (\<lambda>k db. db\<lparr>md_staffUsers :=
     update_upto k (\<lambda>a. la_authVersion a = None) version_account (md_staffUsers db)\<rparr>)"

definition date_passwords :: "date \<Rightarrow> (migration_db, unit) io" where
  "date_passwords migrationStartedAt = effect (\<lambda>k db. db\<lparr>md_staffUsers :=
     update_upto k (\<lambda>a. la_passwordHash a \<noteq> None \<and> la_passwordUpdatedAt a = None)
       (\<lambda>a. a\<lparr>la_passwordUpdatedAt := Some migrationStartedAt\<rparr>) (md_staffUsers db)\<rparr>)"

definition version_members :: "(migration_db, unit) io" where
  "version_members = effect (\<lambda>k db. db\<lparr>md_members :=
     update_upto k (\<lambda>a. la_authVersion a = None) version_account (md_members db)\<rparr>)"

definition migration_003_up :: "auth_migration_env \<Rightarrow> (migration_db, unit) io" where
  "migration_003_up E =
     await (asks md_now) (\<lambda>migrationStartedAt.
     await (revoke_active_families migrationStartedAt) (\<lambda>_.
     await forget_token_hashes (\<lambda>_.
     await version_staff (\<lambda>_.
     await (date_passwords migrationStartedAt) (\<lambda>_.
     await (for_each staff_identity_indexes createIndex) (\<lambda>_.
     await version_members (\<lambda>_.
     await (for_each member_identity_indexes createIndex) (\<lambda>_.
     await createAuthIndexes (\<lambda>_.
     backfillAuthIdentifiers E migrationStartedAt)))))))))"

definition migration_003 :: "auth_migration_env \<Rightarrow> migration_definition" where
  "migration_003 E =
     \<lparr>mg_version = ''003'', mg_name = ''auth-roles-permissions'',
      mg_rollbackNotes =
       [''Legacy refresh-family revocation is irreversible: rollback must never restore currentTokenHash, previousTokenHash, or reactivate sessions revoked with security-upgrade-reauth.'',
        ''Remove only auth_identifiers whose createdBy is '' @ MIGRATION_ACTOR @ '', and only after verifying the referenced account still owns the original normalized identifier; never rewrite account, borrowing, staff-action, or security-event history.'',
        ''Drop identifier, operation, repair-batch, throttle, and replay-marker indexes only after all upgraded authentication writers and reconciliation workers are disabled.'',
        ''Drop authVersion, passwordUpdatedAt, and identity-link fields only after all upgraded access credentials have expired or been revoked.'',
        ''Drop security_activity_events indexes and collection only after audit review requirements are replaced by another durable activity source.''],
      mg_up = migration_003_up E\<rparr>"

subsection \<open>The claims of the accounts\<close>

text \<open>The identifiers that the accounts claim, with the account, and the accounts that claim one.\<close>

definition claims_of :: "json option \<Rightarrow> subject_type \<Rightarrow> string \<Rightarrow> (string \<times> subject_type \<times> string) list" where
  "claims_of v t i = (case migration_normalizeIdentifier v of None \<Rightarrow> [] | Some n \<Rightarrow> [(n, t, i)])"

definition account_claims :: "legacy_account list \<Rightarrow> legacy_account list \<Rightarrow> (string \<times> subject_type \<times> string) list" where
  "account_claims staff mems =
     concat (map (\<lambda>a. claims_of (la_email a) StaffSubject (la_id a)) staff) @
     concat (map (\<lambda>a. claims_of (la_loginIdentifier a) MemberSubject (la_id a) @
       claims_of (la_memberNumber a) MemberSubject (la_id a)) mems)"

definition claims :: "migration_db \<Rightarrow> (string \<times> subject_type \<times> string) list" where
  "claims db = account_claims (md_staffUsers db) (md_members db)"

definition subjects_of :: "(string \<times> subject_type \<times> string) list \<Rightarrow> string \<Rightarrow> (subject_type \<times> string) set" where
  "subjects_of C n = snd ` set (filter (\<lambda>(m, s). m = n) C)"

lemma in_subjects_of: "s \<in> subjects_of C n \<longleftrightarrow> (n, s) \<in> set C"
  by (force simp: subjects_of_def)

lemma subjects_of_append [simp]: "subjects_of (C @ D) n = subjects_of C n \<union> subjects_of D n"
  by (auto simp: in_subjects_of)

lemma subjects_of_Nil [simp]: "subjects_of [] n = {}"
  by (auto simp: in_subjects_of)

lemma subjects_of_set: "set C = set D \<Longrightarrow> subjects_of C n = subjects_of D n"
  by (auto simp: in_subjects_of)

lemma claimer_key_inject: "claimer_key t i = claimer_key u j \<longleftrightarrow> t = u \<and> i = j"
  by (cases t; cases u) (auto simp: claimer_key_def)

definition candidate_subject :: "identifier_candidate \<Rightarrow> subject_type \<times> string" where
  "candidate_subject c = (ic_subjectType c, ic_subjectId c)"

text \<open>The claimers of an identifier: one for each account that claims it.\<close>

definition entries_ok ::
  "(string \<times> subject_type \<times> string) list \<Rightarrow> string \<Rightarrow> (string \<times> identifier_candidate) list \<Rightarrow> bool" where
  "entries_ok C n xs \<longleftrightarrow> xs \<noteq> [] \<and> distinct (map fst xs) \<and>
     (\<forall>(k, c)\<in>set xs. k = claimer_key (ic_subjectType c) (ic_subjectId c)) \<and>
     candidate_subject ` snd ` set xs = subjects_of C n"

definition groups_ok :: "(string \<times> subject_type \<times> string) list \<Rightarrow> candidate_groups \<Rightarrow> bool" where
  "groups_ok C g \<longleftrightarrow> distinct (map fst g) \<and>
     (\<forall>n. case map_of g n of None \<Rightarrow> subjects_of C n = {} | Some xs \<Rightarrow> entries_ok C n xs)"

lemma groups_ok_cong: "set C = set D \<Longrightarrow> groups_ok C g \<Longrightarrow> groups_ok D g"
  using subjects_of_set [of C D] by (simp add: groups_ok_def entries_ok_def cong: option.case_cong)

lemma entries_key:
  assumes "entries_ok C n xs"
  shows "claimer_key t i \<in> fst ` set xs \<longleftrightarrow> (t, i) \<in> subjects_of C n"
proof -
  have key: "fst x = claimer_key (ic_subjectType (snd x)) (ic_subjectId (snd x))" if "x \<in> set xs" for x
    using assms that by (auto simp: entries_ok_def)
  have "claimer_key t i \<in> fst ` set xs \<longleftrightarrow> (\<exists>x\<in>set xs. candidate_subject (snd x) = (t, i))"
    unfolding image_iff by (intro bex_cong refl) (simp add: key claimer_key_inject candidate_subject_def, blast)
  also have "\<dots> \<longleftrightarrow> (t, i) \<in> candidate_subject ` snd ` set xs" by (force simp: image_iff)
  finally show ?thesis using assms by (simp add: entries_ok_def)
qed

lemma groups_ok_update:
  assumes "distinct (map fst g)" and "entries_ok C n new"
    and "\<And>m. m \<noteq> n \<Longrightarrow> case map_of g m of None \<Rightarrow> subjects_of C m = {} | Some xs \<Rightarrow> entries_ok C m xs"
  shows "groups_ok C (AList.update n new g)"
  using assms by (auto simp: groups_ok_def distinct_update update_conv')

lemma addCandidate_ok:
  assumes "groups_ok C g"
  shows "groups_ok (C @ claims_of v t i) (addCandidate v ty t i g)"
proof (cases "migration_normalizeIdentifier v")
  case None
  then show ?thesis using assms by (simp add: addCandidate_def claims_of_def)
next
  case (Some n)
  let ?c = "\<lparr>ic_normalizedIdentifier = n, ic_identifierType = ty, ic_subjectType = t, ic_subjectId = i\<rparr>"
  let ?old = "case map_of g n of None \<Rightarrow> [] | Some xs \<Rightarrow> xs"
  let ?new = "if claimer_key t i \<in> fst ` set ?old then ?old else ?old @ [(claimer_key t i, ?c)]"
  have add: "addCandidate v ty t i g = AList.update n ?new g"
    using Some by (simp add: addCandidate_def Let_def)
  have C: "subjects_of (C @ claims_of v t i) m = (if m = n then insert (t, i) (subjects_of C n) else subjects_of C m)" for m
    using Some by (auto simp: claims_of_def in_subjects_of)
  have "entries_ok (C @ claims_of v t i) n ?new"
  proof (cases "map_of g n")
    case None
    then have "subjects_of C n = {}" using assms unfolding groups_ok_def by (metis option.simps(4))
    with None show ?thesis by (simp add: entries_ok_def candidate_subject_def C del: subjects_of_append)
  next
    case (Some xs)
    then have xs: "entries_ok C n xs" using assms unfolding groups_ok_def by (metis option.simps(5))
    with Some entries_key [OF xs, of t i] show ?thesis
      by (auto simp: entries_ok_def candidate_subject_def C simp del: subjects_of_append)
  qed
  moreover have "case map_of g m of None \<Rightarrow> subjects_of (C @ claims_of v t i) m = {}
      | Some xs \<Rightarrow> entries_ok (C @ claims_of v t i) m xs" if "m \<noteq> n" for m
  proof -
    have same: "subjects_of (C @ claims_of v t i) m = subjects_of C m" using that by (simp only: C if_False)
    show ?thesis using assms unfolding groups_ok_def entries_ok_def same by blast
  qed
  ultimately show ?thesis
    unfolding add using assms by (intro groups_ok_update) (simp_all only: groups_ok_def)
qed

lemma candidateGroups_ok: "groups_ok (account_claims staff mems) (candidateGroups staff mems)"
proof -
  have step: "groups_ok (C @ concat (map (\<lambda>a. claims_of (la_email a) StaffSubject (la_id a)) staff))
      (fold (\<lambda>s. addCandidate (la_email s) EmailIdentifier StaffSubject (la_id s)) staff g)" if "groups_ok C g" for C g
    using that by (induction staff arbitrary: C g) (simp_all flip: append_assoc add: addCandidate_ok)
  have "groups_ok (C @ concat (map (\<lambda>a. claims_of (la_loginIdentifier a) MemberSubject (la_id a) @
       claims_of (la_memberNumber a) MemberSubject (la_id a)) mems))
      (fold (\<lambda>m groups. addCandidate (la_memberNumber m) MemberNumberIdentifier MemberSubject (la_id m)
           (addCandidate (la_loginIdentifier m) LoginIdentifier MemberSubject (la_id m) groups)) mems g)"
    if "groups_ok C g" for C g
    using that by (induction mems arbitrary: C g) (simp_all flip: append_assoc add: addCandidate_ok)
  from this [OF step [of "[]" "[]"]] show ?thesis
    by (simp add: account_claims_def candidateGroups_def groups_ok_def)
qed

subsection \<open>What the migration brings about\<close>

text \<open>A reservation that accounts for the claims to its identifier.\<close>

definition document_right :: "auth_migration_env \<Rightarrow> (string \<times> subject_type \<times> string) list \<Rightarrow> reservation \<Rightarrow> bool" where
  "document_right E C d \<longleftrightarrow>
     (let S = subjects_of C (i_normalizedIdentifier d) in
      if card S = 1
      then i_status d = IdentifierActive \<and> i_conflictingSubjects d = None \<and>
        (\<exists>s\<in>S. i_subjectType d = Some (fst s) \<and> i_subjectId d = Some (snd s))
      else i_status d = IdentifierConflict \<and> i_subjectType d = None \<and> i_subjectId d = None \<and>
        i_conflictResolutionStatus d =
          Some (if configuredMaxAssignments E < card S then ManualRepairRequired else Reviewable) \<and>
        (case i_conflictingSubjects d of
           None \<Rightarrow> False
         | Some xs \<Rightarrow> length xs = card S \<and> (\<lambda>x. (s_subjectType x, s_subjectId x)) ` set xs = S))"

lemma entries_card:
  assumes "entries_ok C n xs"
  shows "card (subjects_of C n) = length xs"
proof -
  have "map fst xs = map (\<lambda>(t, i). claimer_key t i) (map (candidate_subject \<circ> snd) xs)"
    using assms by (force simp: entries_ok_def candidate_subject_def)
  then have "distinct (map (candidate_subject \<circ> snd) xs)"
    using assms by (metis distinct_map entries_ok_def)
  from distinct_card [OF this] show ?thesis
    using assms by (simp add: entries_ok_def image_image)
qed

lemma migrationDocument_right:
  assumes "entries_ok C n xs"
  shows "document_right E C (migrationDocument i n (sorted_candidates E xs) (configuredMaxAssignments E))"
    and "i_normalizedIdentifier (migrationDocument i n (sorted_candidates E xs) m) = n"
    and "length (sorted_candidates E xs) = card (subjects_of C n)"
proof -
  let ?cs = "sorted_candidates E xs"
  have mset: "mset ?cs = mset (map snd xs)" by (simp add: sorted_candidates_def)
  have set: "set ?cs = snd ` set xs" using mset_eq_setD [OF mset] by simp
  show len: "length ?cs = card (subjects_of C n)"
    using mset_eq_length [OF mset] entries_card [OF assms] by simp
  have subjects: "(\<lambda>c. (ic_subjectType c, ic_subjectId c)) ` set ?cs = subjects_of C n"
    using assms by (simp add: set entries_ok_def candidate_subject_def [abs_def])
  have "?cs \<noteq> []" using assms set by (auto simp: entries_ok_def)
  then have "(ic_subjectType (hd ?cs), ic_subjectId (hd ?cs)) \<in> subjects_of C n"
    unfolding subjects [symmetric] by simp
  moreover have "length ?cs \<noteq> 0" using \<open>?cs \<noteq> []\<close> by simp
  ultimately show "document_right E C (migrationDocument i n ?cs (configuredMaxAssignments E))"
    unfolding document_right_def migrationDocument_def Let_def
    by (auto simp: image_image subjects le_Suc_eq not_less intro!: bexI [rotated] simp flip: len)
  show "i_normalizedIdentifier (migrationDocument i n ?cs m) = n"
    by (simp add: migrationDocument_def Let_def)
qed

definition sound_identifiers :: "auth_migration_env \<Rightarrow> migration_db \<Rightarrow> bool" where
  "sound_identifiers E db \<longleftrightarrow> distinct (map i_normalizedIdentifier (md_identifiers db)) \<and>
     (\<forall>d\<in>set (md_identifiers db). i_createdBy d = MIGRATION_ACTOR \<longrightarrow> document_right E (claims db) d)"

definition covered :: "migration_db \<Rightarrow> string \<Rightarrow> bool" where
  "covered db n \<longleftrightarrow> (\<exists>d\<in>set (md_identifiers db). i_normalizedIdentifier d = n \<and>
     (1 < card (subjects_of (claims db) n) \<longrightarrow> Some (conflict_event_id (i_id d)) \<in> e_eventId ` set (md_events db)))"

definition none_active :: "migration_db \<Rightarrow> bool" where
  "none_active db \<longleftrightarrow> (\<forall>f\<in>set (md_families db). f_status f \<noteq> FamilyActive)"

definition no_hashes :: "migration_db \<Rightarrow> bool" where
  "no_hashes db \<longleftrightarrow> (\<forall>f\<in>set (md_families db). f_currentTokenHash f = None \<and> f_previousTokenHash f = None)"

definition staff_versioned :: "migration_db \<Rightarrow> bool" where
  "staff_versioned db \<longleftrightarrow> (\<forall>a\<in>set (md_staffUsers db). la_authVersion a \<noteq> None)"

definition members_versioned :: "migration_db \<Rightarrow> bool" where
  "members_versioned db \<longleftrightarrow> (\<forall>a\<in>set (md_members db). la_authVersion a \<noteq> None)"

definition indexed :: "index_spec list \<Rightarrow> migration_db \<Rightarrow> bool" where
  "indexed xs db \<longleftrightarrow> set xs \<subseteq> set (md_indexes db)"

definition backfilled :: "migration_db \<Rightarrow> bool" where
  "backfilled db \<longleftrightarrow> (\<forall>(n, s)\<in>set (claims db). covered db n)"

subsection \<open>Writes of the migrations\<close>

definition family_wanes :: "legacy_family \<Rightarrow> legacy_family \<Rightarrow> bool" where
  "family_wanes f g \<longleftrightarrow> (f_status g = FamilyActive \<longrightarrow> f_status f = FamilyActive) \<and>
     f_currentTokenHash g \<in> {None, f_currentTokenHash f} \<and> f_previousTokenHash g \<in> {None, f_previousTokenHash f}"

definition account_grows :: "legacy_account \<Rightarrow> legacy_account \<Rightarrow> bool" where
  "account_grows a b \<longleftrightarrow> la_id b = la_id a \<and> la_email b = la_email a \<and> la_loginIdentifier b = la_loginIdentifier a \<and>
     la_memberNumber b = la_memberNumber a \<and> (la_authVersion a \<noteq> None \<longrightarrow> la_authVersion b \<noteq> None)"

text \<open>The single writes of the migrations, and the predicates that none of them makes false.\<close>

inductive migration_write :: "auth_migration_env \<Rightarrow> migration_db \<Rightarrow> migration_db \<Rightarrow> bool" for E where
  clock: "migration_write E db (db\<lparr>md_faults := rest, md_now := now\<rparr>)"
| index: "migration_write E db (db\<lparr>md_indexes := md_indexes db @ [x]\<rparr>)"
| families: "list_all2 family_wanes (md_families db) fs \<Longrightarrow> migration_write E db (db\<lparr>md_families := fs\<rparr>)"
| staff: "list_all2 account_grows (md_staffUsers db) as \<Longrightarrow> migration_write E db (db\<lparr>md_staffUsers := as\<rparr>)"
| members: "list_all2 account_grows (md_members db) as \<Longrightarrow> migration_write E db (db\<lparr>md_members := as\<rparr>)"
| reservation: "i_normalizedIdentifier d \<notin> i_normalizedIdentifier ` set (md_identifiers db) \<Longrightarrow>
    document_right E (claims db) d \<Longrightarrow> migration_write E db (db\<lparr>md_identifiers := md_identifiers db @ [d]\<rparr>)"
| event: "migration_write E db (db\<lparr>md_events := md_events db @ [e]\<rparr>)"

definition stable :: "auth_migration_env \<Rightarrow> (migration_db \<Rightarrow> bool) \<Rightarrow> bool" where
  "stable E I \<longleftrightarrow> (\<forall>db db'. migration_write E db db' \<longrightarrow> I db \<longrightarrow> I db')"

lemma stableI: "(\<And>db db'. migration_write E db db' \<Longrightarrow> I db \<Longrightarrow> I db') \<Longrightarrow> stable E I"
  by (simp add: stable_def)

lemma stableD: "stable E I \<Longrightarrow> migration_write E db db' \<Longrightarrow> I db \<Longrightarrow> I db'"
  by (simp add: stable_def)

lemma stable_timeless:
  assumes "stable E I"
  shows "timeless I"
proof -
  have "I (db\<lparr>md_faults := rest, md_now := now\<rparr>) = I db" for db rest now
  proof
    show "I (db\<lparr>md_faults := rest, md_now := now\<rparr>)" if "I db" by (rule stableD [OF assms migration_write.clock that])
    show "I db" if "I (db\<lparr>md_faults := rest, md_now := now\<rparr>)"
      using stableD [OF assms migration_write.clock that, of "md_now db" "md_faults db"] by simp
  qed
  then show ?thesis unfolding timeless_def by (intro allI)
qed

lemma stable_conj: "stable E I \<Longrightarrow> stable E J \<Longrightarrow> stable E (\<lambda>db. I db \<and> J db)"
  unfolding stable_def by blast

lemma stable_ball: "(\<And>x. stable E (J x)) \<Longrightarrow> stable E (\<lambda>db. \<forall>x\<in>A. J x db)"
  unfolding stable_def by blast

lemma stable_ex: "(\<And>x. stable E (J x)) \<Longrightarrow> stable E (\<lambda>db. \<exists>x. J x db)"
  unfolding stable_def by blast

lemma grows_claims:
  assumes "list_all2 account_grows xs ys"
  shows "account_claims ys mems = account_claims xs mems" and "account_claims staff ys = account_claims staff xs"
  using assms by (induction rule: list_all2_induct) (simp_all add: account_claims_def account_grows_def)

lemma claims_simps [simp]:
  "claims (db\<lparr>md_faults := rest\<rparr>) = claims db" "claims (db\<lparr>md_now := now\<rparr>) = claims db"
  "claims (db\<lparr>md_indexes := xs\<rparr>) = claims db" "claims (db\<lparr>md_families := fs\<rparr>) = claims db"
  "claims (db\<lparr>md_identifiers := ds\<rparr>) = claims db" "claims (db\<lparr>md_events := es\<rparr>) = claims db"
  "claims (db\<lparr>md_records := rs\<rparr>) = claims db"
  by (simp_all add: claims_def)

lemma claims_grow:
  "list_all2 account_grows (md_staffUsers db) as \<Longrightarrow> claims (db\<lparr>md_staffUsers := as\<rparr>) = claims db"
  "list_all2 account_grows (md_members db) as \<Longrightarrow> claims (db\<lparr>md_members := as\<rparr>) = claims db"
  by (simp_all add: claims_def grows_claims)

lemma list_all2_kept:
  assumes "list_all2 R xs ys" and "\<forall>x\<in>set xs. P x" and "\<And>x y. R x y \<Longrightarrow> P x \<Longrightarrow> P y"
  shows "\<forall>y\<in>set ys. P y"
  using assms by (induction rule: list_all2_induct) auto

lemma stable_claims: "stable E (\<lambda>db. claims db = C)"
  by (rule stableI, erule migration_write.cases) (auto simp: claims_grow)

lemma stable_records: "stable E (\<lambda>db. md_records db = rs)"
  by (rule stableI, erule migration_write.cases) auto

lemma stable_indexed: "stable E (indexed xs)"
  by (rule stableI, erule migration_write.cases) (auto simp: indexed_def)

lemma stable_none_active: "stable E none_active"
  by (rule stableI, erule migration_write.cases)
    (auto simp: none_active_def family_wanes_def dest!: list_all2_kept [where P = "\<lambda>f. f_status f \<noteq> FamilyActive"])

lemma stable_no_hashes: "stable E no_hashes"
  by (rule stableI, erule migration_write.cases)
    (auto simp: no_hashes_def family_wanes_def
      dest!: list_all2_kept [where P = "\<lambda>f. f_currentTokenHash f = None \<and> f_previousTokenHash f = None"])

lemma stable_versioned: "stable E staff_versioned" "stable E members_versioned"
  by (rule stableI, erule migration_write.cases;
      auto simp: staff_versioned_def members_versioned_def account_grows_def
        dest!: list_all2_kept [where P = "\<lambda>a. la_authVersion a \<noteq> None"])+

lemma stable_covered: "stable E (\<lambda>db. covered db n)"
  by (rule stableI, erule migration_write.cases) (auto simp: covered_def claims_grow)

lemma stable_backfilled: "stable E backfilled"
proof -
  have "stable E (\<lambda>db. \<exists>C. claims db = C \<and> (\<forall>n\<in>fst ` set C. covered db n))"
    by (intro stable_ex stable_conj stable_claims stable_ball stable_covered)
  moreover have "backfilled = (\<lambda>db. \<exists>C. claims db = C \<and> (\<forall>n\<in>fst ` set C. covered db n))"
    by (simp add: backfilled_def fun_eq_iff split_beta)
  ultimately show ?thesis by simp
qed

lemma stable_sound: "stable E (sound_identifiers E)"
  by (rule stableI, erule migration_write.cases) (auto simp: sound_identifiers_def claims_grow)

subsection \<open>The steps of the migration\<close>

lemma keeps_write:
  assumes "stable E I" and "\<And>k db. I db \<Longrightarrow> migration_write E db (f k db)"
  shows "keeps I (effect f)"
  by (rule keeps_effect [OF stable_timeless [OF assms(1)]]) (rule stableD [OF assms(1) assms(2)])

lemma update_upto_related:
  "(\<And>d. R d d) \<Longrightarrow> (\<And>d. p d \<Longrightarrow> R d (g d)) \<Longrightarrow> list_all2 R ds (update_upto k p g ds)"
  by (induction ds arbitrary: k) (auto simp: list_all2_same)

lemma family_wanes_refl [simp]: "family_wanes f f"
  by (simp add: family_wanes_def)

lemma account_grows_refl [simp]: "account_grows a a"
  by (simp add: account_grows_def)

lemma keeps_steps:
  assumes "stable E I"
  shows "keeps I (revoke_active_families t)" and "keeps I forget_token_hashes" and "keeps I version_staff"
    and "keeps I (date_passwords t)" and "keeps I version_members"
  unfolding revoke_active_families_def forget_token_hashes_def version_staff_def date_passwords_def version_members_def
  by (auto intro!: keeps_write [OF assms] migration_write.intros update_upto_related
      simp: family_wanes_def account_grows_def version_account_def)

lemma keeps_indexes:
  assumes "stable E I"
  shows "keeps I (for_each xs createIndex)"
  by (intro keeps_for_each keeps_createIndex stable_timeless [OF assms]) (rule stableD [OF assms migration_write.index])

lemma wp_indexes:
  assumes "stable E I" and "I db"
  shows "wp (for_each xs createIndex) (\<lambda>_ db. I db \<and> indexed xs db) (\<lambda>_. I) db"
  using assms
proof (induction xs arbitrary: I db)
  case (Cons x xs)
  have "stable E (\<lambda>db. I db \<and> indexed [x] db)" by (rule stable_conj [OF Cons.prems(1) stable_indexed])
  from Cons.IH [OF this]
  have "wp (for_each xs createIndex) (\<lambda>_ db. I db \<and> indexed (x # xs) db) (\<lambda>_. I) db'"
    if "I db'" "x \<in> set (md_indexes db')" for db'
    by (rule wp_mono) (use that in \<open>auto simp: indexed_def\<close>)
  with wp_createIndex [OF stable_timeless [OF Cons.prems(1)] Cons.prems(2) stableD [OF Cons.prems(1) migration_write.index], of x]
  show ?case by (auto elim!: wp_mono)
qed (simp add: indexed_def)

text \<open>What was read of the reservations still holds for an identifier.\<close>

definition known :: "(string \<rightharpoonup> reservation) \<Rightarrow> migration_db \<Rightarrow> string \<Rightarrow> bool" where
  "known existing db n \<longleftrightarrow> (case existing n of
     Some d \<Rightarrow> d \<in> set (md_identifiers db) \<and> i_normalizedIdentifier d = n
   | None \<Rightarrow> n \<notin> i_normalizedIdentifier ` set (md_identifiers db))"

lemma wp_backfill_identifier:
  assumes "stable E I" and "I db" and "claims db = C" and "\<forall>m\<in>insert n M. known existing db m" and "n \<notin> M"
    and "map_of g n = Some xs" and "entries_ok C n xs"
  shows "wp (backfill_identifier E t existing g n)
    (\<lambda>_ db'. I db' \<and> covered db' n \<and> claims db' = C \<and> (\<forall>m\<in>M. known existing db' m)) (\<lambda>_. I) db"
proof -
  let ?cs = "sorted_candidates E xs"
  define i where "i = (case existing n of Some e \<Rightarrow> i_id e | None \<Rightarrow> fresh_id i_id (md_identifiers db))"
  define d where "d = migrationDocument i n ?cs (configuredMaxAssignments E)"
  have d: "document_right E C d" "i_normalizedIdentifier d = n" "i_id d = i" "length ?cs = card (subjects_of C n)"
    using migrationDocument_right [OF assms(7)] by (simp_all add: d_def) (simp add: migrationDocument_def Let_def)
  let ?P = "\<lambda>db. I db \<and> claims db = C \<and> (\<forall>m\<in>insert n M. known existing db m)"
  let ?R = "\<lambda>db. I db \<and> claims db = C \<and> (\<forall>m\<in>M. known existing db m) \<and>
      (\<exists>d'\<in>set (md_identifiers db). i_normalizedIdentifier d' = n \<and> i_id d' = i)"
  have tP: "timeless ?P" and tR: "timeless ?R"
    using stable_timeless [OF assms(1)] by (simp_all add: timeless_def known_def cong: option.case_cong)
  have insert: "?R (if i_normalizedIdentifier d \<in> i_normalizedIdentifier ` set (md_identifiers db') then db'
      else db'\<lparr>md_identifiers := md_identifiers db' @ [d]\<rparr>)" if P: "?P db'" for db'
  proof (cases "existing n")
    case None
    then have "n \<notin> i_normalizedIdentifier ` set (md_identifiers db')" using P by (simp add: known_def)
    moreover have "I (db'\<lparr>md_identifiers := md_identifiers db' @ [d]\<rparr>)"
      using P d calculation by (intro stableD [OF assms(1) migration_write.reservation]) auto
    ultimately show ?thesis
      using P d assms(5) by (auto simp: known_def split: option.splits)
  next
    case (Some e)
    then have "e \<in> set (md_identifiers db')" "i_normalizedIdentifier e = n" "i_id e = i"
      using P by (auto simp: known_def i_def)
    then show ?thesis using P d by auto
  qed
  have "wp (upsert_identifier d) (\<lambda>_. ?R) (\<lambda>_. I) db"
    unfolding upsert_identifier_def
    by (rule wp_one_write [OF tP]) (use assms(2-4) insert in blast)+
  moreover have rest: "wp (whenM (1 < length ?cs) (upsert_conflict_event d t))
    (\<lambda>_ db'. I db' \<and> covered db' n \<and> claims db' = C \<and> (\<forall>m\<in>M. known existing db' m)) (\<lambda>_. I) db'" if "?R db'" for db'
  proof (cases "1 < length ?cs")
    case True
    have event: "I (db'\<lparr>md_events := md_events db' @ [e]\<rparr>)" if "I db'" for db' e
      by (rule stableD [OF assms(1) migration_write.event that])
    have "wp (upsert_conflict_event d t)
      (\<lambda>_ db'. I db' \<and> covered db' n \<and> claims db' = C \<and> (\<forall>m\<in>M. known existing db' m)) (\<lambda>_. I) db'"
      unfolding upsert_conflict_event_def
      by (rule wp_one_write [OF tR \<open>?R db'\<close>])
        (auto simp: event d(3) covered_def known_def conflict_event_def cong: option.case_cong)
    with True show ?thesis by simp
  next
    case False
    with d(4) that show ?thesis by (auto simp: covered_def)
  qed
  ultimately show ?thesis
    unfolding backfill_identifier_def assms(6) option.sel Let_def wp_await wp_asks i_def [symmetric] d_def [symmetric]
    by (rule wp_mono)
qed

lemma wp_backfill_identifiers:
  assumes "stable E I" and "I db" and "claims db = C" and "\<forall>m\<in>set ns. known existing db m" and "distinct ns"
    and "\<forall>n\<in>set ns. \<exists>xs. map_of g n = Some xs \<and> entries_ok C n xs"
  shows "wp (for_each ns (backfill_identifier E t existing g)) (\<lambda>_ db'. I db' \<and> (\<forall>n\<in>set ns. covered db' n)) (\<lambda>_. I) db"
  using assms
proof (induction ns arbitrary: I db)
  case (Cons n ns)
  from Cons.prems(6) obtain xs where xs: "map_of g n = Some xs" "entries_ok C n xs" by auto
  have "stable E (\<lambda>db. I db \<and> covered db n)" by (rule stable_conj [OF Cons.prems(1) stable_covered])
  note IH = Cons.IH [OF this]
  have rest: "wp (for_each ns (backfill_identifier E t existing g)) (\<lambda>_ db'. I db' \<and> (\<forall>n\<in>set (n # ns). covered db' n)) (\<lambda>_. I) db'"
    if "I db' \<and> covered db' n \<and> claims db' = C \<and> (\<forall>m\<in>set ns. known existing db' m)" for db'
    by (rule wp_mono [OF IH]) (use that Cons.prems(5,6) in auto)
  show ?case
    unfolding for_each.simps wp_await
    by (rule wp_mono [OF wp_backfill_identifier [OF Cons.prems(1-3) _ _ xs, where M = "set ns"]])
      (use Cons.prems rest in auto)
qed simp

lemma set_sorted [simp]: "set (sort_by le xs) = set xs"
  by (rule mset_eq_setD) simp

lemma distinct_sorted [simp]: "distinct (sort_by le xs) = distinct xs"
  by (rule mset_eq_imp_distinct_iff) simp

lemma account_claims_sorted: "set (account_claims (sort_by le xs) (sort_by le ys)) = set (account_claims xs ys)"
  by (simp add: account_claims_def)

lemma groups_entry:
  assumes "groups_ok C g" and "n \<in> fst ` set g"
  shows "\<exists>xs. map_of g n = Some xs \<and> entries_ok C n xs"
proof -
  obtain xs where "map_of g n = Some xs" using assms(2) by (metis map_of_eq_None_iff not_None_eq)
  with assms(1) show ?thesis unfolding groups_ok_def by (metis option.simps(5))
qed

lemma groups_names:
  assumes "groups_ok C g"
  shows "fst ` set g = fst ` set C"
proof -
  have "m \<in> fst ` set g \<longleftrightarrow> subjects_of C m \<noteq> {}" for m
  proof
    assume "m \<in> fst ` set g"
    from groups_entry [OF assms this] show "subjects_of C m \<noteq> {}" by (auto simp: entries_ok_def)
  next
    assume "subjects_of C m \<noteq> {}"
    moreover have "subjects_of C m = {}" if "map_of g m = None"
      using assms that unfolding groups_ok_def by (metis option.simps(4))
    ultimately show "m \<in> fst ` set g" by (metis map_of_eq_None_iff)
  qed
  moreover have "m \<in> fst ` set C \<longleftrightarrow> subjects_of C m \<noteq> {}" for m
    by (force simp: subjects_of_def)
  ultimately show ?thesis by blast
qed

lemma wp_backfill:
  assumes "stable E I" and "I db"
  shows "wp (backfillAuthIdentifiers E t) (\<lambda>_ db'. I db' \<and> backfilled db') (\<lambda>_. I) db"
proof -
  let ?staff = "sort_by (\<lambda>a b. code_le (la_id a) (la_id b)) (md_staffUsers db)"
  let ?mems = "sort_by (\<lambda>a b. code_le (la_id a) (la_id b)) (md_members db)"
  let ?ds = "sort_by (\<lambda>a b. code_le (i_normalizedIdentifier a) (i_normalizedIdentifier b)) (md_identifiers db)"
  let ?g = "candidateGroups ?staff ?mems"
  let ?existing = "map_of (rev (map (\<lambda>d. (i_normalizedIdentifier d, d)) ?ds))"
  let ?ns = "sort_by code_le (map fst ?g)"
  let ?same = "\<lambda>db'. I db' \<and> md_staffUsers db' = md_staffUsers db \<and> md_members db' = md_members db \<and>
    md_identifiers db' = md_identifiers db"
  have same: "?same (db'\<lparr>md_faults := rest, md_now := now\<rparr>)" if "?same db'" for db' rest now
    using that stable_timeless [OF assms(1)] by (simp add: timeless_def)
  have ok: "groups_ok (claims db) ?g"
    unfolding claims_def by (rule groups_ok_cong [OF account_claims_sorted candidateGroups_ok])
  have distinct: "distinct ?ns"
    using ok by (simp add: groups_ok_def)
  have known: "known ?existing db' n" if "?same db'" for db' n
  proof (cases "?existing n")
    case None
    then have "n \<notin> i_normalizedIdentifier ` set (md_identifiers db)" by (simp add: map_of_eq_None_iff image_image)
    with None that show ?thesis by (simp add: known_def)
  next
    case (Some d)
    from map_of_SomeD [OF this] have "d \<in> set (md_identifiers db)" "i_normalizedIdentifier d = n" by auto
    with Some that show ?thesis by (simp add: known_def)
  qed
  have loop: "wp (for_each ?ns (backfill_identifier E t ?existing ?g)) (\<lambda>_ db'. I db' \<and> backfilled db') (\<lambda>_. I) db'"
    if db': "?same db'" for db'
  proof -
    have C: "claims db' = claims db" using db' by (simp add: claims_def)
    have "stable E (\<lambda>d. I d \<and> claims d = claims db)" by (rule stable_conj [OF assms(1) stable_claims])
    then show ?thesis
      by (rule wp_mono [OF wp_backfill_identifiers [OF _ _ C, where I = "\<lambda>d. I d \<and> claims d = claims db"]])
        (use db' known distinct groups_entry [OF ok] groups_names [OF ok] C in \<open>auto simp: backfilled_def split_beta\<close>)
  qed
  show ?thesis
    unfolding backfillAuthIdentifiers_def wp_await Let_def
    by (rule wp_read, rule wp_read, rule wp_read)
      (use loop same assms(2) stable_timeless [OF assms(1)] in \<open>auto simp: timelessD\<close>)
qed

subsection \<open>The whole migration\<close>

text \<open>A step that keeps what is stable and has brought about a fact when it returns.\<close>

definition reaches :: "auth_migration_env \<Rightarrow> (migration_db, unit) io \<Rightarrow> (migration_db \<Rightarrow> bool) \<Rightarrow> bool" where
  "reaches E m F \<longleftrightarrow> (\<forall>I. stable E I \<longrightarrow> keeps I m) \<and> (\<forall>db. wp m (\<lambda>_. F) (\<lambda>_ _. True) db)"

lemma reaches_then:
  assumes "reaches E m F" and "reaches E k G" and "stable E F"
  shows "reaches E (await m (\<lambda>_. k)) (\<lambda>db. F db \<and> G db)"
  unfolding reaches_def
proof (intro conjI allI impI)
  fix I assume "stable E I"
  with assms(1,2) show "keeps I (await m (\<lambda>_. k))" by (auto simp: reaches_def intro!: keeps_rules)
next
  fix db
  have "wp k (\<lambda>_ db. F db \<and> G db) (\<lambda>_ _. True) db'" if "F db'" for db'
  proof -
    have "keeps F k" "wp k (\<lambda>_. G) (\<lambda>_ _. True) db'" using assms(2,3) by (simp_all add: reaches_def)
    from wp_conj [OF keepsD [OF this(1) that] this(2)] show ?thesis by (rule wp_mono) auto
  qed
  moreover have "wp m (\<lambda>_. F) (\<lambda>_ _. True) db" using assms(1) by (simp add: reaches_def)
  ultimately show "wp (await m (\<lambda>_. k)) (\<lambda>_ db. F db \<and> G db) (\<lambda>_ _. True) db"
    unfolding wp_await by (auto intro: wp_mono)
qed

lemma reaches_asks: "(\<And>x. reaches E (m x) F) \<Longrightarrow> reaches E (await (asks h) m) F"
  unfolding reaches_def by (auto intro!: keeps_rules)

lemma reaches_steps:
  "reaches E (revoke_active_families t) none_active" "reaches E forget_token_hashes no_hashes"
  "reaches E version_staff staff_versioned" "reaches E (date_passwords t) (\<lambda>_. True)"
  "reaches E version_members members_versioned"
proof -
  have reach: "reaches E (effect f) F" if "\<And>I. stable E I \<Longrightarrow> keeps I (effect f)" and "\<And>db. F (f None db)" for f F
    using that unfolding reaches_def by (auto intro!: wp_effect)
  note unfolded = revoke_active_families_def forget_token_hashes_def version_staff_def version_members_def date_passwords_def
  note facts = update_upto_None none_active_def no_hashes_def staff_versioned_def members_versioned_def version_account_def
  show "reaches E (revoke_active_families t) none_active" "reaches E forget_token_hashes no_hashes"
    "reaches E version_staff staff_versioned" "reaches E (date_passwords t) (\<lambda>_. True)"
    "reaches E version_members members_versioned"
    unfolding unfolded
    by (rule reach; use keeps_steps in \<open>force simp: unfolded facts\<close>)+
qed

lemma reaches_indexes: "reaches E (for_each xs createIndex) (indexed xs)"
  unfolding reaches_def
  by (intro conjI allI impI keeps_indexes, assumption, rule wp_mono [OF wp_indexes [OF stable_indexed [of E "[]"]]])
    (auto simp: indexed_def)

lemma reaches_backfill: "reaches E (backfillAuthIdentifiers E t) backfilled"
  unfolding reaches_def
proof (intro conjI allI impI)
  fix I assume "stable E I"
  then show "keeps I (backfillAuthIdentifiers E t)" by (intro keepsI, intro wp_mono [OF wp_backfill]) auto
next
  show "wp (backfillAuthIdentifiers E t) (\<lambda>_. backfilled) (\<lambda>_ _. True) db" for db
    by (rule wp_mono [OF wp_backfill [OF stable_indexed [of E "[]"]]]) (auto simp: indexed_def)
qed

definition auth_migrated :: "migration_db \<Rightarrow> bool" where
  "auth_migrated db \<longleftrightarrow> none_active db \<and> no_hashes db \<and> staff_versioned db \<and> indexed staff_identity_indexes db \<and>
     members_versioned db \<and> indexed member_identity_indexes db \<and> indexed auth_indexes db \<and> backfilled db"

lemmas stable_facts = stable_none_active stable_no_hashes stable_versioned stable_indexed stable_backfilled stable_sound

lemma stable_auth_migrated: "stable E auth_migrated"
  unfolding auth_migrated_def by (intro stable_conj stable_facts)

lemma up_migrates: "reaches E (migration_003_up E) auth_migrated"
proof -
  have true: "stable E (\<lambda>_. True)" by (simp add: stable_def)
  have "reaches E (await (revoke_active_families t) (\<lambda>_. await forget_token_hashes (\<lambda>_. await version_staff (\<lambda>_.
      await (date_passwords t) (\<lambda>_. await (for_each staff_identity_indexes createIndex) (\<lambda>_. await version_members (\<lambda>_.
      await (for_each member_identity_indexes createIndex) (\<lambda>_. await createAuthIndexes (\<lambda>_.
      backfillAuthIdentifiers E t)))))))))
    (\<lambda>db. none_active db \<and> no_hashes db \<and> staff_versioned db \<and> True \<and> indexed staff_identity_indexes db \<and>
      members_versioned db \<and> indexed member_identity_indexes db \<and> indexed auth_indexes db \<and> backfilled db)" for t
    unfolding createAuthIndexes_def
    by (intro reaches_then reaches_steps reaches_indexes reaches_backfill stable_facts true)
  then show ?thesis
    unfolding migration_003_up_def auth_migrated_def [abs_def] simp_thms by (intro reaches_asks)
qed

subsection \<open>All migrations\<close>

definition library_migrations :: "auth_migration_env \<Rightarrow> migration_definition list" where
  "library_migrations E = [migration_000, migration_001, migration_002, migration_003 E]"

text \<open>What is left by each of them.\<close>

definition migrated :: "string \<Rightarrow> migration_db \<Rightarrow> bool" where
  "migrated v db \<longleftrightarrow>
     (v = ''000'' \<longrightarrow> indexed [migration_records_index] db) \<and> (v = ''001'' \<longrightarrow> indexed library_core_indexes db) \<and>
     (v = ''002'' \<longrightarrow> indexed member_auth_indexes db) \<and> (v = ''003'' \<longrightarrow> auth_migrated db)"

lemma stable_imp: "(b \<Longrightarrow> stable E I) \<Longrightarrow> stable E (\<lambda>db. b \<longrightarrow> I db)"
  by (auto simp: stable_def)

lemma stable_migrated: "stable E (migrated v)"
  unfolding migrated_def by (intro stable_conj stable_imp stable_indexed stable_auth_migrated)

lemma reaches_migration:
  assumes "m \<in> set (library_migrations E)"
  shows "reaches E (mg_up m) (migrated (mg_version m))"
proof -
  have one: "reaches E (createIndex x) (indexed [x])" for x
    using reaches_indexes [of E "[x]"] by (simp add: reaches_def keeps_def)
  show ?thesis
    using assms one [of migration_records_index] reaches_indexes [of E library_core_indexes]
      reaches_indexes [of E member_auth_indexes] up_migrates [of E]
    by (auto simp: library_migrations_def migration_000_def migration_001_def migration_002_def migration_003_def
        migrated_def [abs_def])
qed

interpretation library_set: migration_set "library_migrations E" "sound_identifiers E" migrated
proof
  fix m v db rs x
  show "timeless (sound_identifiers E)" "timeless (migrated v)"
    by (rule stable_timeless [OF stable_sound]) (rule stable_timeless [OF stable_migrated])
  show "sound_identifiers E (db\<lparr>md_records := rs\<rparr>) = sound_identifiers E db"
    "sound_identifiers E (db\<lparr>md_indexes := md_indexes db @ [x]\<rparr>) = sound_identifiers E db"
    by (simp_all add: sound_identifiers_def)
  show "migrated v (db\<lparr>md_records := rs\<rparr>) = migrated v db"
    by (simp add: migrated_def auth_migrated_def none_active_def no_hashes_def staff_versioned_def members_versioned_def
        indexed_def backfilled_def covered_def)
  show "migrated v (db\<lparr>md_indexes := md_indexes db @ [x]\<rparr>)" if "migrated v db"
    by (rule stableD [OF stable_migrated migration_write.index that])
  assume m: "m \<in> set (library_migrations E)"
  show "keeps (\<lambda>db. sound_identifiers E db \<and> migrated v db) (mg_up m)" "keeps (sound_identifiers E) (mg_up m)"
    "keeps (\<lambda>db. md_records db = rs) (mg_up m)"
    using reaches_migration [OF m] stable_conj [OF stable_sound stable_migrated] stable_sound stable_records
    by (simp_all add: reaches_def)
  show "wp (mg_up m) (\<lambda>_. migrated (mg_version m)) (\<lambda>_ _. True) db"
    using reaches_migration [OF m] by (simp add: reaches_def)
qed

subsection \<open>Missing indexes\<close>

text \<open>The required indexes that are absent from a list of indexes.\<close>

definition absent_of :: "index_spec list \<Rightarrow> string \<times> string list \<Rightarrow> string list" where
  "absent_of xs required = map (\<lambda>r. fst required @ ''.'' @ r)
     (filter (\<lambda>r. (fst required, r) \<notin> (\<lambda>x. (ix_collection x, index_name x)) ` set xs) (snd required))"

definition absent_indexes :: "index_spec list \<Rightarrow> string list" where
  "absent_indexes xs = concat (map (absent_of xs) AUTH_MIGRATION_REQUIRED_INDEXES)"

lemma named_in_collection:
  "(c, r) \<in> (\<lambda>x. (ix_collection x, index_name x)) ` S \<longleftrightarrow> r \<in> index_name ` {x \<in> S. ix_collection x = c}"
  by auto

lemma wp_missing_of:
  assumes "md_indexes db = xs"
  shows "wp (missing_of r) (\<lambda>m db'. md_indexes db' = xs \<and> set (absent_of xs r) \<subseteq> set m) (\<lambda>_ _. False) db"
  using assms unfolding missing_of_def wp_await wp_try_catch wp_ret
  by (intro wp_read) (auto simp: absent_of_def named_in_collection)

lemma wp_missing:
  assumes "md_indexes db = xs"
  shows "wp (map_io missing_of rs) (\<lambda>ms db'. md_indexes db' = xs \<and> set (concat (map (absent_of xs) rs)) \<subseteq> set (concat ms))
    (\<lambda>_ _. False) db"
  using assms
proof (induction rs arbitrary: db)
  case (Cons r rs)
  show ?case
    unfolding map_io.simps wp_await wp_ret
    by (rule wp_mono [OF wp_missing_of [OF Cons.prems]], rule wp_mono [OF Cons.IH]) auto
qed simp

lemma missing_without_faults:
  assumes "md_faults db = []"
  shows "map_io missing_of rs db = (Inr (map (absent_of (md_indexes db)) rs), db)"
proof -
  have "missing_of r db = (Inr (absent_of (md_indexes db) r), db)" for r
    using assms by (auto simp: missing_of_def read_def await_def try_catch_def effect_def asks_def ret_def absent_of_def
        named_in_collection)
  then show ?thesis by (induction rs) (simp_all add: await_def ret_def)
qed

lemma absent_indexes_mono:
  assumes "set xs \<subseteq> set ys"
  shows "set (absent_indexes ys) \<subseteq> set (absent_indexes xs)"
proof -
  have "set (absent_of ys r) \<subseteq> set (absent_of xs r)" for r
    using assms unfolding absent_of_def set_map set_filter by (intro image_mono) blast
  then show ?thesis by (fastforce simp: absent_indexes_def)
qed

lemma none_absent: "absent_indexes auth_indexes = []"
  by code_simp

subsection \<open>Properties\<close>

text \<open>The files of the directory, and what each exports.\<close>

definition migration_files :: "string list" where
  "migration_files = [''000-migration-record.ts'', ''001-library-core.ts'', ''002-member-auth.ts'', ''003-auth-roles-permissions.ts'']"

definition exported_migration :: "auth_migration_env \<Rightarrow> string \<Rightarrow> migration_definition option" where
  "exported_migration E file = map_of (zip migration_files (library_migrations E)) file"

text \<open>Runs of the command one after the other, each with its argument, whatever their outcome.\<close>

definition migrate_runs :: "auth_migration_env \<Rightarrow> string list \<Rightarrow> string option list \<Rightarrow> migration_db \<Rightarrow> migration_db" where
  "migrate_runs E files arguments db =
     fold (\<lambda>argument db. snd (migrate_main argument (Some files) (exported_migration E) db)) arguments db"

lemma exported_member: "exported_migration E file = Some m \<Longrightarrow> m \<in> set (library_migrations E)"
  unfolding exported_migration_def by (drule map_of_SomeD) (auto dest: set_zip_rightD)

lemma runs_keep_records:
  assumes "library_set.records_done E db"
  shows "library_set.records_done E (migrate_runs E files arguments db)"
  using assms unfolding migrate_runs_def
proof (induction arguments arbitrary: db)
  case (Cons a arguments)
  have "library_set.records_done E (snd (migrate_main a (Some files) (exported_migration E) db))"
    by (rule keeps_snd [OF library_set.migrate_main_done Cons.prems]) (rule exported_member)
  from Cons.IH [OF this] show ?case by simp
qed simp

text \<open>C22: however often the migration command is run, with whatever argument, and wherever a run is cut off
  by a failure, a migration is recorded only when what it has to bring about is there, and every
  reservation the migration made names exactly the accounts that claim the identifier: as its owner when
  there is one, as a conflict, reviewable within the limit, when there are more.\<close>

theorem recorded_migrations_are_done:
  assumes "sound_identifiers E db" and "\<forall>v\<in>recorded db. migrated v db"
  shows "sound_identifiers E (migrate_runs E files arguments db) \<and>
    (\<forall>v\<in>recorded (migrate_runs E files arguments db). migrated v (migrate_runs E files arguments db))"
  using runs_keep_records [of E db files arguments] assms by (simp add: library_set.records_done_def)

text \<open>C23: after the command has run to its end with the four files in place, no session of the old scheme
  is active and no hash of a token is left, every account has a version, no required index is missing,
  and every identifier an account claims has exactly one reservation, which, when more than one account
  claims it, has its event in the security log.\<close>

theorem migrated_database_is_ready:
  assumes "sound_identifiers E db" and "\<forall>v\<in>recorded db. migrated v db"
    and "set migration_files \<subseteq> set files"
    and "migrate_main (Some ''up'') (Some files) (exported_migration E) db = (Inr (), db')"
  shows "none_active db' \<and> no_hashes db' \<and> staff_versioned db' \<and> members_versioned db' \<and>
    findMissingAuthMigrationIndexes (db'\<lparr>md_faults := []\<rparr>) = (Inr [], db'\<lparr>md_faults := []\<rparr>) \<and>
    sound_identifiers E db' \<and> backfilled db'"
proof -
  have start: "library_set.records_done E db" using assms(1,2) by (simp add: library_set.records_done_def)
  obtain ms where ms: "loadMigrations (Some files) (exported_migration E) = Inr ms"
    using assms(4) by (auto simp: migrate_main_def getCommand_def throw_def split: sum.splits)
  have sorted: "load_all (exported_migration E) (sort_by code_le (filter migration_file files)) = Inr ms"
    using ms by (simp add: loadMigrations_def)
  have loaded: "m \<in> set ms" if "load_all e fs = Inr ms" "f \<in> set fs" "e f = Some m" for e fs f m ms
    using that by (induction fs arbitrary: ms) (auto split: option.splits sum.splits)
  have only: "set ms \<subseteq> set (library_migrations E)" if "load_all (exported_migration E) fs = Inr ms" for fs ms
    using that by (induction fs arbitrary: ms) (auto split: option.splits sum.splits dest: exported_member)
  have "migration_003 E \<in> set ms"
  proof (rule loaded [OF sorted])
    show "''003-auth-roles-permissions.ts'' \<in> set (sort_by code_le (filter migration_file files))"
      using assms(3) by (auto simp: migration_files_def) code_simp
    show "exported_migration E ''003-auth-roles-permissions.ts'' = Some (migration_003 E)"
      by (simp add: exported_migration_def migration_files_def library_migrations_def)
  qed
  moreover have "runPendingMigrations ms db = (Inr (), db')"
    using assms(4) ms by (simp add: migrate_main_def getCommand_def)
  from wp_return_value [OF library_set.runPendingMigrations_done [OF only [OF sorted] start] this]
  have db': "library_set.records_done E db'" "recorded db' = mg_version ` set ms \<union> recorded db" by simp_all
  ultimately have "''003'' \<in> recorded db'" by (force simp: migration_003_def)
  with db'(1) have migrated: "auth_migrated db'" "sound_identifiers E db'"
    by (auto simp: library_set.records_done_def migrated_def)
  have "set auth_indexes \<subseteq> set (md_indexes db')" using migrated(1) by (simp add: auth_migrated_def indexed_def)
  from absent_indexes_mono [OF this] have "absent_indexes (md_indexes db') = []" by (simp add: none_absent)
  then have "findMissingAuthMigrationIndexes (db'\<lparr>md_faults := []\<rparr>) = (Inr [], db'\<lparr>md_faults := []\<rparr>)"
    by (simp add: findMissingAuthMigrationIndexes_def await_def ret_def missing_without_faults absent_indexes_def)
  with migrated show ?thesis by (simp add: auth_migrated_def)
qed

text \<open>Two staff users with one address, a member, and a session.\<close>

definition sample_migration_env :: auth_migration_env where
  "sample_migration_env = \<lparr>am_maxAssignments = Some '' 50x'', am_collate = code_le\<rparr>"

definition sample_account :: "string \<Rightarrow> string \<Rightarrow> legacy_account" where
  "sample_account i email = \<lparr>la_id = i, la_email = Some (JStr email), la_loginIdentifier = None, la_memberNumber = None,
     la_authVersion = None, la_passwordHash = Some ''hash'', la_passwordUpdatedAt = None\<rparr>"

definition sample_migration_db :: "(nat option \<times> date) list \<Rightarrow> migration_db" where
  "sample_migration_db faults =
     \<lparr>md_staffUsers = [sample_account ''s1'' ''ann@lib'', sample_account ''s2'' '' Ann@LIB''],
      md_members = [(sample_account ''m1'' ''x'')\<lparr>la_loginIdentifier := Some (JStr ''bob''), la_memberNumber := Some (JStr ''M1'')\<rparr>],
      md_families = [\<lparr>f_familyId = ''f'', f_clientId = ''browser'', f_subjectType = StaffSubject, f_subjectId = ''s1'', f_scopes = [],
        f_authVersion = 0, f_status = FamilyActive, f_currentTokenHash = Some ''h'', f_lastRotationOperationId = None,
        f_issuedAt = 0, f_lastRotatedAt = 0, f_expiresAt = 100, f_revokedAt = None, f_revokedReason = None,
        f_previousTokenHash = Some ''g''\<rparr>],
      md_identifiers = [], md_events = [], md_indexes = [], md_records = [], md_now = 5, md_faults = faults\<rparr>"

lemma sample_start:
  "sound_identifiers E (sample_migration_db faults)" "\<forall>v\<in>recorded (sample_migration_db faults). migrated v (sample_migration_db faults)"
  by (simp_all add: sample_migration_db_def sound_identifiers_def recorded_def)

theorem recorded_migrations_are_done_witness:
  "sound_identifiers sample_migration_env
     (migrate_runs sample_migration_env migration_files [Some ''up'', None, Some ''up'']
       (sample_migration_db (replicate 60 (None, 6) @ [(Some 1, 7)])))"
  using recorded_migrations_are_done [OF sample_start] by blast

lemma sample_run_returns:
  "fst (migrate_main (Some ''up'') (Some migration_files) (exported_migration sample_migration_env) (sample_migration_db [])) = Inr ()"
  by code_simp

theorem migrated_database_is_ready_witness:
  "backfilled (snd (migrate_main (Some ''up'') (Some migration_files) (exported_migration sample_migration_env) (sample_migration_db [])))"
proof -
  have "migrate_main (Some ''up'') (Some migration_files) (exported_migration sample_migration_env) (sample_migration_db []) =
    (Inr (), snd (migrate_main (Some ''up'') (Some migration_files) (exported_migration sample_migration_env) (sample_migration_db [])))"
    using sample_run_returns by (simp add: prod_eq_iff)
  from migrated_database_is_ready [OF sample_start subset_refl this] show ?thesis by blast
qed

end
