(* ===== verification/Json_Text.thy ===== *)
theory Json_Text
  imports Repair_Manifest Source_Identity "HOL-Library.AList"
begin

text \<open>
  The parts of the JavaScript library that read configuration texts: \<^verbatim>\<open>JSON.parse\<close>, \<^verbatim>\<open>Number\<close> and the order
  of \<^verbatim>\<open>Object.entries\<close>.

  A number of a JSON text is kept as its literal, which is all that the configuration asks of it.  A
  text is over the characters of Latin-1, and an escape of a character beyond them is not read.
\<close>

subsection \<open>JSON.parse\<close>

datatype json_value =
    VNull
  | VBool bool
  | VNumber string
  | VString string
  | VArray "json_value list"
  | VObject "(string \<times> json_value) list"

definition json_space :: "char \<Rightarrow> bool" where
  "json_space c \<longleftrightarrow> char_code c \<in> {9, 10, 13, 32}"

abbreviation skip :: "string \<Rightarrow> string" where
  "skip \<equiv> dropWhile json_space"

definition unescaped_char :: "char \<Rightarrow> char option" where
  "unescaped_char c =
     (if c = CHR 0x22 \<or> c = CHR 0x5C \<or> c = CHR ''/'' then Some c
      else if c = CHR ''b'' then Some (CHR 0x08)
      else if c = CHR ''f'' then Some (CHR 0x0C)
      else if c = CHR ''n'' then Some (CHR 0x0A)
      else if c = CHR ''r'' then Some (CHR 0x0D)
      else if c = CHR ''t'' then Some (CHR 0x09)
      else None)"

definition hex_value :: "char \<Rightarrow> nat" where
  "hex_value c = (if digit c then char_code c - 48 else char_code (char_lower c) - 87)"

definition hex_number :: "string \<Rightarrow> nat" where
  "hex_number s = foldl (\<lambda>n c. 16 * n + hex_value c) 0 s"

text \<open>A string after its opening quote, with the text that follows its closing one.\<close>

fun read_string :: "string \<Rightarrow> (string \<times> string) option" where
  "read_string [] = None"
| "read_string (c # s) =
     (if c = CHR 0x22 then Some ([], s)
      else if char_code c < 32 then None
      else if c \<noteq> CHR 0x5C then map_option (\<lambda>(t, r). (c # t, r)) (read_string s)
      else case s of
        [] \<Rightarrow> None
      | e # s1 \<Rightarrow>
          if e = CHR ''u'' then
            if 4 \<le> length s1 \<and> list_all hex_digit (take 4 s1) \<and> hex_number (take 4 s1) < 256
            then map_option (\<lambda>(t, r). (char_of (hex_number (take 4 s1)) # t, r)) (read_string (drop 4 s1))
            else None
          else case unescaped_char e of
            None \<Rightarrow> None
          | Some d \<Rightarrow> map_option (\<lambda>(t, r). (d # t, r)) (read_string s1))"

text \<open>The digits at the front, after a point or an exponent sign, if there is one.\<close>

definition read_digits :: "string \<Rightarrow> (string \<times> string) option" where
  "read_digits s = (if takeWhile digit s = [] then None else Some (takeWhile digit s, dropWhile digit s))"

definition read_integer :: "string \<Rightarrow> (string \<times> string) option" where
  "read_integer s =
     (case s of
        [] \<Rightarrow> None
      | c # r \<Rightarrow> if c = CHR ''0'' then Some ([c], r) else read_digits s)"

definition read_fraction :: "string \<Rightarrow> (string \<times> string) option" where
  "read_fraction s =
     (if s \<noteq> [] \<and> hd s = CHR ''.'' then map_option (\<lambda>(d, r). (hd s # d, r)) (read_digits (tl s)) else Some ([], s))"

definition read_exponent :: "string \<Rightarrow> (string \<times> string) option" where
  "read_exponent s =
     (if s \<noteq> [] \<and> hd s \<in> {CHR ''e'', CHR ''E''} then
        (let r = tl s in
         if r \<noteq> [] \<and> hd r \<in> {CHR ''+'', CHR ''-''}
         then map_option (\<lambda>(d, r'). (hd s # hd r # d, r')) (read_digits (tl r))
         else map_option (\<lambda>(d, r'). (hd s # d, r')) (read_digits r))
      else Some ([], s))"

definition read_number :: "string \<Rightarrow> (string \<times> string) option" where
  "read_number s =
     (let sign = (if s \<noteq> [] \<and> hd s = CHR ''-'' then [hd s] else []) in
      case read_integer (drop (length sign) s) of
        None \<Rightarrow> None
      | Some (i, r1) \<Rightarrow>
          (case read_fraction r1 of
             None \<Rightarrow> None
           | Some (f, r2) \<Rightarrow> map_option (\<lambda>(e, r3). (sign @ i @ f @ e, r3)) (read_exponent r2)))"

definition read_literal :: "string \<Rightarrow> json_value \<Rightarrow> string \<Rightarrow> (json_value \<times> string) option" where
  "read_literal word v s = (if starts_with word s then Some (v, drop (length word) s) else None)"

text \<open>A name that comes again takes the new value and keeps its place.\<close>

definition object_of :: "(string \<times> json_value) list \<Rightarrow> json_value" where
  "object_of ms = VObject (fold (\<lambda>(name, v). AList.update name v) ms [])"

text \<open>
  The reader recurses on what another call has left, so it takes fuel; every call consumes input at
  least at every second step, and \<open>read_enough\<close> shows that more of it changes nothing.
\<close>

fun read_value :: "nat \<Rightarrow> string \<Rightarrow> (json_value \<times> string) option"
  and read_elements :: "nat \<Rightarrow> string \<Rightarrow> (json_value list \<times> string) option"
  and read_members :: "nat \<Rightarrow> string \<Rightarrow> ((string \<times> json_value) list \<times> string) option" where
  "read_value 0 s = None"
| "read_value (Suc n) s =
     (case skip s of
        [] \<Rightarrow> None
      | c # r \<Rightarrow>
          if c = CHR 0x22 then map_option (\<lambda>(t, r'). (VString t, r')) (read_string r)
          else if c = CHR ''['' then
            (if skip r \<noteq> [] \<and> hd (skip r) = CHR '']'' then Some (VArray [], tl (skip r))
             else map_option (\<lambda>(vs, r'). (VArray vs, r')) (read_elements n r))
          else if c = CHR ''{'' then
            (if skip r \<noteq> [] \<and> hd (skip r) = CHR ''}'' then Some (VObject [], tl (skip r))
             else map_option (\<lambda>(ms, r'). (object_of ms, r')) (read_members n r))
          else if c = CHR ''n'' then read_literal ''null'' VNull (c # r)
          else if c = CHR ''t'' then read_literal ''true'' (VBool True) (c # r)
          else if c = CHR ''f'' then read_literal ''false'' (VBool False) (c # r)
          else map_option (\<lambda>(t, r'). (VNumber t, r')) (read_number (c # r)))"
| "read_elements 0 s = None"
| "read_elements (Suc n) s =
     (case read_value n s of
        None \<Rightarrow> None
      | Some (v, r) \<Rightarrow>
          (case skip r of
             [] \<Rightarrow> None
           | c # r' \<Rightarrow>
               if c = CHR '','' then map_option (\<lambda>(vs, r''). (v # vs, r'')) (read_elements n r')
               else if c = CHR '']'' then Some ([v], r')
               else None))"
| "read_members 0 s = None"
| "read_members (Suc n) s =
     (if skip s = [] \<or> hd (skip s) \<noteq> CHR 0x22 then None
      else case read_string (tl (skip s)) of
        None \<Rightarrow> None
      | Some (name, r) \<Rightarrow>
          if skip r = [] \<or> hd (skip r) \<noteq> CHR '':'' then None
          else case read_value n (tl (skip r)) of
            None \<Rightarrow> None
          | Some (v, r') \<Rightarrow>
              (case skip r' of
                 [] \<Rightarrow> None
               | c # r'' \<Rightarrow>
                   if c = CHR '','' then map_option (\<lambda>(ms, r'''). ((name, v) # ms, r''')) (read_members n r'')
                   else if c = CHR ''}'' then Some ([(name, v)], r'')
                   else None))"

definition json_parse :: "string \<Rightarrow> json_value option" where
  "json_parse s =
     (case read_value (2 * length s + 2) s of
        None \<Rightarrow> None
      | Some (v, r) \<Rightarrow> if skip r = [] then Some v else None)"

text \<open>Examples; \<^verbatim>\<open>~\<close> stands for a backslash.\<close>

definition with_backslashes :: "string \<Rightarrow> string" where
  "with_backslashes s = map (\<lambda>c. if c = CHR ''~'' then CHR 0x5C else c) s"

lemma json_parse_examples:
  "json_parse (with_backslashes ''{\"1\": [true, null, -1.5e+3], \"a~u0062\" : \"x~n\"}'') =
     Some (VObject [(''1'', VArray [VBool True, VNull, VNumber ''-1.5e+3'']), (''ab'', VString [CHR ''x'', CHR 0x0A])])"
  "json_parse ''[1,]'' = None" "json_parse ''01'' = None"
  "json_parse ''{\"a\":1,\"b\":2,\"a\":3}'' = Some (VObject [(''a'', VNumber ''3''), (''b'', VNumber ''2'')])"
  by code_simp+

subsection \<open>The fuel is enough\<close>

lemma skip_length: "skip s = c # r \<Longrightarrow> length r < length s"
  using length_dropWhile_le [of json_space s] by simp

lemma read_string_length: "read_string s = Some (t, r) \<Longrightarrow> length r < length s"
  by (induction s arbitrary: t r rule: read_string.induct)
    (fastforce split: if_splits list.splits option.splits)+

lemma read_digits_length: "read_digits s = Some (t, r) \<Longrightarrow> length r < length s"
  by (cases s) (auto simp: read_digits_def le_imp_less_Suc length_dropWhile_le split: if_splits)

lemma read_number_length: "read_number s = Some (t, r) \<Longrightarrow> length r < length s"
proof -
  have "length r < length s" if "read_integer s = Some (t, r)" for s t r
    using that by (auto simp: read_integer_def split: list.splits if_splits dest!: read_digits_length)
  moreover have "length r \<le> length s" if "read_fraction s = Some (t, r)" for s t r
    using that read_digits_length [of "tl s"] by (fastforce simp: read_fraction_def split: if_splits)
  moreover have "length r \<le> length s" if "read_exponent s = Some (t, r)" for s t r
    using that read_digits_length [of "tl s"] read_digits_length [of "tl (tl s)"]
    by (fastforce simp: read_exponent_def Let_def split: if_splits)
  moreover assume "read_number s = Some (t, r)"
  ultimately show ?thesis
    by (fastforce simp: read_number_def Let_def split: option.splits if_splits)
qed

lemma read_literal_length: "read_literal word v s = Some (u, r) \<Longrightarrow> word \<noteq> [] \<Longrightarrow> length r < length s"
  by (cases s; cases word) (auto simp: read_literal_def starts_with_def split: if_splits)

lemma read_length:
  "read_value n s = Some (v, r) \<Longrightarrow> length r < length s"
  "read_elements n s = Some (vs, r) \<Longrightarrow> length r < length s"
  "read_members n s = Some (ms, r) \<Longrightarrow> length r < length s"
proof (induction n arbitrary: s v vs ms r)
  case (Suc n)
  {
    case 1
    then obtain c r1 where s: "skip s = c # r1" by (auto split: list.splits)
    have len: "length r1 < length s" "length (skip r1) \<le> length r1" using skip_length [OF s] by (simp_all add: length_dropWhile_le)
    show ?case
      using 1 s len Suc.IH(2,3) [of r1]
      by (auto split: if_splits dest!: read_string_length read_number_length read_literal_length)
  next
    case 2
    then obtain v r1 c r2 where s: "read_value n s = Some (v, r1)" "skip r1 = c # r2"
      by (auto split: option.splits list.splits)
    show ?case
      using 2 s Suc.IH(1) [OF s(1)] skip_length [OF s(2)] Suc.IH(2) [of r2] by (fastforce split: if_splits)
  next
    case 3
    then obtain name r1 v r2 c r3 where s: "skip s \<noteq> []" "read_string (tl (skip s)) = Some (name, r1)" "skip r1 \<noteq> []"
      "read_value n (tl (skip r1)) = Some (v, r2)" "skip r2 = c # r3"
      by (auto split: option.splits list.splits if_splits)
    have "length r3 < length s"
      using skip_length [OF s(5)] Suc.IH(1) [OF s(4)] read_string_length [OF s(2)] s(1,3)
        length_dropWhile_le [of json_space s] length_dropWhile_le [of json_space r1] by (simp add: less_diff_conv)
    with 3 s Suc.IH(3) [of r3] show ?case by (fastforce split: if_splits)
  }
qed simp_all

text \<open>The fuel that \<^verbatim>\<open>json_parse\<close> gives is enough: more of it changes nothing.\<close>

lemma read_enough:
  "2 * length s + 1 \<le> n \<Longrightarrow> 2 * length s + 1 \<le> m \<Longrightarrow> read_value n s = read_value m s"
  "2 * length s + 2 \<le> n \<Longrightarrow> 2 * length s + 2 \<le> m \<Longrightarrow> read_elements n s = read_elements m s"
  "2 * length s + 2 \<le> n \<Longrightarrow> 2 * length s + 2 \<le> m \<Longrightarrow> read_members n s = read_members m s"
proof (induction n arbitrary: s m)
  case (Suc n)
  {
    case 1
    then obtain m' where m: "m = Suc m'" by (cases m) auto
    show ?case
    proof (cases "skip s")
      case (Cons c r)
      from skip_length [OF this] have "read_elements n r = read_elements m' r" "read_members n r = read_members m' r"
        using 1 m by (auto intro!: Suc.IH(2,3))
      with Cons m show ?thesis by simp
    next
      case Nil
      then show ?thesis by (simp only: m read_value.simps list.case)
    qed
  next
    case 2
    then obtain m' where m: "m = Suc m'" by (cases m) auto
    have v: "read_value n s = read_value m' s" using 2 m by (intro Suc.IH(1)) auto
    have "read_elements n r' = read_elements m' r'" if "read_value m' s = Some (w, r)" "skip r = c # r'" for w r c r'
      using read_length(1) [OF that(1)] skip_length [OF that(2)] 2 m by (intro Suc.IH(2)) auto
    then show ?case
      unfolding m read_elements.simps v
      by (intro option.case_cong refl prod.case_cong list.case_cong) (simp only:)
  next
    case 3
    then obtain m' where m: "m = Suc m'" by (cases m) auto
    show ?case
    proof (cases "skip s = [] \<or> hd (skip s) \<noteq> CHR 0x22 \<or> read_string (tl (skip s)) = None")
      case False
      then obtain name r where s: "skip s \<noteq> []" "hd (skip s) = CHR 0x22" "read_string (tl (skip s)) = Some (name, r)" by auto
      have r: "length r < length s" "length (tl (skip r)) \<le> length r"
        using read_string_length [OF s(3)] s(1) length_dropWhile_le [of json_space s] length_dropWhile_le [of json_space r]
        by auto
      then have v: "read_value n (tl (skip r)) = read_value m' (tl (skip r))" using 3 m by (intro Suc.IH(1)) auto
      have "read_members n r3 = read_members m' r3" if "read_value m' (tl (skip r)) = Some (w, r2)" "skip r2 = c # r3" for w r2 c r3
        using read_length(1) [OF that(1)] skip_length [OF that(2)] r 3 m by (intro Suc.IH(3)) auto
      then show ?thesis
        unfolding m read_members.simps s(3) option.case prod.case v
        by (intro if_cong option.case_cong refl prod.case_cong list.case_cong) (simp only:)
    qed (auto simp: m)
  }
qed simp_all

subsection \<open>What canonicalJson writes is read back\<close>

fun value_of :: "json \<Rightarrow> json_value" where
  "value_of JNull = VNull"
| "value_of (JBool b) = VBool b"
| "value_of (JStr s) = VString s"
| "value_of (JNum i) = VNumber (json_number i)"
| "value_of (JArr xs) = VArray (map value_of xs)"
| "value_of (JObj kvs) = object_of (sort_by (\<lambda>a b. code_le (fst a) (fst b)) (map (\<lambda>(key, v). (key, value_of v)) kvs))"

definition stops :: "string \<Rightarrow> bool" where
  "stops s \<longleftrightarrow> s = [] \<or> hd s \<in> {CHR '','', CHR '']'', CHR ''}''}"

lemma char_code_eq: "char_code c = char_code d \<longleftrightarrow> c = d"
  by (simp add: char_code_def)

lemma short_escapes:
  "list_all (\<lambda>n. case escaped (char_of n) of
       [b, e] \<Rightarrow> b = CHR 0x5C \<and> e \<noteq> CHR ''u'' \<and> unescaped_char e = Some (char_of n) | _ \<Rightarrow> False)
     [34 :: nat, 92, 8, 9, 10, 12, 13]"
  by code_simp

lemma hex_char_value: "n < 16 \<Longrightarrow> hex_digit (hex_char n) \<and> hex_value (hex_char n) = n"
  by (auto simp: hex_char_def hex_digit_def hex_value_def digit_def char_lower_def char_code_def)

lemma control_escapes:
  "n < 32 \<Longrightarrow> list_all hex_digit [CHR ''0'', CHR ''0'', hex_char (n div 16), hex_char (n mod 16)] \<and>
     hex_number [CHR ''0'', CHR ''0'', hex_char (n div 16), hex_char (n mod 16)] = n"
proof -
  assume "n < 32"
  moreover have "hex_digit (CHR ''0'')" "hex_value (CHR ''0'') = 0" by code_simp+
  ultimately show ?thesis using hex_char_value [of "n div 16"] hex_char_value [of "n mod 16"]
    by (simp add: hex_number_def)
qed

lemma read_escaped: "read_string (escaped c @ s) = map_option (\<lambda>(t, r). (c # t, r)) (read_string s)"
proof -
  let ?n = "char_code c"
  have c: "c = char_of ?n" by (simp add: char_code_def)
  have codes: "char_code (CHR 0x22) = 34" "char_code (CHR 0x5C) = 92" by (simp_all add: char_code_def)
  show ?thesis
  proof (cases "?n \<in> set [34, 92, 8, 9, 10, 12, 13]")
    case True
    with short_escapes have "case escaped (char_of ?n) of
        [b, e] \<Rightarrow> b = CHR 0x5C \<and> e \<noteq> CHR ''u'' \<and> unescaped_char e = Some (char_of ?n) | _ \<Rightarrow> False"
      unfolding list_all_iff by blast
    then have "case escaped c of [b, e] \<Rightarrow> b = CHR 0x5C \<and> e \<noteq> CHR ''u'' \<and> unescaped_char e = Some c | _ \<Rightarrow> False"
      by (simp only: c [symmetric])
    then obtain e where "escaped c = [CHR 0x5C, e]" "e \<noteq> CHR ''u''" "unescaped_char e = Some c"
      by (auto split: list.splits)
    then show ?thesis by (simp add: codes)
  next
    case False
    show ?thesis
    proof (cases "?n < 32")
      case True
      let ?h = "[CHR ''0'', CHR ''0'', hex_char (?n div 16), hex_char (?n mod 16)]"
      have "escaped c = CHR 0x5C # CHR ''u'' # ?h" using False True by (simp add: escaped_def Let_def)
      moreover have "list_all hex_digit ?h \<and> hex_number ?h = ?n"
        by (rule control_escapes [OF True])
      ultimately show ?thesis using True c by (simp add: codes)
    next
      case control: False
      with False have "escaped c = [c]" "c \<noteq> CHR 0x22" "c \<noteq> CHR 0x5C" using codes by (auto simp: escaped_def Let_def)
      with control show ?thesis by simp
    qed
  qed
qed

lemma read_json_text: "read_string (concat (map escaped s) @ CHR 0x22 # r) = Some (s, r)"
  by (induction s) (simp_all add: read_escaped)

lemma digits_upto_digits: "list_all digit (digits_upto k n)"
proof (induction k arbitrary: n)
  case (Suc k)
  have "digit (char_of (48 + m))" if "m < 10" for m :: nat
    using that by (simp add: digit_def char_code_def)
  then show ?case using Suc by simp
qed simp

lemma digits_upto_first: "0 < n \<Longrightarrow> n < k \<Longrightarrow> digits_upto k n \<noteq> [] \<and> hd (digits_upto k n) \<noteq> CHR ''0''"
proof (induction k arbitrary: n)
  case (Suc k)
  have small: "char_of (48 + n) \<noteq> CHR ''0''" if "0 < n" "n < 10" for n :: nat
  proof
    assume "char_of (48 + n) = CHR ''0''"
    then have "of_char (char_of (48 + n) :: char) = (of_char (CHR ''0'') :: nat)" by simp
    with that show False by simp
  qed
  show ?case
  proof (cases "n < 10")
    case False
    then have "digits_upto k (n div 10) \<noteq> [] \<and> hd (digits_upto k (n div 10)) \<noteq> CHR ''0''"
      using Suc.prems by (intro Suc.IH) auto
    with False show ?thesis by simp
  qed (use Suc.prems small in auto)
qed simp

lemma read_decimal:
  assumes "stops r"
  shows "read_integer (decimal n @ r) = Some (decimal n, r)"
proof (cases "n = 0")
  case True
  have "decimal 0 = ''0''" by code_simp
  with True show ?thesis by (simp add: read_integer_def)
next
  case False
  then obtain c ds where d: "decimal n = c # ds" "c \<noteq> CHR ''0''" "list_all digit (decimal n)"
    using digits_upto_first [of n "Suc n"] digits_upto_digits [of "Suc n" n] by (cases "decimal n") (auto simp: decimal_def)
  have "takeWhile digit r = [] \<and> dropWhile digit r = r"
    using assms by (cases r) (auto simp: stops_def digit_def char_code_def)
  with d have "takeWhile digit (decimal n @ r) = decimal n" "dropWhile digit (decimal n @ r) = r"
    by (simp_all add: list_all_iff takeWhile_append dropWhile_append)
  with d(1,2) show ?thesis by (simp add: read_integer_def read_digits_def)
qed

lemma read_json_number: "stops r \<Longrightarrow> read_number (json_number i @ r) = Some (json_number i, r)"
proof -
  assume r: "stops r"
  then have stop: "read_fraction r = Some ([], r)" "read_exponent r = Some ([], r)"
    by (auto simp: stops_def read_fraction_def read_exponent_def)
  have "decimal n \<noteq> []" for n by (simp add: decimal_def)
  moreover have "hd (decimal n) \<noteq> CHR ''-''" for n
    using digits_upto_digits [of "Suc n" n] \<open>decimal n \<noteq> []\<close>
    by (cases "decimal n") (auto simp: decimal_def digit_def char_code_def simp del: digits_upto.simps)
  ultimately have "hd (decimal n @ r) \<noteq> CHR ''-''" for n by simp
  then show ?thesis
    using read_decimal [OF r] stop \<open>\<And>n. decimal n \<noteq> []\<close> by (auto simp: read_number_def json_number_def)
qed

text \<open>How the text of a value begins: with a character that opens it.\<close>

definition opens :: "string \<Rightarrow> bool" where
  "opens s \<longleftrightarrow> s \<noteq> [] \<and> \<not> json_space (hd s) \<and> hd s \<noteq> CHR '']'' \<and> hd s \<noteq> CHR ''}''"

lemma opens_append: "opens s \<Longrightarrow> opens (s @ r)"
  by (auto simp: opens_def)

lemma skip_opens: "opens s \<Longrightarrow> skip s = s"
  by (cases s) (auto simp: opens_def)

lemma canonicalJson_opens: "opens (canonicalJson j)"
proof (cases j)
  case (JNum i)
  have "opens (decimal n)" for n
  proof -
    have "digits_upto (Suc n) n \<noteq> []" by simp
    then show ?thesis
      using digits_upto_digits [of "Suc n" n]
      by (cases "decimal n") (auto simp: opens_def decimal_def digit_def char_code_def json_space_def simp del: digits_upto.simps)
  qed
  then show ?thesis by (auto simp: JNum json_number_def opens_def json_space_def char_code_def)
qed (auto simp: opens_def json_space_def char_code_def json_text_def)

text \<open>A writer of values whose texts are read back, however much follows.\<close>

definition read_back :: "('a \<Rightarrow> string) \<Rightarrow> ('a \<Rightarrow> json_value) \<Rightarrow> 'a \<Rightarrow> bool" where
  "read_back w v x \<longleftrightarrow> opens (w x) \<and> (\<forall>r n. stops r \<longrightarrow> 2 * length (w x @ r) + 1 \<le> n \<longrightarrow> read_value n (w x @ r) = Some (v x, r))"

lemma stops_rules: "stops (CHR '','' # r)" "stops (CHR '']'' # r)" "stops (CHR ''}'' # r)"
  by (simp_all add: stops_def)

lemma space_codes: "\<not> json_space (CHR '','')" "\<not> json_space (CHR '']'')" "\<not> json_space (CHR ''}'')"
  "\<not> json_space (CHR '':'')" "\<not> json_space (CHR 0x22)"
  by (simp_all add: json_space_def char_code_def)

lemma read_elements_join:
  assumes "xs \<noteq> []" and "\<forall>x\<in>set xs. read_back w v x"
    and "2 * length (join '','' (map w xs) @ CHR '']'' # r) + 2 \<le> n"
  shows "read_elements n (join '','' (map w xs) @ CHR '']'' # r) = Some (map v xs, r)"
  using assms
proof (induction xs arbitrary: n rule: list_nonempty_induct)
  case (single x)
  then obtain m where n: "n = Suc m" by (cases n) auto
  with single show ?case by (simp add: read_back_def stops_rules space_codes)
next
  case (cons x xs)
  then obtain m where n: "n = Suc m" by (cases n) auto
  obtain y ys where xs: "xs = y # ys" using cons.hyps by (cases xs) auto
  let ?rest = "join '','' (map w xs) @ CHR '']'' # r"
  have shape: "join '','' (map w (x # xs)) @ CHR '']'' # r = w x @ CHR '','' # ?rest" by (simp add: xs)
  have "read_value m (w x @ CHR '','' # ?rest) = Some (v x, CHR '','' # ?rest)"
    using cons.prems n unfolding shape by (simp add: read_back_def stops_rules)
  moreover have "read_elements m ?rest = Some (map v xs, r)"
    using cons.prems n unfolding shape by (intro cons.IH) auto
  ultimately show ?case unfolding shape n by (simp add: space_codes)
qed

definition member_text :: "('a \<Rightarrow> string) \<Rightarrow> string \<times> 'a \<Rightarrow> string" where
  "member_text w m = json_text (fst m) @ '':'' @ w (snd m)"

lemma read_members_join:
  assumes "xs \<noteq> []" and "\<forall>x\<in>set xs. read_back w v (snd x)"
    and "2 * length (join '','' (map (member_text w) xs) @ CHR ''}'' # r) + 2 \<le> n"
  shows "read_members n (join '','' (map (member_text w) xs) @ CHR ''}'' # r) = Some (map (map_prod id v) xs, r)"
  using assms
proof (induction xs arbitrary: n rule: list_nonempty_induct)
  case (single x)
  then obtain m where n: "n = Suc m" by (cases n) auto
  obtain k u where x: "x = (k, u)" by (cases x)
  have "skip (w u @ CHR ''}'' # r) = w u @ CHR ''}'' # r"
    using single by (intro skip_opens opens_append) (simp add: read_back_def x)
  with single n show ?case
    by (simp add: x member_text_def json_text_def read_json_text read_back_def stops_rules space_codes)
next
  case (cons x xs)
  then obtain m where n: "n = Suc m" by (cases n) auto
  obtain k u where x: "x = (k, u)" by (cases x)
  obtain y ys where xs: "xs = y # ys" using cons.hyps by (cases xs) auto
  let ?rest = "join '','' (map (member_text w) xs) @ CHR ''}'' # r"
  have shape: "join '','' (map (member_text w) (x # xs)) @ CHR ''}'' # r =
      CHR 0x22 # concat (map escaped k) @ CHR 0x22 # CHR '':'' # w u @ CHR '','' # ?rest"
    by (simp add: xs x member_text_def json_text_def)
  have "read_value m (w u @ CHR '','' # ?rest) = Some (v u, CHR '','' # ?rest)"
    using cons.prems n unfolding shape by (simp add: read_back_def stops_rules x)
  moreover have "read_members m ?rest = Some (map (map_prod id v) xs, r)"
    using cons.prems n unfolding shape by (intro cons.IH) auto
  ultimately show ?case unfolding shape n by (simp add: space_codes read_json_text x id_def)
qed

lemma insort_by_map:
  "(\<And>a b. le' (f a) (f b) = le a b) \<Longrightarrow> insort_by le' (f x) (map f xs) = map f (insort_by le x xs)"
  by (induction xs) auto

lemma sort_by_map: "(\<And>a b. le' (f a) (f b) = le a b) \<Longrightarrow> sort_by le' (map f xs) = map f (sort_by le xs)"
  by (induction xs) (auto simp: insort_by_map)

lemma opens_join:
  assumes "xs \<noteq> []" and "\<forall>x\<in>set xs. opens (w x)"
  shows "opens (join '','' (map w xs) @ r)"
  using assms by (cases xs; cases "tl xs") (auto intro: opens_append)

lemma read_back_array:
  assumes "\<forall>x\<in>set xs. read_back w v x" and "stops r"
    and "2 * length (''['' @ join '','' (map w xs) @ '']'' @ r) + 1 \<le> n"
  shows "read_value n (''['' @ join '','' (map w xs) @ '']'' @ r) = Some (VArray (map v xs), r)"
proof (cases "xs = []")
  case True
  with assms(3) show ?thesis by (cases n) (simp_all add: json_space_def char_code_def)
next
  case False
  from assms(3) obtain m where n: "n = Suc m" by (cases n) auto
  let ?rest = "join '','' (map w xs) @ CHR '']'' # r"
  have "opens ?rest" using False assms(1) by (intro opens_join) (auto simp: read_back_def)
  then have "skip ?rest = ?rest" "hd ?rest \<noteq> CHR '']''" by (simp_all add: skip_opens opens_def)
  moreover have "read_elements m ?rest = Some (map v xs, r)"
    using assms n by (intro read_elements_join [OF False]) auto
  moreover have "skip (CHR ''['' # ?rest) = CHR ''['' # ?rest" by (simp add: json_space_def char_code_def)
  ultimately show ?thesis by (simp add: n)
qed

lemma read_back_object:
  assumes "\<forall>x\<in>set xs. read_back w v (snd x)" and "stops r"
    and "2 * length (''{'' @ join '','' (map (member_text w) xs) @ ''}'' @ r) + 1 \<le> n"
  shows "read_value n (''{'' @ join '','' (map (member_text w) xs) @ ''}'' @ r) = Some (object_of (map (map_prod id v) xs), r)"
proof (cases "xs = []")
  case True
  with assms(3) show ?thesis by (cases n) (simp_all add: json_space_def char_code_def object_of_def)
next
  case False
  from assms(3) obtain m where n: "n = Suc m" by (cases n) auto
  let ?rest = "join '','' (map (member_text w) xs) @ CHR ''}'' # r"
  have "opens ?rest" using False
    by (intro opens_join) (auto simp: member_text_def json_text_def opens_def json_space_def char_code_def)
  then have "skip ?rest = ?rest" "hd ?rest \<noteq> CHR ''}''" by (simp_all add: skip_opens opens_def)
  moreover have "read_members m ?rest = Some (map (map_prod id v) xs, r)"
    using assms n by (intro read_members_join [OF False]) auto
  moreover have "skip (CHR ''{'' # ?rest) = CHR ''{'' # ?rest" by (simp add: json_space_def char_code_def)
  ultimately show ?thesis by (simp add: n)
qed

text \<open>The members of an object in the order of their names, which no value in them decides.\<close>

definition sorted_members :: "(string \<times> 'a) list \<Rightarrow> (string \<times> 'a) list" where
  "sorted_members kvs = sort_by (\<lambda>a b. code_le (fst a) (fst b)) kvs"

lemma canonicalJson_object:
  "canonicalJson (JObj kvs) = ''{'' @ join '','' (map (member_text canonicalJson) (sorted_members kvs)) @ ''}''"
  "value_of (JObj kvs) = object_of (map (map_prod id value_of) (sorted_members kvs))"
proof -
  have sorted: "sort_by (\<lambda>a b. code_le (fst a) (fst b)) (map (\<lambda>(key, v). (key, h v)) kvs) =
      map (\<lambda>(key, v). (key, h v)) (sorted_members kvs)" for h :: "json \<Rightarrow> 'b"
    unfolding sorted_members_def by (rule sort_by_map) (simp add: split_beta)
  have "(\<lambda>(key, v). json_text key @ '':'' @ v) \<circ> (\<lambda>(key, v). (key, canonicalJson v)) = member_text canonicalJson"
    by (simp add: fun_eq_iff member_text_def split_beta)
  then show "canonicalJson (JObj kvs) = ''{'' @ join '','' (map (member_text canonicalJson) (sorted_members kvs)) @ ''}''"
    unfolding canonicalJson.simps sorted map_map by simp
  have "(\<lambda>(key :: string, v). (key, value_of v)) = map_prod id value_of" by auto
  then show "value_of (JObj kvs) = object_of (map (map_prod id value_of) (sorted_members kvs))"
    unfolding value_of.simps sorted by simp
qed

lemma read_canonicalJson: "read_back canonicalJson value_of j"
proof (induction j rule: canonicalJson.induct)
  case (6 kvs)
  have "\<forall>x\<in>set (sorted_members kvs). read_back canonicalJson value_of (snd x)"
    using 6 mset_eq_setD [OF mset_sort_by] by (force simp: sorted_members_def)
  from read_back_object [OF this] canonicalJson_opens [of "JObj kvs"] show ?case
    unfolding read_back_def canonicalJson_object by simp
next
  case (5 xs)
  have "\<forall>x\<in>set xs. read_back canonicalJson value_of x" using 5 by auto
  from read_back_array [OF this] show ?case
    using canonicalJson_opens [of "JArr xs"] by (simp add: read_back_def)
next
  case (4 i)
  have "read_value n (json_number i @ r) = Some (VNumber (json_number i), r)"
    if "stops r" "2 * length (json_number i @ r) + 1 \<le> n" for r n
  proof -
    from that(2) obtain m where n: "n = Suc m" by (cases n) auto
    have i: "opens (json_number i)" using canonicalJson_opens [of "JNum i"] by simp
    then obtain c cs where c: "json_number i = c # cs" by (cases "json_number i") (auto simp: opens_def)
    have "c = CHR ''-'' \<or> digit c"
      using read_json_number [of "[]" i] by (auto simp: c stops_def read_number_def read_integer_def read_digits_def digit_def
          char_code_def split: if_splits option.splits)
    then have "c \<notin> {CHR 0x22, CHR ''['', CHR ''{'', CHR ''n'', CHR ''t'', CHR ''f''}"
      by (auto simp: digit_def char_code_def)
    moreover have "skip (json_number i @ r) = c # cs @ r" using skip_opens [OF opens_append [OF i]] c by simp
    ultimately show ?thesis using read_json_number [OF that(1), of i] by (simp add: n c)
  qed
  with canonicalJson_opens [of "JNum i"] show ?case by (simp add: read_back_def)
next
  case (3 s)
  have "read_value n (json_text s @ r) = Some (VString s, r)" if "1 \<le> n" for n r
    using that by (cases n) (simp_all add: json_text_def read_json_text space_codes)
  with canonicalJson_opens [of "JStr s"] show ?case by (simp add: read_back_def)
next
  case (2 b)
  have "read_value n (canonicalJson (JBool b) @ r) = Some (VBool b, r)" if "1 \<le> n" for n r
    using that by (cases n) (auto simp: read_literal_def starts_with_def json_space_def char_code_def)
  with canonicalJson_opens [of "JBool b"] show ?case by (simp add: read_back_def)
next
  case 1
  have "read_value n (''null'' @ r) = Some (VNull, r)" if "1 \<le> n" for n r
    using that by (cases n) (auto simp: read_literal_def starts_with_def json_space_def char_code_def)
  with canonicalJson_opens [of JNull] show ?case by (simp add: read_back_def)
qed

text \<open>C35: the canonical text of a JSON value is JSON: \<^verbatim>\<open>JSON.parse\<close> reads it back as the value it was written from.\<close>

theorem canonical_text_is_read_back: "json_parse (canonicalJson j) = Some (value_of j)"
proof -
  have "read_value (2 * length (canonicalJson j) + 2) (canonicalJson j @ []) = Some (value_of j, [])"
    using read_canonicalJson [of j] unfolding read_back_def by (simp add: stops_def del: read_value.simps)
  then show ?thesis by (simp add: json_parse_def del: read_value.simps)
qed

subsection \<open>Object.entries\<close>

text \<open>The names that are array indexes come first, in their numeric order, then the others as they came in.\<close>

definition index_name_value :: "string \<Rightarrow> nat option" where
  "index_name_value s =
     (if s \<noteq> [] \<and> list_all digit s \<and> (s = ''0'' \<or> hd s \<noteq> CHR ''0'') \<and> digits_value s < 4294967295
      then Some (digits_value s) else None)"

definition object_entries :: "(string \<times> 'a) list \<Rightarrow> (string \<times> 'a) list" where
  "object_entries ms =
     sort_by (\<lambda>a b. the (index_name_value (fst a)) \<le> the (index_name_value (fst b)))
       (filter (\<lambda>m. index_name_value (fst m) \<noteq> None) ms) @
     filter (\<lambda>m. index_name_value (fst m) = None) ms"

lemma set_object_entries [simp]: "set (object_entries ms) = set ms"
proof -
  have "set (sort_by le xs) = set xs" for le :: "string \<times> 'a \<Rightarrow> string \<times> 'a \<Rightarrow> bool" and xs
    by (rule mset_eq_setD) simp
  then show ?thesis by (auto simp: object_entries_def)
qed

subsection \<open>Number\<close>

text \<open>
  \<^verbatim>\<open>Number(text)\<close> where it is a whole number.  A decimal is read exactly: a fraction that only the
  rounding to a double would make whole is not taken for a whole number.
\<close>

definition radix_value :: "nat \<Rightarrow> string \<Rightarrow> int option" where
  "radix_value radix s =
     (if s \<noteq> [] \<and> list_all (\<lambda>c. hex_digit c \<and> hex_value c < radix) s
      then Some (int (foldl (\<lambda>n c. radix * n + hex_value c) 0 s)) else None)"

text \<open>A number times a power of ten, where that is whole.\<close>

definition scaled :: "int \<Rightarrow> int \<Rightarrow> int option" where
  "scaled m e =
     (if 0 \<le> e then Some (m * 10 ^ nat e)
      else if 10 ^ nat (- e) dvd m then Some (m div 10 ^ nat (- e)) else None)"

text \<open>The exponent at the end of a decimal, \<open>None\<close> for a text that is none.\<close>

definition exponent_value :: "string \<Rightarrow> int option" where
  "exponent_value s =
     (case s of
        [] \<Rightarrow> Some 0
      | c # r \<Rightarrow>
          if c \<noteq> CHR ''e'' \<and> c \<noteq> CHR ''E'' then None
          else (let signed = (r \<noteq> [] \<and> hd r \<in> {CHR ''+'', CHR ''-''});
                    digits = (if signed then tl r else r) in
            if digits = [] \<or> \<not> list_all digit digits then None
            else if signed \<and> hd r = CHR ''-'' then Some (- int (digits_value digits)) else Some (int (digits_value digits))))"

definition decimal_value :: "string \<Rightarrow> int option" where
  "decimal_value s =
     (let whole_part = takeWhile digit s; rest = dropWhile digit s;
          point = (rest \<noteq> [] \<and> hd rest = CHR ''.'');
          fraction = (if point then takeWhile digit (tl rest) else []);
          tail = (if point then dropWhile digit (tl rest) else rest) in
      if whole_part = [] \<and> fraction = [] then None
      else case exponent_value tail of
        None \<Rightarrow> None
      | Some e \<Rightarrow> scaled (int (digits_value (whole_part @ fraction))) (e - int (length fraction)))"

definition integer_of_text :: "string \<Rightarrow> int option" where
  "integer_of_text text0 =
     (let s = trim text0; prefix = to_lower (take 2 s) in
      if s = [] then Some 0
      else if prefix = ''0x'' then radix_value 16 (drop 2 s)
      else if prefix = ''0b'' then radix_value 2 (drop 2 s)
      else if prefix = ''0o'' then radix_value 8 (drop 2 s)
      else if hd s = CHR ''-'' then map_option uminus (decimal_value (tl s))
      else if hd s = CHR ''+'' then decimal_value (tl s)
      else decimal_value s)"

lemma integer_of_text_examples:
  "integer_of_text '' 42 '' = Some 42" "integer_of_text ''1e3'' = Some 1000" "integer_of_text ''0x1F'' = Some 31"
  "integer_of_text ''1.50'' = None" "integer_of_text ''-2.0'' = Some (-2)" "integer_of_text ''.5e1'' = Some 5"
  "integer_of_text ''Infinity'' = None" "integer_of_text ''12px'' = None" "integer_of_text '' '' = Some 0"
  by code_simp+

end
