(* ===== verification/Origin_Guard.thy ===== *)
theory Origin_Guard
  imports Prelude
begin

text \<open>
  \<^verbatim>\<open>src/auth/auth-browser-origin.guard.ts\<close>: a request that opens or uses a browser session must come
  from a trusted origin; refusals are logged, at most once a minute for each route and reason.

  \<^verbatim>\<open>new URL(text)\<close> is an argument \<open>parse\<close>, \<open>None\<close> where it throws.  The state of the guard is the map of
  \<^verbatim>\<open>warningSamples\<close> and the warnings logged so far, the newest first.
\<close>

record url =
  url_protocol :: string
  url_username :: string
  url_password :: string
  url_pathname :: string
  url_search :: string
  url_hash :: string
  url_origin :: string

datatype origin_denial = OriginMissing | OriginMultiple | OriginOpaque | OriginMalformed | OriginUntrusted

datatype session_route = RouteLogin | RouteMemberLogin | RouteRefresh | RouteLogout | RouteLogoutAll | RouteBrowserSession

record warning_sample =
  ws_lastEmittedAt :: int
  ws_suppressedCount :: nat

record warning =
  wn_key :: "session_route \<times> origin_denial"
  wn_at :: int
  wn_suppressedCount :: nat

record origin_guard =
  og_samples :: "session_route \<times> origin_denial \<rightharpoonup> warning_sample"
  og_warnings :: "warning list"

datatype origin_header = OneHeader string | HeaderList "string list"

definition warningIntervalMs :: int where
  "warningIntervalMs = 60000"

definition genericDenialMessage :: string where
  "genericDenialMessage = ''Browser session request denied''"

definition header_empty :: "origin_header \<Rightarrow> bool" where
  "header_empty h = (case h of OneHeader s \<Rightarrow> s = [] | HeaderList ss \<Rightarrow> ss = [])"

definition plain_http :: "url \<Rightarrow> bool" where
  "plain_http u \<longleftrightarrow> (url_protocol u = ''http:'' \<or> url_protocol u = ''https:'') \<and> url_username u = [] \<and>
     url_password u = [] \<and> url_pathname u = ''/'' \<and> url_search u = [] \<and> url_hash u = []"

definition AuthBrowserOriginGuard_denialReason ::
  "(string \<Rightarrow> url option) \<Rightarrow> string list \<Rightarrow> origin_header option \<Rightarrow> origin_denial option" where
  "AuthBrowserOriginGuard_denialReason parse trustedOrigins originHeader =
     (case originHeader of
        None \<Rightarrow> Some OriginMissing
      | Some h \<Rightarrow>
          if header_empty h then Some OriginMissing
          else case h of
            HeaderList _ \<Rightarrow> Some OriginMultiple
          | OneHeader s \<Rightarrow>
              if CHR '','' \<in> set s then Some OriginMultiple
              else if s = ''null'' then Some OriginOpaque
              else case parse s of
                None \<Rightarrow> Some OriginMalformed
              | Some u \<Rightarrow>
                  if \<not> plain_http u then Some OriginMalformed
                  else if url_origin u \<in> set trustedOrigins then None else Some OriginUntrusted)"

definition AuthBrowserOriginGuard_routeCategory :: "string option \<Rightarrow> string option \<Rightarrow> session_route" where
  "AuthBrowserOriginGuard_routeCategory routePath requestPath =
     (let path = (case routePath of Some p \<Rightarrow> p | None \<Rightarrow> (case requestPath of Some p \<Rightarrow> p | None \<Rightarrow> []));
          segments = filter (\<lambda>s. s \<noteq> []) (split_on CHR ''/'' path) in
      if segments = [] then RouteBrowserSession
      else let finalSegment = last segments in
        if finalSegment = ''login'' then RouteLogin
        else if finalSegment = ''member-login'' then RouteMemberLogin
        else if finalSegment = ''refresh'' then RouteRefresh
        else if finalSegment = ''logout'' then RouteLogout
        else if finalSegment = ''logout-all'' then RouteLogoutAll
        else RouteBrowserSession)"

definition AuthBrowserOriginGuard_sampleWarning ::
  "session_route \<times> origin_denial \<Rightarrow> int \<Rightarrow> origin_guard \<Rightarrow> origin_guard" where
  "AuthBrowserOriginGuard_sampleWarning key now G =
     (case og_samples G key of
        Some sample \<Rightarrow>
          if now - ws_lastEmittedAt sample < warningIntervalMs
          then G\<lparr>og_samples := (og_samples G)(key \<mapsto>
            sample\<lparr>ws_suppressedCount := ws_suppressedCount sample + 1\<rparr>)\<rparr>
          else G\<lparr>og_samples := (og_samples G)(key \<mapsto> \<lparr>ws_lastEmittedAt = now, ws_suppressedCount = 0\<rparr>),
            og_warnings := \<lparr>wn_key = key, wn_at = now, wn_suppressedCount = ws_suppressedCount sample\<rparr> # og_warnings G\<rparr>
      | None \<Rightarrow>
          G\<lparr>og_samples := (og_samples G)(key \<mapsto> \<lparr>ws_lastEmittedAt = now, ws_suppressedCount = 0\<rparr>),
            og_warnings := \<lparr>wn_key = key, wn_at = now, wn_suppressedCount = 0\<rparr> # og_warnings G\<rparr>)"

record browser_request =
  br_origin :: "origin_header option"
  br_routePath :: "string option"
  br_path :: "string option"

definition AuthBrowserOriginGuard_canActivate ::
  "(string \<Rightarrow> url option) \<Rightarrow> string list \<Rightarrow> int \<Rightarrow> browser_request \<Rightarrow> (origin_guard, bool) io" where
  "AuthBrowserOriginGuard_canActivate parse trustedOrigins now request G =
     (case AuthBrowserOriginGuard_denialReason parse trustedOrigins (br_origin request) of
        None \<Rightarrow> (Inr True, G)
      | Some reason \<Rightarrow>
          (Inl (Forbidden genericDenialMessage), AuthBrowserOriginGuard_sampleWarning
             (AuthBrowserOriginGuard_routeCategory (br_routePath request) (br_path request), reason) now G))"

text \<open>\<^verbatim>\<open>new AuthBrowserOriginGuard\<close>\<close>

definition fresh_guard :: origin_guard where
  "fresh_guard = \<lparr>og_samples = Map.empty, og_warnings = []\<rparr>"

subsection \<open>Requests one after the other\<close>

fun guard_requests ::
  "(string \<Rightarrow> url option) \<Rightarrow> string list \<Rightarrow> (int \<times> browser_request) list \<Rightarrow> origin_guard \<Rightarrow> (exn + bool) list \<times> origin_guard" where
  "guard_requests parse trustedOrigins [] G = ([], G)"
| "guard_requests parse trustedOrigins ((now, r) # rs) G =
     (case AuthBrowserOriginGuard_canActivate parse trustedOrigins now r G of (x, G1) \<Rightarrow>
      case guard_requests parse trustedOrigins rs G1 of (xs, G2) \<Rightarrow> (x # xs, G2))"

text \<open>The refusals a guard accounts for under a key: those logged, those the warnings count, and those waiting.\<close>

definition warned :: "session_route \<times> origin_denial \<Rightarrow> origin_guard \<Rightarrow> nat" where
  "warned key G = sum_list (map (\<lambda>w. 1 + wn_suppressedCount w) (filter (\<lambda>w. wn_key w = key) (og_warnings G))) +
     (case og_samples G key of None \<Rightarrow> 0 | Some s \<Rightarrow> ws_suppressedCount s)"

text \<open>The refusals of a list of requests under a key.\<close>

definition refused_as ::
  "(string \<Rightarrow> url option) \<Rightarrow> string list \<Rightarrow> session_route \<times> origin_denial \<Rightarrow> (int \<times> browser_request) list \<Rightarrow> nat" where
  "refused_as parse trustedOrigins key rs = length (filter (\<lambda>(now, r).
     AuthBrowserOriginGuard_denialReason parse trustedOrigins (br_origin r) = Some (snd key) \<and>
     AuthBrowserOriginGuard_routeCategory (br_routePath r) (br_path r) = fst key) rs)"

text \<open>Warnings with one key are a minute apart, and the sample holds the time of the last one.\<close>

fun spaced :: "int list \<Rightarrow> bool" where
  "spaced (t # s # ts) \<longleftrightarrow> s + warningIntervalMs \<le> t \<and> spaced (s # ts)"
| "spaced _ \<longleftrightarrow> True"

definition warned_at :: "session_route \<times> origin_denial \<Rightarrow> origin_guard \<Rightarrow> int list" where
  "warned_at key G = map wn_at (filter (\<lambda>w. wn_key w = key) (og_warnings G))"

definition guard_ok :: "origin_guard \<Rightarrow> bool" where
  "guard_ok G \<longleftrightarrow> (\<forall>key. spaced (warned_at key G) \<and>
     (case og_samples G key of None \<Rightarrow> warned_at key G = [] | Some s \<Rightarrow> warned_at key G \<noteq> [] \<and> hd (warned_at key G) = ws_lastEmittedAt s))"

lemma warned_sampleWarning:
  "warned key (AuthBrowserOriginGuard_sampleWarning key' now G) = warned key G + (if key' = key then 1 else 0)"
  by (auto simp: AuthBrowserOriginGuard_sampleWarning_def warned_def split: option.split)

lemma spaced_Cons: "spaced ts \<Longrightarrow> (ts \<noteq> [] \<Longrightarrow> hd ts + warningIntervalMs \<le> t) \<Longrightarrow> spaced (t # ts)"
  by (cases ts) auto

lemma guard_ok_sampleWarning: "guard_ok G \<Longrightarrow> guard_ok (AuthBrowserOriginGuard_sampleWarning key now G)"
  unfolding guard_ok_def
proof (intro allI, goal_cases)
  case (1 key')
  then have G: "spaced (warned_at key' G)"
    "case og_samples G key' of None \<Rightarrow> warned_at key' G = []
      | Some s \<Rightarrow> warned_at key' G \<noteq> [] \<and> hd (warned_at key' G) = ws_lastEmittedAt s" by blast+
  show ?case
    using G by (auto simp: AuthBrowserOriginGuard_sampleWarning_def warned_at_def
        intro!: spaced_Cons split: option.splits)
qed

lemma canActivate_outcome:
  "AuthBrowserOriginGuard_canActivate parse trustedOrigins now r G =
     (case AuthBrowserOriginGuard_denialReason parse trustedOrigins (br_origin r) of
        None \<Rightarrow> (Inr True, G)
      | Some reason \<Rightarrow> (Inl (Forbidden genericDenialMessage), AuthBrowserOriginGuard_sampleWarning
             (AuthBrowserOriginGuard_routeCategory (br_routePath r) (br_path r), reason) now G))"
  by (simp add: AuthBrowserOriginGuard_canActivate_def)

lemma guard_requests_warned:
  assumes "guard_requests parse trustedOrigins rs G = (xs, G')"
  shows "warned key G' = warned key G + refused_as parse trustedOrigins key rs"
  using assms
proof (induction rs arbitrary: G xs)
  case (Cons a rs)
  obtain now r where a: "a = (now, r)" by (cases a)
  show ?case
    using Cons.prems Cons.IH unfolding a
    by (cases "AuthBrowserOriginGuard_denialReason parse trustedOrigins (br_origin r)"; cases key)
      (fastforce simp: canActivate_outcome warned_sampleWarning refused_as_def split: prod.splits)+
qed (simp add: refused_as_def)

lemma guard_requests_ok:
  assumes "guard_requests parse trustedOrigins rs G = (xs, G')" and "guard_ok G"
  shows "guard_ok G'"
  using assms
proof (induction rs arbitrary: G xs)
  case (Cons a rs)
  obtain now r where a: "a = (now, r)" by (cases a)
  show ?case
    using Cons.prems Cons.IH guard_ok_sampleWarning unfolding a
    by (cases "AuthBrowserOriginGuard_denialReason parse trustedOrigins (br_origin r)")
      (fastforce simp: canActivate_outcome split: prod.splits)+
qed simp

subsection \<open>Properties\<close>

text \<open>A request passes the origin guard exactly when it has one \<^verbatim>\<open>Origin\<close> header, whose text is an
  http or https URL with nothing but a scheme, a host and a port, and the origin of that URL is one of the
  configured ones.  Every other request is forbidden with the same message.\<close>

theorem only_trusted_origins_pass:
  "case fst (AuthBrowserOriginGuard_canActivate parse trustedOrigins now request G) of
     Inr v \<Rightarrow> v \<and> (\<exists>s u. br_origin request = Some (OneHeader s) \<and> parse s = Some u \<and>
        CHR '','' \<notin> set s \<and> plain_http u \<and> url_origin u \<in> set trustedOrigins)
   | Inl e \<Rightarrow> e = Forbidden genericDenialMessage \<and>
       \<not> (\<exists>s u. br_origin request = Some (OneHeader s) \<and> s \<notin> {[], ''null''} \<and> CHR '','' \<notin> set s \<and> parse s = Some u \<and>
          plain_http u \<and> url_origin u \<in> set trustedOrigins)"
  by (auto simp: canActivate_outcome AuthBrowserOriginGuard_denialReason_def header_empty_def
      split: option.splits origin_header.splits if_splits)

text \<open>C37: whatever the requests, the warnings of the guard account for every refusal: for each route and
  reason, the warnings logged, the refusals they count as suppressed and those counted since are the
  refusals there were; and two warnings for the same route and reason are at least a minute apart.\<close>

theorem refusals_are_accounted_for:
  assumes "guard_requests parse trustedOrigins rs fresh_guard = (xs, G)"
  shows "warned key G = refused_as parse trustedOrigins key rs \<and> spaced (warned_at key G)"
proof -
  have "warned key fresh_guard = 0" and "guard_ok fresh_guard"
    by (simp_all add: fresh_guard_def warned_def guard_ok_def warned_at_def)
  moreover from this have "spaced (warned_at key G)" using guard_requests_ok [OF assms] unfolding guard_ok_def by blast
  ultimately show ?thesis using guard_requests_warned [OF assms, of key] by simp
qed

definition sample_parse :: "string \<Rightarrow> url option" where
  "sample_parse s = (if starts_with ''https://'' s then Some \<lparr>url_protocol = ''https:'', url_username = [], url_password = [],
     url_pathname = ''/'', url_search = [], url_hash = [], url_origin = s\<rparr> else None)"

definition sample_browser_request :: "string \<Rightarrow> browser_request" where
  "sample_browser_request origin = \<lparr>br_origin = Some (OneHeader origin), br_routePath = Some ''/auth/refresh'', br_path = None\<rparr>"

definition sample_browser_requests :: "(int \<times> browser_request) list" where
  "sample_browser_requests = [(0, sample_browser_request ''https://other''), (10, sample_browser_request ''https://other''),
     (20, sample_browser_request ''https://library''), (70000, sample_browser_request ''https://other'')]"

theorem refusals_are_accounted_for_witness:
  "warned (RouteRefresh, OriginUntrusted)
     (snd (guard_requests sample_parse [''https://library''] sample_browser_requests fresh_guard)) = 3"
proof -
  have "refused_as sample_parse [''https://library''] (RouteRefresh, OriginUntrusted) sample_browser_requests = 3"
    by code_simp
  then show ?thesis
    using refusals_are_accounted_for [OF prod.collapse [symmetric], of "(RouteRefresh, OriginUntrusted)" sample_parse
        "[''https://library'']" sample_browser_requests] by simp
qed

end
