(* ===== verification/Auth_Config.thy ===== *)
theory Auth_Config
  imports Json_Text Origin_Guard
begin

text \<open>
  \<^verbatim>\<open>src/config/auth.config.ts\<close>: the configuration of authentication from the environment.

  The environment is a map from names to texts.  \<^verbatim>\<open>new URL(text)\<close> is an argument, as in \<open>Origin_Guard\<close>.
  The objects are frozen, which values are anyway.
\<close>

type_synonym process_env = "string \<rightharpoonup> string"

definition developmentSecret :: string where
  "developmentSecret = ''development-only-secret''"

definition developmentAuditSecret :: string where
  "developmentAuditSecret = to_base64url (map char_code ''development-only-audit-correlation-key'')"

definition localBrowserOrigins :: "string list" where
  "localBrowserOrigins = [''http://localhost:5173'', ''http://127.0.0.1:5173'']"

definition REFRESH_ROTATION_LEASE_SECONDS :: int where
  "REFRESH_ROTATION_LEASE_SECONDS = 30"

definition REFRESH_ROTATION_RECONCILIATION_INTERVAL_SECONDS :: int where
  "REFRESH_ROTATION_RECONCILIATION_INTERVAL_SECONDS = 60"

definition REFRESH_ROTATION_RECONCILIATION_BATCH_SIZE :: int where
  "REFRESH_ROTATION_RECONCILIATION_BATCH_SIZE = 100"

definition max_safe_integer :: int where
  "max_safe_integer = 9007199254740991"

record audit_key_texts =
  kt_currentVersion :: int
  kt_keysByVersion :: "(string \<times> string) list"

record auth_configuration =
  ac_issuer :: string
  ac_audience :: string
  ac_jwtSecret :: string
  ac_jwtExpiresIn :: string
  ac_accessTokenTtlSeconds :: int
  ac_refreshTokenTtlSeconds :: int
  ac_cookieSecret :: string
  ac_auditCorrelationSecret :: string
  ac_auditCorrelationKeyVersion :: int
  ac_auditCorrelationPreviousKeys :: "(string \<times> string) list"
  ac_auditCorrelationKeyRing :: audit_key_texts
  ac_identifierLeaseSeconds :: int
  ac_identifierReconciliationIntervalSeconds :: int
  ac_identifierReconciliationBatchSize :: int
  ac_identifierOperationRetentionDays :: int
  ac_identifierMaxOperationAssignments :: int
  ac_refreshRotationLeaseSeconds :: int
  ac_refreshRotationReconciliationIntervalSeconds :: int
  ac_refreshRotationReconciliationBatchSize :: int
  ac_signInIdentifierFailureLimit :: int
  ac_signInSourceLimit :: int
  ac_signInWindowSeconds :: int
  ac_refreshThrottleLimit :: int
  ac_refreshThrottleWindowSeconds :: int
  ac_trustedProxyCidrs :: "string list"
  ac_trustedBrowserOrigins :: "string list"

definition configurationError :: "string \<Rightarrow> string \<Rightarrow> exn" where
  "configurationError name reason = JsError (''Invalid authentication configuration: '' @ name @ '' '' @ reason)"

definition production :: "process_env \<Rightarrow> bool" where
  "production E \<longleftrightarrow> E ''NODE_ENV'' = Some ''production''"

subsection \<open>Numbers and texts\<close>

definition integerFromEnv :: "process_env \<Rightarrow> string \<Rightarrow> int \<Rightarrow> int \<Rightarrow> int \<Rightarrow> ('w, int) io" where
  "integerFromEnv E name fallback minimum maximum =
     (case E name of
        None \<Rightarrow> ret fallback
      | Some rawValue \<Rightarrow>
          if rawValue = [] then ret fallback
          else case integer_of_text rawValue of
            None \<Rightarrow> throw (configurationError name
              (''must be an integer from '' @ json_number minimum @ '' to '' @ json_number maximum))
          | Some parsed \<Rightarrow>
              if parsed < minimum \<or> maximum < parsed
              then throw (configurationError name
                (''must be an integer from '' @ json_number minimum @ '' to '' @ json_number maximum))
              else ret parsed)"

definition requiredText :: "process_env \<Rightarrow> string \<Rightarrow> string \<Rightarrow> ('w, string) io" where
  "requiredText E name developmentFallback =
     (let v = (case E name of None \<Rightarrow> [] | Some s \<Rightarrow> trim s) in
      if v = [] \<and> production E then throw (configurationError name ''is required in production'')
      else ret (if v = [] then developmentFallback else v))"

text \<open>\<^verbatim>\<open>Buffer.byteLength\<close> of a text, in UTF-8.\<close>

definition byteLength :: "string \<Rightarrow> nat" where
  "byteLength s = sum_list (map (\<lambda>c. if char_code c < 128 then 1 else 2) s)"

definition productionSecret :: "process_env \<Rightarrow> string \<Rightarrow> string \<Rightarrow> ('w, string) io" where
  "productionSecret E name developmentFallback =
     (let v = E name in
      if (v = None \<or> v = Some []) \<and> production E
      then throw (configurationError name ''is required in production'')
      else
      let resolved = (case v of None \<Rightarrow> developmentFallback | Some s \<Rightarrow> s) in
      if production E \<and> (resolved = developmentSecret \<or> byteLength resolved < 32)
      then throw (configurationError name ''must contain at least 32 bytes'')
      else ret resolved)"

definition base64urlSecret :: "string \<Rightarrow> string \<Rightarrow> ('w, string) io" where
  "base64urlSecret name v =
     (if v = [] \<or> \<not> list_all (\<lambda>c. base64url_value c \<noteq> None \<and> c \<noteq> CHR ''+'' \<and> c \<noteq> CHR ''/'') v
      then throw (configurationError name ''must be an unpadded base64url secret'')
      else
      let decoded = from_base64url v in
      if length decoded < 32 \<or> to_base64url decoded \<noteq> v
      then throw (configurationError name ''must decode to at least 32 bytes'')
      else ret v)"

definition parseJson :: "string \<Rightarrow> string \<Rightarrow> ('w, json_value) io" where
  "parseJson name rawValue =
     (case json_parse rawValue of
        None \<Rightarrow> throw (configurationError name ''must be valid JSON'')
      | Some v \<Rightarrow> ret v)"

subsection \<open>Previous keys\<close>

text \<open>\<^verbatim>\<open>rawValue.matchAll(/"([^"\\]+)"\s*:/g)\<close>: the names in the text, without their quotes.\<close>

definition name_char :: "char \<Rightarrow> bool" where
  "name_char c \<longleftrightarrow> c \<noteq> CHR 0x22 \<and> c \<noteq> CHR 0x5C"

function serializedKeys :: "string \<Rightarrow> string list" where
  "serializedKeys [] = []"
| "serializedKeys (c # s) =
     (let name = takeWhile name_char s; rest = dropWhile name_char s;
          colon = dropWhile white_space (tl rest) in
      if c = CHR 0x22 \<and> name \<noteq> [] \<and> rest \<noteq> [] \<and> hd rest = CHR 0x22 \<and> colon \<noteq> [] \<and> hd colon = CHR '':''
      then name # serializedKeys (tl colon)
      else serializedKeys s)"
  by pat_completeness auto

lemma tl_dropWhile_length: "length (dropWhile P (tl xs)) \<le> length xs"
  by (rule order_trans [OF length_dropWhile_le]) simp

termination serializedKeys
proof (relation "measure length", goal_cases)
  case (2 c s name rest colon)
  have "length colon \<le> length rest" unfolding 2(3) by (rule tl_dropWhile_length)
  moreover have "length rest \<le> length s" unfolding 2(2) by (rule length_dropWhile_le)
  ultimately show ?case by simp
qed simp_all

definition positive_version :: "string \<Rightarrow> bool" where
  "positive_version s \<longleftrightarrow> s \<noteq> [] \<and> hd s \<noteq> CHR ''0'' \<and> list_all digit s \<and> int (digits_value s) \<le> max_safe_integer"

fun check_previous :: "string \<Rightarrow> int \<Rightarrow> (string \<times> json_value) list \<Rightarrow> ('w, (string \<times> string) list) io" where
  "check_previous name currentVersion [] = ret []"
| "check_previous name currentVersion ((version, secret) # entries) =
     (if \<not> positive_version version then throw (configurationError name ''must use positive integer versions'')
      else if int (digits_value version) = currentVersion
      then throw (configurationError name ''must not contain the current version'')
      else (case secret of
          VString t \<Rightarrow>
            await (base64urlSecret name t) (\<lambda>checked.
            await (check_previous name currentVersion entries) (\<lambda>rest.
            ret ((version, checked) # rest)))
        | _ \<Rightarrow> throw (configurationError name ''must map versions to secrets'')))"

definition parsePreviousKeys :: "process_env \<Rightarrow> int \<Rightarrow> ('w, (string \<times> string) list) io" where
  "parsePreviousKeys E currentVersion =
     (let name = ''AUTH_AUDIT_CORRELATION_PREVIOUS_KEYS'';
          rawValue = (case E name of None \<Rightarrow> ''{}'' | Some s \<Rightarrow> s) in
      await (parseJson name rawValue) (\<lambda>parsed.
      case parsed of
        VObject properties \<Rightarrow>
          if \<not> distinct (serializedKeys rawValue)
          then throw (configurationError name ''must not contain duplicate versions'')
          else
          let entries = object_entries properties in
          if 2 < length entries then throw (configurationError name ''must contain at most two versions'')
          else check_previous name currentVersion entries
      | _ \<Rightarrow> throw (configurationError name ''must be a JSON object'')))"

subsection \<open>Networks and origins\<close>

fun string_values :: "json_value list \<Rightarrow> string list option" where
  "string_values [] = Some []"
| "string_values (v # vs) =
     (case v of VString s \<Rightarrow> map_option (\<lambda>ss. s # ss) (string_values vs) | _ \<Rightarrow> None)"

definition parseJsonStringArray :: "string \<Rightarrow> string \<Rightarrow> ('w, string list) io" where
  "parseJsonStringArray name rawValue =
     await (parseJson name rawValue) (\<lambda>parsed.
     case parsed of
       VArray vs \<Rightarrow>
         (case string_values vs of
            None \<Rightarrow> throw (configurationError name ''must be a JSON array of strings'')
          | Some ss \<Rightarrow> ret ss)
     | _ \<Rightarrow> throw (configurationError name ''must be a JSON array of strings''))"

text \<open>The address and the prefix of a network: the text before and after the last slash, if one is not the first character.\<close>

definition cidr_parts :: "string \<Rightarrow> string \<times> string" where
  "cidr_parts cidr =
     (let prefix = rev (takeWhile (\<lambda>c. c \<noteq> CHR ''/'') (rev cidr));
          address = take (length cidr - length prefix - 1) cidr in
      if CHR ''/'' \<in> set cidr \<and> address \<noteq> [] then (address, prefix) else ([], []))"

definition valid_cidr :: "string \<Rightarrow> bool" where
  "valid_cidr cidr =
     (case cidr_parts cidr of (address, prefixText) \<Rightarrow>
        let family = isIP address in
        family \<noteq> 0 \<and> prefixText \<noteq> [] \<and> list_all digit prefixText \<and>
        digits_value prefixText \<le> (if family = 4 then 32 else 128))"

fun check_cidrs :: "process_env \<Rightarrow> string \<Rightarrow> string set \<Rightarrow> string list \<Rightarrow> ('w, unit) io" where
  "check_cidrs E name seen [] = ret ()"
| "check_cidrs E name seen (cidr # cidrs) =
     (if \<not> valid_cidr cidr then throw (configurationError name ''contains an invalid IPv4 or IPv6 CIDR'')
      else if production E \<and> digits_value (snd (cidr_parts cidr)) = 0
      then throw (configurationError name ''must not trust an all-address CIDR'')
      else if cidr \<in> seen then throw (configurationError name ''must not contain duplicate CIDRs'')
      else check_cidrs E name (insert cidr seen) cidrs)"

definition parseTrustedProxyCidrs :: "process_env \<Rightarrow> ('w, string list) io" where
  "parseTrustedProxyCidrs E =
     (let name = ''AUTH_TRUSTED_PROXY_CIDRS'' in
      await (parseJsonStringArray name (case E name of None \<Rightarrow> ''[]'' | Some s \<Rightarrow> s)) (\<lambda>cidrs.
      await (check_cidrs E name {} cidrs) (\<lambda>_. ret cidrs)))"

definition unsafe_origin :: "string \<Rightarrow> bool" where
  "unsafe_origin s \<longleftrightarrow> s = ''null'' \<or> CHR ''*'' \<in> set s \<or> CHR ''?'' \<in> set s \<or> CHR ''#'' \<in> set s"

fun canonicalOrigins ::
  "(string \<Rightarrow> url option) \<Rightarrow> process_env \<Rightarrow> string \<Rightarrow> string set \<Rightarrow> string list \<Rightarrow> ('w, string list) io" where
  "canonicalOrigins parse E name seen [] = ret []"
| "canonicalOrigins parse E name seen (s # ss) =
     (if unsafe_origin s then throw (configurationError name ''contains an unsafe origin'')
      else case parse s of
        None \<Rightarrow> throw (configurationError name ''contains a malformed origin'')
      | Some u \<Rightarrow>
          if (url_protocol u \<noteq> ''http:'' \<and> url_protocol u \<noteq> ''https:'') \<or> url_username u \<noteq> [] \<or> url_password u \<noteq> [] \<or>
            url_pathname u \<noteq> ''/''
          then throw (configurationError name ''must contain exact HTTP(S) origins'')
          else if production E \<and> url_protocol u \<noteq> ''https:''
          then throw (configurationError name ''must contain only HTTPS origins'')
          else if url_origin u \<in> seen then throw (configurationError name ''must not contain duplicate origins'')
          else await (canonicalOrigins parse E name (insert (url_origin u) seen) ss) (\<lambda>rest.
            ret (url_origin u # rest)))"

definition parseTrustedBrowserOrigins :: "(string \<Rightarrow> url option) \<Rightarrow> process_env \<Rightarrow> ('w, string list) io" where
  "parseTrustedBrowserOrigins parse E =
     (let name = ''AUTH_TRUSTED_BROWSER_ORIGINS''; configured_text = E name in
      if (configured_text = None \<or> configured_text = Some []) \<and> production E
      then throw (configurationError name ''is required in production'')
      else
      await (parseJsonStringArray name (case configured_text of
          None \<Rightarrow> canonicalJson (JArr (map JStr localBrowserOrigins)) | Some s \<Rightarrow> s)) (\<lambda>origins.
      if production E \<and> origins = [] then throw (configurationError name ''must contain at least one origin'')
      else canonicalOrigins parse E name {} origins))"

subsection \<open>The configuration\<close>

definition loadAuthConfig :: "(string \<Rightarrow> url option) \<Rightarrow> process_env \<Rightarrow> ('w, auth_configuration) io" where
  "loadAuthConfig parse E =
     await (integerFromEnv E ''ACCESS_TOKEN_TTL_SECONDS'' 900 1 900) (\<lambda>accessTokenTtlSeconds.
     await (integerFromEnv E ''REFRESH_TOKEN_TTL_SECONDS'' (60 * 60 * 24 * 30) 1 2592000) (\<lambda>refreshTokenTtlSeconds.
     if refreshTokenTtlSeconds \<le> accessTokenTtlSeconds
     then throw (configurationError ''REFRESH_TOKEN_TTL_SECONDS'' ''must exceed ACCESS_TOKEN_TTL_SECONDS'')
     else
     await (integerFromEnv E ''AUTH_AUDIT_CORRELATION_KEY_VERSION'' 1 1 max_safe_integer) (\<lambda>keyVersion.
     await (base64urlSecret ''AUTH_AUDIT_CORRELATION_SECRET''
       (case E ''AUTH_AUDIT_CORRELATION_SECRET'' of None \<Rightarrow> developmentAuditSecret | Some s \<Rightarrow> s)) (\<lambda>auditSecret.
     if production E \<and> (E ''AUTH_AUDIT_CORRELATION_SECRET'' = None \<or> E ''AUTH_AUDIT_CORRELATION_SECRET'' = Some [])
     then throw (configurationError ''AUTH_AUDIT_CORRELATION_SECRET'' ''is required in production'')
     else
     await (parsePreviousKeys E keyVersion) (\<lambda>previousKeys.
     await (requiredText E ''JWT_ISSUER'' ''book-library-local'') (\<lambda>issuer.
     await (requiredText E ''JWT_AUDIENCE'' ''book-library-api'') (\<lambda>audience.
     await (productionSecret E ''JWT_SECRET'' developmentSecret) (\<lambda>jwtSecret.
     await (productionSecret E ''AUTH_COOKIE_SECRET'' developmentSecret) (\<lambda>cookieSecret.
     await (integerFromEnv E ''AUTH_IDENTIFIER_LEASE_SECONDS'' 300 30 3600) (\<lambda>lease.
     await (integerFromEnv E ''AUTH_IDENTIFIER_RECONCILIATION_INTERVAL_SECONDS'' 60 1 max_safe_integer) (\<lambda>interval.
     await (integerFromEnv E ''AUTH_IDENTIFIER_RECONCILIATION_BATCH_SIZE'' 100 1 max_safe_integer) (\<lambda>batch.
     await (integerFromEnv E ''AUTH_IDENTIFIER_OPERATION_RETENTION_DAYS'' 90 7 365) (\<lambda>retention.
     await (integerFromEnv E ''AUTH_IDENTIFIER_MAX_OPERATION_ASSIGNMENTS'' 20 2 100) (\<lambda>assignments.
     await (integerFromEnv E ''AUTH_SIGNIN_IDENTIFIER_FAILURE_LIMIT'' 5 1 max_safe_integer) (\<lambda>failureLimit.
     await (integerFromEnv E ''AUTH_SIGNIN_SOURCE_LIMIT'' 20 1 max_safe_integer) (\<lambda>sourceLimit.
     await (integerFromEnv E ''AUTH_SIGNIN_WINDOW_SECONDS'' 900 1 max_safe_integer) (\<lambda>signInWindow.
     await (integerFromEnv E ''AUTH_REFRESH_THROTTLE_LIMIT'' 30 1 max_safe_integer) (\<lambda>refreshLimit.
     await (integerFromEnv E ''AUTH_REFRESH_THROTTLE_WINDOW_SECONDS'' 300 1 max_safe_integer) (\<lambda>refreshWindow.
     await (parseTrustedProxyCidrs E) (\<lambda>cidrs.
     await (parseTrustedBrowserOrigins parse E) (\<lambda>origins.
     ret \<lparr>ac_issuer = issuer, ac_audience = audience, ac_jwtSecret = jwtSecret,
       ac_jwtExpiresIn = json_number accessTokenTtlSeconds @ ''s'',
       ac_accessTokenTtlSeconds = accessTokenTtlSeconds, ac_refreshTokenTtlSeconds = refreshTokenTtlSeconds,
       ac_cookieSecret = cookieSecret, ac_auditCorrelationSecret = auditSecret, ac_auditCorrelationKeyVersion = keyVersion,
       ac_auditCorrelationPreviousKeys = previousKeys,
       ac_auditCorrelationKeyRing = \<lparr>kt_currentVersion = keyVersion,
         kt_keysByVersion = AList.update (json_number keyVersion) auditSecret previousKeys\<rparr>,
       ac_identifierLeaseSeconds = lease, ac_identifierReconciliationIntervalSeconds = interval,
       ac_identifierReconciliationBatchSize = batch, ac_identifierOperationRetentionDays = retention,
       ac_identifierMaxOperationAssignments = assignments,
       ac_refreshRotationLeaseSeconds = REFRESH_ROTATION_LEASE_SECONDS,
       ac_refreshRotationReconciliationIntervalSeconds = REFRESH_ROTATION_RECONCILIATION_INTERVAL_SECONDS,
       ac_refreshRotationReconciliationBatchSize = REFRESH_ROTATION_RECONCILIATION_BATCH_SIZE,
       ac_signInIdentifierFailureLimit = failureLimit, ac_signInSourceLimit = sourceLimit,
       ac_signInWindowSeconds = signInWindow, ac_refreshThrottleLimit = refreshLimit,
       ac_refreshThrottleWindowSeconds = refreshWindow, ac_trustedProxyCidrs = cidrs,
       ac_trustedBrowserOrigins = origins\<rparr>)))))))))))))))))))))"

subsection \<open>What each reader returns\<close>

text \<open>A computation that either returns a value with \<open>Q\<close> or refuses the configuration.\<close>

definition configures :: "('w, 'a) io \<Rightarrow> ('a \<Rightarrow> bool) \<Rightarrow> bool" where
  "configures m Q \<longleftrightarrow> (\<forall>w. wp m (\<lambda>a _. Q a) (\<lambda>e _. \<exists>name reason. e = configurationError name reason) w)"

named_theorems configuring \<open>rules for what the readers of the configuration return\<close>

lemma configures_ret [configuring]: "Q a \<Longrightarrow> configures (ret a) Q"
  by (simp add: configures_def)

lemma configures_throw [configuring]: "configures (throw (configurationError name reason)) Q"
  by (auto simp: configures_def)

lemma configures_await: "configures m P \<Longrightarrow> (\<And>a. P a \<Longrightarrow> configures (k a) Q) \<Longrightarrow> configures (await m k) Q"
  unfolding configures_def wp_await by (intro allI, rule wp_mono [of m "\<lambda>a _. P a"]) auto

lemma configures_mono: "configures m P \<Longrightarrow> (\<And>a. P a \<Longrightarrow> Q a) \<Longrightarrow> configures m Q"
  unfolding configures_def by (intro allI, rule wp_mono [of m "\<lambda>a _. P a"]) auto

lemma configures_if: "(b \<Longrightarrow> configures m Q) \<Longrightarrow> (\<not> b \<Longrightarrow> configures n Q) \<Longrightarrow> configures (if b then m else n) Q"
  by simp

lemma configures_integer [configuring]:
  assumes "minimum \<le> fallback" and "fallback \<le> maximum"
  shows "configures (integerFromEnv E name fallback minimum maximum) (\<lambda>n. minimum \<le> n \<and> n \<le> maximum)"
  using assms by (auto simp: integerFromEnv_def intro!: configuring split: option.split)

lemma configures_text [configuring]:
  assumes "fallback \<noteq> []"
  shows "configures (requiredText E name fallback) (\<lambda>s. s \<noteq> [] \<and> (production E \<longrightarrow> (\<exists>t. E name = Some t \<and> s = trim t)))"
  using assms by (auto simp: requiredText_def Let_def intro!: configuring split: option.split)

definition strong_secret :: "string \<Rightarrow> bool" where
  "strong_secret s \<longleftrightarrow> 32 \<le> byteLength s \<and> s \<noteq> developmentSecret"

lemma configures_secret [configuring]:
  "configures (productionSecret E name fallback) (\<lambda>s. production E \<longrightarrow> strong_secret s \<and> E name = Some s)"
  by (auto simp: productionSecret_def strong_secret_def Let_def intro!: configuring split: option.split)

definition key_text :: "string \<Rightarrow> bool" where
  "key_text s \<longleftrightarrow> 32 \<le> length (from_base64url s) \<and> to_base64url (from_base64url s) = s"

lemma configures_key [configuring]: "configures (base64urlSecret name v) (\<lambda>s. s = v \<and> key_text s)"
  by (auto simp: base64urlSecret_def key_text_def Let_def intro!: configuring)

lemma configures_json [configuring]: "configures (parseJson name raw) (\<lambda>v. json_parse raw = Some v)"
  by (auto simp: parseJson_def intro!: configuring split: option.split)

definition previous_ok :: "int \<Rightarrow> (string \<times> string) list \<Rightarrow> bool" where
  "previous_ok currentVersion ks \<longleftrightarrow> (\<forall>(v, s)\<in>set ks. positive_version v \<and> int (digits_value v) \<noteq> currentVersion \<and> key_text s)"

lemma configures_previous [configuring]:
  "configures (check_previous name currentVersion entries) (\<lambda>ks. previous_ok currentVersion ks \<and> map fst ks = map fst entries)"
proof (induction entries)
  case (Cons entry entries)
  obtain v s where e: "entry = (v, s)" by (cases entry)
  show ?case
    unfolding e check_previous.simps
    by (intro configures_if configuring, cases s)
      (auto intro!: configuring configures_await [OF configures_key] configures_await [OF Cons.IH] simp: previous_ok_def)
qed (simp add: configures_ret previous_ok_def)

lemma object_of_distinct: "object_of ms = VObject ns \<Longrightarrow> distinct (map fst ns)"
proof -
  have "distinct (map fst (fold (\<lambda>(name, v). AList.update name v) ms ns))" if "distinct (map fst ns)" for ns
    using that by (induction ms arbitrary: ns) (auto simp: distinct_update split_beta)
  then show "object_of ms = VObject ns \<Longrightarrow> distinct (map fst ns)" by (auto simp: object_of_def)
qed

lemma parsed_object_distinct: "json_parse s = Some (VObject ms) \<Longrightarrow> distinct (map fst ms)"
proof -
  have "distinct (map fst ms)" if "read_value n s = Some (VObject ms, r)" for n r
    using that by (cases n) (auto simp: read_literal_def split: list.splits if_splits dest: object_of_distinct sym)
  then show "json_parse s = Some (VObject ms) \<Longrightarrow> distinct (map fst ms)"
    by (auto simp: json_parse_def simp del: read_value.simps split: option.splits if_splits)
qed

lemma object_entries_distinct: "distinct (map fst ms) \<Longrightarrow> distinct (map fst (object_entries ms))"
proof -
  have d: "distinct (map fst (sort_by le xs)) = distinct (map fst xs)" for le :: "string \<times> 'a \<Rightarrow> string \<times> 'a \<Rightarrow> bool" and xs
    by (rule mset_eq_imp_distinct_iff) simp
  have m: "set (sort_by le xs) = set xs" for le :: "string \<times> 'a \<Rightarrow> string \<times> 'a \<Rightarrow> bool" and xs
    by (rule mset_eq_setD) simp
  assume "distinct (map fst ms)"
  then show ?thesis by (auto simp: object_entries_def d m distinct_map_filter)
qed

lemma configures_previous_keys [configuring]:
  "configures (parsePreviousKeys E currentVersion)
     (\<lambda>ks. previous_ok currentVersion ks \<and> length ks \<le> 2 \<and> distinct (map fst ks))"
proof -
  have "configures (check_previous name currentVersion (object_entries ms))
      (\<lambda>ks. previous_ok currentVersion ks \<and> length ks \<le> 2 \<and> distinct (map fst ks))"
    if "json_parse raw = Some (VObject ms)" "\<not> 2 < length (object_entries ms)" for name raw ms
    using that object_entries_distinct [OF parsed_object_distinct [OF that(1)]]
    by (intro configures_mono [OF configures_previous]) (auto dest: map_eq_imp_length_eq)
  then show ?thesis
    unfolding parsePreviousKeys_def Let_def
    by (intro configures_await [OF configures_json]) (auto intro!: configuring split: json_value.split)
qed

lemma configures_strings [configuring]: "configures (parseJsonStringArray name raw) (\<lambda>_. True)"
  unfolding parseJsonStringArray_def
  by (intro configures_await [OF configures_json]) (auto intro!: configuring split: json_value.split option.split)

lemma configures_cidrs:
  "configures (check_cidrs E name seen cidrs) (\<lambda>_. distinct cidrs \<and> set cidrs \<inter> seen = {} \<and>
     (\<forall>c\<in>set cidrs. valid_cidr c \<and> (production E \<longrightarrow> digits_value (snd (cidr_parts c)) \<noteq> 0)))"
proof (induction cidrs arbitrary: seen)
  case (Cons c cidrs)
  show ?case
    unfolding check_cidrs.simps
    by (intro configures_if configures_throw configures_mono [OF Cons.IH]) auto
qed (simp add: configures_ret)

definition proxies_ok :: "process_env \<Rightarrow> string list \<Rightarrow> bool" where
  "proxies_ok E cidrs \<longleftrightarrow> distinct cidrs \<and>
     (\<forall>c\<in>set cidrs. valid_cidr c \<and> (production E \<longrightarrow> digits_value (snd (cidr_parts c)) \<noteq> 0))"

lemma configures_proxies [configuring]: "configures (parseTrustedProxyCidrs E) (proxies_ok E)"
  unfolding parseTrustedProxyCidrs_def Let_def
  by (intro configures_await [OF configures_strings] configures_await [OF configures_cidrs] configures_ret)
    (simp add: proxies_ok_def)

text \<open>An origin that the configuration may trust: that of a URL without user, password and path.\<close>

definition trustworthy :: "(string \<Rightarrow> url option) \<Rightarrow> process_env \<Rightarrow> string \<Rightarrow> bool" where
  "trustworthy parse E origin \<longleftrightarrow> (\<exists>s u. parse s = Some u \<and> url_origin u = origin \<and> url_username u = [] \<and>
     url_password u = [] \<and> url_pathname u = ''/'' \<and> url_protocol u \<in> {''http:'', ''https:''} \<and>
     (production E \<longrightarrow> url_protocol u = ''https:''))"

lemma trustworthyI:
  "parse s = Some u \<Longrightarrow> url_username u = [] \<Longrightarrow> url_password u = [] \<Longrightarrow> url_pathname u = ''/'' \<Longrightarrow>
   url_protocol u = ''http:'' \<or> url_protocol u = ''https:'' \<Longrightarrow> production E \<longrightarrow> url_protocol u = ''https:'' \<Longrightarrow>
   trustworthy parse E (url_origin u)"
  by (auto simp: trustworthy_def)

lemma configures_canonical:
  "configures (canonicalOrigins parse E name seen ss) (\<lambda>os. distinct os \<and> set os \<inter> seen = {} \<and> length os = length ss \<and>
     (\<forall>x\<in>set os. trustworthy parse E x))"
proof (induction ss arbitrary: seen)
  case (Cons s ss)
  show ?case
    by (cases "parse s") (auto intro!: configures_throw configures_await [OF Cons.IH] configures_ret intro: trustworthyI)
qed (simp add: configures_ret)

definition origins_ok :: "(string \<Rightarrow> url option) \<Rightarrow> process_env \<Rightarrow> string list \<Rightarrow> bool" where
  "origins_ok parse E os \<longleftrightarrow> distinct os \<and> (production E \<longrightarrow> os \<noteq> []) \<and> (\<forall>x\<in>set os. trustworthy parse E x)"

lemma configures_origins [configuring]: "configures (parseTrustedBrowserOrigins parse E) (origins_ok parse E)"
  unfolding parseTrustedBrowserOrigins_def Let_def
  by (intro configures_if configuring configures_await [OF configures_strings])
    (auto intro!: configures_mono [OF configures_canonical] simp: origins_ok_def)

subsection \<open>Properties\<close>

text \<open>What is promised of a configuration: the times and limits, the keys, the secrets, and whom it trusts.\<close>

definition times_ok :: "auth_configuration \<Rightarrow> bool" where
  "times_ok C \<longleftrightarrow> 1 \<le> ac_accessTokenTtlSeconds C \<and> ac_accessTokenTtlSeconds C \<le> 900 \<and>
     ac_accessTokenTtlSeconds C < ac_refreshTokenTtlSeconds C \<and> ac_refreshTokenTtlSeconds C \<le> 2592000 \<and>
     30 \<le> ac_identifierLeaseSeconds C \<and> ac_identifierLeaseSeconds C \<le> 3600 \<and>
     7 \<le> ac_identifierOperationRetentionDays C \<and> ac_identifierOperationRetentionDays C \<le> 365 \<and>
     2 \<le> ac_identifierMaxOperationAssignments C \<and> ac_identifierMaxOperationAssignments C \<le> 100 \<and>
     list_all (\<lambda>n. 1 \<le> n \<and> n \<le> max_safe_integer)
       [ac_identifierReconciliationIntervalSeconds C, ac_identifierReconciliationBatchSize C,
        ac_signInIdentifierFailureLimit C, ac_signInSourceLimit C, ac_signInWindowSeconds C,
        ac_refreshThrottleLimit C, ac_refreshThrottleWindowSeconds C]"

definition keys_ok :: "auth_configuration \<Rightarrow> bool" where
  "keys_ok C \<longleftrightarrow> 1 \<le> ac_auditCorrelationKeyVersion C \<and> ac_auditCorrelationKeyVersion C \<le> max_safe_integer \<and>
     key_text (ac_auditCorrelationSecret C) \<and>
     previous_ok (ac_auditCorrelationKeyVersion C) (ac_auditCorrelationPreviousKeys C) \<and>
     length (ac_auditCorrelationPreviousKeys C) \<le> 2 \<and> distinct (map fst (ac_auditCorrelationPreviousKeys C)) \<and>
     kt_currentVersion (ac_auditCorrelationKeyRing C) = ac_auditCorrelationKeyVersion C \<and>
     map_of (kt_keysByVersion (ac_auditCorrelationKeyRing C)) =
       (map_of (ac_auditCorrelationPreviousKeys C))(json_number (ac_auditCorrelationKeyVersion C) \<mapsto> ac_auditCorrelationSecret C)"

definition secrets_ok :: "process_env \<Rightarrow> auth_configuration \<Rightarrow> bool" where
  "secrets_ok E C \<longleftrightarrow> ac_issuer C \<noteq> [] \<and> ac_audience C \<noteq> [] \<and>
     (production E \<longrightarrow> strong_secret (ac_jwtSecret C) \<and> strong_secret (ac_cookieSecret C) \<and>
        E ''AUTH_AUDIT_CORRELATION_SECRET'' = Some (ac_auditCorrelationSecret C))"

definition configuration_ok :: "(string \<Rightarrow> url option) \<Rightarrow> process_env \<Rightarrow> auth_configuration \<Rightarrow> bool" where
  "configuration_ok parse E C \<longleftrightarrow> times_ok C \<and> keys_ok C \<and> secrets_ok E C \<and>
     proxies_ok E (ac_trustedProxyCidrs C) \<and> origins_ok parse E (ac_trustedBrowserOrigins C)"

lemma loaded: "configures (loadAuthConfig parse E) (configuration_ok parse E)"
  unfolding loadAuthConfig_def
  by ((rule configures_if, rule configures_throw)
    | (rule configures_await, rule configures_integer, (simp add: max_safe_integer_def; fail), (simp add: max_safe_integer_def; fail))
    | (rule configures_await, rule configures_text, (simp; fail))
    | (rule configures_await,
       rule configures_key configures_previous_keys configures_secret configures_proxies configures_origins)
    | rule configures_ret)+
   (simp add: configuration_ok_def times_ok_def keys_ok_def secrets_ok_def update_conv', auto)

text \<open>C24: reading the environment either refuses it with an error that names a setting, or gives a
  configuration in which the access token lives at most a quarter of an hour and the refresh token longer,
  at most thirty days; the leases, retention and sizes of operations are within their bounds and every limit is at
  least one; the key ring has the current key and at most two others of positive versions, each of
  32 bytes or more; and in production the secrets are given and strong, no network of all addresses
  is trusted as a proxy and only https origins, at least one, as browsers' origins.\<close>

theorem loaded_configuration_is_sound:
  "case fst (loadAuthConfig parse E w) of
     Inr C \<Rightarrow> configuration_ok parse E C
   | Inl e \<Rightarrow> \<exists>name reason. e = configurationError name reason"
  using loaded [unfolded configures_def, rule_format, of parse E w]
  by (cases "loadAuthConfig parse E w") (auto simp: wp_def split: sum.splits)


definition sample_key :: string where
  "sample_key = to_base64url (replicate 33 0)"

definition sample_env :: process_env where
  "sample_env = [''NODE_ENV'' \<mapsto> ''production'', ''JWT_ISSUER'' \<mapsto> ''library'', ''JWT_AUDIENCE'' \<mapsto> ''api'',
     ''JWT_SECRET'' \<mapsto> replicate 32 CHR ''s'', ''AUTH_COOKIE_SECRET'' \<mapsto> replicate 40 CHR ''t'',
     ''AUTH_AUDIT_CORRELATION_SECRET'' \<mapsto> sample_key,
     ''AUTH_AUDIT_CORRELATION_KEY_VERSION'' \<mapsto> ''3'',
     ''AUTH_TRUSTED_PROXY_CIDRS'' \<mapsto> ''[\"10.0.0.0/8\", \"::1/128\"]'',
     ''AUTH_TRUSTED_BROWSER_ORIGINS'' \<mapsto> ''[\"https://library\"]'']"

lemma sample_env_loads:
  "fst (loadAuthConfig sample_parse sample_env ()) =
     Inr (projr (fst (loadAuthConfig sample_parse sample_env ())))"
  "ac_trustedBrowserOrigins (projr (fst (loadAuthConfig sample_parse sample_env ()))) = [''https://library'']"
  "production sample_env"
  by code_simp+


text \<open>
  The check for versions that come twice looks at the text, where a name may be written with escapes: the
  same version twice is then accepted, and the later secret replaces the earlier one.
\<close>

definition escaped_twice :: string where
  "escaped_twice = with_backslashes ''{\"1\": 1, \"~u0031\": 2}''"

lemma escaped_duplicate_passes:
  "distinct (serializedKeys escaped_twice) \<and> json_parse escaped_twice = Some (VObject [(''1'', VNumber ''2'')])"
  by code_simp

end
