(* ===== verification/Repair_Command.thy ===== *)
theory Repair_Command
  imports Identifier_Repair Health Json_Text
begin

text \<open>
  The commands for operators: \<^verbatim>\<open>scripts/resolve-auth-identifier-conflict.ts\<close>, which reads a request for an
  offline repair as JSON and hands it to the repair service, and
  \<^verbatim>\<open>scripts/preflight-auth-audit-key-rotation.ts\<close>, which asks the key policy about a rotation.

  A command is given what was read from the standard input, \<open>None\<close> when that failed, and gives the line it
  writes and its exit code.  Building and closing the application around the services are left out, but
  for whether they succeed.
\<close>

subsection \<open>Values of the input\<close>

definition as_text :: "json_value option \<Rightarrow> string option" where
  "as_text v = (case v of Some (VString s) \<Rightarrow> Some s | _ \<Rightarrow> None)"

definition as_object :: "json_value option \<Rightarrow> (string \<times> json_value) list option" where
  "as_object v = (case v of Some (VObject ms) \<Rightarrow> Some ms | _ \<Rightarrow> None)"

definition as_list :: "json_value option \<Rightarrow> json_value list option" where
  "as_list v = (case v of Some (VArray vs) \<Rightarrow> Some vs | _ \<Rightarrow> None)"

text \<open>\<^verbatim>\<open>String(value)\<close>; a number gives its literal.\<close>

fun js_string :: "json_value \<Rightarrow> string" where
  "js_string VNull = ''null''"
| "js_string (VBool b) = (if b then ''true'' else ''false'')"
| "js_string (VNumber t) = t"
| "js_string (VString s) = s"
| "js_string (VArray vs) = join '','' (map (\<lambda>v. if v = VNull then [] else js_string v) vs)"
| "js_string (VObject ms) = ''[object Object]''"

subsection \<open>The repair request\<close>

definition allowedTopLevel :: "string set" where
  "allowedTopLevel = {''action'', ''token'', ''operationId'', ''manifest'', ''resumeId'', ''confirmation''}"

definition forbiddenActorKeys :: "string set" where
  "forbiddenActorKeys = {''actor'', ''actorId'', ''requestedBy'', ''lastResumedBy''}"

definition only_keys :: "string set \<Rightarrow> (string \<times> json_value) list \<Rightarrow> bool" where
  "only_keys allowed ms \<longleftrightarrow> (\<forall>m\<in>set ms. fst m \<in> allowed \<and> fst m \<notin> forbiddenActorKeys)"

definition subject_type_of :: "json_value option \<Rightarrow> subject_type option" where
  "subject_type_of v =
     (if v = Some (VString ''staff'') then Some StaffSubject
      else if v = Some (VString ''member'') then Some MemberSubject else None)"

text \<open>The checks of the manifest, with the typed value that passes them.\<close>

definition validateSubject :: "json_value \<Rightarrow> bool \<Rightarrow> (subject_reference \<times> string) option" where
  "validateSubject v requiresIdentifier =
     (case v of
        VObject ms \<Rightarrow>
          if \<not> only_keys ({''subjectType'', ''subjectId''} \<union> (if requiresIdentifier then {''newIdentifier''} else {})) ms
          then None
          else (case (subject_type_of (map_of ms ''subjectType''), as_text (map_of ms ''subjectId''),
                      as_text (map_of ms ''newIdentifier'')) of
              (Some t, Some i, n) \<Rightarrow>
                if requiresIdentifier \<and> n = None then None
                else Some (\<lparr>s_subjectType = t, s_subjectId = i\<rparr>, case n of None \<Rightarrow> [] | Some s \<Rightarrow> s)
            | _ \<Rightarrow> None)
      | _ \<Rightarrow> None)"

fun validate_reassignments :: "json_value list \<Rightarrow> manifest_reassignment list option" where
  "validate_reassignments [] = Some []"
| "validate_reassignments (v # vs) =
     (case validateSubject v True of
        None \<Rightarrow> None
      | Some (s, n) \<Rightarrow> map_option (\<lambda>rs. \<lparr>mr_subject = s, mr_newIdentifier = n\<rparr> # rs) (validate_reassignments vs))"

definition validateManifest :: "(string \<times> json_value) list \<Rightarrow> repair_manifest option" where
  "validateManifest ms =
     (if \<not> only_keys {''conflictId'', ''retainedSubject'', ''reassignments''} ms then None
      else case (as_text (map_of ms ''conflictId''), as_list (map_of ms ''reassignments'')) of
        (Some conflictId, Some vs) \<Rightarrow>
          (case (case map_of ms ''retainedSubject'' of
                   None \<Rightarrow> Some None
                 | Some v \<Rightarrow> map_option (\<lambda>(s, n). Some s) (validateSubject v False)) of
             None \<Rightarrow> None
           | Some retained \<Rightarrow>
               map_option (\<lambda>rs. \<lparr>rm_conflictId = conflictId, rm_retainedSubject = retained, rm_reassignments = rs\<rparr>)
                 (validate_reassignments vs))
      | _ \<Rightarrow> None)"

record repair_cli_input =
  rc_action :: json_value
  rc_token :: string
  rc_operationId :: string
  rc_manifest :: repair_manifest
  rc_resumeId :: "json_value option"
  rc_confirmation :: "json_value option"

definition parseRepairCliInput :: "string \<Rightarrow> repair_cli_input option" where
  "parseRepairCliInput raw =
     (case as_object (json_parse raw) of
        None \<Rightarrow> None
      | Some ms \<Rightarrow>
          if \<not> only_keys allowedTopLevel ms then None
          else (case (map_of ms ''action'', as_text (map_of ms ''token''), as_text (map_of ms ''operationId''),
                      as_object (map_of ms ''manifest'')) of
              (Some action, Some token, Some operationId, Some body) \<Rightarrow>
                if js_string action \<notin> {''dry-run'', ''apply'', ''cancel''} then None
                else map_option (\<lambda>m. \<lparr>rc_action = action, rc_token = token, rc_operationId = operationId, rc_manifest = m,
                    rc_resumeId = map_of ms ''resumeId'', rc_confirmation = map_of ms ''confirmation''\<rparr>)
                  (validateManifest body)
            | _ \<Rightarrow> None))"

subsection \<open>The repair command\<close>

definition successOutput :: "repair_result \<Rightarrow> (string \<times> json) list" where
  "successOutput r =
     [(''status'', JStr ''ok''), (''reason'', JStr (rr_repairReason r)), (''operationId'', JStr (rr_repairId r)),
      (''operationStatus'', JStr (operation_status_name (rr_repairStatus r))),
      (''assignmentCount'', JNum (int (rr_assignmentCount r))), (''batchCount'', JNum (int (rr_batchCount r))),
      (''replayed'', JBool (rr_repairReplayed r))]"

definition fixedOutput :: "string \<Rightarrow> string \<Rightarrow> (string \<times> json) list" where
  "fixedOutput status reason = [(''status'', JStr status), (''reason'', JStr reason)]"

text \<open>
  \<^verbatim>\<open>invoke\<close>.  The token, the operation id and the manifest have the types the service expects; the resume
  id is passed on as it is, and only \<^verbatim>\<open>apply\<close> reads it, with \<^verbatim>\<open>resumeId?.trim()\<close>.
\<close>

definition invoke :: "'e app \<Rightarrow> 'e repair_env \<Rightarrow> repair_cli_input \<Rightarrow> ('e world, repair_result) io" where
  "invoke A E input =
     (let request = \<lparr>rq_token = rc_token input, rq_operationId = rc_operationId input, rq_manifest = rc_manifest input,
            rq_resumeId = as_text (rc_resumeId input)\<rparr> in
      if rc_action input = VString ''dry-run'' then AuthIdentifierRepairService_dryRun A E request
      else if rc_action input = VString ''apply'' then
        (if as_text (rc_resumeId input) = None \<and> rc_resumeId input \<notin> {None, Some VNull}
         then throw (JsError ''input.resumeId?.trim is not a function'')
         else AuthIdentifierRepairService_apply A E request)
      else AuthIdentifierRepairService_cancel A E request)"

definition error_status :: "exn \<Rightarrow> nat" where
  "error_status e = (case thrown_of e of HttpThrown x \<Rightarrow> hx_status x | OtherThrown \<Rightarrow> 500)"

definition runRepairCli ::
  "'e app \<Rightarrow> 'e repair_env \<Rightarrow> string option \<Rightarrow> ('e world, (string \<times> json) list \<times> nat) io" where
  "runRepairCli A E raw =
     (case Option.bind raw parseRepairCliInput of
        None \<Rightarrow> ret (fixedOutput ''invalid'' ''invalid-input'', 1)
      | Some input \<Rightarrow>
          if (rc_action input = VString ''apply'' \<and> rc_confirmation input \<noteq> Some (VString ''APPLY'')) \<or>
            (rc_action input = VString ''cancel'' \<and> rc_confirmation input \<noteq> Some (VString ''CANCEL''))
          then ret (fixedOutput ''refused'' ''confirmation-required'', 2)
          else
          try_catch (await (invoke A E input) (\<lambda>result. ret (successOutput result, 0)))
            (\<lambda>error.
              let status = error_status error in
              if status = 401 \<or> status = 403 then ret (fixedOutput ''denied'' ''authorization-denied'', 4)
              else if status = 503 \<or> status = 409 then ret (fixedOutput ''resumable'' ''repair-paused'', 3)
              else ret (fixedOutput ''invalid'' ''repair-rejected'', 1)))"

subsection \<open>The rotation preflight\<close>

text \<open>\<^verbatim>\<open>isPositiveVersion\<close>, with the version that passes it.\<close>

definition rotation_version :: "json_value \<Rightarrow> nat option" where
  "rotation_version v =
     (case v of
        VNumber t \<Rightarrow> (case integer_of_text t of Some i \<Rightarrow> if 0 < i then Some (nat i) else None | None \<Rightarrow> None)
      | _ \<Rightarrow> None)"

fun rotation_versions :: "json_value list \<Rightarrow> nat list option" where
  "rotation_versions [] = Some []"
| "rotation_versions (v # vs) =
     (case rotation_version v of
        None \<Rightarrow> None
      | Some n \<Rightarrow> map_option ((#) n) (rotation_versions vs))"

definition input_fields :: "string set" where
  "input_fields = {''candidateCurrentVersion'', ''candidatePreviousVersions''}"

definition parseAuditKeyRotationPreflightInput :: "string \<Rightarrow> rotation_input option" where
  "parseAuditKeyRotationPreflightInput raw =
     (case as_object (json_parse raw) of
        None \<Rightarrow> None
      | Some ms \<Rightarrow>
          if length ms \<noteq> 2 \<or> \<not> list_all (\<lambda>m. fst m \<in> input_fields) ms then None
          else (case (Option.bind (map_of ms ''candidateCurrentVersion'') rotation_version,
                      Option.bind (as_list (map_of ms ''candidatePreviousVersions'')) rotation_versions) of
              (Some current, Some previous) \<Rightarrow>
                if \<not> distinct previous \<or> current \<in> set previous then None
                else Some \<lparr>ri_candidateCurrentVersion = current, ri_candidatePreviousVersions = map rat_of_nat previous\<rparr>
            | _ \<Rightarrow> None))"

datatype preflight_output =
    PreflightOutput preflight_result
  | PreflightError string preflight_result

record preflight_process_result =
  pp_exitCode :: nat
  pp_output :: preflight_output

definition errorResult :: "string \<Rightarrow> preflight_process_result" where
  "errorResult reason =
     \<lparr>pp_exitCode = 1, pp_output = PreflightError reason
        \<lparr>rt_blocked = False, rt_requiredPreviousVersions = [], rt_requiredPreviousCount = 0,
          rt_maxPreviousKeys = max_previous_keys\<rparr>\<rparr>"

text \<open>
  \<open>create\<close> builds the application context and \<open>close\<close> closes it.  \<open>now\<close> is the time at which the policy
  is asked.
\<close>

definition runAuditKeyRotationPreflight ::
  "'e app \<Rightarrow> ('e world, unit) io \<Rightarrow> ('e world, unit) io \<Rightarrow> int \<Rightarrow> string \<Rightarrow> ('e world, preflight_process_result) io" where
  "runAuditKeyRotationPreflight A create close now rawInput =
     (case parseAuditKeyRotationPreflightInput rawInput of
        None \<Rightarrow> ret (errorResult ''invalid-input'')
      | Some input \<Rightarrow>
          await (try_catch (await create (\<lambda>_. ret True)) (\<lambda>_. ret False)) (\<lambda>context_open.
          if \<not> context_open then ret (errorResult ''preflight-failed'')
          else
          await (try_catch
              (await (AuthIdentifierRepairKeyPolicyService_preflightRotation A input now) (\<lambda>output.
                ret \<lparr>pp_exitCode = (if rt_blocked output then 2 else 0), pp_output = PreflightOutput output\<rparr>))
              (\<lambda>_. ret (errorResult ''preflight-failed''))) (\<lambda>result.
          try_catch (await close (\<lambda>_. ret result)) (\<lambda>_. ret (errorResult ''preflight-failed'')))))"

subsection \<open>Properties\<close>

text \<open>What the repair command writes when it does not succeed, with the exit code.\<close>

definition refusals :: "((string \<times> json) list \<times> nat) list" where
  "refusals =
     [(fixedOutput ''invalid'' ''invalid-input'', 1), (fixedOutput ''invalid'' ''repair-rejected'', 1),
      (fixedOutput ''refused'' ''confirmation-required'', 2), (fixedOutput ''resumable'' ''repair-paused'', 3),
      (fixedOutput ''denied'' ''authorization-denied'', 4)]"

text \<open>The input that the command may act on: read, valid, confirmed, and from a current administrator.\<close>

definition command_permitted :: "'e repair_env \<Rightarrow> string option \<Rightarrow> 'e world \<Rightarrow> bool" where
  "command_permitted E raw w =
     (case Option.bind raw parseRepairCliInput of
        None \<Rightarrow> False
      | Some input \<Rightarrow> may_repair E (rc_token input) w \<and>
          (rc_action input = VString ''apply'' \<longrightarrow> rc_confirmation input = Some (VString ''APPLY'')) \<and>
          (rc_action input = VString ''cancel'' \<longrightarrow> rc_confirmation input = Some (VString ''CANCEL'')))"

lemma wp_runRepairCli:
  assumes refused: "\<And>input. Option.bind raw parseRepairCliInput = Some input \<Longrightarrow>
      wp (invoke A E input) (\<lambda>_ w'. Q w') (\<lambda>_ w'. R w') w"
    and "R w"
  shows "wp (runRepairCli A E raw) (\<lambda>r w'. snd r = 0 \<and> Q w' \<or> r \<in> set refusals \<and> R w') (\<lambda>_ _. False) w"
proof (cases "Option.bind raw parseRepairCliInput")
  case None
  then show ?thesis using assms(2) by (simp add: runRepairCli_def refusals_def)
next
  case (Some input)
  from refused [OF Some]
  have "wp (invoke A E input) (\<lambda>r w'. Q w') (\<lambda>e w'. R w') w" .
  then show ?thesis
    using assms(2) unfolding runRepairCli_def Some option.case wp_if wp_try_catch wp_await Let_def
    by (auto simp: refusals_def elim!: wp_mono)
qed



text \<open>The text of the sample repair, with an action, its end given as well.\<close>

definition command_text :: "string \<Rightarrow> string \<Rightarrow> string" where
  "command_text action rest =
     ''{\"action\":'' @ action @ '',\"token\":\"admin-token\",\"operationId\":\"op-3\",'' @
     ''\"manifest\":{\"conflictId\":\"'' @ sample_id CHR ''9'' @
     ''\",\"retainedSubject\":{\"subjectType\":\"staff\",\"subjectId\":\"'' @ sample_id CHR ''f'' @
     ''\"},\"reassignments\":[{\"subjectType\":\"member\",\"subjectId\":\"'' @ sample_id CHR ''b'' @
     ''\",\"newIdentifier\":\"olivia.o\"}]}'' @ rest @ ''}''"

lemma listed_action_input:
  "parseRepairCliInput (command_text ''[\"apply\"]'' []) =
     Some \<lparr>rc_action = VArray [VString ''apply''], rc_token = ''admin-token'', rc_operationId = ''op-3'',
       rc_manifest = sample_manifest, rc_resumeId = None, rc_confirmation = None\<rparr>"
  by code_simp

lemma sample_cancel_run:
  "case AuthIdentifierRepairService_cancel repair_app mem_repair (repair_input sample_manifest\<lparr>rq_resumeId := None\<rparr>) dry_world of
     (r, w) \<Rightarrow> \<not> isl r \<and> map o_status (operations w) = [OperationFailedTerminal]"
  by code_simp

text \<open>
  The action is compared as \<^verbatim>\<open>String(value.action)\<close>, so the list \<^verbatim>\<open>["apply"]\<close> passes for an action, needs no
  confirmation, and is taken for a cancellation.
\<close>

lemma listed_action_cancels:
  "case runRepairCli repair_app mem_repair (Some (command_text ''[\"apply\"]'' [])) dry_world of (r, w) \<Rightarrow>
     (case r of Inl e \<Rightarrow> False | Inr (output, code) \<Rightarrow> code = 0) \<and> map o_status (operations w) = [OperationFailedTerminal]"
proof -
  have "repair_input sample_manifest\<lparr>rq_resumeId := None\<rparr> =
      \<lparr>rq_token = ''admin-token'', rq_operationId = ''op-3'', rq_manifest = sample_manifest, rq_resumeId = None\<rparr>"
    by (simp add: repair_input_def)
  note run = sample_cancel_run [unfolded this]
  show ?thesis
    using run
    by (auto simp: runRepairCli_def invoke_def Let_def listed_action_input as_text_def try_catch_def await_def ret_def
        split: prod.splits sum.splits)
qed


definition rotation_text :: string where
  "rotation_text = ''{\"candidateCurrentVersion\":3,\"candidatePreviousVersions\":[]}''"


end
