(* ===== verification/Bootstrap_Admin.thy ===== *)
theory Bootstrap_Admin
  imports Sign_In Auth_Config
begin

text \<open>
  The script that makes the first administrator, \<^verbatim>\<open>scripts/bootstrap-admin.ts\<close>.  It writes to the
  collection of the staff users directly; the document it writes passes the schema, so the operations of the
  model serve for those of the collection.  The creation of an index is a parameter.
\<close>

record bootstrap_options =
  bo_mongoUri :: string
  bo_email :: string
  bo_password :: string
  bo_displayName :: "string option"

datatype bootstrap_result = AdminCreated string | ActiveAdminExists

definition minimumPasswordLength :: nat where
  "minimumPasswordLength = 12"

definition blockedPasswords :: "string set" where
  "blockedPasswords = {''AdminPass123!'', ''ChangeMe12345'', ''Password12345'', ''P@ssword12345''}"

definition readBootstrapAdminOptions :: "process_env \<Rightarrow> exn + bootstrap_options" where
  "readBootstrapAdminOptions E =
     (let email = map_option (to_lower \<circ> trim) (E ''FIRST_ADMIN_EMAIL''); password = E ''FIRST_ADMIN_PASSWORD'' in
      case email of
        None \<Rightarrow> Inl (JsError ''FIRST_ADMIN_EMAIL is required'')
      | Some email \<Rightarrow>
          if email = [] then Inl (JsError ''FIRST_ADMIN_EMAIL is required'')
          else case password of
            None \<Rightarrow> Inl (JsError ''FIRST_ADMIN_PASSWORD is required'')
          | Some password \<Rightarrow>
              if password = [] then Inl (JsError ''FIRST_ADMIN_PASSWORD is required'')
              else if length password < minimumPasswordLength
              then Inl (JsError ''FIRST_ADMIN_PASSWORD must be at least 12 characters'')
              else if password \<in> blockedPasswords
              then Inl (JsError ''FIRST_ADMIN_PASSWORD must not use demo credentials'')
              else Inr \<lparr>bo_mongoUri = (case E ''MONGODB_URI'' of Some u \<Rightarrow> u | None \<Rightarrow> ''mongodb://localhost:27017/bookstore''),
                bo_email = email, bo_password = password,
                bo_displayName = Some (case E ''FIRST_ADMIN_DISPLAY_NAME'' of
                    None \<Rightarrow> ''Library Administrator''
                  | Some n \<Rightarrow> if trim n = [] then ''Library Administrator'' else trim n)\<rparr>)"

definition active_admin :: "staff_user \<Rightarrow> bool" where
  "active_admin u \<longleftrightarrow> u_status u = StaffActive \<and> Admin \<in> set (u_roles u)"

definition bootstrap_document :: "bootstrap_options \<Rightarrow> string \<Rightarrow> date \<Rightarrow> string \<Rightarrow> staff_user" where
  "bootstrap_document options passwordHash now i =
     \<lparr>u_id = i, u_email = to_lower (bo_email options),
       u_displayName = (case bo_displayName options of Some n \<Rightarrow> n | None \<Rightarrow> ''Library Administrator''),
       u_passwordHash = passwordHash, u_roles = [Admin], u_status = StaffActive, u_lastLoginAt = None,
       u_passwordUpdatedAt = Some now, u_authVersion = 0, u_createdBy = Some ''bootstrap-admin'',
       u_updatedBy = Some ''bootstrap-admin''\<rparr>"

definition bootstrapFirstAdministrator ::
  "'e app \<Rightarrow> (string list \<Rightarrow> ('e world, unit) io) \<Rightarrow> bootstrap_options \<Rightarrow> ('e world, bootstrap_result) io" where
  "bootstrapFirstAdministrator A createIndex options =
     await (createIndex [''email'']) (\<lambda>_.
     await (createIndex [''status'', ''roles'']) (\<lambda>_.
     await (findAll (staffUserModel A) active_admin (\<lambda>_ _. True)) (\<lambda>activeAdmins.
     if activeAdmins \<noteq> [] then ret ActiveAdminExists
     else
     await (asks (clock A)) (\<lambda>now.
     await (bcryptHash A (bo_password options)) (\<lambda>passwordHash.
     await (createDoc (staffUserModel A) (bootstrap_document options passwordHash now)) (\<lambda>_.
     ret (AdminCreated (to_lower (bo_email options)))))))))"

definition bootstrap_main ::
  "'e app \<Rightarrow> (string list \<Rightarrow> ('e world, unit) io) \<Rightarrow> process_env \<Rightarrow> ('e world, bootstrap_result) io" where
  "bootstrap_main A createIndex E =
     (case readBootstrapAdminOptions E of Inl e \<Rightarrow> throw e | Inr options \<Rightarrow> bootstrapFirstAdministrator A createIndex options)"

subsection \<open>Properties\<close>

lemma options_are_safe:
  "readBootstrapAdminOptions E = Inr options \<Longrightarrow>
     12 \<le> length (bo_password options) \<and> bo_password options \<notin> blockedPasswords \<and> bo_email options \<noteq> []"
  by (auto simp: readBootstrapAdminOptions_def Let_def minimumPasswordLength_def split: option.splits if_splits)

text \<open>What the script does to the staff users: nothing, or one administrator more.\<close>

definition first_admin_added :: "'e world \<Rightarrow> 'e world \<Rightarrow> bool" where
  "first_admin_added w w' \<longleftrightarrow> (\<forall>u \<in> set (staffUsers w). \<not> active_admin u) \<and>
     (\<exists>u. active_admin u \<and> u_authVersion u = 0 \<and> env_step (staffUsers_update (\<lambda>_. staffUsers w @ [u]) w) w')"

context staff_documents
begin

lemma wp_bootstrap:
  assumes "\<And>keys w. env_step w (snd (createIndex keys w))" and "\<And>p w. env_step w (snd (bcryptHash A p w))"
  shows "wp (bootstrapFirstAdministrator A createIndex options)
     (\<lambda>r w'. (\<exists>u \<in> set (staffUsers w'). active_admin u) \<and>
        (case r of ActiveAdminExists \<Rightarrow> env_step w w'
         | AdminCreated e \<Rightarrow> first_admin_added w w' \<and> (\<exists>u \<in> set (staffUsers w'). active_admin u \<and> u_email u = e)))
     (\<lambda>_ w'. env_step w w' \<or> first_admin_added w w') w"
proof -
  have hashed: "wp (bcryptHash A p) (\<lambda>_ w'. env_step w w') (\<lambda>_ w'. env_step w w') w1" if "env_step w w1" for p w1
    using assms(2) [of w1 p] env_step_trans [OF that] by (cases "bcryptHash A p w1") (auto simp: wp_def split: sum.split)
  have indexed: "wp (createIndex keys) (\<lambda>_ w'. env_step w w') (\<lambda>_ w'. env_step w w') w1" if "env_step w w1" for keys w1
    using assms(1) [of w1 keys] env_step_trans [OF that] by (cases "createIndex keys w1") (auto simp: wp_def split: sum.split)
  let ?made = "\<lambda>r w'. (\<exists>u \<in> set (staffUsers w'). active_admin u) \<and>
        (case r of ActiveAdminExists \<Rightarrow> env_step w w'
         | AdminCreated e \<Rightarrow> first_admin_added w w' \<and> (\<exists>u \<in> set (staffUsers w'). active_admin u \<and> u_email u = e))"
  let ?left = "\<lambda>_ w'. env_step w w' \<or> first_admin_added w w'"
  have add: "wp (await (createDoc (staffUserModel A) (bootstrap_document options h now)) (\<lambda>_.
      ret (AdminCreated (to_lower (bo_email options))))) ?made ?left w1"
    if "\<forall>u \<in> set (staffUsers w). \<not> active_admin u" "env_step w w1" for h now w1
  proof -
    have admin: "active_admin (bootstrap_document options h now i)"
      "u_authVersion (bootstrap_document options h now i) = 0"
      "u_email (bootstrap_document options h now i) = to_lower (bo_email options)" for i
      by (simp_all add: active_admin_def bootstrap_document_def)
    from that(2) obtain z where w1: "w1 = w\<lparr>env := z\<rparr>" by (auto simp: env_step_def)
    have one: "first_admin_added w w2" "\<exists>u \<in> set (staffUsers w2). active_admin u \<and> u_email u = to_lower (bo_email options)"
      if "w2 = staffUsers_update (\<lambda>_. staffUsers w1 @ [bootstrap_document options h now i]) w1\<lparr>env := y\<rparr>" for w2 i y
      using that \<open>\<forall>u \<in> _. _\<close> admin [of i] unfolding w1 first_admin_added_def
      by (auto simp: env_step_def intro!: exI [of _ "bootstrap_document options h now i"])
    show ?thesis
      unfolding wp_await
      by (rule su.wp_createDoc) (use one that(2) env_step_trans in \<open>auto simp: env_step_def\<close>)
  qed
  have hash: "wp (await (bcryptHash A (bo_password options)) (\<lambda>h.
      await (createDoc (staffUserModel A) (bootstrap_document options h now)) (\<lambda>_.
      ret (AdminCreated (to_lower (bo_email options)))))) ?made ?left w1"
    if "\<forall>u \<in> set (staffUsers w). \<not> active_admin u" "env_step w w1" for now w1
    unfolding wp_await [of "bcryptHash A _"]
    by (rule wp_mono [OF hashed [OF that(2)]]) (rule add [OF that(1)], assumption, simp)
  have count: "wp (await (findAll (staffUserModel A) active_admin (\<lambda>_ _. True)) (\<lambda>activeAdmins.
      if activeAdmins \<noteq> [] then ret ActiveAdminExists
      else await (asks (clock A)) (\<lambda>now.
        await (bcryptHash A (bo_password options)) (\<lambda>h.
        await (createDoc (staffUserModel A) (bootstrap_document options h now)) (\<lambda>_.
        ret (AdminCreated (to_lower (bo_email options)))))))) ?made ?left w1" if step: "env_step w w1" for w1
    unfolding wp_await [of "findAll _ _ _"]
  proof (rule su.wp_findAll, goal_cases)
    case (1 xs z)
    from step have same: "staffUsers w1 = staffUsers w" by (auto simp: env_step_def)
    have now: "env_step w (w1\<lparr>env := z\<rparr>)" using step by (auto simp: env_step_def)
    show ?case
    proof (cases "xs = []")
      case True
      with 1(1) same have "\<forall>u \<in> set (staffUsers w). \<not> active_admin u" by (auto simp: filter_empty_conv)
      then show ?thesis
        unfolding True wp_await [of "asks _"] wp_asks
        by (simp only: not_True_eq_False if_False simp_thms wp_await [of "asks _"] wp_asks) (rule hash [OF _ now])
    next
      case False
      then have "hd xs \<in># mset (filter active_admin (staffUsers w1))" using 1(1) by (metis hd_in_set set_mset_mset)
      with False now same show ?thesis by auto
    qed
  qed (use step in \<open>auto simp: env_step_def\<close>)
  show ?thesis
    unfolding bootstrapFirstAdministrator_def wp_await [of "createIndex _"]
    by (rule wp_mono [OF indexed [OF env_step_refl]], rule wp_mono [OF indexed], assumption)
      (rule count, assumption, simp_all)
qed

end

text \<open>When the script returns there is an active administrator; it adds one only where there was none, with the
  address it was given, and changes nothing else.  When it throws it has done this or nothing.\<close>

theorem first_administrator_is_made:
  assumes "staff_documents A" and "\<And>keys w. env_step w (snd (createIndex keys w))"
    and "\<And>p w. env_step w (snd (bcryptHash A p w))"
  shows "case bootstrapFirstAdministrator A createIndex options w of
      (Inr r, w') \<Rightarrow> (\<exists>u \<in> set (staffUsers w'). active_admin u) \<and>
        (case r of ActiveAdminExists \<Rightarrow> env_step w w'
         | AdminCreated e \<Rightarrow> first_admin_added w w' \<and> (\<exists>u \<in> set (staffUsers w'). active_admin u \<and> u_email u = e))
    | (Inl e, w') \<Rightarrow> env_step w w' \<or> first_admin_added w w'"
  using staff_documents.wp_bootstrap [OF assms] unfolding wp_def .

text \<open>
  The script reserves no identifier, and the sign-in of every route starts from the reservation: after it, the
  new administrator is refused whatever the password, until a migration or a change of the address makes the
  reservation.
\<close>

theorem new_administrator_cannot_sign_in:
  assumes "sign_in_store A I F V C matches completed" and "\<And>keys w. env_step w (snd (createIndex keys w))"
    and "\<And>p w. env_step w (snd (bcryptHash A p w))"
    and "bootstrapFirstAdministrator A createIndex options w = (Inr (AdminCreated email), w1)"
    and "\<forall>i \<in> set (identifiers w). i_normalizedIdentifier i \<noteq> email"
    and "AuthService_normalizeSharedIdentifier (sl_identifier dto) = email"
  shows "isl (fst (AuthService_createSharedSession A C dto w1))"
proof -
  from assms(1) have "staff_documents A" by (simp add: sign_in_store_def)
  from staff_documents.wp_bootstrap [where createIndex = createIndex and options = options and w = w, OF this assms(2,3)] assms(4)
  have "first_admin_added w w1" by (simp add: wp_def)
  then have same: "identifiers w1 = identifiers w" by (auto simp: first_admin_added_def env_step_def)
  show ?thesis
  proof (rule ccontr)
    assume "\<not> ?thesis"
    then obtain r w2 where "AuthService_createSharedSession A C dto w1 = (Inr r, w2)"
      by (cases "AuthService_createSharedSession A C dto w1"; cases "fst (AuthService_createSharedSession A C dto w1)") auto
    with sign_in_store.createSharedSession_outcome [OF assms(1), of dto w1] assms(5,6) same
    show False by (auto simp: wp_def)
  qed
qed

definition first_options :: bootstrap_options where
  "first_options = \<lparr>bo_mongoUri = [], bo_email = ''root@example.org'', bo_password = ''a-long-password'',
     bo_displayName = None\<rparr>"

lemma new_administrator_cannot_sign_in_example:
  "isl (fst (AuthService_createSharedSession mem_app mem_auth_env
     \<lparr>sl_identifier = Some '' Root@Example.org'', sl_password = Some ''a-long-password''\<rparr>
     (snd (bootstrapFirstAdministrator mem_app (\<lambda>_. ret ()) first_options (sample_world\<lparr>staffUsers := []\<rparr>)))))"
proof -
  let ?run = "bootstrapFirstAdministrator mem_app (\<lambda>_. ret ()) first_options (sample_world\<lparr>staffUsers := []\<rparr>)"
  have "fst ?run = Inr (AdminCreated ''root@example.org'')" by code_simp
  then have run: "?run = (Inr (AdminCreated ''root@example.org''), snd ?run)" by (metis prod.collapse)
  have free: "\<forall>i \<in> set (identifiers (sample_world\<lparr>staffUsers := []\<rparr>)). i_normalizedIdentifier i \<noteq> ''root@example.org''"
    by code_simp
  have name: "AuthService_normalizeSharedIdentifier (Some '' Root@Example.org'') = ''root@example.org''" by code_simp
  show ?thesis
    by (rule new_administrator_cannot_sign_in [OF mem_sign_in.sign_in_store_axioms _ _ run free])
      (simp_all add: ret_def mem_app_def name)
qed

end
