(* ===== verification/Spec2Isabelle.thy ===== *)
theory Spec2Isabelle
  imports Rotation_Protocol Lending_Ledger Books Book_Categories Membership_Types Members Staff_Users Sign_In
    Permissions Throttle Source_Identity Auth_Routes Access Identifier_Conflicts Identifier_Reconciliation
    Reconciliation_Schedule Identifier_Repair Health Auth_Migration Auth_Config
    Repair_Command Bootstrap_Admin
begin

text \<open>
  A verification development of the backend of a book library (\<^verbatim>\<open>src/src\<close>, NestJS over MongoDB).

  The backend keeps the catalog (books in a number of copies, each of a category with a loan
  period), the members (each of a membership type with a limit of loans) and the loans.  Staff users
  and members sign in with an identifier and a password; a session is a family of refresh tokens of
  which only the newest one may be used.  Controllers hand requests to services behind guards; the
  services share the MongoDB collections and nothing else.

  \<^bold>\<open>Computations.\<close>  \<open>Prelude\<close> models an async method as a function from the world to a result and
  a world: the left side of the result is the exception thrown.  \<open>wp\<close> is its weakest precondition and
  \<open>keeps\<close> says that a predicate is preserved on every outcome.  Computations are total, so both speak
  of termination too: nearly every loop of the services runs over a list it has read.  Fuel is used in
  three places.  \<open>Identifier_Repair.batches_upto\<close> takes a bound on the number of reassignments; the
  partition itself is a partial function and \<open>partition_ends\<close> says when it ends.
  \<open>Json_Text.read_value\<close> gets two for every character and two more, and \<open>read_enough\<close> shows that more
  changes nothing.  \<open>digits_upto\<close>, which writes a number, gets one more than the number, which is
  at least the number of its digits.

  \<^bold>\<open>The store.\<close>  \<open>Documents\<close> has a record for each schema, \<open>Store\<close> the contract of a mongoose model
  (the locale \<open>collection\<close>): each operation on one document is atomic, an operation that throws may
  still have taken effect, and nothing is known of the clock or the network (\<open>env\<close>).
  \<open>reliable_collection\<close> adds that the server can be reached; \<open>transaction\<close> is the contract of
  \<^verbatim>\<open>withTransaction\<close>.  \<open>App\<close> collects the injected dependencies and has an in-memory instance of all
  of them, on which the locales are interpreted and the closed examples run (\<open>Sample_World\<close>).
  Between two database operations of one method the model lets no other request run, except in
  \<open>Rotation_Protocol\<close>, where requests interleave at every database operation.

  \<^bold>\<open>Theories and sources.\<close>
  \<^item> \<open>Dates\<close>, \<open>Mongo_Query\<close>: UTC day arithmetic; \<^verbatim>\<open>common/mongo/mongo-query.helpers.ts\<close> and
    \<^verbatim>\<open>common/dto/pagination-query.dto.ts\<close>.
  \<^item> \<open>Inventory\<close>: the invariant that ties books, members and loans together.
  \<^item> \<open>Books\<close>, \<open>Book_Categories\<close>, \<open>Membership_Types\<close>, \<open>Borrowings\<close>, \<open>Members\<close>: the services of
    these names under \<^verbatim>\<open>src/src\<close>, one definition per method, named \<open>Class_method\<close>; what a method does
    to a document is a function of its own.  \<open>Accounts\<close> has what the member and staff services share.
  \<^item> \<open>Token_Session\<close>, \<open>Rotation_Protocol\<close>: \<^verbatim>\<open>auth/token-session.service.ts\<close>, one request at a time
    and interleaved.
  \<^item> \<open>Security_Activity\<close>: \<^verbatim>\<open>auth/security-activity.service.ts\<close>.
  \<^item> \<open>Permissions\<close>: \<^verbatim>\<open>common/enums/auth-permission.enum.ts\<close>, \<^verbatim>\<open>auth/permissions.service.ts\<close> and the
    guards that decide by roles and permissions.
  \<^item> \<open>Lending_Ledger\<close>: the abstract ledger of who has which book, which the requests to lend and to
    return refine.
  \<^item> \<open>Staff_Users\<close>, \<open>Document_Transaction\<close>: \<^verbatim>\<open>staff-users/staff-users.service.ts\<close>, where a document in
    memory outlives the attempts of a transaction.
  \<^item> \<open>Sign_In\<close>, \<open>Throttle\<close>, \<open>Source_Identity\<close>, \<open>Auth_Routes\<close>, \<open>Access\<close>: \<^verbatim>\<open>auth/auth.service.ts\<close>, the
    throttle with its buckets, the identity of the source of a request, the sign-in routes of
    \<^verbatim>\<open>auth/auth.controller.ts\<close> with their guard, and \<^verbatim>\<open>auth/jwt.strategy.ts\<close> with the guards of every
    other route.
  \<^item> \<open>Origin_Guard\<close>: \<^verbatim>\<open>auth/auth-browser-origin.guard.ts\<close>.
  \<^item> \<open>Identifier_Operations\<close>, \<open>Identifier_Conflicts\<close>: \<^verbatim>\<open>auth/auth-identifier.service.ts\<close>, the operation
    that moves identifiers between accounts in a transaction or as a saga, and its conflicts.
  \<^item> \<open>Identifier_Reconciliation\<close>, \<open>Reconciliation_Schedule\<close>:
    \<^verbatim>\<open>auth/auth-identifier-reconciliation.service.ts\<close>, the pass that takes up abandoned operations,
    and its timers as a state machine.
  \<^item> \<open>Repair_Keys\<close>, \<open>Repair_Manifest\<close>, \<open>Identifier_Repair\<close>: the key policy, the canonical text of a
    repair, and \<^verbatim>\<open>auth/auth-identifier-repair.service.ts\<close> with its authorization.
  \<^item> \<open>Repair_Command\<close>: the commands for operators in front of these,
    \<^verbatim>\<open>scripts/resolve-auth-identifier-conflict.ts\<close> and \<^verbatim>\<open>scripts/preflight-auth-audit-key-rotation.ts\<close>.
  \<^item> \<open>Bootstrap_Admin\<close>: \<^verbatim>\<open>scripts/bootstrap-admin.ts\<close>, which makes the first administrator.
  \<^item> \<open>Health\<close>: \<^verbatim>\<open>health/health.service.ts\<close> and \<^verbatim>\<open>common/filters/http-exception.filter.ts\<close>.
  \<^item> \<open>Migrations\<close>, \<open>Auth_Migration\<close>: \<^verbatim>\<open>migrations/migrate.ts\<close> and its four versions, over a database
    whose operations may fail after part of their effect.
  \<^item> \<open>Json_Text\<close>, \<open>Auth_Config\<close>: reading JSON and numbers, and \<^verbatim>\<open>config/auth.config.ts\<close>.

  \<^bold>\<open>Properties.\<close>  They are numbered \<open>C1\<close>, \<open>C2\<close>, ... in the theories.  The lending group shows that the
  stock and the members' counters follow the open loans through every operation, that loans obey the
  policy, and that the services refine the ledger.  The session group shows that a refresh token is
  used at most once, that its reuse ends the session, and which accounts get a session.  The
  audit and permission groups show that the trail is redacted and append-only and what the guards
  admit.  The identifier group shows the life cycle of an operation, that accounts that are not part
  of it keep their identifiers, that reconciliation respects leases and endings, and that a repair
  needs a current administrator and the manifest of its dry run.  The migration and configuration
  groups show that a recorded migration has been done, that a migrated database has no session of
  the old kind, and what a configuration that loads guarantees.

  \<^bold>\<open>Parameters.\<close>  Digests, key derivation, password hashes, the signing and the verification of tokens, random
  ids, \<^verbatim>\<open>new URL\<close>, \<^verbatim>\<open>proxy-addr\<close> and the transactions of MongoDB are arguments of the definitions that
  use them; what is relied on of them is a hypothesis of the locale in question.

  \<^bold>\<open>Not modelled.\<close>  Fields maintained by mongoose or never read by the services, logging,
  validation pipes and the wiring of modules in \<^verbatim>\<open>main.ts\<close> and \<^verbatim>\<open>app.module.ts\<close>, which is left to the framework;
  \<^verbatim>\<open>populate\<close> beyond its result; the listing of the audit trail for
  staff; the sharing of a reconciliation pass between callers in one process and the wait for it on
  shutdown; dates outside the range of JavaScript, decimals that are whole only by rounding, and
  letters outside ASCII in case conversions.  The seeding script, the quality tooling and the React frontend hold none of
  the backend's rules and are left aside.
\<close>

end
